(* ===== verification/Prelude.thy ===== *)
theory Prelude
  imports Main "HOL-Library.Word" "HOL-Library.Char_ord" "HOL-Library.List_Lexorder"
    "HOL-Library.Multiset"
begin

text \<open>
  Shared vocabulary of the development.

  A Go function that reads and writes the program's state and may return an error is an
  action of type \<open>('s, 'a) act\<close>: it maps a state to a result (\<open>Inl\<close> an error, \<open>Inr\<close> a
  value) and the state it leaves behind. The state is returned in both cases, because the
  code does not roll back what it did before an error. \<open>bindE\<close> is the
  \<open>if err != nil { return err }\<close> of the source.
\<close>

section \<open>Rule collections\<close>

named_theorems act_simps \<open>running actions\<close>
named_theorems ascii_simps \<open>library functions on ASCII strings\<close>
named_theorems eval_simps \<open>equations that compute on literals\<close>
named_theorems validate_defs \<open>validators\<close>

section \<open>Errors and actions\<close>

text \<open>
  Messages of the source are Chinese sentences; \<open>Err\<close> carries an ASCII gloss of the
  message and \<open>ErrFmt\<close> also the values the source formats into it. \<open>ErrNotFound\<close> is the
  sentinel of service.go and \<open>ErrIO\<close> an error of the operating system, handed on
  unchanged. \<open>ErrPanic\<close> is a run-time panic (an index or slice out of range) and \<open>ErrHang\<close> a loop
  that does not end.
\<close>

datatype err = ErrNotFound | Err string | ErrFmt string "string list" | ErrIO string | ErrPanic | ErrHang

type_synonym ('s, 'a) act = "'s \<Rightarrow> (err + 'a) \<times> 's"

definition ret :: "'a \<Rightarrow> ('s, 'a) act" where
  "ret x s = (Inr x, s)"

definition fail :: "err \<Rightarrow> ('s, 'a) act" where
  "fail e s = (Inl e, s)"

definition bindE :: "('s, 'a) act \<Rightarrow> ('a \<Rightarrow> ('s, 'b) act) \<Rightarrow> ('s, 'b) act" where
  "bindE m k s = (case m s of (Inl e, s') \<Rightarrow> (Inl e, s') | (Inr x, s') \<Rightarrow> k x s')"

text \<open>A pure check of the source inside an action.\<close>

definition liftE :: "err + 'a \<Rightarrow> ('s, 'a) act" where
  "liftE r s = (r, s)"

text \<open>\<open>x, _ := f()\<close>: the error is dropped and the value replaced by the zero value.\<close>

definition orZero :: "'a \<Rightarrow> ('s, 'a) act \<Rightarrow> ('s, 'a) act" where
  "orZero z m s = (case m s of (Inl e, s') \<Rightarrow> (Inr z, s') | (Inr x, s') \<Rightarrow> (Inr x, s'))"

text \<open>The error of a call kept as a value, for \<open>if x, err := f(); err == nil\<close>.\<close>

definition tryE :: "('s, 'a) act \<Rightarrow> ('s, err + 'a) act" where
  "tryE m s = (case m s of (r, s') \<Rightarrow> (Inr r, s'))"

text \<open>Validators are pure: a check of a condition is \<open>Inl\<close> of the message or goes on.\<close>

definition bindR :: "err + 'a \<Rightarrow> ('a \<Rightarrow> err + 'b) \<Rightarrow> err + 'b" where
  "bindR r k = (case r of Inl e \<Rightarrow> Inl e | Inr x \<Rightarrow> k x)"

fun mapR :: "('a \<Rightarrow> err + 'b) \<Rightarrow> 'a list \<Rightarrow> err + 'b list" where
  "mapR f [] = Inr []"
| "mapR f (x # xs) =
     (case f x of Inl e \<Rightarrow> Inl e
      | Inr y \<Rightarrow> (case mapR f xs of Inl e \<Rightarrow> Inl e | Inr ys \<Rightarrow> Inr (y # ys)))"

fun mapA :: "('a \<Rightarrow> ('s, 'b) act) \<Rightarrow> 'a list \<Rightarrow> ('s, 'b list) act" where
  "mapA f [] s = (Inr [], s)"
| "mapA f (x # xs) s =
     (case f x s of
        (Inl e, s') \<Rightarrow> (Inl e, s')
      | (Inr y, s') \<Rightarrow>
          (case mapA f xs s' of (Inl e, s'') \<Rightarrow> (Inl e, s'') | (Inr ys, s'') \<Rightarrow> (Inr (y # ys), s'')))"

declare ret_def [act_simps] fail_def [act_simps] liftE_def [act_simps]

declare ret_def [eval_simps] fail_def [eval_simps] bindE_def [eval_simps] liftE_def [eval_simps]
  orZero_def [eval_simps] tryE_def [eval_simps] bindR_def [eval_simps]

lemma bindE_ret [simp, act_simps]: "bindE (ret x) k = k x"
  by (simp add: bindE_def ret_def fun_eq_iff)

lemma bindE_fail [simp, act_simps]: "bindE (fail e) k = fail e"
  by (simp add: bindE_def fail_def fun_eq_iff)

lemma bindE_Inr [act_simps]: "m s = (Inr x, s') \<Longrightarrow> bindE m k s = k x s'"
  by (simp add: bindE_def)

lemma bindE_Inl [act_simps]: "m s = (Inl e, s') \<Longrightarrow> bindE m k s = (Inl e, s')"
  by (simp add: bindE_def)

lemma bindE_InrE:
  assumes "bindE m k s = (Inr y, t)"
  obtains x s' where "m s = (Inr x, s')" and "k x s' = (Inr y, t)"
  using assms by (auto simp: bindE_def split: prod.splits sum.splits)

lemma bindE_liftE [simp, act_simps]:
  "bindE (liftE r) k s = (case r of Inl e \<Rightarrow> (Inl e, s) | Inr x \<Rightarrow> k x s)"
  by (simp add: bindE_def liftE_def split: sum.splits)

lemma bindR_Inr [simp]: "bindR (Inr x) k = k x"
  by (simp add: bindR_def)

lemma bindR_Inl [simp]: "bindR (Inl e) k = Inl e"
  by (simp add: bindR_def)

lemma bindR_eq_Inr: "bindR r k = Inr y \<longleftrightarrow> (\<exists>x. r = Inr x \<and> k x = Inr y)"
  by (cases r) auto

lemma mapR_Inr_iff: "mapR f xs = Inr ys \<longleftrightarrow> list_all2 (\<lambda>x y. f x = Inr y) xs ys"
proof (induction xs arbitrary: ys)
  case Nil
  then show ?case by (cases ys) auto
next
  case (Cons x xs)
  show ?case by (auto simp: list_all2_Cons1 Cons.IH [symmetric] split: sum.splits)
qed

lemma replicate_numeral [eval_simps]:
  "replicate (numeral n) x = x # replicate (pred_numeral n) x"
  by (simp add: numeral_eq_Suc)

lemma bit_Suc_0 [eval_simps]: "bit (Suc 0) n \<longleftrightarrow> n = 0"
  by (simp add: bit_Suc_0_iff)

section \<open>Lists addressed by an identifier\<close>

text \<open>
  The collections of the program are slices whose elements carry an \<open>ID\<close>. These lemmas
  are about the first element with a key and about keeping the elements without it.
\<close>

lemma map_update_same: "f (xs ! i) = f y \<Longrightarrow> i < length xs \<Longrightarrow> map f (xs[i := y]) = map f xs"
  by (metis list_update_id map_update)

lemma distinct_map_append_new:
  "distinct (map f xs) \<Longrightarrow> f y \<notin> set (map f xs) \<Longrightarrow> distinct (map f (xs @ [y]))"
  by auto

lemma find_SomeD: "find P xs = Some x \<Longrightarrow> x \<in> set xs \<and> P x"
  by (metis find_Some_iff nth_mem)

lemma distinct_map_filter_keep: "distinct (map f xs) \<Longrightarrow> distinct (map f (filter P xs))"
  by (induction xs) auto

lemma nth_unique_key:
  assumes "distinct (map f xs)" and "i < length xs" and "j < length xs" and "f (xs ! i) = f (xs ! j)"
  shows "i = j"
  using assms by (metis length_map nth_eq_iff_index_eq nth_map)

end
