(* ===== verification/GoStrings.thy ===== *)
theory GoStrings
  imports Prelude
begin

text \<open>
  The part of Go's standard library on strings that the program calls: UTF-8 decoding (the
  \<open>range\<close> loop), \<open>strings\<close> (TrimSpace, Fields, Split, Cut, Index, HasPrefix, ...) and
  \<open>strconv\<close> (Itoa, Atoi, ParseInt). A Go string is a sequence of bytes, and so is an Isabelle
  \<open>string\<close> (a \<open>char\<close> is a byte); \<open>length\<close> is Go's \<open>len\<close>.
\<close>

section \<open>Bytes\<close>

definition code :: "char \<Rightarrow> nat" where
  "code c = of_char c"

definition byte :: "nat \<Rightarrow> char" where
  "byte n = char_of n"

definition is_digit :: "char \<Rightarrow> bool" where
  "is_digit c \<longleftrightarrow> 48 \<le> code c \<and> code c \<le> 57"

definition is_lower :: "char \<Rightarrow> bool" where
  "is_lower c \<longleftrightarrow> 97 \<le> code c \<and> code c \<le> 122"

definition is_upper :: "char \<Rightarrow> bool" where
  "is_upper c \<longleftrightarrow> 65 \<le> code c \<and> code c \<le> 90"

definition digit_val :: "char \<Rightarrow> nat" where
  "digit_val c = code c - 48"

text \<open>Value of a hexadecimal digit, either case.\<close>

definition hex_val :: "char \<Rightarrow> nat option" where
  "hex_val c =
     (if is_digit c then Some (code c - 48)
      else if 97 \<le> code c \<and> code c \<le> 102 then Some (code c - 87)
      else if 65 \<le> code c \<and> code c \<le> 70 then Some (code c - 55)
      else None)"

lemma code_less [simp]: "code c < 256"
  by (simp add: code_def of_char_def)

lemma code_eq_iff [simp]: "code c = code d \<longleftrightarrow> c = d"
  by (simp add: code_def)

lemma code_byte [simp]: "n < 256 \<Longrightarrow> code (byte n) = n"
  by (simp add: code_def byte_def)

lemma byte_code [simp]: "byte (code c) = c"
  by (simp add: code_def byte_def)

section \<open>UTF-8\<close>

text \<open>
  \<open>utf8.DecodeRuneInString\<close>: the first rune and the number of bytes it takes. An invalid
  sequence gives U+FFFD and takes one byte.
\<close>

definition is_cont :: "char \<Rightarrow> bool" where
  "is_cont c \<longleftrightarrow> 128 \<le> code c \<and> code c \<le> 191"

fun decode_rune :: "string \<Rightarrow> nat \<times> nat" where
  "decode_rune [] = (65533, 0)"
| "decode_rune (c # cs) =
     (let b = code c in
      if b < 128 then (b, 1)
      else if 194 \<le> b \<and> b \<le> 223 then
        (case cs of
           c1 # _ \<Rightarrow> if is_cont c1 then ((b - 192) * 64 + (code c1 - 128), 2) else (65533, 1)
         | _ \<Rightarrow> (65533, 1))
      else if 224 \<le> b \<and> b \<le> 239 then
        (case cs of
           c1 # c2 # _ \<Rightarrow>
             if is_cont c1 \<and> (b = 224 \<longrightarrow> 160 \<le> code c1) \<and> (b = 237 \<longrightarrow> code c1 \<le> 159) \<and> is_cont c2
             then ((b - 224) * 4096 + (code c1 - 128) * 64 + (code c2 - 128), 3) else (65533, 1)
         | _ \<Rightarrow> (65533, 1))
      else if 240 \<le> b \<and> b \<le> 244 then
        (case cs of
           c1 # c2 # c3 # _ \<Rightarrow>
             if is_cont c1 \<and> (b = 240 \<longrightarrow> 144 \<le> code c1) \<and> (b = 244 \<longrightarrow> code c1 \<le> 143) \<and>
                is_cont c2 \<and> is_cont c3
             then ((b - 240) * 262144 + (code c1 - 128) * 4096 + (code c2 - 128) * 64 + (code c3 - 128), 4)
             else (65533, 1)
         | _ \<Rightarrow> (65533, 1))
      else (65533, 1))"

text \<open>The runes of a string, each with the bytes it was read from.\<close>

function rune_segs :: "string \<Rightarrow> (nat \<times> string) list" where
  "rune_segs [] = []"
| "rune_segs (c # cs) =
     (let (r, w) = decode_rune (c # cs) in (r, take w (c # cs)) # rune_segs (drop (w - 1) cs))"
  by pat_completeness auto
termination
  by (relation "measure length") auto

definition runes :: "string \<Rightarrow> nat list" where
  "runes s = map fst (rune_segs s)"

text \<open>\<open>WriteRune\<close> of a decoded rune: the bytes it was read from, or U+FFFD for invalid input.\<close>

definition write_rune :: "nat \<times> string \<Rightarrow> string" where
  "write_rune rb = (if fst rb = 65533 then map byte [239, 191, 189] else snd rb)"

text \<open>\<open>unicode.IsSpace\<close>.\<close>

definition is_space :: "nat \<Rightarrow> bool" where
  "is_space r \<longleftrightarrow>
     (9 \<le> r \<and> r \<le> 13) \<or> r = 32 \<or> r = 133 \<or> r = 160 \<or> r = 5760 \<or> (8192 \<le> r \<and> r \<le> 8202) \<or>
     r = 8232 \<or> r = 8233 \<or> r = 8239 \<or> r = 8287 \<or> r = 12288"

definition go_TrimSpace :: "string \<Rightarrow> string" where
  "go_TrimSpace s =
     (let P = (\<lambda>x. is_space (fst x))
      in concat (map snd (rev (dropWhile P (rev (dropWhile P (rune_segs s)))))))"

text \<open>\<open>strings.Fields\<close>: the maximal runs of non-space runes.\<close>

fun fields_go :: "string \<Rightarrow> (nat \<times> string) list \<Rightarrow> string list" where
  "fields_go cur [] = (if cur = [] then [] else [cur])"
| "fields_go cur ((r, bs) # xs) =
     (if is_space r then (if cur = [] then fields_go [] xs else cur # fields_go [] xs)
      else fields_go (cur @ bs) xs)"

definition go_Fields :: "string \<Rightarrow> string list" where
  "go_Fields s = fields_go [] (rune_segs s)"

text \<open>\<open>strings.FieldsFunc\<close>.\<close>

fun fields_func :: "(nat \<Rightarrow> bool) \<Rightarrow> string \<Rightarrow> (nat \<times> string) list \<Rightarrow> string list" where
  "fields_func P cur [] = (if cur = [] then [] else [cur])"
| "fields_func P cur ((r, bs) # xs) =
     (if P r then (if cur = [] then fields_func P [] xs else cur # fields_func P [] xs)
      else fields_func P (cur @ bs) xs)"

definition go_FieldsFunc :: "(nat \<Rightarrow> bool) \<Rightarrow> string \<Rightarrow> string list" where
  "go_FieldsFunc P s = fields_func P [] (rune_segs s)"

section \<open>strings\<close>

text \<open>\<open>strings.Split\<close> with a one-byte separator.\<close>

fun go_Split :: "string \<Rightarrow> char \<Rightarrow> string list" where
  "go_Split [] d = [[]]"
| "go_Split (c # cs) d =
     (if c = d then [] # go_Split cs d
      else (case go_Split cs d of [] \<Rightarrow> [[c]] | x # xs \<Rightarrow> (c # x) # xs))"

text \<open>\<open>strings.IndexByte\<close>; \<open>None\<close> is -1.\<close>

fun go_IndexByte :: "string \<Rightarrow> char \<Rightarrow> nat option" where
  "go_IndexByte [] d = None"
| "go_IndexByte (c # cs) d = (if c = d then Some 0 else map_option Suc (go_IndexByte cs d))"

text \<open>\<open>strings.Cut\<close> with a one-byte separator.\<close>

definition go_Cut :: "string \<Rightarrow> char \<Rightarrow> string \<times> string \<times> bool" where
  "go_Cut s d = (case go_IndexByte s d of
     None \<Rightarrow> (s, [], False)
   | Some i \<Rightarrow> (take i s, drop (Suc i) s, True))"

text \<open>The first element of \<open>strings.SplitN(s, sep, 2)\<close>.\<close>

definition go_SplitN2_0 :: "string \<Rightarrow> char \<Rightarrow> string" where
  "go_SplitN2_0 s d = fst (go_Cut s d)"

fun go_HasPrefix :: "string \<Rightarrow> string \<Rightarrow> bool" where
  "go_HasPrefix s [] = True"
| "go_HasPrefix [] (p # ps) = False"
| "go_HasPrefix (c # cs) (p # ps) = (c = p \<and> go_HasPrefix cs ps)"

definition go_HasSuffix :: "string \<Rightarrow> string \<Rightarrow> bool" where
  "go_HasSuffix s suf = go_HasPrefix (rev s) (rev suf)"

definition go_TrimPrefix :: "string \<Rightarrow> string \<Rightarrow> string" where
  "go_TrimPrefix s p = (if go_HasPrefix s p then drop (length p) s else s)"

fun go_Contains :: "string \<Rightarrow> string \<Rightarrow> bool" where
  "go_Contains [] q = (q = [])"
| "go_Contains (c # cs) q = (go_HasPrefix (c # cs) q \<or> go_Contains cs q)"

text \<open>\<open>strings.ReplaceAll\<close> of one byte by a string.\<close>

definition go_ReplaceByte :: "string \<Rightarrow> char \<Rightarrow> string \<Rightarrow> string" where
  "go_ReplaceByte s d r = concat (map (\<lambda>c. if c = d then r else [c]) s)"

text \<open>\<open>strings.Trim(s, cutset)\<close> for a cutset of one byte.\<close>

definition go_TrimByte :: "string \<Rightarrow> char \<Rightarrow> string" where
  "go_TrimByte s d = rev (dropWhile (\<lambda>c. c = d) (rev (dropWhile (\<lambda>c. c = d) s)))"

fun go_Join :: "string list \<Rightarrow> string \<Rightarrow> string" where
  "go_Join [] sep = []"
| "go_Join [x] sep = x"
| "go_Join (x # y # xs) sep = x @ sep @ go_Join (y # xs) sep"

text \<open>
  Upper and lower case. On ASCII bytes these are \<open>strings.ToUpper\<close> and \<open>strings.ToLower\<close>;
  the case mapping of runes outside ASCII is the argument \<open>uni\<close> (tables of package unicode),
  applied to the bytes of one rune.
\<close>

definition upper_char :: "char \<Rightarrow> char" where
  "upper_char c = (if is_lower c then byte (code c - 32) else c)"

definition lower_char :: "char \<Rightarrow> char" where
  "lower_char c = (if is_upper c then byte (code c + 32) else c)"

definition go_ToUpper :: "(string \<Rightarrow> string) \<Rightarrow> string \<Rightarrow> string" where
  "go_ToUpper uni s =
     concat (map (\<lambda>(r, bs). if r < 128 then map upper_char bs else uni bs) (rune_segs s))"

definition go_ToLower :: "(string \<Rightarrow> string) \<Rightarrow> string \<Rightarrow> string" where
  "go_ToLower uni s =
     concat (map (\<lambda>(r, bs). if r < 128 then map lower_char bs else uni bs) (rune_segs s))"

section \<open>strconv\<close>

text \<open>Decimal digits of a natural number, as \<open>strconv.Itoa\<close> and \<open>%d\<close> write them.\<close>

function go_nat_str :: "nat \<Rightarrow> string" where
  "go_nat_str n = (if n < 10 then [byte (48 + n)] else go_nat_str (n div 10) @ [byte (48 + n mod 10)])"
  by pat_completeness auto
termination
  by (relation "measure id") auto

declare go_nat_str.simps [simp del]

definition go_Itoa :: "int \<Rightarrow> string" where
  "go_Itoa i = (if i < 0 then ''-'' @ go_nat_str (nat (- i)) else go_nat_str (nat i))"

text \<open>Two's complement of a Go \<open>int\<close> (64 bits on the platforms modelled).\<close>

definition wrap64 :: "int \<Rightarrow> int" where
  "wrap64 i = signed_take_bit 63 i"

lemma wrap64_id: "- (2 ^ 63) \<le> i \<Longrightarrow> i < 2 ^ 63 \<Longrightarrow> wrap64 i = i"
  by (simp add: wrap64_def signed_take_bit_int_eq_self)

text \<open>Value of a string of digits; \<open>None\<close> if some byte is not a digit.\<close>

fun digits_val :: "nat \<Rightarrow> string \<Rightarrow> nat option" where
  "digits_val acc [] = Some acc"
| "digits_val acc (c # cs) = (if is_digit c then digits_val (acc * 10 + digit_val c) cs else None)"

text \<open>\<open>strconv.ParseInt(s, 10, 64)\<close> and \<open>strconv.Atoi\<close>; \<open>None\<close> is an error.\<close>

definition go_ParseInt :: "string \<Rightarrow> int option" where
  "go_ParseInt s =
     (let (neg, ds) = (case s of
          c # cs \<Rightarrow> if c = CHR ''-'' then (True, cs) else if c = CHR ''+'' then (False, cs) else (False, s)
        | [] \<Rightarrow> (False, []))
      in if ds = [] then None
         else (case digits_val 0 ds of
            None \<Rightarrow> None
          | Some n \<Rightarrow>
              if neg then (if int n \<le> 2 ^ 63 then Some (- int n) else None)
              else (if int n < 2 ^ 63 then Some (int n) else None)))"

definition go_Atoi :: "string \<Rightarrow> int option" where
  "go_Atoi s = go_ParseInt s"

definition hex_digit :: "nat \<Rightarrow> char" where
  "hex_digit n = (if n < 10 then byte (48 + n) else byte (87 + n))"

text \<open>\<open>hex.EncodeToString\<close> on bytes given as numbers.\<close>

definition go_hex :: "nat list \<Rightarrow> string" where
  "go_hex bs = concat (map (\<lambda>b. [hex_digit (b div 16), hex_digit (b mod 16)]) bs)"

lemmas go_strings_eval [eval_simps] =
  code_def byte_def char_of_def is_digit_def is_lower_def is_upper_def digit_val_def hex_val_def is_cont_def
  is_space_def go_TrimSpace_def go_Fields_def go_FieldsFunc_def go_Cut_def go_SplitN2_0_def go_HasSuffix_def
  go_TrimPrefix_def go_ReplaceByte_def go_TrimByte_def upper_char_def lower_char_def go_ToUpper_def
  go_ToLower_def go_nat_str.simps go_Itoa_def go_ParseInt_def go_Atoi_def hex_digit_def go_hex_def runes_def

section \<open>Strings of ASCII bytes\<close>

definition ascii :: "string \<Rightarrow> bool" where
  "ascii s \<longleftrightarrow> list_all (\<lambda>c. code c < 128) s"

text \<open>ASCII bytes that are not white space, such as those of addresses and numbers.\<close>

definition plain :: "string \<Rightarrow> bool" where
  "plain s \<longleftrightarrow> list_all (\<lambda>c. 33 \<le> code c \<and> code c < 127) s"

lemma ascii_simps_list [simp]:
  "ascii []" "ascii (c # s) \<longleftrightarrow> code c < 128 \<and> ascii s" "ascii (s @ t) \<longleftrightarrow> ascii s \<and> ascii t"
  by (auto simp: ascii_def)

lemma plain_simps_list [simp]:
  "plain []" "plain (c # s) \<longleftrightarrow> (33 \<le> code c \<and> code c < 127) \<and> plain s"
  "plain (s @ t) \<longleftrightarrow> plain s \<and> plain t"
  by (auto simp: plain_def)

lemma plain_ascii: "plain s \<Longrightarrow> ascii s"
  by (induction s) auto

lemma rune_segs_ascii [ascii_simps]: "ascii s \<Longrightarrow> rune_segs s = map (\<lambda>c. (code c, [c])) s"
  by (induction s) auto

lemma is_space_plain: "33 \<le> n \<Longrightarrow> n < 127 \<Longrightarrow> \<not> is_space n"
  by (auto simp: is_space_def)

lemma dropWhile_space_plain:
  assumes "plain s"
  shows "dropWhile (\<lambda>x. is_space (fst x)) (map (\<lambda>c. (code c, [c])) s) = map (\<lambda>c. (code c, [c])) s"
  using assms by (cases s) (auto simp: is_space_plain)

lemma plain_rev [simp]: "plain (rev s) = plain s"
  by (auto simp: plain_def list_all_iff)

lemma go_TrimSpace_plain [ascii_simps]:
  assumes "plain s"
  shows "go_TrimSpace s = s"
proof -
  let ?P = "\<lambda>x. is_space (fst x)" and ?f = "\<lambda>c. (code c, [c])"
  have "rune_segs s = map ?f s"
    using assms by (simp add: rune_segs_ascii plain_ascii)
  moreover have "dropWhile ?P (map ?f s) = map ?f s"
    using assms by (rule dropWhile_space_plain)
  moreover have "dropWhile ?P (map ?f (rev s)) = map ?f (rev s)"
    using assms by (intro dropWhile_space_plain) simp
  ultimately show ?thesis
    by (simp add: go_TrimSpace_def Let_def rev_map comp_def)
qed

text \<open>
  Decoding is local: a byte that is not a continuation byte starts a new rune, so trimming space
  runes off a string leaves the other runes as they were.
\<close>

definition rune_start :: "string \<Rightarrow> bool" where
  "rune_start v \<longleftrightarrow> (case v of [] \<Rightarrow> True | c # _ \<Rightarrow> \<not> is_cont c)"

lemma decode_rune_append: "rune_start v \<Longrightarrow> decode_rune (c # u @ v) = decode_rune (c # u)"
  by (cases v; cases u; cases "tl u"; cases "tl (tl u)")
    (auto simp: rune_start_def Let_def split: list.split)

lemma decode_rune_width: "decode_rune (c # u) = (r, w) \<Longrightarrow> 0 < w \<and> w \<le> Suc (length u)"
  by (cases u; cases "tl u"; cases "tl (tl u)") (auto simp: Let_def split: if_splits)

lemma rune_segs_append:
  assumes "rune_start v"
  shows "rune_segs (p @ v) = rune_segs p @ rune_segs v"
proof (induction p rule: rune_segs.induct)
  case (2 c u)
  obtain r w where d: "decode_rune (c # u) = (r, w)"
    by (cases "decode_rune (c # u)")
  then have "0 < w \<and> w \<le> Suc (length u)"
    by (rule decode_rune_width)
  with d 2 [OF d [symmetric] refl] show ?case
    by (cases w) (simp_all add: decode_rune_append [OF assms] del: decode_rune.simps(2))
qed simp

lemma concat_rune_segs: "concat (map snd (rune_segs s)) = s"
proof (induction s rule: rune_segs.induct)
  case (2 c u)
  obtain r w where d: "decode_rune (c # u) = (r, w)"
    by (cases "decode_rune (c # u)")
  then have "0 < w"
    by (simp add: decode_rune_width del: decode_rune.simps(2))
  with d 2 [OF d [symmetric] refl] show ?case
    by (cases w) (simp_all del: decode_rune.simps(2))
qed simp

lemma rune_segs_suffix: "rune_segs s = xs @ ys \<Longrightarrow> rune_segs (concat (map snd ys)) = ys"
proof (induction s arbitrary: xs rule: rune_segs.induct)
  case (2 c u)
  show ?case
  proof (cases xs)
    case Nil
    with 2(2) show ?thesis using concat_rune_segs [of "c # u"] by simp
  next
    case (Cons x xs')
    obtain r w where d: "decode_rune (c # u) = (r, w)"
      by (cases "decode_rune (c # u)")
    with 2(2) Cons have "rune_segs (drop (w - 1) u) = xs' @ ys"
      by (simp del: decode_rune.simps(2))
    then show ?thesis by (rule 2(1) [OF d [symmetric] refl])
  qed
qed simp

lemma rune_segs_head: "rune_segs s = (r, bs) # xs \<Longrightarrow> r \<noteq> 65533 \<Longrightarrow> rune_start s"
  by (cases s) (auto simp: rune_start_def is_cont_def Let_def split: if_splits)

lemma rune_segs_prefix:
  assumes "rune_segs s = xs @ ys" and "ys = [] \<or> fst (hd ys) \<noteq> 65533"
  shows "rune_segs (concat (map snd xs)) = xs"
proof -
  have y: "rune_segs (concat (map snd ys)) = ys"
    using assms(1) by (rule rune_segs_suffix)
  then have "rune_start (concat (map snd ys))"
    using assms(2) by (cases ys) (auto simp: rune_start_def dest: rune_segs_head)
  then have "rune_segs (concat (map snd xs) @ concat (map snd ys)) = rune_segs (concat (map snd xs)) @ ys"
    by (simp add: rune_segs_append y)
  moreover have "concat (map snd xs) @ concat (map snd ys) = s"
    using concat_rune_segs [of s] assms(1) by simp
  ultimately show ?thesis using assms(1) by simp
qed

text \<open>The runes that TrimSpace keeps.\<close>

definition trim_segs :: "string \<Rightarrow> (nat \<times> string) list" where
  "trim_segs s = rev (dropWhile (is_space \<circ> fst) (rev (dropWhile (is_space \<circ> fst) (rune_segs s))))"

lemma go_TrimSpace_segs: "go_TrimSpace s = concat (map snd (trim_segs s))"
  by (simp add: go_TrimSpace_def trim_segs_def comp_def Let_def)

lemma trim_split:
  "\<exists>as bs. xs = as @ rev (dropWhile P (rev (dropWhile P xs))) @ bs \<and> list_all P as \<and> list_all P bs"
proof (intro exI conjI)
  let ?d = "dropWhile P xs"
  show "xs = takeWhile P xs @ rev (dropWhile P (rev ?d)) @ rev (takeWhile P (rev ?d))"
    by (metis append.assoc rev_append rev_rev_ident takeWhile_dropWhile_id)
  show "list_all P (takeWhile P xs)" and "list_all P (rev (takeWhile P (rev ?d)))"
    by (auto simp: list_all_iff dest: set_takeWhileD)
qed

lemma rune_segs_TrimSpace: "rune_segs (go_TrimSpace s) = trim_segs s"
proof -
  obtain as bs where split: "rune_segs s = as @ trim_segs s @ bs" and sp: "list_all (is_space \<circ> fst) bs"
    using trim_split [of "rune_segs s" "is_space \<circ> fst"] by (auto simp: trim_segs_def)
  from split have "rune_segs (concat (map snd (trim_segs s @ bs))) = trim_segs s @ bs"
    by (rule rune_segs_suffix)
  moreover have "bs = [] \<or> fst (hd bs) \<noteq> 65533"
    using sp by (cases bs) (auto simp: is_space_def)
  ultimately show ?thesis
    unfolding go_TrimSpace_segs by (rule rune_segs_prefix)
qed

lemma dropWhile_rev_idem: "dropWhile P (rev (dropWhile P (rev (dropWhile P xs)))) =
  rev (dropWhile P (rev (dropWhile P xs)))"
proof -
  obtain ys where ys: "dropWhile P (rev (dropWhile P xs)) = ys" by simp
  show ?thesis
  proof (cases "ys = []")
    case False
    with ys have "last ys = hd (dropWhile P xs)"
      by (metis (no_types, opaque_lifting) dropWhile_eq_Nil_conv hd_rev last_appendR rev_rev_ident takeWhile_dropWhile_id)
    moreover have "dropWhile P xs \<noteq> []"
      using False ys by (metis dropWhile.simps(1) rev.simps(1))
    ultimately have "\<not> P (hd (rev ys))"
      using False by (simp add: hd_rev hd_dropWhile)
    then show ?thesis
      using False ys by (cases "rev ys") auto
  next
    case True
    with ys have "dropWhile P (rev (dropWhile P xs)) = []" by simp
    then show ?thesis by (simp only: rev.simps dropWhile.simps)
  qed
qed

lemma go_TrimSpace_idem [simp]: "go_TrimSpace (go_TrimSpace s) = go_TrimSpace s"
proof -
  have "trim_segs (go_TrimSpace s) = trim_segs s"
    unfolding trim_segs_def [of "go_TrimSpace s"] rune_segs_TrimSpace
    by (simp add: trim_segs_def dropWhile_rev_idem)
  then show ?thesis by (simp add: go_TrimSpace_segs)
qed

lemma go_TrimSpace_Nil [simp]: "go_TrimSpace [] = []"
  by (simp add: go_TrimSpace_def)

lemma go_Split_not_Nil [simp]: "go_Split s d \<noteq> []"
  by (cases s) (auto split: list.splits)

lemma go_Split_no_sep: "d \<notin> set s \<Longrightarrow> go_Split s d = [s]"
  by (induction s) auto

lemma go_Split_append: "d \<notin> set s \<Longrightarrow> go_Split (s @ d # t) d = s # go_Split t d"
  by (induction s) auto

lemma go_Split_sep_free: "x \<in> set (go_Split s d) \<Longrightarrow> d \<notin> set x"
  by (induction s arbitrary: x) (auto split: if_splits list.splits)

text \<open>Joining the pieces of a split gives the string back.\<close>

lemma go_Join_Cons: "xs \<noteq> [] \<Longrightarrow> go_Join (x # xs) sep = x @ sep @ go_Join xs sep"
  by (cases xs) auto

lemma go_Join_head: "xs \<noteq> [] \<Longrightarrow> go_Join ((c # x) # xs) sep = c # go_Join (x # xs) sep"
  by (cases xs) auto

lemma go_Join_Split: "go_Join (go_Split s d) [d] = s"
proof (induction s)
  case (Cons c s)
  then obtain x xs where "go_Split s d = x # xs"
    by (meson go_Split_not_Nil list.exhaust)
  with Cons show ?case by (cases xs) auto
qed simp

lemma go_IndexByte_None: "go_IndexByte s d = None \<longleftrightarrow> d \<notin> set s"
  by (induction s) auto

lemma go_IndexByte_Some:
  "go_IndexByte s d = Some i \<Longrightarrow> i < length s \<and> s ! i = d \<and> d \<notin> set (take i s)"
  by (induction s arbitrary: i) (auto split: if_splits)

lemma go_IndexByte_append: "d \<notin> set s \<Longrightarrow> go_IndexByte (s @ d # t) d = Some (length s)"
  by (induction s) auto

lemma go_HasPrefix_append [simp]: "go_HasPrefix (p @ s) p"
  by (induction p) auto

lemma go_HasPrefix_iff: "go_HasPrefix s p \<longleftrightarrow> (\<exists>t. s = p @ t)"
  by (induction s p rule: go_HasPrefix.induct) auto

lemma go_HasSuffix_iff: "go_HasSuffix s p \<longleftrightarrow> (\<exists>t. s = t @ p)"
proof -
  have "(\<exists>t. rev s = rev p @ t) \<longleftrightarrow> (\<exists>t. s = t @ p)"
    by (metis rev_append rev_rev_ident)
  then show ?thesis by (simp add: go_HasSuffix_def go_HasPrefix_iff)
qed

section \<open>Numbers in decimal\<close>

lemma digits_val_append:
  "digits_val acc (s @ t) = (case digits_val acc s of None \<Rightarrow> None | Some a \<Rightarrow> digits_val a t)"
  by (induction s arbitrary: acc) auto

lemma is_digit_byte [simp]: "n < 10 \<Longrightarrow> is_digit (byte (48 + n))"
  by (simp add: is_digit_def)

lemma digit_val_byte [simp]: "n < 10 \<Longrightarrow> digit_val (byte (48 + n)) = n"
  by (simp add: digit_val_def)

lemma go_nat_str_digits: "\<forall>c \<in> set (go_nat_str n). is_digit c"
proof (induction n rule: go_nat_str.induct)
  case (1 n)
  then show ?case
    by (cases "n < 10") (auto simp: go_nat_str.simps [of n])
qed

lemma digits_val_nat_str: "digits_val 0 (go_nat_str n) = Some n"
proof (induction n rule: go_nat_str.induct)
  case (1 n)
  then show ?case
    by (cases "n < 10") (simp_all add: go_nat_str.simps [of n] digits_val_append)
qed

lemma go_nat_str_not_Nil [simp]: "go_nat_str n \<noteq> []"
  by (simp add: go_nat_str.simps [of n])

lemma plain_nat_str [simp]: "plain (go_nat_str n)"
  using go_nat_str_digits [of n] by (fastforce simp: plain_def list_all_iff is_digit_def)

lemma nat_str_no: "\<not> is_digit d \<Longrightarrow> d \<notin> set (go_nat_str n)"
  using go_nat_str_digits by blast

lemma go_nat_str_inj: "go_nat_str m = go_nat_str n \<Longrightarrow> m = n"
  by (metis digits_val_nat_str option.inject)

end
