(* ===== verification/GoNet.thy ===== *)
theory GoNet
  imports GoStrings
begin

text \<open>
  The part of Go's package \<open>net\<close> (and \<open>net/netip\<close> below it) that the program calls:
  \<open>ParseIP\<close>, \<open>IP.To4\<close>, \<open>ParseMAC\<close> and \<open>ParseCIDR\<close>. An address is the list of its
  16 bytes, an IPv4 address being stored in its IPv4-mapped IPv6 form, as Go does.
\<close>

section \<open>IPv4 in dotted form\<close>

text \<open>One octet: digits, no leading zero, at most 255.\<close>

definition parse_octet :: "string \<Rightarrow> nat option" where
  "parse_octet s =
     (if s = [] \<or> (hd s = CHR ''0'' \<and> length s > 1) \<or> length s > 3 then None
      else (case digits_val 0 s of None \<Rightarrow> None | Some n \<Rightarrow> if n \<le> 255 then Some n else None))"

definition parse_ipv4 :: "string \<Rightarrow> nat list option" where
  "parse_ipv4 s = (case go_Split s CHR ''.'' of
     [a, b, c, d] \<Rightarrow>
       (case (parse_octet a, parse_octet b, parse_octet c, parse_octet d) of
          (Some a', Some b', Some c', Some d') \<Rightarrow> Some [a', b', c', d']
        | _ \<Rightarrow> None)
   | _ \<Rightarrow> None)"

definition v4_in_v6 :: "nat list \<Rightarrow> nat list" where
  "v4_in_v6 q = replicate 10 0 @ [255, 255] @ q"

section \<open>IPv6\<close>

text \<open>A group of hexadecimal digits at the front: its value, its length, and the rest.\<close>

fun hex_group :: "nat \<Rightarrow> nat \<Rightarrow> string \<Rightarrow> nat \<times> nat \<times> string" where
  "hex_group acc k [] = (acc, k, [])"
| "hex_group acc k (c # cs) = (case hex_val c of
     Some v \<Rightarrow> hex_group (acc * 16 + v) (Suc k) cs
   | None \<Rightarrow> (acc, k, c # cs))"

lemma hex_group_length: "hex_group acc k s = (v, n, r) \<Longrightarrow> length r + n = length s + k"
  by (induction acc k s rule: hex_group.induct) (auto split: option.splits)

text \<open>
  The loop of \<open>netip.parseIPv6\<close>: \<open>bs\<close> are the bytes read so far, \<open>el\<close> the position of the
  ellipsis \<open>::\<close>. The result is the bytes and the position, or \<open>None\<close> for an error.
\<close>

function ipv6_loop :: "nat list \<Rightarrow> nat option \<Rightarrow> string \<Rightarrow> (nat list \<times> nat option) option" where
  "ipv6_loop bs el s =
     (if length bs \<ge> 16 then (if s = [] then Some (bs, el) else None)
      else (case hex_group 0 0 s of (v, k, r) \<Rightarrow>
        if k = 0 \<or> k > 4 then None
        else (case r of
            [] \<Rightarrow> Some (bs @ [v div 256, v mod 256], el)
          | c # cs \<Rightarrow>
              if c = CHR ''.'' then
                (if (el = None \<and> length bs \<noteq> 12) \<or> length bs + 4 > 16 then None
                 else (case parse_ipv4 s of None \<Rightarrow> None | Some q \<Rightarrow> Some (bs @ q, el)))
              else if c \<noteq> CHR '':'' then None
              else (case cs of
                  [] \<Rightarrow> None
                | c' # cs' \<Rightarrow>
                    if c' = CHR '':'' then
                      (if el \<noteq> None then None
                       else if cs' = [] then Some (bs @ [v div 256, v mod 256], Some (length bs + 2))
                       else ipv6_loop (bs @ [v div 256, v mod 256]) (Some (length bs + 2)) cs')
                    else ipv6_loop (bs @ [v div 256, v mod 256]) el cs))))"
  by pat_completeness auto
termination
  by (relation "measure (\<lambda>(bs, el, s). length s)") (auto dest: hex_group_length [OF sym])

declare ipv6_loop.simps [simp del]

text \<open>The ellipsis stands for at least one group of zeros.\<close>

definition ipv6_expand :: "nat list \<times> nat option \<Rightarrow> nat list option" where
  "ipv6_expand r = (case r of (bs, el) \<Rightarrow>
     if length bs < 16 then
       (case el of None \<Rightarrow> None
        | Some e \<Rightarrow> Some (take e bs @ replicate (16 - length bs) 0 @ drop e bs))
     else if el \<noteq> None then None
     else Some bs)"

definition parse_ipv6 :: "string \<Rightarrow> nat list option" where
  "parse_ipv6 s =
     (if go_HasPrefix s ''::'' then
        (if length s = 2 then Some (replicate 16 0)
         else Option.bind (ipv6_loop [] (Some 0) (drop 2 s)) ipv6_expand)
      else Option.bind (ipv6_loop [] None s) ipv6_expand)"

section \<open>ParseIP and To4\<close>

text \<open>
  The first of \<open>.\<close>, \<open>:\<close> and \<open>%\<close> decides the family; an address with a zone is not an
  \<open>IP\<close>. The flag says whether the address was written in dotted form (\<open>BitLen\<close> 32).
\<close>

definition parse_addr :: "string \<Rightarrow> (bool \<times> nat list) option" where
  "parse_addr s =
     (if CHR ''%'' \<in> set s then None
      else (case dropWhile (\<lambda>c. c \<noteq> CHR ''.'' \<and> c \<noteq> CHR '':'') s of
          [] \<Rightarrow> None
        | c # _ \<Rightarrow>
            if c = CHR ''.'' then map_option (\<lambda>q. (True, v4_in_v6 q)) (parse_ipv4 s)
            else map_option (Pair False) (parse_ipv6 s)))"

definition go_ParseIP :: "string \<Rightarrow> nat list option" where
  "go_ParseIP s = map_option snd (parse_addr s)"

definition go_To4 :: "nat list \<Rightarrow> nat list option" where
  "go_To4 ip = (if take 12 ip = replicate 10 0 @ [255, 255] then Some (drop 12 ip) else None)"

text \<open>\<open>IP.String\<close> of the four bytes of an IPv4 address.\<close>

definition ipv4_str :: "nat list \<Rightarrow> string" where
  "ipv4_str q = go_Join (map go_nat_str q) ''.''"

text \<open>\<open>net.ParseCIDR\<close>; only whether it succeeds is used.\<close>

definition go_ParseCIDR_ok :: "string \<Rightarrow> bool" where
  "go_ParseCIDR_ok s = (case go_Cut s CHR ''/'' of (a, m, found) \<Rightarrow>
     found \<and>
     (case parse_addr a of None \<Rightarrow> False
      | Some (is4, _) \<Rightarrow>
          m \<noteq> [] \<and> (case digits_val 0 m of None \<Rightarrow> False | Some n \<Rightarrow> n \<le> (if is4 then 32 else 128))))"

section \<open>ParseMAC\<close>

definition hex_pair :: "char \<Rightarrow> char \<Rightarrow> nat option" where
  "hex_pair a b = (case (hex_val a, hex_val b) of (Some x, Some y) \<Rightarrow> Some (x * 16 + y) | _ \<Rightarrow> None)"

text \<open>Octets separated by \<open>d\<close>: \<open>aa:bb:..\<close>.\<close>

fun mac_pairs :: "char \<Rightarrow> string \<Rightarrow> nat list option" where
  "mac_pairs d [a, b] = map_option (\<lambda>n. [n]) (hex_pair a b)"
| "mac_pairs d (a # b # s # r) =
     (if s \<noteq> d then None
      else (case (hex_pair a b, mac_pairs d r) of (Some n, Some ns) \<Rightarrow> Some (n # ns) | _ \<Rightarrow> None))"
| "mac_pairs d s = None"

text \<open>Pairs of octets separated by dots: \<open>aabb.ccdd..\<close>.\<close>

fun mac_quads :: "string \<Rightarrow> nat list option" where
  "mac_quads [a, b, c, d] = (case (hex_pair a b, hex_pair c d) of (Some m, Some n) \<Rightarrow> Some [m, n] | _ \<Rightarrow> None)"
| "mac_quads (a # b # c # d # s # r) =
     (if s \<noteq> CHR ''.'' then None
      else (case (hex_pair a b, hex_pair c d, mac_quads r) of
          (Some m, Some n, Some ns) \<Rightarrow> Some (m # n # ns) | _ \<Rightarrow> None))"
| "mac_quads s = None"

definition go_ParseMAC :: "string \<Rightarrow> nat list option" where
  "go_ParseMAC s =
     (if length s < 14 then None
      else
        (case (if s ! 2 = CHR '':'' \<or> s ! 2 = CHR ''-'' then mac_pairs (s ! 2) s
               else if s ! 4 = CHR ''.'' then mac_quads s else None) of
           None \<Rightarrow> None
         | Some bs \<Rightarrow> if length bs \<in> {6, 8, 20} then Some bs else None))"

lemmas go_net_eval [eval_simps] =
  parse_octet_def parse_ipv4_def v4_in_v6_def ipv6_loop.simps ipv6_expand_def parse_ipv6_def
  parse_addr_def go_ParseIP_def go_To4_def ipv4_str_def go_ParseCIDR_ok_def hex_pair_def go_ParseMAC_def

section \<open>Printing and parsing IPv4 addresses\<close>

lemma hd_nat_str: "0 < n \<Longrightarrow> hd (go_nat_str n) \<noteq> CHR ''0''"
proof (induction n rule: go_nat_str.induct)
  case (1 n)
  show ?case
  proof (cases "n < 10")
    case True
    with 1 have "code (hd (go_nat_str n)) \<noteq> code (CHR ''0'')"
      by (simp add: go_nat_str.simps [of n]) (simp add: code_def)
    then show ?thesis by auto
  next
    case False
    then show ?thesis
      using 1 by (simp add: go_nat_str.simps [of n])
  qed
qed

lemma length_nat_str: "n < 10 \<Longrightarrow> length (go_nat_str n) = 1" "n < 1000 \<Longrightarrow> length (go_nat_str n) \<le> 3"
  by (simp_all add: go_nat_str.simps [of n] go_nat_str.simps [of "n div 10"] go_nat_str.simps [of "n div 10 div 10"])

lemma parse_octet_nat_str [simp]:
  assumes "n < 256"
  shows "parse_octet (go_nat_str n) = Some n"
proof (cases "n < 10")
  case True
  then show ?thesis
    using assms by (simp add: parse_octet_def digits_val_nat_str length_nat_str)
next
  case False
  then show ?thesis
    using assms hd_nat_str [of n] length_nat_str(2) [of n]
    by (simp add: parse_octet_def digits_val_nat_str)
qed

lemma parse_octet_bound: "parse_octet s = Some n \<Longrightarrow> n < 256"
  by (auto simp: parse_octet_def split: if_splits option.splits)

definition bytes4 :: "nat list \<Rightarrow> bool" where
  "bytes4 q \<longleftrightarrow> length q = 4 \<and> list_all (\<lambda>b. b < 256) q"

lemma bytes4_cases:
  assumes "bytes4 q"
  obtains a b c d where "q = [a, b, c, d]" and "a < 256" and "b < 256" and "c < 256" and "d < 256"
  using assms by (auto simp: bytes4_def numeral_eq_Suc length_Suc_conv)

lemma dot_not_in_nat_str [simp]: "CHR ''.'' \<notin> set (go_nat_str n)"
  by (rule nat_str_no) (simp add: is_digit_def code_def)

lemma colon_not_in_nat_str [simp]: "CHR '':'' \<notin> set (go_nat_str n)"
  by (rule nat_str_no) (simp add: is_digit_def code_def)

lemma percent_not_in_nat_str [simp]: "CHR ''%'' \<notin> set (go_nat_str n)"
  by (rule nat_str_no) (simp add: is_digit_def code_def)

lemma ipv4_str_4: "ipv4_str [a, b, c, d] =
  go_nat_str a @ ''.'' @ go_nat_str b @ ''.'' @ go_nat_str c @ ''.'' @ go_nat_str d"
  by (simp add: ipv4_str_def)

lemma parse_ipv4_str: "bytes4 q \<Longrightarrow> parse_ipv4 (ipv4_str q) = Some q"
  by (erule bytes4_cases) (simp add: ipv4_str_4 parse_ipv4_def go_Split_append go_Split_no_sep)

lemma parse_ipv4_bytes4: "parse_ipv4 s = Some q \<Longrightarrow> bytes4 q"
  by (auto simp: parse_ipv4_def bytes4_def dest: parse_octet_bound split: list.splits option.splits)

lemma plain_ipv4_str: "bytes4 q \<Longrightarrow> plain (ipv4_str q)"
  by (erule bytes4_cases) (simp add: ipv4_str_4 code_def)

lemma ipv4_str_first_sep:
  assumes "bytes4 q"
  shows "\<exists>r. dropWhile (\<lambda>c. c \<noteq> CHR ''.'' \<and> c \<noteq> CHR '':'') (ipv4_str q) = CHR ''.'' # r"
proof -
  from assms obtain a b c d where q: "q = [a, b, c, d]" by (rule bytes4_cases)
  have "\<forall>x \<in> set (go_nat_str a). x \<noteq> CHR ''.'' \<and> x \<noteq> CHR '':''"
    using dot_not_in_nat_str colon_not_in_nat_str by metis
  then show ?thesis
    by (simp add: q ipv4_str_4 dropWhile_append2)
qed

lemma parse_addr_ipv4_str:
  assumes "bytes4 q"
  shows "parse_addr (ipv4_str q) = Some (True, v4_in_v6 q)"
proof -
  obtain r where "dropWhile (\<lambda>c. c \<noteq> CHR ''.'' \<and> c \<noteq> CHR '':'') (ipv4_str q) = CHR ''.'' # r"
    using ipv4_str_first_sep [OF assms] by blast
  moreover have "CHR ''%'' \<notin> set (ipv4_str q)"
    using assms by (rule bytes4_cases) (simp add: ipv4_str_4)
  ultimately show ?thesis
    using assms by (simp add: parse_addr_def parse_ipv4_str)
qed

lemma go_To4_v4 [simp]: "go_To4 (v4_in_v6 q) = Some q"
  by (simp add: go_To4_def v4_in_v6_def)

lemma ipv4_str_inj: "bytes4 p \<Longrightarrow> bytes4 q \<Longrightarrow> ipv4_str p = ipv4_str q \<Longrightarrow> p = q"
  by (metis option.inject parse_ipv4_str)

end
