(* ===== verification/Netutil.thy ===== *)
theory Netutil
  imports GoNet
begin

unbundle bit_operations_syntax

text \<open>
  pkg/netutil: the pure helpers on IPv4 addresses, netmasks, MAC addresses, address ranges,
  exclude lines and lease lines (netutil.go), and the vendor table (oui.go).

  A Go result pair \<open>(v, ok)\<close> is an \<open>option\<close>; where a caller drops \<open>ok\<close> it reads \<open>or0\<close> of it,
  the zero value Go returns. A \<open>uint32\<close> is a \<open>32 word\<close>.
\<close>

type_synonym u32 = "32 word"

text \<open>Counting up to the end of the address space, and past it.\<close>

lemma unat_succ: "(w :: u32) \<noteq> - 1 \<Longrightarrow> unat (w + 1) = Suc (unat w)"
  by (metis add.commute add_eq_0_iff unatSuc)

lemma word_succ_le: "(u :: u32) \<le> c \<Longrightarrow> c \<noteq> - 1 \<Longrightarrow> unat (u + 1) = Suc (unat u)"
  using unat_succ [of u] word_order.extremum_uniqueI [of c] by fastforce

lemma word_4294967296: "(4294967296 :: u32) = 0"
  by (rule word_unat_eq_iff [THEN iffD2]) simp

definition or0 :: "u32 option \<Rightarrow> u32" where
  "or0 r = (case r of None \<Rightarrow> 0 | Some u \<Rightarrow> u)"

section \<open>IPv4 addresses as numbers\<close>

definition u32_of_bytes :: "nat list \<Rightarrow> u32" where
  "u32_of_bytes q =
     push_bit 24 (of_nat (q ! 0)) OR push_bit 16 (of_nat (q ! 1)) OR
     push_bit 8 (of_nat (q ! 2)) OR of_nat (q ! 3)"

definition bytes_of_u32 :: "u32 \<Rightarrow> nat list" where
  "bytes_of_u32 u =
     [unat (drop_bit 24 u AND 255), unat (drop_bit 16 u AND 255), unat (drop_bit 8 u AND 255),
      unat (u AND 255)]"

definition IPv4ToUint32 :: "string \<Rightarrow> u32 option" where
  "IPv4ToUint32 s = (case go_ParseIP (go_TrimSpace s) of
     None \<Rightarrow> None
   | Some ip \<Rightarrow> (case go_To4 ip of None \<Rightarrow> None | Some v4 \<Rightarrow> Some (u32_of_bytes v4)))"

definition Uint32ToIPv4 :: "u32 \<Rightarrow> string" where
  "Uint32ToIPv4 u = ipv4_str (bytes_of_u32 u)"

definition IsIPv4 :: "string \<Rightarrow> bool" where
  "IsIPv4 s \<longleftrightarrow> IPv4ToUint32 s \<noteq> None"

definition IsIPv6 :: "string \<Rightarrow> bool" where
  "IsIPv6 s \<longleftrightarrow> (case go_ParseIP (go_TrimSpace s) of None \<Rightarrow> False | Some ip \<Rightarrow> go_To4 ip = None)"

definition IsIP :: "string \<Rightarrow> bool" where
  "IsIP s \<longleftrightarrow> go_ParseIP (go_TrimSpace s) \<noteq> None"

section \<open>MAC addresses\<close>

definition byteHex :: "nat \<Rightarrow> string" where
  "byteHex b = [hex_digit (b div 16), hex_digit (b mod 16)]"

definition NormalizeMAC :: "string \<Rightarrow> string" where
  "NormalizeMAC s =
     (let t = go_TrimSpace s in
      if t = [] then []
      else (case go_ParseMAC (go_ReplaceByte t CHR ''-'' '':'') of
          None \<Rightarrow> []
        | Some hw \<Rightarrow>
            if length hw \<noteq> 6 then []
            else go_Join (map (\<lambda>b. map upper_char (byteHex b)) hw) '':''))"

definition IsMAC :: "string \<Rightarrow> bool" where
  "IsMAC s \<longleftrightarrow> NormalizeMAC s \<noteq> []"

section \<open>Netmasks and prefixes\<close>

text \<open>The loop over bits 31 down to 0; \<open>i\<close> counts the bits still to be read.\<close>

fun mask_scan :: "u32 \<Rightarrow> nat \<Rightarrow> nat \<Rightarrow> bool \<Rightarrow> nat option" where
  "mask_scan u 0 ones allOnesSeen = Some ones"
| "mask_scan u (Suc i) ones allOnesSeen =
     (if drop_bit i u AND 1 = 1 then
        (if \<not> allOnesSeen then None else mask_scan u i (Suc ones) allOnesSeen)
      else mask_scan u i ones False)"

definition MaskToPrefix :: "string \<Rightarrow> int option" where
  "MaskToPrefix netmask = (case IPv4ToUint32 netmask of
     None \<Rightarrow> None
   | Some u \<Rightarrow> map_option int (mask_scan u 32 0 True))"

definition PrefixToMask :: "int \<Rightarrow> string" where
  "PrefixToMask prefix =
     (if prefix < 0 \<or> prefix > 32 then []
      else if prefix = 0 then ''0.0.0.0''
      else Uint32ToIPv4 (push_bit (nat (32 - prefix)) 4294967295))"

definition IsValidNetmask :: "string \<Rightarrow> bool" where
  "IsValidNetmask netmask \<longleftrightarrow> MaskToPrefix netmask \<noteq> None"

definition NetworkBase :: "string \<Rightarrow> string \<Rightarrow> string option" where
  "NetworkBase ip netmask = (case (IPv4ToUint32 ip, IPv4ToUint32 netmask) of
     (Some iu, Some mu) \<Rightarrow> Some (Uint32ToIPv4 (iu AND mu))
   | _ \<Rightarrow> None)"

definition SameSubnet :: "string \<Rightarrow> string \<Rightarrow> string \<Rightarrow> bool" where
  "SameSubnet a b netmask = (case (NetworkBase a netmask, NetworkBase b netmask) of
     (Some na, Some nb) \<Rightarrow> na = nb
   | _ \<Rightarrow> False)"

section \<open>Address ranges\<close>

definition RangeCount :: "string \<Rightarrow> string \<Rightarrow> int option" where
  "RangeCount start end' = (case (IPv4ToUint32 start, IPv4ToUint32 end') of
     (Some su, Some eu) \<Rightarrow> if eu < su then None else Some (uint (eu - su) + 1)
   | _ \<Rightarrow> None)"

definition IPInRange :: "string \<Rightarrow> string \<Rightarrow> string \<Rightarrow> bool" where
  "IPInRange ip start end' = (case (IPv4ToUint32 ip, IPv4ToUint32 start, IPv4ToUint32 end') of
     (Some iu, Some su, Some eu) \<Rightarrow> su \<le> iu \<and> iu \<le> eu
   | _ \<Rightarrow> False)"

definition DHCPStartLimit :: "string \<Rightarrow> string \<Rightarrow> string \<Rightarrow> string \<Rightarrow> (int \<times> int) option" where
  "DHCPStartLimit ifaceIP netmask poolStart poolEnd =
     (case (NetworkBase ifaceIP netmask, IPv4ToUint32 poolStart, IPv4ToUint32 poolEnd) of
        (Some base, Some su, Some eu) \<Rightarrow>
          (let bu = or0 (IPv4ToUint32 base) in
           if eu < su \<or> su < bu then None
           else if \<not> SameSubnet poolStart ifaceIP netmask \<or> \<not> SameSubnet poolEnd ifaceIP netmask then None
           else Some (uint (su - bu), uint (eu - su) + 1))
      | _ \<Rightarrow> None)"

definition ParseExcludeLine :: "string \<Rightarrow> (string \<times> string) option" where
  "ParseExcludeLine line =
     (let t = go_TrimSpace line in
      if t = [] then None
      else (case go_IndexByte t CHR ''-'' of
          Some i \<Rightarrow>
            (let a = go_TrimSpace (take i t); b = go_TrimSpace (drop (Suc i) t)
             in (case (IPv4ToUint32 a, IPv4ToUint32 b) of
                   (Some au, Some bu) \<Rightarrow> if bu < au then None else Some (a, b)
                 | _ \<Rightarrow> None))
        | None \<Rightarrow> if \<not> IsIPv4 t then None else Some (t, t)))"

section \<open>Lease lines\<close>

record ParsedLease =
  pl_Expiry :: int
  pl_MAC :: string
  pl_IP :: string
  pl_Hostname :: string
  pl_ClientID :: string

definition ParseLeaseLine :: "string \<Rightarrow> ParsedLease option" where
  "ParseLeaseLine line =
     (let fields = go_Fields (go_TrimSpace line) in
      if length fields < 3 then None
      else (case go_ParseInt (fields ! 0) of
          None \<Rightarrow> None
        | Some expiry \<Rightarrow>
            (let mac = NormalizeMAC (fields ! 1) in
             if mac = [] then None
             else if \<not> IsIP (fields ! 2) then None
             else Some \<lparr>pl_Expiry = expiry, pl_MAC = mac, pl_IP = fields ! 2,
               pl_Hostname = (if length fields \<ge> 4 \<and> fields ! 3 \<noteq> ''*'' then fields ! 3 else []),
               pl_ClientID = (if length fields \<ge> 5 \<and> fields ! 4 \<noteq> ''*'' then fields ! 4 else [])\<rparr>)))"

section \<open>The vendor table (oui.go)\<close>

text \<open>\<open>raw\<close> is the embedded file oui_data.txt, \<open>uni\<close> the upper case of runes outside ASCII.\<close>

definition isHex6 :: "string \<Rightarrow> bool" where
  "isHex6 s \<longleftrightarrow> length s = 6 \<and>
     list_all (\<lambda>c. is_digit c \<or> (65 \<le> code c \<and> code c \<le> 70)) s"

fun index_blank :: "string \<Rightarrow> nat option" where
  "index_blank [] = None"
| "index_blank (c # cs) =
     (if c = CHR '' '' \<or> code c = 9 then Some 0 else map_option Suc (index_blank cs))"

definition oui_line :: "(string \<Rightarrow> string) \<Rightarrow> string \<Rightarrow> (string \<times> string) option" where
  "oui_line uni line0 =
     (let line = go_TrimSpace line0 in
      if line = [] \<or> go_HasPrefix line ''#'' then None
      else (case index_blank line of
          None \<Rightarrow> None
        | Some sp \<Rightarrow>
            (let prefix = go_ToUpper uni (go_TrimSpace (take sp line));
                 vendor = go_TrimSpace (drop (Suc sp) line)
             in if length prefix \<noteq> 6 \<or> vendor = [] \<or> \<not> isHex6 prefix then None
                else Some (prefix, vendor))))"

definition loadOUI :: "(string \<Rightarrow> string) \<Rightarrow> string \<Rightarrow> (string \<rightharpoonup> string)" where
  "loadOUI uni raw =
     foldl (\<lambda>m line. case oui_line uni line of None \<Rightarrow> m | Some (p, v) \<Rightarrow> m(p \<mapsto> v))
       Map.empty (go_Split raw (byte 10))"

definition Vendor :: "(string \<rightharpoonup> string) \<Rightarrow> string \<Rightarrow> string" where
  "Vendor ouiTable mac =
     (let norm = NormalizeMAC mac in
      if norm = [] then []
      else
        (let prefix = map upper_char (filter (\<lambda>c. c \<noteq> CHR '':'') norm) in
         if length prefix < 6 then []
         else (case ouiTable (take 6 prefix) of None \<Rightarrow> [] | Some v \<Rightarrow> v)))"

lemma mask_scan_numeral [eval_simps]:
  "mask_scan u (numeral n) ones allOnesSeen =
     (if drop_bit (pred_numeral n) u AND 1 = 1 then
        (if \<not> allOnesSeen then None else mask_scan u (pred_numeral n) (Suc ones) allOnesSeen)
      else mask_scan u (pred_numeral n) ones False)"
  by (simp add: numeral_eq_Suc)

lemmas netutil_eval [eval_simps] =
  or0_def u32_of_bytes_def bytes_of_u32_def IPv4ToUint32_def Uint32ToIPv4_def IsIPv4_def IsIPv6_def
  IsIP_def byteHex_def NormalizeMAC_def IsMAC_def MaskToPrefix_def PrefixToMask_def
  IsValidNetmask_def NetworkBase_def SameSubnet_def RangeCount_def IPInRange_def
  DHCPStartLimit_def ParseExcludeLine_def ParseLeaseLine_def isHex6_def oui_line_def loadOUI_def Vendor_def

section \<open>Addresses: printing and parsing\<close>

lemma word_255_mask: "(255 :: u32) = Bit_Operations.mask 8"
  by (simp add: mask_eq_exp_minus_1)

lemma u32_of_bytes_of_u32 [simp]: "u32_of_bytes (bytes_of_u32 u) = u"
proof (rule bit_word_eqI)
  fix k assume k: "k < LENGTH(32)"
  have "of_nat (unat w) = w" for w :: u32 by simp
  consider "k < 8" | j where "k = 8 + j" "j < 8" | j where "k = 16 + j" "j < 8" | j where "k = 24 + j" "j < 8"
    using k that(2) [of "k - 8"] that(3) [of "k - 16"] that(4) [of "k - 24"] that(1) by fastforce
  then show "bit (u32_of_bytes (bytes_of_u32 u)) k = bit u k"
    unfolding u32_of_bytes_def bytes_of_u32_def word_255_mask
    by cases (auto simp: bit_simps word_255_mask)
qed

lemma bytes4_of_u32 [simp]: "bytes4 (bytes_of_u32 u)"
  using take_bit_nat_less_exp [of 8 "unat (drop_bit 24 u)"] take_bit_nat_less_exp [of 8 "unat (drop_bit 16 u)"]
    take_bit_nat_less_exp [of 8 "unat (drop_bit 8 u)"] take_bit_nat_less_exp [of 8 "unat u"]
  unfolding bytes4_def bytes_of_u32_def
  by (simp add: word_255_mask unsigned_take_bit_eq flip: take_bit_eq_mask)

lemma plain_Uint32ToIPv4 [simp]: "plain (Uint32ToIPv4 u)"
  by (simp add: Uint32ToIPv4_def plain_ipv4_str)

lemma IPv4ToUint32_Uint32ToIPv4 [simp]: "IPv4ToUint32 (Uint32ToIPv4 u) = Some u"
  by (simp add: IPv4ToUint32_def Uint32ToIPv4_def go_TrimSpace_plain plain_ipv4_str go_ParseIP_def
      parse_addr_ipv4_str)

lemma Uint32ToIPv4_eq_iff [simp]: "Uint32ToIPv4 u = Uint32ToIPv4 v \<longleftrightarrow> u = v"
  by (metis IPv4ToUint32_Uint32ToIPv4 option.inject)

lemma Uint32ToIPv4_not_Nil [simp]: "Uint32ToIPv4 u \<noteq> []"
  by (simp add: Uint32ToIPv4_def bytes_of_u32_def ipv4_str_4)

lemma IsIPv4_Uint32ToIPv4 [simp]: "IsIPv4 (Uint32ToIPv4 u)"
  by (simp add: IsIPv4_def)

lemma IsIPv4_obtain:
  assumes "IsIPv4 s"
  obtains u where "IPv4ToUint32 s = Some u"
  using assms by (auto simp: IsIPv4_def)

lemma IsIPv4_not_IsIPv6: "IsIPv4 s \<Longrightarrow> \<not> IsIPv6 s"
  by (auto simp: IsIPv4_def IsIPv6_def IPv4ToUint32_def split: option.splits)

lemma IsIP_iff: "IsIP s \<longleftrightarrow> IsIPv4 s \<or> IsIPv6 s"
  by (auto simp: IsIP_def IsIPv4_def IsIPv6_def IPv4ToUint32_def split: option.splits)

text \<open>Printing a 32-bit address and parsing the text gives the address back, and an address that parses as IPv4 never counts as IPv6.\<close>

theorem ipv4_print_parse:
  "IPv4ToUint32 (Uint32ToIPv4 u) = Some u \<and> IsIPv4 (Uint32ToIPv4 u) \<and> \<not> IsIPv6 (Uint32ToIPv4 u)"
  by (simp add: IsIPv4_not_IsIPv6)

section \<open>Netmasks\<close>

lemma bit_test_iff: "drop_bit i u AND 1 = (1 :: u32) \<longleftrightarrow> bit u i"
  by (simp add: and_one_eq bit_iff_odd_drop_bit odd_iff_mod_2_eq_one)

lemma mask_scan_False:
  "mask_scan u i n False = Some r \<longleftrightarrow> r = n \<and> (\<forall>k<i. \<not> bit u k)"
  by (induction i) (auto simp: less_Suc_eq bit_test_iff)

lemma mask_scan_True:
  "mask_scan u i n True = Some r \<longleftrightarrow> n \<le> r \<and> r \<le> n + i \<and> (\<forall>k<i. bit u k \<longleftrightarrow> n + i \<le> r + k)"
proof (induction i arbitrary: n)
  case (Suc i)
  show ?case
  proof (cases "bit u i")
    case True
    then show ?thesis using Suc.IH [of "Suc n"] by (auto simp: bit_test_iff less_Suc_eq)
  next
    case False
    then show ?thesis by (fastforce simp: bit_test_iff less_Suc_eq mask_scan_False)
  qed
qed auto

definition prefix_word :: "nat \<Rightarrow> u32" where
  "prefix_word p = NOT (Bit_Operations.mask (32 - p))"

lemma bit_prefix_word: "bit (prefix_word p) k \<longleftrightarrow> k < 32 \<and> 32 - p \<le> k"
  by (auto simp: prefix_word_def bit_simps)

lemma prefix_word_inj: "p \<le> 32 \<Longrightarrow> q \<le> 32 \<Longrightarrow> prefix_word p = prefix_word q \<Longrightarrow> p = q"
proof (rule ccontr)
  assume le: "p \<le> 32" "q \<le> 32" and eq: "prefix_word p = prefix_word q" and ne: "p \<noteq> q"
  have *: False if "a < b" "b \<le> 32" "prefix_word a = prefix_word b" for a b
  proof -
    have "bit (prefix_word b) (32 - b)" and "\<not> bit (prefix_word a) (32 - b)"
      using that(1,2) by (auto simp: bit_prefix_word)
    with that(3) show False by simp
  qed
  show False
    using ne le eq * [of p q] * [of q p] by (cases "p < q") auto
qed

lemma mask_scan_prefix: "mask_scan u 32 0 True = Some p \<longleftrightarrow> p \<le> 32 \<and> u = prefix_word p"
proof -
  have "(\<forall>k<32. bit u k \<longleftrightarrow> 32 \<le> p + k) \<longleftrightarrow> u = prefix_word p" if "p \<le> 32"
    using that by (auto simp: bit_prefix_word intro!: bit_word_eqI)
  then show ?thesis by (auto simp: mask_scan_True)
qed

lemma MaskToPrefix_iff:
  "MaskToPrefix m = Some p \<longleftrightarrow> 0 \<le> p \<and> p \<le> 32 \<and> IPv4ToUint32 m = Some (prefix_word (nat p))"
  by (cases "IPv4ToUint32 m")
    (auto simp: MaskToPrefix_def mask_scan_prefix intro: exI [of _ "nat p"])

lemma prefix_word_0 [simp]: "prefix_word 0 = 0"
  by (rule bit_word_eqI) (simp add: bit_prefix_word)

lemma PrefixToMask_word:
  assumes "0 \<le> p" and "p \<le> 32"
  shows "PrefixToMask p = Uint32ToIPv4 (prefix_word (nat p))"
proof -
  have m1: "(4294967295 :: u32) = - 1" by simp
  have "push_bit n 4294967295 = (NOT (Bit_Operations.mask n) :: u32)" for n
    unfolding m1 by simp
  moreover have "''0.0.0.0'' = Uint32ToIPv4 0"
    by (simp add: eval_simps)
  ultimately show ?thesis
    using assms prefix_word_0 by (auto simp: PrefixToMask_def prefix_word_def nat_diff_distrib)
qed

lemma netmask_of_prefix: "0 \<le> p \<Longrightarrow> p \<le> 32 \<Longrightarrow> MaskToPrefix (PrefixToMask p) = Some p"
  by (simp add: PrefixToMask_word MaskToPrefix_iff)

text \<open>Prefix lengths 0 to 32 survive the conversion to a dotted netmask and back, and every netmask that has a prefix length denotes the same 32-bit mask as the netmask printed from that length.\<close>

theorem netmask_prefix_roundtrip:
  "(0 \<le> p \<and> p \<le> 32 \<longrightarrow> MaskToPrefix (PrefixToMask p) = Some p) \<and>
   (MaskToPrefix m = Some q \<longrightarrow>
      0 \<le> q \<and> q \<le> 32 \<and> IPv4ToUint32 (PrefixToMask q) = IPv4ToUint32 m)"
  by (auto simp: PrefixToMask_word MaskToPrefix_iff)

theorem netmask_prefix_roundtrip_witness:
  "MaskToPrefix (PrefixToMask 20) = Some 20 \<and> PrefixToMask 24 = ''255.255.255.0'' \<and>
   IPv4ToUint32 (PrefixToMask 24) = IPv4ToUint32 '' 255.255.255.0''"
proof -
  have "MaskToPrefix '' 255.255.255.0'' = Some 24" and "PrefixToMask 24 = ''255.255.255.0''"
    by (simp_all add: eval_simps)
  then show ?thesis
    using netmask_prefix_roundtrip [of 20 "'' 255.255.255.0''" 24] by simp
qed

section \<open>Subnets and ranges\<close>

lemma NetworkBase_Some_iff:
  "NetworkBase ip m = Some b \<longleftrightarrow>
     (\<exists>iu mu. IPv4ToUint32 ip = Some iu \<and> IPv4ToUint32 m = Some mu \<and> b = Uint32ToIPv4 (iu AND mu))"
  by (auto simp: NetworkBase_def split: option.splits)

lemma SameSubnet_iff:
  "SameSubnet a b m \<longleftrightarrow>
     (\<exists>au bu mu. IPv4ToUint32 a = Some au \<and> IPv4ToUint32 b = Some bu \<and> IPv4ToUint32 m = Some mu \<and>
        au AND mu = bu AND mu)"
  by (auto simp: SameSubnet_def NetworkBase_def split: option.splits)

lemma SameSubnet_sym: "SameSubnet a b m = SameSubnet b a m"
  by (auto simp: SameSubnet_iff)

lemma uint_diff_le: "v \<le> (u :: u32) \<Longrightarrow> uint (u - v) = uint u - uint v"
  by (simp add: uint_minus_simple_alt word_le_def)

lemma RangeCount_Some_iff:
  "RangeCount s e = Some n \<longleftrightarrow>
     (\<exists>su eu. IPv4ToUint32 s = Some su \<and> IPv4ToUint32 e = Some eu \<and> su \<le> eu \<and>
        n = uint eu - uint su + 1)"
  by (auto simp: RangeCount_def uint_diff_le not_less split: option.splits)

lemma RangeCount_pos: "RangeCount s e = Some n \<Longrightarrow> 0 < n"
  by (auto simp: RangeCount_Some_iff word_le_def)

lemma IPInRange_iff:
  "IPInRange ip s e \<longleftrightarrow>
     (\<exists>iu su eu. IPv4ToUint32 ip = Some iu \<and> IPv4ToUint32 s = Some su \<and> IPv4ToUint32 e = Some eu \<and>
        su \<le> iu \<and> iu \<le> eu)"
  by (auto simp: IPInRange_def split: option.splits)

text \<open>A contiguous mask keeps the order of what it leaves of two addresses.\<close>

lemma and_prefix_word: "u AND prefix_word p = push_bit (32 - p) (drop_bit (32 - p) u)"
  by (rule bit_word_eqI) (auto simp: bit_simps bit_prefix_word)

lemma and_prefix_between:
  fixes a u c :: u32
  assumes "a AND prefix_word p = c AND prefix_word p" and "a \<le> u" and "u \<le> c"
  shows "u AND prefix_word p = a AND prefix_word p"
proof -
  let ?k = "32 - p"
  have inj: "drop_bit ?k x = drop_bit ?k y" if "x AND prefix_word p = y AND prefix_word p" for x y :: u32
  proof (rule bit_word_eqI)
    fix n
    have "bit (x AND prefix_word p) (n + ?k) = bit (y AND prefix_word p) (n + ?k)"
      using that by simp
    then show "bit (drop_bit ?k x) n = bit (drop_bit ?k y) n"
      by (auto simp: bit_simps bit_prefix_word add.commute dest: bit_imp_le_length)
  qed
  have mono: "drop_bit ?k x \<le> drop_bit ?k y" if "x \<le> y" for x y :: u32
    using that unfolding word_le_nat_alt unat_drop_bit_eq
    by (simp add: drop_bit_eq_div div_le_mono)
  have "drop_bit ?k a = drop_bit ?k c"
    using assms(1) by (rule inj)
  with mono [OF assms(2)] mono [OF assms(3)] have "drop_bit ?k u = drop_bit ?k a"
    by simp
  then show ?thesis by (simp add: and_prefix_word)
qed

lemma SameSubnet_between:
  assumes "IsValidNetmask m" and "SameSubnet s ip m" and "SameSubnet e ip m" and "IPInRange x s e"
  shows "SameSubnet x ip m"
proof -
  from assms(1) obtain p where p: "MaskToPrefix m = Some p"
    by (auto simp: IsValidNetmask_def)
  then have m: "IPv4ToUint32 m = Some (prefix_word (nat p))"
    by (simp add: MaskToPrefix_iff)
  from assms(2-4) m obtain su eu iu xu where
    a: "IPv4ToUint32 s = Some su" "IPv4ToUint32 e = Some eu" "IPv4ToUint32 ip = Some iu"
      "IPv4ToUint32 x = Some xu" and le: "su \<le> xu" "xu \<le> eu"
    and eq: "su AND prefix_word (nat p) = iu AND prefix_word (nat p)"
      "eu AND prefix_word (nat p) = iu AND prefix_word (nat p)"
    by (auto simp: SameSubnet_iff IPInRange_iff)
  have "xu AND prefix_word (nat p) = su AND prefix_word (nat p)"
    by (rule and_prefix_between [OF trans [OF eq(1) eq(2) [symmetric]] le])
  from trans [OF this eq(1)] a m show ?thesis
    unfolding SameSubnet_iff by blast
qed

lemma DHCPStartLimit_Some:
  assumes "DHCPStartLimit ip m s e = Some (st, n)"
  obtains iu mu su eu where "IPv4ToUint32 ip = Some iu" and "IPv4ToUint32 m = Some mu"
    and "IPv4ToUint32 s = Some su" and "IPv4ToUint32 e = Some eu"
    and "iu AND mu \<le> su" and "su \<le> eu" and "su AND mu = iu AND mu" and "eu AND mu = iu AND mu"
    and "st = uint su - uint (iu AND mu)" and "n = uint eu - uint su + 1"
  using assms
  by (auto simp: DHCPStartLimit_def Let_def or0_def NetworkBase_Some_iff SameSubnet_iff not_less uint_diff_le
      split: option.splits if_splits)

text \<open>C38: when a pool has a start offset and a limit, the offset counted from the network base of the interface is the first pool address and the limit counted from there ends at the last one, both inside 32 bits; and under a contiguous netmask every address of the pool lies in the subnet of the interface.\<close>

theorem dhcp_start_limit_correct:
  assumes "DHCPStartLimit ip m s e = Some (st, n)"
  shows "0 \<le> st \<and> 0 < n \<and>
    (\<exists>b su eu. Option.bind (NetworkBase ip m) IPv4ToUint32 = Some b \<and>
       IPv4ToUint32 s = Some su \<and> IPv4ToUint32 e = Some eu \<and>
       uint su = uint b + st \<and> uint eu = uint b + st + n - 1) \<and>
    (IsValidNetmask m \<longrightarrow> (\<forall>x. IPInRange x s e \<longrightarrow> SameSubnet x ip m))"
  using assms
proof (rule DHCPStartLimit_Some)
  fix iu mu su eu
  assume a: "IPv4ToUint32 ip = Some iu" "IPv4ToUint32 m = Some mu" "IPv4ToUint32 s = Some su"
    "IPv4ToUint32 e = Some eu" "iu AND mu \<le> su" "su \<le> eu" "su AND mu = iu AND mu" "eu AND mu = iu AND mu"
    "st = uint su - uint (iu AND mu)" "n = uint eu - uint su + 1"
  then have sub: "SameSubnet s ip m" "SameSubnet e ip m"
    by (auto simp: SameSubnet_iff)
  have "NetworkBase ip m = Some (Uint32ToIPv4 (iu AND mu))"
    using a by (simp add: NetworkBase_def)
  with a sub show ?thesis
    by (auto simp: word_le_def intro: SameSubnet_between)
qed

theorem dhcp_start_limit_correct_witness:
  "DHCPStartLimit ''192.168.1.1'' ''255.255.255.0'' ''192.168.1.100'' ''192.168.1.200'' = Some (100, 101) \<and>
   SameSubnet ''192.168.1.150'' ''192.168.1.1'' ''255.255.255.0''"
proof -
  have d: "DHCPStartLimit ''192.168.1.1'' ''255.255.255.0'' ''192.168.1.100'' ''192.168.1.200'' = Some (100, 101)"
    by (simp add: eval_simps)
  moreover have "IsValidNetmask ''255.255.255.0''"
    by (simp add: eval_simps)
  moreover have "IPInRange ''192.168.1.150'' ''192.168.1.100'' ''192.168.1.200''"
    by (simp add: eval_simps)
  ultimately show ?thesis
    using dhcp_start_limit_correct [OF d] by blast
qed

section \<open>Normalised MAC addresses\<close>

definition mac_str :: "nat list \<Rightarrow> string" where
  "mac_str hw = go_Join (map (\<lambda>b. map upper_char (byteHex b)) hw) '':''"

definition upper_hex :: "nat \<Rightarrow> char" where
  "upper_hex n = upper_char (hex_digit n)"

lemma upper_hex_all:
  "\<forall>n \<in> {0, 1, 2, 3, 4, 5, 6, 7, 8, 9, 10, 11, 12, 13, 14, 15}.
     hex_val (upper_hex n) = Some n \<and> 33 \<le> code (upper_hex n) \<and> code (upper_hex n) < 127 \<and>
     upper_hex n \<noteq> CHR ''-'' \<and> upper_hex n \<noteq> CHR '':''"
  by (simp add: upper_hex_def eval_simps)

lemma upper_hex:
  assumes "n < 16"
  shows "hex_val (upper_hex n) = Some n" "33 \<le> code (upper_hex n)" "code (upper_hex n) < 127"
    "upper_hex n \<noteq> CHR ''-''" "upper_hex n \<noteq> CHR '':''"
proof -
  have "n \<in> {0, 1, 2, 3, 4, 5, 6, 7, 8, 9, 10, 11, 12, 13, 14, 15}"
    unfolding insert_iff empty_iff using assms by presburger
  with upper_hex_all show "hex_val (upper_hex n) = Some n" "33 \<le> code (upper_hex n)"
    "code (upper_hex n) < 127" "upper_hex n \<noteq> CHR ''-''" "upper_hex n \<noteq> CHR '':''"
    by blast+
qed

lemma hex_pair_upper: "b < 256 \<Longrightarrow> hex_pair (upper_hex (b div 16)) (upper_hex (b mod 16)) = Some b"
  by (simp add: hex_pair_def upper_hex)

definition bytes6 :: "nat list \<Rightarrow> bool" where
  "bytes6 hw \<longleftrightarrow> length hw = 6 \<and> list_all (\<lambda>b. b < 256) hw"

lemma bytes6_cases:
  assumes "bytes6 hw"
  obtains a b c d e f where "hw = [a, b, c, d, e, f]" and "a < 256" and "b < 256" and "c < 256"
    and "d < 256" and "e < 256" and "f < 256"
  using assms by (auto simp: bytes6_def numeral_eq_Suc length_Suc_conv)

lemma mac_str_6: "mac_str [a, b, c, d, e, f] =
  [upper_hex (a div 16), upper_hex (a mod 16), CHR '':'', upper_hex (b div 16), upper_hex (b mod 16), CHR '':'',
   upper_hex (c div 16), upper_hex (c mod 16), CHR '':'', upper_hex (d div 16), upper_hex (d mod 16), CHR '':'',
   upper_hex (e div 16), upper_hex (e mod 16), CHR '':'', upper_hex (f div 16), upper_hex (f mod 16)]"
  by (simp add: mac_str_def byteHex_def upper_hex_def)

lemma div_16_less [simp]: "(b :: nat) < 256 \<Longrightarrow> b div 16 < 16"
  by (simp add: less_mult_imp_div_less)

lemma plain_mac_str: "bytes6 hw \<Longrightarrow> plain (mac_str hw)"
  by (erule bytes6_cases) (simp add: mac_str_6 upper_hex, simp add: code_def)

lemma go_ReplaceByte_absent: "d \<notin> set s \<Longrightarrow> go_ReplaceByte s d r = s"
  by (induction s) (auto simp: go_ReplaceByte_def)

lemma mac_str_no_dash: "bytes6 hw \<Longrightarrow> CHR ''-'' \<notin> set (mac_str hw)"
  by (erule bytes6_cases) (simp add: mac_str_6 upper_hex(4) [THEN not_sym])

lemma mac_pairs_str:
  assumes "bytes6 hw"
  shows "mac_pairs CHR '':'' (mac_str hw) = Some hw"
  using assms by (rule bytes6_cases) (simp add: mac_str_6 hex_pair_upper)

lemma go_ParseMAC_str: "bytes6 hw \<Longrightarrow> go_ParseMAC (mac_str hw) = Some hw"
  by (elim bytes6_cases) (simp add: go_ParseMAC_def mac_str_6 hex_pair_upper)

lemma hex_val_less: "hex_val c = Some v \<Longrightarrow> v < 16"
  by (auto simp: hex_val_def is_digit_def split: if_splits)

lemma hex_pair_less: "hex_pair a b = Some n \<Longrightarrow> n < 256"
  by (auto simp: hex_pair_def dest!: hex_val_less split: option.splits)

lemma mac_pairs_less: "mac_pairs d s = Some bs \<Longrightarrow> list_all (\<lambda>b. b < 256) bs"
  by (induction d s arbitrary: bs rule: mac_pairs.induct)
    (auto dest: hex_pair_less split: if_splits option.splits)

lemma mac_quads_less: "mac_quads s = Some bs \<Longrightarrow> list_all (\<lambda>b. b < 256) bs"
  by (induction s arbitrary: bs rule: mac_quads.induct)
    (auto dest: hex_pair_less split: if_splits option.splits)

lemma go_ParseMAC_less: "go_ParseMAC s = Some bs \<Longrightarrow> list_all (\<lambda>b. b < 256) bs"
  by (auto simp: go_ParseMAC_def dest: mac_pairs_less mac_quads_less split: if_splits option.splits)

lemma NormalizeMAC_cases:
  obtains "NormalizeMAC s = []" | hw where "bytes6 hw" and "NormalizeMAC s = mac_str hw"
proof (cases "NormalizeMAC s = []")
  case False
  then obtain hw where "go_ParseMAC (go_ReplaceByte (go_TrimSpace s) CHR ''-'' '':'') = Some hw"
    and "length hw = 6" and "NormalizeMAC s = mac_str hw"
    by (auto simp: NormalizeMAC_def Let_def mac_str_def split: option.splits if_splits)
  then show ?thesis
    using that(2) [of hw] by (simp add: bytes6_def go_ParseMAC_less)
qed (rule that(1))

lemma mac_str_not_Nil [simp]: "bytes6 hw \<Longrightarrow> mac_str hw \<noteq> []"
  by (elim bytes6_cases) (simp add: mac_str_6)

lemma NormalizeMAC_mac_str:
  assumes "bytes6 hw"
  shows "NormalizeMAC (mac_str hw) = mac_str hw"
  using assms plain_mac_str [OF assms] mac_str_no_dash [OF assms]
  by (simp add: NormalizeMAC_def go_TrimSpace_plain go_ReplaceByte_absent go_ParseMAC_str Let_def)
    (simp add: bytes6_def mac_str_def)

lemma NormalizeMAC_Nil [simp]: "NormalizeMAC [] = []"
  by (simp add: eval_simps)

lemma NormalizeMAC_idem [simp]: "NormalizeMAC (NormalizeMAC s) = NormalizeMAC s"
  by (rule NormalizeMAC_cases [of s]) (simp_all add: NormalizeMAC_mac_str)

lemma length_mac_str: "bytes6 hw \<Longrightarrow> length (mac_str hw) = 17"
  by (elim bytes6_cases) (simp add: mac_str_6)

text \<open>Normalising a MAC address is idempotent, and the result is empty or exactly the 17 bytes AA:BB:CC:DD:EE:FF that print six octets and parse back to them.\<close>

theorem normalize_mac_canonical:
  "NormalizeMAC (NormalizeMAC s) = NormalizeMAC s \<and>
   (NormalizeMAC s = [] \<or>
    (\<exists>hw. bytes6 hw \<and> NormalizeMAC s = mac_str hw \<and> go_ParseMAC (NormalizeMAC s) = Some hw \<and>
       length (NormalizeMAC s) = 17))"
  by (rule NormalizeMAC_cases [of s]) (auto simp: NormalizeMAC_mac_str go_ParseMAC_str length_mac_str)

end
