(* ===== verification/Types.thy ===== *)
theory Types
  imports Netutil
begin

text \<open>
  internal/netcfg/types.go, iface_types.go, ipv6_types.go and dns_types.go: the configuration
  data. One record per struct, its fields in the order of the source and with its names, behind a
  prefix of its own (\<open>ds_\<close> for DHCPServer, \<open>sl_\<close> for StaticLease, ...). A slice is a list (a nil
  slice and an empty one are the same list), \<open>*bool\<close> is \<open>bool option\<close>, a map is a partial
  function, and \<open>int\<close> and \<open>int64\<close> are \<open>int\<close>.
\<close>

section \<open>String constants\<close>

abbreviation KindUCI :: string where "KindUCI \<equiv> ''uci''"
abbreviation KindStore :: string where "KindStore \<equiv> ''store''"
abbreviation ACLBlacklist :: string where "ACLBlacklist \<equiv> ''blacklist''"
abbreviation ACLWhitelist :: string where "ACLWhitelist \<equiv> ''whitelist''"
abbreviation FamilyIPv4 :: string where "FamilyIPv4 \<equiv> ''ipv4''"
abbreviation FamilyIPv6 :: string where "FamilyIPv6 \<equiv> ''ipv6''"
abbreviation RoutePushOff :: string where "RoutePushOff \<equiv> ''off''"
abbreviation RoutePushAll :: string where "RoutePushAll \<equiv> ''all''"
abbreviation RoutePushTagged :: string where "RoutePushTagged \<equiv> ''tagged''"
abbreviation RoleLAN :: string where "RoleLAN \<equiv> ''lan''"
abbreviation RoleWAN :: string where "RoleWAN \<equiv> ''wan''"
abbreviation ProtoStatic :: string where "ProtoStatic \<equiv> ''static''"
abbreviation ProtoDHCP :: string where "ProtoDHCP \<equiv> ''dhcp''"
abbreviation ProtoPPPoE :: string where "ProtoPPPoE \<equiv> ''pppoe''"
abbreviation IfStatusConnected :: string where "IfStatusConnected \<equiv> ''connected''"
abbreviation IfStatusConnecting :: string where "IfStatusConnecting \<equiv> ''connecting''"
abbreviation IfStatusDisconnected :: string where "IfStatusDisconnected \<equiv> ''disconnected''"
abbreviation ProtoDHCPv6 :: string where "ProtoDHCPv6 \<equiv> ''dhcpv6''"
abbreviation ProtoStatic6 :: string where "ProtoStatic6 \<equiv> ''static6''"
abbreviation Proto6in4 :: string where "Proto6in4 \<equiv> ''6in4''"
abbreviation Proto6to4 :: string where "Proto6to4 \<equiv> ''6to4''"
abbreviation Proto6rd :: string where "Proto6rd \<equiv> ''6rd''"
abbreviation ConfigTypeAuto :: string where "ConfigTypeAuto \<equiv> ''auto''"
abbreviation ConfigTypeStatic :: string where "ConfigTypeStatic \<equiv> ''static''"
abbreviation DHCPv6Stateless :: string where "DHCPv6Stateless \<equiv> ''stateless''"
abbreviation DHCPv6Stateful :: string where "DHCPv6Stateful \<equiv> ''stateful''"
abbreviation DHCPv6StatefulOnly :: string where "DHCPv6StatefulOnly \<equiv> ''stateful_only''"
abbreviation ACLv6MethodDUID :: string where "ACLv6MethodDUID \<equiv> ''duid''"
abbreviation ACLv6MethodL2 :: string where "ACLv6MethodL2 \<equiv> ''l2mac''"
abbreviation DNSRecordA :: string where "DNSRecordA \<equiv> ''A''"
abbreviation DNSRecordAAAA :: string where "DNSRecordAAAA \<equiv> ''AAAA''"

section \<open>Records\<close>

record CustomOption =
  co_Code :: int
  co_Value :: string
  co_Type :: string

record DHCPServer =
  ds_ID :: string
  ds_Interface :: string
  ds_Enabled :: bool
  ds_IPStart :: string
  ds_IPEnd :: string
  ds_Force :: bool
  ds_Netmask :: string
  ds_Gateway :: string
  ds_DNSPrimary :: string
  ds_DNSSecondary :: string
  ds_LeaseMinutes :: int
  ds_Exclude :: "string list"
  ds_CustomOptions :: "CustomOption list"
  ds_Remaining :: int
  ds_Managed :: bool

record StaticLease =
  sl_ID :: string
  sl_Hostname :: string
  sl_IP :: string
  sl_MAC :: string
  sl_Gateway :: string
  sl_Interface :: string
  sl_DNSPrimary :: string
  sl_DNSSecondary :: string
  sl_Remark :: string
  sl_Enabled :: bool
  sl_RoutePush :: bool
  sl_Managed :: bool

record Lease =
  le_Hostname :: string
  le_IP :: string
  le_MAC :: string
  le_Expiry :: int
  le_RemainingSeconds :: int
  le_Interface :: string
  le_Static :: bool
  le_Remark :: string
  le_Vendor :: string

record ACLEntry =
  ae_ID :: string
  ae_MAC :: string
  ae_Remark :: string
  ae_Enabled :: bool
  ae_Managed :: bool

record ACL =
  acl_Mode :: string
  acl_Entries :: "ACLEntry list"

record Route =
  rt_ID :: string
  rt_Family :: string
  rt_Interface :: string
  rt_Target :: string
  rt_Netmask :: string
  rt_Prefix :: int
  rt_Gateway :: string
  rt_Metric :: int
  rt_Type :: string
  rt_MTU :: int
  rt_Table :: int
  rt_Remark :: string
  rt_Enabled :: bool
  rt_PushToClients :: bool
  rt_Managed :: bool

record PolicyRule =
  pr_ID :: string
  pr_Family :: string
  pr_Enabled :: bool
  pr_Priority :: int
  pr_Src :: string
  pr_Dest :: string
  pr_InIface :: string
  pr_Lookup :: string
  pr_Remark :: string
  pr_Managed :: bool

record RouteEntry =
  re_Interface :: string
  re_Target :: string
  re_Netmask :: string
  re_Gateway :: string
  re_Metric :: int

record Interface =
  if_Name :: string
  if_IPv4 :: string
  if_Netmask :: string
  if_Prefix :: int
  if_Up :: bool

record Status =
  st_Backend :: string
  st_DHCPOK :: bool
  st_EnabledServers :: int
  st_Pending :: bool
  st_Message :: string

record IfaceAddr =
  ia_Address :: string
  ia_Prefix :: int
  ia_Family :: string
  ia_Remark :: string
  ia_Enabled :: bool

record NetIface =
  ni_ID :: string
  ni_Name :: string
  ni_Role :: string
  ni_Proto :: string
  ni_Device :: string
  ni_Ports :: "string list"
  ni_IPAddr :: string
  ni_Netmask :: string
  ni_Gateway :: string
  ni_DNS :: "string list"
  ni_DNSMetric :: int
  ni_DNSPrimaryLegacy :: string
  ni_DNSSecondaryLegacy :: string
  ni_Username :: string
  ni_Password :: string
  ni_Service :: string
  ni_AC :: string
  ni_MTU :: int
  ni_DefaultGW :: bool
  ni_CloneMAC :: string
  ni_Remark :: string
  ni_ExtraAddrs :: "IfaceAddr list"
  ni_Metric :: int
  ni_PeerDNS :: "bool option"
  ni_Broadcast :: string
  ni_ForceLink :: "bool option"
  ni_Auto :: "bool option"
  ni_IP6Assign :: int
  ni_IP6Hint :: string
  ni_IP6Gw :: string
  ni_IP6Prefix :: string
  ni_IP6IfaceID :: string
  ni_Keepalive :: string
  ni_PPPoEv6 :: "bool option"
  ni_Up :: bool
  ni_RuntimeIP :: string
  ni_Status :: string

record WANv6 =
  w6_ID :: string
  w6_Name :: string
  w6_WANIface :: string
  w6_Device :: string
  w6_Proto :: string
  w6_Enabled :: bool
  w6_ReqPrefix :: string
  w6_FixedPrefix :: string
  w6_ForcePrefix :: bool
  w6_ClientID :: string
  w6_NoRelease :: bool
  w6_PeerDNS :: bool
  w6_DNSPrimary :: string
  w6_DNSSecondary :: string
  w6_StaticIP6 :: string
  w6_StaticGW :: string
  w6_PeerAddr :: string
  w6_TunPrefix :: string
  w6_MTU :: int
  w6_Remark :: string
  w6_IP6Address :: string
  w6_IP6Gateway :: string
  w6_IP6Prefix :: string
  w6_LocalLink :: string
  w6_Up :: bool
  w6_Managed :: bool

record LANv6 =
  l6_ID :: string
  l6_Interface :: string
  l6_ConfigType :: string
  l6_BindWAN :: string
  l6_PrefixAssignLen :: int
  l6_PrefixHint :: string
  l6_StaticIP6 :: string
  l6_DHCPv6Enabled :: bool
  l6_DHCPv6Mode :: string
  l6_IPv6DNSEnabled :: bool
  l6_DNSServers :: "string list"
  l6_LeaseMinutes :: int
  l6_RAMTUEnabled :: bool
  l6_RAMTU :: int
  l6_Enabled :: bool
  l6_Remark :: string
  l6_IP6Address :: string
  l6_LocalLink :: string
  l6_Managed :: bool

record PrefixStaticV6 =
  p6_ID :: string
  p6_LocalLink :: string
  p6_LANInterface :: string
  p6_WANLine :: string
  p6_DUID :: string
  p6_HostID :: string
  p6_MAC :: string
  p6_Remark :: string
  p6_Enabled :: bool
  p6_Managed :: bool

record ACLv6Entry =
  a6_ID :: string
  a6_MAC :: string
  a6_DUID :: string
  a6_Method :: string
  a6_Remark :: string
  a6_Enabled :: bool
  a6_Managed :: bool

record ACLv6 =
  acl6_Mode :: string
  acl6_Entries :: "ACLv6Entry list"

record DNSSettings =
  dn_Enabled :: bool
  dn_DNSPrimary :: string
  dn_DNSSecondary :: string
  dn_NoResolv :: bool
  dn_FilterAAAA :: bool
  dn_CacheSize :: int
  dn_LocalTTL :: int
  dn_MinCacheTTL :: int
  dn_MaxCacheTTL :: int
  dn_ForceProxy :: bool
  dn_DNSSEC :: bool
  dn_RebindProtect :: bool
  dn_AllServers :: bool
  dn_RebindDomains :: "string list"
  dn_SavedStock :: "(string \<rightharpoonup> string) option"
  dn_PrevServers :: "string list"
  dn_PrevAddrs :: "string list"
  dn_PrevRebindDomains :: "string list"

record DNSDoH =
  dh_Enabled :: bool
  dh_ResolverURL :: string
  dh_ListenPort :: int
  dh_BootstrapDNS :: string

record DNSRecord =
  dr_ID :: string
  dr_Domain :: string
  dr_RecordType :: string
  dr_Address :: string
  dr_Wildcard :: bool
  dr_SrcIPScope :: string
  dr_Remark :: string
  dr_Enabled :: bool
  dr_Managed :: bool

record DNSDomainRoute =
  dd_ID :: string
  dd_Domain :: string
  dd_Server :: string
  dd_OutIface :: string
  dd_Remark :: string
  dd_Enabled :: bool
  dd_Managed :: bool

record State =
  S_DHCPServers :: "DHCPServer list"
  S_Statics :: "StaticLease list"
  S_ARPBind :: bool
  S_ACL :: ACL
  S_Routes :: "Route list"
  S_PolicyRules :: "PolicyRule list"
  S_RoutePushMode :: string
  S_NetIfaces :: "NetIface list"
  S_WANv6s :: "WANv6 list"
  S_LANv6s :: "LANv6 list"
  S_PrefixStaticsV6 :: "PrefixStaticV6 list"
  S_ACLv6 :: ACLv6
  S_DNS :: DNSSettings
  S_DNSDoH :: DNSDoH
  S_DNSRecords :: "DNSRecord list"
  S_DNSDomainRoutes :: "DNSDomainRoute list"
  S_LeaseNotes :: "string \<rightharpoonup> string"

text \<open>Read-only data of the runtime: network cards, DHCPv6 leases, neighbours, the overview page.\<close>

record NIC =
  nic_Name :: string
  nic_MAC :: string
  nic_Up :: bool
  nic_Running :: bool
  nic_SpeedMb :: int
  nic_Duplex :: string
  nic_MTU :: int
  nic_Kind :: string
  nic_Bound :: string
  nic_Role :: string
  nic_RxBytes :: "64 word"
  nic_TxBytes :: "64 word"
  nic_IPAddrs :: "string list"

record LeaseV6 =
  v6_Hostname :: string
  v6_MAC :: string
  v6_LocalLink :: string
  v6_IPv6Addr :: string
  v6_DUID :: string
  v6_IAID :: string
  v6_Interface :: string
  v6_ValidSeconds :: int
  v6_Static :: bool
  v6_Remark :: string
  v6_Vendor :: string

record NeighborV6 =
  nb_MAC :: string
  nb_IPv6 :: string
  nb_Interface :: string
  nb_State :: string
  nb_Router :: bool
  nb_Remark :: string
  nb_Vendor :: string

record NetOverview =
  ov_WANCount :: int
  ov_WANUp :: int
  ov_Connections :: int
  ov_LANCount :: int
  ov_LANUp :: int
  ov_DHCPOn :: int
  ov_Terminals :: int
  ov_FreePorts :: int
  ov_WANs :: "NetIface list"
  ov_LANs :: "NetIface list"

definition runtimeStatus :: "bool \<Rightarrow> bool \<Rightarrow> string" where
  "runtimeStatus up pending =
     (if up then IfStatusConnected else if pending then IfStatusConnecting else IfStatusDisconnected)"

section \<open>The zero value and cloning\<close>

definition zeroDNSSettings :: DNSSettings where
  "zeroDNSSettings = \<lparr>dn_Enabled = False, dn_DNSPrimary = [], dn_DNSSecondary = [], dn_NoResolv = False,
     dn_FilterAAAA = False, dn_CacheSize = 0, dn_LocalTTL = 0, dn_MinCacheTTL = 0, dn_MaxCacheTTL = 0,
     dn_ForceProxy = False, dn_DNSSEC = False, dn_RebindProtect = False, dn_AllServers = False,
     dn_RebindDomains = [], dn_SavedStock = None, dn_PrevServers = [], dn_PrevAddrs = [],
     dn_PrevRebindDomains = []\<rparr>"

definition zeroDNSDoH :: DNSDoH where
  "zeroDNSDoH = \<lparr>dh_Enabled = False, dh_ResolverURL = [], dh_ListenPort = 0, dh_BootstrapDNS = []\<rparr>"

definition zeroState :: State where
  "zeroState = \<lparr>S_DHCPServers = [], S_Statics = [], S_ARPBind = False,
     S_ACL = \<lparr>acl_Mode = [], acl_Entries = []\<rparr>, S_Routes = [], S_PolicyRules = [],
     S_RoutePushMode = [], S_NetIfaces = [], S_WANv6s = [], S_LANv6s = [], S_PrefixStaticsV6 = [],
     S_ACLv6 = \<lparr>acl6_Mode = [], acl6_Entries = []\<rparr>, S_DNS = zeroDNSSettings,
     S_DNSDoH = zeroDNSDoH, S_DNSRecords = [], S_DNSDomainRoutes = [], S_LeaseNotes = Map.empty\<rparr>"

definition zeroDHCPServer :: DHCPServer where
  "zeroDHCPServer = \<lparr>ds_ID = [], ds_Interface = [], ds_Enabled = False, ds_IPStart = [],
     ds_IPEnd = [], ds_Force = False, ds_Netmask = [], ds_Gateway = [], ds_DNSPrimary = [],
     ds_DNSSecondary = [], ds_LeaseMinutes = 0, ds_Exclude = [], ds_CustomOptions = [], ds_Remaining
     = 0, ds_Managed = False\<rparr>"

definition zeroStaticLease :: StaticLease where
  "zeroStaticLease = \<lparr>sl_ID = [], sl_Hostname = [], sl_IP = [], sl_MAC = [], sl_Gateway = [],
     sl_Interface = [], sl_DNSPrimary = [], sl_DNSSecondary = [], sl_Remark = [], sl_Enabled =
     False, sl_RoutePush = False, sl_Managed = False\<rparr>"

definition zeroLease :: Lease where
  "zeroLease = \<lparr>le_Hostname = [], le_IP = [], le_MAC = [], le_Expiry = 0, le_RemainingSeconds
     = 0, le_Interface = [], le_Static = False, le_Remark = [], le_Vendor = []\<rparr>"

definition zeroACLEntry :: ACLEntry where
  "zeroACLEntry = \<lparr>ae_ID = [], ae_MAC = [], ae_Remark = [], ae_Enabled = False, ae_Managed =
     False\<rparr>"

definition zeroRoute :: Route where
  "zeroRoute = \<lparr>rt_ID = [], rt_Family = [], rt_Interface = [], rt_Target = [], rt_Netmask =
     [], rt_Prefix = 0, rt_Gateway = [], rt_Metric = 0, rt_Type = [], rt_MTU = 0, rt_Table = 0,
     rt_Remark = [], rt_Enabled = False, rt_PushToClients = False, rt_Managed = False\<rparr>"

definition zeroPolicyRule :: PolicyRule where
  "zeroPolicyRule = \<lparr>pr_ID = [], pr_Family = [], pr_Enabled = False, pr_Priority = 0, pr_Src
     = [], pr_Dest = [], pr_InIface = [], pr_Lookup = [], pr_Remark = [], pr_Managed =
     False\<rparr>"

definition zeroRouteEntry :: RouteEntry where
  "zeroRouteEntry = \<lparr>re_Interface = [], re_Target = [], re_Netmask = [], re_Gateway = [],
     re_Metric = 0\<rparr>"

definition zeroNetIface :: NetIface where
  "zeroNetIface = \<lparr>ni_ID = [], ni_Name = [], ni_Role = [], ni_Proto = [], ni_Device = [],
     ni_Ports = [], ni_IPAddr = [], ni_Netmask = [], ni_Gateway = [], ni_DNS = [], ni_DNSMetric = 0,
     ni_DNSPrimaryLegacy = [], ni_DNSSecondaryLegacy = [], ni_Username = [], ni_Password = [],
     ni_Service = [], ni_AC = [], ni_MTU = 0, ni_DefaultGW = False, ni_CloneMAC = [], ni_Remark =
     [], ni_ExtraAddrs = [], ni_Metric = 0, ni_PeerDNS = None, ni_Broadcast = [], ni_ForceLink =
     None, ni_Auto = None, ni_IP6Assign = 0, ni_IP6Hint = [], ni_IP6Gw = [], ni_IP6Prefix = [],
     ni_IP6IfaceID = [], ni_Keepalive = [], ni_PPPoEv6 = None, ni_Up = False, ni_RuntimeIP = [],
     ni_Status = []\<rparr>"

definition zeroWANv6 :: WANv6 where
  "zeroWANv6 = \<lparr>w6_ID = [], w6_Name = [], w6_WANIface = [], w6_Device = [], w6_Proto = [],
     w6_Enabled = False, w6_ReqPrefix = [], w6_FixedPrefix = [], w6_ForcePrefix = False, w6_ClientID
     = [], w6_NoRelease = False, w6_PeerDNS = False, w6_DNSPrimary = [], w6_DNSSecondary = [],
     w6_StaticIP6 = [], w6_StaticGW = [], w6_PeerAddr = [], w6_TunPrefix = [], w6_MTU = 0, w6_Remark
     = [], w6_IP6Address = [], w6_IP6Gateway = [], w6_IP6Prefix = [], w6_LocalLink = [], w6_Up =
     False, w6_Managed = False\<rparr>"

definition zeroLANv6 :: LANv6 where
  "zeroLANv6 = \<lparr>l6_ID = [], l6_Interface = [], l6_ConfigType = [], l6_BindWAN = [],
     l6_PrefixAssignLen = 0, l6_PrefixHint = [], l6_StaticIP6 = [], l6_DHCPv6Enabled = False,
     l6_DHCPv6Mode = [], l6_IPv6DNSEnabled = False, l6_DNSServers = [], l6_LeaseMinutes = 0,
     l6_RAMTUEnabled = False, l6_RAMTU = 0, l6_Enabled = False, l6_Remark = [], l6_IP6Address = [],
     l6_LocalLink = [], l6_Managed = False\<rparr>"

definition zeroDNSRecord :: DNSRecord where
  "zeroDNSRecord = \<lparr>dr_ID = [], dr_Domain = [], dr_RecordType = [], dr_Address = [],
     dr_Wildcard = False, dr_SrcIPScope = [], dr_Remark = [], dr_Enabled = False, dr_Managed =
     False\<rparr>"

definition zeroDNSDomainRoute :: DNSDomainRoute where
  "zeroDNSDomainRoute = \<lparr>dd_ID = [], dd_Domain = [], dd_Server = [], dd_OutIface = [],
     dd_Remark = [], dd_Enabled = False, dd_Managed = False\<rparr>"

lemmas zero_eval [eval_simps] =
  zeroDNSSettings_def zeroDNSDoH_def zeroState_def zeroDHCPServer_def
  zeroStaticLease_def zeroLease_def zeroACLEntry_def zeroRoute_def zeroPolicyRule_def zeroRouteEntry_def
  zeroNetIface_def zeroWANv6_def zeroLANv6_def zeroDNSRecord_def zeroDNSDomainRoute_def

text \<open>
  Values have no addresses here, so a copy of a slice, of a pointed-to bool or of a map is the
  value itself; what remains of CloneState is which fields it carries over.
\<close>

definition cloneBoolPtr :: "bool option \<Rightarrow> bool option" where
  "cloneBoolPtr p = (case p of None \<Rightarrow> None | Some v \<Rightarrow> Some v)"

definition cloneStrMap :: "(string \<rightharpoonup> string) \<Rightarrow> (string \<rightharpoonup> string)" where
  "cloneStrMap m = (\<lambda>k. case m k of None \<Rightarrow> None | Some v \<Rightarrow> Some v)"

definition CloneState :: "State \<Rightarrow> State" where
  "CloneState s = zeroState\<lparr>
     S_ARPBind := S_ARPBind s,
     S_RoutePushMode := S_RoutePushMode s,
     S_DHCPServers := map (\<lambda>x. x\<lparr>ds_Exclude := [] @ ds_Exclude x, ds_CustomOptions := [] @ ds_CustomOptions x\<rparr>)
       (S_DHCPServers s),
     S_Statics := [] @ S_Statics s,
     S_Routes := [] @ S_Routes s,
     S_PolicyRules := [] @ S_PolicyRules s,
     S_ACL := \<lparr>acl_Mode = acl_Mode (S_ACL s), acl_Entries = [] @ acl_Entries (S_ACL s)\<rparr>,
     S_NetIfaces := map (\<lambda>x. x\<lparr>ni_Ports := [] @ ni_Ports x, ni_ExtraAddrs := [] @ ni_ExtraAddrs x,
       ni_DNS := [] @ ni_DNS x, ni_PeerDNS := cloneBoolPtr (ni_PeerDNS x),
       ni_ForceLink := cloneBoolPtr (ni_ForceLink x), ni_Auto := cloneBoolPtr (ni_Auto x),
       ni_PPPoEv6 := cloneBoolPtr (ni_PPPoEv6 x)\<rparr>) (S_NetIfaces s),
     S_WANv6s := [] @ S_WANv6s s,
     S_LANv6s := map (\<lambda>x. x\<lparr>l6_DNSServers := [] @ l6_DNSServers x\<rparr>) (S_LANv6s s),
     S_PrefixStaticsV6 := [] @ S_PrefixStaticsV6 s,
     S_ACLv6 := \<lparr>acl6_Mode = acl6_Mode (S_ACLv6 s), acl6_Entries = [] @ acl6_Entries (S_ACLv6 s)\<rparr>,
     S_DNS := (S_DNS s)\<lparr>dn_SavedStock := map_option cloneStrMap (dn_SavedStock (S_DNS s)),
       dn_PrevServers := [] @ dn_PrevServers (S_DNS s), dn_PrevAddrs := [] @ dn_PrevAddrs (S_DNS s),
       dn_RebindDomains := [] @ dn_RebindDomains (S_DNS s),
       dn_PrevRebindDomains := [] @ dn_PrevRebindDomains (S_DNS s)\<rparr>,
     S_DNSDoH := S_DNSDoH s,
     S_DNSRecords := [] @ S_DNSRecords s,
     S_DNSDomainRoutes := [] @ S_DNSDomainRoutes s,
     S_LeaseNotes := cloneStrMap (S_LeaseNotes s)\<rparr>"

lemma cloneBoolPtr_id [simp]: "cloneBoolPtr p = p"
  by (simp add: cloneBoolPtr_def split: option.splits)

lemma cloneStrMap_id [simp]: "cloneStrMap m = m"
  by (auto simp: cloneStrMap_def split: option.splits)

lemma map_option_cloneStrMap [simp]: "map_option cloneStrMap x = x"
  by (cases x) simp_all

lemma CloneState_complete: "CloneState s = s"
  by (simp add: CloneState_def)

section \<open>Items with an id\<close>

text \<open>
  The collections the service edits hold records with the fields ID, Enabled and Managed. The
  generic helpers of service.go (indexByID, dropByID, the bodies of the Set...Enabled, Update...
  and Batch... closures) use these fields through an \<open>item\<close>.
\<close>

record 'a item =
  it_ID :: "'a \<Rightarrow> string"
  it_setID :: "string \<Rightarrow> 'a \<Rightarrow> 'a"
  it_setEnabled :: "bool \<Rightarrow> 'a \<Rightarrow> 'a"
  it_setManaged :: "bool \<Rightarrow> 'a \<Rightarrow> 'a"
  it_Enabled :: "'a \<Rightarrow> bool"
  it_Managed :: "'a \<Rightarrow> bool"

locale item_laws =
  fixes I :: "'a item"
  assumes ID_setID [simp]: "it_ID I (it_setID I i x) = i"
    and ID_setEnabled [simp]: "it_ID I (it_setEnabled I b x) = it_ID I x"
    and ID_setManaged [simp]: "it_ID I (it_setManaged I b x) = it_ID I x"
    and Enabled_setEnabled [simp]: "it_Enabled I (it_setEnabled I b x) = b"
    and Enabled_setManaged [simp]: "it_Enabled I (it_setManaged I b x) = it_Enabled I x"
    and Enabled_setID [simp]: "it_Enabled I (it_setID I i x) = it_Enabled I x"
    and Managed_setManaged [simp]: "it_Managed I (it_setManaged I b x) = b"
    and Managed_setID [simp]: "it_Managed I (it_setID I i x) = it_Managed I x"

definition server_item :: "DHCPServer item" where
  "server_item = \<lparr>it_ID = ds_ID, it_setID = (\<lambda>i x. x\<lparr>ds_ID := i\<rparr>),
     it_setEnabled = (\<lambda>b x. x\<lparr>ds_Enabled := b\<rparr>), it_setManaged = (\<lambda>b x. x\<lparr>ds_Managed := b\<rparr>),
     it_Enabled = ds_Enabled, it_Managed = ds_Managed\<rparr>"

interpretation server_laws: item_laws server_item
  by unfold_locales (simp_all add: server_item_def)

definition static_item :: "StaticLease item" where
  "static_item = \<lparr>it_ID = sl_ID, it_setID = (\<lambda>i x. x\<lparr>sl_ID := i\<rparr>),
     it_setEnabled = (\<lambda>b x. x\<lparr>sl_Enabled := b\<rparr>), it_setManaged = (\<lambda>b x. x\<lparr>sl_Managed := b\<rparr>),
     it_Enabled = sl_Enabled, it_Managed = sl_Managed\<rparr>"

interpretation static_laws: item_laws static_item
  by unfold_locales (simp_all add: static_item_def)

definition route_item :: "Route item" where
  "route_item = \<lparr>it_ID = rt_ID, it_setID = (\<lambda>i x. x\<lparr>rt_ID := i\<rparr>),
     it_setEnabled = (\<lambda>b x. x\<lparr>rt_Enabled := b\<rparr>), it_setManaged = (\<lambda>b x. x\<lparr>rt_Managed := b\<rparr>),
     it_Enabled = rt_Enabled, it_Managed = rt_Managed\<rparr>"

interpretation route_laws: item_laws route_item
  by unfold_locales (simp_all add: route_item_def)

definition rule_item :: "PolicyRule item" where
  "rule_item = \<lparr>it_ID = pr_ID, it_setID = (\<lambda>i x. x\<lparr>pr_ID := i\<rparr>),
     it_setEnabled = (\<lambda>b x. x\<lparr>pr_Enabled := b\<rparr>), it_setManaged = (\<lambda>b x. x\<lparr>pr_Managed := b\<rparr>),
     it_Enabled = pr_Enabled, it_Managed = pr_Managed\<rparr>"

interpretation rule_laws: item_laws rule_item
  by unfold_locales (simp_all add: rule_item_def)

definition record_item :: "DNSRecord item" where
  "record_item = \<lparr>it_ID = dr_ID, it_setID = (\<lambda>i x. x\<lparr>dr_ID := i\<rparr>),
     it_setEnabled = (\<lambda>b x. x\<lparr>dr_Enabled := b\<rparr>), it_setManaged = (\<lambda>b x. x\<lparr>dr_Managed := b\<rparr>),
     it_Enabled = dr_Enabled, it_Managed = dr_Managed\<rparr>"

interpretation record_laws: item_laws record_item
  by unfold_locales (simp_all add: record_item_def)

definition domroute_item :: "DNSDomainRoute item" where
  "domroute_item = \<lparr>it_ID = dd_ID, it_setID = (\<lambda>i x. x\<lparr>dd_ID := i\<rparr>),
     it_setEnabled = (\<lambda>b x. x\<lparr>dd_Enabled := b\<rparr>), it_setManaged = (\<lambda>b x. x\<lparr>dd_Managed := b\<rparr>),
     it_Enabled = dd_Enabled, it_Managed = dd_Managed\<rparr>"

interpretation domroute_laws: item_laws domroute_item
  by unfold_locales (simp_all add: domroute_item_def)

definition acl_item :: "ACLEntry item" where
  "acl_item = \<lparr>it_ID = ae_ID, it_setID = (\<lambda>i x. x\<lparr>ae_ID := i\<rparr>),
     it_setEnabled = (\<lambda>b x. x\<lparr>ae_Enabled := b\<rparr>), it_setManaged = (\<lambda>b x. x\<lparr>ae_Managed := b\<rparr>),
     it_Enabled = ae_Enabled, it_Managed = ae_Managed\<rparr>"

interpretation acl_laws: item_laws acl_item
  by unfold_locales (simp_all add: acl_item_def)

definition wan6_item :: "WANv6 item" where
  "wan6_item = \<lparr>it_ID = w6_ID, it_setID = (\<lambda>i x. x\<lparr>w6_ID := i\<rparr>),
     it_setEnabled = (\<lambda>b x. x\<lparr>w6_Enabled := b\<rparr>), it_setManaged = (\<lambda>b x. x\<lparr>w6_Managed := b\<rparr>),
     it_Enabled = w6_Enabled, it_Managed = w6_Managed\<rparr>"

interpretation wan6_laws: item_laws wan6_item
  by unfold_locales (simp_all add: wan6_item_def)

definition prefix6_item :: "PrefixStaticV6 item" where
  "prefix6_item = \<lparr>it_ID = p6_ID, it_setID = (\<lambda>i x. x\<lparr>p6_ID := i\<rparr>),
     it_setEnabled = (\<lambda>b x. x\<lparr>p6_Enabled := b\<rparr>), it_setManaged = (\<lambda>b x. x\<lparr>p6_Managed := b\<rparr>),
     it_Enabled = p6_Enabled, it_Managed = p6_Managed\<rparr>"

interpretation prefix6_laws: item_laws prefix6_item
  by unfold_locales (simp_all add: prefix6_item_def)

definition acl6_item :: "ACLv6Entry item" where
  "acl6_item = \<lparr>it_ID = a6_ID, it_setID = (\<lambda>i x. x\<lparr>a6_ID := i\<rparr>),
     it_setEnabled = (\<lambda>b x. x\<lparr>a6_Enabled := b\<rparr>), it_setManaged = (\<lambda>b x. x\<lparr>a6_Managed := b\<rparr>),
     it_Enabled = a6_Enabled, it_Managed = a6_Managed\<rparr>"

interpretation acl6_laws: item_laws acl6_item
  by unfold_locales (simp_all add: acl6_item_def)

definition lan6_item :: "LANv6 item" where
  "lan6_item = \<lparr>it_ID = l6_ID, it_setID = (\<lambda>i x. x\<lparr>l6_ID := i\<rparr>),
     it_setEnabled = (\<lambda>b x. x\<lparr>l6_Enabled := b\<rparr>), it_setManaged = (\<lambda>b x. x\<lparr>l6_Managed := b\<rparr>),
     it_Enabled = l6_Enabled, it_Managed = l6_Managed\<rparr>"

interpretation lan6_laws: item_laws lan6_item
  by unfold_locales (simp_all add: lan6_item_def)

end
