(* ===== verification/Collection.thy ===== *)
theory Collection
  imports Types
begin

text \<open>
  The collections of service.go, without state: the generic helpers indexByID, dropByID and toSet,
  and the bodies of the closures that the Update, Delete, Set...Enabled, Toggle and Batch methods
  hand to mutate. They are the same text for every collection and are written once, over an
  \<open>item\<close>. The lemmas show that on the finite map from ids to items they are the map operations
  one expects, and that they keep ids distinct.
\<close>

section \<open>Helpers of service.go\<close>

definition indexByID :: "nat \<Rightarrow> (nat \<Rightarrow> string) \<Rightarrow> string \<Rightarrow> nat option" where
  "indexByID n idAt i = find (\<lambda>k. idAt k = i) [0..<n]"

definition dropByID :: "'a list \<Rightarrow> ('a \<Rightarrow> string) \<Rightarrow> string \<Rightarrow> 'a list \<times> bool" where
  "dropByID list idOf i = (filter (\<lambda>x. idOf x \<noteq> i) list, list_ex (\<lambda>x. idOf x = i) list)"

definition toSet :: "string list \<Rightarrow> string set" where
  "toSet ids = set ids"

section \<open>Closures\<close>

definition index_item :: "'a item \<Rightarrow> string \<Rightarrow> 'a list \<Rightarrow> nat option" where
  "index_item I i list = indexByID (length list) (\<lambda>k. it_ID I (list ! k)) i"

text \<open>\<open>in.ID = id; in.Managed = true; list[idx] = in\<close>, after the uniqueness check, if any.\<close>

definition update_item :: "'a item \<Rightarrow> ('a list \<Rightarrow> err + unit) \<Rightarrow> string \<Rightarrow> 'a \<Rightarrow> 'a list \<Rightarrow> err + 'a \<times> 'a list" where
  "update_item I chk i x list = (case index_item I i list of
     None \<Rightarrow> Inl ErrNotFound
   | Some k \<Rightarrow> bindR (chk list) (\<lambda>_.
       let y = it_setManaged I True (it_setID I i x) in Inr (y, list[k := y])))"

definition delete_item :: "'a item \<Rightarrow> string \<Rightarrow> 'a list \<Rightarrow> err + 'a list" where
  "delete_item I i list = (case dropByID list (it_ID I) i of
     (out, removed) \<Rightarrow> if \<not> removed then Inl ErrNotFound else Inr out)"

definition switch_item :: "'a item \<Rightarrow> bool \<Rightarrow> 'a \<Rightarrow> 'a" where
  "switch_item I on x = it_setManaged I True (it_setEnabled I on x)"

definition enable_item :: "'a item \<Rightarrow> string \<Rightarrow> bool \<Rightarrow> 'a list \<Rightarrow> err + 'a list" where
  "enable_item I i on list = (case index_item I i list of
     None \<Rightarrow> Inl ErrNotFound
   | Some k \<Rightarrow> Inr (list[k := switch_item I on (list ! k)]))"

definition toggle_item :: "'a item \<Rightarrow> string \<Rightarrow> 'a list \<Rightarrow> err + 'a \<times> 'a list" where
  "toggle_item I i list = (case index_item I i list of
     None \<Rightarrow> Inl ErrNotFound
   | Some k \<Rightarrow>
       (let y = switch_item I (\<not> it_Enabled I (list ! k)) (list ! k) in Inr (y, list[k := y])))"

definition batch_items :: "'a item \<Rightarrow> string \<Rightarrow> string set \<Rightarrow> 'a list \<Rightarrow> err + 'a list" where
  "batch_items I action ids list =
     (if action = ''enable'' \<or> action = ''disable'' then
        (let on = (action = ''enable'') in
         Inr (map (\<lambda>x. if it_ID I x \<in> ids then switch_item I on x else x) list))
      else if action = ''delete'' then Inr (filter (\<lambda>x. it_ID I x \<notin> ids) list)
      else Inl (Err ''unsupported batch action''))"

lemmas collection_eval [eval_simps] =
  indexByID_def dropByID_def toSet_def index_item_def update_item_def delete_item_def switch_item_def
  enable_item_def toggle_item_def batch_items_def

section \<open>The map from ids to items\<close>

text \<open>What an id resolves to: the first item with that id.\<close>

definition lookup_item :: "'a item \<Rightarrow> 'a list \<Rightarrow> string \<rightharpoonup> 'a" where
  "lookup_item I list i = find (\<lambda>x. it_ID I x = i) list"

definition ids_of :: "'a item \<Rightarrow> 'a list \<Rightarrow> string list" where
  "ids_of I list = map (it_ID I) list"

lemma indexByID_nth:
  "indexByID (length xs) (\<lambda>k. f (xs ! k)) i = Some k \<longleftrightarrow> k < length xs \<and> f (xs ! k) = i \<and> (\<forall>j<k. f (xs ! j) \<noteq> i)"
  by (auto simp: indexByID_def find_Some_iff intro: exI [of _ k])

lemma indexByID_None: "indexByID (length xs) (\<lambda>k. f (xs ! k)) i = None \<longleftrightarrow> i \<notin> f ` set xs"
  by (auto simp: indexByID_def find_None_iff image_iff) (metis in_set_conv_nth)

lemma index_item_Some:
  "index_item I i xs = Some k \<longleftrightarrow> k < length xs \<and> it_ID I (xs ! k) = i \<and> (\<forall>j<k. it_ID I (xs ! j) \<noteq> i)"
  unfolding index_item_def by (rule indexByID_nth)

lemma index_item_None: "index_item I i xs = None \<longleftrightarrow> i \<notin> set (ids_of I xs)"
  unfolding index_item_def indexByID_None ids_of_def by simp

lemma lookup_item_None: "lookup_item I xs i = None \<longleftrightarrow> i \<notin> set (ids_of I xs)"
  by (auto simp: lookup_item_def ids_of_def find_None_iff)

lemma dom_lookup_item: "dom (lookup_item I xs) = set (ids_of I xs)"
  using lookup_item_None [of I xs] by (auto simp: dom_def)

lemma lookup_index: "index_item I i xs = Some k \<Longrightarrow> lookup_item I xs i = Some (xs ! k)"
  unfolding index_item_Some lookup_item_def find_Some_iff by blast

lemma lookup_item_ID: "lookup_item I xs i = Some x \<Longrightarrow> it_ID I x = i \<and> x \<in> set xs"
  by (auto simp: lookup_item_def find_Some_iff)

lemma lookup_update:
  assumes "index_item I i xs = Some k" and "it_ID I y = i"
  shows "lookup_item I (xs[k := y]) = (lookup_item I xs)(i \<mapsto> y)"
proof
  fix j
  show "lookup_item I (xs[k := y]) j = ((lookup_item I xs)(i \<mapsto> y)) j"
    using assms
  proof (induction xs arbitrary: k)
    case (Cons x xs)
    show ?case
    proof (cases k)
      case 0
      with Cons.prems show ?thesis by (auto simp: lookup_item_def index_item_Some)
    next
      case (Suc k')
      with Cons.prems have "index_item I i xs = Some k'" and "it_ID I x \<noteq> i"
        by (auto simp: index_item_Some)
      with Cons.IH [OF this(1) assms(2)] Suc assms(2) show ?thesis
        by (auto simp: lookup_item_def)
    qed
  qed (simp add: index_item_Some)
qed

lemma lookup_filter: "lookup_item I (filter (\<lambda>x. P (it_ID I x)) xs) i = (if P i then lookup_item I xs i else None)"
  by (induction xs) (auto simp: lookup_item_def)

lemma lookup_append_new:
  "it_ID I y \<notin> set (ids_of I xs) \<Longrightarrow> lookup_item I (xs @ [y]) = (lookup_item I xs)(it_ID I y \<mapsto> y)"
  by (induction xs) (auto simp: lookup_item_def ids_of_def fun_eq_iff)

lemma ids_of_update: "index_item I i xs = Some k \<Longrightarrow> it_ID I y = i \<Longrightarrow> ids_of I (xs[k := y]) = ids_of I xs"
  unfolding ids_of_def index_item_Some by (auto intro: map_update_same)

lemma dropByID_spec: "dropByID xs f i = (filter (\<lambda>x. f x \<noteq> i) xs, i \<in> f ` set xs)"
  by (auto simp: dropByID_def list_ex_iff)

text \<open>What a batch does to each item: deleted, switched or kept.\<close>

definition batch_one :: "'a item \<Rightarrow> string \<Rightarrow> string set \<Rightarrow> 'a \<Rightarrow> 'a option" where
  "batch_one I action ids x =
     (if it_ID I x \<notin> ids then Some x
      else if action = ''delete'' then None
      else Some (switch_item I (action = ''enable'') x))"

text \<open>The edits of a collection as operations on the map.\<close>

datatype 'a edit = EditUpdate string 'a | EditDelete string | EditEnable string bool | EditBatch string "string list"

fun edit_map :: "'a item \<Rightarrow> ('a \<Rightarrow> err + 'a) \<Rightarrow> 'a edit \<Rightarrow> (string \<rightharpoonup> 'a) \<Rightarrow> (string \<rightharpoonup> 'a)" where
  "edit_map I v (EditUpdate i x) m = (case v x of
     Inl e \<Rightarrow> m
   | Inr y \<Rightarrow> if i \<in> dom m then m(i \<mapsto> it_setManaged I True (it_setID I i y)) else m)"
| "edit_map I v (EditDelete i) m = m(i := None)"
| "edit_map I v (EditEnable i on) m = (case m i of None \<Rightarrow> m | Some x \<Rightarrow> m(i \<mapsto> switch_item I on x))"
| "edit_map I v (EditBatch action ids) m =
     (if action \<in> {''enable'', ''disable'', ''delete''} then (\<lambda>k. Option.bind (m k) (batch_one I action (set ids))) else m)"

context item_laws
begin

lemma ID_switch [simp]: "it_ID I (switch_item I on x) = it_ID I x"
  by (simp add: switch_item_def)

lemma Enabled_switch [simp]: "it_Enabled I (switch_item I on x) = on"
  by (simp add: switch_item_def)

lemma Managed_switch [simp]: "it_Managed I (switch_item I on x) = True"
  by (simp add: switch_item_def)

lemma update_item_Inr:
  assumes "update_item I chk i x xs = Inr (y, ys)"
  shows "y = it_setManaged I True (it_setID I i x) \<and> i \<in> set (ids_of I xs) \<and> chk xs = Inr () \<and>
    ids_of I ys = ids_of I xs \<and> lookup_item I ys = (lookup_item I xs)(i \<mapsto> y)"
proof -
  from assms obtain k where k: "index_item I i xs = Some k" and c: "chk xs = Inr ()"
    and y: "y = it_setManaged I True (it_setID I i x)" "ys = xs[k := y]"
    by (auto simp: update_item_def bindR_eq_Inr Let_def split: option.splits)
  moreover have "it_ID I y = i" using y by simp
  moreover have "i \<in> set (ids_of I xs)" using k index_item_None [of I i xs] by simp
  ultimately show ?thesis by (simp add: ids_of_update lookup_update)
qed

lemma delete_item_Inr:
  "delete_item I i xs = Inr ys \<longleftrightarrow> i \<in> set (ids_of I xs) \<and> ys = filter (\<lambda>x. it_ID I x \<noteq> i) xs"
  by (auto simp: delete_item_def dropByID_spec ids_of_def)

lemma delete_item_lookup:
  "delete_item I i xs = Inr ys \<Longrightarrow> lookup_item I ys = (lookup_item I xs)(i := None)"
  by (auto simp: delete_item_Inr lookup_filter [of I "\<lambda>j. j \<noteq> i"])

lemma delete_item_Inl: "delete_item I i xs = Inl e \<longleftrightarrow> e = ErrNotFound \<and> i \<notin> set (ids_of I xs)"
  by (auto simp: delete_item_def dropByID_spec ids_of_def)

lemma enable_item_Inr:
  assumes "enable_item I i on xs = Inr ys"
  shows "\<exists>x. lookup_item I xs i = Some x \<and> lookup_item I ys = (lookup_item I xs)(i \<mapsto> switch_item I on x) \<and>
    ids_of I ys = ids_of I xs"
proof -
  from assms obtain k where k: "index_item I i xs = Some k" and ys: "ys = xs[k := switch_item I on (xs ! k)]"
    by (auto simp: enable_item_def split: option.splits)
  moreover from k have "it_ID I (xs ! k) = i" by (simp add: index_item_Some)
  ultimately show ?thesis
    by (intro exI [of _ "xs ! k"]) (simp add: lookup_index ids_of_update lookup_update)
qed

lemma enable_item_Inl: "enable_item I i on xs = Inl e \<longleftrightarrow> e = ErrNotFound \<and> i \<notin> set (ids_of I xs)"
  using index_item_None [of I i xs] by (auto simp: enable_item_def split: option.splits)

lemma toggle_item_Inr:
  assumes "toggle_item I i xs = Inr (y, ys)"
  shows "\<exists>x. lookup_item I xs i = Some x \<and> y = switch_item I (\<not> it_Enabled I x) x \<and>
    lookup_item I ys = (lookup_item I xs)(i \<mapsto> y) \<and> ids_of I ys = ids_of I xs"
proof -
  from assms obtain k where k: "index_item I i xs = Some k"
    and y: "y = switch_item I (\<not> it_Enabled I (xs ! k)) (xs ! k)" and ys: "ys = xs[k := y]"
    by (auto simp: toggle_item_def Let_def split: option.splits)
  moreover from k have "it_ID I (xs ! k) = i" by (simp add: index_item_Some)
  ultimately show ?thesis
    by (intro exI [of _ "xs ! k"]) (simp add: lookup_index ids_of_update lookup_update)
qed

lemma toggle_item_Inl: "toggle_item I i xs = Inl e \<longleftrightarrow> e = ErrNotFound \<and> i \<notin> set (ids_of I xs)"
  using index_item_None [of I i xs] by (auto simp: toggle_item_def Let_def split: option.splits)

lemma update_item_Inl:
  "update_item I chk i x xs = Inl e \<longleftrightarrow>
     (if i \<in> set (ids_of I xs) then chk xs = Inl e else e = ErrNotFound)"
  using index_item_None [of I i xs]
  by (auto simp: update_item_def bindR_def Let_def split: option.splits sum.splits)

lemma batch_items_Inr:
  assumes "batch_items I action ids xs = Inr ys"
  shows "action \<in> {''enable'', ''disable'', ''delete''}"
    and "lookup_item I ys i = Option.bind (lookup_item I xs i) (batch_one I action ids)"
    and "distinct (ids_of I xs) \<Longrightarrow> distinct (ids_of I ys)"
proof -
  show "action \<in> {''enable'', ''disable'', ''delete''}"
    using assms by (auto simp: batch_items_def split: if_splits)
  show "lookup_item I ys i = Option.bind (lookup_item I xs i) (batch_one I action ids)"
  proof (cases "action = ''delete''")
    case True
    with assms have "ys = filter (\<lambda>x. it_ID I x \<notin> ids) xs"
      by (simp add: batch_items_def)
    then have "lookup_item I ys i = (if i \<notin> ids then lookup_item I xs i else None)"
      using lookup_filter [of I "\<lambda>j. j \<notin> ids" xs i] by simp
    then show ?thesis
      using True lookup_item_ID [of I xs i]
      by (cases "lookup_item I xs i") (auto simp: batch_one_def)
  next
    case False
    with assms have "ys = map (\<lambda>x. if it_ID I x \<in> ids then switch_item I (action = ''enable'') x else x) xs"
      by (auto simp: batch_items_def Let_def split: if_splits)
    with False show ?thesis
      by (induction xs arbitrary: ys) (auto simp: lookup_item_def batch_one_def)
  qed
  show "distinct (ids_of I ys)" if "distinct (ids_of I xs)"
  proof -
    have "ids_of I (map (\<lambda>x. if it_ID I x \<in> ids then switch_item I on x else x) xs) = ids_of I xs" for on
      by (auto simp: ids_of_def)
    with assms that show ?thesis
      by (auto simp: batch_items_def Let_def ids_of_def distinct_map_filter_keep simp del: map_map split: if_splits)
  qed
qed

end

end
