(* ===== verification/EventBus.thy ===== *)
theory EventBus
  imports Prelude
begin

text \<open>
  internal/eventbus (bus.go, types.go): the in-process publish/subscribe hub. A subscription's
  channel is its buffer (a list, oldest first) with a capacity; the map of subscriptions is an
  association list keyed by id, because Publish treats every subscriber alike whatever the
  iteration order. Time stamps come from the caller's clock \<open>now\<close>. The sequential operations come
  first, the steps of concurrent publishers last.
\<close>

section \<open>Data\<close>

type_synonym EventType = string

abbreviation TypeDHCPChanged :: EventType where "TypeDHCPChanged \<equiv> ''dhcp.changed''"
abbreviation TypeStaticChanged :: EventType where "TypeStaticChanged \<equiv> ''static.changed''"
abbreviation TypeACLChanged :: EventType where "TypeACLChanged \<equiv> ''acl.changed''"
abbreviation TypeRouteChanged :: EventType where "TypeRouteChanged \<equiv> ''route.changed''"
abbreviation TypeIfaceChanged :: EventType where "TypeIfaceChanged \<equiv> ''iface.changed''"
abbreviation TypeIPv6Changed :: EventType where "TypeIPv6Changed \<equiv> ''ipv6.changed''"
abbreviation TypeDNSChanged :: EventType where "TypeDNSChanged \<equiv> ''dns.changed''"

record NetChangeData =
  nc_Action :: string
  nc_Count :: int

record 'd Event =
  ev_Seq :: "64 word"
  ev_Type :: EventType
  ev_ConfigID :: string
  ev_TS :: int
  ev_Data :: 'd

record Filter =
  f_Types :: "EventType list"
  f_ConfigIDs :: "string list"

record 'd Subscription =
  sub_id :: "64 word"
  sub_ch :: "'d Event list"
  sub_cap :: nat
  sub_filter :: "Filter option"

record 'd Bus =
  bus_subs :: "'d Subscription list"
  bus_nextSubID :: "64 word"
  bus_seq :: "64 word"
  bus_ring :: "'d Event list"
  bus_ringCap :: nat
  bus_defaultDrop :: "64 word"

section \<open>Operations\<close>

definition accepts :: "Filter option \<Rightarrow> 'd Event \<Rightarrow> bool" where
  "accepts f e = (case f of None \<Rightarrow> True
     | Some g \<Rightarrow>
         (if f_Types g \<noteq> [] \<and> ev_Type e \<notin> set (f_Types g) then False
          else if f_ConfigIDs g \<noteq> [] \<and> ev_ConfigID e \<notin> set (f_ConfigIDs g) then False
          else True))"

definition new_bus :: "int \<Rightarrow> 'd Bus" where
  "new_bus ringCap =
     \<lparr>bus_subs = [], bus_nextSubID = 0, bus_seq = 0, bus_ring = [],
      bus_ringCap = (if ringCap \<le> 0 then 1024 else nat ringCap), bus_defaultDrop = 0\<rparr>"

text \<open>\<open>copy(b.ring, b.ring[1:])\<close> and writing the last cell drop the oldest event.\<close>

definition appendRing :: "'d Event \<Rightarrow> 'd Bus \<Rightarrow> 'd Bus" where
  "appendRing e b =
     (if length (bus_ring b) < bus_ringCap b then b\<lparr>bus_ring := bus_ring b @ [e]\<rparr>
      else b\<lparr>bus_ring :=
        (let copied = drop 1 (bus_ring b) @ [last (bus_ring b)]
         in copied[length (bus_ring b) - 1 := e])\<rparr>)"

text \<open>One subscriber: filtered out, sent, or dropped because the buffer is full.\<close>

definition deliver_one :: "'d Event \<Rightarrow> 'd Subscription \<Rightarrow> 'd Subscription \<times> bool" where
  "deliver_one e s =
     (if \<not> accepts (sub_filter s) e then (s, False)
      else if length (sub_ch s) < sub_cap s then (s\<lparr>sub_ch := sub_ch s @ [e]\<rparr>, False)
      else (s, True))"

definition deliver :: "'d Event \<Rightarrow> 'd Bus \<Rightarrow> 'd Bus" where
  "deliver e b =
     (let rs = map (deliver_one e) (bus_subs b) in
      b\<lparr>bus_subs := map fst rs,
        bus_defaultDrop := bus_defaultDrop b + of_nat (length (filter snd rs))\<rparr>)"

definition Publish :: "EventType \<Rightarrow> string \<Rightarrow> 'd \<Rightarrow> int \<Rightarrow> 'd Bus \<Rightarrow> 'd Bus" where
  "Publish t configID data now b =
     (let sq = bus_seq b + 1;
          e = \<lparr>ev_Seq = sq, ev_Type = t, ev_ConfigID = configID, ev_TS = now, ev_Data = data\<rparr>
      in deliver e (appendRing e (b\<lparr>bus_seq := sq\<rparr>)))"

definition Subscribe :: "Filter option \<Rightarrow> int \<Rightarrow> 'd Bus \<Rightarrow> 'd Subscription \<times> 'd Bus" where
  "Subscribe flt bufSize b =
     (let cap = (if bufSize \<le> 0 then 64 else nat bufSize);
          i = bus_nextSubID b + 1;
          s = \<lparr>sub_id = i, sub_ch = [], sub_cap = cap, sub_filter = flt\<rparr>
      in (s, b\<lparr>bus_nextSubID := i, bus_subs := filter (\<lambda>x. sub_id x \<noteq> i) (bus_subs b) @ [s]\<rparr>))"

definition SetFilter :: "64 word \<Rightarrow> Filter option \<Rightarrow> 'd Bus \<Rightarrow> 'd Bus" where
  "SetFilter i f b =
     b\<lparr>bus_subs := map (\<lambda>s. if sub_id s = i then s\<lparr>sub_filter := f\<rparr> else s) (bus_subs b)\<rparr>"

definition bus_remove :: "64 word \<Rightarrow> 'd Bus \<Rightarrow> 'd Bus" where
  "bus_remove i b = b\<lparr>bus_subs := filter (\<lambda>s. sub_id s \<noteq> i) (bus_subs b)\<rparr>"

definition Since :: "64 word \<Rightarrow> 'd Bus \<Rightarrow> 'd Event list" where
  "Since since b = filter (\<lambda>e. since < ev_Seq e) (bus_ring b)"

definition Stop :: "'d Bus \<Rightarrow> 'd Bus" where
  "Stop b = b\<lparr>bus_subs := []\<rparr>"

text \<open>A subscriber takes the oldest event of its buffer.\<close>

definition receive :: "64 word \<Rightarrow> 'd Bus \<Rightarrow> 'd Bus" where
  "receive i b =
     b\<lparr>bus_subs := map (\<lambda>s. if sub_id s = i then s\<lparr>sub_ch := drop 1 (sub_ch s)\<rparr> else s) (bus_subs b)\<rparr>"

section \<open>The ring of recent events\<close>

lemma appendRing_ring:
  assumes "0 < bus_ringCap b"
  shows "bus_ring (appendRing e b) =
    (if length (bus_ring b) < bus_ringCap b then bus_ring b @ [e] else drop 1 (bus_ring b) @ [e])"
  using assms by (cases "bus_ring b") (auto simp: appendRing_def Let_def list_update_append)

lemma appendRing_frame [simp]:
  "bus_seq (appendRing e b) = bus_seq b" "bus_ringCap (appendRing e b) = bus_ringCap b"
  "bus_subs (appendRing e b) = bus_subs b" "bus_nextSubID (appendRing e b) = bus_nextSubID b"
  by (simp_all add: appendRing_def Let_def)

lemma deliver_frame [simp]:
  "bus_seq (deliver e b) = bus_seq b" "bus_ringCap (deliver e b) = bus_ringCap b"
  "bus_ring (deliver e b) = bus_ring b" "bus_nextSubID (deliver e b) = bus_nextSubID b"
  by (simp_all add: deliver_def Let_def)

text \<open>
  The ring holds the newest events, one per sequence number, as long as the 64-bit counter has
  not wrapped around: with \<open>n\<close> events published its numbers are \<open>n - k + 1, ..., n\<close>.
\<close>

definition ring_inv :: "'d Bus \<Rightarrow> bool" where
  "ring_inv b \<longleftrightarrow> 0 < bus_ringCap b \<and>
     length (bus_ring b) = min (unat (bus_seq b)) (bus_ringCap b) \<and>
     map (\<lambda>e. unat (ev_Seq e)) (bus_ring b) =
       [Suc (unat (bus_seq b)) - length (bus_ring b)..<Suc (unat (bus_seq b))]"

lemma ring_inv_new: "ring_inv (new_bus c)"
  by (simp add: ring_inv_def new_bus_def)

lemma Publish_ring:
  assumes "0 < bus_ringCap b"
  shows "bus_ring (Publish t c d now b) =
    (if length (bus_ring b) < bus_ringCap b then bus_ring b else drop 1 (bus_ring b)) @
      [\<lparr>ev_Seq = bus_seq b + 1, ev_Type = t, ev_ConfigID = c, ev_TS = now, ev_Data = d\<rparr>]"
  using assms by (simp add: Publish_def Let_def appendRing_ring)

lemma Publish_frame [simp]:
  "bus_seq (Publish t c d now b) = bus_seq b + 1" "bus_ringCap (Publish t c d now b) = bus_ringCap b"
  by (simp_all add: Publish_def Let_def)

lemma unat_Suc_no_wrap: "(w :: 64 word) \<noteq> - 1 \<Longrightarrow> unat (w + 1) = Suc (unat w)"
  by (metis add.commute add_eq_0_iff unatSuc)

lemma drop_1_upt: "drop 1 [a..<b] = [Suc a..<b]"
  by (cases "a < b") (simp_all add: upt_rec)

lemma Publish_ring_inv:
  assumes "ring_inv b" and "bus_seq b \<noteq> - 1"
  shows "ring_inv (Publish t c d now b)"
proof -
  let ?n = "unat (bus_seq b)" and ?k = "length (bus_ring b)"
  have n: "unat (bus_seq b + 1) = Suc ?n"
    using assms(2) by (rule unat_Suc_no_wrap)
  have inv: "0 < bus_ringCap b" "?k = min ?n (bus_ringCap b)"
    "map (\<lambda>e. unat (ev_Seq e)) (bus_ring b) = [Suc ?n - ?k..<Suc ?n]"
    using assms(1) by (simp_all add: ring_inv_def)
  have upt: "[Suc (Suc ?n) - Suc k..<Suc (Suc ?n)] = [Suc ?n - k..<Suc ?n] @ [Suc ?n]" if "k \<le> ?n" for k
    using that by simp
  show ?thesis
  proof (cases "?k < bus_ringCap b")
    case True
    with inv n show ?thesis
      using upt [of ?k] by (auto simp: ring_inv_def Publish_ring simp del: upt_Suc)
  next
    case False
    then have k: "?k = bus_ringCap b" "?k \<le> ?n" "0 < ?k"
      using inv by auto
    then have Suc_k: "Suc (Suc ?n - ?k) = Suc ?n - (?k - 1)"
      by arith
    have "map (\<lambda>e. unat (ev_Seq e)) (drop 1 (bus_ring b)) =
        drop 1 (map (\<lambda>e. unat (ev_Seq e)) (bus_ring b))"
      by (simp add: drop_map)
    also have "\<dots> = [Suc (Suc ?n - ?k)..<Suc ?n]"
      by (simp only: inv(3) drop_1_upt)
    finally have "map (\<lambda>e. unat (ev_Seq e)) (drop 1 (bus_ring b)) = [Suc ?n - (?k - 1)..<Suc ?n]"
      by (simp only: Suc_k)
    with False inv n k show ?thesis
      using upt [of "?k - 1"] by (simp add: ring_inv_def Publish_ring)
  qed
qed

section \<open>Histories\<close>

datatype 'd bus_op =
    OpPublish EventType string 'd int
  | OpSubscribe "Filter option" int
  | OpSetFilter "64 word" "Filter option"
  | OpUnsubscribe "64 word"
  | OpReceive "64 word"
  | OpStop

fun bus_step :: "'d Bus \<Rightarrow> 'd bus_op \<Rightarrow> 'd Bus" where
  "bus_step b (OpPublish t c d now) = Publish t c d now b"
| "bus_step b (OpSubscribe f n) = snd (Subscribe f n b)"
| "bus_step b (OpSetFilter i f) = SetFilter i f b"
| "bus_step b (OpUnsubscribe i) = bus_remove i b"
| "bus_step b (OpReceive i) = receive i b"
| "bus_step b OpStop = Stop b"

definition bus_run :: "'d Bus \<Rightarrow> 'd bus_op list \<Rightarrow> 'd Bus" where
  "bus_run b ops = foldl bus_step b ops"

fun is_publish :: "'d bus_op \<Rightarrow> bool" where
  "is_publish (OpPublish t c d now) = True"
| "is_publish x = False"

definition n_publishes :: "'d bus_op list \<Rightarrow> nat" where
  "n_publishes ops = length (filter is_publish ops)"

text \<open>Each channel is within its capacity and holds strictly increasing numbers.\<close>

definition chan_ok :: "64 word \<Rightarrow> 'd Subscription \<Rightarrow> bool" where
  "chan_ok sq s \<longleftrightarrow> length (sub_ch s) \<le> sub_cap s \<and>
     sorted_wrt (<) (map ev_Seq (sub_ch s)) \<and> list_all (\<lambda>e. ev_Seq e \<le> sq) (sub_ch s)"

definition bus_inv :: "'d Bus \<Rightarrow> bool" where
  "bus_inv b \<longleftrightarrow> ring_inv b \<and> list_all (chan_ok (bus_seq b)) (bus_subs b)"

lemma chan_ok_deliver_one:
  assumes "chan_ok sq s" and "sq \<noteq> - 1" and "ev_Seq e = sq + 1"
  shows "chan_ok (sq + 1) (fst (deliver_one e s))"
proof -
  have lt: "sq < sq + 1"
    using unat_Suc_no_wrap [OF assms(2)] by (simp add: word_less_nat_alt)
  have all: "x \<le> sq + 1" "x < sq + 1" if "x \<le> sq" for x
    using that lt by (meson order_le_less_trans order_less_imp_le)+
  show ?thesis
    using assms all lt
    by (auto simp: chan_ok_def deliver_one_def sorted_wrt_append list_all_iff)
qed

lemma chan_ok_filter [simp]: "chan_ok sq (s\<lparr>sub_filter := f\<rparr>) = chan_ok sq s"
  by (simp add: chan_ok_def)

lemma chan_ok_drop: "chan_ok sq s \<Longrightarrow> chan_ok sq (s\<lparr>sub_ch := drop (Suc 0) (sub_ch s)\<rparr>)"
  by (cases "sub_ch s") (auto simp: chan_ok_def)

lemma bus_step_inv:
  assumes "bus_inv b" and "is_publish x \<Longrightarrow> bus_seq b \<noteq> - 1"
  shows "bus_inv (bus_step b x)"
proof (cases x)
  case (OpPublish t c d now)
  with assms have "ring_inv (Publish t c d now b)"
    by (simp add: bus_inv_def Publish_ring_inv)
  moreover have "list_all (chan_ok (bus_seq b + 1)) (bus_subs (Publish t c d now b))"
    using assms OpPublish
    by (auto simp: Publish_def deliver_def Let_def bus_inv_def list_all_iff intro!: chan_ok_deliver_one)
  ultimately show ?thesis
    using OpPublish by (simp add: bus_inv_def)
next
  case (OpSubscribe f n)
  with assms show ?thesis
    by (auto simp: bus_inv_def ring_inv_def Subscribe_def Let_def list_all_iff chan_ok_def)
qed (use assms in \<open>auto simp: bus_inv_def ring_inv_def SetFilter_def bus_remove_def receive_def Stop_def
      list_all_iff chan_ok_drop\<close>)

lemma bus_step_seq:
  "bus_seq (bus_step b x) = (if is_publish x then bus_seq b + 1 else bus_seq b)"
  by (cases x) (simp_all add: Subscribe_def SetFilter_def bus_remove_def receive_def Stop_def Let_def)

lemma bus_run_inv:
  assumes "bus_inv b" and "unat (bus_seq b) + n_publishes ops < 2 ^ 64"
  shows "bus_inv (bus_run b ops) \<and> unat (bus_seq (bus_run b ops)) = unat (bus_seq b) + n_publishes ops"
  using assms
proof (induction ops arbitrary: b)
  case (Cons x ops)
  have nw: "bus_seq b \<noteq> - 1" if "is_publish x"
    using Cons.prems(2) that by (auto simp: n_publishes_def unsigned_minus_1_eq_mask mask_eq_exp_minus_1)
  have "bus_inv (bus_step b x)"
    using Cons.prems(1) nw by (rule bus_step_inv)
  moreover have "unat (bus_seq (bus_step b x)) + n_publishes ops = unat (bus_seq b) + n_publishes (x # ops)"
    using nw by (simp add: bus_step_seq n_publishes_def unat_Suc_no_wrap)
  ultimately show ?case
    using Cons.IH [of "bus_step b x"] Cons.prems(2) by (simp add: bus_run_def)
qed (simp add: bus_run_def n_publishes_def)

lemma bus_inv_new: "bus_inv (new_bus c)"
  by (simp add: bus_inv_def ring_inv_new) (simp add: new_bus_def)

text \<open>after any history of publishes, subscriptions, filter changes, receives and stops on a new bus (fewer than 2^64 publishes), the ring holds exactly the last \<open>min n cap\<close> events in order, so Since returns, in order and without gaps, every retained event newer than the given number; and no channel exceeds its capacity or delivers out of order.\<close>

theorem bus_history_window:
  assumes "n_publishes ops < 2 ^ 64"
  shows "let b = bus_run (new_bus c) ops; n = n_publishes ops; k = min n (bus_ringCap b) in
    map (\<lambda>e. unat (ev_Seq e)) (Since sq b) = [max (Suc (unat sq)) (Suc n - k)..<Suc n] \<and>
    list_all (\<lambda>s. length (sub_ch s) \<le> sub_cap s \<and> sorted_wrt (<) (map ev_Seq (sub_ch s))) (bus_subs b)"
proof -
  let ?b = "bus_run (new_bus c) ops" and ?n = "n_publishes ops"
  have inv: "bus_inv ?b" and n: "unat (bus_seq ?b) = ?n"
    using bus_run_inv [OF bus_inv_new, of c ops] assms by (simp_all add: new_bus_def)
  have upt: "filter (\<lambda>i. a < i) [l..<u] = [max (Suc a) l..<u]" for a l u :: nat
    by (induction u) (auto simp: max_def)
  have "map (\<lambda>e. unat (ev_Seq e)) (Since sq ?b) =
      filter (\<lambda>i. unat sq < i) (map (\<lambda>e. unat (ev_Seq e)) (bus_ring ?b))"
    by (simp add: Since_def filter_map comp_def word_less_nat_alt)
  also have "\<dots> = [max (Suc (unat sq)) (Suc ?n - min ?n (bus_ringCap ?b))..<Suc ?n]"
    using inv n by (simp add: bus_inv_def ring_inv_def upt)
  finally show ?thesis
    using inv by (auto simp: bus_inv_def Let_def chan_ok_def list_all_iff)
qed

theorem bus_history_window_witness:
  "map (\<lambda>e. unat (ev_Seq e))
     (Since 0 (bus_run (new_bus 1)
       [OpSubscribe None 1, OpPublish ''a'' [] () 0, OpPublish ''b'' [] () 0])) = [2]"
proof -
  let ?ops = "[OpSubscribe None 1, OpPublish ''a'' [] () 0, OpPublish ''b'' [] () 0]"
  have "n_publishes ?ops = 2"
    by (simp add: n_publishes_def)
  moreover have "bus_ringCap (bus_run (new_bus 1) ?ops) = 1"
    by (simp add: bus_run_def Subscribe_def Let_def new_bus_def)
  ultimately show ?thesis
    using bus_history_window [of ?ops 1 0] by (simp add: Let_def)
qed

section \<open>Concurrent publishers\<close>

text \<open>
  Publish takes three separate critical sections: the atomic increment of \<open>seq\<close>, the append
  under \<open>ringMu\<close>, and the delivery under \<open>mu\<close>. With several publishers these interleave. The
  state is the bus, the events numbered but not yet appended, and those appended but not yet
  delivered. The guard of \<open>take_seq\<close> bounds the run to fewer than \<open>2^64\<close> publishes.
\<close>

type_synonym 'd cbus = "'d Bus \<times> 'd Event list \<times> 'd Event list"

inductive pub_step :: "'d cbus \<Rightarrow> 'd cbus \<Rightarrow> bool" where
  take_seq: "bus_seq b \<noteq> - 1 \<Longrightarrow>
     pub_step (b, A, D)
       (b\<lparr>bus_seq := bus_seq b + 1\<rparr>,
        \<lparr>ev_Seq = bus_seq b + 1, ev_Type = t, ev_ConfigID = c, ev_TS = now, ev_Data = d\<rparr> # A, D)"
| append: "pub_step (b, A1 @ e # A2, D) (appendRing e b, A1 @ A2, e # D)"
| send: "pub_step (b, A, D1 @ e # D2) (deliver e b, A, D1 @ D2)"

inductive pub_reach :: "int \<Rightarrow> 'd cbus \<Rightarrow> bool" for cap :: int where
  start: "pub_reach cap (new_bus cap, [], [])"
| step: "pub_reach cap x \<Longrightarrow> pub_step x y \<Longrightarrow> pub_reach cap y"

inductive_cases pub_stepE: "pub_step x y"

definition pub_inv :: "'d cbus \<Rightarrow> bool" where
  "pub_inv x = (case x of (b, A, D) \<Rightarrow>
     0 < bus_ringCap b \<and> length (bus_ring b) \<le> bus_ringCap b \<and>
     distinct (map ev_Seq (bus_ring b @ A)) \<and>
     list_all (\<lambda>e. ev_Seq e \<le> bus_seq b) (bus_ring b @ A))"

lemma pub_inv_append:
  assumes "pub_inv (b, A1 @ e # A2, D)"
  shows "pub_inv (appendRing e b, A1 @ A2, D')"
  using assms
  by (cases "bus_ring b") (auto simp: pub_inv_def appendRing_ring list_all_iff)

lemma pub_step_inv: "pub_step x y \<Longrightarrow> pub_inv x \<Longrightarrow> pub_inv y"
proof (induction rule: pub_step.induct)
  case (take_seq b A D t c now d)
  have lt: "bus_seq b < bus_seq b + 1"
    using unat_Suc_no_wrap [OF take_seq.hyps] by (simp add: word_less_nat_alt)
  have "s \<le> bus_seq b + 1" "s \<noteq> bus_seq b + 1" if "s \<le> bus_seq b" for s
    using that lt by (meson order_le_less_trans order_less_imp_le) (use that lt in auto)
  with take_seq.prems show ?case
    by (fastforce simp: pub_inv_def list_all_iff)
next
  case (append b A1 e A2 D)
  then show ?case by (rule pub_inv_append)
next
  case (send b A D1 e D2)
  then show ?case by (simp add: pub_inv_def)
qed

lemma pub_reach_inv: "pub_reach cap x \<Longrightarrow> pub_inv x"
proof (induction rule: pub_reach.induct)
  case start
  show ?case by (simp add: pub_inv_def new_bus_def)
next
  case (step x y)
  then show ?case using pub_step_inv by blast
qed

text \<open>however concurrent publishers interleave, the ring never exceeds its capacity, no two retained events share a sequence number, and none is numbered above the counter.\<close>

theorem concurrent_ring_safe:
  assumes "pub_reach cap (b, A, D)"
  shows "length (bus_ring b) \<le> bus_ringCap b \<and> distinct (map ev_Seq (bus_ring b)) \<and>
    list_all (\<lambda>e. ev_Seq e \<le> bus_seq b) (bus_ring b)"
  using pub_reach_inv [OF assms] by (auto simp: pub_inv_def)

definition ev_n :: "64 word \<Rightarrow> unit Event" where
  "ev_n n = \<lparr>ev_Seq = n, ev_Type = ''dhcp.changed'', ev_ConfigID = [], ev_TS = 0, ev_Data = ()\<rparr>"

text \<open>Two publishers; the one numbered second appends first.\<close>

lemma pub_reach_swapped:
  "pub_reach 8 ((new_bus 8)\<lparr>bus_seq := 2, bus_ring := [ev_n 2, ev_n 1]\<rparr>, [], [ev_n 1, ev_n 2])"
proof -
  let ?b = "new_bus 8 :: unit Bus"
  have "pub_step (?b, [], []) (?b\<lparr>bus_seq := 1\<rparr>, [ev_n 1], [])"
    using take_seq [of ?b "[]" "[]" "''dhcp.changed''" "[]" 0 "()"] by (simp add: ev_n_def new_bus_def)
  moreover have "pub_step (?b\<lparr>bus_seq := 1\<rparr>, [ev_n 1], []) (?b\<lparr>bus_seq := 2\<rparr>, [ev_n 2, ev_n 1], [])"
    using take_seq [of "?b\<lparr>bus_seq := 1\<rparr>" "[ev_n 1]" "[]" "''dhcp.changed''" "[]" 0 "()"]
    by (simp add: ev_n_def new_bus_def)
  moreover have "pub_step (?b\<lparr>bus_seq := 2\<rparr>, [ev_n 2, ev_n 1], [])
      (?b\<lparr>bus_seq := 2, bus_ring := [ev_n 2]\<rparr>, [ev_n 1], [ev_n 2])"
    using append [of "?b\<lparr>bus_seq := 2\<rparr>" "[]" "ev_n 2" "[ev_n 1]" "[]"]
    by (simp add: appendRing_def new_bus_def)
  moreover have "pub_step (?b\<lparr>bus_seq := 2, bus_ring := [ev_n 2]\<rparr>, [ev_n 1], [ev_n 2])
      (?b\<lparr>bus_seq := 2, bus_ring := [ev_n 2, ev_n 1]\<rparr>, [], [ev_n 1, ev_n 2])"
    using append [of "?b\<lparr>bus_seq := 2, bus_ring := [ev_n 2]\<rparr>" "[]" "ev_n 1" "[]" "[ev_n 2]"]
    by (simp add: appendRing_def new_bus_def)
  ultimately show ?thesis
    by (meson pub_reach.start pub_reach.step)
qed

theorem concurrent_ring_safe_witness:
  "distinct (map ev_Seq (bus_ring ((new_bus 8)\<lparr>bus_seq := 2, bus_ring := [ev_n 2, ev_n 1]\<rparr>)))"
  using concurrent_ring_safe [OF pub_reach_swapped] by simp

text \<open>The append and the numbering are separate critical sections, so two publishers can leave the ring out of order: a client that saw event 2 and resumes with since=2 is never given event 1.\<close>

theorem concurrent_ring_out_of_order:
  "\<exists>(b :: unit Bus) A D. pub_reach 8 (b, A, D) \<and> \<not> sorted (map ev_Seq (bus_ring b)) \<and>
     map ev_Seq (bus_ring b) = [2, 1] \<and> Since 2 b = []"
  by (rule exI, rule exI, rule exI, rule conjI, rule pub_reach_swapped)
    (simp add: ev_n_def Since_def word_le_nat_alt word_less_nat_alt)

end
