(* ===== verification/Backend.thy ===== *)
theory Backend
  imports Collection EventBus
begin

text \<open>
  backend.go and the frame of service.go. A \<open>backend\<close> is the Go interface of the same name: one
  action per method, over a backend state \<open>'b\<close>. The Service holds a backend, an event bus that may
  be nil, a source of random bytes and the clock; all of them are the state \<open>'b svc\<close>. The mutex of
  the Service serialises its read-modify-write sections, so an operation is one action.

  The second part is the read-modify-write cycle that all collections share (load, edit, save,
  publish), and the locale \<open>coll_laws\<close> of what it needs from a backend.
\<close>

section \<open>The Backend interface\<close>

record 'b backend =
  be_Interfaces :: "('b, Interface list) act"
  be_Status :: "('b, Status) act"
  be_DHCPServers :: "('b, DHCPServer list) act"
  be_SaveDHCPServers :: "DHCPServer list \<Rightarrow> ('b, unit) act"
  be_RestartDHCP :: "('b, unit) act"
  be_Statics :: "('b, StaticLease list) act"
  be_ARPBind :: "('b, bool) act"
  be_SaveStatics :: "StaticLease list \<Rightarrow> bool \<Rightarrow> ('b, unit) act"
  be_Leases :: "('b, Lease list) act"
  be_LeaseNotes :: "('b, string \<rightharpoonup> string) act"
  be_SetLeaseNote :: "string \<Rightarrow> string \<Rightarrow> ('b, unit) act"
  be_ACL :: "('b, ACL) act"
  be_SaveACL :: "ACL \<Rightarrow> ('b, unit) act"
  be_Routes :: "('b, Route list) act"
  be_SaveRoutes :: "Route list \<Rightarrow> ('b, unit) act"
  be_PolicyRules :: "('b, PolicyRule list) act"
  be_SavePolicyRules :: "PolicyRule list \<Rightarrow> ('b, unit) act"
  be_RoutePushMode :: "('b, string) act"
  be_SaveRoutePushMode :: "string \<Rightarrow> ('b, unit) act"
  be_RouteTable :: "string \<Rightarrow> ('b, RouteEntry list) act"
  be_NICs :: "('b, NIC list) act"
  be_NetIfaces :: "('b, NetIface list) act"
  be_SaveNetIface :: "NetIface \<Rightarrow> ('b, unit) act"
  be_DeleteNetIface :: "string \<Rightarrow> ('b, unit) act"
  be_WANAction :: "string \<Rightarrow> string \<Rightarrow> ('b, unit) act"
  be_InstallDHCP :: "('b, string) act"
  be_DNSSettings :: "('b, DNSSettings) act"
  be_SaveDNSSettings :: "DNSSettings \<Rightarrow> ('b, unit) act"
  be_DNSDoH :: "('b, DNSDoH) act"
  be_SaveDNSDoH :: "DNSDoH \<Rightarrow> ('b, unit) act"
  be_DNSRecords :: "('b, DNSRecord list) act"
  be_SaveDNSRecords :: "DNSRecord list \<Rightarrow> ('b, unit) act"
  be_DNSDomainRoutes :: "('b, DNSDomainRoute list) act"
  be_SaveDNSDomainRoutes :: "DNSDomainRoute list \<Rightarrow> ('b, unit) act"
  be_FlushDNSCache :: "('b, unit) act"
  be_InstallDoH :: "('b, string) act"
  be_WANv6s :: "('b, WANv6 list) act"
  be_SaveWANv6s :: "WANv6 list \<Rightarrow> ('b, unit) act"
  be_LANv6s :: "('b, LANv6 list) act"
  be_SaveLANv6s :: "LANv6 list \<Rightarrow> ('b, unit) act"
  be_PrefixStaticsV6 :: "('b, PrefixStaticV6 list) act"
  be_SavePrefixStaticsV6 :: "PrefixStaticV6 list \<Rightarrow> ('b, unit) act"
  be_ACLv6 :: "('b, ACLv6) act"
  be_SaveACLv6 :: "ACLv6 \<Rightarrow> ('b, unit) act"
  be_LeasesV6 :: "('b, LeaseV6 list) act"
  be_NeighborsV6 :: "('b, NeighborV6 list) act"
  be_DeleteNeighborV6 :: "string \<Rightarrow> string \<Rightarrow> ('b, unit) act"
  be_FlushNeighborsV6 :: "string \<Rightarrow> ('b, unit) act"

section \<open>The Service\<close>

record 'b svc =
  sv_be :: 'b
  sv_bus :: "NetChangeData Bus option"
  sv_rand :: "nat \<Rightarrow> 8 word"
  sv_clock :: "nat \<Rightarrow> int"

text \<open>A call of a method of the backend.\<close>

definition on_be :: "('b, 'a) act \<Rightarrow> ('b svc, 'a) act" where
  "on_be m s = (case m (sv_be s) of (r, b) \<Rightarrow> (r, s\<lparr>sv_be := b\<rparr>))"

definition publish :: "EventType \<Rightarrow> string \<Rightarrow> int \<Rightarrow> ('b svc, unit) act" where
  "publish t action cnt s = (case sv_bus s of
     None \<Rightarrow> (Inr (), s)
   | Some b \<Rightarrow> (Inr (), s\<lparr>sv_bus := Some (Publish t [] \<lparr>nc_Action = action, nc_Count = cnt\<rparr> (sv_clock s 0) b),
       sv_clock := (\<lambda>n. sv_clock s (Suc n))\<rparr>))"

text \<open>\<open>rand.Read\<close> of n bytes.\<close>

definition rand_bytes :: "nat \<Rightarrow> ('b svc, nat list) act" where
  "rand_bytes n s = (Inr (map (\<lambda>k. unat (sv_rand s k)) [0..<n]), s\<lparr>sv_rand := (\<lambda>k. sv_rand s (k + n))\<rparr>)"

definition cryptoID :: "string \<Rightarrow> ('b svc, string) act" where
  "cryptoID prefix = bindE (rand_bytes 6) (\<lambda>bs. ret (prefix @ ''_'' @ go_hex bs))"

section \<open>Read, modify, write\<close>

text \<open>
  How a collection is reached: its items, the calls that read and write it, the event type. What
  is saved along with the list (the ARP flag of the reservations, the mode of an access list) is
  the context \<open>'c\<close>.
\<close>

record ('b, 'a, 'c) coll =
  c_item :: "'a item"
  c_load :: "('b, 'a list \<times> 'c) act"
  c_save :: "'a list \<Rightarrow> 'c \<Rightarrow> ('b, unit) act"
  c_event :: EventType

definition coll_store :: "('b, 'a, 'c) coll \<Rightarrow> 'a list \<Rightarrow> 'c \<Rightarrow> string \<Rightarrow> ('b svc, unit) act" where
  "coll_store C list c action =
     bindE (on_be (c_save C list c)) (\<lambda>_. publish (c_event C) action (int (length list)))"

text \<open>\<open>mutateDHCP\<close>, \<open>mutateStatics\<close>, \<open>mutateRoutes\<close>, ...\<close>

definition coll_mutate :: "('b, 'a, 'c) coll \<Rightarrow> string \<Rightarrow> ('a list \<Rightarrow> err + 'a list) \<Rightarrow> ('b svc, unit) act" where
  "coll_mutate C action fn =
     bindE (on_be (c_load C)) (\<lambda>(list, c).
       bindE (liftE (fn list)) (\<lambda>next. coll_store C next c action))"

text \<open>The same for the methods that return the item they wrote.\<close>

definition coll_mutate_item ::
    "('b, 'a, 'c) coll \<Rightarrow> string \<Rightarrow> ('a list \<Rightarrow> err + 'a \<times> 'a list) \<Rightarrow> ('b svc, 'a) act" where
  "coll_mutate_item C action fn =
     bindE (on_be (c_load C)) (\<lambda>(list, c).
       bindE (liftE (fn list)) (\<lambda>(x, next). bindE (coll_store C next c action) (\<lambda>_. ret x)))"

text \<open>\<open>in.ID = ...; in.Managed = true; list = append(list, in)\<close>, with the id from \<open>mkid\<close>.\<close>

definition coll_create ::
    "('b, 'a, 'c) coll \<Rightarrow> ('a list \<Rightarrow> err + unit) \<Rightarrow> ('b svc, string) act \<Rightarrow> 'a \<Rightarrow> ('b svc, 'a) act" where
  "coll_create C chk mkid x =
     bindE (on_be (c_load C)) (\<lambda>(list, c).
       bindE (liftE (chk list)) (\<lambda>_.
         bindE mkid (\<lambda>i.
           let y = it_setManaged (c_item C) True (it_setID (c_item C) i x); list = list @ [y]
           in bindE (coll_store C list c ''create'') (\<lambda>_. ret y))))"

definition coll_update ::
    "('b, 'a, 'c) coll \<Rightarrow> ('a list \<Rightarrow> err + unit) \<Rightarrow> string \<Rightarrow> 'a \<Rightarrow> ('b svc, 'a) act" where
  "coll_update C chk i x = coll_mutate_item C ''update'' (update_item (c_item C) chk i x)"

definition coll_delete :: "('b, 'a, 'c) coll \<Rightarrow> string \<Rightarrow> ('b svc, unit) act" where
  "coll_delete C i = coll_mutate C ''delete'' (delete_item (c_item C) i)"

definition coll_enable :: "('b, 'a, 'c) coll \<Rightarrow> string \<Rightarrow> bool \<Rightarrow> ('b svc, unit) act" where
  "coll_enable C i on = coll_mutate C ''toggle'' (enable_item (c_item C) i on)"

definition coll_toggle :: "('b, 'a, 'c) coll \<Rightarrow> string \<Rightarrow> ('b svc, 'a) act" where
  "coll_toggle C i = coll_mutate_item C ''toggle'' (toggle_item (c_item C) i)"

definition coll_batch :: "('b, 'a, 'c) coll \<Rightarrow> string \<Rightarrow> string list \<Rightarrow> ('b svc, unit) act" where
  "coll_batch C action ids = coll_mutate C action (batch_items (c_item C) action (toSet ids))"

text \<open>No check before a write.\<close>

definition no_check :: "'a list \<Rightarrow> err + unit" where
  "no_check list = Inr ()"

text \<open>The edits of a collection, each after the validation of its argument.\<close>

fun coll_edit :: "('b, 'a, 'c) coll \<Rightarrow> ('a \<Rightarrow> err + 'a) \<Rightarrow> 'a edit \<Rightarrow> ('b svc, 'a option) act" where
  "coll_edit C v (EditUpdate i x) =
     bindE (liftE (v x)) (\<lambda>y. bindE (coll_update C no_check i y) (\<lambda>z. ret (Some z)))"
| "coll_edit C v (EditDelete i) = bindE (coll_delete C i) (\<lambda>_. ret None)"
| "coll_edit C v (EditEnable i on) = bindE (coll_enable C i on) (\<lambda>_. ret None)"
| "coll_edit C v (EditBatch action ids) = bindE (coll_batch C action ids) (\<lambda>_. ret None)"

text \<open>\<open>for _, x := range list { if x.ID == id { return x, nil } }; return ErrNotFound\<close>.\<close>

definition coll_get :: "('b, 'a, 'c) coll \<Rightarrow> string \<Rightarrow> ('b svc, 'a) act" where
  "coll_get C i =
     bindE (on_be (c_load C)) (\<lambda>(list, _). case find (\<lambda>x. it_ID (c_item C) x = i) list of
       None \<Rightarrow> fail ErrNotFound | Some x \<Rightarrow> ret x)"

text \<open>A list that is saved alone.\<close>

definition plain_load :: "('b, 'a list) act \<Rightarrow> ('b, 'a list \<times> unit) act" where
  "plain_load m = bindE m (\<lambda>list. ret (list, ()))"

definition plain_save :: "('a list \<Rightarrow> ('b, unit) act) \<Rightarrow> 'a list \<Rightarrow> unit \<Rightarrow> ('b, unit) act" where
  "plain_save f list u = f list"

section \<open>The collections of a backend\<close>

definition servers_coll :: "'b backend \<Rightarrow> ('b, DHCPServer, unit) coll" where
  "servers_coll B = \<lparr>c_item = server_item, c_load = plain_load (be_DHCPServers B), c_save = plain_save (be_SaveDHCPServers B),
     c_event = TypeDHCPChanged\<rparr>"

definition routes_coll :: "'b backend \<Rightarrow> ('b, Route, unit) coll" where
  "routes_coll B = \<lparr>c_item = route_item, c_load = plain_load (be_Routes B), c_save = plain_save (be_SaveRoutes B),
     c_event = TypeRouteChanged\<rparr>"

definition rules_coll :: "'b backend \<Rightarrow> ('b, PolicyRule, unit) coll" where
  "rules_coll B = \<lparr>c_item = rule_item, c_load = plain_load (be_PolicyRules B), c_save = plain_save (be_SavePolicyRules B),
     c_event = TypeRouteChanged\<rparr>"

definition records_coll :: "'b backend \<Rightarrow> ('b, DNSRecord, unit) coll" where
  "records_coll B = \<lparr>c_item = record_item, c_load = plain_load (be_DNSRecords B), c_save = plain_save (be_SaveDNSRecords B),
     c_event = TypeDNSChanged\<rparr>"

definition domroutes_coll :: "'b backend \<Rightarrow> ('b, DNSDomainRoute, unit) coll" where
  "domroutes_coll B = \<lparr>c_item = domroute_item, c_load = plain_load (be_DNSDomainRoutes B), c_save = plain_save (be_SaveDNSDomainRoutes B),
     c_event = TypeDNSChanged\<rparr>"

definition wan6s_coll :: "'b backend \<Rightarrow> ('b, WANv6, unit) coll" where
  "wan6s_coll B = \<lparr>c_item = wan6_item, c_load = plain_load (be_WANv6s B), c_save = plain_save (be_SaveWANv6s B),
     c_event = TypeIPv6Changed\<rparr>"

definition lan6s_coll :: "'b backend \<Rightarrow> ('b, LANv6, unit) coll" where
  "lan6s_coll B = \<lparr>c_item = lan6_item, c_load = plain_load (be_LANv6s B), c_save = plain_save (be_SaveLANv6s B),
     c_event = TypeIPv6Changed\<rparr>"

definition prefix6s_coll :: "'b backend \<Rightarrow> ('b, PrefixStaticV6, unit) coll" where
  "prefix6s_coll B = \<lparr>c_item = prefix6_item, c_load = plain_load (be_PrefixStaticsV6 B), c_save = plain_save (be_SavePrefixStaticsV6 B),
     c_event = TypeIPv6Changed\<rparr>"

text \<open>staticsAndARP: the reservations and the ARP flag saved with them.\<close>

definition staticsAndARP :: "'b backend \<Rightarrow> ('b, StaticLease list \<times> bool) act" where
  "staticsAndARP B = bindE (be_Statics B) (\<lambda>list. bindE (be_ARPBind B) (\<lambda>arp. ret (list, arp)))"

definition statics_coll :: "'b backend \<Rightarrow> ('b, StaticLease, bool) coll" where
  "statics_coll B = \<lparr>c_item = static_item, c_load = staticsAndARP B, c_save = be_SaveStatics B,
     c_event = TypeStaticChanged\<rparr>"

text \<open>GetACL and GetACLv6; the mode is the context of the entries.\<close>

definition load_ACL :: "'b backend \<Rightarrow> ('b, ACL) act" where
  "load_ACL B = bindE (be_ACL B) (\<lambda>acl.
     ret (if acl_Mode acl = [] then acl\<lparr>acl_Mode := ACLBlacklist\<rparr> else acl))"

definition acl_coll :: "'b backend \<Rightarrow> ('b, ACLEntry, string) coll" where
  "acl_coll B = \<lparr>c_item = acl_item,
     c_load = bindE (load_ACL B) (\<lambda>acl. ret (acl_Entries acl, acl_Mode acl)),
     c_save = (\<lambda>list mode. be_SaveACL B \<lparr>acl_Mode = mode, acl_Entries = list\<rparr>),
     c_event = TypeACLChanged\<rparr>"

definition load_ACLv6 :: "'b backend \<Rightarrow> ('b, ACLv6) act" where
  "load_ACLv6 B = bindE (be_ACLv6 B) (\<lambda>acl.
     ret (if acl6_Mode acl = [] then acl\<lparr>acl6_Mode := ACLBlacklist\<rparr> else acl))"

definition acl6_coll :: "'b backend \<Rightarrow> ('b, ACLv6Entry, string) coll" where
  "acl6_coll B = \<lparr>c_item = acl6_item,
     c_load = bindE (load_ACLv6 B) (\<lambda>acl. ret (acl6_Entries acl, acl6_Mode acl)),
     c_save = (\<lambda>list mode. be_SaveACLv6 B \<lparr>acl6_Mode = mode, acl6_Entries = list\<rparr>),
     c_event = TypeIPv6Changed\<rparr>"

lemmas coll_defs [eval_simps] =
  servers_coll_def routes_coll_def rules_coll_def records_coll_def domroutes_coll_def wan6s_coll_def
  lan6s_coll_def prefix6s_coll_def staticsAndARP_def statics_coll_def load_ACL_def acl_coll_def
  load_ACLv6_def acl6_coll_def

lemmas backend_eval [eval_simps] =
  on_be_def publish_def rand_bytes_def cryptoID_def coll_store_def coll_mutate_def coll_mutate_item_def
  coll_create_def coll_update_def coll_delete_def coll_enable_def coll_toggle_def coll_batch_def
  coll_get_def no_check_def plain_load_def plain_save_def

section \<open>What a collection needs of its backend\<close>

text \<open>
  \<open>get\<close> reads the list in the state of the backend. Loading returns it and changes nothing. Saving
  leaves the new list in it whether or not it reports an error: the backends change the list in
  memory first and write the file afterwards.
\<close>

locale coll_laws = item_laws "c_item C" for C :: "('b, 'a, 'c) coll" +
  fixes get :: "'b \<Rightarrow> 'a list" and ctx :: "'b \<Rightarrow> 'c"
  assumes load: "c_load C b = (Inr (get b, ctx b), b)"
    and save_get: "get (snd (c_save C xs (ctx b) b)) = xs"
    and save_ctx: "ctx (snd (c_save C xs (ctx b) b)) = ctx b"
begin

text \<open>The list the service sees.\<close>

definition items :: "'b svc \<Rightarrow> 'a list" where
  "items s = get (sv_be s)"

lemma on_be_load: "on_be (c_load C) s = (Inr (items s, ctx (sv_be s)), s)"
  by (simp add: on_be_def load items_def)

text \<open>
  One write: the new list is there in any case; an event goes out exactly when the save succeeded.
\<close>

lemma coll_store_spec:
  assumes "coll_store C ys (ctx (sv_be s)) action s = (r, s')"
  shows "items s' = ys" and "ctx (sv_be s') = ctx (sv_be s)" and "sv_rand s' = sv_rand s"
    and "fst (c_save C ys (ctx (sv_be s)) (sv_be s)) = r"
    and "sv_bus s' = (case r of Inl _ \<Rightarrow> sv_bus s | Inr _ \<Rightarrow> map_option
          (Publish (c_event C) [] \<lparr>nc_Action = action, nc_Count = int (length ys)\<rparr> (sv_clock s 0)) (sv_bus s))"
proof -
  obtain r1 b1 where s: "c_save C ys (ctx (sv_be s)) (sv_be s) = (r1, b1)"
    by (cases "c_save C ys (ctx (sv_be s)) (sv_be s)")
  then have "get b1 = ys" and "ctx b1 = ctx (sv_be s)"
    using save_get [of ys "sv_be s"] save_ctx [of ys "sv_be s"] by simp_all
  with s assms show "items s' = ys" and "ctx (sv_be s') = ctx (sv_be s)" and "sv_rand s' = sv_rand s"
    and "fst (c_save C ys (ctx (sv_be s)) (sv_be s)) = r"
    and "sv_bus s' = (case r of Inl _ \<Rightarrow> sv_bus s | Inr _ \<Rightarrow> map_option
          (Publish (c_event C) [] \<lparr>nc_Action = action, nc_Count = int (length ys)\<rparr> (sv_clock s 0)) (sv_bus s))"
    by (auto simp: coll_store_def bindE_def on_be_def publish_def items_def split: sum.splits option.splits)
qed

lemma coll_mutate_Inl: "fn (items s) = Inl e \<Longrightarrow> coll_mutate C action fn s = (Inl e, s)"
  by (simp add: coll_mutate_def bindE_def on_be_load liftE_def)

lemma coll_mutate_Inr:
  "fn (items s) = Inr ys \<Longrightarrow> coll_mutate C action fn s = coll_store C ys (ctx (sv_be s)) action s"
  by (simp add: coll_mutate_def bindE_def on_be_load liftE_def)

lemma coll_mutate_item_Inl: "fn (items s) = Inl e \<Longrightarrow> coll_mutate_item C action fn s = (Inl e, s)"
  by (simp add: coll_mutate_item_def bindE_def on_be_load liftE_def)

lemma coll_mutate_item_Inr:
  "fn (items s) = Inr (y, ys) \<Longrightarrow> coll_mutate_item C action fn s =
     (case coll_store C ys (ctx (sv_be s)) action s of (Inl e, t) \<Rightarrow> (Inl e, t) | (Inr u, t) \<Rightarrow> (Inr y, t))"
  by (simp add: coll_mutate_item_def bindE_def on_be_load liftE_def ret_def split: prod.splits sum.splits)

text \<open>
  The contract of the write operations on the map from ids to items. An operation that reports
  \<open>not found\<close> changed nothing; one that got as far as saving did to the map what it promises, even
  where the save then failed.
\<close>

lemma coll_delete_spec:
  assumes "coll_delete C i s = (r, s')"
  shows "if i \<in> set (ids_of (c_item C) (items s))
         then lookup_item (c_item C) (items s') = (lookup_item (c_item C) (items s))(i := None) \<and>
              ids_of (c_item C) (items s') = filter (\<lambda>j. j \<noteq> i) (ids_of (c_item C) (items s))
         else r = Inl ErrNotFound \<and> s' = s"
proof (cases "delete_item (c_item C) i (items s)")
  case (Inl e)
  with assms show ?thesis
    by (auto simp: coll_delete_def coll_mutate_Inl delete_item_Inl)
next
  case (Inr ys)
  then have "items s' = ys"
    using assms coll_store_spec(1) by (simp add: coll_delete_def coll_mutate_Inr)
  with Inr show ?thesis
    using delete_item_lookup [OF Inr] by (auto simp: delete_item_Inr ids_of_def filter_map comp_def)
qed

lemma coll_enable_spec:
  assumes "coll_enable C i on s = (r, s')"
  shows "case lookup_item (c_item C) (items s) i of
      None \<Rightarrow> r = Inl ErrNotFound \<and> s' = s
    | Some x \<Rightarrow>
        lookup_item (c_item C) (items s') = (lookup_item (c_item C) (items s))(i \<mapsto> switch_item (c_item C) on x) \<and>
        ids_of (c_item C) (items s') = ids_of (c_item C) (items s)"
proof (cases "enable_item (c_item C) i on (items s)")
  case (Inl e)
  then have "lookup_item (c_item C) (items s) i = None"
    by (simp add: enable_item_Inl lookup_item_None)
  with Inl assms show ?thesis
    by (auto simp: coll_enable_def coll_mutate_Inl enable_item_Inl)
next
  case (Inr ys)
  then have "items s' = ys"
    using assms coll_store_spec(1) by (simp add: coll_enable_def coll_mutate_Inr)
  with enable_item_Inr [OF Inr] show ?thesis by auto
qed

lemma coll_batch_spec:
  assumes "coll_batch C action ids s = (r, s')"
  shows "if action \<in> {''enable'', ''disable'', ''delete''}
         then lookup_item (c_item C) (items s') i =
                Option.bind (lookup_item (c_item C) (items s) i) (batch_one (c_item C) action (set ids)) \<and>
              (distinct (ids_of (c_item C) (items s)) \<longrightarrow> distinct (ids_of (c_item C) (items s')))
         else (\<exists>e. r = Inl e) \<and> s' = s"
proof (cases "batch_items (c_item C) action (toSet ids) (items s)")
  case (Inl e)
  then have "action \<notin> {''enable'', ''disable'', ''delete''}"
    by (auto simp: batch_items_def Let_def split: if_splits)
  with Inl assms show ?thesis
    by (auto simp: coll_batch_def coll_mutate_Inl)
next
  case (Inr ys)
  then have "items s' = ys"
    using assms coll_store_spec(1) by (simp add: coll_batch_def coll_mutate_Inr)
  with batch_items_Inr [OF Inr] show ?thesis
    by (auto simp: toSet_def)
qed

lemma coll_mutate_item_split:
  assumes "coll_mutate_item C action fn s = (r, s')"
  obtains e where "fn (items s) = Inl e" and "r = Inl e" and "s' = s"
  | y ys where "fn (items s) = Inr (y, ys)" and "items s' = ys" and "r = Inr y \<or> (\<exists>e. r = Inl e)"
proof (cases "fn (items s)")
  case (Inl e)
  then have "r = Inl e \<and> s' = s"
    using assms by (simp add: coll_mutate_item_Inl)
  with Inl show ?thesis by (intro that(1)) simp_all
next
  case (Inr p)
  obtain y ys where p: "p = (y, ys)" by (cases p)
  obtain r1 s1 where st: "coll_store C ys (ctx (sv_be s)) action s = (r1, s1)"
    by (cases "coll_store C ys (ctx (sv_be s)) action s")
  with Inr p assms have "s' = s1" and "r = Inr y \<or> (\<exists>e. r = Inl e)"
    by (auto simp: coll_mutate_item_Inr split: sum.splits)
  with coll_store_spec(1) [OF st] show ?thesis
    by (intro that(2) [OF Inr [unfolded p]]) simp_all
qed

lemma coll_update_spec:
  assumes "coll_update C chk i x s = (r, s')"
  shows "if i \<notin> set (ids_of (c_item C) (items s)) then r = Inl ErrNotFound \<and> s' = s
    else (case chk (items s) of Inl e \<Rightarrow> r = Inl e \<and> s' = s
      | Inr _ \<Rightarrow>
        (let y = it_setManaged (c_item C) True (it_setID (c_item C) i x) in
         lookup_item (c_item C) (items s') = (lookup_item (c_item C) (items s))(i \<mapsto> y) \<and>
         ids_of (c_item C) (items s') = ids_of (c_item C) (items s) \<and> (r = Inr y \<or> (\<exists>e. r = Inl e))))"
  using assms unfolding coll_update_def
proof (cases rule: coll_mutate_item_split)
  case (1 e)
  then show ?thesis by (auto simp: update_item_Inl)
next
  case (2 y ys)
  with update_item_Inr [OF 2(1)] show ?thesis by (auto simp: Let_def)
qed

lemma coll_toggle_spec:
  assumes "coll_toggle C i s = (r, s')"
  shows "case lookup_item (c_item C) (items s) i of
      None \<Rightarrow> r = Inl ErrNotFound \<and> s' = s
    | Some x \<Rightarrow>
        (let y = switch_item (c_item C) (\<not> it_Enabled (c_item C) x) x in
         lookup_item (c_item C) (items s') = (lookup_item (c_item C) (items s))(i \<mapsto> y) \<and>
         ids_of (c_item C) (items s') = ids_of (c_item C) (items s) \<and> (r = Inr y \<or> (\<exists>e. r = Inl e)))"
  using assms unfolding coll_toggle_def
proof (cases rule: coll_mutate_item_split)
  case (1 e)
  then show ?thesis by (simp add: toggle_item_Inl lookup_item_None [symmetric])
next
  case (2 y ys)
  with toggle_item_Inr [OF 2(1)] show ?thesis by (auto simp: Let_def)
qed

text \<open>Every edit, whatever its outcome, acts on the map from ids to items as its specification.\<close>

lemma snd_bindE_ret: "snd (bindE m (\<lambda>x. ret (f x)) s) = snd (m s)"
  by (simp add: bindE_def ret_def split: prod.splits sum.splits)

lemma coll_edit_map:
  "lookup_item (c_item C) (items (snd (coll_edit C v e s))) =
     edit_map (c_item C) v e (lookup_item (c_item C) (items s))"
proof (cases e)
  case (EditUpdate i x)
  show ?thesis
  proof (cases "v x")
    case (Inl err)
    with EditUpdate show ?thesis by (simp add: bindE_def liftE_def)
  next
    case (Inr y)
    obtain r s' where u: "coll_update C no_check i y s = (r, s')"
      by (cases "coll_update C no_check i y s")
    have "snd (coll_edit C v e s) = s'"
      using EditUpdate Inr u snd_bindE_ret [of "coll_update C no_check i y" Some s]
      by (simp add: bindE_def liftE_def)
    with coll_update_spec [OF u] EditUpdate Inr show ?thesis
      by (simp add: no_check_def Let_def dom_lookup_item split: if_splits)
  qed
next
  case (EditDelete i)
  obtain r s' where u: "coll_delete C i s = (r, s')"
    by (cases "coll_delete C i s")
  have "lookup_item (c_item C) (items s) i = None" if "i \<notin> set (ids_of (c_item C) (items s))"
    using that by (simp add: lookup_item_None)
  with coll_delete_spec [OF u] u EditDelete show ?thesis
    by (auto simp: snd_bindE_ret split: if_splits)
next
  case (EditEnable i on)
  obtain r s' where u: "coll_enable C i on s = (r, s')"
    by (cases "coll_enable C i on s")
  with coll_enable_spec [OF u] EditEnable show ?thesis
    by (auto simp: snd_bindE_ret split: option.splits)
next
  case (EditBatch action ids)
  obtain r s' where u: "coll_batch C action ids s = (r, s')"
    by (cases "coll_batch C action ids s")
  with coll_batch_spec [OF u] EditBatch show ?thesis
    by (auto simp: snd_bindE_ret fun_eq_iff split: if_splits)
qed

text \<open>An edit keeps the ids distinct.\<close>

lemma coll_edit_distinct:
  assumes "distinct (ids_of (c_item C) (items s))"
  shows "distinct (ids_of (c_item C) (items (snd (coll_edit C v e s))))"
proof (cases e)
  case (EditUpdate i x)
  show ?thesis
  proof (cases "v x")
    case (Inl err)
    with EditUpdate assms show ?thesis by (simp add: bindE_def liftE_def)
  next
    case (Inr y)
    obtain r s' where u: "coll_update C no_check i y s = (r, s')"
      by (cases "coll_update C no_check i y s")
    have "snd (coll_edit C v e s) = s'"
      using EditUpdate Inr u snd_bindE_ret [of "coll_update C no_check i y" Some s]
      by (simp add: bindE_def liftE_def)
    with coll_update_spec [OF u] assms show ?thesis
      by (simp add: no_check_def Let_def split: if_splits)
  qed
next
  case (EditDelete i)
  obtain r s' where u: "coll_delete C i s = (r, s')"
    by (cases "coll_delete C i s")
  with coll_delete_spec [OF u] EditDelete assms show ?thesis
    by (auto simp: snd_bindE_ret split: if_splits)
next
  case (EditEnable i on)
  obtain r s' where u: "coll_enable C i on s = (r, s')"
    by (cases "coll_enable C i on s")
  with coll_enable_spec [OF u] EditEnable assms show ?thesis
    by (auto simp: snd_bindE_ret split: option.splits)
next
  case (EditBatch action ids)
  obtain r s' where u: "coll_batch C action ids s = (r, s')"
    by (cases "coll_batch C action ids s")
  with coll_batch_spec [OF u, of "[]"] EditBatch assms show ?thesis
    by (auto simp: snd_bindE_ret split: if_splits)
qed

lemma coll_create_spec:
  assumes "coll_create C chk mkid x s = (r, s')" and "mkid s = (Inr i, s1)" and "sv_be s1 = sv_be s"
  shows "case chk (items s) of
      Inl e \<Rightarrow> r = Inl e \<and> s' = s
    | Inr _ \<Rightarrow>
        (let y = it_setManaged (c_item C) True (it_setID (c_item C) i x) in
         items s' = items s @ [y] \<and> (r = Inr y \<or> (\<exists>e. r = Inl e)))"
proof (cases "chk (items s)")
  case (Inl e)
  with assms(1) show ?thesis
    by (simp add: coll_create_def bindE_def on_be_load liftE_def)
next
  case (Inr u)
  let ?y = "it_setManaged (c_item C) True (it_setID (c_item C) i x)"
  obtain r2 s2 where st: "coll_store C (items s @ [?y]) (ctx (sv_be s1)) ''create'' s1 = (r2, s2)"
    by (cases "coll_store C (items s @ [?y]) (ctx (sv_be s1)) ''create'' s1")
  with Inr assms have "s' = s2" and "r = Inr ?y \<or> (\<exists>e. r = Inl e)"
    by (auto simp: coll_create_def bindE_def on_be_load liftE_def ret_def Let_def split: sum.splits)
  with coll_store_spec(1) [OF st] Inr show ?thesis by (simp add: Let_def)
qed

lemma coll_get_spec:
  "coll_get C i s = (case lookup_item (c_item C) (items s) i of None \<Rightarrow> (Inl ErrNotFound, s) | Some x \<Rightarrow> (Inr x, s))"
  by (simp add: coll_get_def bindE_def on_be_load lookup_item_def ret_def fail_def split: option.splits)

end

lemma cryptoID_be:
  "cryptoID p s = (Inr (p @ ''_'' @ go_hex (map (\<lambda>k. unat (sv_rand s k)) [0..<6])), s\<lparr>sv_rand := (\<lambda>k. sv_rand s (k + 6))\<rparr>)"
  by (simp add: cryptoID_def bindE_def rand_bytes_def ret_def)

end
