(* ===== verification/UciText.thy ===== *)
theory UciText
  imports Types
begin

text \<open>
  The text helpers of backend_uci.go and uciexec.go: reading the output of \<open>uci show\<close>
  (parseUci, parseUciValues, managedSections), section names, lease times, option values, and the
  conversion between a pool's start offset and limit and its first and last address. Loops over
  the runes of a string run over \<open>runes\<close>; a sum that Go keeps in an \<open>int\<close> is wrapped to 64 bits.
\<close>

section \<open>Small helpers\<close>

fun atoi_loop :: "int \<Rightarrow> nat list \<Rightarrow> int" where
  "atoi_loop n [] = n"
| "atoi_loop n (r # rs) = (if r < 48 \<or> r > 57 then n else atoi_loop (wrap64 (n * 10 + (int r - 48))) rs)"

definition atoiSafe :: "string \<Rightarrow> int" where
  "atoiSafe s = atoi_loop 0 (runes s)"

definition first :: "string list \<Rightarrow> string" where
  "first v = (case v of [] \<Rightarrow> [] | x # _ \<Rightarrow> x)"

definition orAuto :: "string \<Rightarrow> string" where
  "orAuto s = (if go_TrimSpace s = [] then ''auto'' else s)"

definition joinDNS :: "string \<Rightarrow> string \<Rightarrow> string" where
  "joinDNS a b =
     go_Join ((if go_TrimSpace a \<noteq> [] then [a] else []) @ (if go_TrimSpace b \<noteq> [] then [b] else [])) '',''"

definition splitOpt :: "string \<Rightarrow> (int \<times> string) option" where
  "splitOpt o' = (case go_IndexByte o' CHR '','' of
     None \<Rightarrow> None
   | Some i \<Rightarrow>
       if i = 0 then None
       else (let cd = atoiSafe (take i o') in if cd \<le> 0 then None else Some (cd, drop (Suc i) o')))"

text \<open>A rune that is a letter, a digit or an underscore of ASCII.\<close>

definition name_rune :: "nat \<Rightarrow> bool" where
  "name_rune r \<longleftrightarrow> (97 \<le> r \<and> r \<le> 122) \<or> (65 \<le> r \<and> r \<le> 90) \<or> (48 \<le> r \<and> r \<le> 57) \<or> r = 95"

definition uciName :: "string \<Rightarrow> string" where
  "uciName i =
     (let s = map (\<lambda>r. if name_rune r then byte r else CHR ''_'') (runes i)
      in if s = [] \<or> is_digit (hd s) then ''nm_'' @ s else s)"

section \<open>Lease time\<close>

text \<open>Go's integer division truncates toward zero; the operands here may be negative after a wrap.\<close>

definition go_div :: "int \<Rightarrow> int \<Rightarrow> int" where
  "go_div a b = sgn a * sgn b * (\<bar>a\<bar> div \<bar>b\<bar>)"

definition leasetimeToMin :: "string \<Rightarrow> int" where
  "leasetimeToMin s0 =
     (let s = go_TrimSpace s0 in
      if s = ''infinite'' then 0
      else if s = [] then -1
      else
        (let unit = last s; num = atoiSafe (butlast s) in
         if unit = CHR ''h'' then wrap64 (num * 60)
         else if unit = CHR ''d'' then wrap64 (num * 1440)
         else if unit = CHR ''m'' then num
         else if unit = CHR ''s'' then (if num < 60 then 1 else go_div num 60)
         else go_div (atoiSafe s) 60))"

section \<open>Start offset and limit\<close>

definition startLimitToRange :: "string \<Rightarrow> string \<Rightarrow> int \<Rightarrow> int \<Rightarrow> string \<times> string" where
  "startLimitToRange ip netmask start limit =
     (case NetworkBase ip netmask of
        None \<Rightarrow> ([], [])
      | Some base \<Rightarrow>
          if limit \<le> 0 then ([], [])
          else
            (let bu = or0 (IPv4ToUint32 base);
                 su = bu + word_of_int start;
                 eu = su + word_of_int limit - 1
             in (Uint32ToIPv4 su, Uint32ToIPv4 eu)))"

section \<open>Reading uci show\<close>

record uciSec =
  us_name :: string
  us_typ :: string
  us_opts :: "string \<rightharpoonup> string list"

text \<open>\<open>s.opts[k]\<close>: the values of an option, none when it is absent.\<close>

definition opts_get :: "uciSec \<Rightarrow> string \<Rightarrow> string list" where
  "opts_get s k = (case us_opts s k of None \<Rightarrow> [] | Some v \<Rightarrow> v)"

fun uci_values_loop :: "bool \<Rightarrow> string \<Rightarrow> (nat \<times> string) list \<Rightarrow> string list" where
  "uci_values_loop inq cur [] = (if cur \<noteq> [] then [cur] else [])"
| "uci_values_loop inq cur (rb # xs) =
     (if fst rb = 39 then uci_values_loop (\<not> inq) cur xs
      else if fst rb = 32 \<and> \<not> inq then
        (if cur \<noteq> [] then cur # uci_values_loop inq [] xs else uci_values_loop inq cur xs)
      else uci_values_loop inq (cur @ write_rune rb) xs)"

definition parseUciValues :: "string \<Rightarrow> string list" where
  "parseUciValues s = uci_values_loop False [] (rune_segs s)"

text \<open>\<open>ensure\<close>: the section of that name, appended if it is new; here, applied with an update.\<close>

fun upd_sec :: "string \<Rightarrow> (uciSec \<Rightarrow> uciSec) \<Rightarrow> uciSec list \<Rightarrow> uciSec list" where
  "upd_sec name f [] = [f \<lparr>us_name = name, us_typ = [], us_opts = Map.empty\<rparr>]"
| "upd_sec name f (s # ss) = (if us_name s = name then f s # ss else s # upd_sec name f ss)"

definition uci_line :: "string \<Rightarrow> uciSec list \<Rightarrow> string \<Rightarrow> uciSec list" where
  "uci_line prefix secs line0 =
     (let line = go_TrimSpace line0 in
      if \<not> go_HasPrefix line prefix then secs
      else
        (let body = go_TrimPrefix line prefix in
         case go_IndexByte body CHR ''='' of
           None \<Rightarrow> secs
         | Some eq \<Rightarrow>
             (let left = take eq body; right = drop (Suc eq) body in
              case go_IndexByte left CHR ''.'' of
                None \<Rightarrow> upd_sec left (\<lambda>s. s\<lparr>us_typ := go_TrimByte right (byte 39)\<rparr>) secs
              | Some dot \<Rightarrow>
                  upd_sec (take dot left)
                    (\<lambda>s. s\<lparr>us_opts := (us_opts s)(drop (Suc dot) left \<mapsto> parseUciValues right)\<rparr>) secs)))"

definition parseUci :: "string \<Rightarrow> string \<Rightarrow> uciSec list" where
  "parseUci shown config = foldl (uci_line (config @ ''.'')) [] (go_Split shown (byte 10))"

section \<open>Managed sections\<close>

abbreviation managedMarker :: string where "managedMarker \<equiv> ''kwrt-net-manager''"
abbreviation managedOpt :: string where "managedOpt \<equiv> ''managed_by''"

text \<open>
  One line of the output: the name of a section that carries the marker. \<open>rest[:IndexByte(rest, '.')]\<close>
  panics when there is no dot.
\<close>

definition marker_line :: "string \<Rightarrow> string \<Rightarrow> string \<Rightarrow> err + string option" where
  "marker_line prefix suf line0 =
     (let line = go_TrimSpace line0 in
      if \<not> go_HasPrefix line prefix \<or> \<not> go_HasSuffix line suf then Inr None
      else
        (let rest = go_TrimPrefix line prefix in
         case go_IndexByte rest CHR ''.'' of
           None \<Rightarrow> Inl ErrPanic
         | Some i \<Rightarrow> if take i rest = [] then Inr None else Inr (Some (take i rest))))"

fun marker_loop :: "string \<Rightarrow> string \<Rightarrow> string list \<Rightarrow> string list \<Rightarrow> err + string list" where
  "marker_loop prefix suf names [] = Inr names"
| "marker_loop prefix suf names (l # ls) =
     (case marker_line prefix suf l of
        Inl e \<Rightarrow> Inl e
      | Inr None \<Rightarrow> marker_loop prefix suf names ls
      | Inr (Some n) \<Rightarrow> marker_loop prefix suf (if n \<in> set names then names else names @ [n]) ls)"

definition managedSectionsMarker :: "string \<Rightarrow> string \<Rightarrow> string \<Rightarrow> err + string list" where
  "managedSectionsMarker shown config marker =
     marker_loop (config @ ''.'') (''.'' @ managedOpt @ ''='' @ [byte 39] @ marker @ [byte 39]) []
       (go_Split shown (byte 10))"

definition managedSections :: "string \<Rightarrow> string \<Rightarrow> err + string list" where
  "managedSections shown config = managedSectionsMarker shown config managedMarker"

section \<open>Route table\<close>

definition splitCIDR :: "string \<Rightarrow> string \<Rightarrow> string \<times> string" where
  "splitCIDR s family = (case go_Cut s CHR ''/'' of (target, prefixStr, hasSlash) \<Rightarrow>
     if family = FamilyIPv6 then
       (if \<not> IsIPv6 target then ([], [])
        else (target, ''/'' @ (if hasSlash then prefixStr else ''128'')))
     else if \<not> IsIPv4 target then ([], [])
     else if \<not> hasSlash then (target, ''255.255.255.255'')
     else (target, PrefixToMask (atoiSafe prefixStr)))"

fun route_attrs :: "string list \<Rightarrow> RouteEntry \<Rightarrow> RouteEntry" where
  "route_attrs (k # v # fs) e =
     route_attrs (v # fs)
       (if k = ''via'' then e\<lparr>re_Gateway := v\<rparr>
        else if k = ''dev'' then e\<lparr>re_Interface := v\<rparr>
        else if k = ''metric'' then e\<lparr>re_Metric := atoiSafe v\<rparr>
        else e)"
| "route_attrs fs e = e"

definition route_row :: "string \<Rightarrow> string \<Rightarrow> RouteEntry option" where
  "route_row family line = (case go_Fields line of
     [] \<Rightarrow> None
   | dest # fs \<Rightarrow>
       (let (target, netmask) =
          (if dest = ''default'' then
             (if family = FamilyIPv6 then (''::'', ''/0'') else (''0.0.0.0'', ''0.0.0.0''))
           else splitCIDR dest family)
        in if target = [] then None
           else Some (route_attrs fs
             \<lparr>re_Interface = [], re_Target = target, re_Netmask = netmask, re_Gateway = [], re_Metric = 0\<rparr>)))"

definition parseIPRoute :: "string \<Rightarrow> string \<Rightarrow> RouteEntry list" where
  "parseIPRoute out family = List.map_filter (route_row family) (go_Split out (byte 10))"

lemmas uci_text_eval [eval_simps] =
  atoiSafe_def first_def orAuto_def joinDNS_def splitOpt_def name_rune_def uciName_def go_div_def
  leasetimeToMin_def startLimitToRange_def write_rune_def parseUciValues_def uci_line_def parseUci_def
  marker_line_def managedSectionsMarker_def managedSections_def splitCIDR_def route_row_def parseIPRoute_def
  wrap64_def

section \<open>Pool offsets: a round trip\<close>

text \<open>Importing what apply wrote: the start offset and limit computed for a pool on an interface are turned back into exactly the first and last address of the pool.\<close>

theorem start_limit_roundtrip:
  assumes "DHCPStartLimit ip m s e = Some (st, n)"
  shows "\<exists>su eu. IPv4ToUint32 s = Some su \<and> IPv4ToUint32 e = Some eu \<and>
    startLimitToRange ip m st n = (Uint32ToIPv4 su, Uint32ToIPv4 eu)"
  using assms
proof (rule DHCPStartLimit_Some)
  fix iu mu su eu
  assume a: "IPv4ToUint32 ip = Some iu" "IPv4ToUint32 m = Some mu" "IPv4ToUint32 s = Some su"
    "IPv4ToUint32 e = Some eu" "iu AND mu \<le> su" "su \<le> eu"
    "st = uint su - uint (iu AND mu)" "n = uint eu - uint su + 1"
  then have "word_of_int st = su - (iu AND mu)" and "word_of_int n = eu - su + 1" and "0 < n"
    by (simp_all add: word_le_def)
  with a show ?thesis
    by (auto simp: startLimitToRange_def NetworkBase_def or0_def Let_def)
qed

theorem start_limit_roundtrip_witness:
  "startLimitToRange ''192.168.1.1'' ''255.255.255.0'' 100 101 = (''192.168.1.100'', ''192.168.1.200'')"
proof -
  have "DHCPStartLimit ''192.168.1.1'' ''255.255.255.0'' ''192.168.1.100'' ''192.168.1.200'' = Some (100, 101)"
    by (simp add: eval_simps)
  from start_limit_roundtrip [OF this] show ?thesis
    by (simp add: eval_simps)
qed

end
