(* ===== verification/Validate.thy ===== *)
theory Validate
  imports UciText
begin

text \<open>
  The validators: validate.go, policyrule.go (validatePolicyRule), iface.go (validateNetIface and
  the relation checks), ipv6_validate.go and dns_validate.go. A Go validator changes its argument
  in place and returns an error; here it returns the error or the normalised argument.
\<close>

text \<open>\<open>v != "" && !ok(v)\<close>, the check of an optional field.\<close>

definition bad_opt :: "(string \<Rightarrow> bool) \<Rightarrow> string \<Rightarrow> bool" where
  "bad_opt ok v \<longleftrightarrow> v \<noteq> [] \<and> \<not> ok v"

section \<open>validate.go\<close>

definition bad_exclude :: "string \<Rightarrow> bool" where
  "bad_exclude line \<longleftrightarrow> go_TrimSpace line \<noteq> [] \<and> ParseExcludeLine line = None"

definition bad_option :: "CustomOption \<Rightarrow> bool" where
  "bad_option o' \<longleftrightarrow> co_Code o' < 1 \<or> co_Code o' > 254"

definition validateDHCPServer :: "DHCPServer \<Rightarrow> err + DHCPServer" where
  "validateDHCPServer s0 =
     (let s = s0\<lparr>ds_Interface := go_TrimSpace (ds_Interface s0)\<rparr> in
      if ds_Interface s = [] then Inl (Err ''service interface is empty'')
      else if \<not> IsIPv4 (ds_IPStart s) \<or> \<not> IsIPv4 (ds_IPEnd s) then
        Inl (Err ''pool bounds must be IPv4 addresses'')
      else if (case RangeCount (ds_IPStart s) (ds_IPEnd s) of None \<Rightarrow> True | Some n \<Rightarrow> n \<le> 0) then
        Inl (Err ''pool end is below its start'')
      else if bad_opt IsValidNetmask (ds_Netmask s) then Inl (Err ''netmask'')
      else if bad_opt IsIPv4 (ds_Gateway s) then Inl (Err ''gateway'')
      else if bad_opt IsIPv4 (ds_DNSPrimary s) then Inl (Err ''primary DNS'')
      else if bad_opt IsIPv4 (ds_DNSSecondary s) then Inl (Err ''secondary DNS'')
      else if ds_LeaseMinutes s < 0 then Inl (Err ''lease time is negative'')
      else (case find bad_exclude (ds_Exclude s) of
          Some line \<Rightarrow> Inl (ErrFmt ''exclude line'' [line])
        | None \<Rightarrow>
            (case find bad_option (ds_CustomOptions s) of
               Some o' \<Rightarrow> Inl (ErrFmt ''DHCP option number'' [go_Itoa (co_Code o')])
             | None \<Rightarrow> Inr s)))"

definition validateStatic :: "StaticLease \<Rightarrow> err + StaticLease" where
  "validateStatic s0 =
     (let mac = NormalizeMAC (sl_MAC s0) in
      if mac = [] then Inl (Err ''MAC'')
      else
        (let s = s0\<lparr>sl_MAC := mac\<rparr> in
         if \<not> IsIPv4 (sl_IP s) then Inl (Err ''IP'')
         else
           (let s = s\<lparr>sl_Interface := go_TrimSpace (sl_Interface s)\<rparr> in
            if bad_opt IsIPv4 (sl_Gateway s) then Inl (Err ''gateway'')
            else if bad_opt IsIPv4 (sl_DNSPrimary s) then Inl (Err ''primary DNS'')
            else if bad_opt IsIPv4 (sl_DNSSecondary s) then Inl (Err ''secondary DNS'')
            else Inr s)))"

text \<open>The family-dependent part of validateRoute.\<close>

definition validateRoute_v4 :: "Route \<Rightarrow> err + Route" where
  "validateRoute_v4 r =
     (if \<not> IsIPv4 (rt_Target r) then Inl (Err ''target is not IPv4'')
      else bindR
        (if rt_Netmask r \<noteq> [] then
           (case MaskToPrefix (rt_Netmask r) of
              None \<Rightarrow> Inl (Err ''netmask'')
            | Some p \<Rightarrow> Inr (r\<lparr>rt_Prefix := p\<rparr>))
         else if rt_Prefix r < 0 \<or> rt_Prefix r > 32 then Inl (Err ''prefix 0-32'')
         else Inr (r\<lparr>rt_Netmask := PrefixToMask (rt_Prefix r)\<rparr>))
        (\<lambda>r. if bad_opt IsIPv4 (rt_Gateway r) then Inl (Err ''gateway is not IPv4'') else Inr r))"

definition validateRoute_v6 :: "Route \<Rightarrow> err + Route" where
  "validateRoute_v6 r =
     (if \<not> IsIPv6 (rt_Target r) then Inl (Err ''target is not IPv6'')
      else if rt_Prefix r < 0 \<or> rt_Prefix r > 128 then Inl (Err ''prefix 0-128'')
      else
        (let r = r\<lparr>rt_Netmask := []\<rparr> in
         if bad_opt IsIP (rt_Gateway r) then Inl (Err ''gateway is not an IP'') else Inr r))"

definition validateRoute_family :: "Route \<Rightarrow> err + Route" where
  "validateRoute_family r =
     (if rt_Family r = [] \<or> rt_Family r = FamilyIPv4 then Inr (r\<lparr>rt_Family := FamilyIPv4\<rparr>)
      else if rt_Family r = FamilyIPv6 then Inr r
      else Inl (Err ''family must be ipv4 or ipv6''))"

definition validateRoute_iface :: "Route \<Rightarrow> Route" where
  "validateRoute_iface r0 =
     (let r = r0\<lparr>rt_Interface := go_TrimSpace (rt_Interface r0)\<rparr>
      in if rt_Interface r = [] then r\<lparr>rt_Interface := ''auto''\<rparr> else r)"

text \<open>The checks after the one of the family.\<close>

definition validateRoute_rest :: "Route \<Rightarrow> err + Route" where
  "validateRoute_rest r =
     (if rt_Metric r < 0 then Inl (Err ''metric is negative'')
      else if rt_Type r \<notin> {[], ''unicast'', ''blackhole'', ''unreachable'', ''prohibit''} then
        Inl (Err ''route type'')
      else if rt_MTU r < 0 \<or> rt_MTU r > 65535 then Inl (Err ''MTU 0-65535'')
      else if rt_Table r < 0 \<or> rt_Table r > 255 then Inl (Err ''table 0-255'')
      else Inr r)"

definition validateRoute :: "Route \<Rightarrow> err + Route" where
  "validateRoute r0 =
     bindR (validateRoute_family r0) (\<lambda>r1.
       let r = validateRoute_iface r1
       in bindR (if rt_Family r = FamilyIPv4 then validateRoute_v4 r else validateRoute_v6 r)
            validateRoute_rest)"

definition routeHasNexthop :: "string \<Rightarrow> bool" where
  "routeHasNexthop typ \<longleftrightarrow> typ = [] \<or> typ = ''unicast''"

definition validateACLEntry :: "ACLEntry \<Rightarrow> err + ACLEntry" where
  "validateACLEntry e =
     (let mac = NormalizeMAC (ae_MAC e)
      in if mac = [] then Inl (Err ''MAC'') else Inr (e\<lparr>ae_MAC := mac\<rparr>))"

section \<open>policyrule.go\<close>

definition looksLikeIPOrCIDR :: "string \<Rightarrow> bool" where
  "looksLikeIPOrCIDR s \<longleftrightarrow> go_ParseCIDR_ok s \<or> go_ParseIP s \<noteq> None"

definition validatePolicyRule :: "PolicyRule \<Rightarrow> err + PolicyRule" where
  "validatePolicyRule r0 =
     bindR
       (if pr_Family r0 = [] \<or> pr_Family r0 = FamilyIPv4 then Inr (r0\<lparr>pr_Family := FamilyIPv4\<rparr>)
        else if pr_Family r0 = FamilyIPv6 then Inr r0
        else Inl (Err ''family must be ipv4 or ipv6''))
       (\<lambda>r. let r = r\<lparr>pr_Src := go_TrimSpace (pr_Src r), pr_Dest := go_TrimSpace (pr_Dest r),
                     pr_InIface := go_TrimSpace (pr_InIface r), pr_Lookup := go_TrimSpace (pr_Lookup r)\<rparr>
            in if pr_Lookup r = [] then Inl (Err ''lookup table is required'')
               else if (case go_Atoi (pr_Lookup r) of None \<Rightarrow> True | Some n \<Rightarrow> n < 1 \<or> n > 255) then
                 Inl (Err ''lookup table 1-255'')
               else if pr_Priority r < 0 \<or> pr_Priority r > 65535 then Inl (Err ''priority 0-65535'')
               else if list_ex (bad_opt looksLikeIPOrCIDR) [pr_Src r, pr_Dest r] then
                 Inl (Err ''source and destination must be an IP or a network'')
               else Inr r)"

section \<open>iface.go\<close>

definition validNICName :: "string \<Rightarrow> bool" where
  "validNICName s \<longleftrightarrow>
     \<not> (s = [] \<or> length s > 15 \<or> hd s = CHR ''-'' \<or> go_Contains s ''..'') \<and>
     list_all (\<lambda>r. (97 \<le> r \<and> r \<le> 122) \<or> (65 \<le> r \<and> r \<le> 90) \<or> (48 \<le> r \<and> r \<le> 57) \<or>
                   r = 46 \<or> r = 95 \<or> r = 45) (runes s)"

text \<open>The cleaned DNS list: trimmed, blank lines dropped, no duplicates.\<close>

fun clean_dns :: "string set \<Rightarrow> string list \<Rightarrow> err + string list" where
  "clean_dns seen [] = Inr []"
| "clean_dns seen (d0 # ds) =
     (let d = go_TrimSpace d0 in
      if d = [] then clean_dns seen ds
      else if \<not> IsIPv4 d \<and> \<not> IsIPv6 d then Inl (ErrFmt ''DNS server'' [d])
      else if d \<in> seen then Inl (ErrFmt ''duplicate DNS server'' [d])
      else bindR (clean_dns (insert d seen) ds) (\<lambda>r. Inr (d # r)))"

definition check_addr :: "IfaceAddr \<Rightarrow> err + IfaceAddr" where
  "check_addr a =
     (if ia_Family a = [] \<or> ia_Family a = FamilyIPv4 then
        (if \<not> IsIPv4 (ia_Address a) then Inl (ErrFmt ''extra IPv4 address'' [ia_Address a])
         else if ia_Prefix a < 1 \<or> ia_Prefix a > 32 then Inl (ErrFmt ''extra IPv4 prefix'' [ia_Address a])
         else Inr (a\<lparr>ia_Family := FamilyIPv4\<rparr>))
      else if ia_Family a = FamilyIPv6 then
        (if \<not> IsIPv6 (ia_Address a) then Inl (ErrFmt ''extra IPv6 address'' [ia_Address a])
         else if ia_Prefix a < 1 \<or> ia_Prefix a > 128 then Inl (ErrFmt ''extra IPv6 prefix'' [ia_Address a])
         else Inr a)
      else Inl (Err ''extra address family''))"

fun check_addrs :: "string set \<Rightarrow> IfaceAddr list \<Rightarrow> err + IfaceAddr list" where
  "check_addrs seen [] = Inr []"
| "check_addrs seen (a # as) =
     bindR (check_addr a) (\<lambda>a.
       if ia_Address a \<in> seen then Inl (ErrFmt ''duplicate extra address'' [ia_Address a])
       else bindR (check_addrs (insert (ia_Address a) seen) as) (\<lambda>r. Inr (a # r)))"

text \<open>The part of validateNetIface that depends on role and protocol.\<close>

definition check_proto :: "NetIface \<Rightarrow> err + NetIface" where
  "check_proto i =
     (if ni_Role i = RoleLAN then
        (let i = i\<lparr>ni_Proto := ProtoStatic\<rparr> in
         if \<not> IsIPv4 (ni_IPAddr i) then Inl (Err ''LAN address'')
         else if bad_opt IsValidNetmask (ni_Netmask i) then Inl (Err ''netmask'')
         else Inr i)
      else if ni_Proto i = ProtoPPPoE then
        (if go_TrimSpace (ni_Username i) = [] then Inl (Err ''PPPoE user is empty'') else Inr i)
      else if ni_Proto i = ProtoStatic then
        (if \<not> IsIPv4 (ni_IPAddr i) then Inl (Err ''static address'')
         else if bad_opt IsIPv4 (ni_Gateway i) then Inl (Err ''gateway'')
         else Inr i)
      else if ni_Proto i = ProtoDHCP \<or> ni_Proto i = [] then Inr (i\<lparr>ni_Proto := ProtoDHCP\<rparr>)
      else Inl (Err ''protocol must be dhcp, pppoe or static''))"

definition validateNetIface :: "NetIface \<Rightarrow> err + NetIface" where
  "validateNetIface i0 =
     (if ni_Role i0 \<noteq> RoleLAN \<and> ni_Role i0 \<noteq> RoleWAN then Inl (Err ''role must be lan or wan'')
      else bindR (check_proto (i0\<lparr>ni_ID := go_TrimSpace (ni_ID i0)\<rparr>)) (\<lambda>i.
        if ni_MTU i < 0 \<or> ni_MTU i > 9200 then Inl (Err ''MTU 0-9200'')
        else bindR (clean_dns {} (ni_DNS i)) (\<lambda>cleaned.
          let i = i\<lparr>ni_DNS := cleaned\<rparr> in
          if ni_DNSMetric i < 0 then Inl (Err ''dns_metric is negative'')
          else bindR (check_addrs (if ni_IPAddr i \<noteq> [] then {ni_IPAddr i} else {}) (ni_ExtraAddrs i)) (\<lambda>addrs.
            let i = i\<lparr>ni_ExtraAddrs := addrs\<rparr> in
            if go_TrimSpace (ni_CloneMAC i) \<noteq> [] \<and> \<not> IsMAC (ni_CloneMAC i) then Inl (Err ''clone MAC'')
            else if ni_Metric i < 0 then Inl (Err ''metric is negative'')
            else if ni_IP6Assign i < 0 \<or> ni_IP6Assign i > 64 then Inl (Err ''ip6assign 0-64'')
            else if bad_opt IsIPv6 (ni_IP6Gw i) then Inl (Err ''ip6gw'')
            else if bad_opt (\<lambda>p. IsIPv6 (go_SplitN2_0 p CHR ''/'')) (ni_IP6Prefix i) then Inl (Err ''ip6prefix'')
            else if bad_opt IsIPv4 (ni_Broadcast i) then Inl (Err ''broadcast'')
            else Inr i))))"

definition allIfaceIPs :: "NetIface \<Rightarrow> string list" where
  "allIfaceIPs i =
     (if ni_IPAddr i \<noteq> [] then [ni_IPAddr i] else []) @
     filter (\<lambda>a. a \<noteq> []) (map ia_Address (ni_ExtraAddrs i))"

definition ip_conflict :: "NetIface \<Rightarrow> NetIface \<Rightarrow> err option" where
  "ip_conflict i x =
     (if ni_ID x = ni_ID i then None
      else map_option
        (\<lambda>ip. ErrFmt ''IP address in use'' [ip, if ni_Name x = [] then ni_ID x else ni_Name x])
        (find (\<lambda>ip. ip \<in> set (allIfaceIPs i)) (allIfaceIPs x)))"

definition pool_outside :: "NetIface \<Rightarrow> DHCPServer \<Rightarrow> bool" where
  "pool_outside i s \<longleftrightarrow> ds_Interface s = ni_ID i \<and>
     (bad_opt (\<lambda>a. SameSubnet a (ni_IPAddr i) (ni_Netmask i)) (ds_IPStart s) \<or>
      bad_opt (\<lambda>a. SameSubnet a (ni_IPAddr i) (ni_Netmask i)) (ds_IPEnd s))"

definition checkIfaceRelations :: "NetIface \<Rightarrow> NetIface list \<Rightarrow> DHCPServer list \<Rightarrow> err + unit" where
  "checkIfaceRelations i existing servers =
     (case List.map_filter (ip_conflict i) existing of
        e # _ \<Rightarrow> Inl e
      | [] \<Rightarrow>
          if ni_IPAddr i \<noteq> [] \<and> ni_Netmask i \<noteq> [] then
            (case find (pool_outside i) servers of
               Some s \<Rightarrow> Inl (ErrFmt ''DHCP pool outside the new subnet'' [ds_IPStart s, ds_IPEnd s])
             | None \<Rightarrow> Inr ())
          else Inr ())"

definition canDeleteNetIface :: "string \<Rightarrow> NetIface list \<Rightarrow> err + unit" where
  "canDeleteNetIface i existing =
     (let lans = filter (\<lambda>x. ni_Role x = RoleLAN) existing in
      if list_ex (\<lambda>x. ni_ID x = i) lans \<and> length lans \<le> 1
      then Inl (Err ''keep at least one LAN'') else Inr ())"

section \<open>ipv6_validate.go\<close>

definition isIPv6CIDR :: "string \<Rightarrow> bool" where
  "isIPv6CIDR s = (case go_Cut s CHR ''/'' of (addr, prefix, ok) \<Rightarrow>
     ok \<and> IsIPv6 addr \<and>
     (let p = atoiSafe prefix in 1 \<le> p \<and> p \<le> 128 \<and> prefix = go_Itoa p))"

definition isHexRune :: "nat \<Rightarrow> bool" where
  "isHexRune r \<longleftrightarrow> (48 \<le> r \<and> r \<le> 57) \<or> (97 \<le> r \<and> r \<le> 102) \<or> (65 \<le> r \<and> r \<le> 70)"

definition isHexBytes :: "string \<Rightarrow> bool" where
  "isHexBytes s0 =
     (let s = go_ReplaceByte (go_TrimSpace s0) CHR '':'' [] in
      s \<noteq> [] \<and> length s mod 2 = 0 \<and> list_all isHexRune (runes s))"

definition isValidHostID :: "string \<Rightarrow> bool" where
  "isValidHostID s0 =
     (let s = go_TrimPrefix (go_TrimSpace s0) ''::'' in
      s \<noteq> [] \<and> list_all (\<lambda>r. isHexRune r \<or> r = 58) (runes s))"

text \<open>The checks that depend on the protocol of the line.\<close>

definition check_wan6_proto :: "WANv6 \<Rightarrow> err + unit" where
  "check_wan6_proto w =
     (if w6_Proto w = ProtoDHCPv6 then
        (let rp = go_TrimSpace (w6_ReqPrefix w) in
         if rp \<noteq> [] \<and> rp \<noteq> ''auto'' \<and> rp \<noteq> ''no'' \<and> (atoiSafe rp < 1 \<or> atoiSafe rp > 64) then
           Inl (Err ''requested prefix length 1-64, auto or no'')
         else if bad_opt isIPv6CIDR (w6_FixedPrefix w) then Inl (Err ''fixed prefix'')
         else if bad_opt isHexBytes (w6_ClientID w) then Inl (Err ''client DUID'')
         else Inr ())
      else if w6_Proto w = ProtoStatic6 then
        (if \<not> isIPv6CIDR (w6_StaticIP6 w) then Inl (Err ''static IPv6 address needs a prefix'')
         else if bad_opt IsIPv6 (w6_StaticGW w) then Inl (Err ''IPv6 gateway'')
         else Inr ())
      else if w6_Proto w = Proto6in4 \<or> w6_Proto w = Proto6rd then
        (if bad_opt IsIPv4 (w6_PeerAddr w) then Inl (Err ''tunnel peer'')
         else if bad_opt isIPv6CIDR (w6_TunPrefix w) then Inl (Err ''tunnel prefix'')
         else Inr ())
      else Inr ())"

definition validateWANv6 :: "WANv6 \<Rightarrow> err + WANv6" where
  "validateWANv6 w0 =
     (let w = w0\<lparr>w6_ID := go_TrimSpace (w6_ID w0)\<rparr>;
          w = (if w6_Name w = [] then w\<lparr>w6_Name := w6_ID w\<rparr> else w)
      in bindR
        (if w6_Proto w \<in> {ProtoDHCPv6, ProtoStatic6, Proto6in4, Proto6to4, Proto6rd} then Inr w
         else if w6_Proto w = [] then Inr (w\<lparr>w6_Proto := ProtoDHCPv6\<rparr>)
         else Inl (ErrFmt ''IPv6 protocol'' [w6_Proto w]))
        (\<lambda>w. bindR (check_wan6_proto w) (\<lambda>_.
           if \<not> w6_PeerDNS w \<and> bad_opt IsIPv6 (w6_DNSPrimary w) then Inl (Err ''primary IPv6 DNS'')
           else if \<not> w6_PeerDNS w \<and> bad_opt IsIPv6 (w6_DNSSecondary w) then Inl (Err ''secondary IPv6 DNS'')
           else if w6_MTU w \<noteq> 0 \<and> (w6_MTU w < 1280 \<or> w6_MTU w > 9200) then Inl (Err ''IPv6 MTU'')
           else Inr w)))"

definition validateLANv6 :: "LANv6 \<Rightarrow> err + LANv6" where
  "validateLANv6 l0 =
     (let l = l0\<lparr>l6_Interface := go_TrimSpace (l6_Interface l0)\<rparr> in
      if l6_Interface l = [] then Inl (Err ''LAN interface is empty'')
      else bindR
        (let l = (if l6_ID l = [] then l\<lparr>l6_ID := l6_Interface l\<rparr> else l) in
         if l6_ConfigType l \<in> {ConfigTypeAuto, ConfigTypeStatic} then Inr l
         else if l6_ConfigType l = [] then Inr (l\<lparr>l6_ConfigType := ConfigTypeAuto\<rparr>)
         else Inl (ErrFmt ''config type'' [l6_ConfigType l]))
        (\<lambda>l. bindR
           (if l6_DHCPv6Mode l \<in> {DHCPv6Stateless, DHCPv6Stateful, DHCPv6StatefulOnly} then Inr l
            else if l6_DHCPv6Mode l = [] then Inr (l\<lparr>l6_DHCPv6Mode := DHCPv6Stateful\<rparr>)
            else Inl (ErrFmt ''DHCPv6 mode'' [l6_DHCPv6Mode l]))
           (\<lambda>l. if l6_PrefixAssignLen l \<noteq> 0 \<and> (l6_PrefixAssignLen l < 1 \<or> l6_PrefixAssignLen l > 64) then
                  Inl (Err ''prefix length 1-64'')
                else if l6_ConfigType l = ConfigTypeStatic \<and> \<not> isIPv6CIDR (l6_StaticIP6 l) then
                  Inl (Err ''static IPv6 address needs a prefix'')
                else (case find (\<lambda>d. bad_opt IsIPv6 (go_TrimSpace d)) (l6_DNSServers l) of
                    Some d \<Rightarrow> Inl (ErrFmt ''IPv6 DNS'' [go_TrimSpace d])
                  | None \<Rightarrow>
                      if l6_LeaseMinutes l < 0 then Inl (Err ''lease time is negative'')
                      else if l6_RAMTUEnabled l \<and> (l6_RAMTU l < 1280 \<or> l6_RAMTU l > 9200) then
                        Inl (Err ''RA MTU'')
                      else Inr l))))"

definition validatePrefixStaticV6 :: "PrefixStaticV6 \<Rightarrow> err + PrefixStaticV6" where
  "validatePrefixStaticV6 p0 =
     (let p = p0\<lparr>p6_DUID := go_TrimSpace (p6_DUID p0), p6_MAC := NormalizeMAC (p6_MAC p0)\<rparr> in
      if p6_DUID p = [] \<and> p6_MAC p = [] then Inl (Err ''DUID or MAC is required'')
      else if bad_opt isHexBytes (p6_DUID p) then Inl (Err ''DUID must be hexadecimal'')
      else if bad_opt IsIPv6 (p6_LocalLink p) then Inl (Err ''link-local address'')
      else if bad_opt isValidHostID (p6_HostID p) then Inl (Err ''interface id'')
      else Inr p)"

definition validateACLv6Entry :: "ACLv6Entry \<Rightarrow> err + ACLv6Entry" where
  "validateACLv6Entry e0 =
     bindR
       (if a6_Method e0 = ACLv6MethodDUID \<or> a6_Method e0 = [] then Inr (e0\<lparr>a6_Method := ACLv6MethodDUID\<rparr>)
        else if a6_Method e0 = ACLv6MethodL2 then Inl (Err ''the L2 method is not implemented'')
        else Inl (ErrFmt ''access control method'' [a6_Method e0]))
       (\<lambda>e. let e = e\<lparr>a6_DUID := go_TrimSpace (a6_DUID e)\<rparr> in
          if a6_DUID e = [] \<or> \<not> isHexBytes (a6_DUID e) then Inl (Err ''DUID must be hexadecimal'')
          else Inr e)"

section \<open>dns_validate.go\<close>

definition dnsMaxCacheTTLCap :: int where
  "dnsMaxCacheTTLCap = 3600"

text \<open>\<open>if v < 0 { v = 0 }; if v > cap { v = cap }\<close>.\<close>

definition clampTTL :: "int \<Rightarrow> int" where
  "clampTTL v = (let v = (if v < 0 then 0 else v) in if v > dnsMaxCacheTTLCap then dnsMaxCacheTTLCap else v)"

definition validateDNSSettings :: "DNSSettings \<Rightarrow> err + DNSSettings" where
  "validateDNSSettings s0 =
     (let s = s0\<lparr>dn_DNSPrimary := go_TrimSpace (dn_DNSPrimary s0),
                 dn_DNSSecondary := go_TrimSpace (dn_DNSSecondary s0)\<rparr> in
      if bad_opt IsIP (dn_DNSPrimary s) then Inl (Err ''primary DNS'')
      else if bad_opt IsIP (dn_DNSSecondary s) then Inl (Err ''secondary DNS'')
      else if dn_NoResolv s \<and> dn_DNSPrimary s = [] \<and> dn_DNSSecondary s = [] then
        Inl (Err ''noresolv needs an upstream'')
      else Inr (s\<lparr>dn_CacheSize := (if dn_CacheSize s < 0 then 0 else dn_CacheSize s),
                  dn_LocalTTL := (if dn_LocalTTL s < 0 then 0 else dn_LocalTTL s),
                  dn_MinCacheTTL := clampTTL (dn_MinCacheTTL s),
                  dn_MaxCacheTTL := clampTTL (dn_MaxCacheTTL s)\<rparr>))"

definition validateDNSDoH :: "DNSDoH \<Rightarrow> err + DNSDoH" where
  "validateDNSDoH d0 =
     (let d = d0\<lparr>dh_ResolverURL := go_TrimSpace (dh_ResolverURL d0)\<rparr> in
      if dh_Enabled d \<and> \<not> go_HasPrefix (dh_ResolverURL d) ''https://'' then Inl (Err ''DoH URL'')
      else
        (let d = (if dh_ListenPort d = 0 then d\<lparr>dh_ListenPort := 5053\<rparr> else d) in
         if dh_ListenPort d = 53 \<or> dh_ListenPort d < 1 \<or> dh_ListenPort d > 65535 then Inl (Err ''DoH port'')
         else
           (let d = d\<lparr>dh_BootstrapDNS := go_TrimSpace (dh_BootstrapDNS d)\<rparr> in
            if bad_opt (\<lambda>b. IsIP (go_SplitN2_0 b CHR '','')) (dh_BootstrapDNS d) then Inl (Err ''bootstrap DNS'')
            else Inr d)))"

definition isPlausibleDomain :: "string \<Rightarrow> bool" where
  "isPlausibleDomain d \<longleftrightarrow>
     \<not> (d = [] \<or> length d > 253 \<or> list_ex (\<lambda>c. code c \<in> {32, 9, 47, 39, 34}) d) \<and>
     list_all (\<lambda>r. (97 \<le> r \<and> r \<le> 122) \<or> (65 \<le> r \<and> r \<le> 90) \<or> (48 \<le> r \<and> r \<le> 57) \<or>
                   r = 45 \<or> r = 46 \<or> r = 95) (runes d)"

definition splitUpstreams :: "string \<Rightarrow> string list" where
  "splitUpstreams s =
     filter (\<lambda>f. f \<noteq> []) (map go_TrimSpace
       (go_FieldsFunc (\<lambda>r. r = 44 \<or> r = 32 \<or> r = 10 \<or> r = 9 \<or> r = 13) s))"

definition validateDNSRecord :: "DNSRecord \<Rightarrow> err + DNSRecord" where
  "validateDNSRecord r0 =
     (let r = r0\<lparr>dr_Domain := go_TrimSpace (dr_Domain r0), dr_Address := go_TrimSpace (dr_Address r0)\<rparr> in
      if dr_Domain r = [] then Inl (Err ''domain is empty'')
      else
        (let r = (if go_HasPrefix (dr_Domain r) ''*.'' then r\<lparr>dr_Wildcard := True\<rparr> else r) in
         if \<not> isPlausibleDomain (go_TrimPrefix (dr_Domain r) ''*.'') then Inl (Err ''domain'')
         else if \<not> IsIP (dr_Address r) then Inl (Err ''address'')
         else Inr (r\<lparr>dr_RecordType := (if IsIPv4 (dr_Address r) then DNSRecordA else DNSRecordAAAA)\<rparr>)))"

definition validateDNSDomainRoute :: "DNSDomainRoute \<Rightarrow> err + DNSDomainRoute" where
  "validateDNSDomainRoute r0 =
     (let r = r0\<lparr>dd_Domain := go_TrimSpace (dd_Domain r0), dd_Server := go_TrimSpace (dd_Server r0),
                 dd_OutIface := go_TrimSpace (dd_OutIface r0)\<rparr> in
      if \<not> isPlausibleDomain (dd_Domain r) then Inl (Err ''domain'')
      else
        (let ups = splitUpstreams (dd_Server r) in
         if ups = [] then Inl (Err ''at least one upstream DNS'')
         else (case find (\<lambda>up. \<not> IsIP (go_SplitN2_0 up CHR ''#'')) ups of
             Some up \<Rightarrow> Inl (ErrFmt ''upstream DNS'' [up])
           | None \<Rightarrow> Inr r)))"

lemmas validate_eval [eval_simps] =
  bad_opt_def bad_exclude_def bad_option_def validateDHCPServer_def validateStatic_def validateRoute_v4_def
  validateRoute_v6_def validateRoute_family_def validateRoute_iface_def validateRoute_rest_def
  validateRoute_def routeHasNexthop_def validateACLEntry_def looksLikeIPOrCIDR_def
  validatePolicyRule_def validNICName_def check_addr_def check_proto_def validateNetIface_def
  allIfaceIPs_def ip_conflict_def pool_outside_def checkIfaceRelations_def canDeleteNetIface_def
  isIPv6CIDR_def isHexRune_def isHexBytes_def isValidHostID_def check_wan6_proto_def validateWANv6_def
  validateLANv6_def validatePrefixStaticV6_def validateACLv6Entry_def dnsMaxCacheTTLCap_def clampTTL_def
  validateDNSSettings_def validateDNSDoH_def isPlausibleDomain_def splitUpstreams_def
  validateDNSRecord_def validateDNSDomainRoute_def

section \<open>Validators normalise\<close>

text \<open>
  A validated item passes the same validator unchanged: what the service stores is a fixed point
  of validation, so saving what was read back changes nothing.
\<close>

lemma if_Inl_eq_Inr: "(if c then Inl e else r) = Inr x \<longleftrightarrow> \<not> c \<and> r = Inr x"
  by simp

lemma validateDHCPServer_idem: "validateDHCPServer s = Inr s' \<Longrightarrow> validateDHCPServer s' = Inr s'"
  unfolding validateDHCPServer_def Let_def
  by (auto simp: if_Inl_eq_Inr split: option.splits)

lemma validateDHCPServer_pool:
  assumes "validateDHCPServer s = Inr s'"
  shows "\<exists>su eu. IPv4ToUint32 (ds_IPStart s') = Some su \<and> IPv4ToUint32 (ds_IPEnd s') = Some eu \<and> su \<le> eu"
  using assms unfolding validateDHCPServer_def Let_def
  by (auto simp: if_Inl_eq_Inr RangeCount_Some_iff split: option.splits)

lemma validateStatic_idem: "validateStatic s = Inr s' \<Longrightarrow> validateStatic s' = Inr s'"
  unfolding validateStatic_def Let_def by (auto simp: if_Inl_eq_Inr)

lemma validateStatic_mac: "validateStatic s = Inr s' \<Longrightarrow> sl_MAC s' = NormalizeMAC (sl_MAC s) \<and> sl_MAC s' \<noteq> []"
  unfolding validateStatic_def Let_def by (auto simp: if_Inl_eq_Inr)

lemma validateACLEntry_idem: "validateACLEntry e = Inr e' \<Longrightarrow> validateACLEntry e' = Inr e'"
  unfolding validateACLEntry_def Let_def by (auto simp: if_Inl_eq_Inr)

section \<open>Validated routes\<close>

lemma PrefixToMask_not_Nil: "0 \<le> p \<Longrightarrow> p \<le> 32 \<Longrightarrow> PrefixToMask p \<noteq> []"
proof
  assume "0 \<le> p" "p \<le> 32" "PrefixToMask p = []"
  then have "MaskToPrefix [] = Some p"
    using netmask_of_prefix [of p] by simp
  then show False by (simp add: eval_simps)
qed

text \<open>What a validated route looks like: netmask and prefix length in step, an interface, all in range.\<close>

definition route_normal :: "Route \<Rightarrow> bool" where
  "route_normal r \<longleftrightarrow>
     rt_Interface r \<noteq> [] \<and> go_TrimSpace (rt_Interface r) = rt_Interface r \<and>
     (if rt_Family r = FamilyIPv4
      then IsIPv4 (rt_Target r) \<and> rt_Netmask r \<noteq> [] \<and> MaskToPrefix (rt_Netmask r) = Some (rt_Prefix r) \<and>
           \<not> bad_opt IsIPv4 (rt_Gateway r)
      else rt_Family r = FamilyIPv6 \<and> IsIPv6 (rt_Target r) \<and> rt_Netmask r = [] \<and>
           0 \<le> rt_Prefix r \<and> rt_Prefix r \<le> 128 \<and> \<not> bad_opt IsIP (rt_Gateway r)) \<and>
     validateRoute_rest r = Inr r"

lemma validateRoute_rest_Inr: "validateRoute_rest r = Inr r' \<Longrightarrow> r' = r"
  by (simp add: validateRoute_rest_def split: if_splits)

lemma validateRoute_v4_Inr:
  assumes v: "validateRoute_v4 r = Inr r'"
  shows "\<exists>p m. r' = r\<lparr>rt_Prefix := p, rt_Netmask := m\<rparr> \<and> IsIPv4 (rt_Target r) \<and> m \<noteq> [] \<and>
    MaskToPrefix m = Some p \<and> \<not> bad_opt IsIPv4 (rt_Gateway r)"
proof (cases "rt_Netmask r = []")
  case True
  with v have p: "0 \<le> rt_Prefix r" "rt_Prefix r \<le> 32"
    by (auto simp: validateRoute_v4_def bindR_eq_Inr split: if_splits)
  with v True show ?thesis
    using PrefixToMask_not_Nil [OF p] netmask_of_prefix [OF p]
    by (intro exI [of _ "rt_Prefix r"] exI [of _ "PrefixToMask (rt_Prefix r)"])
      (auto simp: validateRoute_v4_def bindR_eq_Inr split: if_splits)
next
  case False
  with v show ?thesis
    by (cases "MaskToPrefix (rt_Netmask r)")
      (auto simp: validateRoute_v4_def split: if_splits
        intro!: exI [of _ "the (MaskToPrefix (rt_Netmask r))"] exI [of _ "rt_Netmask r"])
qed

lemma validateRoute_v6_Inr:
  "validateRoute_v6 r = Inr r' \<Longrightarrow>
   r' = r\<lparr>rt_Netmask := []\<rparr> \<and> IsIPv6 (rt_Target r) \<and> 0 \<le> rt_Prefix r \<and> rt_Prefix r \<le> 128 \<and>
   \<not> bad_opt IsIP (rt_Gateway r)"
  by (auto simp: validateRoute_v6_def Let_def split: if_splits)

lemma validateRoute_iface_iface:
  "rt_Interface (validateRoute_iface r) \<noteq> [] \<and>
   go_TrimSpace (rt_Interface (validateRoute_iface r)) = rt_Interface (validateRoute_iface r)"
proof -
  have "go_TrimSpace ''auto'' = ''auto''" by (simp add: eval_simps)
  then show ?thesis by (simp add: validateRoute_iface_def Let_def)
qed

lemma validateRoute_family_Inr:
  "validateRoute_family r = Inr r1 \<Longrightarrow>
   rt_Family (validateRoute_iface r1) = FamilyIPv4 \<or> rt_Family (validateRoute_iface r1) = FamilyIPv6"
  by (auto simp: validateRoute_family_def validateRoute_iface_def Let_def split: if_splits)

lemma validateRoute_normal:
  assumes "validateRoute r = Inr r'"
  shows "route_normal r'"
proof -
  from assms obtain r1 r2 where f: "validateRoute_family r = Inr r1"
    and d: "(let r = validateRoute_iface r1 in
         if rt_Family r = FamilyIPv4 then validateRoute_v4 r else validateRoute_v6 r) = Inr r2"
    and t: "validateRoute_rest r2 = Inr r'"
    unfolding validateRoute_def bindR_eq_Inr Let_def by blast
  from t have "r' = r2" by (rule validateRoute_rest_Inr)
  with f d t show ?thesis
    using validateRoute_iface_iface [of r1] validateRoute_family_Inr [OF f]
    by (auto simp: route_normal_def Let_def split: if_splits dest!: validateRoute_v4_Inr validateRoute_v6_Inr)
qed

lemma route_upd_same:
  "rt_Family r = f \<Longrightarrow> r\<lparr>rt_Family := f\<rparr> = r" "rt_Netmask r = m \<Longrightarrow> r\<lparr>rt_Netmask := m\<rparr> = r"
  "rt_Prefix r = p \<Longrightarrow> r\<lparr>rt_Prefix := p\<rparr> = r"
  by auto

lemma route_normal_fix: "route_normal r \<Longrightarrow> validateRoute r = Inr r"
  by (auto simp: route_normal_def validateRoute_def validateRoute_family_def validateRoute_iface_def
      validateRoute_v4_def validateRoute_v6_def Let_def not_less route_upd_same split: if_splits)

text \<open>a route that validateRoute accepts comes out in a normal form that a second validation leaves unchanged: it names an interface, an IPv4 route has a netmask with exactly the stored prefix length, an IPv6 route has no netmask and a prefix length of at most 128, and metric, type, MTU and table are in range.\<close>

theorem validate_route_normal_form:
  assumes "validateRoute r = Inr r'"
  shows "validateRoute r' = Inr r' \<and> rt_Interface r' \<noteq> [] \<and>
    (if rt_Family r' = FamilyIPv4
     then IsIPv4 (rt_Target r') \<and> rt_Netmask r' \<noteq> [] \<and> MaskToPrefix (rt_Netmask r') = Some (rt_Prefix r')
     else rt_Family r' = FamilyIPv6 \<and> IsIPv6 (rt_Target r') \<and> rt_Netmask r' = [] \<and>
          0 \<le> rt_Prefix r' \<and> rt_Prefix r' \<le> 128) \<and>
    0 \<le> rt_Metric r' \<and> 0 \<le> rt_MTU r' \<and> rt_MTU r' \<le> 65535 \<and> 0 \<le> rt_Table r' \<and> rt_Table r' \<le> 255"
proof -
  have n: "route_normal r'"
    using assms by (rule validateRoute_normal)
  then have "validateRoute_rest r' = Inr r'"
    by (simp add: route_normal_def)
  then have "0 \<le> rt_Metric r' \<and> 0 \<le> rt_MTU r' \<and> rt_MTU r' \<le> 65535 \<and> 0 \<le> rt_Table r' \<and> rt_Table r' \<le> 255"
    by (simp add: validateRoute_rest_def not_less split: if_splits)
  with n show ?thesis
    by (auto simp: route_normal_fix) (auto simp: route_normal_def)
qed

definition sample_route :: Route where
  "sample_route = \<lparr>rt_ID = [], rt_Family = [], rt_Interface = '' wan '', rt_Target = ''10.1.0.0'',
     rt_Netmask = [], rt_Prefix = 16, rt_Gateway = ''192.168.1.2'', rt_Metric = 5, rt_Type = [], rt_MTU = 0,
     rt_Table = 0, rt_Remark = [], rt_Enabled = True, rt_PushToClients = False, rt_Managed = False\<rparr>"

theorem validate_route_normal_form_witness:
  "MaskToPrefix ''255.255.0.0'' = Some 16 \<and> validateRoute sample_route =
     Inr (sample_route\<lparr>rt_Family := FamilyIPv4, rt_Interface := ''wan'', rt_Netmask := ''255.255.0.0''\<rparr>)"
proof -
  have "validateRoute sample_route =
     Inr (sample_route\<lparr>rt_Family := FamilyIPv4, rt_Interface := ''wan'', rt_Netmask := ''255.255.0.0''\<rparr>)"
    by (simp add: sample_route_def eval_simps)
  from validate_route_normal_form [OF this] this show ?thesis by (simp add: sample_route_def)
qed

end
