(* ===== verification/Service.thy ===== *)
theory Service
  imports Backend Validate
begin

text \<open>
  service.go, policyrule.go, iface.go, dns_service.go and ipv6_service.go: the methods of the
  Service, for any backend \<open>B\<close>. A method that edits a collection is the shared cycle of the theory
  Backend applied to its collection, after the validation of its argument.

  \<open>lib\<close> holds what comes from tables: the case mapping and case folding of runes outside ASCII
  (package unicode) and the vendor table that netutil loads from oui.txt.
\<close>

record lib =
  lb_lower :: "string \<Rightarrow> string"
  lb_fold :: "nat \<Rightarrow> nat"
  lb_oui :: "string \<rightharpoonup> string"

text \<open>\<open>strings.EqualFold\<close>.\<close>

definition fold_rune :: "lib \<Rightarrow> nat \<Rightarrow> nat" where
  "fold_rune L r = (if r < 128 then (if 65 \<le> r \<and> r \<le> 90 then r + 32 else r) else lb_fold L r)"

definition go_EqualFold :: "lib \<Rightarrow> string \<Rightarrow> string \<Rightarrow> bool" where
  "go_EqualFold L s t \<longleftrightarrow> map (fold_rune L) (runes s) = map (fold_rune L) (runes t)"

section \<open>Status and DHCP servers\<close>

definition svc_Status :: "'b backend \<Rightarrow> ('b svc, Status) act" where
  "svc_Status B = bindE (on_be (be_Status B)) (\<lambda>st.
     bindE (tryE (on_be (be_DHCPServers B))) (\<lambda>r. ret (case r of
         Inl _ \<Rightarrow> st
       | Inr servers \<Rightarrow>
           st\<lparr>st_EnabledServers := st_EnabledServers st + int (length (filter ds_Enabled servers))\<rparr>)))"

definition remainingAddrs :: "DHCPServer \<Rightarrow> Lease list \<Rightarrow> int" where
  "remainingAddrs srv leases = (case RangeCount (ds_IPStart srv) (ds_IPEnd srv) of
     None \<Rightarrow> 0
   | Some tot \<Rightarrow>
       (let used = int (length (filter (\<lambda>l. IPInRange (le_IP l) (ds_IPStart srv) (ds_IPEnd srv)) leases));
            used = (if used > tot then tot else used)
        in tot - used))"

definition ListDHCPServers :: "'b backend \<Rightarrow> ('b svc, DHCPServer list) act" where
  "ListDHCPServers B = bindE (on_be (be_DHCPServers B)) (\<lambda>servers.
     bindE (orZero [] (on_be (be_Leases B))) (\<lambda>leases.
       ret (map (\<lambda>s. s\<lparr>ds_Remaining := remainingAddrs s leases\<rparr>) servers)))"

definition GetDHCPServer :: "'b backend \<Rightarrow> string \<Rightarrow> ('b svc, DHCPServer) act" where
  "GetDHCPServer B i = bindE (ListDHCPServers B) (\<lambda>servers.
     case find (\<lambda>srv. ds_ID srv = i) servers of None \<Rightarrow> fail ErrNotFound | Some srv \<Rightarrow> ret srv)"

definition checkPool :: "DHCPServer \<Rightarrow> Interface list \<Rightarrow> err + DHCPServer" where
  "checkPool s ifaces = (case find (\<lambda>i. if_Name i = ds_Interface s) ifaces of
     None \<Rightarrow> Inr s
   | Some i \<Rightarrow>
       if if_IPv4 i = [] \<or> if_Netmask i = [] then Inr s
       else if \<not> SameSubnet (ds_IPStart s) (if_IPv4 i) (if_Netmask i) \<or>
               \<not> SameSubnet (ds_IPEnd s) (if_IPv4 i) (if_Netmask i) then
         Inl (ErrFmt ''pool outside the subnet of the interface''
           [ds_IPStart s, ds_IPEnd s, ds_Interface s, if_IPv4 i, if_Netmask i])
       else Inr (s\<lparr>ds_Netmask := if_Netmask i\<rparr>))"

definition checkPoolSubnet :: "'b backend \<Rightarrow> DHCPServer \<Rightarrow> ('b svc, DHCPServer) act" where
  "checkPoolSubnet B s = bindE (tryE (on_be (be_Interfaces B))) (\<lambda>r. case r of
     Inl _ \<Rightarrow> ret s
   | Inr ifaces \<Rightarrow> liftE (checkPool s ifaces))"

definition CreateDHCPServer :: "'b backend \<Rightarrow> DHCPServer \<Rightarrow> ('b svc, DHCPServer) act" where
  "CreateDHCPServer B s =
     bindE (liftE (validateDHCPServer s)) (\<lambda>s. bindE (checkPoolSubnet B s) (\<lambda>s.
       coll_create (servers_coll B) no_check (cryptoID ''dhcp'') (s\<lparr>ds_Remaining := 0\<rparr>)))"

definition UpdateDHCPServer :: "'b backend \<Rightarrow> string \<Rightarrow> DHCPServer \<Rightarrow> ('b svc, DHCPServer) act" where
  "UpdateDHCPServer B i s =
     bindE (liftE (validateDHCPServer s)) (\<lambda>s. bindE (checkPoolSubnet B s) (\<lambda>s.
       coll_update (servers_coll B) no_check i s))"

definition DeleteDHCPServer :: "'b backend \<Rightarrow> string \<Rightarrow> ('b svc, unit) act" where
  "DeleteDHCPServer B i = coll_delete (servers_coll B) i"

definition SetDHCPServerEnabled :: "'b backend \<Rightarrow> string \<Rightarrow> bool \<Rightarrow> ('b svc, unit) act" where
  "SetDHCPServerEnabled B i on = coll_enable (servers_coll B) i on"

definition BatchDHCPServers :: "'b backend \<Rightarrow> string \<Rightarrow> string list \<Rightarrow> ('b svc, unit) act" where
  "BatchDHCPServers B action ids = coll_batch (servers_coll B) action ids"

definition RestartDHCP :: "'b backend \<Rightarrow> ('b svc, unit) act" where
  "RestartDHCP B = bindE (on_be (be_RestartDHCP B)) (\<lambda>_. publish TypeDHCPChanged ''apply'' 0)"

section \<open>Static reservations\<close>

definition ListStatics :: "'b backend \<Rightarrow> ('b svc, StaticLease list) act" where
  "ListStatics B = on_be (be_Statics B)"

definition GetARPBind :: "'b backend \<Rightarrow> ('b svc, bool) act" where
  "GetARPBind B = on_be (be_ARPBind B)"

definition GetStatic :: "'b backend \<Rightarrow> string \<Rightarrow> ('b svc, StaticLease) act" where
  "GetStatic B i = bindE (on_be (be_Statics B)) (\<lambda>list.
     case find (\<lambda>x. sl_ID x = i) list of None \<Rightarrow> fail ErrNotFound | Some x \<Rightarrow> ret x)"

fun ensureStaticUnique :: "lib \<Rightarrow> StaticLease \<Rightarrow> string \<Rightarrow> StaticLease list \<Rightarrow> err + unit" where
  "ensureStaticUnique L s excludeID [] = Inr ()"
| "ensureStaticUnique L s excludeID (x # xs) =
     (if sl_ID x = excludeID then ensureStaticUnique L s excludeID xs
      else if go_EqualFold L (sl_MAC x) (sl_MAC s) then Inl (Err ''MAC is taken by another reservation'')
      else if sl_IP x = sl_IP s then Inl (Err ''IP is taken by another reservation'')
      else ensureStaticUnique L s excludeID xs)"

definition CreateStatic :: "lib \<Rightarrow> 'b backend \<Rightarrow> StaticLease \<Rightarrow> ('b svc, StaticLease) act" where
  "CreateStatic L B s = bindE (liftE (validateStatic s)) (\<lambda>s.
     coll_create (statics_coll B) (ensureStaticUnique L s []) (cryptoID ''host'') s)"

definition UpdateStatic :: "lib \<Rightarrow> 'b backend \<Rightarrow> string \<Rightarrow> StaticLease \<Rightarrow> ('b svc, StaticLease) act" where
  "UpdateStatic L B i s = bindE (liftE (validateStatic s)) (\<lambda>s.
     coll_update (statics_coll B) (ensureStaticUnique L s i) i s)"

definition DeleteStatic :: "'b backend \<Rightarrow> string \<Rightarrow> ('b svc, unit) act" where
  "DeleteStatic B i = coll_delete (statics_coll B) i"

definition SetStaticEnabled :: "'b backend \<Rightarrow> string \<Rightarrow> bool \<Rightarrow> ('b svc, unit) act" where
  "SetStaticEnabled B i on = coll_enable (statics_coll B) i on"

definition BatchStatics :: "'b backend \<Rightarrow> string \<Rightarrow> string list \<Rightarrow> ('b svc, unit) act" where
  "BatchStatics B action ids = coll_batch (statics_coll B) action ids"

definition SetARPBind :: "'b backend \<Rightarrow> bool \<Rightarrow> ('b svc, unit) act" where
  "SetARPBind B on = bindE (on_be (staticsAndARP B)) (\<lambda>(list, _).
     coll_store (statics_coll B) list on ''update'')"

section \<open>Leases\<close>

record LeaseFilter =
  lf_Interface :: string
  lf_Status :: string
  lf_Query :: string

definition leaseMatches :: "lib \<Rightarrow> Lease \<Rightarrow> string \<Rightarrow> bool" where
  "leaseMatches L l q \<longleftrightarrow>
     list_ex (\<lambda>f. go_Contains (go_ToLower (lb_lower L) f) q)
       [le_Hostname l, le_IP l, le_MAC l, le_Remark l, le_Vendor l]"

definition lease_row :: "lib \<Rightarrow> (string \<rightharpoonup> string) \<Rightarrow> LeaseFilter \<Rightarrow> string \<Rightarrow> Lease \<Rightarrow> Lease option" where
  "lease_row L notes f q l0 =
     (if lf_Interface f \<noteq> [] \<and> le_Interface l0 \<noteq> lf_Interface f then None
      else if lf_Status f = ''static'' \<and> \<not> le_Static l0 then None
      else if lf_Status f = ''dynamic'' \<and> le_Static l0 then None
      else
        (let l = l0\<lparr>le_Vendor := Vendor (lb_oui L) (le_MAC l0)\<rparr>;
             l = (if le_Static l then l
                  else (case notes (NormalizeMAC (le_MAC l)) of
                     None \<Rightarrow> l | Some note \<Rightarrow> l\<lparr>le_Remark := note\<rparr>))
         in if q \<noteq> [] \<and> \<not> leaseMatches L l q then None else Some l))"

definition ListLeases :: "lib \<Rightarrow> 'b backend \<Rightarrow> LeaseFilter \<Rightarrow> ('b svc, Lease list) act" where
  "ListLeases L B f = bindE (on_be (be_Leases B)) (\<lambda>leases.
     bindE (orZero Map.empty (on_be (be_LeaseNotes B))) (\<lambda>notes.
       let q = go_ToLower (lb_lower L) (go_TrimSpace (lf_Query f))
       in ret (sort_key le_IP (List.map_filter (lease_row L notes f q) leases))))"

definition ReserveLease ::
    "lib \<Rightarrow> 'b backend \<Rightarrow> string \<Rightarrow> string \<Rightarrow> string \<Rightarrow> string \<Rightarrow> ('b svc, StaticLease) act" where
  "ReserveLease L B ip mac hostname iface = CreateStatic L B
     (zeroStaticLease\<lparr>sl_Hostname := hostname, sl_IP := ip, sl_MAC := mac, sl_Interface := iface, sl_Enabled := True\<rparr>)"

definition SetLeaseNote :: "'b backend \<Rightarrow> string \<Rightarrow> string \<Rightarrow> ('b svc, unit) act" where
  "SetLeaseNote B mac note =
     (let nm = NormalizeMAC mac in
      if nm = [] then fail (Err ''invalid MAC'')
      else bindE (on_be (be_SetLeaseNote B nm (go_TrimSpace note))) (\<lambda>_. publish TypeStaticChanged ''update'' 0))"

text \<open>
  \<open>for u := startU; u <= endU; u++\<close> over uint32. The value is None when the loop never returns, which
  the wrap-around of \<open>u++\<close> does not exclude.
\<close>

partial_function (option) free_loop :: "u32 \<Rightarrow> u32 \<Rightarrow> u32 set \<Rightarrow> string option" where
  "free_loop u endU used =
     (if u \<le> endU then (if u \<notin> used then Some (Uint32ToIPv4 u) else free_loop (u + 1) endU used)
      else Some [])"

definition nextFreeIP :: "DHCPServer \<Rightarrow> u32 set \<Rightarrow> string option" where
  "nextFreeIP pool used = (case (IPv4ToUint32 (ds_IPStart pool), IPv4ToUint32 (ds_IPEnd pool)) of
     (Some startU, Some endU) \<Rightarrow> if startU > endU then Some [] else free_loop startU endU used
   | _ \<Rightarrow> Some [])"

definition pick_pool :: "string \<Rightarrow> DHCPServer list \<Rightarrow> DHCPServer option" where
  "pick_pool iface servers =
     (case find (\<lambda>s. ds_Enabled s \<and> (iface = [] \<or> ds_Interface s = iface)) servers of
        Some p \<Rightarrow> Some p
      | None \<Rightarrow> find (\<lambda>s. iface = [] \<or> ds_Interface s = iface) servers)"

text \<open>The 32-bit values of the strings that are IPv4 addresses.\<close>

definition mark_ips :: "string list \<Rightarrow> u32 set" where
  "mark_ips ips = set (List.map_filter IPv4ToUint32 ips)"

definition SuggestNextIP :: "'b backend \<Rightarrow> string \<Rightarrow> ('b svc, string option) act" where
  "SuggestNextIP B iface = bindE (tryE (on_be (be_DHCPServers B))) (\<lambda>r. case r of
     Inl _ \<Rightarrow> ret (Some [])
   | Inr servers \<Rightarrow> (case pick_pool iface servers of
       None \<Rightarrow> ret (Some [])
     | Some pool \<Rightarrow>
         bindE (orZero [] (on_be (be_Statics B))) (\<lambda>statics.
           bindE (orZero [] (on_be (be_Leases B))) (\<lambda>leases.
             ret (nextFreeIP pool (mark_ips (map sl_IP statics @ map le_IP leases @ [ds_Gateway pool])))))))"

text \<open>The loop of FixSubnet over the leases: the reservations so far and how many were added.\<close>

definition lease_cand :: "Lease \<Rightarrow> StaticLease" where
  "lease_cand l = zeroStaticLease\<lparr>sl_Hostname := le_Hostname l, sl_IP := le_IP l, sl_MAC := le_MAC l,
     sl_Interface := le_Interface l, sl_Remark := le_Remark l, sl_Enabled := True\<rparr>"

fun fix_loop ::
    "lib \<Rightarrow> string \<Rightarrow> Lease list \<Rightarrow> StaticLease list \<Rightarrow> nat \<Rightarrow> ('b svc, StaticLease list \<times> nat) act" where
  "fix_loop L iface [] list added = ret (list, added)"
| "fix_loop L iface (l # ls) list added =
     (if le_Static l \<or> (iface \<noteq> [] \<and> le_Interface l \<noteq> iface) then fix_loop L iface ls list added
      else (case validateStatic (lease_cand l) of
          Inl _ \<Rightarrow> fix_loop L iface ls list added
        | Inr cand \<Rightarrow>
            (case ensureStaticUnique L cand [] list of
               Inl _ \<Rightarrow> fix_loop L iface ls list added
             | Inr _ \<Rightarrow> bindE (cryptoID ''host'') (\<lambda>i.
                 fix_loop L iface ls (list @ [cand\<lparr>sl_ID := i, sl_Managed := True\<rparr>]) (Suc added)))))"

definition FixSubnet :: "lib \<Rightarrow> 'b backend \<Rightarrow> string \<Rightarrow> ('b svc, nat) act" where
  "FixSubnet L B iface = bindE (on_be (be_Leases B)) (\<lambda>leases.
     bindE (on_be (staticsAndARP B)) (\<lambda>(list, arp).
       bindE (fix_loop L iface leases list 0) (\<lambda>(list, added).
         if added = 0 then ret 0
         else bindE (coll_store (statics_coll B) list arp ''create'') (\<lambda>_. ret added))))"

section \<open>Access control list\<close>

definition GetACL :: "'b backend \<Rightarrow> ('b svc, ACL) act" where
  "GetACL B = on_be (load_ACL B)"

definition SetACLMode :: "'b backend \<Rightarrow> string \<Rightarrow> ('b svc, ACL) act" where
  "SetACLMode B mode =
     (if mode \<noteq> ACLBlacklist \<and> mode \<noteq> ACLWhitelist then fail (Err ''mode must be blacklist or whitelist'')
      else bindE (GetACL B) (\<lambda>acl.
        let acl = acl\<lparr>acl_Mode := mode\<rparr>
        in bindE (coll_store (acl_coll B) (acl_Entries acl) mode ''update'') (\<lambda>_. ret acl)))"

definition acl_dup :: "lib \<Rightarrow> ACLEntry \<Rightarrow> ACLEntry list \<Rightarrow> err + unit" where
  "acl_dup L e entries =
     (if list_ex (\<lambda>x. go_EqualFold L (ae_MAC x) (ae_MAC e)) entries then Inl (Err ''MAC is already listed'')
      else Inr ())"

definition AddACLEntry :: "lib \<Rightarrow> 'b backend \<Rightarrow> ACLEntry \<Rightarrow> ('b svc, ACLEntry) act" where
  "AddACLEntry L B e = bindE (liftE (validateACLEntry e)) (\<lambda>e.
     coll_create (acl_coll B) (acl_dup L e) (cryptoID ''acl'') e)"

definition BlacklistMAC :: "lib \<Rightarrow> 'b backend \<Rightarrow> string \<Rightarrow> string \<Rightarrow> ('b svc, ACLEntry) act" where
  "BlacklistMAC L B mac remark =
     AddACLEntry L B (zeroACLEntry\<lparr>ae_MAC := mac, ae_Remark := remark, ae_Enabled := True\<rparr>)"

definition UpdateACLEntry :: "'b backend \<Rightarrow> string \<Rightarrow> ACLEntry \<Rightarrow> ('b svc, ACLEntry) act" where
  "UpdateACLEntry B i e = bindE (liftE (validateACLEntry e)) (\<lambda>e. coll_update (acl_coll B) no_check i e)"

definition DeleteACLEntry :: "'b backend \<Rightarrow> string \<Rightarrow> ('b svc, unit) act" where
  "DeleteACLEntry B i = coll_delete (acl_coll B) i"

definition ToggleACLEntry :: "'b backend \<Rightarrow> string \<Rightarrow> ('b svc, ACLEntry) act" where
  "ToggleACLEntry B i = coll_toggle (acl_coll B) i"

section \<open>Static routes\<close>

definition ListRoutes :: "'b backend \<Rightarrow> ('b svc, Route list) act" where
  "ListRoutes B = on_be (be_Routes B)"

definition GetRoutePushMode :: "'b backend \<Rightarrow> ('b svc, string) act" where
  "GetRoutePushMode B = bindE (on_be (be_RoutePushMode B)) (\<lambda>m. ret (if m = [] then RoutePushOff else m))"

definition SetRoutePushMode :: "'b backend \<Rightarrow> string \<Rightarrow> ('b svc, unit) act" where
  "SetRoutePushMode B mode =
     (if mode \<notin> {RoutePushOff, RoutePushAll, RoutePushTagged} then fail (Err ''route push mode'')
      else bindE (on_be (be_SaveRoutePushMode B mode)) (\<lambda>_. publish TypeRouteChanged ''update'' 0))"

definition GetRoute :: "'b backend \<Rightarrow> string \<Rightarrow> ('b svc, Route) act" where
  "GetRoute B i = coll_get (routes_coll B) i"

definition CreateRoute :: "'b backend \<Rightarrow> Route \<Rightarrow> ('b svc, Route) act" where
  "CreateRoute B r = bindE (liftE (validateRoute r)) (\<lambda>r.
     coll_create (routes_coll B) no_check (cryptoID ''route'') r)"

definition UpdateRoute :: "'b backend \<Rightarrow> string \<Rightarrow> Route \<Rightarrow> ('b svc, Route) act" where
  "UpdateRoute B i r = bindE (liftE (validateRoute r)) (\<lambda>r. coll_update (routes_coll B) no_check i r)"

definition DeleteRoute :: "'b backend \<Rightarrow> string \<Rightarrow> ('b svc, unit) act" where
  "DeleteRoute B i = coll_delete (routes_coll B) i"

definition SetRouteEnabled :: "'b backend \<Rightarrow> string \<Rightarrow> bool \<Rightarrow> ('b svc, unit) act" where
  "SetRouteEnabled B i on = coll_enable (routes_coll B) i on"

text \<open>The suffix of a copied remark, a Chinese word in full-width parentheses.\<close>

definition copy_suffix :: string where
  "copy_suffix = map byte [239, 188, 136, 229, 137, 175, 230, 156, 172, 239, 188, 137]"

definition DuplicateRoute :: "'b backend \<Rightarrow> string \<Rightarrow> ('b svc, Route) act" where
  "DuplicateRoute B i = bindE (on_be (be_Routes B)) (\<lambda>list.
     case index_item route_item i list of
       None \<Rightarrow> fail ErrNotFound
     | Some k \<Rightarrow> bindE (cryptoID ''route'') (\<lambda>new.
         let cp = (list ! k)\<lparr>rt_ID := new, rt_Managed := True\<rparr>;
             cp = (if rt_Remark cp \<noteq> [] then cp\<lparr>rt_Remark := rt_Remark cp @ copy_suffix\<rparr> else cp)
         in bindE (coll_store (routes_coll B) (list @ [cp]) () ''create'') (\<lambda>_. ret cp)))"

definition BatchRoutes :: "'b backend \<Rightarrow> string \<Rightarrow> string list \<Rightarrow> ('b svc, unit) act" where
  "BatchRoutes B action ids = coll_batch (routes_coll B) action ids"

definition RouteTable :: "'b backend \<Rightarrow> string \<Rightarrow> ('b svc, RouteEntry list) act" where
  "RouteTable B family = on_be (be_RouteTable B (if family = [] then FamilyIPv4 else family))"

section \<open>Export and import\<close>

text \<open>The State that ExportJSON encodes.\<close>

definition ExportJSON :: "'b backend \<Rightarrow> ('b svc, State) act" where
  "ExportJSON B =
     bindE (on_be (be_DHCPServers B)) (\<lambda>servers.
     bindE (on_be (be_Statics B)) (\<lambda>statics.
     bindE (on_be (be_ARPBind B)) (\<lambda>arp.
     bindE (on_be (be_ACL B)) (\<lambda>acl.
     bindE (on_be (be_Routes B)) (\<lambda>routes.
     bindE (on_be (be_WANv6s B)) (\<lambda>wans.
     bindE (on_be (be_LANv6s B)) (\<lambda>lans.
     bindE (on_be (be_PrefixStaticsV6 B)) (\<lambda>prefixes.
     bindE (on_be (be_ACLv6 B)) (\<lambda>acl6.
     bindE (on_be (be_DNSSettings B)) (\<lambda>dns.
     bindE (on_be (be_DNSDoH B)) (\<lambda>doh.
     bindE (on_be (be_DNSRecords B)) (\<lambda>records.
     bindE (on_be (be_DNSDomainRoutes B)) (\<lambda>domroutes.
       ret (zeroState\<lparr>S_DHCPServers := servers, S_Statics := statics, S_ARPBind := arp, S_ACL := acl,
         S_Routes := routes, S_WANv6s := wans, S_LANv6s := lans, S_PrefixStaticsV6 := prefixes,
         S_ACLv6 := acl6, S_DNS := dns, S_DNSDoH := doh, S_DNSRecords := records,
         S_DNSDomainRoutes := domroutes\<rparr>))))))))))))))"

text \<open>One item of an import: validated, given an id if it has none, marked as managed.\<close>

definition import_item :: "'a item \<Rightarrow> ('a \<Rightarrow> err + 'a) \<Rightarrow> string \<Rightarrow> 'a \<Rightarrow> ('b svc, 'a) act" where
  "import_item I validate prefix x = bindE (liftE (validate x)) (\<lambda>x.
     bindE (if it_ID I x = [] then bindE (cryptoID prefix) (\<lambda>i. ret (it_setID I i x)) else ret x) (\<lambda>x.
       ret (it_setManaged I True x)))"

definition import_validate :: "State \<Rightarrow> ('b svc, State) act" where
  "import_validate st =
     bindE (mapA (import_item server_item validateDHCPServer ''dhcp'') (S_DHCPServers st)) (\<lambda>servers.
     bindE (mapA (import_item static_item validateStatic ''host'') (S_Statics st)) (\<lambda>statics.
     bindE (mapA (import_item route_item validateRoute ''route'') (S_Routes st)) (\<lambda>routes.
     bindE (mapA (import_item acl_item validateACLEntry ''acl'') (acl_Entries (S_ACL st))) (\<lambda>entries.
     bindE (mapA (import_item wan6_item validateWANv6 ''wan6'') (S_WANv6s st)) (\<lambda>wans.
     bindE (mapA (\<lambda>l. bindE (liftE (validateLANv6 l)) (\<lambda>l. ret (l\<lparr>l6_Managed := True\<rparr>))) (S_LANv6s st)) (\<lambda>lans.
     bindE (mapA (import_item prefix6_item validatePrefixStaticV6 ''ps6'') (S_PrefixStaticsV6 st)) (\<lambda>prefixes.
     bindE (mapA (import_item acl6_item validateACLv6Entry ''aclv6'') (acl6_Entries (S_ACLv6 st))) (\<lambda>entries6.
     bindE (liftE (validateDNSSettings (S_DNS st))) (\<lambda>dns.
     bindE (liftE (validateDNSDoH (S_DNSDoH st))) (\<lambda>doh.
     bindE (mapA (import_item record_item validateDNSRecord ''dns'') (S_DNSRecords st)) (\<lambda>records.
     bindE (mapA (import_item domroute_item validateDNSDomainRoute ''dnsr'') (S_DNSDomainRoutes st)) (\<lambda>domroutes.
       ret (st\<lparr>S_DHCPServers := servers, S_Statics := statics, S_Routes := routes,
         S_ACL := \<lparr>acl_Mode = (if acl_Mode (S_ACL st) = [] then ACLBlacklist else acl_Mode (S_ACL st)),
                   acl_Entries = entries\<rparr>,
         S_WANv6s := wans, S_LANv6s := lans, S_PrefixStaticsV6 := prefixes,
         S_ACLv6 := \<lparr>acl6_Mode = (if acl6_Mode (S_ACLv6 st) = [] then ACLBlacklist else acl6_Mode (S_ACLv6 st)),
                     acl6_Entries = entries6\<rparr>,
         S_DNS := dns, S_DNSDoH := doh, S_DNSRecords := records, S_DNSDomainRoutes := domroutes\<rparr>)))))))))))))"

definition import_save :: "'b backend \<Rightarrow> State \<Rightarrow> ('b svc, unit) act" where
  "import_save B st =
     bindE (on_be (be_SaveDHCPServers B (S_DHCPServers st))) (\<lambda>_.
     bindE (on_be (be_SaveStatics B (S_Statics st) (S_ARPBind st))) (\<lambda>_.
     bindE (on_be (be_SaveACL B (S_ACL st))) (\<lambda>_.
     bindE (on_be (be_SaveRoutes B (S_Routes st))) (\<lambda>_.
     bindE (on_be (be_SaveWANv6s B (S_WANv6s st))) (\<lambda>_.
     bindE (on_be (be_SaveLANv6s B (S_LANv6s st))) (\<lambda>_.
     bindE (on_be (be_SavePrefixStaticsV6 B (S_PrefixStaticsV6 st))) (\<lambda>_.
     bindE (on_be (be_SaveACLv6 B (S_ACLv6 st))) (\<lambda>_.
     bindE (on_be (be_SaveDNSRecords B (S_DNSRecords st))) (\<lambda>_.
     bindE (on_be (be_SaveDNSDomainRoutes B (S_DNSDomainRoutes st))) (\<lambda>_.
     bindE (on_be (be_SaveDNSDoH B (S_DNSDoH st))) (\<lambda>_.
     bindE (on_be (be_SaveDNSSettings B (S_DNS st))) (\<lambda>_.
     bindE (publish TypeDHCPChanged ''apply'' (int (length (S_DHCPServers st)))) (\<lambda>_.
     bindE (publish TypeRouteChanged ''apply'' (int (length (S_Routes st)))) (\<lambda>_.
       publish TypeIPv6Changed ''apply'' (int (length (S_WANv6s st)) + int (length (S_LANv6s st)))))))))))))))))"

text \<open>The argument is the outcome of \<open>json.Unmarshal\<close>.\<close>

definition ImportJSON :: "'b backend \<Rightarrow> err + State \<Rightarrow> ('b svc, unit) act" where
  "ImportJSON B raw = bindE (liftE raw) (\<lambda>st. bindE (import_validate st) (import_save B))"

section \<open>policyrule.go\<close>

definition ListPolicyRules :: "'b backend \<Rightarrow> ('b svc, PolicyRule list) act" where
  "ListPolicyRules B = on_be (be_PolicyRules B)"

definition CreatePolicyRule :: "'b backend \<Rightarrow> PolicyRule \<Rightarrow> ('b svc, PolicyRule) act" where
  "CreatePolicyRule B r = bindE (liftE (validatePolicyRule r)) (\<lambda>r.
     coll_create (rules_coll B) no_check (cryptoID ''prule'') r)"

definition UpdatePolicyRule :: "'b backend \<Rightarrow> string \<Rightarrow> PolicyRule \<Rightarrow> ('b svc, PolicyRule) act" where
  "UpdatePolicyRule B i r = bindE (liftE (validatePolicyRule r)) (\<lambda>r. coll_update (rules_coll B) no_check i r)"

definition DeletePolicyRule :: "'b backend \<Rightarrow> string \<Rightarrow> ('b svc, unit) act" where
  "DeletePolicyRule B i = coll_delete (rules_coll B) i"

definition SetPolicyRuleEnabled :: "'b backend \<Rightarrow> string \<Rightarrow> bool \<Rightarrow> ('b svc, unit) act" where
  "SetPolicyRuleEnabled B i on = coll_enable (rules_coll B) i on"

definition BatchPolicyRules :: "'b backend \<Rightarrow> string \<Rightarrow> string list \<Rightarrow> ('b svc, unit) act" where
  "BatchPolicyRules B action ids = coll_batch (rules_coll B) action ids"

end
