(* ===== verification/ServiceIface.thy ===== *)
theory ServiceIface
  imports Service
begin

text \<open>
  The rest of the Service: the LAN and WAN interfaces (iface.go), DNS (dns_service.go) and IPv6
  (ipv6_service.go).
\<close>

section \<open>iface.go\<close>

definition ListNICs :: "'b backend \<Rightarrow> ('b svc, NIC list) act" where
  "ListNICs B = on_be (be_NICs B)"

definition ListNetIfaces :: "'b backend \<Rightarrow> ('b svc, NetIface list) act" where
  "ListNetIfaces B = on_be (be_NetIfaces B)"

definition GetNetIface :: "'b backend \<Rightarrow> string \<Rightarrow> ('b svc, NetIface) act" where
  "GetNetIface B i = bindE (on_be (be_NetIfaces B)) (\<lambda>list.
     case find (\<lambda>x. ni_ID x = i) list of None \<Rightarrow> fail ErrNotFound | Some x \<Rightarrow> ret x)"

text \<open>The first free name among role, role2, ..., role63.\<close>

definition free_iface_id :: "string \<Rightarrow> NetIface list \<Rightarrow> string" where
  "free_iface_id role list =
     (let used = ni_ID ` set list in
      if role \<notin> used then role
      else (case find (\<lambda>n. role @ go_Itoa (int n) \<notin> used) [2..<64] of
          Some n \<Rightarrow> role @ go_Itoa (int n)
        | None \<Rightarrow> role @ ''_new''))"

definition nextIfaceID :: "'b backend \<Rightarrow> string \<Rightarrow> ('b svc, string) act" where
  "nextIfaceID B role = bindE (orZero [] (on_be (be_NetIfaces B))) (\<lambda>list. ret (free_iface_id role list))"

definition SaveNetIface :: "'b backend \<Rightarrow> NetIface \<Rightarrow> ('b svc, NetIface) act" where
  "SaveNetIface B i0 = bindE (liftE (validateNetIface i0)) (\<lambda>i.
     bindE (orZero [] (on_be (be_NetIfaces B))) (\<lambda>existing.
       bindE (if ni_ID i = [] then
                bindE (nextIfaceID B (ni_Role i)) (\<lambda>new. ret (i\<lparr>ni_ID := new, ni_Name := new\<rparr>))
              else ret i) (\<lambda>i.
         bindE (orZero [] (on_be (be_DHCPServers B))) (\<lambda>servers.
           bindE (liftE (checkIfaceRelations i existing servers)) (\<lambda>_.
             bindE (on_be (be_SaveNetIface B i)) (\<lambda>_.
               bindE (publish TypeIfaceChanged ''save'' 0) (\<lambda>_. ret i)))))))"

definition DeleteNetIface :: "'b backend \<Rightarrow> string \<Rightarrow> ('b svc, unit) act" where
  "DeleteNetIface B i = bindE (on_be (be_NetIfaces B)) (\<lambda>existing.
     bindE (liftE (canDeleteNetIface i existing)) (\<lambda>_.
       bindE (on_be (be_DeleteNetIface B i)) (\<lambda>_. publish TypeIfaceChanged ''delete'' 0)))"

definition WANAction :: "'b backend \<Rightarrow> string \<Rightarrow> string \<Rightarrow> ('b svc, unit) act" where
  "WANAction B i action =
     bindE (on_be (be_WANAction B i action)) (\<lambda>_. publish TypeIfaceChanged action 0)"

definition InstallDHCP :: "'b backend \<Rightarrow> ('b svc, string) act" where
  "InstallDHCP B =
     bindE (on_be (be_InstallDHCP B)) (\<lambda>out. bindE (publish TypeDHCPChanged ''install'' 0) (\<lambda>_. ret out))"

text \<open>The first of the two files of /proc that can be read.\<close>

definition conntrackCount :: "string option list \<Rightarrow> int" where
  "conntrackCount files = (case List.map_filter (\<lambda>x. x) files of
     [] \<Rightarrow> 0 | b # _ \<Rightarrow> atoiSafe (go_TrimSpace b))"

definition NetOverview :: "lib \<Rightarrow> string option list \<Rightarrow> 'b backend \<Rightarrow> ('b svc, NetOverview) act" where
  "NetOverview L proc B = bindE (on_be (be_NetIfaces B)) (\<lambda>ifaces.
     bindE (orZero [] (on_be (be_NICs B))) (\<lambda>nics.
       bindE (orZero [] (ListDHCPServers B)) (\<lambda>servers.
         bindE (orZero [] (ListLeases L B \<lparr>lf_Interface = [], lf_Status = [], lf_Query = []\<rparr>)) (\<lambda>leases.
           let wans = filter (\<lambda>i. ni_Role i = RoleWAN) ifaces;
               lans = filter (\<lambda>i. ni_Role i \<noteq> RoleWAN) ifaces
           in ret \<lparr>ov_WANCount = int (length wans), ov_WANUp = int (length (filter ni_Up wans)),
                ov_Connections = conntrackCount proc,
                ov_LANCount = int (length lans), ov_LANUp = int (length (filter ni_Up lans)),
                ov_DHCPOn = int (length (filter ds_Enabled servers)), ov_Terminals = int (length leases),
                ov_FreePorts = int (length (filter (\<lambda>n. nic_Kind n = ''physical'' \<and> nic_Bound n = []) nics)),
                ov_WANs = wans, ov_LANs = lans\<rparr>))))"

section \<open>dns\_service.go\<close>

definition GetDNSSettings :: "'b backend \<Rightarrow> ('b svc, DNSSettings) act" where
  "GetDNSSettings B = on_be (be_DNSSettings B)"

definition SaveDNSSettings :: "'b backend \<Rightarrow> DNSSettings \<Rightarrow> ('b svc, DNSSettings) act" where
  "SaveDNSSettings B s = bindE (liftE (validateDNSSettings s)) (\<lambda>s.
     bindE (on_be (be_SaveDNSSettings B s)) (\<lambda>_.
       bindE (publish TypeDNSChanged ''update'' 0) (\<lambda>_. on_be (be_DNSSettings B))))"

definition GetDNSDoH :: "'b backend \<Rightarrow> ('b svc, DNSDoH) act" where
  "GetDNSDoH B = on_be (be_DNSDoH B)"

definition SaveDNSDoH :: "'b backend \<Rightarrow> DNSDoH \<Rightarrow> ('b svc, DNSDoH) act" where
  "SaveDNSDoH B d = bindE (liftE (validateDNSDoH d)) (\<lambda>d.
     bindE (on_be (be_SaveDNSDoH B d)) (\<lambda>_.
       bindE (publish TypeDNSChanged ''update'' 0) (\<lambda>_. on_be (be_DNSDoH B))))"

definition ListDNSRecords :: "'b backend \<Rightarrow> ('b svc, DNSRecord list) act" where
  "ListDNSRecords B = on_be (be_DNSRecords B)"

definition CreateDNSRecord :: "'b backend \<Rightarrow> DNSRecord \<Rightarrow> ('b svc, DNSRecord) act" where
  "CreateDNSRecord B r = bindE (liftE (validateDNSRecord r)) (\<lambda>r.
     coll_create (records_coll B) no_check (cryptoID ''dns'') r)"

definition UpdateDNSRecord :: "'b backend \<Rightarrow> string \<Rightarrow> DNSRecord \<Rightarrow> ('b svc, DNSRecord) act" where
  "UpdateDNSRecord B i r = bindE (liftE (validateDNSRecord r)) (\<lambda>r. coll_update (records_coll B) no_check i r)"

definition DeleteDNSRecord :: "'b backend \<Rightarrow> string \<Rightarrow> ('b svc, unit) act" where
  "DeleteDNSRecord B i = coll_delete (records_coll B) i"

definition SetDNSRecordEnabled :: "'b backend \<Rightarrow> string \<Rightarrow> bool \<Rightarrow> ('b svc, unit) act" where
  "SetDNSRecordEnabled B i on = coll_enable (records_coll B) i on"

definition BatchDNSRecords :: "'b backend \<Rightarrow> string \<Rightarrow> string list \<Rightarrow> ('b svc, unit) act" where
  "BatchDNSRecords B action ids = coll_batch (records_coll B) action ids"

definition ListDNSDomainRoutes :: "'b backend \<Rightarrow> ('b svc, DNSDomainRoute list) act" where
  "ListDNSDomainRoutes B = on_be (be_DNSDomainRoutes B)"

definition CreateDNSDomainRoute :: "'b backend \<Rightarrow> DNSDomainRoute \<Rightarrow> ('b svc, DNSDomainRoute) act" where
  "CreateDNSDomainRoute B r = bindE (liftE (validateDNSDomainRoute r)) (\<lambda>r.
     coll_create (domroutes_coll B) no_check (cryptoID ''dnsr'') r)"

definition UpdateDNSDomainRoute :: "'b backend \<Rightarrow> string \<Rightarrow> DNSDomainRoute \<Rightarrow> ('b svc, DNSDomainRoute) act" where
  "UpdateDNSDomainRoute B i r =
     bindE (liftE (validateDNSDomainRoute r)) (\<lambda>r. coll_update (domroutes_coll B) no_check i r)"

definition DeleteDNSDomainRoute :: "'b backend \<Rightarrow> string \<Rightarrow> ('b svc, unit) act" where
  "DeleteDNSDomainRoute B i = coll_delete (domroutes_coll B) i"

definition SetDNSDomainRouteEnabled :: "'b backend \<Rightarrow> string \<Rightarrow> bool \<Rightarrow> ('b svc, unit) act" where
  "SetDNSDomainRouteEnabled B i on = coll_enable (domroutes_coll B) i on"

definition BatchDNSDomainRoutes :: "'b backend \<Rightarrow> string \<Rightarrow> string list \<Rightarrow> ('b svc, unit) act" where
  "BatchDNSDomainRoutes B action ids = coll_batch (domroutes_coll B) action ids"

definition FlushDNSCache :: "'b backend \<Rightarrow> ('b svc, unit) act" where
  "FlushDNSCache B = bindE (on_be (be_FlushDNSCache B)) (\<lambda>_. publish TypeDNSChanged ''apply'' 0)"

definition InstallDoH :: "'b backend \<Rightarrow> ('b svc, string) act" where
  "InstallDoH B =
     bindE (on_be (be_InstallDoH B)) (\<lambda>out. bindE (publish TypeDNSChanged ''apply'' 0) (\<lambda>_. ret out))"

section \<open>ipv6\_service.go\<close>

definition publishV6 :: "string \<Rightarrow> int \<Rightarrow> ('b svc, unit) act" where
  "publishV6 action cnt = publish TypeIPv6Changed action cnt"

fun itoa_loop :: "nat \<Rightarrow> string \<Rightarrow> string" where
  "itoa_loop n b = (if n = 0 then b else itoa_loop (n div 10) (byte (48 + n mod 10) # b))"

declare itoa_loop.simps [simp del]

definition itoa :: "int \<Rightarrow> string" where
  "itoa n = (if n = 0 then ''0'' else itoa_loop (nat n) [])"

lemma itoa_loop_pos: "0 < n \<Longrightarrow> itoa_loop n b = go_nat_str n @ b"
proof (induction n b rule: itoa_loop.induct)
  case (1 n b)
  have step: "itoa_loop n b = itoa_loop (n div 10) (byte (48 + n mod 10) # b)"
    using 1(2) by (subst itoa_loop.simps) simp
  show ?case
  proof (cases "n < 10")
    case True
    then have "n div 10 = 0" and "n mod 10 = n" by simp_all
    then have "itoa_loop n b = byte (48 + n) # b"
      unfolding step by (subst itoa_loop.simps) simp
    with True show ?thesis by (simp add: go_nat_str.simps [of n])
  next
    case False
    then have "go_nat_str n = go_nat_str (n div 10) @ [byte (48 + n mod 10)]"
      by (subst go_nat_str.simps) simp
    moreover have "itoa_loop (n div 10) (byte (48 + n mod 10) # b) = go_nat_str (n div 10) @ byte (48 + n mod 10) # b"
      using False by (intro 1(1)) simp_all
    ultimately show ?thesis unfolding step by simp
  qed
qed

text \<open>The program's own itoa agrees with strconv.Itoa on numbers that are not negative.\<close>

lemma itoa_nat: "itoa (int n) = go_nat_str n"
  by (cases "n = 0") (simp_all add: itoa_def itoa_loop_pos go_nat_str.simps [of 0] byte_def char_of_def bit_Suc_0)

text \<open>
  \<open>for i := 2; ; i++\<close>: the loop ends because only finitely many candidates are in use.
\<close>

definition cands_in_use :: "string list \<Rightarrow> string \<Rightarrow> nat \<Rightarrow> nat set" where
  "cands_in_use existing prefix i = {k. i \<le> k \<and> prefix @ go_nat_str k \<in> set existing}"

lemma finite_cands_in_use: "finite (cands_in_use existing prefix i)"
proof (rule finite_imageD)
  show "finite ((\<lambda>k. prefix @ go_nat_str k) ` cands_in_use existing prefix i)"
    by (rule finite_subset [of _ "set existing"]) (auto simp: cands_in_use_def)
  show "inj_on (\<lambda>k. prefix @ go_nat_str k) (cands_in_use existing prefix i)"
    by (auto simp: inj_on_def dest: go_nat_str_inj)
qed

function v6id_loop :: "string list \<Rightarrow> string \<Rightarrow> nat \<Rightarrow> string" where
  "v6id_loop existing prefix i =
     (let cand = prefix @ itoa (int i) in
      if cand \<notin> set existing then cand else v6id_loop existing prefix (Suc i))"
  by pat_completeness auto
termination
proof (relation "measure (\<lambda>(existing, prefix, i). card (cands_in_use existing prefix i))")
  fix existing :: "string list" and prefix i and cand :: string
  assume "cand = prefix @ itoa (int i)" and "\<not> cand \<notin> set existing"
  then have i: "i \<in> cands_in_use existing prefix i"
    by (simp add: cands_in_use_def itoa_nat)
  moreover have "cands_in_use existing prefix (Suc i) \<subseteq> cands_in_use existing prefix i"
    and "i \<notin> cands_in_use existing prefix (Suc i)"
    by (auto simp: cands_in_use_def)
  ultimately have "card (cands_in_use existing prefix (Suc i)) < card (cands_in_use existing prefix i)"
    by (metis finite_cands_in_use psubsetI psubset_card_mono)
  then show "((existing, prefix, Suc i), existing, prefix, i) \<in>
      measure (\<lambda>(existing, prefix, i). card (cands_in_use existing prefix i))"
    by (simp del: measure_def add: in_measure)
qed (rule wf_measure)

declare v6id_loop.simps [simp del]

definition nextV6ID :: "string list \<Rightarrow> string \<Rightarrow> string" where
  "nextV6ID existing prefix = (if prefix \<notin> set existing then prefix else v6id_loop existing prefix 2)"

definition generateDUID :: "('b svc, string) act" where
  "generateDUID = bindE (rand_bytes 16) (\<lambda>bs. ret (''0004'' @ go_hex bs))"

definition orV6 :: "string \<Rightarrow> string \<Rightarrow> string" where
  "orV6 v d = (if go_TrimSpace v = [] then d else v)"

definition idsOfWANv6 :: "WANv6 list \<Rightarrow> string list" where
  "idsOfWANv6 list = map w6_ID list"

definition ListWANv6 :: "'b backend \<Rightarrow> ('b svc, WANv6 list) act" where
  "ListWANv6 B = on_be (be_WANv6s B)"

definition GetWANv6 :: "'b backend \<Rightarrow> string \<Rightarrow> ('b svc, WANv6) act" where
  "GetWANv6 B i = coll_get (wan6s_coll B) i"

definition CreateWANv6 :: "'b backend \<Rightarrow> WANv6 \<Rightarrow> ('b svc, WANv6) act" where
  "CreateWANv6 B w0 = bindE (liftE (validateWANv6 w0)) (\<lambda>w.
     bindE (on_be (be_WANv6s B)) (\<lambda>list.
       let w = w\<lparr>w6_ID := uciName (orV6 (w6_ID w) (nextV6ID (idsOfWANv6 list) ''wan6''))\<rparr>;
           w = (if w6_Name w = [] then w\<lparr>w6_Name := w6_ID w\<rparr> else w);
           w = w\<lparr>w6_Managed := True\<rparr>
       in bindE (coll_store (wan6s_coll B) (list @ [w]) () ''create'') (\<lambda>_. ret w)))"

definition UpdateWANv6 :: "'b backend \<Rightarrow> string \<Rightarrow> WANv6 \<Rightarrow> ('b svc, WANv6) act" where
  "UpdateWANv6 B i w = bindE (liftE (validateWANv6 w)) (\<lambda>w.
     coll_update (wan6s_coll B) no_check i (if w6_Name w = [] then w\<lparr>w6_Name := i\<rparr> else w))"

definition DeleteWANv6 :: "'b backend \<Rightarrow> string \<Rightarrow> ('b svc, unit) act" where
  "DeleteWANv6 B i = coll_delete (wan6s_coll B) i"

definition SetWANv6Enabled :: "'b backend \<Rightarrow> string \<Rightarrow> bool \<Rightarrow> ('b svc, unit) act" where
  "SetWANv6Enabled B i on = coll_enable (wan6s_coll B) i on"

definition BatchWANv6 :: "'b backend \<Rightarrow> string \<Rightarrow> string list \<Rightarrow> ('b svc, unit) act" where
  "BatchWANv6 B action ids = coll_batch (wan6s_coll B) action ids"

definition RegenWANv6DUID :: "'b backend \<Rightarrow> string \<Rightarrow> ('b svc, WANv6) act" where
  "RegenWANv6DUID B i = bindE (on_be (be_WANv6s B)) (\<lambda>list.
     case index_item wan6_item i list of
       None \<Rightarrow> fail ErrNotFound
     | Some k \<Rightarrow> bindE generateDUID (\<lambda>duid.
         let w = (list ! k)\<lparr>w6_ClientID := duid, w6_Managed := True\<rparr>
         in bindE (coll_store (wan6s_coll B) (list[k := w]) () ''update'') (\<lambda>_. ret w)))"

definition ListLANv6 :: "'b backend \<Rightarrow> ('b svc, LANv6 list) act" where
  "ListLANv6 B = on_be (be_LANv6s B)"

definition GetLANv6 :: "'b backend \<Rightarrow> string \<Rightarrow> ('b svc, LANv6) act" where
  "GetLANv6 B i = coll_get (lan6s_coll B) i"

definition lan6_exists :: "string \<Rightarrow> LANv6 list \<Rightarrow> err + unit" where
  "lan6_exists i list =
     (if list_ex (\<lambda>x. l6_ID x = i) list then Inl (Err ''the interface has an IPv6 configuration already'')
      else Inr ())"

definition CreateLANv6 :: "'b backend \<Rightarrow> LANv6 \<Rightarrow> ('b svc, LANv6) act" where
  "CreateLANv6 B l = bindE (liftE (validateLANv6 l)) (\<lambda>l.
     coll_create (lan6s_coll B) (lan6_exists (uciName (l6_Interface l))) (ret (uciName (l6_Interface l))) l)"

definition UpdateLANv6 :: "'b backend \<Rightarrow> string \<Rightarrow> LANv6 \<Rightarrow> ('b svc, LANv6) act" where
  "UpdateLANv6 B i l = bindE (liftE (validateLANv6 l)) (\<lambda>l. coll_update (lan6s_coll B) no_check i l)"

definition DeleteLANv6 :: "'b backend \<Rightarrow> string \<Rightarrow> ('b svc, unit) act" where
  "DeleteLANv6 B i = coll_delete (lan6s_coll B) i"

definition SetLANv6Enabled :: "'b backend \<Rightarrow> string \<Rightarrow> bool \<Rightarrow> ('b svc, unit) act" where
  "SetLANv6Enabled B i on = coll_enable (lan6s_coll B) i on"

definition BatchLANv6 :: "'b backend \<Rightarrow> string \<Rightarrow> string list \<Rightarrow> ('b svc, unit) act" where
  "BatchLANv6 B action ids = coll_batch (lan6s_coll B) action ids"

definition leaseV6Matches :: "lib \<Rightarrow> LeaseV6 \<Rightarrow> string \<Rightarrow> bool" where
  "leaseV6Matches L l q \<longleftrightarrow>
     list_ex (\<lambda>f. go_Contains (go_ToLower (lb_lower L) f) q)
       [v6_Hostname l, v6_MAC l, v6_IPv6Addr l, v6_LocalLink l, v6_DUID l, v6_Vendor l]"

definition leaseV6_row :: "lib \<Rightarrow> LeaseFilter \<Rightarrow> string \<Rightarrow> LeaseV6 \<Rightarrow> LeaseV6 option" where
  "leaseV6_row L f q l0 =
     (if lf_Interface f \<noteq> [] \<and> v6_Interface l0 \<noteq> lf_Interface f then None
      else
        (let l = l0\<lparr>v6_Vendor := Vendor (lb_oui L) (v6_MAC l0)\<rparr>
         in if q \<noteq> [] \<and> \<not> leaseV6Matches L l q then None else Some l))"

definition ListLeasesV6 :: "lib \<Rightarrow> 'b backend \<Rightarrow> LeaseFilter \<Rightarrow> ('b svc, LeaseV6 list) act" where
  "ListLeasesV6 L B f = bindE (on_be (be_LeasesV6 B)) (\<lambda>leases.
     let q = go_ToLower (lb_lower L) (go_TrimSpace (lf_Query f))
     in ret (List.map_filter (leaseV6_row L f q) leases))"

definition ListPrefixStaticsV6 :: "'b backend \<Rightarrow> ('b svc, PrefixStaticV6 list) act" where
  "ListPrefixStaticsV6 B = on_be (be_PrefixStaticsV6 B)"

definition CreatePrefixStaticV6 :: "'b backend \<Rightarrow> PrefixStaticV6 \<Rightarrow> ('b svc, PrefixStaticV6) act" where
  "CreatePrefixStaticV6 B p = bindE (liftE (validatePrefixStaticV6 p)) (\<lambda>p.
     coll_create (prefix6s_coll B) no_check (cryptoID ''ps6'') p)"

definition UpdatePrefixStaticV6 :: "'b backend \<Rightarrow> string \<Rightarrow> PrefixStaticV6 \<Rightarrow> ('b svc, PrefixStaticV6) act" where
  "UpdatePrefixStaticV6 B i p =
     bindE (liftE (validatePrefixStaticV6 p)) (\<lambda>p. coll_update (prefix6s_coll B) no_check i p)"

definition DeletePrefixStaticV6 :: "'b backend \<Rightarrow> string \<Rightarrow> ('b svc, unit) act" where
  "DeletePrefixStaticV6 B i = coll_delete (prefix6s_coll B) i"

definition SetPrefixStaticV6Enabled :: "'b backend \<Rightarrow> string \<Rightarrow> bool \<Rightarrow> ('b svc, unit) act" where
  "SetPrefixStaticV6Enabled B i on = coll_enable (prefix6s_coll B) i on"

definition BatchPrefixStaticsV6 :: "'b backend \<Rightarrow> string \<Rightarrow> string list \<Rightarrow> ('b svc, unit) act" where
  "BatchPrefixStaticsV6 B action ids = coll_batch (prefix6s_coll B) action ids"

definition GetACLv6 :: "'b backend \<Rightarrow> ('b svc, ACLv6) act" where
  "GetACLv6 B = on_be (load_ACLv6 B)"

definition SetACLv6Mode :: "'b backend \<Rightarrow> string \<Rightarrow> ('b svc, ACLv6) act" where
  "SetACLv6Mode B mode =
     (if mode \<noteq> ACLBlacklist \<and> mode \<noteq> ACLWhitelist then fail (Err ''mode must be blacklist or whitelist'')
      else bindE (GetACLv6 B) (\<lambda>acl.
        let acl = acl\<lparr>acl6_Mode := mode\<rparr>
        in bindE (coll_store (acl6_coll B) (acl6_Entries acl) mode ''update'') (\<lambda>_. ret acl)))"

definition AddACLv6Entry :: "'b backend \<Rightarrow> ACLv6Entry \<Rightarrow> ('b svc, ACLv6Entry) act" where
  "AddACLv6Entry B e = bindE (liftE (validateACLv6Entry e)) (\<lambda>e.
     coll_create (acl6_coll B) no_check (cryptoID ''aclv6'') e)"

definition UpdateACLv6Entry :: "'b backend \<Rightarrow> string \<Rightarrow> ACLv6Entry \<Rightarrow> ('b svc, ACLv6Entry) act" where
  "UpdateACLv6Entry B i e = bindE (liftE (validateACLv6Entry e)) (\<lambda>e. coll_update (acl6_coll B) no_check i e)"

definition DeleteACLv6Entry :: "'b backend \<Rightarrow> string \<Rightarrow> ('b svc, unit) act" where
  "DeleteACLv6Entry B i = coll_delete (acl6_coll B) i"

definition ToggleACLv6Entry :: "'b backend \<Rightarrow> string \<Rightarrow> ('b svc, ACLv6Entry) act" where
  "ToggleACLv6Entry B i = coll_toggle (acl6_coll B) i"

definition ListNeighborsV6 :: "lib \<Rightarrow> 'b backend \<Rightarrow> ('b svc, NeighborV6 list) act" where
  "ListNeighborsV6 L B = bindE (on_be (be_NeighborsV6 B)) (\<lambda>ns.
     ret (map (\<lambda>n. n\<lparr>nb_Vendor := Vendor (lb_oui L) (nb_MAC n)\<rparr>) ns))"

definition DeleteNeighborV6 :: "'b backend \<Rightarrow> string \<Rightarrow> string \<Rightarrow> ('b svc, unit) act" where
  "DeleteNeighborV6 B addr dev =
     (if go_TrimSpace addr = [] then fail (Err ''neighbour address is missing'')
      else bindE (on_be (be_DeleteNeighborV6 B addr dev)) (\<lambda>_. publishV6 ''delete'' 0))"

definition FlushNeighborsV6 :: "'b backend \<Rightarrow> string \<Rightarrow> ('b svc, unit) act" where
  "FlushNeighborsV6 B dev = bindE (on_be (be_FlushNeighborsV6 B dev)) (\<lambda>_. publishV6 ''apply'' 0)"

end
