(* ===== verification/NetcfgAPI.thy ===== *)
theory NetcfgAPI
  imports ServiceIface
begin

text \<open>
  internal/api/netcfg_*.go: the HTTP handlers over the Service, from the decoded request to the status and the body
  of the answer. A body that is not JSON of the expected shape is \<open>None\<close>. A value that is sent as a JSON object of one
  or two fields is the value or the pair; \<open>{"ok": true}\<close> is \<open>()\<close>. The output that a failed installation attaches as
  details is left out, as the Service returns only its error here. Handlers whose service method is not modelled
  (details of one card, cache statistics, versions of daemons, transition packages, line counters) are missing.
\<close>

section \<open>Answers\<close>

datatype ErrorCode =
    CodeBadRequest | CodeUnauthorized | CodeForbidden | CodeNotFound | CodeConflict | CodeValidation | CodeInternal
  | CodeConfigNotFound | CodeConfigExists | CodeInvalidState | CodeProxyNotFound | CodeProxyExists
  | CodeUpstreamFailure | CodeVisitorPortConflict

datatype message = NoSuchResource | InvalidBody | ErrorText err | Prefixed string err

text \<open>\<open>NoReply\<close> is a handler that never returns.\<close>

datatype 'v reply = Reply nat 'v | Refusal nat ErrorCode message | NoReply

type_synonym ('b, 'v) handler = "'b svc \<Rightarrow> 'v reply \<times> 'b svc"

definition writeNetErr :: "err \<Rightarrow> 'v reply" where
  "writeNetErr e =
     (if e = ErrNotFound then Refusal 404 CodeNotFound NoSuchResource
      else Refusal 400 CodeBadRequest (ErrorText e))"

definition internal_error :: "err \<Rightarrow> 'v reply" where
  "internal_error e = Refusal 500 CodeInternal (ErrorText e)"

text \<open>\<open>decodeJSON\<close> answers 400 itself.\<close>

definition decodeJSON :: "'a option \<Rightarrow> ('a \<Rightarrow> ('b, 'v) handler) \<Rightarrow> ('b, 'v) handler" where
  "decodeJSON body k s =
     (case body of None \<Rightarrow> (Refusal 400 CodeBadRequest InvalidBody, s) | Some x \<Rightarrow> k x s)"

text \<open>Call the Service; \<open>bad\<close> turns its error into the answer, \<open>good\<close> its result.\<close>

definition answer :: "('a \<Rightarrow> 'v reply) \<Rightarrow> (err \<Rightarrow> 'v reply) \<Rightarrow> ('b svc, 'a) act \<Rightarrow> ('b, 'v) handler" where
  "answer good bad m s = (case m s of (Inl e, t) \<Rightarrow> (bad e, t) | (Inr x, t) \<Rightarrow> (good x, t))"

definition without_body :: "('b, 'v) handler \<Rightarrow> ('b, unit) handler" where
  "without_body h s = (case h s of (r, t) \<Rightarrow> (map_reply (\<lambda>_. ()) r, t))"

section \<open>Shared: interfaces, status, route table (netcfg\_routes.go)\<close>

definition api_Interfaces :: "'b backend \<Rightarrow> ('b, Interface list) handler" where
  "api_Interfaces B = answer (Reply 200) internal_error (on_be (be_Interfaces B))"

definition api_Status :: "'b backend \<Rightarrow> ('b, Status) handler" where
  "api_Status B = answer (Reply 200) internal_error (svc_Status B)"

definition api_RouteTable :: "'b backend \<Rightarrow> string \<Rightarrow> ('b, RouteEntry list \<times> string) handler" where
  "api_RouteTable B family = (let family = (if family = [] then FamilyIPv4 else family)
      in answer (\<lambda>items. Reply 200 (items, family)) internal_error (RouteTable B family))"

section \<open>DHCP servers, reservations, leases and the access list (netcfg\_dhcp.go)\<close>

definition api_ListServers :: "'b backend \<Rightarrow> ('b, DHCPServer list \<times> string) handler" where
  "api_ListServers B = answer (Reply 200) internal_error
      (bindE (ListDHCPServers B) (\<lambda>items. bindE (orZero [] (GetRoutePushMode B)) (\<lambda>mode. ret (items, mode))))"

definition api_SetRoutePushMode :: "'b backend \<Rightarrow> string option \<Rightarrow> ('b, string) handler" where
  "api_SetRoutePushMode B mode =
     decodeJSON mode (\<lambda>mode. answer (\<lambda>_. Reply 200 mode) writeNetErr (SetRoutePushMode B mode))"

definition api_GetServer :: "'b backend \<Rightarrow> string \<Rightarrow> ('b, DHCPServer) handler" where
  "api_GetServer B i = answer (Reply 200) writeNetErr (GetDHCPServer B i)"

definition api_CreateServer :: "'b backend \<Rightarrow> DHCPServer option \<Rightarrow> ('b, DHCPServer) handler" where
  "api_CreateServer B x =
     decodeJSON x (\<lambda>x. answer (Reply 201) writeNetErr (CreateDHCPServer B x))"

definition api_UpdateServer :: "'b backend \<Rightarrow> string \<Rightarrow> DHCPServer option \<Rightarrow> ('b, DHCPServer) handler" where
  "api_UpdateServer B i x =
     decodeJSON x (\<lambda>x. answer (Reply 200) writeNetErr (UpdateDHCPServer B i x))"

definition api_DeleteServer :: "'b backend \<Rightarrow> string \<Rightarrow> ('b, string) handler" where
  "api_DeleteServer B i = answer (\<lambda>_. Reply 200 i) writeNetErr (DeleteDHCPServer B i)"

definition api_ToggleServer :: "'b backend \<Rightarrow> string \<Rightarrow> bool option \<Rightarrow> ('b, unit) handler" where
  "api_ToggleServer B i on =
     decodeJSON on (\<lambda>on. answer (Reply 200) writeNetErr (SetDHCPServerEnabled B i on))"

definition api_BatchServers :: "'b backend \<Rightarrow> (string \<times> string list) option \<Rightarrow> ('b, unit) handler" where
  "api_BatchServers B b =
     decodeJSON b (\<lambda>(action, ids). answer (Reply 200) writeNetErr (BatchDHCPServers B action ids))"

definition api_RestartDHCP :: "'b backend \<Rightarrow> ('b, unit) handler" where
  "api_RestartDHCP B =
     answer (Reply 200) (\<lambda>e. Refusal 500 CodeInternal (Prefixed ''restarting DHCP failed'' e)) (RestartDHCP B)"

definition api_ListStatics :: "'b backend \<Rightarrow> ('b, StaticLease list \<times> bool) handler" where
  "api_ListStatics B = answer (Reply 200) internal_error
      (bindE (ListStatics B) (\<lambda>items. bindE (orZero False (GetARPBind B)) (\<lambda>arp. ret (items, arp))))"

definition api_CreateStatic :: "lib \<Rightarrow> 'b backend \<Rightarrow> StaticLease option \<Rightarrow> ('b, StaticLease) handler" where
  "api_CreateStatic L B x =
     decodeJSON x (\<lambda>x. answer (Reply 201) writeNetErr (CreateStatic L B x))"

definition api_UpdateStatic :: "lib \<Rightarrow> 'b backend \<Rightarrow> string \<Rightarrow> StaticLease option \<Rightarrow> ('b, StaticLease) handler" where
  "api_UpdateStatic L B i x =
     decodeJSON x (\<lambda>x. answer (Reply 200) writeNetErr (UpdateStatic L B i x))"

definition api_DeleteStatic :: "'b backend \<Rightarrow> string \<Rightarrow> ('b, string) handler" where
  "api_DeleteStatic B i = answer (\<lambda>_. Reply 200 i) writeNetErr (DeleteStatic B i)"

definition api_ToggleStatic :: "'b backend \<Rightarrow> string \<Rightarrow> bool option \<Rightarrow> ('b, unit) handler" where
  "api_ToggleStatic B i on =
     decodeJSON on (\<lambda>on. answer (Reply 200) writeNetErr (SetStaticEnabled B i on))"

definition api_BatchStatics :: "'b backend \<Rightarrow> (string \<times> string list) option \<Rightarrow> ('b, unit) handler" where
  "api_BatchStatics B b =
     decodeJSON b (\<lambda>(action, ids). answer (Reply 200) writeNetErr (BatchStatics B action ids))"

definition api_SetARPBind :: "'b backend \<Rightarrow> bool option \<Rightarrow> ('b, bool) handler" where
  "api_SetARPBind B on =
     decodeJSON on (\<lambda>on. answer (\<lambda>_. Reply 200 on) internal_error (SetARPBind B on))"

definition api_ListLeases :: "lib \<Rightarrow> 'b backend \<Rightarrow> LeaseFilter \<Rightarrow> ('b, Lease list) handler" where
  "api_ListLeases L B f = answer (Reply 200) internal_error (ListLeases L B f)"

definition api_ReserveLease :: "lib \<Rightarrow> 'b backend \<Rightarrow> (string \<times> string \<times> string \<times> string) option \<Rightarrow> ('b, StaticLease) handler" where
  "api_ReserveLease L B x =
     decodeJSON x (\<lambda>(ip, mac, hostname, iface). answer (Reply 201) writeNetErr (ReserveLease L B ip mac hostname iface))"

definition api_BlacklistLease :: "lib \<Rightarrow> 'b backend \<Rightarrow> (string \<times> string) option \<Rightarrow> ('b, ACLEntry) handler" where
  "api_BlacklistLease L B x =
     decodeJSON x (\<lambda>(mac, remark). answer (Reply 201) writeNetErr (BlacklistMAC L B mac remark))"

definition api_FixSubnet :: "lib \<Rightarrow> 'b backend \<Rightarrow> string option \<Rightarrow> ('b, nat) handler" where
  "api_FixSubnet L B iface =
     decodeJSON iface (\<lambda>iface. answer (Reply 200) writeNetErr (FixSubnet L B iface))"

definition api_SetLeaseNote :: "'b backend \<Rightarrow> (string \<times> string) option \<Rightarrow> ('b, unit) handler" where
  "api_SetLeaseNote B x =
     decodeJSON x (\<lambda>(mac, remark). answer (Reply 200) writeNetErr (SetLeaseNote B mac remark))"

definition api_SuggestNextIP :: "'b backend \<Rightarrow> string \<Rightarrow> ('b, string) handler" where
  "api_SuggestNextIP B iface =
     answer (\<lambda>r. case r of None \<Rightarrow> NoReply | Some ip \<Rightarrow> Reply 200 ip) internal_error (SuggestNextIP B iface)"

definition api_GetACL :: "'b backend \<Rightarrow> ('b, ACL) handler" where
  "api_GetACL B = answer (Reply 200) internal_error (GetACL B)"

definition api_SetACLMode :: "'b backend \<Rightarrow> string option \<Rightarrow> ('b, ACL) handler" where
  "api_SetACLMode B mode =
     decodeJSON mode (\<lambda>mode. answer (Reply 200) writeNetErr (SetACLMode B mode))"

definition api_AddACLEntry :: "lib \<Rightarrow> 'b backend \<Rightarrow> ACLEntry option \<Rightarrow> ('b, ACLEntry) handler" where
  "api_AddACLEntry L B x =
     decodeJSON x (\<lambda>x. answer (Reply 201) writeNetErr (AddACLEntry L B x))"

definition api_UpdateACLEntry :: "'b backend \<Rightarrow> string \<Rightarrow> ACLEntry option \<Rightarrow> ('b, ACLEntry) handler" where
  "api_UpdateACLEntry B i x =
     decodeJSON x (\<lambda>x. answer (Reply 200) writeNetErr (UpdateACLEntry B i x))"

definition api_DeleteACLEntry :: "'b backend \<Rightarrow> string \<Rightarrow> ('b, string) handler" where
  "api_DeleteACLEntry B i = answer (\<lambda>_. Reply 200 i) writeNetErr (DeleteACLEntry B i)"

definition api_ToggleACLEntry :: "'b backend \<Rightarrow> string \<Rightarrow> ('b, ACLEntry) handler" where
  "api_ToggleACLEntry B i = answer (Reply 200) writeNetErr (ToggleACLEntry B i)"

section \<open>Static routes (netcfg\_route.go)\<close>

definition api_ListRoutes :: "'b backend \<Rightarrow> ('b, Route list) handler" where
  "api_ListRoutes B = answer (Reply 200) internal_error (ListRoutes B)"

definition api_GetRoute :: "'b backend \<Rightarrow> string \<Rightarrow> ('b, Route) handler" where
  "api_GetRoute B i = answer (Reply 200) writeNetErr (GetRoute B i)"

definition api_CreateRoute :: "'b backend \<Rightarrow> Route option \<Rightarrow> ('b, Route) handler" where
  "api_CreateRoute B x =
     decodeJSON x (\<lambda>x. answer (Reply 201) writeNetErr (CreateRoute B x))"

definition api_UpdateRoute :: "'b backend \<Rightarrow> string \<Rightarrow> Route option \<Rightarrow> ('b, Route) handler" where
  "api_UpdateRoute B i x =
     decodeJSON x (\<lambda>x. answer (Reply 200) writeNetErr (UpdateRoute B i x))"

definition api_DeleteRoute :: "'b backend \<Rightarrow> string \<Rightarrow> ('b, string) handler" where
  "api_DeleteRoute B i = answer (\<lambda>_. Reply 200 i) writeNetErr (DeleteRoute B i)"

definition api_ToggleRoute :: "'b backend \<Rightarrow> string \<Rightarrow> bool option \<Rightarrow> ('b, unit) handler" where
  "api_ToggleRoute B i on =
     decodeJSON on (\<lambda>on. answer (Reply 200) writeNetErr (SetRouteEnabled B i on))"

definition api_DuplicateRoute :: "'b backend \<Rightarrow> string \<Rightarrow> ('b, Route) handler" where
  "api_DuplicateRoute B i = answer (Reply 201) writeNetErr (DuplicateRoute B i)"

definition api_BatchRoutes :: "'b backend \<Rightarrow> (string \<times> string list) option \<Rightarrow> ('b, unit) handler" where
  "api_BatchRoutes B b =
     decodeJSON b (\<lambda>(action, ids). answer (Reply 200) writeNetErr (BatchRoutes B action ids))"

section \<open>Policy rules (netcfg\_policyrule.go)\<close>

definition api_ListPolicyRules :: "'b backend \<Rightarrow> ('b, PolicyRule list) handler" where
  "api_ListPolicyRules B = answer (Reply 200) internal_error (ListPolicyRules B)"

definition api_CreatePolicyRule :: "'b backend \<Rightarrow> PolicyRule option \<Rightarrow> ('b, PolicyRule) handler" where
  "api_CreatePolicyRule B x =
     decodeJSON x (\<lambda>x. answer (Reply 201) writeNetErr (CreatePolicyRule B x))"

definition api_UpdatePolicyRule :: "'b backend \<Rightarrow> string \<Rightarrow> PolicyRule option \<Rightarrow> ('b, PolicyRule) handler" where
  "api_UpdatePolicyRule B i x =
     decodeJSON x (\<lambda>x. answer (Reply 200) writeNetErr (UpdatePolicyRule B i x))"

definition api_DeletePolicyRule :: "'b backend \<Rightarrow> string \<Rightarrow> ('b, string) handler" where
  "api_DeletePolicyRule B i =
     answer (\<lambda>_. Reply 200 i) writeNetErr (DeletePolicyRule B i)"

definition api_TogglePolicyRule :: "'b backend \<Rightarrow> string \<Rightarrow> bool option \<Rightarrow> ('b, unit) handler" where
  "api_TogglePolicyRule B i on =
     decodeJSON on (\<lambda>on. answer (Reply 200) writeNetErr (SetPolicyRuleEnabled B i on))"

definition api_BatchPolicyRules :: "'b backend \<Rightarrow> (string \<times> string list) option \<Rightarrow> ('b, unit) handler" where
  "api_BatchPolicyRules B b =
     decodeJSON b (\<lambda>(action, ids). answer (Reply 200) writeNetErr (BatchPolicyRules B action ids))"

section \<open>DNS (netcfg\_dns.go)\<close>

definition api_GetDNSSettings :: "'b backend \<Rightarrow> ('b, DNSSettings) handler" where
  "api_GetDNSSettings B = answer (Reply 200) internal_error (GetDNSSettings B)"

definition api_UpdateDNSSettings :: "'b backend \<Rightarrow> DNSSettings option \<Rightarrow> ('b, DNSSettings) handler" where
  "api_UpdateDNSSettings B x =
     decodeJSON x (\<lambda>x. answer (Reply 200) writeNetErr (SaveDNSSettings B x))"

definition api_GetDNSDoH :: "'b backend \<Rightarrow> ('b, DNSDoH) handler" where
  "api_GetDNSDoH B = answer (Reply 200) internal_error (GetDNSDoH B)"

definition api_UpdateDNSDoH :: "'b backend \<Rightarrow> DNSDoH option \<Rightarrow> ('b, DNSDoH) handler" where
  "api_UpdateDNSDoH B x =
     decodeJSON x (\<lambda>x. answer (Reply 200) writeNetErr (SaveDNSDoH B x))"

definition api_InstallDoHHandler :: "'b backend \<Rightarrow> ('b, string) handler" where
  "api_InstallDoHHandler B =
     answer (Reply 200) (\<lambda>e. Refusal 500 CodeInternal (Prefixed ''installing DoH failed'' e)) (InstallDoH B)"

definition api_ListDNSRecords :: "'b backend \<Rightarrow> ('b, DNSRecord list) handler" where
  "api_ListDNSRecords B = answer (Reply 200) internal_error (ListDNSRecords B)"

definition api_CreateDNSRecord :: "'b backend \<Rightarrow> DNSRecord option \<Rightarrow> ('b, DNSRecord) handler" where
  "api_CreateDNSRecord B x =
     decodeJSON x (\<lambda>x. answer (Reply 201) writeNetErr (CreateDNSRecord B x))"

definition api_UpdateDNSRecord :: "'b backend \<Rightarrow> string \<Rightarrow> DNSRecord option \<Rightarrow> ('b, DNSRecord) handler" where
  "api_UpdateDNSRecord B i x =
     decodeJSON x (\<lambda>x. answer (Reply 200) writeNetErr (UpdateDNSRecord B i x))"

definition api_DeleteDNSRecord :: "'b backend \<Rightarrow> string \<Rightarrow> ('b, string) handler" where
  "api_DeleteDNSRecord B i =
     answer (\<lambda>_. Reply 200 i) writeNetErr (DeleteDNSRecord B i)"

definition api_ToggleDNSRecord :: "'b backend \<Rightarrow> string \<Rightarrow> bool option \<Rightarrow> ('b, unit) handler" where
  "api_ToggleDNSRecord B i on =
     decodeJSON on (\<lambda>on. answer (Reply 200) writeNetErr (SetDNSRecordEnabled B i on))"

definition api_BatchDNSRecords :: "'b backend \<Rightarrow> (string \<times> string list) option \<Rightarrow> ('b, unit) handler" where
  "api_BatchDNSRecords B b =
     decodeJSON b (\<lambda>(action, ids). answer (Reply 200) writeNetErr (BatchDNSRecords B action ids))"

definition api_ListDNSDomainRoutes :: "'b backend \<Rightarrow> ('b, DNSDomainRoute list) handler" where
  "api_ListDNSDomainRoutes B = answer (Reply 200) internal_error (ListDNSDomainRoutes B)"

definition api_CreateDNSDomainRoute :: "'b backend \<Rightarrow> DNSDomainRoute option \<Rightarrow> ('b, DNSDomainRoute) handler" where
  "api_CreateDNSDomainRoute B x =
     decodeJSON x (\<lambda>x. answer (Reply 201) writeNetErr (CreateDNSDomainRoute B x))"

definition api_UpdateDNSDomainRoute :: "'b backend \<Rightarrow> string \<Rightarrow> DNSDomainRoute option \<Rightarrow> ('b, DNSDomainRoute) handler" where
  "api_UpdateDNSDomainRoute B i x =
     decodeJSON x (\<lambda>x. answer (Reply 200) writeNetErr (UpdateDNSDomainRoute B i x))"

definition api_DeleteDNSDomainRoute :: "'b backend \<Rightarrow> string \<Rightarrow> ('b, string) handler" where
  "api_DeleteDNSDomainRoute B i =
     answer (\<lambda>_. Reply 200 i) writeNetErr (DeleteDNSDomainRoute B i)"

definition api_ToggleDNSDomainRoute :: "'b backend \<Rightarrow> string \<Rightarrow> bool option \<Rightarrow> ('b, unit) handler" where
  "api_ToggleDNSDomainRoute B i on =
     decodeJSON on (\<lambda>on. answer (Reply 200) writeNetErr (SetDNSDomainRouteEnabled B i on))"

definition api_BatchDNSDomainRoutes :: "'b backend \<Rightarrow> (string \<times> string list) option \<Rightarrow> ('b, unit) handler" where
  "api_BatchDNSDomainRoutes B b =
     decodeJSON b (\<lambda>(action, ids). answer (Reply 200) writeNetErr (BatchDNSDomainRoutes B action ids))"

definition api_FlushDNSCache :: "'b backend \<Rightarrow> ('b, unit) handler" where
  "api_FlushDNSCache B =
     answer (Reply 200) (\<lambda>e. Refusal 500 CodeInternal (Prefixed ''flushing the cache failed'' e)) (FlushDNSCache B)"

section \<open>Network cards and interfaces (netcfg\_iface.go)\<close>

definition api_ListNICs :: "'b backend \<Rightarrow> ('b, NIC list) handler" where
  "api_ListNICs B = answer (Reply 200) internal_error (ListNICs B)"

definition api_NetOverview :: "lib \<Rightarrow> 'b backend \<Rightarrow> string option list \<Rightarrow> ('b, NetOverview) handler" where
  "api_NetOverview L B proc = answer (Reply 200) internal_error (NetOverview L proc B)"

definition api_ListNetIfaces :: "'b backend \<Rightarrow> ('b, NetIface list) handler" where
  "api_ListNetIfaces B = answer (Reply 200) internal_error (ListNetIfaces B)"

definition api_GetNetIface :: "'b backend \<Rightarrow> string \<Rightarrow> ('b, NetIface) handler" where
  "api_GetNetIface B i = answer (Reply 200) writeNetErr (GetNetIface B i)"

definition api_CreateNetIface :: "'b backend \<Rightarrow> NetIface option \<Rightarrow> ('b, NetIface) handler" where
  "api_CreateNetIface B x =
     decodeJSON x (\<lambda>x. answer (Reply 201) writeNetErr (SaveNetIface B x))"

definition api_UpdateNetIface :: "'b backend \<Rightarrow> string \<Rightarrow> NetIface option \<Rightarrow> ('b, NetIface) handler" where
  "api_UpdateNetIface B i x =
     decodeJSON x (\<lambda>x. answer (Reply 200) writeNetErr (SaveNetIface B (x\<lparr>ni_ID := i\<rparr>)))"

definition api_DeleteNetIface :: "'b backend \<Rightarrow> string \<Rightarrow> ('b, string) handler" where
  "api_DeleteNetIface B i = answer (\<lambda>_. Reply 200 i) writeNetErr (DeleteNetIface B i)"

definition api_InstallDHCP :: "'b backend \<Rightarrow> ('b, string) handler" where
  "api_InstallDHCP B = answer (Reply 200) internal_error (InstallDHCP B)"

definition api_IfaceAction :: "'b backend \<Rightarrow> string \<Rightarrow> string option \<Rightarrow> ('b, unit) handler" where
  "api_IfaceAction B i action =
     decodeJSON action (\<lambda>action. answer (Reply 200) internal_error (WANAction B i action))"

section \<open>IPv6 (netcfg\_ipv6.go)\<close>

definition api_ListWANv6 :: "'b backend \<Rightarrow> ('b, WANv6 list) handler" where
  "api_ListWANv6 B = answer (Reply 200) internal_error (ListWANv6 B)"

definition api_GetWANv6 :: "'b backend \<Rightarrow> string \<Rightarrow> ('b, WANv6) handler" where
  "api_GetWANv6 B i = answer (Reply 200) writeNetErr (GetWANv6 B i)"

definition api_CreateWANv6 :: "'b backend \<Rightarrow> WANv6 option \<Rightarrow> ('b, WANv6) handler" where
  "api_CreateWANv6 B x =
     decodeJSON x (\<lambda>x. answer (Reply 200) writeNetErr (CreateWANv6 B x))"

definition api_UpdateWANv6 :: "'b backend \<Rightarrow> string \<Rightarrow> WANv6 option \<Rightarrow> ('b, WANv6) handler" where
  "api_UpdateWANv6 B i x =
     decodeJSON x (\<lambda>x. answer (Reply 200) writeNetErr (UpdateWANv6 B i x))"

definition api_DeleteWANv6 :: "'b backend \<Rightarrow> string \<Rightarrow> ('b, unit) handler" where
  "api_DeleteWANv6 B i = answer (Reply 200) writeNetErr (DeleteWANv6 B i)"

definition api_ToggleWANv6 :: "'b backend \<Rightarrow> string \<Rightarrow> bool option \<Rightarrow> ('b, unit) handler" where
  "api_ToggleWANv6 B i on =
     decodeJSON on (\<lambda>on. answer (Reply 200) writeNetErr (SetWANv6Enabled B i on))"

definition api_BatchWANv6 :: "'b backend \<Rightarrow> (string \<times> string list) option \<Rightarrow> ('b, unit) handler" where
  "api_BatchWANv6 B b =
     decodeJSON b (\<lambda>(action, ids). answer (Reply 200) writeNetErr (BatchWANv6 B action ids))"

definition api_RegenWANv6DUID :: "'b backend \<Rightarrow> string \<Rightarrow> ('b, WANv6) handler" where
  "api_RegenWANv6DUID B i = answer (Reply 200) writeNetErr (RegenWANv6DUID B i)"

definition api_ListLANv6 :: "'b backend \<Rightarrow> ('b, LANv6 list) handler" where
  "api_ListLANv6 B = answer (Reply 200) internal_error (ListLANv6 B)"

definition api_GetLANv6 :: "'b backend \<Rightarrow> string \<Rightarrow> ('b, LANv6) handler" where
  "api_GetLANv6 B i = answer (Reply 200) writeNetErr (GetLANv6 B i)"

definition api_CreateLANv6 :: "'b backend \<Rightarrow> LANv6 option \<Rightarrow> ('b, LANv6) handler" where
  "api_CreateLANv6 B x =
     decodeJSON x (\<lambda>x. answer (Reply 200) writeNetErr (CreateLANv6 B x))"

definition api_UpdateLANv6 :: "'b backend \<Rightarrow> string \<Rightarrow> LANv6 option \<Rightarrow> ('b, LANv6) handler" where
  "api_UpdateLANv6 B i x =
     decodeJSON x (\<lambda>x. answer (Reply 200) writeNetErr (UpdateLANv6 B i x))"

definition api_DeleteLANv6 :: "'b backend \<Rightarrow> string \<Rightarrow> ('b, unit) handler" where
  "api_DeleteLANv6 B i = answer (Reply 200) writeNetErr (DeleteLANv6 B i)"

definition api_ToggleLANv6 :: "'b backend \<Rightarrow> string \<Rightarrow> bool option \<Rightarrow> ('b, unit) handler" where
  "api_ToggleLANv6 B i on =
     decodeJSON on (\<lambda>on. answer (Reply 200) writeNetErr (SetLANv6Enabled B i on))"

definition api_BatchLANv6 :: "'b backend \<Rightarrow> (string \<times> string list) option \<Rightarrow> ('b, unit) handler" where
  "api_BatchLANv6 B b =
     decodeJSON b (\<lambda>(action, ids). answer (Reply 200) writeNetErr (BatchLANv6 B action ids))"

definition api_ListLeasesV6 :: "lib \<Rightarrow> 'b backend \<Rightarrow> string \<Rightarrow> string \<Rightarrow> ('b, LeaseV6 list) handler" where
  "api_ListLeasesV6 L B iface query = answer (Reply 200) internal_error
      (ListLeasesV6 L B \<lparr>lf_Interface = iface, lf_Status = [], lf_Query = query\<rparr>)"

definition api_ListPrefixStaticsV6 :: "'b backend \<Rightarrow> ('b, PrefixStaticV6 list) handler" where
  "api_ListPrefixStaticsV6 B = answer (Reply 200) internal_error (ListPrefixStaticsV6 B)"

definition api_CreatePrefixStaticV6 :: "'b backend \<Rightarrow> PrefixStaticV6 option \<Rightarrow> ('b, PrefixStaticV6) handler" where
  "api_CreatePrefixStaticV6 B x =
     decodeJSON x (\<lambda>x. answer (Reply 200) writeNetErr (CreatePrefixStaticV6 B x))"

definition api_UpdatePrefixStaticV6 :: "'b backend \<Rightarrow> string \<Rightarrow> PrefixStaticV6 option \<Rightarrow> ('b, PrefixStaticV6) handler" where
  "api_UpdatePrefixStaticV6 B i x =
     decodeJSON x (\<lambda>x. answer (Reply 200) writeNetErr (UpdatePrefixStaticV6 B i x))"

definition api_DeletePrefixStaticV6 :: "'b backend \<Rightarrow> string \<Rightarrow> ('b, unit) handler" where
  "api_DeletePrefixStaticV6 B i = answer (Reply 200) writeNetErr (DeletePrefixStaticV6 B i)"

definition api_TogglePrefixStaticV6 :: "'b backend \<Rightarrow> string \<Rightarrow> bool option \<Rightarrow> ('b, unit) handler" where
  "api_TogglePrefixStaticV6 B i on =
     decodeJSON on (\<lambda>on. answer (Reply 200) writeNetErr (SetPrefixStaticV6Enabled B i on))"

definition api_BatchPrefixStaticsV6 :: "'b backend \<Rightarrow> (string \<times> string list) option \<Rightarrow> ('b, unit) handler" where
  "api_BatchPrefixStaticsV6 B b =
     decodeJSON b (\<lambda>(action, ids). answer (Reply 200) writeNetErr (BatchPrefixStaticsV6 B action ids))"

definition api_GetACLv6 :: "'b backend \<Rightarrow> ('b, ACLv6) handler" where
  "api_GetACLv6 B = answer (Reply 200) internal_error (GetACLv6 B)"

definition api_SetACLv6Mode :: "'b backend \<Rightarrow> string option \<Rightarrow> ('b, ACLv6) handler" where
  "api_SetACLv6Mode B mode =
     decodeJSON mode (\<lambda>mode. answer (Reply 200) writeNetErr (SetACLv6Mode B mode))"

definition api_AddACLv6Entry :: "'b backend \<Rightarrow> ACLv6Entry option \<Rightarrow> ('b, ACLv6Entry) handler" where
  "api_AddACLv6Entry B x =
     decodeJSON x (\<lambda>x. answer (Reply 200) writeNetErr (AddACLv6Entry B x))"

definition api_UpdateACLv6Entry :: "'b backend \<Rightarrow> string \<Rightarrow> ACLv6Entry option \<Rightarrow> ('b, ACLv6Entry) handler" where
  "api_UpdateACLv6Entry B i x =
     decodeJSON x (\<lambda>x. answer (Reply 200) writeNetErr (UpdateACLv6Entry B i x))"

definition api_DeleteACLv6Entry :: "'b backend \<Rightarrow> string \<Rightarrow> ('b, unit) handler" where
  "api_DeleteACLv6Entry B i = answer (Reply 200) writeNetErr (DeleteACLv6Entry B i)"

definition api_ToggleACLv6Entry :: "'b backend \<Rightarrow> string \<Rightarrow> ('b, ACLv6Entry) handler" where
  "api_ToggleACLv6Entry B i = answer (Reply 200) writeNetErr (ToggleACLv6Entry B i)"

definition api_ListNeighborsV6 :: "lib \<Rightarrow> 'b backend \<Rightarrow> ('b, NeighborV6 list) handler" where
  "api_ListNeighborsV6 L B = answer (Reply 200) internal_error (ListNeighborsV6 L B)"

definition api_DeleteNeighborV6 :: "'b backend \<Rightarrow> (string \<times> string) option \<Rightarrow> ('b, unit) handler" where
  "api_DeleteNeighborV6 B x =
     decodeJSON x (\<lambda>(addr, dev). answer (Reply 200) writeNetErr (DeleteNeighborV6 B addr dev))"

definition api_FlushNeighborsV6 :: "'b backend \<Rightarrow> string option \<Rightarrow> ('b, unit) handler" where
  "api_FlushNeighborsV6 B dev =
     decodeJSON dev (\<lambda>dev. answer (Reply 200) writeNetErr (FlushNeighborsV6 B dev))"

lemmas api_defs =
  api_Interfaces_def api_Status_def api_RouteTable_def api_ListServers_def api_SetRoutePushMode_def api_GetServer_def api_CreateServer_def api_UpdateServer_def api_DeleteServer_def api_ToggleServer_def api_BatchServers_def api_RestartDHCP_def api_ListStatics_def api_CreateStatic_def api_UpdateStatic_def api_DeleteStatic_def api_ToggleStatic_def api_BatchStatics_def api_SetARPBind_def api_ListLeases_def api_ReserveLease_def api_BlacklistLease_def api_FixSubnet_def api_SetLeaseNote_def api_SuggestNextIP_def api_GetACL_def api_SetACLMode_def api_AddACLEntry_def api_UpdateACLEntry_def api_DeleteACLEntry_def api_ToggleACLEntry_def api_ListRoutes_def api_GetRoute_def api_CreateRoute_def api_UpdateRoute_def api_DeleteRoute_def api_ToggleRoute_def api_DuplicateRoute_def api_BatchRoutes_def api_ListPolicyRules_def api_CreatePolicyRule_def api_UpdatePolicyRule_def api_DeletePolicyRule_def api_TogglePolicyRule_def api_BatchPolicyRules_def api_GetDNSSettings_def api_UpdateDNSSettings_def api_GetDNSDoH_def api_UpdateDNSDoH_def api_InstallDoHHandler_def api_ListDNSRecords_def api_CreateDNSRecord_def api_UpdateDNSRecord_def api_DeleteDNSRecord_def api_ToggleDNSRecord_def api_BatchDNSRecords_def api_ListDNSDomainRoutes_def api_CreateDNSDomainRoute_def api_UpdateDNSDomainRoute_def api_DeleteDNSDomainRoute_def api_ToggleDNSDomainRoute_def api_BatchDNSDomainRoutes_def api_FlushDNSCache_def api_ListNICs_def api_NetOverview_def api_ListNetIfaces_def api_GetNetIface_def api_CreateNetIface_def api_UpdateNetIface_def api_DeleteNetIface_def api_InstallDHCP_def api_IfaceAction_def api_ListWANv6_def api_GetWANv6_def api_CreateWANv6_def api_UpdateWANv6_def api_DeleteWANv6_def api_ToggleWANv6_def api_BatchWANv6_def api_RegenWANv6DUID_def api_ListLANv6_def api_GetLANv6_def api_CreateLANv6_def api_UpdateLANv6_def api_DeleteLANv6_def api_ToggleLANv6_def api_BatchLANv6_def api_ListLeasesV6_def api_ListPrefixStaticsV6_def api_CreatePrefixStaticV6_def api_UpdatePrefixStaticV6_def api_DeletePrefixStaticV6_def api_TogglePrefixStaticV6_def api_BatchPrefixStaticsV6_def api_GetACLv6_def api_SetACLv6Mode_def api_AddACLv6Entry_def api_UpdateACLv6Entry_def api_DeleteACLv6Entry_def api_ToggleACLv6Entry_def api_ListNeighborsV6_def api_DeleteNeighborV6_def api_FlushNeighborsV6_def

section \<open>Every endpoint: registerNetcfgRoutes\<close>

text \<open>
  A request after chi has chosen the handler: the parameters of the path and of the query, and the decoded body (None
  when it does not decode), one datatype per file of handlers. \<open>serve\<close> keeps of the answer what a client can tell
  without reading the item.
\<close>

datatype verb = GET | POST | PUT | DELETE

datatype common_request =
    Rq_Interfaces
  | Rq_Status
  | Rq_RouteTable string

primrec serve_common :: "lib \<Rightarrow> 'b backend \<Rightarrow> common_request \<Rightarrow> ('b, unit) handler" where
  "serve_common L B Rq_Interfaces = without_body (api_Interfaces B)"
| "serve_common L B Rq_Status = without_body (api_Status B)"
| "serve_common L B (Rq_RouteTable family) = without_body (api_RouteTable B family)"

primrec common_endpoint :: "common_request \<Rightarrow> verb \<times> string" where
  "common_endpoint Rq_Interfaces = (GET, ''/api/v1/interfaces'')"
| "common_endpoint Rq_Status = (GET, ''/api/v1/netcfg/status'')"
| "common_endpoint (Rq_RouteTable family) = (GET, ''/api/v1/route-table'')"

datatype dhcp_request =
    Rq_ListServers
  | Rq_SetRoutePushMode "string option"
  | Rq_GetServer string
  | Rq_CreateServer "DHCPServer option"
  | Rq_UpdateServer string "DHCPServer option"
  | Rq_DeleteServer string
  | Rq_ToggleServer string "bool option"
  | Rq_BatchServers "(string \<times> string list) option"
  | Rq_RestartDHCP
  | Rq_ListStatics
  | Rq_CreateStatic "StaticLease option"
  | Rq_UpdateStatic string "StaticLease option"
  | Rq_DeleteStatic string
  | Rq_ToggleStatic string "bool option"
  | Rq_BatchStatics "(string \<times> string list) option"
  | Rq_SetARPBind "bool option"
  | Rq_ListLeases LeaseFilter
  | Rq_ReserveLease "(string \<times> string \<times> string \<times> string) option"
  | Rq_BlacklistLease "(string \<times> string) option"
  | Rq_FixSubnet "string option"
  | Rq_SetLeaseNote "(string \<times> string) option"
  | Rq_SuggestNextIP string
  | Rq_GetACL
  | Rq_SetACLMode "string option"
  | Rq_AddACLEntry "ACLEntry option"
  | Rq_UpdateACLEntry string "ACLEntry option"
  | Rq_DeleteACLEntry string
  | Rq_ToggleACLEntry string

primrec serve_dhcp :: "lib \<Rightarrow> 'b backend \<Rightarrow> dhcp_request \<Rightarrow> ('b, unit) handler" where
  "serve_dhcp L B Rq_ListServers = without_body (api_ListServers B)"
| "serve_dhcp L B (Rq_SetRoutePushMode mode) = without_body (api_SetRoutePushMode B mode)"
| "serve_dhcp L B (Rq_GetServer i) = without_body (api_GetServer B i)"
| "serve_dhcp L B (Rq_CreateServer x) = without_body (api_CreateServer B x)"
| "serve_dhcp L B (Rq_UpdateServer i x) = without_body (api_UpdateServer B i x)"
| "serve_dhcp L B (Rq_DeleteServer i) = without_body (api_DeleteServer B i)"
| "serve_dhcp L B (Rq_ToggleServer i on) = without_body (api_ToggleServer B i on)"
| "serve_dhcp L B (Rq_BatchServers b) = without_body (api_BatchServers B b)"
| "serve_dhcp L B Rq_RestartDHCP = without_body (api_RestartDHCP B)"
| "serve_dhcp L B Rq_ListStatics = without_body (api_ListStatics B)"
| "serve_dhcp L B (Rq_CreateStatic x) = without_body (api_CreateStatic L B x)"
| "serve_dhcp L B (Rq_UpdateStatic i x) = without_body (api_UpdateStatic L B i x)"
| "serve_dhcp L B (Rq_DeleteStatic i) = without_body (api_DeleteStatic B i)"
| "serve_dhcp L B (Rq_ToggleStatic i on) = without_body (api_ToggleStatic B i on)"
| "serve_dhcp L B (Rq_BatchStatics b) = without_body (api_BatchStatics B b)"
| "serve_dhcp L B (Rq_SetARPBind on) = without_body (api_SetARPBind B on)"
| "serve_dhcp L B (Rq_ListLeases f) = without_body (api_ListLeases L B f)"
| "serve_dhcp L B (Rq_ReserveLease x) = without_body (api_ReserveLease L B x)"
| "serve_dhcp L B (Rq_BlacklistLease x) = without_body (api_BlacklistLease L B x)"
| "serve_dhcp L B (Rq_FixSubnet iface) = without_body (api_FixSubnet L B iface)"
| "serve_dhcp L B (Rq_SetLeaseNote x) = without_body (api_SetLeaseNote B x)"
| "serve_dhcp L B (Rq_SuggestNextIP iface) = without_body (api_SuggestNextIP B iface)"
| "serve_dhcp L B Rq_GetACL = without_body (api_GetACL B)"
| "serve_dhcp L B (Rq_SetACLMode mode) = without_body (api_SetACLMode B mode)"
| "serve_dhcp L B (Rq_AddACLEntry x) = without_body (api_AddACLEntry L B x)"
| "serve_dhcp L B (Rq_UpdateACLEntry i x) = without_body (api_UpdateACLEntry B i x)"
| "serve_dhcp L B (Rq_DeleteACLEntry i) = without_body (api_DeleteACLEntry B i)"
| "serve_dhcp L B (Rq_ToggleACLEntry i) = without_body (api_ToggleACLEntry B i)"

primrec dhcp_endpoint :: "dhcp_request \<Rightarrow> verb \<times> string" where
  "dhcp_endpoint Rq_ListServers = (GET, ''/api/v1/dhcp/servers'')"
| "dhcp_endpoint (Rq_SetRoutePushMode mode) = (PUT, ''/api/v1/dhcp/route-push'')"
| "dhcp_endpoint (Rq_GetServer i) = (GET, ''/api/v1/dhcp/servers/{id}'')"
| "dhcp_endpoint (Rq_CreateServer x) = (POST, ''/api/v1/dhcp/servers'')"
| "dhcp_endpoint (Rq_UpdateServer i x) = (PUT, ''/api/v1/dhcp/servers/{id}'')"
| "dhcp_endpoint (Rq_DeleteServer i) = (DELETE, ''/api/v1/dhcp/servers/{id}'')"
| "dhcp_endpoint (Rq_ToggleServer i on) = (POST, ''/api/v1/dhcp/servers/{id}/toggle'')"
| "dhcp_endpoint (Rq_BatchServers b) = (POST, ''/api/v1/dhcp/servers/batch'')"
| "dhcp_endpoint Rq_RestartDHCP = (POST, ''/api/v1/dhcp/restart'')"
| "dhcp_endpoint Rq_ListStatics = (GET, ''/api/v1/dhcp/statics'')"
| "dhcp_endpoint (Rq_CreateStatic x) = (POST, ''/api/v1/dhcp/statics'')"
| "dhcp_endpoint (Rq_UpdateStatic i x) = (PUT, ''/api/v1/dhcp/statics/{id}'')"
| "dhcp_endpoint (Rq_DeleteStatic i) = (DELETE, ''/api/v1/dhcp/statics/{id}'')"
| "dhcp_endpoint (Rq_ToggleStatic i on) = (POST, ''/api/v1/dhcp/statics/{id}/toggle'')"
| "dhcp_endpoint (Rq_BatchStatics b) = (POST, ''/api/v1/dhcp/statics/batch'')"
| "dhcp_endpoint (Rq_SetARPBind on) = (PUT, ''/api/v1/dhcp/statics/arp-bind'')"
| "dhcp_endpoint (Rq_ListLeases f) = (GET, ''/api/v1/dhcp/leases'')"
| "dhcp_endpoint (Rq_ReserveLease x) = (POST, ''/api/v1/dhcp/leases/reserve'')"
| "dhcp_endpoint (Rq_BlacklistLease x) = (POST, ''/api/v1/dhcp/leases/blacklist'')"
| "dhcp_endpoint (Rq_FixSubnet iface) = (POST, ''/api/v1/dhcp/leases/fix-subnet'')"
| "dhcp_endpoint (Rq_SetLeaseNote x) = (PUT, ''/api/v1/dhcp/leases/note'')"
| "dhcp_endpoint (Rq_SuggestNextIP iface) = (GET, ''/api/v1/dhcp/statics/suggest-next-ip'')"
| "dhcp_endpoint Rq_GetACL = (GET, ''/api/v1/dhcp/acl'')"
| "dhcp_endpoint (Rq_SetACLMode mode) = (PUT, ''/api/v1/dhcp/acl/mode'')"
| "dhcp_endpoint (Rq_AddACLEntry x) = (POST, ''/api/v1/dhcp/acl/entries'')"
| "dhcp_endpoint (Rq_UpdateACLEntry i x) = (PUT, ''/api/v1/dhcp/acl/entries/{id}'')"
| "dhcp_endpoint (Rq_DeleteACLEntry i) = (DELETE, ''/api/v1/dhcp/acl/entries/{id}'')"
| "dhcp_endpoint (Rq_ToggleACLEntry i) = (POST, ''/api/v1/dhcp/acl/entries/{id}/toggle'')"

datatype route_request =
    Rq_ListRoutes
  | Rq_GetRoute string
  | Rq_CreateRoute "Route option"
  | Rq_UpdateRoute string "Route option"
  | Rq_DeleteRoute string
  | Rq_ToggleRoute string "bool option"
  | Rq_DuplicateRoute string
  | Rq_BatchRoutes "(string \<times> string list) option"

primrec serve_route :: "lib \<Rightarrow> 'b backend \<Rightarrow> route_request \<Rightarrow> ('b, unit) handler" where
  "serve_route L B Rq_ListRoutes = without_body (api_ListRoutes B)"
| "serve_route L B (Rq_GetRoute i) = without_body (api_GetRoute B i)"
| "serve_route L B (Rq_CreateRoute x) = without_body (api_CreateRoute B x)"
| "serve_route L B (Rq_UpdateRoute i x) = without_body (api_UpdateRoute B i x)"
| "serve_route L B (Rq_DeleteRoute i) = without_body (api_DeleteRoute B i)"
| "serve_route L B (Rq_ToggleRoute i on) = without_body (api_ToggleRoute B i on)"
| "serve_route L B (Rq_DuplicateRoute i) = without_body (api_DuplicateRoute B i)"
| "serve_route L B (Rq_BatchRoutes b) = without_body (api_BatchRoutes B b)"

primrec route_endpoint :: "route_request \<Rightarrow> verb \<times> string" where
  "route_endpoint Rq_ListRoutes = (GET, ''/api/v1/routes'')"
| "route_endpoint (Rq_GetRoute i) = (GET, ''/api/v1/routes/{id}'')"
| "route_endpoint (Rq_CreateRoute x) = (POST, ''/api/v1/routes'')"
| "route_endpoint (Rq_UpdateRoute i x) = (PUT, ''/api/v1/routes/{id}'')"
| "route_endpoint (Rq_DeleteRoute i) = (DELETE, ''/api/v1/routes/{id}'')"
| "route_endpoint (Rq_ToggleRoute i on) = (POST, ''/api/v1/routes/{id}/toggle'')"
| "route_endpoint (Rq_DuplicateRoute i) = (POST, ''/api/v1/routes/{id}/duplicate'')"
| "route_endpoint (Rq_BatchRoutes b) = (POST, ''/api/v1/routes/batch'')"

datatype rule_request =
    Rq_ListPolicyRules
  | Rq_CreatePolicyRule "PolicyRule option"
  | Rq_UpdatePolicyRule string "PolicyRule option"
  | Rq_DeletePolicyRule string
  | Rq_TogglePolicyRule string "bool option"
  | Rq_BatchPolicyRules "(string \<times> string list) option"

primrec serve_rule :: "lib \<Rightarrow> 'b backend \<Rightarrow> rule_request \<Rightarrow> ('b, unit) handler" where
  "serve_rule L B Rq_ListPolicyRules = without_body (api_ListPolicyRules B)"
| "serve_rule L B (Rq_CreatePolicyRule x) = without_body (api_CreatePolicyRule B x)"
| "serve_rule L B (Rq_UpdatePolicyRule i x) = without_body (api_UpdatePolicyRule B i x)"
| "serve_rule L B (Rq_DeletePolicyRule i) = without_body (api_DeletePolicyRule B i)"
| "serve_rule L B (Rq_TogglePolicyRule i on) = without_body (api_TogglePolicyRule B i on)"
| "serve_rule L B (Rq_BatchPolicyRules b) = without_body (api_BatchPolicyRules B b)"

primrec rule_endpoint :: "rule_request \<Rightarrow> verb \<times> string" where
  "rule_endpoint Rq_ListPolicyRules = (GET, ''/api/v1/policy-rules'')"
| "rule_endpoint (Rq_CreatePolicyRule x) = (POST, ''/api/v1/policy-rules'')"
| "rule_endpoint (Rq_UpdatePolicyRule i x) = (PUT, ''/api/v1/policy-rules/{id}'')"
| "rule_endpoint (Rq_DeletePolicyRule i) = (DELETE, ''/api/v1/policy-rules/{id}'')"
| "rule_endpoint (Rq_TogglePolicyRule i on) = (POST, ''/api/v1/policy-rules/{id}/toggle'')"
| "rule_endpoint (Rq_BatchPolicyRules b) = (POST, ''/api/v1/policy-rules/batch'')"

datatype dns_request =
    Rq_GetDNSSettings
  | Rq_UpdateDNSSettings "DNSSettings option"
  | Rq_GetDNSDoH
  | Rq_UpdateDNSDoH "DNSDoH option"
  | Rq_InstallDoHHandler
  | Rq_ListDNSRecords
  | Rq_CreateDNSRecord "DNSRecord option"
  | Rq_UpdateDNSRecord string "DNSRecord option"
  | Rq_DeleteDNSRecord string
  | Rq_ToggleDNSRecord string "bool option"
  | Rq_BatchDNSRecords "(string \<times> string list) option"
  | Rq_ListDNSDomainRoutes
  | Rq_CreateDNSDomainRoute "DNSDomainRoute option"
  | Rq_UpdateDNSDomainRoute string "DNSDomainRoute option"
  | Rq_DeleteDNSDomainRoute string
  | Rq_ToggleDNSDomainRoute string "bool option"
  | Rq_BatchDNSDomainRoutes "(string \<times> string list) option"
  | Rq_FlushDNSCache

primrec serve_dns :: "lib \<Rightarrow> 'b backend \<Rightarrow> dns_request \<Rightarrow> ('b, unit) handler" where
  "serve_dns L B Rq_GetDNSSettings = without_body (api_GetDNSSettings B)"
| "serve_dns L B (Rq_UpdateDNSSettings x) = without_body (api_UpdateDNSSettings B x)"
| "serve_dns L B Rq_GetDNSDoH = without_body (api_GetDNSDoH B)"
| "serve_dns L B (Rq_UpdateDNSDoH x) = without_body (api_UpdateDNSDoH B x)"
| "serve_dns L B Rq_InstallDoHHandler = without_body (api_InstallDoHHandler B)"
| "serve_dns L B Rq_ListDNSRecords = without_body (api_ListDNSRecords B)"
| "serve_dns L B (Rq_CreateDNSRecord x) = without_body (api_CreateDNSRecord B x)"
| "serve_dns L B (Rq_UpdateDNSRecord i x) = without_body (api_UpdateDNSRecord B i x)"
| "serve_dns L B (Rq_DeleteDNSRecord i) = without_body (api_DeleteDNSRecord B i)"
| "serve_dns L B (Rq_ToggleDNSRecord i on) = without_body (api_ToggleDNSRecord B i on)"
| "serve_dns L B (Rq_BatchDNSRecords b) = without_body (api_BatchDNSRecords B b)"
| "serve_dns L B Rq_ListDNSDomainRoutes = without_body (api_ListDNSDomainRoutes B)"
| "serve_dns L B (Rq_CreateDNSDomainRoute x) = without_body (api_CreateDNSDomainRoute B x)"
| "serve_dns L B (Rq_UpdateDNSDomainRoute i x) = without_body (api_UpdateDNSDomainRoute B i x)"
| "serve_dns L B (Rq_DeleteDNSDomainRoute i) = without_body (api_DeleteDNSDomainRoute B i)"
| "serve_dns L B (Rq_ToggleDNSDomainRoute i on) = without_body (api_ToggleDNSDomainRoute B i on)"
| "serve_dns L B (Rq_BatchDNSDomainRoutes b) = without_body (api_BatchDNSDomainRoutes B b)"
| "serve_dns L B Rq_FlushDNSCache = without_body (api_FlushDNSCache B)"

primrec dns_endpoint :: "dns_request \<Rightarrow> verb \<times> string" where
  "dns_endpoint Rq_GetDNSSettings = (GET, ''/api/v1/dns/settings'')"
| "dns_endpoint (Rq_UpdateDNSSettings x) = (PUT, ''/api/v1/dns/settings'')"
| "dns_endpoint Rq_GetDNSDoH = (GET, ''/api/v1/dns/doh'')"
| "dns_endpoint (Rq_UpdateDNSDoH x) = (PUT, ''/api/v1/dns/doh'')"
| "dns_endpoint Rq_InstallDoHHandler = (POST, ''/api/v1/dns/doh/install'')"
| "dns_endpoint Rq_ListDNSRecords = (GET, ''/api/v1/dns/records'')"
| "dns_endpoint (Rq_CreateDNSRecord x) = (POST, ''/api/v1/dns/records'')"
| "dns_endpoint (Rq_UpdateDNSRecord i x) = (PUT, ''/api/v1/dns/records/{id}'')"
| "dns_endpoint (Rq_DeleteDNSRecord i) = (DELETE, ''/api/v1/dns/records/{id}'')"
| "dns_endpoint (Rq_ToggleDNSRecord i on) = (POST, ''/api/v1/dns/records/{id}/toggle'')"
| "dns_endpoint (Rq_BatchDNSRecords b) = (POST, ''/api/v1/dns/records/batch'')"
| "dns_endpoint Rq_ListDNSDomainRoutes = (GET, ''/api/v1/dns/domain-routes'')"
| "dns_endpoint (Rq_CreateDNSDomainRoute x) = (POST, ''/api/v1/dns/domain-routes'')"
| "dns_endpoint (Rq_UpdateDNSDomainRoute i x) = (PUT, ''/api/v1/dns/domain-routes/{id}'')"
| "dns_endpoint (Rq_DeleteDNSDomainRoute i) = (DELETE, ''/api/v1/dns/domain-routes/{id}'')"
| "dns_endpoint (Rq_ToggleDNSDomainRoute i on) = (POST, ''/api/v1/dns/domain-routes/{id}/toggle'')"
| "dns_endpoint (Rq_BatchDNSDomainRoutes b) = (POST, ''/api/v1/dns/domain-routes/batch'')"
| "dns_endpoint Rq_FlushDNSCache = (POST, ''/api/v1/dns/cache/flush'')"

datatype iface_request =
    Rq_ListNICs
  | Rq_NetOverview "string option list"
  | Rq_ListNetIfaces
  | Rq_GetNetIface string
  | Rq_CreateNetIface "NetIface option"
  | Rq_UpdateNetIface string "NetIface option"
  | Rq_DeleteNetIface string
  | Rq_InstallDHCP
  | Rq_IfaceAction string "string option"

primrec serve_iface :: "lib \<Rightarrow> 'b backend \<Rightarrow> iface_request \<Rightarrow> ('b, unit) handler" where
  "serve_iface L B Rq_ListNICs = without_body (api_ListNICs B)"
| "serve_iface L B (Rq_NetOverview proc) = without_body (api_NetOverview L B proc)"
| "serve_iface L B Rq_ListNetIfaces = without_body (api_ListNetIfaces B)"
| "serve_iface L B (Rq_GetNetIface i) = without_body (api_GetNetIface B i)"
| "serve_iface L B (Rq_CreateNetIface x) = without_body (api_CreateNetIface B x)"
| "serve_iface L B (Rq_UpdateNetIface i x) = without_body (api_UpdateNetIface B i x)"
| "serve_iface L B (Rq_DeleteNetIface i) = without_body (api_DeleteNetIface B i)"
| "serve_iface L B Rq_InstallDHCP = without_body (api_InstallDHCP B)"
| "serve_iface L B (Rq_IfaceAction i action) = without_body (api_IfaceAction B i action)"

primrec iface_endpoint :: "iface_request \<Rightarrow> verb \<times> string" where
  "iface_endpoint Rq_ListNICs = (GET, ''/api/v1/nics'')"
| "iface_endpoint (Rq_NetOverview proc) = (GET, ''/api/v1/netcfg/overview'')"
| "iface_endpoint Rq_ListNetIfaces = (GET, ''/api/v1/ifaces'')"
| "iface_endpoint (Rq_GetNetIface i) = (GET, ''/api/v1/ifaces/{id}'')"
| "iface_endpoint (Rq_CreateNetIface x) = (POST, ''/api/v1/ifaces'')"
| "iface_endpoint (Rq_UpdateNetIface i x) = (PUT, ''/api/v1/ifaces/{id}'')"
| "iface_endpoint (Rq_DeleteNetIface i) = (DELETE, ''/api/v1/ifaces/{id}'')"
| "iface_endpoint Rq_InstallDHCP = (POST, ''/api/v1/dhcp/install'')"
| "iface_endpoint (Rq_IfaceAction i action) = (POST, ''/api/v1/ifaces/{id}/action'')"

datatype ipv6_request =
    Rq_ListWANv6
  | Rq_GetWANv6 string
  | Rq_CreateWANv6 "WANv6 option"
  | Rq_UpdateWANv6 string "WANv6 option"
  | Rq_DeleteWANv6 string
  | Rq_ToggleWANv6 string "bool option"
  | Rq_BatchWANv6 "(string \<times> string list) option"
  | Rq_RegenWANv6DUID string
  | Rq_ListLANv6
  | Rq_GetLANv6 string
  | Rq_CreateLANv6 "LANv6 option"
  | Rq_UpdateLANv6 string "LANv6 option"
  | Rq_DeleteLANv6 string
  | Rq_ToggleLANv6 string "bool option"
  | Rq_BatchLANv6 "(string \<times> string list) option"
  | Rq_ListLeasesV6 string string
  | Rq_ListPrefixStaticsV6
  | Rq_CreatePrefixStaticV6 "PrefixStaticV6 option"
  | Rq_UpdatePrefixStaticV6 string "PrefixStaticV6 option"
  | Rq_DeletePrefixStaticV6 string
  | Rq_TogglePrefixStaticV6 string "bool option"
  | Rq_BatchPrefixStaticsV6 "(string \<times> string list) option"
  | Rq_GetACLv6
  | Rq_SetACLv6Mode "string option"
  | Rq_AddACLv6Entry "ACLv6Entry option"
  | Rq_UpdateACLv6Entry string "ACLv6Entry option"
  | Rq_DeleteACLv6Entry string
  | Rq_ToggleACLv6Entry string
  | Rq_ListNeighborsV6
  | Rq_DeleteNeighborV6 "(string \<times> string) option"
  | Rq_FlushNeighborsV6 "string option"

primrec serve_ipv6 :: "lib \<Rightarrow> 'b backend \<Rightarrow> ipv6_request \<Rightarrow> ('b, unit) handler" where
  "serve_ipv6 L B Rq_ListWANv6 = without_body (api_ListWANv6 B)"
| "serve_ipv6 L B (Rq_GetWANv6 i) = without_body (api_GetWANv6 B i)"
| "serve_ipv6 L B (Rq_CreateWANv6 x) = without_body (api_CreateWANv6 B x)"
| "serve_ipv6 L B (Rq_UpdateWANv6 i x) = without_body (api_UpdateWANv6 B i x)"
| "serve_ipv6 L B (Rq_DeleteWANv6 i) = without_body (api_DeleteWANv6 B i)"
| "serve_ipv6 L B (Rq_ToggleWANv6 i on) = without_body (api_ToggleWANv6 B i on)"
| "serve_ipv6 L B (Rq_BatchWANv6 b) = without_body (api_BatchWANv6 B b)"
| "serve_ipv6 L B (Rq_RegenWANv6DUID i) = without_body (api_RegenWANv6DUID B i)"
| "serve_ipv6 L B Rq_ListLANv6 = without_body (api_ListLANv6 B)"
| "serve_ipv6 L B (Rq_GetLANv6 i) = without_body (api_GetLANv6 B i)"
| "serve_ipv6 L B (Rq_CreateLANv6 x) = without_body (api_CreateLANv6 B x)"
| "serve_ipv6 L B (Rq_UpdateLANv6 i x) = without_body (api_UpdateLANv6 B i x)"
| "serve_ipv6 L B (Rq_DeleteLANv6 i) = without_body (api_DeleteLANv6 B i)"
| "serve_ipv6 L B (Rq_ToggleLANv6 i on) = without_body (api_ToggleLANv6 B i on)"
| "serve_ipv6 L B (Rq_BatchLANv6 b) = without_body (api_BatchLANv6 B b)"
| "serve_ipv6 L B (Rq_ListLeasesV6 iface query) = without_body (api_ListLeasesV6 L B iface query)"
| "serve_ipv6 L B Rq_ListPrefixStaticsV6 = without_body (api_ListPrefixStaticsV6 B)"
| "serve_ipv6 L B (Rq_CreatePrefixStaticV6 x) = without_body (api_CreatePrefixStaticV6 B x)"
| "serve_ipv6 L B (Rq_UpdatePrefixStaticV6 i x) = without_body (api_UpdatePrefixStaticV6 B i x)"
| "serve_ipv6 L B (Rq_DeletePrefixStaticV6 i) = without_body (api_DeletePrefixStaticV6 B i)"
| "serve_ipv6 L B (Rq_TogglePrefixStaticV6 i on) = without_body (api_TogglePrefixStaticV6 B i on)"
| "serve_ipv6 L B (Rq_BatchPrefixStaticsV6 b) = without_body (api_BatchPrefixStaticsV6 B b)"
| "serve_ipv6 L B Rq_GetACLv6 = without_body (api_GetACLv6 B)"
| "serve_ipv6 L B (Rq_SetACLv6Mode mode) = without_body (api_SetACLv6Mode B mode)"
| "serve_ipv6 L B (Rq_AddACLv6Entry x) = without_body (api_AddACLv6Entry B x)"
| "serve_ipv6 L B (Rq_UpdateACLv6Entry i x) = without_body (api_UpdateACLv6Entry B i x)"
| "serve_ipv6 L B (Rq_DeleteACLv6Entry i) = without_body (api_DeleteACLv6Entry B i)"
| "serve_ipv6 L B (Rq_ToggleACLv6Entry i) = without_body (api_ToggleACLv6Entry B i)"
| "serve_ipv6 L B Rq_ListNeighborsV6 = without_body (api_ListNeighborsV6 L B)"
| "serve_ipv6 L B (Rq_DeleteNeighborV6 x) = without_body (api_DeleteNeighborV6 B x)"
| "serve_ipv6 L B (Rq_FlushNeighborsV6 dev) = without_body (api_FlushNeighborsV6 B dev)"

primrec ipv6_endpoint :: "ipv6_request \<Rightarrow> verb \<times> string" where
  "ipv6_endpoint Rq_ListWANv6 = (GET, ''/api/v1/ipv6/wan'')"
| "ipv6_endpoint (Rq_GetWANv6 i) = (GET, ''/api/v1/ipv6/wan/{id}'')"
| "ipv6_endpoint (Rq_CreateWANv6 x) = (POST, ''/api/v1/ipv6/wan'')"
| "ipv6_endpoint (Rq_UpdateWANv6 i x) = (PUT, ''/api/v1/ipv6/wan/{id}'')"
| "ipv6_endpoint (Rq_DeleteWANv6 i) = (DELETE, ''/api/v1/ipv6/wan/{id}'')"
| "ipv6_endpoint (Rq_ToggleWANv6 i on) = (POST, ''/api/v1/ipv6/wan/{id}/toggle'')"
| "ipv6_endpoint (Rq_BatchWANv6 b) = (POST, ''/api/v1/ipv6/wan/batch'')"
| "ipv6_endpoint (Rq_RegenWANv6DUID i) = (POST, ''/api/v1/ipv6/wan/{id}/duid'')"
| "ipv6_endpoint Rq_ListLANv6 = (GET, ''/api/v1/ipv6/lan'')"
| "ipv6_endpoint (Rq_GetLANv6 i) = (GET, ''/api/v1/ipv6/lan/{id}'')"
| "ipv6_endpoint (Rq_CreateLANv6 x) = (POST, ''/api/v1/ipv6/lan'')"
| "ipv6_endpoint (Rq_UpdateLANv6 i x) = (PUT, ''/api/v1/ipv6/lan/{id}'')"
| "ipv6_endpoint (Rq_DeleteLANv6 i) = (DELETE, ''/api/v1/ipv6/lan/{id}'')"
| "ipv6_endpoint (Rq_ToggleLANv6 i on) = (POST, ''/api/v1/ipv6/lan/{id}/toggle'')"
| "ipv6_endpoint (Rq_BatchLANv6 b) = (POST, ''/api/v1/ipv6/lan/batch'')"
| "ipv6_endpoint (Rq_ListLeasesV6 iface query) = (GET, ''/api/v1/ipv6/leases'')"
| "ipv6_endpoint Rq_ListPrefixStaticsV6 = (GET, ''/api/v1/ipv6/prefix-static'')"
| "ipv6_endpoint (Rq_CreatePrefixStaticV6 x) = (POST, ''/api/v1/ipv6/prefix-static'')"
| "ipv6_endpoint (Rq_UpdatePrefixStaticV6 i x) = (PUT, ''/api/v1/ipv6/prefix-static/{id}'')"
| "ipv6_endpoint (Rq_DeletePrefixStaticV6 i) = (DELETE, ''/api/v1/ipv6/prefix-static/{id}'')"
| "ipv6_endpoint (Rq_TogglePrefixStaticV6 i on) = (POST, ''/api/v1/ipv6/prefix-static/{id}/toggle'')"
| "ipv6_endpoint (Rq_BatchPrefixStaticsV6 b) = (POST, ''/api/v1/ipv6/prefix-static/batch'')"
| "ipv6_endpoint Rq_GetACLv6 = (GET, ''/api/v1/ipv6/acl'')"
| "ipv6_endpoint (Rq_SetACLv6Mode mode) = (PUT, ''/api/v1/ipv6/acl/mode'')"
| "ipv6_endpoint (Rq_AddACLv6Entry x) = (POST, ''/api/v1/ipv6/acl/entries'')"
| "ipv6_endpoint (Rq_UpdateACLv6Entry i x) = (PUT, ''/api/v1/ipv6/acl/entries/{id}'')"
| "ipv6_endpoint (Rq_DeleteACLv6Entry i) = (DELETE, ''/api/v1/ipv6/acl/entries/{id}'')"
| "ipv6_endpoint (Rq_ToggleACLv6Entry i) = (POST, ''/api/v1/ipv6/acl/entries/{id}/toggle'')"
| "ipv6_endpoint Rq_ListNeighborsV6 = (GET, ''/api/v1/ipv6/neighbors'')"
| "ipv6_endpoint (Rq_DeleteNeighborV6 x) = (DELETE, ''/api/v1/ipv6/neighbors'')"
| "ipv6_endpoint (Rq_FlushNeighborsV6 dev) = (POST, ''/api/v1/ipv6/neighbors/flush'')"

datatype request =
    Rq_common common_request
  | Rq_dhcp dhcp_request
  | Rq_route route_request
  | Rq_rule rule_request
  | Rq_dns dns_request
  | Rq_iface iface_request
  | Rq_ipv6 ipv6_request

primrec serve :: "lib \<Rightarrow> 'b backend \<Rightarrow> request \<Rightarrow> ('b, unit) handler" where
  "serve L B (Rq_common rq) = serve_common L B rq"
| "serve L B (Rq_dhcp rq) = serve_dhcp L B rq"
| "serve L B (Rq_route rq) = serve_route L B rq"
| "serve L B (Rq_rule rq) = serve_rule L B rq"
| "serve L B (Rq_dns rq) = serve_dns L B rq"
| "serve L B (Rq_iface rq) = serve_iface L B rq"
| "serve L B (Rq_ipv6 rq) = serve_ipv6 L B rq"

text \<open>Where the handler of a request is mounted.\<close>

primrec endpoint :: "request \<Rightarrow> verb \<times> string" where
  "endpoint (Rq_common rq) = common_endpoint rq"
| "endpoint (Rq_dhcp rq) = dhcp_endpoint rq"
| "endpoint (Rq_route rq) = route_endpoint rq"
| "endpoint (Rq_rule rq) = rule_endpoint rq"
| "endpoint (Rq_dns rq) = dns_endpoint rq"
| "endpoint (Rq_iface rq) = iface_endpoint rq"
| "endpoint (Rq_ipv6 rq) = ipv6_endpoint rq"

text \<open>A history of requests, each served after the one before it.\<close>

primrec serve_all :: "lib \<Rightarrow> 'b backend \<Rightarrow> request list \<Rightarrow> 'b svc \<Rightarrow> 'b svc" where
  "serve_all L B [] s = s"
| "serve_all L B (rq # rqs) s = serve_all L B rqs (snd (serve L B rq s))"

end
