(* ===== verification/FileStore.thy ===== *)
theory FileStore
  imports GoStrings
begin

text \<open>
  How the program saves a document: encode it, make the directory, write a temporary file and rename
  it over the real one. backend_store.go does this with netcfg.json and store.go with meta.json, in
  the same four calls; the document is a type parameter.

  The file system is a map from paths to documents. A document is a complete encoding of its value or
  a torn file, which is what a crash or a failed write leaves of a file that was being written.
  Encoding and decoding (package encoding/json) is the identity on the value; \<open>MkdirAll\<close> changes no
  file. A stream of outcomes decides which flush fails, and where.
\<close>

section \<open>The file\<close>

datatype 'd doc = Doc 'd | Torn

record 'd disk =
  dk_files :: "string \<rightharpoonup> 'd doc"
  dk_flush :: "nat \<Rightarrow> (nat \<times> string) option"
  dk_read :: "nat \<Rightarrow> string option"

text \<open>The system calls of flushLocked that touch a file, one by one.\<close>

datatype 'd micro = MkdirAll string | Truncate string | Fill string 'd | Rename string string

fun run_micro :: "'d micro \<Rightarrow> (string \<rightharpoonup> 'd doc) \<Rightarrow> (string \<rightharpoonup> 'd doc)" where
  "run_micro (MkdirAll p) fs = fs"
| "run_micro (Truncate p) fs = fs(p \<mapsto> Torn)"
| "run_micro (Fill p st) fs = fs(p \<mapsto> Doc st)"
| "run_micro (Rename p q) fs = fs(q := fs p, p := None)"

definition run_micros :: "'d micro list \<Rightarrow> (string \<rightharpoonup> 'd doc) \<Rightarrow> (string \<rightharpoonup> 'd doc)" where
  "run_micros ms fs = foldl (\<lambda>fs m. run_micro m fs) fs ms"

definition flush_micros :: "string \<Rightarrow> 'd \<Rightarrow> 'd micro list" where
  "flush_micros path st =
     (let tmp = path @ ''.tmp'' in [MkdirAll path, Truncate tmp, Fill tmp st, Rename tmp path])"

text \<open>
  All four calls succeed, or one fails: then the calls before it have happened. A failing
  \<open>WriteFile\<close> may fail before or after it truncated the file.
\<close>

definition flush_disk :: "string \<Rightarrow> 'd \<Rightarrow> ('d disk, unit) act" where
  "flush_disk path st d =
     (let d' = d\<lparr>dk_flush := (\<lambda>n. dk_flush d (Suc n))\<rparr> in
      case dk_flush d 0 of
        None \<Rightarrow> (Inr (), d'\<lparr>dk_files := run_micros (flush_micros path st) (dk_files d)\<rparr>)
      | Some (k, e) \<Rightarrow>
          (Inl (ErrIO e), d'\<lparr>dk_files := run_micros (take (min k 3) (flush_micros path st)) (dk_files d)\<rparr>))"

section \<open>What a flush leaves\<close>

lemma run_micros_path:
  "run_micros (take k (flush_micros path st)) fs path = (if k \<le> 3 then fs path else Some (Doc st))"
proof -
  have "k = 0 \<or> k = 1 \<or> k = 2 \<or> k = 3 \<or> 4 \<le> k"
    by linarith
  then show ?thesis
    by (elim disjE) (simp_all add: run_micros_def flush_micros_def Let_def numeral_eq_Suc)
qed

lemma run_micros_all: "run_micros (flush_micros path st) fs path = Some (Doc st)"
  using run_micros_path [of 4 path st fs] by (simp add: flush_micros_def Let_def)

end
