(* ===== verification/StoreBackend.thy ===== *)
theory StoreBackend
  imports Backend Validate FileStore
begin

text \<open>
  backend_store.go, iface_store.go, dns_store.go and ipv6_store.go: the backend that keeps the whole
  configuration in memory and in one JSON file, netcfg.json. The uci backend embeds it for the same
  purpose. The file itself is \<open>FileStore\<close>.
\<close>

section \<open>The store\<close>

record store =
  sb_path :: string
  sb_st :: State
  sb_fresh :: bool
  sb_disk :: "State disk"

definition flushLocked :: "(store, unit) act" where
  "flushLocked b = (case flush_disk (sb_path b) (sb_st b) (sb_disk b) of (r, d) \<Rightarrow> (r, b\<lparr>sb_disk := d\<rparr>))"

section \<open>Opening\<close>

definition foldLegacyDNS :: "NetIface \<Rightarrow> NetIface" where
  "foldLegacyDNS i =
     (let i = (if ni_DNS i = [] then
                 i\<lparr>ni_DNS := filter (\<lambda>d. d \<noteq> []) [ni_DNSPrimaryLegacy i, ni_DNSSecondaryLegacy i]\<rparr>
               else i)
      in i\<lparr>ni_DNSPrimaryLegacy := [], ni_DNSSecondaryLegacy := []\<rparr>)"

definition normalize :: "State \<Rightarrow> State" where
  "normalize st =
     (let st = (if acl_Mode (S_ACL st) = [] then st\<lparr>S_ACL := (S_ACL st)\<lparr>acl_Mode := ACLBlacklist\<rparr>\<rparr> else st)
      in st\<lparr>S_NetIfaces := map foldLegacyDNS (S_NetIfaces st)\<rparr>)"

section \<open>The demonstration data\<close>

definition seed_server :: "DHCPServer" where
  "seed_server = zeroDHCPServer\<lparr>ds_ID := ''dhcp_seedlan'', ds_Interface := ''lan'', ds_Enabled :=
    True, ds_Force := True, ds_IPStart := ''192.168.1.100'', ds_IPEnd := ''192.168.1.200'', ds_Netmask
    := ''255.255.255.0'', ds_Gateway := ''192.168.1.1'', ds_DNSPrimary := ''223.5.5.5'', ds_DNSSecondary
    := ''114.114.114.114'', ds_LeaseMinutes := 120\<rparr>"

definition seed_static :: "StaticLease" where
  "seed_static = zeroStaticLease\<lparr>sl_ID := ''host_seed1'', sl_Hostname := ''demo-pc'', sl_IP :=
    ''192.168.1.50'', sl_MAC := ''AA:BB:CC:00:00:01'', sl_Gateway := ''192.168.1.1'', sl_Interface :=
    ''lan'', sl_DNSPrimary := ''223.5.5.5'', sl_Remark := map byte [231, 164, 186, 228, 190, 139, 239,
    188, 154, 229, 155, 186, 229, 174, 154, 229, 138, 158, 229, 133, 172, 231, 148, 181, 232, 132, 145],
    sl_Enabled := True\<rparr>"

definition seed_route :: "Route" where
  "seed_route = zeroRoute\<lparr>rt_ID := ''route_seed1'', rt_Family := FamilyIPv4, rt_Interface :=
    ''auto'', rt_Target := ''10.0.0.0'', rt_Netmask := ''255.255.255.0'', rt_Prefix := 24, rt_Gateway :=
    ''192.168.1.2'', rt_Metric := 1, rt_Remark := map byte [231, 164, 186, 228, 190, 139, 239, 188, 154,
    229, 136, 176] @ '' 10.0.0.0/24 '' @ map byte [231, 154, 132, 233, 157, 153, 230, 128, 129, 232,
    183, 175, 231, 148, 177], rt_Enabled := True\<rparr>"

definition seed_lan :: "NetIface" where
  "seed_lan = zeroNetIface\<lparr>ni_ID := ''lan'', ni_Name := ''lan1'', ni_Role := RoleLAN, ni_Proto :=
    ProtoStatic, ni_Device := ''br-lan'', ni_Ports := [''eth1''], ni_IPAddr := ''192.168.1.1'',
    ni_Netmask := ''255.255.255.0'', ni_MTU := 1500, ni_Remark := map byte [233, 187, 152, 232, 174,
    164, 229, 134, 133, 231, 189, 145], ni_Up := True, ni_RuntimeIP := ''192.168.1.1''\<rparr>"

definition seed_wan :: "NetIface" where
  "seed_wan = zeroNetIface\<lparr>ni_ID := ''wan'', ni_Name := ''wan1'', ni_Role := RoleWAN, ni_Proto :=
    ProtoDHCP, ni_Device := ''eth0'', ni_MTU := 1500, ni_DefaultGW := True, ni_Remark := map byte [233,
    187, 152, 232, 174, 164, 229, 164, 150, 231, 189, 145, 239, 188, 136] @ ''DHCP'' @ map byte [239,
    188, 137], ni_Up := True, ni_RuntimeIP := ''192.168.0.10''\<rparr>"

definition seed_wan6 :: "WANv6" where
  "seed_wan6 = zeroWANv6\<lparr>w6_ID := ''wan6'', w6_Name := ''wan6'', w6_WANIface := ''wan'',
    w6_Device := ''eth0'', w6_Proto := ProtoDHCPv6, w6_Enabled := True, w6_ReqPrefix := ''60'',
    w6_ForcePrefix := True, w6_PeerDNS := True, w6_NoRelease := True, w6_MTU := 1492, w6_IP6Address :=
    ''2408:822e:227a:61d9:a04f:be:786b:6f91/64'', w6_IP6Gateway := ''fe80::ce1a:faff:feec:fca0'',
    w6_IP6Prefix := ''2408:822f:22a2:a3f0::/60'', w6_LocalLink := ''fe80::8439:bddd:66a6:be3'', w6_Up :=
    True, w6_Remark := map byte [233, 187, 152, 232, 174, 164, 229, 164, 150, 231, 189, 145] @ '' IPv6''
    @ map byte [239, 188, 136] @ ''DHCPv6 '' @ map byte [229, 174, 162, 230, 136, 183, 231, 171, 175,
    239, 188, 137], w6_Managed := True\<rparr>"

definition seed_lan6 :: "LANv6" where
  "seed_lan6 = zeroLANv6\<lparr>l6_ID := ''lan'', l6_Interface := ''lan'', l6_ConfigType :=
    ConfigTypeAuto, l6_BindWAN := ''wan6'', l6_PrefixAssignLen := 64, l6_DHCPv6Enabled := True,
    l6_DHCPv6Mode := DHCPv6Stateful, l6_IPv6DNSEnabled := False, l6_LeaseMinutes := 120, l6_Enabled :=
    True, l6_IP6Address := ''2408:822f:22a2:a3f1::1001/64'', l6_LocalLink :=
    ''fe80::7e2b:e1ff:fe13:e45a'', l6_Remark := map byte [233, 187, 152, 232, 174, 164, 229, 134, 133,
    231, 189, 145] @ '' IPv6'', l6_Managed := True\<rparr>"

definition seedIPv6 :: "WANv6 list \<times> LANv6 list \<times> PrefixStaticV6 list \<times> ACLv6" where
  "seedIPv6 = ([seed_wan6], [seed_lan6], [], \<lparr>acl6_Mode = ACLBlacklist, acl6_Entries =
    []\<rparr>)"

definition seed_dns :: "DNSSettings" where
  "seed_dns = zeroDNSSettings\<lparr>dn_Enabled := True, dn_DNSPrimary := ''223.5.5.5'', dn_DNSSecondary
    := ''114.114.114.114'', dn_NoResolv := False, dn_FilterAAAA := False, dn_CacheSize := 8000,
    dn_MinCacheTTL := 0, dn_LocalTTL := 0\<rparr>"

definition seed_records :: "DNSRecord list" where
  "seed_records = [zeroDNSRecord\<lparr>dr_ID := ''dns_seed1'', dr_Domain := ''nas.lan'', dr_RecordType
    := DNSRecordA, dr_Address := ''192.168.1.50'', dr_Remark := map byte [231, 164, 186, 228, 190, 139,
    239, 188, 154, 229, 134, 133, 231, 189, 145] @ '' NAS'', dr_Enabled := True, dr_Managed :=
    True\<rparr>, zeroDNSRecord\<lparr>dr_ID := ''dns_seed2'', dr_Domain := ''*.demo.lan'',
    dr_RecordType := DNSRecordA, dr_Address := ''192.168.1.100'', dr_Wildcard := True, dr_Remark := map
    byte [231, 164, 186, 228, 190, 139, 239, 188, 154, 233, 128, 154, 233, 133, 141, 232, 167, 163, 230,
    158, 144], dr_Enabled := True, dr_Managed := True\<rparr>]"

definition seed_domroutes :: "DNSDomainRoute list" where
  "seed_domroutes = [zeroDNSDomainRoute\<lparr>dd_ID := ''dnsr_seed1'', dd_Domain := ''example.com'',
    dd_Server := ''8.8.8.8'', dd_Remark := map byte [231, 164, 186, 228, 190, 139, 239, 188, 154, 230,
    140, 135, 229, 174, 154, 229, 159, 159, 232, 181, 176] @ '' 8.8.8.8'', dd_Enabled := True,
    dd_Managed := True\<rparr>]"

definition seedState :: "State" where
  "seedState = (case seedIPv6 of (w, l, p, a) \<Rightarrow> zeroState\<lparr>S_DHCPServers :=
    [seed_server], S_Statics := [seed_static], S_ARPBind := False, S_ACL := \<lparr>acl_Mode =
    ACLBlacklist, acl_Entries = []\<rparr>, S_Routes := [seed_route], S_NetIfaces := [seed_lan,
    seed_wan], S_WANv6s := w, S_LANv6s := l, S_PrefixStaticsV6 := p, S_ACLv6 := a, S_DNS := seed_dns,
    S_DNSRecords := seed_records, S_DNSDomainRoutes := seed_domroutes\<rparr>)"

definition newStoreBackend :: "string \<Rightarrow> bool \<Rightarrow> State disk \<Rightarrow> (err + store) \<times>
    State disk" where
  "newStoreBackend path seed d0 =
     (let d = d0\<lparr>dk_read := (\<lambda>n. dk_read d0 (Suc n))\<rparr> in
      case dk_read d0 0 of
        Some e \<Rightarrow> (Inl (ErrIO e), d)
      | None \<Rightarrow>
          (case dk_files d path of
             Some Torn \<Rightarrow> (Inl (Err ''parse netcfg.json''), d)
           | Some (Doc st) \<Rightarrow>
               (Inr \<lparr>sb_path = path, sb_st = normalize st, sb_fresh = False, sb_disk = d\<rparr>, d)
           | None \<Rightarrow>
               (let b = \<lparr>sb_path = path, sb_st = (if seed then seedState else zeroState),
                         sb_fresh = True, sb_disk = d\<rparr>
                in case flushLocked b of
                  (Inl e, b') \<Rightarrow> (Inl e, sb_disk b')
                | (Inr _, b') \<Rightarrow> (Inr (b'\<lparr>sb_st := normalize (sb_st b')\<rparr>), sb_disk b'))))"

definition replaceState :: "State \<Rightarrow> (store, unit) act" where
  "replaceState st b = flushLocked (b\<lparr>sb_st := normalize st\<rparr>)"

section \<open>Reading and saving\<close>

text \<open>A getter returns a copy of a part of the state; a setter replaces it and flushes.\<close>

definition read_st :: "(State \<Rightarrow> 'a) \<Rightarrow> (store, 'a) act" where
  "read_st f b = (Inr (f (sb_st b)), b)"

definition save_st :: "(State \<Rightarrow> State) \<Rightarrow> (store, unit) act" where
  "save_st f b = flushLocked (b\<lparr>sb_st := f (sb_st b)\<rparr>)"

definition store_LeaseNotes :: "(store, string \<rightharpoonup> string) act" where
  "store_LeaseNotes = read_st S_LeaseNotes"

definition store_SetLeaseNote :: "string \<Rightarrow> string \<Rightarrow> (store, unit) act" where
  "store_SetLeaseNote mac note =
     (if note = [] then save_st (\<lambda>st. st\<lparr>S_LeaseNotes := (S_LeaseNotes st)(mac := None)\<rparr>)
      else save_st (\<lambda>st. st\<lparr>S_LeaseNotes := (S_LeaseNotes st)(mac \<mapsto> note)\<rparr>))"

definition simulated_iface :: "string \<Rightarrow> string \<Rightarrow> Interface" where
  "simulated_iface name ip =
     \<lparr>if_Name = name, if_IPv4 = ip, if_Netmask = ''255.255.255.0'', if_Prefix = 24, if_Up = True\<rparr>"

definition simulated_ifaces :: "Interface list" where
  "simulated_ifaces =
     [simulated_iface ''lan'' ''192.168.1.1'', simulated_iface ''lan2'' ''192.168.2.1'',
      simulated_iface ''wan'' ''192.168.0.10'']"

definition store_Interfaces :: "(store, Interface list) act" where
  "store_Interfaces = ret simulated_ifaces"

definition store_Status :: "(store, Status) act" where
  "store_Status = ret \<lparr>st_Backend = KindStore, st_DHCPOK = True, st_EnabledServers = 0, st_Pending = False,
          st_Message = map byte [230, 168, 161, 230, 139, 159, 229, 144, 142, 231, 171, 175, 239, 188, 136, 229,
         188, 128, 229, 143, 145] @ ''/'' @ map byte [230, 181, 139, 232, 175, 149, 239, 188, 137]\<rparr>"

definition store_DHCPServers :: "(store, DHCPServer list) act" where
  "store_DHCPServers = read_st S_DHCPServers"

definition store_SaveDHCPServers :: "DHCPServer list \<Rightarrow> (store, unit) act" where
  "store_SaveDHCPServers list = save_st (\<lambda>st. st\<lparr>S_DHCPServers := list\<rparr>)"

definition store_RestartDHCP :: "(store, unit) act" where
  "store_RestartDHCP = ret ()"

definition store_Statics :: "(store, StaticLease list) act" where
  "store_Statics = read_st S_Statics"

definition store_ARPBind :: "(store, bool) act" where
  "store_ARPBind = read_st S_ARPBind"

definition store_SaveStatics :: "StaticLease list \<Rightarrow> bool \<Rightarrow> (store, unit) act" where
  "store_SaveStatics list arpBind = save_st (\<lambda>st. st\<lparr>S_Statics := list, S_ARPBind := arpBind\<rparr>)"

definition store_ACL :: "(store, ACL) act" where
    "store_ACL = read_st (\<lambda>st. \<lparr>acl_Mode = acl_Mode (S_ACL st), acl_Entries = acl_Entries (S_ACL
      st)\<rparr>)"

definition store_SaveACL :: "ACL \<Rightarrow> (store, unit) act" where
    "store_SaveACL acl = save_st (\<lambda>st. st\<lparr>S_ACL := \<lparr>acl_Mode = acl_Mode acl, acl_Entries =
      acl_Entries acl\<rparr>\<rparr>)"

definition store_Routes :: "(store, Route list) act" where
  "store_Routes = read_st S_Routes"

definition store_SaveRoutes :: "Route list \<Rightarrow> (store, unit) act" where
  "store_SaveRoutes list = save_st (\<lambda>st. st\<lparr>S_Routes := list\<rparr>)"

definition store_PolicyRules :: "(store, PolicyRule list) act" where
  "store_PolicyRules = read_st S_PolicyRules"

definition store_SavePolicyRules :: "PolicyRule list \<Rightarrow> (store, unit) act" where
  "store_SavePolicyRules list = save_st (\<lambda>st. st\<lparr>S_PolicyRules := list\<rparr>)"

definition store_RoutePushMode :: "(store, string) act" where
  "store_RoutePushMode = read_st (\<lambda>st. if S_RoutePushMode st = [] then RoutePushOff else S_RoutePushMode st)"

definition store_SaveRoutePushMode :: "string \<Rightarrow> (store, unit) act" where
  "store_SaveRoutePushMode mode = save_st (\<lambda>st. st\<lparr>S_RoutePushMode := mode\<rparr>)"

section \<open>Simulated leases and routes\<close>

definition fakeDevices :: "string list" where
  "fakeDevices =
     [''iPhone'', ''MacBook-Air'', ''Redmi-Note'', ''ThinkPad-X1'', ''iPad-Pro'',
      ''Xiaomi-TV'', ''PS5'', ''OnePlus-12'', ''Switch'', ''Echo-Dot'',
      ''DESKTOP-7K2L'', ''HUAWEI-Mate'', ''Pixel-8'', ''SmartCam-01'', ''Printer-HP'']"

definition orHostname :: "string \<Rightarrow> string \<Rightarrow> string" where
  "orHostname h fallback = (if h = [] then fallback else h)"

definition lastOctet :: "string \<Rightarrow> string" where
    "lastOctet ip = (if CHR ''.'' \<in> set ip then rev (takeWhile (\<lambda>c. c \<noteq> CHR ''.'') (rev ip))
      else ip)"

text \<open>What the two loops of Leases carry: the addresses in use, the leases so far, the device index.\<close>

type_synonym lease_acc = "string set \<times> Lease list \<times> nat"

definition static_lease :: "StaticLease \<Rightarrow> Lease" where
  "static_lease s = zeroLease\<lparr>le_Hostname := orHostname (sl_Hostname s) (''static-'' @ lastOctet (sl_IP s)),
     le_IP := sl_IP s, le_MAC := sl_MAC s, le_Expiry := 0, le_RemainingSeconds := 0,
     le_Interface := sl_Interface s, le_Static := True, le_Remark := sl_Remark s\<rparr>"

definition static_step :: "lease_acc \<Rightarrow> StaticLease \<Rightarrow> lease_acc" where
  "static_step acc s = (case acc of (used, out, di) \<Rightarrow>
     if \<not> sl_Enabled s then (used, out, di)
     else (insert (sl_IP s) used, out @ [static_lease s], di))"

text \<open>\<open>%02X\<close> of the four bytes of an address.\<close>

definition fake_mac :: "u32 \<Rightarrow> string" where
    "fake_mac u = ''02:00:'' @ go_Join (map (\<lambda>k. map upper_char (byteHex (unat (drop_bit k u) mod 256)))
      [24, 16, 8, 0]) '':''"

definition dynamic_lease :: "DHCPServer \<Rightarrow> u32 \<Rightarrow> nat \<Rightarrow> nat \<Rightarrow>
    Lease" where
  "dynamic_lease srv ipU k di = zeroLease\<lparr>le_Hostname := fakeDevices ! (di mod length fakeDevices),
     le_IP := Uint32ToIPv4 ipU, le_MAC := fake_mac ipU, le_Expiry := 1893456000,
     le_RemainingSeconds := 3600 + int k * 420, le_Interface := ds_Interface srv, le_Static := False,
     le_Remark := []\<rparr>"

text \<open>\<open>for k := 0; k < n; k++\<close> with its break and continue; \<open>m\<close> is the number of
    rounds left.\<close>

fun pool_loop :: "DHCPServer \<Rightarrow> u32 \<Rightarrow> nat \<Rightarrow> nat \<Rightarrow> lease_acc
    \<Rightarrow> lease_acc" where
  "pool_loop srv startU k 0 acc = acc"
| "pool_loop srv startU k (Suc m) (used, out, di) =
     (let ipU = startU + of_nat k * 7 + 3; ip = Uint32ToIPv4 ipU in
      if \<not> IPInRange ip (ds_IPStart srv) (ds_IPEnd srv) then (used, out, di)
      else if ip \<in> used then pool_loop srv startU (Suc k) m (used, out, di)
      else pool_loop srv startU (Suc k) m (insert ip used, out @ [dynamic_lease srv ipU k di], Suc di))"

definition pool_step :: "lease_acc \<Rightarrow> DHCPServer \<Rightarrow> lease_acc" where
  "pool_step acc srv =
     (if \<not> ds_Enabled srv then acc
      else (case IPv4ToUint32 (ds_IPStart srv) of
          None \<Rightarrow> acc
        | Some startU \<Rightarrow>
                        (let total = (case RangeCount (ds_IPStart srv) (ds_IPEnd srv) of None \<Rightarrow> 0 |
                Some n \<Rightarrow> n);
                 n = (if total < 6 then total else 6)
             in pool_loop srv startU 0 (nat n) acc)))"

definition simulated_leases :: "State \<Rightarrow> Lease list" where
  "simulated_leases st =
     fst (snd (foldl pool_step (foldl static_step ({}, [], 0) (S_Statics st)) (S_DHCPServers st)))"

definition store_Leases :: "(store, Lease list) act" where
  "store_Leases = read_st simulated_leases"

definition simulated_route :: "string \<Rightarrow> Route \<Rightarrow> RouteEntry" where
  "simulated_route family r =
     \<lparr>re_Interface = (if rt_Interface r = ''auto'' \<or> rt_Interface r = [] then ''lan'' else rt_Interface r),
      re_Target = rt_Target r,
      re_Netmask = (if family = FamilyIPv6 then ''/'' @ go_Itoa (rt_Prefix r) else rt_Netmask r),
      re_Gateway = rt_Gateway r, re_Metric = rt_Metric r\<rparr>"

definition store_RouteTable :: "string \<Rightarrow> (store, RouteEntry list) act" where
  "store_RouteTable family = read_st (\<lambda>st.
     (if family = FamilyIPv4 then
                [\<lparr>re_Interface = ''wan'', re_Target = ''0.0.0.0'', re_Netmask = ''0.0.0.0'', re_Gateway =
            ''192.168.0.1'', re_Metric = 0\<rparr>,
                  \<lparr>re_Interface = ''lan'', re_Target = ''192.168.1.0'', re_Netmask = ''255.255.255.0'',
             re_Gateway = ''0.0.0.0'', re_Metric = 0\<rparr>,
                  \<lparr>re_Interface = ''lan2'', re_Target = ''192.168.2.0'', re_Netmask = ''255.255.255.0'',
             re_Gateway = ''0.0.0.0'', re_Metric = 0\<rparr>]
      else []) @
     map (simulated_route family) (filter (\<lambda>r. rt_Enabled r \<and> rt_Family r = family) (S_Routes st)))"

section \<open>iface\_store.go\<close>

definition cloneIface :: "NetIface \<Rightarrow> NetIface" where
    "cloneIface x = x\<lparr>ni_Ports := [] @ ni_Ports x, ni_ExtraAddrs := [] @ ni_ExtraAddrs x, ni_DNS := [] @
      ni_DNS x,
     ni_PeerDNS := cloneBoolPtr (ni_PeerDNS x), ni_ForceLink := cloneBoolPtr (ni_ForceLink x),
     ni_Auto := cloneBoolPtr (ni_Auto x), ni_PPPoEv6 := cloneBoolPtr (ni_PPPoEv6 x)\<rparr>"

definition store_NICs :: "(store, NIC list) act" where
  "store_NICs = ret
          [\<lparr>nic_Name = ''eth0'', nic_MAC = ''7C:2B:E1:13:E4:59'', nic_Up = True, nic_Running = True,
         nic_SpeedMb = 1000,
       nic_Duplex = ''full'', nic_MTU = 1500, nic_Kind = ''physical'', nic_Bound = ''wan'', nic_Role = RoleWAN,
       nic_RxBytes = 90123456, nic_TxBytes = 12345678, nic_IPAddrs = [''100.64.0.2/30'']\<rparr>,
            \<lparr>nic_Name = ''eth1'', nic_MAC = ''7C:2B:E1:13:E4:5A'', nic_Up = True, nic_Running = True,
          nic_SpeedMb = 1000,
       nic_Duplex = ''full'', nic_MTU = 1500, nic_Kind = ''physical'', nic_Bound = ''lan'', nic_Role = RoleLAN,
       nic_RxBytes = 45678901, nic_TxBytes = 78901234, nic_IPAddrs = []\<rparr>,
            \<lparr>nic_Name = ''eth2'', nic_MAC = ''7C:2B:E1:13:E4:5B'', nic_Up = False, nic_Running = False,
          nic_SpeedMb = 0,
       nic_Duplex = [], nic_MTU = 1500, nic_Kind = ''physical'', nic_Bound = [], nic_Role = [],
       nic_RxBytes = 0, nic_TxBytes = 0, nic_IPAddrs = []\<rparr>,
            \<lparr>nic_Name = ''br-lan'', nic_MAC = ''7C:2B:E1:13:E4:5A'', nic_Up = True, nic_Running = True,
          nic_SpeedMb = 0,
       nic_Duplex = [], nic_MTU = 1500, nic_Kind = ''bridge'', nic_Bound = ''lan'', nic_Role = RoleLAN,
       nic_RxBytes = 45678901, nic_TxBytes = 78901234, nic_IPAddrs = [''192.168.1.1/24'', ''fd00::1/64'']\<rparr>]"

definition store_NetIfaces :: "(store, NetIface list) act" where
  "store_NetIfaces = read_st (\<lambda>st.
     map (\<lambda>x. (cloneIface x)\<lparr>ni_Status := runtimeStatus (ni_Up x) False\<rparr>) (S_NetIfaces st))"

definition store_SaveNetIface :: "NetIface \<Rightarrow> (store, unit) act" where
  "store_SaveNetIface x = save_st (\<lambda>st. st\<lparr>S_NetIfaces :=
     (case indexByID (length (S_NetIfaces st)) (\<lambda>k. ni_ID (S_NetIfaces st ! k)) (ni_ID x) of
        Some k \<Rightarrow> (S_NetIfaces st)[k := cloneIface x]
      | None \<Rightarrow> S_NetIfaces st @ [cloneIface x])\<rparr>)"

definition store_DeleteNetIface :: "string \<Rightarrow> (store, unit) act" where
    "store_DeleteNetIface i = save_st (\<lambda>st. st\<lparr>S_NetIfaces := filter (\<lambda>x. ni_ID x
      \<noteq> i) (S_NetIfaces st)\<rparr>)"

definition store_WANAction :: "string \<Rightarrow> string \<Rightarrow> (store, unit) act" where
  "store_WANAction i action = ret ()"

definition store_InstallDHCP :: "(store, string) act" where
    "store_InstallDHCP = ret (''store '' @ map byte [229, 144, 142, 231, 171, 175, 239, 188, 136, 229, 188, 128,
      229, 143, 145] @ ''/'' @ map byte [230, 168, 161, 230, 139, 159, 239, 188, 137, 230, 151, 160, 233, 156,
      128, 229, 174, 137, 232, 163, 133] @ '' dnsmasq'')"

section \<open>dns\_store.go\<close>

definition store_DNSSettings :: "(store, DNSSettings) act" where
  "store_DNSSettings = read_st S_DNS"

definition store_SaveDNSSettings :: "DNSSettings \<Rightarrow> (store, unit) act" where
    "store_SaveDNSSettings s = save_st (\<lambda>st. st\<lparr>S_DNS := s\<lparr>dn_SavedStock := dn_SavedStock
      (S_DNS st),
     dn_PrevServers := dn_PrevServers (S_DNS st), dn_PrevAddrs := dn_PrevAddrs (S_DNS st)\<rparr>\<rparr>)"

definition store_DNSDoH :: "(store, DNSDoH) act" where
  "store_DNSDoH = read_st S_DNSDoH"

definition store_SaveDNSDoH :: "DNSDoH \<Rightarrow> (store, unit) act" where
  "store_SaveDNSDoH d = save_st (\<lambda>st. st\<lparr>S_DNSDoH := d\<rparr>)"

definition store_DNSRecords :: "(store, DNSRecord list) act" where
  "store_DNSRecords = read_st S_DNSRecords"

definition store_SaveDNSRecords :: "DNSRecord list \<Rightarrow> (store, unit) act" where
  "store_SaveDNSRecords list = save_st (\<lambda>st. st\<lparr>S_DNSRecords := list\<rparr>)"

definition store_DNSDomainRoutes :: "(store, DNSDomainRoute list) act" where
  "store_DNSDomainRoutes = read_st S_DNSDomainRoutes"

definition store_SaveDNSDomainRoutes :: "DNSDomainRoute list \<Rightarrow> (store, unit) act" where
  "store_SaveDNSDomainRoutes list = save_st (\<lambda>st. st\<lparr>S_DNSDomainRoutes := list\<rparr>)"

definition store_FlushDNSCache :: "(store, unit) act" where
  "store_FlushDNSCache = ret ()"

definition store_InstallDoH :: "(store, string) act" where
    "store_InstallDoH = ret (''store '' @ map byte [229, 144, 142, 231, 171, 175, 239, 188, 154, 230, 168, 161,
      230, 139, 159, 229, 183, 178, 229, 174, 137, 232, 163, 133] @ '' https-dns-proxy'' @ map byte [239, 188,
      136, 230, 151, 160, 230, 147, 141, 228, 189, 156, 239, 188, 137])"

definition saveDNSBookkeeping ::
        "(string \<rightharpoonup> string) option \<Rightarrow> string list \<Rightarrow> string list \<Rightarrow>
        string list \<Rightarrow> (store, unit) act" where
    "saveDNSBookkeeping savedStock prevServers prevAddrs prevRebind = save_st (\<lambda>st. st\<lparr>S_DNS :=
      (S_DNS st)
     \<lparr>dn_SavedStock := savedStock, dn_PrevServers := prevServers, dn_PrevAddrs := prevAddrs,
      dn_PrevRebindDomains := prevRebind\<rparr>\<rparr>)"

section \<open>ipv6\_store.go\<close>

definition store_WANv6s :: "(store, WANv6 list) act" where
  "store_WANv6s = read_st S_WANv6s"

definition store_SaveWANv6s :: "WANv6 list \<Rightarrow> (store, unit) act" where
  "store_SaveWANv6s list = save_st (\<lambda>st. st\<lparr>S_WANv6s := list\<rparr>)"

definition store_LANv6s :: "(store, LANv6 list) act" where
  "store_LANv6s = read_st S_LANv6s"

definition store_SaveLANv6s :: "LANv6 list \<Rightarrow> (store, unit) act" where
  "store_SaveLANv6s list = save_st (\<lambda>st. st\<lparr>S_LANv6s := list\<rparr>)"

definition store_PrefixStaticsV6 :: "(store, PrefixStaticV6 list) act" where
  "store_PrefixStaticsV6 = read_st S_PrefixStaticsV6"

definition store_SavePrefixStaticsV6 :: "PrefixStaticV6 list \<Rightarrow> (store, unit) act" where
  "store_SavePrefixStaticsV6 list = save_st (\<lambda>st. st\<lparr>S_PrefixStaticsV6 := list\<rparr>)"

definition store_ACLv6 :: "(store, ACLv6) act" where
  "store_ACLv6 = read_st (\<lambda>st.
     \<lparr>acl6_Mode = (if acl6_Mode (S_ACLv6 st) = [] then ACLBlacklist else acl6_Mode (S_ACLv6 st)),
      acl6_Entries = acl6_Entries (S_ACLv6 st)\<rparr>)"

definition store_SaveACLv6 :: "ACLv6 \<Rightarrow> (store, unit) act" where
    "store_SaveACLv6 acl = save_st (\<lambda>st. st\<lparr>S_ACLv6 := \<lparr>acl6_Mode = acl6_Mode acl,
      acl6_Entries = acl6_Entries acl\<rparr>\<rparr>)"

definition simulated_lease6 ::
        "string \<Rightarrow> string \<Rightarrow> string \<Rightarrow> string \<Rightarrow> string
        \<Rightarrow> string \<Rightarrow> string \<Rightarrow> int \<Rightarrow> LeaseV6" where
  "simulated_lease6 iface host mac ll ip duid iaid valid =
     \<lparr>v6_Hostname = host, v6_MAC = mac, v6_LocalLink = ll, v6_IPv6Addr = ip, v6_DUID = duid, v6_IAID = iaid,
      v6_Interface = iface, v6_ValidSeconds = valid, v6_Static = False, v6_Remark = [], v6_Vendor = []\<rparr>"

definition store_LeasesV6 :: "(store, LeaseV6 list) act" where
    "store_LeasesV6 = read_st (\<lambda>st. case find (\<lambda>l. l6_DHCPv6Enabled l \<and> l6_Enabled l)
      (S_LANv6s st) of
     None \<Rightarrow> []
   | Some l \<Rightarrow>
       [simulated_lease6 (l6_Interface l) ''Z590-A-Computer'' ''04:42:1a:2b:66:57'' ''fe80::1fc:212e:a640:15b9''
          ''2408:822f:22a2:a3f1::c53'' ''0001000128fc56f1086ac5230d7f'' ''a8b1c2d3'' 6824,
        simulated_lease6 (l6_Interface l) ''rthink-server'' ''00:0c:29:67:4e:e8'' ''fe80::49f1:3b3b:17e:36b9''
          ''2408:822f:22a2:a3f1::73e'' ''0004c72da9c855a781fca1022afcfbab'' ''11223344'' 6201,
        simulated_lease6 (l6_Interface l) ''iPad-Air13'' ''32:17:b3:ed:f9:5b'' ''fe80::cec:1aaa:8a36:d6f6''
          ''2408:822f:22a2:a3f1::cc6'' ''000300013217b3edf95b'' ''55667788'' 7044])"

definition simulated_neighbor :: "string \<Rightarrow> string \<Rightarrow> string \<Rightarrow> bool
    \<Rightarrow> string \<Rightarrow> NeighborV6" where
  "simulated_neighbor mac ip st router remark =
          \<lparr>nb_MAC = mac, nb_IPv6 = ip, nb_Interface = ''lan'', nb_State = st, nb_Router = router,
         nb_Remark = remark,
      nb_Vendor = []\<rparr>"

definition store_NeighborsV6 :: "(store, NeighborV6 list) act" where
  "store_NeighborsV6 = ret
     [simulated_neighbor ''f4:2d:06:4f:e3:fb'' ''fe80::5'' ''STALE'' True [],
      simulated_neighbor ''00:0c:29:9c:4f:49'' ''fe80::20c:29ff:fe9c:4f49'' ''REACHABLE'' False [],
      simulated_neighbor ''00:0c:29:06:da:3a'' ''2408:822f:22a2:a3f1::d0a'' ''REACHABLE'' False [],
      simulated_neighbor ''e8:61:1f:11:2e:80'' ''fe80::ea61:1fff:fe11:2e80'' ''REACHABLE'' False
                (map byte [227, 128, 144] @ ''ESXI0'' @ map byte [227, 128, 145, 231, 167, 129, 230, 156, 137,
            228, 186, 145, 231, 174, 161, 231, 144, 134, 229, 143, 163]),
      simulated_neighbor ''16:cd:03:ca:2b:30'' ''fe80::1c34:6cba:4fa1:7d99'' ''STALE'' False
        (''IPM14-'' @ map byte [230, 133, 149, 229, 174, 185] @ ''-5G''),
      simulated_neighbor ''ec:41:18:6c:d9:42'' ''fe80::ee41:18ff:fe6c:d942'' ''REACHABLE'' False
        (map byte [229, 176, 143, 231, 136, 177, 233, 159, 179, 231, 174, 177] @ ''2'')]"

definition store_DeleteNeighborV6 :: "string \<Rightarrow> string \<Rightarrow> (store, unit) act" where
  "store_DeleteNeighborV6 addr dev = ret ()"

definition store_FlushNeighborsV6 :: "string \<Rightarrow> (store, unit) act" where
  "store_FlushNeighborsV6 dev = ret ()"

definition transitionPkgName :: "string \<Rightarrow> string" where
  "transitionPkgName proto =
     (if proto = Proto6in4 then ''6in4'' else if proto = Proto6to4 then ''6to4''
      else if proto = Proto6rd then ''6rd'' else [])"

section \<open>The backend\<close>

definition store_backend :: "store backend" where
  "store_backend = \<lparr>be_Interfaces = store_Interfaces, be_Status = store_Status,
     be_DHCPServers = store_DHCPServers, be_SaveDHCPServers = store_SaveDHCPServers,
     be_RestartDHCP = store_RestartDHCP, be_Statics = store_Statics, be_ARPBind = store_ARPBind,
     be_SaveStatics = store_SaveStatics, be_Leases = store_Leases, be_LeaseNotes = store_LeaseNotes,
     be_SetLeaseNote = store_SetLeaseNote, be_ACL = store_ACL, be_SaveACL = store_SaveACL,
     be_Routes = store_Routes, be_SaveRoutes = store_SaveRoutes, be_PolicyRules = store_PolicyRules,
     be_SavePolicyRules = store_SavePolicyRules, be_RoutePushMode = store_RoutePushMode,
     be_SaveRoutePushMode = store_SaveRoutePushMode, be_RouteTable = store_RouteTable,
     be_NICs = store_NICs, be_NetIfaces = store_NetIfaces, be_SaveNetIface = store_SaveNetIface,
     be_DeleteNetIface = store_DeleteNetIface, be_WANAction = store_WANAction,
     be_InstallDHCP = store_InstallDHCP, be_DNSSettings = store_DNSSettings,
     be_SaveDNSSettings = store_SaveDNSSettings, be_DNSDoH = store_DNSDoH, be_SaveDNSDoH = store_SaveDNSDoH,
     be_DNSRecords = store_DNSRecords, be_SaveDNSRecords = store_SaveDNSRecords,
     be_DNSDomainRoutes = store_DNSDomainRoutes, be_SaveDNSDomainRoutes = store_SaveDNSDomainRoutes,
     be_FlushDNSCache = store_FlushDNSCache, be_InstallDoH = store_InstallDoH, be_WANv6s = store_WANv6s,
     be_SaveWANv6s = store_SaveWANv6s, be_LANv6s = store_LANv6s, be_SaveLANv6s = store_SaveLANv6s,
     be_PrefixStaticsV6 = store_PrefixStaticsV6, be_SavePrefixStaticsV6 = store_SavePrefixStaticsV6,
     be_ACLv6 = store_ACLv6, be_SaveACLv6 = store_SaveACLv6, be_LeasesV6 = store_LeasesV6,
     be_NeighborsV6 = store_NeighborsV6, be_DeleteNeighborV6 = store_DeleteNeighborV6,
     be_FlushNeighborsV6 = store_FlushNeighborsV6\<rparr>"


lemmas store_defs =
  store_LeaseNotes_def store_SetLeaseNote_def store_Interfaces_def store_Status_def store_DHCPServers_def
  store_SaveDHCPServers_def store_RestartDHCP_def store_Statics_def store_ARPBind_def store_SaveStatics_def
  store_ACL_def store_SaveACL_def store_Routes_def store_SaveRoutes_def store_PolicyRules_def
  store_SavePolicyRules_def store_RoutePushMode_def store_SaveRoutePushMode_def store_Leases_def
  store_RouteTable_def store_NICs_def store_NetIfaces_def store_SaveNetIface_def store_DeleteNetIface_def
  store_WANAction_def store_InstallDHCP_def store_DNSSettings_def store_SaveDNSSettings_def store_DNSDoH_def
  store_SaveDNSDoH_def store_DNSRecords_def store_SaveDNSRecords_def store_DNSDomainRoutes_def
  store_SaveDNSDomainRoutes_def store_FlushDNSCache_def store_InstallDoH_def saveDNSBookkeeping_def
  store_WANv6s_def store_SaveWANv6s_def store_LANv6s_def store_SaveLANv6s_def store_PrefixStaticsV6_def
  store_SavePrefixStaticsV6_def store_ACLv6_def store_SaveACLv6_def store_LeasesV6_def store_NeighborsV6_def
  store_DeleteNeighborV6_def store_FlushNeighborsV6_def

lemmas store_backend_eval [eval_simps] =
  store_defs store_backend_def read_st_def save_st_def flushLocked_def flush_disk_def flush_micros_def
  run_micros_def newStoreBackend_def normalize_def foldLegacyDNS_def orHostname_def lastOctet_def

section \<open>Saving changes memory first\<close>

lemma flushLocked_st [simp]:
  "sb_st (snd (flushLocked b)) = sb_st b" "sb_path (snd (flushLocked b)) = sb_path b"
  "sb_fresh (snd (flushLocked b)) = sb_fresh b"
  by (auto simp: flushLocked_def split: prod.splits)

lemma save_st_st [simp]:
  "sb_st (snd (save_st f b)) = f (sb_st b)" "sb_path (snd (save_st f b)) = sb_path b"
  by (simp_all add: save_st_def)

text \<open>The store satisfies the contract of every collection.\<close>

lemmas store_coll_simps = coll_defs store_defs store_backend_def read_st_def bindE_def ret_def
  plain_load_def plain_save_def

interpretation store_servers: coll_laws "servers_coll store_backend" "S_DHCPServers \<circ> sb_st" "\<lambda>_. ()"
  by unfold_locales (simp_all add: store_coll_simps server_item_def)

interpretation store_routes: coll_laws "routes_coll store_backend" "S_Routes \<circ> sb_st" "\<lambda>_. ()"
  by unfold_locales (simp_all add: store_coll_simps route_item_def)

interpretation store_rules: coll_laws "rules_coll store_backend" "S_PolicyRules \<circ> sb_st" "\<lambda>_. ()"
  by unfold_locales (simp_all add: store_coll_simps rule_item_def)

interpretation store_records: coll_laws "records_coll store_backend" "S_DNSRecords \<circ> sb_st" "\<lambda>_. ()"
  by unfold_locales (simp_all add: store_coll_simps record_item_def)

interpretation store_domroutes: coll_laws "domroutes_coll store_backend" "S_DNSDomainRoutes \<circ> sb_st" "\<lambda>_. ()"
  by unfold_locales (simp_all add: store_coll_simps domroute_item_def)

interpretation store_wan6s: coll_laws "wan6s_coll store_backend" "S_WANv6s \<circ> sb_st" "\<lambda>_. ()"
  by unfold_locales (simp_all add: store_coll_simps wan6_item_def)

interpretation store_lan6s: coll_laws "lan6s_coll store_backend" "S_LANv6s \<circ> sb_st" "\<lambda>_. ()"
  by unfold_locales (simp_all add: store_coll_simps lan6_item_def)

interpretation store_prefix6s: coll_laws "prefix6s_coll store_backend" "S_PrefixStaticsV6 \<circ> sb_st" "\<lambda>_. ()"
  by unfold_locales (simp_all add: store_coll_simps prefix6_item_def)

interpretation store_statics: coll_laws "statics_coll store_backend" "S_Statics \<circ> sb_st" "S_ARPBind \<circ> sb_st"
  by unfold_locales (simp_all add: store_coll_simps static_item_def)

lemma store_be_Interfaces: "be_Interfaces store_backend b = (Inr simulated_ifaces, b)"
  by (simp add: store_backend_def store_Interfaces_def ret_def)

definition acl_mode_of :: "store \<Rightarrow> string" where
  "acl_mode_of b = (if acl_Mode (S_ACL (sb_st b)) = [] then ACLBlacklist else acl_Mode (S_ACL (sb_st b)))"

interpretation store_acl: coll_laws "acl_coll store_backend" "acl_Entries \<circ> S_ACL \<circ> sb_st" acl_mode_of
  by unfold_locales (simp_all add: store_coll_simps acl_item_def acl_mode_of_def)

definition acl6_mode_of :: "store \<Rightarrow> string" where
  "acl6_mode_of b = (if acl6_Mode (S_ACLv6 (sb_st b)) = [] then ACLBlacklist else acl6_Mode (S_ACLv6 (sb_st b)))"

interpretation store_acl6: coll_laws "acl6_coll store_backend" "acl6_Entries \<circ> S_ACLv6 \<circ> sb_st" acl6_mode_of
  by unfold_locales (simp_all add: store_coll_simps acl6_item_def acl6_mode_of_def)

section \<open>The file survives failures and crashes\<close>

lemma tmp_neq [simp]: "p @ ''.tmp'' \<noteq> p" "p \<noteq> p @ ''.tmp''"
  by auto

text \<open>a save changes the configuration in memory whether or not the file could be written; when it reports success the file holds exactly that configuration, and when it reports an error the file still holds the old one, whole.\<close>

theorem save_outcome:
  assumes "save_st f b = (r, b')"
  shows "sb_st b' = f (sb_st b) \<and>
    dk_files (sb_disk b') (sb_path b) =
      (case r of Inr _ \<Rightarrow> Some (Doc (f (sb_st b))) | Inl _ \<Rightarrow> dk_files (sb_disk b) (sb_path b))"
  using assms save_st_st(1) [of f b]
  by (auto simp: save_st_def flushLocked_def flush_disk_def Let_def run_micros_path run_micros_all
      split: option.splits prod.splits)

definition sample_disk :: "nat \<Rightarrow> State disk" where
  "sample_disk n = \<lparr>dk_files = [''/data/netcfg.json'' \<mapsto> Doc zeroState],
     dk_flush = (\<lambda>k. if k = n then Some (2, ''no space left on device'') else None), dk_read = (\<lambda>_. None)\<rparr>"

definition sample_store :: "nat \<Rightarrow> store" where
  "sample_store n = \<lparr>sb_path = ''/data/netcfg.json'', sb_st = normalize zeroState, sb_fresh = False,
     sb_disk = sample_disk n\<rparr>"

lemmas sample_eval [eval_simps] = sample_disk_def sample_store_def

theorem save_outcome_witness:
  "S_ARPBind (sb_st (snd (store_SaveStatics [] True (sample_store 0)))) \<and>
   dk_files (sb_disk (snd (store_SaveStatics [] True (sample_store 0)))) ''/data/netcfg.json'' = Some (Doc zeroState)"
proof -
  let ?f = "\<lambda>st. st\<lparr>S_Statics := [], S_ARPBind := True\<rparr>"
  obtain b' where s: "save_st ?f (sample_store 0) = (Inl (ErrIO ''no space left on device''), b')"
    by (simp add: save_st_def flushLocked_def flush_disk_def sample_eval Let_def)
  from save_outcome [OF this] s show ?thesis
    by (simp add: store_SaveStatics_def sample_eval)
qed



lemma foldLegacyDNS_idem [simp]: "foldLegacyDNS (foldLegacyDNS i) = foldLegacyDNS i"
  by (simp add: foldLegacyDNS_def Let_def)

lemma normalize_idem [simp]: "normalize (normalize st) = normalize st"
  by (simp add: normalize_def Let_def comp_def)

text \<open>Migrating the legacy DNS fields loses no server: an interface that has no DNS list gets exactly its non-empty legacy servers in order, one that has a list keeps it; the legacy fields are empty afterwards, and normalising twice is normalising once.\<close>

theorem normalize_migrates_dns:
  "normalize (normalize st) = normalize st \<and>
   length (S_NetIfaces (normalize st)) = length (S_NetIfaces st) \<and>
   list_all2 (\<lambda>i j. ni_DNS j = (case ni_DNS i of
         [] \<Rightarrow> filter (\<lambda>d. d \<noteq> []) [ni_DNSPrimaryLegacy i, ni_DNSSecondaryLegacy i]
       | xs \<Rightarrow> xs) \<and> ni_DNSPrimaryLegacy j = [] \<and> ni_DNSSecondaryLegacy j = [] \<and> ni_ID j = ni_ID i)
     (S_NetIfaces st) (S_NetIfaces (normalize st))"
  by (simp add: normalize_def Let_def list_all2_map2 foldLegacyDNS_def list.rel_refl split: list.split)

section \<open>DNS bookkeeping\<close>

text \<open>A save of the DNS settings keeps the saved stock values and the server and address lists of the last projection, whatever the request carries, but it takes the rebind domains of the last projection from the request.\<close>

theorem dns_save_bookkeeping:
  "let d = S_DNS (sb_st (snd (store_SaveDNSSettings s b))); old = S_DNS (sb_st b) in
     dn_SavedStock d = dn_SavedStock old \<and> dn_PrevServers d = dn_PrevServers old \<and>
     dn_PrevAddrs d = dn_PrevAddrs old \<and> dn_PrevRebindDomains d = dn_PrevRebindDomains s"
  by (simp add: store_SaveDNSSettings_def Let_def)

end
