(* ===== verification/ServiceProps.thy ===== *)
theory ServiceProps
  imports ServiceIface StoreBackend
begin

text \<open>
  What the Service guarantees, on the store backend where the state matters and on any backend
  where it does not: the edits of a collection as map operations, unique reservations, pools inside
  their subnet, access-list and interface rules, import and export.
\<close>

text \<open>The configuration that the Service sees, on the store backend.\<close>

definition store_state :: "store svc \<Rightarrow> State" where
  "store_state s = sb_st (sv_be s)"

text \<open>A disk on which no write fails.\<close>

definition flush_ok :: "store \<Rightarrow> bool" where
  "flush_ok b \<longleftrightarrow> (\<forall>n. dk_flush (sb_disk b) n = None)"

lemma flush_ok_save:
  "flush_ok b \<Longrightarrow> save_st f b = (Inr (), snd (save_st f b)) \<and> flush_ok (snd (save_st f b)) \<and> sb_st (snd (save_st f b)) = f (sb_st b)"
  by (simp add: save_st_def flushLocked_def flush_disk_def flush_ok_def Let_def)

section \<open>Edits are map operations\<close>

text \<open>The edits of the routes, as the HTTP layer calls them.\<close>

fun route_edit :: "'b backend \<Rightarrow> Route edit \<Rightarrow> ('b svc, Route option) act" where
  "route_edit B (EditUpdate i r) = bindE (UpdateRoute B i r) (\<lambda>z. ret (Some z))"
| "route_edit B (EditDelete i) = bindE (DeleteRoute B i) (\<lambda>_. ret None)"
| "route_edit B (EditEnable i on) = bindE (SetRouteEnabled B i on) (\<lambda>_. ret None)"
| "route_edit B (EditBatch action ids) = bindE (BatchRoutes B action ids) (\<lambda>_. ret None)"

fun rule_edit :: "'b backend \<Rightarrow> PolicyRule edit \<Rightarrow> ('b svc, PolicyRule option) act" where
  "rule_edit B (EditUpdate i r) = bindE (UpdatePolicyRule B i r) (\<lambda>z. ret (Some z))"
| "rule_edit B (EditDelete i) = bindE (DeletePolicyRule B i) (\<lambda>_. ret None)"
| "rule_edit B (EditEnable i on) = bindE (SetPolicyRuleEnabled B i on) (\<lambda>_. ret None)"
| "rule_edit B (EditBatch action ids) = bindE (BatchPolicyRules B action ids) (\<lambda>_. ret None)"

fun record_edit :: "'b backend \<Rightarrow> DNSRecord edit \<Rightarrow> ('b svc, DNSRecord option) act" where
  "record_edit B (EditUpdate i r) = bindE (UpdateDNSRecord B i r) (\<lambda>z. ret (Some z))"
| "record_edit B (EditDelete i) = bindE (DeleteDNSRecord B i) (\<lambda>_. ret None)"
| "record_edit B (EditEnable i on) = bindE (SetDNSRecordEnabled B i on) (\<lambda>_. ret None)"
| "record_edit B (EditBatch action ids) = bindE (BatchDNSRecords B action ids) (\<lambda>_. ret None)"

fun domroute_edit :: "'b backend \<Rightarrow> DNSDomainRoute edit \<Rightarrow> ('b svc, DNSDomainRoute option) act" where
  "domroute_edit B (EditUpdate i r) = bindE (UpdateDNSDomainRoute B i r) (\<lambda>z. ret (Some z))"
| "domroute_edit B (EditDelete i) = bindE (DeleteDNSDomainRoute B i) (\<lambda>_. ret None)"
| "domroute_edit B (EditEnable i on) = bindE (SetDNSDomainRouteEnabled B i on) (\<lambda>_. ret None)"
| "domroute_edit B (EditBatch action ids) = bindE (BatchDNSDomainRoutes B action ids) (\<lambda>_. ret None)"

fun lan6_edit :: "'b backend \<Rightarrow> LANv6 edit \<Rightarrow> ('b svc, LANv6 option) act" where
  "lan6_edit B (EditUpdate i r) = bindE (UpdateLANv6 B i r) (\<lambda>z. ret (Some z))"
| "lan6_edit B (EditDelete i) = bindE (DeleteLANv6 B i) (\<lambda>_. ret None)"
| "lan6_edit B (EditEnable i on) = bindE (SetLANv6Enabled B i on) (\<lambda>_. ret None)"
| "lan6_edit B (EditBatch action ids) = bindE (BatchLANv6 B action ids) (\<lambda>_. ret None)"

fun prefix6_edit :: "'b backend \<Rightarrow> PrefixStaticV6 edit \<Rightarrow> ('b svc, PrefixStaticV6 option) act" where
  "prefix6_edit B (EditUpdate i r) = bindE (UpdatePrefixStaticV6 B i r) (\<lambda>z. ret (Some z))"
| "prefix6_edit B (EditDelete i) = bindE (DeletePrefixStaticV6 B i) (\<lambda>_. ret None)"
| "prefix6_edit B (EditEnable i on) = bindE (SetPrefixStaticV6Enabled B i on) (\<lambda>_. ret None)"
| "prefix6_edit B (EditBatch action ids) = bindE (BatchPrefixStaticsV6 B action ids) (\<lambda>_. ret None)"

lemma bindE_assoc: "bindE (bindE m f) g = bindE m (\<lambda>x. bindE (f x) g)"
  by (auto simp: bindE_def fun_eq_iff split: prod.splits sum.splits)

lemma edits_are_coll_edits:
  "route_edit B = coll_edit (routes_coll B) validateRoute"
  "rule_edit B = coll_edit (rules_coll B) validatePolicyRule"
  "record_edit B = coll_edit (records_coll B) validateDNSRecord"
  "domroute_edit B = coll_edit (domroutes_coll B) validateDNSDomainRoute"
  "lan6_edit B = coll_edit (lan6s_coll B) validateLANv6"
  "prefix6_edit B = coll_edit (prefix6s_coll B) validatePrefixStaticV6"
proof -
  have "route_edit B e = coll_edit (routes_coll B) validateRoute e" for e
    by (cases e) (simp_all add: UpdateRoute_def DeleteRoute_def SetRouteEnabled_def BatchRoutes_def bindE_assoc)
  then show "route_edit B = coll_edit (routes_coll B) validateRoute" ..
  have "rule_edit B e = coll_edit (rules_coll B) validatePolicyRule e" for e
    by (cases e) (simp_all add: UpdatePolicyRule_def DeletePolicyRule_def SetPolicyRuleEnabled_def
        BatchPolicyRules_def bindE_assoc)
  then show "rule_edit B = coll_edit (rules_coll B) validatePolicyRule" ..
  have "record_edit B e = coll_edit (records_coll B) validateDNSRecord e" for e
    by (cases e) (simp_all add: UpdateDNSRecord_def DeleteDNSRecord_def SetDNSRecordEnabled_def
        BatchDNSRecords_def bindE_assoc)
  then show "record_edit B = coll_edit (records_coll B) validateDNSRecord" ..
  have "domroute_edit B e = coll_edit (domroutes_coll B) validateDNSDomainRoute e" for e
    by (cases e) (simp_all add: UpdateDNSDomainRoute_def DeleteDNSDomainRoute_def
        SetDNSDomainRouteEnabled_def BatchDNSDomainRoutes_def bindE_assoc)
  then show "domroute_edit B = coll_edit (domroutes_coll B) validateDNSDomainRoute" ..
  have "lan6_edit B e = coll_edit (lan6s_coll B) validateLANv6 e" for e
    by (cases e) (simp_all add: UpdateLANv6_def DeleteLANv6_def SetLANv6Enabled_def BatchLANv6_def bindE_assoc)
  then show "lan6_edit B = coll_edit (lan6s_coll B) validateLANv6" ..
  have "prefix6_edit B e = coll_edit (prefix6s_coll B) validatePrefixStaticV6 e" for e
    by (cases e) (simp_all add: UpdatePrefixStaticV6_def DeletePrefixStaticV6_def
        SetPrefixStaticV6Enabled_def BatchPrefixStaticsV6_def bindE_assoc)
  then show "prefix6_edit B = coll_edit (prefix6s_coll B) validatePrefixStaticV6" ..
qed

text \<open>C1: on the store backend an update, a delete, a toggle or a batch of routes, policy rules, DNS records, domain routes, IPv6 LANs or prefix reservations changes the finite map from ids to items exactly as its specification edit_map says, for every outcome of the write to disk.\<close>

theorem edits_refine_map:
  "lookup_item route_item (S_Routes (store_state (snd (route_edit store_backend e1 s)))) =
      edit_map route_item validateRoute e1 (lookup_item route_item (S_Routes (store_state s))) \<and>
    lookup_item rule_item (S_PolicyRules (store_state (snd (rule_edit store_backend e2 s)))) =
      edit_map rule_item validatePolicyRule e2 (lookup_item rule_item (S_PolicyRules (store_state s))) \<and>
    lookup_item record_item (S_DNSRecords (store_state (snd (record_edit store_backend e3 s)))) =
      edit_map record_item validateDNSRecord e3 (lookup_item record_item (S_DNSRecords (store_state s))) \<and>
    lookup_item domroute_item (S_DNSDomainRoutes (store_state (snd (domroute_edit store_backend e4 s)))) =
      edit_map domroute_item validateDNSDomainRoute e4 (lookup_item domroute_item (S_DNSDomainRoutes (store_state s))) \<and>
    lookup_item lan6_item (S_LANv6s (store_state (snd (lan6_edit store_backend e5 s)))) =
      edit_map lan6_item validateLANv6 e5 (lookup_item lan6_item (S_LANv6s (store_state s))) \<and>
    lookup_item prefix6_item (S_PrefixStaticsV6 (store_state (snd (prefix6_edit store_backend e6 s)))) =
      edit_map prefix6_item validatePrefixStaticV6 e6 (lookup_item prefix6_item (S_PrefixStaticsV6 (store_state s)))"
  using store_routes.coll_edit_map [of validateRoute e1 s] store_rules.coll_edit_map [of validatePolicyRule e2 s]
    store_records.coll_edit_map [of validateDNSRecord e3 s]
    store_domroutes.coll_edit_map [of validateDNSDomainRoute e4 s]
    store_lan6s.coll_edit_map [of validateLANv6 e5 s] store_prefix6s.coll_edit_map [of validatePrefixStaticV6 e6 s]
  unfolding edits_are_coll_edits
  by (simp add: store_state_def store_routes.items_def store_rules.items_def store_records.items_def
      store_domroutes.items_def store_lan6s.items_def store_prefix6s.items_def coll_defs)

section \<open>Reservations stay unique\<close>

lemma EqualFold_refl [simp]: "go_EqualFold L s s"
  by (simp add: go_EqualFold_def)

lemma ensureStaticUnique_Inr:
  "ensureStaticUnique L s ex xs = Inr u \<longleftrightarrow>
     (\<forall>x \<in> set xs. sl_ID x = ex \<or> (\<not> go_EqualFold L (sl_MAC x) (sl_MAC s) \<and> sl_IP x \<noteq> sl_IP s))"
  by (induction xs) auto

text \<open>
  The invariant: no two reservations share a MAC or an address, and every reservation has an id.
  Ids are random, so that they differ is an assumption where it matters.
\<close>

definition statics_unique :: "StaticLease list \<Rightarrow> bool" where
  "statics_unique xs \<longleftrightarrow> distinct (map sl_MAC xs) \<and> distinct (map sl_IP xs) \<and> [] \<notin> sl_ID ` set xs"

lemma statics_unique_append:
  assumes "statics_unique xs" and "ensureStaticUnique L y [] xs = Inr u" and "sl_ID y \<noteq> []"
  shows "statics_unique (xs @ [y])"
proof -
  have "\<forall>x \<in> set xs. sl_ID x \<noteq> []"
    using assms(1) by (auto simp: statics_unique_def image_iff)
  with assms(2) have "\<forall>x \<in> set xs. \<not> go_EqualFold L (sl_MAC x) (sl_MAC y) \<and> sl_IP x \<noteq> sl_IP y"
    unfolding ensureStaticUnique_Inr by blast
  then have "\<forall>x \<in> set xs. sl_MAC x \<noteq> sl_MAC y \<and> sl_IP x \<noteq> sl_IP y"
    using EqualFold_refl [of L "sl_MAC y"] by metis
  then have "sl_MAC y \<notin> sl_MAC ` set xs" and "sl_IP y \<notin> sl_IP ` set xs"
    by force+
  with assms(1,3) show ?thesis by (auto simp: statics_unique_def)
qed

lemma distinct_map_update:
  assumes "distinct (map f xs)" and "k < length xs" and "\<And>j. j < length xs \<Longrightarrow> j \<noteq> k \<Longrightarrow> f (xs ! j) \<noteq> f y"
  shows "distinct (map f (xs[k := y]))"
proof (unfold distinct_conv_nth, intro allI impI)
  fix i j
  assume "i < length (map f (xs[k := y]))" "j < length (map f (xs[k := y]))" "i \<noteq> j"
  with assms(1,2) assms(3) [of i] assms(3) [of j] show "map f (xs[k := y]) ! i \<noteq> map f (xs[k := y]) ! j"
    by (auto simp: nth_list_update distinct_conv_nth)
qed

lemma statics_unique_update:
  assumes "statics_unique xs" and "distinct (map sl_ID xs)" and "k < length xs" and "sl_ID (xs ! k) = sl_ID y"
    and "ensureStaticUnique L y (sl_ID y) xs = Inr u"
  shows "statics_unique (xs[k := y])"
proof -
  have o: "sl_MAC (xs ! j) \<noteq> sl_MAC y \<and> sl_IP (xs ! j) \<noteq> sl_IP y" if "j < length xs" "j \<noteq> k" for j
  proof -
    have "sl_ID (xs ! j) \<noteq> sl_ID y"
      using nth_unique_key [OF assms(2)] that assms(3,4) by auto
    moreover have "xs ! j \<in> set xs" using that by simp
    ultimately show ?thesis
      using assms(5) EqualFold_refl [of L "sl_MAC y"] unfolding ensureStaticUnique_Inr by metis
  qed
  have "[] \<notin> sl_ID ` set (xs[k := y])"
    using assms(1,3,4) by (metis (no_types, lifting) image_set map_update_same statics_unique_def)
  with assms(1,3) o show ?thesis
    unfolding statics_unique_def by (blast intro: distinct_map_update)
qed

lemma statics_unique_map_same:
  assumes "statics_unique xs" and "map sl_MAC ys = map sl_MAC xs" and "map sl_IP ys = map sl_IP xs"
    and "map sl_ID ys = map sl_ID xs"
  shows "statics_unique ys"
proof -
  have "sl_ID ` set ys = sl_ID ` set xs"
    using assms(4) by (metis image_set)
  with assms show ?thesis by (simp add: statics_unique_def)
qed

lemma statics_unique_filter: "statics_unique xs \<Longrightarrow> statics_unique (filter P xs)"
  by (auto simp: statics_unique_def distinct_map_filter_keep)

lemma switch_static [simp]:
  "sl_MAC (switch_item static_item on x) = sl_MAC x" "sl_IP (switch_item static_item on x) = sl_IP x"
  "sl_ID (switch_item static_item on x) = sl_ID x"
  by (simp_all add: switch_item_def static_item_def)

lemma statics_unique_enable:
  "statics_unique xs \<Longrightarrow> enable_item static_item i on xs = Inr ys \<Longrightarrow> statics_unique ys"
  by (erule statics_unique_map_same [of xs])
    (auto simp: enable_item_def index_item_Some intro!: map_update_same split: option.splits)

lemma statics_unique_batch:
  assumes "statics_unique xs" and "batch_items static_item action ids xs = Inr ys"
  shows "statics_unique ys"
proof (cases "action = ''delete''")
  case True
  with assms show ?thesis by (auto simp: batch_items_def statics_unique_filter)
next
  case False
  with assms(2) obtain on where "ys = map (\<lambda>x. if it_ID static_item x \<in> ids then switch_item static_item on x else x) xs"
    by (auto simp: batch_items_def Let_def split: if_splits)
  with assms(1) show ?thesis by (auto intro!: statics_unique_map_same [of xs])
qed

lemma cryptoID_nonempty:
  assumes "cryptoID (c # p) s = (r, s')"
  obtains i where "r = Inr (c # i)" and "sv_be s' = sv_be s"
  using assms by (auto simp: cryptoID_be)

lemma fix_loop_unique:
  assumes "fix_loop L iface ls xs n s = (Inr (ys, m), s')" and "statics_unique xs"
  shows "statics_unique ys \<and> sv_be s' = sv_be s"
  using assms
proof (induction ls arbitrary: xs n s)
  case Nil
  then show ?case by (simp add: ret_def)
next
  case (Cons l ls)
  show ?case
  proof (cases "le_Static l \<or> (iface \<noteq> [] \<and> le_Interface l \<noteq> iface)")
    case True
    with Cons show ?thesis by simp
  next
    case False
    show ?thesis
    proof (cases "validateStatic (lease_cand l)")
      case (Inl e)
      with Cons False show ?thesis by simp
    next
      case cand: (Inr c)
      show ?thesis
      proof (cases "ensureStaticUnique L c [] xs")
        case (Inl e)
        with Cons False cand show ?thesis by simp
      next
        case (Inr u)
        obtain i s1 where c1: "cryptoID ''host'' s = (Inr i, s1)" and i: "i \<noteq> []" and be: "sv_be s1 = sv_be s"
          by (metis cryptoID_nonempty list.distinct(1) surj_pair)
        let ?y = "c\<lparr>sl_ID := i, sl_Managed := True\<rparr>"
        have "ensureStaticUnique L ?y [] xs = Inr u"
          using Inr by (simp add: ensureStaticUnique_Inr)
        then have "statics_unique (xs @ [?y])"
          using Cons.prems(2) i by (intro statics_unique_append) auto
        moreover have "fix_loop L iface ls (xs @ [?y]) (Suc n) s1 = (Inr (ys, m), s')"
          using Cons.prems(1) False cand Inr c1 by (simp add: bindE_def)
        ultimately show ?thesis using Cons.IH be by auto
      qed
    qed
  qed
qed

text \<open>The operations on reservations.\<close>

datatype static_op = OpCreate StaticLease | OpReplace string StaticLease | OpRemove string
  | OpSwitch string bool | OpBatch string "string list" | OpARP bool | OpFix string

fun static_step_op :: "lib \<Rightarrow> static_op \<Rightarrow> store svc \<Rightarrow> store svc" where
  "static_step_op L (OpCreate x) s = snd (CreateStatic L store_backend x s)"
| "static_step_op L (OpReplace i x) s = snd (UpdateStatic L store_backend i x s)"
| "static_step_op L (OpRemove i) s = snd (DeleteStatic store_backend i s)"
| "static_step_op L (OpSwitch i on) s = snd (SetStaticEnabled store_backend i on s)"
| "static_step_op L (OpBatch action ids) s = snd (BatchStatics store_backend action ids s)"
| "static_step_op L (OpARP on) s = snd (SetARPBind store_backend on s)"
| "static_step_op L (OpFix iface) s = snd (FixSubnet L store_backend iface s)"

lemma statics_items: "store_statics.items s = S_Statics (store_state s)"
  by (simp add: store_statics.items_def store_state_def)

lemma statics_coll_item [simp]: "c_item (statics_coll B) = static_item"
  by (simp add: statics_coll_def)

lemma statics_mutate_unique:
  assumes "coll_mutate (statics_coll store_backend) action fn s = (r, s')"
    and "statics_unique (S_Statics (store_state s))"
    and "\<And>ys. fn (S_Statics (store_state s)) = Inr ys \<Longrightarrow> statics_unique ys"
  shows "statics_unique (S_Statics (store_state s'))"
proof (cases "fn (store_statics.items s)")
  case (Inl e)
  with assms(1,2) show ?thesis by (auto simp: store_statics.coll_mutate_Inl)
next
  case (Inr ys)
  then have "store_statics.items s' = ys"
    using assms(1) store_statics.coll_store_spec(1) by (simp add: store_statics.coll_mutate_Inr)
  with assms(3) Inr show ?thesis by (simp add: statics_items)
qed

lemma CreateStatic_unique:
  assumes "statics_unique (S_Statics (store_state s))"
  shows "statics_unique (S_Statics (store_state (snd (CreateStatic L store_backend x s))))"
proof (cases "validateStatic x")
  case (Inl e)
  with assms show ?thesis by (simp add: CreateStatic_def bindE_def liftE_def)
next
  case (Inr y)
  obtain r s' where c: "coll_create (statics_coll store_backend) (ensureStaticUnique L y []) (cryptoID ''host'') y s = (r, s')"
    by (cases "coll_create (statics_coll store_backend) (ensureStaticUnique L y []) (cryptoID ''host'') y s")
  then have s': "snd (CreateStatic L store_backend x s) = s'"
    using Inr by (simp add: CreateStatic_def)
  obtain i s1 where i: "cryptoID ''host'' s = (Inr i, s1)" "i \<noteq> []" "sv_be s1 = sv_be s"
    by (metis cryptoID_nonempty list.distinct(1) surj_pair)
  let ?z = "it_setManaged static_item True (it_setID static_item i y)"
  have z: "?z = y\<lparr>sl_ID := i, sl_Managed := True\<rparr>"
    by (simp add: static_item_def)
  show ?thesis
  proof (cases "ensureStaticUnique L y [] (S_Statics (store_state s))")
    case (Inl e)
    with store_statics.coll_create_spec [OF c i(1,3)] assms s' show ?thesis
      by (simp add: statics_items)
  next
    case u: (Inr u)
    then have "statics_unique (S_Statics (store_state s) @ [?z])"
      using assms i(2) by (intro statics_unique_append) (auto simp: z ensureStaticUnique_Inr)
    with store_statics.coll_create_spec [OF c i(1,3)] u s' show ?thesis
      by (simp add: statics_items Let_def)
  qed
qed

lemma UpdateStatic_unique:
  assumes "statics_unique (S_Statics (store_state s))" and "distinct (map sl_ID (S_Statics (store_state s)))"
  shows "statics_unique (S_Statics (store_state (snd (UpdateStatic L store_backend i x s))))"
proof (cases "validateStatic x")
  case (Inl e)
  with assms show ?thesis by (simp add: UpdateStatic_def bindE_def liftE_def)
next
  case (Inr y)
  obtain r s' where c: "coll_update (statics_coll store_backend) (ensureStaticUnique L y i) i y s = (r, s')"
    by (cases "coll_update (statics_coll store_backend) (ensureStaticUnique L y i) i y s")
  then have s': "snd (UpdateStatic L store_backend i x s) = s'"
    using Inr by (simp add: UpdateStatic_def)
  from c have "statics_unique (S_Statics (store_state s'))"
    unfolding coll_update_def
  proof (cases rule: store_statics.coll_mutate_item_split)
    case (1 e)
    with assms show ?thesis by simp
  next
    case (2 z zs)
    then obtain k where k: "index_item static_item i (S_Statics (store_state s)) = Some k"
      and u: "ensureStaticUnique L y i (S_Statics (store_state s)) = Inr ()"
      and z: "z = y\<lparr>sl_ID := i, sl_Managed := True\<rparr>" "zs = (S_Statics (store_state s))[k := z]"
      by (auto simp: update_item_def statics_items bindR_eq_Inr Let_def static_item_def split: option.splits)
    have "statics_unique zs"
      unfolding z(2)
      by (rule statics_unique_update [of _ _ _ L "()"])
        (use assms k u z(1) in \<open>auto simp: index_item_Some ensureStaticUnique_Inr static_item_def\<close>)
    with 2 show ?thesis by (simp add: statics_items)
  qed
  with s' show ?thesis by simp
qed

lemma FixSubnet_unique:
  assumes "statics_unique (S_Statics (store_state s))"
  shows "statics_unique (S_Statics (store_state (snd (FixSubnet L store_backend iface s))))"
proof -
  have l: "on_be (be_Leases store_backend) s = (Inr (simulated_leases (store_state s)), s)"
    by (simp add: on_be_def store_backend_def store_Leases_def read_st_def store_state_def)
  have g: "on_be (staticsAndARP store_backend) s = (Inr (S_Statics (store_state s), S_ARPBind (store_state s)), s)"
    by (simp add: on_be_def store_coll_simps store_state_def)
  obtain r s1 where f: "fix_loop L iface (simulated_leases (store_state s)) (S_Statics (store_state s)) 0 s = (r, s1)"
    by (cases "fix_loop L iface (simulated_leases (store_state s)) (S_Statics (store_state s)) 0 s")
  have never: "\<exists>v. fst (fix_loop L iface ls xs n t) = Inr v" for ls xs n and t :: "store svc"
    by (induction ls arbitrary: xs n t) (auto simp: ret_def bindE_def cryptoID_be split: sum.splits)
  then obtain ys m where r: "r = Inr (ys, m)"
    using f by (metis fst_conv surj_pair)
  with f have u: "statics_unique ys \<and> sv_be s1 = sv_be s"
    using assms fix_loop_unique by blast
  show ?thesis
  proof (cases "m = 0")
    case True
    with l g f r u assms show ?thesis
      by (simp add: FixSubnet_def bindE_def ret_def store_state_def)
  next
    case False
    obtain r2 s2 where st: "coll_store (statics_coll store_backend) ys (S_ARPBind (store_state s)) ''create'' s1 = (r2, s2)"
      by (cases "coll_store (statics_coll store_backend) ys (S_ARPBind (store_state s)) ''create'' s1")
    have "S_ARPBind (store_state s) = (S_ARPBind \<circ> sb_st) (sv_be s1)"
      using u by (simp add: store_state_def)
    with st have "store_statics.items s2 = ys"
      by (intro store_statics.coll_store_spec(1)) simp
    moreover have "snd (FixSubnet L store_backend iface s) = s2"
      using l g f r False st by (simp add: FixSubnet_def bindE_def ret_def split: sum.splits)
    ultimately show ?thesis using u by (simp add: statics_items)
  qed
qed


section \<open>Pools and addresses\<close>

lemma coll_create_item:
  assumes "coll_create C chk mkid x s = (Inr y, s')"
  obtains i where "y = it_setManaged (c_item C) True (it_setID (c_item C) i x)"
  using assms by (auto simp: coll_create_def Let_def ret_def elim!: bindE_InrE)

lemma servers_coll_item [simp]: "c_item (servers_coll B) = server_item"
  by (simp add: servers_coll_def)

lemma DHCPStartLimit_defined:
  assumes "SameSubnet s ip m" and "SameSubnet e ip m" and "IPv4ToUint32 s = Some su" and "IPv4ToUint32 e = Some eu"
    and "su \<le> eu"
  obtains st n where "DHCPStartLimit ip m s e = Some (st, n)"
proof -
  from assms(1,3) obtain iu mu where a: "IPv4ToUint32 ip = Some iu" "IPv4ToUint32 m = Some mu" "su AND mu = iu AND mu"
    by (auto simp: SameSubnet_iff)
  have "iu AND mu \<le> su"
    using a(3) word_and_le1 [of mu su] word_and_le2 [of su mu] by (metis)
  with a assms show ?thesis
    by (intro that) (auto simp: DHCPStartLimit_def NetworkBase_def or0_def Let_def not_less)
qed

text \<open>when the service creates a DHCP pool on an interface whose address and netmask it knows, the pool it stores carries the netmask of the interface, every address of the pool lies in the subnet of the interface, and the start offset and limit that dnsmasq needs exist, so the projection cannot truncate the pool.\<close>

theorem created_pool_fits_interface:
  assumes "CreateDHCPServer B x s = (Inr p, s')" and "be_Interfaces B (sv_be s) = (Inr ifaces, b)"
    and "find (\<lambda>i. if_Name i = ds_Interface p) ifaces = Some i"
    and "IsIPv4 (if_IPv4 i)" and "IsValidNetmask (if_Netmask i)"
  shows "ds_Netmask p = if_Netmask i \<and>
    (\<forall>u. IPInRange u (ds_IPStart p) (ds_IPEnd p) \<longrightarrow> SameSubnet u (if_IPv4 i) (if_Netmask i)) \<and>
    (\<exists>st n. DHCPStartLimit (if_IPv4 i) (if_Netmask i) (ds_IPStart p) (ds_IPEnd p) = Some (st, n) \<and> 0 \<le> st \<and> 0 < n)"
proof -
  from assms(1,2) obtain y z where v: "validateDHCPServer x = Inr y" and c: "checkPool y ifaces = Inr z"
    and "\<exists>t t'. coll_create (servers_coll B) no_check (cryptoID ''dhcp'') (z\<lparr>ds_Remaining := 0\<rparr>) t = (Inr p, t')"
    by (fastforce simp: CreateDHCPServer_def checkPoolSubnet_def bindE_def liftE_def tryE_def on_be_def ret_def
        split: sum.splits prod.splits)
  then obtain j where p: "p = it_setManaged server_item True (it_setID server_item j (z\<lparr>ds_Remaining := 0\<rparr>))"
    using coll_create_item by (metis servers_coll_item)
  from c have yz: "ds_Interface y = ds_Interface z" "ds_IPStart y = ds_IPStart z" "ds_IPEnd y = ds_IPEnd z"
    by (auto simp: checkPool_def split: option.splits if_splits)
  have "if_IPv4 i \<noteq> []" and "if_Netmask i \<noteq> []"
    using assms(4,5) by (auto simp: eval_simps)
  with c yz assms(3) p have n: "ds_Netmask p = if_Netmask i"
    and s1: "SameSubnet (ds_IPStart p) (if_IPv4 i) (if_Netmask i)"
    and s2: "SameSubnet (ds_IPEnd p) (if_IPv4 i) (if_Netmask i)"
    by (auto simp: checkPool_def server_item_def split: if_splits)
  from validateDHCPServer_pool [OF v] yz p obtain su eu where
    "IPv4ToUint32 (ds_IPStart p) = Some su" "IPv4ToUint32 (ds_IPEnd p) = Some eu" "su \<le> eu"
    by (auto simp: server_item_def)
  with s1 s2 obtain st k where "DHCPStartLimit (if_IPv4 i) (if_Netmask i) (ds_IPStart p) (ds_IPEnd p) = Some (st, k)"
    using DHCPStartLimit_defined by blast
  with dhcp_start_limit_correct [OF this] assms(5) n show ?thesis by blast
qed

definition sample_svc :: "store svc" where
  "sample_svc = \<lparr>sv_be = (sample_store 9)\<lparr>sb_st := seedState\<rparr>, sv_bus = None, sv_rand = (\<lambda>_. 171), sv_clock = (\<lambda>_. 0)\<rparr>"

definition sample_pool :: DHCPServer where
  "sample_pool = zeroDHCPServer\<lparr>ds_Interface := ''lan2'', ds_IPStart := ''192.168.2.10'', ds_IPEnd := ''192.168.2.20''\<rparr>"

lemmas service_run = bindE_def on_be_def liftE_def ret_def fail_def coll_store_def coll_create_def coll_mutate_def
  coll_mutate_item_def coll_update_def coll_delete_def coll_toggle_def coll_enable_def coll_batch_def
  plain_load_def plain_save_def cryptoID_be publish_def no_check_def save_st_def read_st_def
  flushLocked_def flush_disk_def sample_svc_def sample_eval Let_def coll_defs store_defs

lemma sample_pool_valid: "validateDHCPServer sample_pool = Inr sample_pool"
  by (simp add: sample_pool_def eval_simps)

lemma sample_pool_checked: "checkPool sample_pool simulated_ifaces = Inr (sample_pool\<lparr>ds_Netmask := ''255.255.255.0''\<rparr>)"
proof -
  have "SameSubnet ''192.168.2.10'' ''192.168.2.1'' ''255.255.255.0''"
    and "SameSubnet ''192.168.2.20'' ''192.168.2.1'' ''255.255.255.0''"
    by (simp_all add: eval_simps)
  then show ?thesis
    by (simp add: checkPool_def simulated_ifaces_def simulated_iface_def sample_pool_def)
qed

lemma sample_pool_created: "\<exists>p s'. CreateDHCPServer store_backend sample_pool sample_svc = (Inr p, s') \<and>
  ds_Interface p = ''lan2'' \<and> ds_IPStart p = ''192.168.2.10'' \<and> ds_IPEnd p = ''192.168.2.20''"
  using sample_pool_valid sample_pool_checked
  by (simp add: CreateDHCPServer_def checkPoolSubnet_def tryE_def store_be_Interfaces service_run)
    (simp add: store_backend_def service_run sample_pool_def server_item_def)

theorem created_pool_fits_interface_witness:
  "\<exists>p s'. CreateDHCPServer store_backend sample_pool sample_svc = (Inr p, s') \<and> ds_Netmask p = ''255.255.255.0'' \<and>
     (\<forall>u. IPInRange u ''192.168.2.10'' ''192.168.2.20'' \<longrightarrow> SameSubnet u ''192.168.2.1'' ''255.255.255.0'')"
proof -
  obtain p s' where p: "CreateDHCPServer store_backend sample_pool sample_svc = (Inr p, s')"
    "ds_Interface p = ''lan2''" "ds_IPStart p = ''192.168.2.10''" "ds_IPEnd p = ''192.168.2.20''"
    using sample_pool_created by blast
  let ?i = "\<lparr>if_Name = ''lan2'', if_IPv4 = ''192.168.2.1'', if_Netmask = ''255.255.255.0'', if_Prefix = 24, if_Up = True\<rparr>"
  have "IsIPv4 (if_IPv4 ?i)" and "IsValidNetmask (if_Netmask ?i)"
    and "find (\<lambda>i. if_Name i = ds_Interface p) simulated_ifaces = Some ?i"
    using p by (simp_all add: eval_simps simulated_ifaces_def simulated_iface_def)
  then show ?thesis
    using created_pool_fits_interface [OF p(1) store_be_Interfaces] p by auto
qed

text \<open>The remaining-address count of a pool is its size minus the leases inside it, never negative and never more than the size, and zero for a range that is not valid.\<close>

lemma remaining_addresses:
  "remainingAddrs srv leases = (case RangeCount (ds_IPStart srv) (ds_IPEnd srv) of
       None \<Rightarrow> 0
     | Some n \<Rightarrow> max 0 (n - int (length (filter (\<lambda>l. IPInRange (le_IP l) (ds_IPStart srv) (ds_IPEnd srv)) leases)))) \<and>
   remainingAddrs srv leases \<in> {0..(case RangeCount (ds_IPStart srv) (ds_IPEnd srv) of None \<Rightarrow> 0 | Some n \<Rightarrow> n)}"
  using RangeCount_pos [of "ds_IPStart srv" "ds_IPEnd srv"]
  by (auto simp: remainingAddrs_def Let_def split: option.splits)

lemma free_loop_spec:
  assumes "u \<le> e" and "e \<noteq> - 1"
  shows "(free_loop u e used = Some [] \<and> (\<forall>v. u \<le> v \<and> v \<le> e \<longrightarrow> v \<in> used)) \<or>
    (\<exists>v. free_loop u e used = Some (Uint32ToIPv4 v) \<and> u \<le> v \<and> v \<le> e \<and> v \<notin> used \<and>
       (\<forall>w. u \<le> w \<and> w < v \<longrightarrow> w \<in> used))"
  using assms
proof (induction "unat e - unat u" arbitrary: u rule: less_induct)
  case less
  show ?case
  proof (cases "u \<in> used")
    case False
    then have "free_loop u e used = Some (Uint32ToIPv4 u)"
      using less.prems by (simp add: free_loop.simps)
    with False less.prems show ?thesis by fastforce
  next
    case True
    show ?thesis
    proof (cases "u = e")
      case eq: True
      have "\<not> e + 1 \<le> e"
        using less.prems(2) by (simp add: word_le_nat_alt unat_succ)
      then have "free_loop u e used = Some []"
        using True eq by (simp add: free_loop.simps)
      with True eq show ?thesis by auto
    next
      case neq: False
      then have "u < e" using less.prems(1) by simp
      then have lt: "unat u < unat e" and u: "u \<noteq> - 1"
        by (auto simp: word_less_nat_alt [symmetric] word_order.extremum_strict)
      then have s: "u + 1 \<le> e" and "unat e - unat (u + 1) < unat e - unat u"
        by (simp_all add: word_le_nat_alt unat_succ)
      note IH = less.hyps [OF \<open>unat e - unat (u + 1) < unat e - unat u\<close> s less.prems(2)]
      have step: "free_loop u e used = free_loop (u + 1) e used"
        using True less.prems(1) by (subst free_loop.simps) simp
      have nxt: "u \<le> v \<longleftrightarrow> v = u \<or> u + 1 \<le> v" for v
        using u by (auto simp: word_le_nat_alt unat_succ word_unat_eq_iff)
      show ?thesis
        using IH True unfolding step nxt by blast
    qed
  qed
qed

text \<open>for a pool that does not end at 255.255.255.255 the search for a free address always returns: the empty string if every address of the pool is in use, and otherwise the lowest address of the pool that is not.\<close>

theorem next_free_ip:
  assumes "IPv4ToUint32 (ds_IPStart pool) = Some su" and "IPv4ToUint32 (ds_IPEnd pool) = Some eu" and "su \<le> eu"
    and "eu \<noteq> - 1"
  shows "(nextFreeIP pool used = Some [] \<and> (\<forall>v. su \<le> v \<and> v \<le> eu \<longrightarrow> v \<in> used)) \<or>
    (\<exists>v. nextFreeIP pool used = Some (Uint32ToIPv4 v) \<and> su \<le> v \<and> v \<le> eu \<and> v \<notin> used \<and>
       (\<forall>w. su \<le> w \<and> w < v \<longrightarrow> w \<in> used))"
  using free_loop_spec [OF assms(3,4), of used] assms
  by (auto simp: nextFreeIP_def not_less dest: leD)

definition lan2_pool :: DHCPServer where
  "lan2_pool = zeroDHCPServer\<lparr>ds_IPStart := ''192.168.2.10'', ds_IPEnd := ''192.168.2.11''\<rparr>"

theorem next_free_ip_witness:
  "\<exists>ip. nextFreeIP lan2_pool {3232236042} = Some ip \<and> ip = ''192.168.2.11''"
proof -
  have a: "IPv4ToUint32 (ds_IPStart lan2_pool) = Some 3232236042" "IPv4ToUint32 (ds_IPEnd lan2_pool) = Some 3232236043"
    by (simp_all add: lan2_pool_def eval_simps)
  have b: "(3232236042 :: u32) \<le> 3232236043" "(3232236043 :: u32) \<noteq> - 1"
    by simp_all
  have v: "v = 3232236043" if "3232236042 \<le> v" "v \<le> 3232236043" "v \<notin> {3232236042}" for v :: u32
    using that by (simp add: word_le_nat_alt word_unat_eq_iff)
  from next_free_ip [OF a b, of "{3232236042}"] have
    "nextFreeIP lan2_pool {3232236042} = Some (Uint32ToIPv4 3232236043)"
    using v by (auto dest: spec [of _ 3232236043])
  then show ?thesis by (simp add: eval_simps)
qed

text \<open>For a pool that ends at 255.255.255.255 and is full, the counter wraps around and the search leaves the pool: it proposes 0.0.0.0.\<close>

lemma next_free_ip_wraps:
  "nextFreeIP (zeroDHCPServer\<lparr>ds_IPStart := ''255.255.255.254'', ds_IPEnd := ''255.255.255.255''\<rparr>)
     {4294967294, 4294967295} = Some ''0.0.0.0''"
proof -
  have "IPv4ToUint32 ''255.255.255.254'' = Some 4294967294" and "IPv4ToUint32 ''255.255.255.255'' = Some 4294967295"
    and "Uint32ToIPv4 0 = ''0.0.0.0''"
    by (simp_all add: eval_simps)
  then show ?thesis
    by (simp add: nextFreeIP_def free_loop.simps [of 4294967294] free_loop.simps [of 4294967295]
        free_loop.simps [of 0] word_4294967296)
qed

section \<open>Events\<close>

fun edit_action :: "'a edit \<Rightarrow> string" where
  "edit_action (EditUpdate i x) = ''update''"
| "edit_action (EditDelete i) = ''delete''"
| "edit_action (EditEnable i on) = ''toggle''"
| "edit_action (EditBatch action ids) = action"

text \<open>The bus after an operation with result \<open>r\<close>: one event if it succeeded, none if it failed.\<close>

definition bus_after :: "EventType \<Rightarrow> string \<Rightarrow> nat \<Rightarrow> err + 'x \<Rightarrow> 'b svc \<Rightarrow> NetChangeData Bus option" where
  "bus_after t action n r s = (case r of
     Inl _ \<Rightarrow> sv_bus s
   | Inr _ \<Rightarrow> map_option (Publish t [] \<lparr>nc_Action = action, nc_Count = int n\<rparr> (sv_clock s 0)) (sv_bus s))"

lemma bus_after_Inl [simp]: "bus_after t a n (Inl e) s = sv_bus s"
  by (simp add: bus_after_def)

lemma bus_after_Inr: "bus_after t a n (Inr x) s = bus_after t a n (Inr y) s"
  by (simp add: bus_after_def)

context coll_laws
begin

lemma coll_store_bus:
  "coll_store C ys (ctx (sv_be s)) action s = (r, s') \<Longrightarrow>
   items s' = ys \<and> sv_bus s' = bus_after (c_event C) action (length ys) r s"
  using coll_store_spec(1,5) by (simp add: bus_after_def)

lemma coll_mutate_bus:
  assumes "coll_mutate C action fn s = (r, s')"
  shows "sv_bus s' = bus_after (c_event C) action (length (items s')) r s"
proof (cases "fn (items s)")
  case (Inl e)
  with assms show ?thesis by (auto simp: coll_mutate_Inl)
next
  case (Inr ys)
  with assms have st: "coll_store C ys (ctx (sv_be s)) action s = (r, s')"
    by (simp add: coll_mutate_Inr)
  with coll_store_bus [OF st] show ?thesis by simp
qed

lemma coll_mutate_item_bus:
  assumes "coll_mutate_item C action fn s = (r, s')"
  shows "sv_bus s' = bus_after (c_event C) action (length (items s')) r s"
proof (cases "fn (items s)")
  case (Inl e)
  with assms show ?thesis by (auto simp: coll_mutate_item_Inl)
next
  case (Inr p)
  obtain y ys where p: "p = (y, ys)" by (cases p)
  obtain r1 s1 where st: "coll_store C ys (ctx (sv_be s)) action s = (r1, s1)"
    by (cases "coll_store C ys (ctx (sv_be s)) action s")
  with Inr p assms coll_store_bus [OF st] show ?thesis
    by (auto simp: coll_mutate_item_Inr intro: bus_after_Inr split: sum.splits)
qed

lemma coll_edit_bus:
  assumes "coll_edit C v e s = (r, s')"
  shows "sv_bus s' = bus_after (c_event C) (edit_action e) (length (items s')) r s"
proof -
  have tail: "sv_bus s' = bus_after (c_event C) action (length (items s')) r s"
    if "bindE m (\<lambda>x. ret (f x)) s = (r, s')"
      and "\<And>r t. m s = (r, t) \<Longrightarrow> sv_bus t = bus_after (c_event C) action (length (items t)) r s"
    for m :: "('b svc, 'x) act" and f action
    using that by (cases "m s") (auto simp: bindE_def ret_def intro: bus_after_Inr split: sum.splits)
  show ?thesis
  proof (cases e)
    case (EditUpdate i x)
    show ?thesis
    proof (cases "v x")
      case (Inl err)
      with EditUpdate assms show ?thesis by (auto simp: bindE_def liftE_def)
    next
      case (Inr y)
      with EditUpdate assms have "bindE (coll_update C no_check i y) (\<lambda>z. ret (Some z)) s = (r, s')"
        by (simp add: bindE_def liftE_def)
      from tail [OF this, of "''update''"] EditUpdate show ?thesis
        by (simp add: coll_update_def coll_mutate_item_bus)
    qed
  next
    case (EditDelete i)
    with assms have "bindE (coll_delete C i) (\<lambda>_. ret None) s = (r, s')" by simp
    from tail [OF this, of "''delete''"] EditDelete show ?thesis
      by (simp add: coll_delete_def coll_mutate_bus)
  next
    case (EditEnable i on)
    with assms have "bindE (coll_enable C i on) (\<lambda>_. ret None) s = (r, s')" by simp
    from tail [OF this, of "''toggle''"] EditEnable show ?thesis
      by (simp add: coll_enable_def coll_mutate_bus)
  next
    case (EditBatch action ids)
    with assms have "bindE (coll_batch C action ids) (\<lambda>_. ret None) s = (r, s')" by simp
    from tail [OF this, of action] EditBatch show ?thesis
      by (simp add: coll_batch_def coll_mutate_bus)
  qed
qed

end

text \<open>on the store backend, an update, delete, toggle or batch of routes, policy rules, DNS records, domain routes, IPv6 LANs or prefix reservations that succeeds publishes exactly one event on the bus, of the type of the collection, with the action and the number of items the collection has afterwards, and one that fails publishes none.\<close>

theorem edits_publish:
  "sv_bus (snd (route_edit store_backend e1 s)) =
     bus_after TypeRouteChanged (edit_action e1) (length (S_Routes (store_state (snd (route_edit store_backend e1 s)))))
       (fst (route_edit store_backend e1 s)) s \<and>
   sv_bus (snd (rule_edit store_backend e2 s)) =
     bus_after TypeRouteChanged (edit_action e2) (length (S_PolicyRules (store_state (snd (rule_edit store_backend e2 s)))))
       (fst (rule_edit store_backend e2 s)) s \<and>
   sv_bus (snd (record_edit store_backend e3 s)) =
     bus_after TypeDNSChanged (edit_action e3) (length (S_DNSRecords (store_state (snd (record_edit store_backend e3 s)))))
       (fst (record_edit store_backend e3 s)) s \<and>
   sv_bus (snd (domroute_edit store_backend e4 s)) =
     bus_after TypeDNSChanged (edit_action e4) (length (S_DNSDomainRoutes (store_state (snd (domroute_edit store_backend e4 s)))))
       (fst (domroute_edit store_backend e4 s)) s \<and>
   sv_bus (snd (lan6_edit store_backend e5 s)) =
     bus_after TypeIPv6Changed (edit_action e5) (length (S_LANv6s (store_state (snd (lan6_edit store_backend e5 s)))))
       (fst (lan6_edit store_backend e5 s)) s \<and>
   sv_bus (snd (prefix6_edit store_backend e6 s)) =
     bus_after TypeIPv6Changed (edit_action e6) (length (S_PrefixStaticsV6 (store_state (snd (prefix6_edit store_backend e6 s)))))
       (fst (prefix6_edit store_backend e6 s)) s"
  using store_routes.coll_edit_bus [of validateRoute e1 s, OF prod.collapse [symmetric]]
    store_rules.coll_edit_bus [of validatePolicyRule e2 s, OF prod.collapse [symmetric]]
    store_records.coll_edit_bus [of validateDNSRecord e3 s, OF prod.collapse [symmetric]]
    store_domroutes.coll_edit_bus [of validateDNSDomainRoute e4 s, OF prod.collapse [symmetric]]
    store_lan6s.coll_edit_bus [of validateLANv6 e5 s, OF prod.collapse [symmetric]]
    store_prefix6s.coll_edit_bus [of validatePrefixStaticV6 e6 s, OF prod.collapse [symmetric]]
  unfolding edits_are_coll_edits
  by (simp add: store_state_def store_routes.items_def store_rules.items_def store_records.items_def
      store_domroutes.items_def store_lan6s.items_def store_prefix6s.items_def coll_defs)


end
