(* ===== verification/ImportProps.thy ===== *)
theory ImportProps
  imports ServiceProps
begin

text \<open>
  Import and export of the configuration: an import is checked as a whole before the first write,
  and what export and import carry over.
\<close>

section \<open>Import and export\<close>

text \<open>
  An action that succeeds exactly when \<open>ok\<close> holds and leaves the backend and the bus alone: what
  the first phase of an import is made of.
\<close>

definition quiet :: "bool \<Rightarrow> ('b svc, 'a) act \<Rightarrow> bool" where
  "quiet ok m \<longleftrightarrow> (\<forall>s. (\<exists>x. fst (m s) = Inr x) = ok \<and> sv_be (snd (m s)) = sv_be s \<and> sv_bus (snd (m s)) = sv_bus s)"

lemma quiet_ret: "quiet True (ret x)"
  by (simp add: quiet_def ret_def)

lemma quiet_liftE: "quiet (\<exists>x. r = Inr x) (liftE r)"
  by (simp add: quiet_def liftE_def)

lemma quiet_cryptoID: "quiet True (cryptoID p)"
  by (simp add: quiet_def cryptoID_be)

lemma quiet_bindE:
  assumes "quiet a m" and "\<And>x. quiet b (k x)"
  shows "quiet (a \<and> b) (bindE m k)"
proof (unfold quiet_def, intro allI)
  fix s
  obtain r s1 where m: "m s = (r, s1)" by (cases "m s")
  with assms(1) have "(\<exists>x. r = Inr x) = a" "sv_be s1 = sv_be s" "sv_bus s1 = sv_bus s"
    unfolding quiet_def by (metis fst_conv, metis snd_conv, metis snd_conv)
  with m assms(2) show "(\<exists>x. fst (bindE m k s) = Inr x) = (a \<and> b) \<and>
      sv_be (snd (bindE m k s)) = sv_be s \<and> sv_bus (snd (bindE m k s)) = sv_bus s"
    by (cases r) (auto simp: bindE_def quiet_def)
qed

lemma quiet_if: "quiet b m \<Longrightarrow> quiet b n \<Longrightarrow> quiet b (if c then m else n)"
  by simp

lemma bindE_err: "m s = (Inl e, t) \<Longrightarrow> bindE m k s = (Inl e, t)"
  by (simp add: bindE_def)

lemma quiet_bindR: "quiet (\<exists>y. r = Inr y) (bindE (liftE r) (\<lambda>x. k x))" if "\<And>x. quiet True (k x)"
  using quiet_bindE [OF quiet_liftE that] by simp

definition valid_all :: "('a \<Rightarrow> err + 'a) \<Rightarrow> 'a list \<Rightarrow> bool" where
  "valid_all v xs \<longleftrightarrow> (\<forall>x \<in> set xs. \<exists>y. v x = Inr y)"

lemma mapA_Cons: "mapA f (x # xs) = bindE (f x) (\<lambda>y. bindE (mapA f xs) (\<lambda>ys. ret (y # ys)))"
  by (simp add: bindE_def ret_def fun_eq_iff split: prod.split sum.split)

lemma quiet_mapA:
  assumes "\<And>x. quiet (\<exists>y. v x = Inr y) (f x)"
  shows "quiet (valid_all v xs) (mapA f xs)"
proof (induction xs)
  case Nil
  have "mapA f [] = ret []" by (simp add: ret_def fun_eq_iff)
  then show ?case using quiet_ret [of "[]"] by (simp add: valid_all_def)
next
  case (Cons x xs)
  have "quiet ((\<exists>y. v x = Inr y) \<and> valid_all v xs \<and> True) (mapA f (x # xs))"
    unfolding mapA_Cons by (intro quiet_bindE assms Cons.IH quiet_ret)
  then show ?case by (simp add: valid_all_def del: mapA.simps)
qed

lemma quiet_import_item: "quiet (\<exists>y. v x = Inr y) (import_item I v p x)"
proof -
  have "quiet (True \<and> True) (bindE (cryptoID p) (\<lambda>i. ret (it_setID I i y)))" for y
    by (intro quiet_bindE quiet_cryptoID quiet_ret)
  then have "quiet (True \<and> True) (bindE (if it_ID I y = [] then bindE (cryptoID p) (\<lambda>i. ret (it_setID I i y)) else ret y)
      (\<lambda>x. ret (it_setManaged I True x)))" for y
    by (intro quiet_bindE quiet_if quiet_ret) simp
  then show ?thesis
    unfolding import_item_def by (intro quiet_bindR) (simp only: simp_thms)
qed

text \<open>Every item of an import passes its validator.\<close>

definition import_ok :: "State \<Rightarrow> bool" where
  "import_ok st \<longleftrightarrow> valid_all validateDHCPServer (S_DHCPServers st) \<and> valid_all validateStatic (S_Statics st) \<and>
     valid_all validateRoute (S_Routes st) \<and> valid_all validateACLEntry (acl_Entries (S_ACL st)) \<and>
     valid_all validateWANv6 (S_WANv6s st) \<and> valid_all validateLANv6 (S_LANv6s st) \<and>
     valid_all validatePrefixStaticV6 (S_PrefixStaticsV6 st) \<and>
     valid_all validateACLv6Entry (acl6_Entries (S_ACLv6 st)) \<and>
     (\<exists>d. validateDNSSettings (S_DNS st) = Inr d) \<and> (\<exists>d. validateDNSDoH (S_DNSDoH st) = Inr d) \<and>
     valid_all validateDNSRecord (S_DNSRecords st) \<and> valid_all validateDNSDomainRoute (S_DNSDomainRoutes st) \<and> True"

lemma quiet_import_validate: "quiet (import_ok st) (import_validate st)"
proof -
  have lan: "quiet (\<exists>y. validateLANv6 l = Inr y) (bindE (liftE (validateLANv6 l)) (\<lambda>l. ret (l\<lparr>l6_Managed := True\<rparr>)))" for l
    by (intro quiet_bindR quiet_ret)
  show ?thesis
    unfolding import_validate_def import_ok_def
    by (intro quiet_bindE quiet_mapA quiet_import_item lan quiet_liftE quiet_ret)
qed

text \<open>C33: an import with one item that its validator rejects fails without touching the backend and without an event.\<close>

theorem import_rejects_as_a_whole:
  assumes "\<not> import_ok st"
  shows "\<exists>e t. ImportJSON B (Inr st) s = (Inl e, t) \<and> sv_be t = sv_be s \<and> sv_bus t = sv_bus s"
proof -
  obtain r t where v: "import_validate st s = (r, t)" by (cases "import_validate st s")
  with quiet_import_validate [of st] assms have "\<nexists>x. r = Inr x" and "sv_be t = sv_be s" "sv_bus t = sv_bus s"
    unfolding quiet_def by (metis fst_conv, metis snd_conv, metis snd_conv)
  then show ?thesis
    using v by (cases r) (auto simp: ImportJSON_def bindE_err)
qed

theorem import_rejects_as_a_whole_witness:
  "\<exists>e t. ImportJSON store_backend (Inr (zeroState\<lparr>S_Routes := [zeroRoute\<lparr>rt_Target := ''10.0.0.0'', rt_Prefix := 33\<rparr>]\<rparr>))
     sample_svc = (Inl e, t) \<and> sv_be t = sv_be sample_svc \<and> sv_bus t = sv_bus sample_svc"
proof (rule import_rejects_as_a_whole)
  have "validateRoute (zeroRoute\<lparr>rt_Target := ''10.0.0.0'', rt_Prefix := 33\<rparr>) = Inl (Err ''prefix 0-32'')"
    by (simp add: eval_simps)
  then show "\<not> import_ok (zeroState\<lparr>S_Routes := [zeroRoute\<lparr>rt_Target := ''10.0.0.0'', rt_Prefix := 33\<rparr>]\<rparr>)"
    by (simp add: import_ok_def valid_all_def)
qed

text \<open>
  A configuration an import leaves as it is: every item is a fixed point of its validator, has an
  id and is managed.
\<close>

definition settled :: "'a item \<Rightarrow> ('a \<Rightarrow> err + 'a) \<Rightarrow> 'a list \<Rightarrow> bool" where
  "settled I v xs \<longleftrightarrow> (\<forall>x \<in> set xs. v x = Inr x \<and> it_ID I x \<noteq> [] \<and> it_setManaged I True x = x)"

definition import_settled :: "State \<Rightarrow> bool" where
  "import_settled st \<longleftrightarrow> settled server_item validateDHCPServer (S_DHCPServers st) \<and>
     settled static_item validateStatic (S_Statics st) \<and> settled route_item validateRoute (S_Routes st) \<and>
     settled acl_item validateACLEntry (acl_Entries (S_ACL st)) \<and> settled wan6_item validateWANv6 (S_WANv6s st) \<and>
     settled lan6_item validateLANv6 (S_LANv6s st) \<and>
     settled prefix6_item validatePrefixStaticV6 (S_PrefixStaticsV6 st) \<and>
     settled acl6_item validateACLv6Entry (acl6_Entries (S_ACLv6 st)) \<and>
     validateDNSSettings (S_DNS st) = Inr (S_DNS st) \<and> validateDNSDoH (S_DNSDoH st) = Inr (S_DNSDoH st) \<and>
     settled record_item validateDNSRecord (S_DNSRecords st) \<and>
     settled domroute_item validateDNSDomainRoute (S_DNSDomainRoutes st) \<and>
     acl_Mode (S_ACL st) \<noteq> [] \<and> acl6_Mode (S_ACLv6 st) \<noteq> []"

lemma mapA_ret: "(\<And>x. x \<in> set xs \<Longrightarrow> f x = ret x) \<Longrightarrow> mapA f xs = ret xs"
  by (induction xs) (simp_all add: ret_def fun_eq_iff)

lemma settled_mapA: "settled I v xs \<Longrightarrow> mapA (import_item I v p) xs = ret xs"
  by (rule mapA_ret) (simp add: settled_def import_item_def fun_eq_iff)

lemma settled_lan6:
  "settled lan6_item validateLANv6 xs \<Longrightarrow>
   mapA (\<lambda>l. bindE (liftE (validateLANv6 l)) (\<lambda>l. ret (l\<lparr>l6_Managed := True\<rparr>))) xs = ret xs"
  by (rule mapA_ret) (auto simp: settled_def lan6_item_def fun_eq_iff)

lemma liftE_Inr: "liftE (Inr x) = ret x"
  by (simp add: liftE_def ret_def fun_eq_iff)

lemma ACL_eta: "st\<lparr>S_ACL := \<lparr>acl_Mode = acl_Mode (S_ACL st), acl_Entries = acl_Entries (S_ACL st)\<rparr>,
    S_ACLv6 := \<lparr>acl6_Mode = acl6_Mode (S_ACLv6 st), acl6_Entries = acl6_Entries (S_ACLv6 st)\<rparr>\<rparr> = st"
  by simp

lemma import_validate_settled: "import_settled st \<Longrightarrow> import_validate st = ret st"
  unfolding import_settled_def import_validate_def
  by (simp add: settled_mapA settled_lan6 liftE_Inr ACL_eta)

text \<open>Actions that succeed as long as the disk does, with their effect on the configuration.\<close>

definition runs :: "(State \<Rightarrow> State) \<Rightarrow> (store svc, unit) act \<Rightarrow> bool" where
  "runs f m \<longleftrightarrow> (\<forall>s. flush_ok (sv_be s) \<longrightarrow>
     (\<exists>s'. m s = (Inr (), s') \<and> flush_ok (sv_be s') \<and> store_state s' = f (store_state s)))"

lemma runs_save: "runs f (on_be (save_st f))"
  by (auto simp: runs_def on_be_def save_st_def flushLocked_def flush_disk_def flush_ok_def store_state_def Let_def)

lemma runs_publish: "runs (\<lambda>st. st) (publish t a n)"
  by (auto simp: runs_def publish_def store_state_def split: option.splits)

lemma runs_bindE:
  assumes "runs f m" and "\<And>u. runs g (k u)"
  shows "runs (\<lambda>st. g (f st)) (bindE m k)"
  unfolding runs_def
proof (intro allI impI)
  fix s :: "store svc"
  assume "flush_ok (sv_be s)"
  with assms(1) obtain s1 where 1: "m s = (Inr (), s1)" "flush_ok (sv_be s1)" "store_state s1 = f (store_state s)"
    unfolding runs_def by blast
  with assms(2) obtain s2 where "k () s1 = (Inr (), s2)" "flush_ok (sv_be s2)" "store_state s2 = g (store_state s1)"
    unfolding runs_def by blast
  with 1 show "\<exists>s'. bindE m k s = (Inr (), s') \<and> flush_ok (sv_be s') \<and> store_state s' = g (f (store_state s))"
    by (simp add: bindE_def)
qed

text \<open>What an import overwrites: everything but the policy rules, the route push mode, the LAN and WAN interfaces, the lease notes and a part of the DNS bookkeeping.\<close>

definition imported :: "State \<Rightarrow> State \<Rightarrow> State" where
  "imported old st = st\<lparr>S_PolicyRules := S_PolicyRules old, S_RoutePushMode := S_RoutePushMode old,
     S_NetIfaces := S_NetIfaces old, S_LeaseNotes := S_LeaseNotes old,
     S_DNS := (S_DNS st)\<lparr>dn_SavedStock := dn_SavedStock (S_DNS old), dn_PrevServers := dn_PrevServers (S_DNS old),
       dn_PrevAddrs := dn_PrevAddrs (S_DNS old)\<rparr>\<rparr>"

lemma store_saves:
  "be_SaveDHCPServers store_backend xs1 = save_st (\<lambda>st. st\<lparr>S_DHCPServers := xs1\<rparr>)"
  "be_SaveStatics store_backend xs2 arp = save_st (\<lambda>st. st\<lparr>S_Statics := xs2, S_ARPBind := arp\<rparr>)"
  "be_SaveACL store_backend acl = save_st (\<lambda>st. st\<lparr>S_ACL := acl\<rparr>)"
  "be_SaveRoutes store_backend xs3 = save_st (\<lambda>st. st\<lparr>S_Routes := xs3\<rparr>)"
  "be_SaveWANv6s store_backend xs4 = save_st (\<lambda>st. st\<lparr>S_WANv6s := xs4\<rparr>)"
  "be_SaveLANv6s store_backend xs5 = save_st (\<lambda>st. st\<lparr>S_LANv6s := xs5\<rparr>)"
  "be_SavePrefixStaticsV6 store_backend xs6 = save_st (\<lambda>st. st\<lparr>S_PrefixStaticsV6 := xs6\<rparr>)"
  "be_SaveACLv6 store_backend acl6 = save_st (\<lambda>st. st\<lparr>S_ACLv6 := acl6\<rparr>)"
  "be_SaveDNSRecords store_backend xs7 = save_st (\<lambda>st. st\<lparr>S_DNSRecords := xs7\<rparr>)"
  "be_SaveDNSDomainRoutes store_backend xs8 = save_st (\<lambda>st. st\<lparr>S_DNSDomainRoutes := xs8\<rparr>)"
  "be_SaveDNSDoH store_backend doh = save_st (\<lambda>st. st\<lparr>S_DNSDoH := doh\<rparr>)"
  "be_SaveDNSSettings store_backend d = save_st (\<lambda>st. st\<lparr>S_DNS := d\<lparr>dn_SavedStock := dn_SavedStock (S_DNS st),
     dn_PrevServers := dn_PrevServers (S_DNS st), dn_PrevAddrs := dn_PrevAddrs (S_DNS st)\<rparr>\<rparr>)"
  by (cases acl; cases acl6; simp add: store_backend_def store_defs)+

lemma runs_import_save: "\<exists>f. runs f (import_save store_backend st) \<and> (\<forall>old. f old = imported old st)"
  unfolding import_save_def store_saves
  by (rule exI, rule conjI, (rule runs_bindE runs_save runs_publish)+, simp add: imported_def)

lemma ExportJSON_store:
  "ExportJSON store_backend s = (Inr ((store_state s)\<lparr>S_PolicyRules := [], S_RoutePushMode := [], S_NetIfaces := [],
     S_LeaseNotes := Map.empty,
     S_ACLv6 := \<lparr>acl6_Mode = acl6_mode_of (sv_be s), acl6_Entries = acl6_Entries (S_ACLv6 (store_state s))\<rparr>\<rparr>), s)"
  by (simp add: ExportJSON_def bindE_def on_be_def store_backend_def store_defs read_st_def ret_def store_state_def
      acl6_mode_of_def zeroState_def)

text \<open>exporting a validated configuration and importing it on a router whose disk works succeeds and reproduces it there, except for the policy rules, the route push mode, the LAN and WAN interfaces, the lease notes and the recorded stock values, server list and address list of dnsmasq, which the export leaves out and the import leaves alone.\<close>

theorem export_import_roundtrip:
  assumes "import_settled (store_state s)" and "flush_ok (sv_be t)"
  shows "\<exists>blob t'. ExportJSON store_backend s = (Inr blob, s) \<and>
    ImportJSON store_backend (Inr blob) t = (Inr (), t') \<and> store_state t' = imported (store_state t) (store_state s)"
proof -
  define blob where "blob = (store_state s)\<lparr>S_PolicyRules := [], S_RoutePushMode := [], S_NetIfaces := [],
     S_LeaseNotes := Map.empty,
     S_ACLv6 := \<lparr>acl6_Mode = acl6_mode_of (sv_be s), acl6_Entries = acl6_Entries (S_ACLv6 (store_state s))\<rparr>\<rparr>"
  have m: "acl6_mode_of (sv_be s) = acl6_Mode (S_ACLv6 (store_state s))"
    using assms(1) by (simp add: acl6_mode_of_def import_settled_def store_state_def)
  then have "import_settled blob"
    using assms(1) by (simp add: blob_def import_settled_def)
  then have v: "import_validate blob t = (Inr blob, t)"
    by (simp add: import_validate_settled ret_def)
  obtain f where f: "runs f (import_save store_backend blob)" "\<And>old. f old = imported old blob"
    using runs_import_save by blast
  from f(1) assms(2) obtain t' where "import_save store_backend blob t = (Inr (), t')"
    and "store_state t' = f (store_state t)"
    unfolding runs_def by blast
  moreover have "imported (store_state t) blob = imported (store_state t) (store_state s)"
    by (simp add: imported_def blob_def m)
  ultimately show ?thesis
    using v f(2) ExportJSON_store [of s] by (auto simp: ImportJSON_def bindE_def liftE_def blob_def)
qed

definition settled_svc :: "store svc" where
  "settled_svc = sample_svc\<lparr>sv_be := (sample_store 9)\<lparr>sb_st := zeroState
     \<lparr>S_ACL := \<lparr>acl_Mode = ACLBlacklist, acl_Entries = []\<rparr>, S_ACLv6 := \<lparr>acl6_Mode = ACLBlacklist, acl6_Entries = []\<rparr>,
      S_DNSDoH := zeroDNSDoH\<lparr>dh_ListenPort := 5053\<rparr>,
      S_Routes := [zeroRoute\<lparr>rt_ID := ''route_1'', rt_Family := FamilyIPv4, rt_Interface := ''wan'',
        rt_Target := ''10.0.0.0'', rt_Netmask := ''255.0.0.0'', rt_Prefix := 8, rt_Managed := True\<rparr>],
      S_PolicyRules := [zeroPolicyRule\<lparr>pr_ID := ''prule_1''\<rparr>]\<rparr>,
     sb_disk := (sample_disk 9)\<lparr>dk_flush := (\<lambda>_. None)\<rparr>\<rparr>\<rparr>"

theorem export_import_roundtrip_witness:
  "\<exists>blob t'. ExportJSON store_backend settled_svc = (Inr blob, settled_svc) \<and> length (S_Routes blob) = 1 \<and>
    ImportJSON store_backend (Inr blob) (settled_svc\<lparr>sv_be := (sv_be settled_svc)\<lparr>sb_st := zeroState\<rparr>\<rparr>) = (Inr (), t') \<and>
    S_PolicyRules (store_state t') = []"
proof -
  have "validateRoute (zeroRoute\<lparr>rt_ID := ''route_1'', rt_Family := FamilyIPv4, rt_Interface := ''wan'',
        rt_Target := ''10.0.0.0'', rt_Netmask := ''255.0.0.0'', rt_Prefix := 8, rt_Managed := True\<rparr>) =
      Inr (zeroRoute\<lparr>rt_ID := ''route_1'', rt_Family := FamilyIPv4, rt_Interface := ''wan'',
        rt_Target := ''10.0.0.0'', rt_Netmask := ''255.0.0.0'', rt_Prefix := 8, rt_Managed := True\<rparr>)"
    by (simp add: eval_simps)
  moreover have "validateDNSSettings zeroDNSSettings = Inr zeroDNSSettings"
    by (simp add: eval_simps)
  moreover have "validateDNSDoH (zeroDNSDoH\<lparr>dh_ListenPort := 5053\<rparr>) = Inr (zeroDNSDoH\<lparr>dh_ListenPort := 5053\<rparr>)"
    by (simp add: eval_simps)
  ultimately have s: "import_settled (store_state settled_svc)"
    by (simp add: settled_svc_def store_state_def import_settled_def settled_def zeroState_def route_item_def)
  have f: "flush_ok (sv_be (settled_svc\<lparr>sv_be := (sv_be settled_svc)\<lparr>sb_st := zeroState\<rparr>\<rparr>))"
    by (simp add: settled_svc_def flush_ok_def)
  from export_import_roundtrip [OF s f] show ?thesis
    by (auto simp: ExportJSON_store imported_def) (simp_all add: settled_svc_def store_state_def zeroState_def)
qed

end
