(* ===== verification/IfaceProps.thy ===== *)
theory IfaceProps
  imports ServiceProps
begin

text \<open>
  What the Service guarantees of the LAN and WAN interfaces, the names it chooses, and where its
  uniqueness checks end.
\<close>

section \<open>LAN and WAN interfaces\<close>

text \<open>Ids are unique and no two interfaces share an address.\<close>

definition ifaces_disjoint :: "NetIface list \<Rightarrow> bool" where
  "ifaces_disjoint is \<longleftrightarrow> distinct (map ni_ID is) \<and>
     (\<forall>i \<in> set is. \<forall>j \<in> set is. ni_ID i \<noteq> ni_ID j \<longrightarrow> set (allIfaceIPs i) \<inter> set (allIfaceIPs j) = {})"

lemma store_state_be: "sb_st (sv_be s) = store_state s"
  by (simp add: store_state_def)

lemma ip_conflict_None:
  "ip_conflict i x = None \<longleftrightarrow> ni_ID x = ni_ID i \<or> set (allIfaceIPs i) \<inter> set (allIfaceIPs x) = {}"
  by (auto simp: ip_conflict_def find_None_iff)

lemma map_filter_Nil: "List.map_filter f xs = [] \<longleftrightarrow> (\<forall>x \<in> set xs. f x = None)"
  by (induction xs) (auto simp: List.map_filter_def)

lemma checkIfaceRelations_Inr:
  assumes "checkIfaceRelations i existing servers = Inr u" and "x \<in> set existing" and "ni_ID x \<noteq> ni_ID i"
  shows "set (allIfaceIPs i) \<inter> set (allIfaceIPs x) = {}"
proof -
  have "List.map_filter (ip_conflict i) existing = []"
    using assms(1) by (auto simp: checkIfaceRelations_def split: list.splits)
  with assms(2,3) show ?thesis
    by (auto simp: map_filter_Nil ip_conflict_None)
qed

lemma checkIfaceRelations_pools:
  assumes "checkIfaceRelations i existing servers = Inr u" and "ni_IPAddr i \<noteq> []" and "ni_Netmask i \<noteq> []"
    and "s \<in> set servers" and "ds_Interface s = ni_ID i"
  shows "\<not> bad_opt (\<lambda>a. SameSubnet a (ni_IPAddr i) (ni_Netmask i)) (ds_IPStart s) \<and>
    \<not> bad_opt (\<lambda>a. SameSubnet a (ni_IPAddr i) (ni_Netmask i)) (ds_IPEnd s)"
  using assms
  by (auto simp: checkIfaceRelations_def find_None_iff pool_outside_def split: list.splits option.splits)

lemma cloneIface_id [simp]: "cloneIface x = x"
  by (simp add: cloneIface_def)

definition with_status :: "NetIface \<Rightarrow> NetIface" where
  "with_status x = x\<lparr>ni_Status := runtimeStatus (ni_Up x) False\<rparr>"

lemma with_status [simp]: "ni_ID (with_status x) = ni_ID x" "allIfaceIPs (with_status x) = allIfaceIPs x"
  "ni_Role (with_status x) = ni_Role x"
  by (simp_all add: with_status_def allIfaceIPs_def)

lemma store_be_NetIfaces:
  "be_NetIfaces store_backend b = (Inr (map with_status (S_NetIfaces (sb_st b))), b)"
  by (simp add: store_backend_def store_NetIfaces_def read_st_def with_status_def)

lemma store_be_SaveNetIface_st:
  "S_NetIfaces (sb_st (snd (be_SaveNetIface store_backend i b))) =
     (case indexByID (length (S_NetIfaces (sb_st b))) (\<lambda>k. ni_ID (S_NetIfaces (sb_st b) ! k)) (ni_ID i) of
        Some k \<Rightarrow> (S_NetIfaces (sb_st b))[k := i] | None \<Rightarrow> S_NetIfaces (sb_st b) @ [i])"
  by (simp add: store_backend_def store_SaveNetIface_def split: option.split)

lemma store_be_DeleteNetIface_st:
  "S_NetIfaces (sb_st (snd (be_DeleteNetIface store_backend i b))) = filter (\<lambda>x. ni_ID x \<noteq> i) (S_NetIfaces (sb_st b))"
  by (simp add: store_backend_def store_DeleteNetIface_def)

lemma SaveNetIface_cases:
  fixes s :: "store svc"
  obtains (same) "store_state (snd (SaveNetIface store_backend i0 s)) = store_state s"
    "\<exists>e. fst (SaveNetIface store_backend i0 s) = Inl e"
  | (saved) i where "checkIfaceRelations i (map with_status (S_NetIfaces (store_state s))) (S_DHCPServers (store_state s)) = Inr ()"
    and "store_state (snd (SaveNetIface store_backend i0 s)) = sb_st (snd (be_SaveNetIface store_backend i (sv_be s)))"
    and "fst (SaveNetIface store_backend i0 s) = Inr i \<or> (\<exists>e. fst (SaveNetIface store_backend i0 s) = Inl e)"
proof (cases "validateNetIface i0")
  case (Inl e)
  then show ?thesis by (intro same) (simp_all add: SaveNetIface_def bindE_def liftE_def)
next
  case (Inr i1)
  let ?ex = "map with_status (S_NetIfaces (store_state s))"
  define i where "i = (if ni_ID i1 = [] then i1\<lparr>ni_ID := free_iface_id (ni_Role i1) ?ex, ni_Name := free_iface_id (ni_Role i1) ?ex\<rparr> else i1)"
  have l: "on_be (be_NetIfaces store_backend) s = (Inr ?ex, s)"
    by (simp add: on_be_def store_be_NetIfaces store_state_def)
  have d: "on_be (be_DHCPServers store_backend) s = (Inr (S_DHCPServers (store_state s)), s)"
    by (simp add: on_be_def store_backend_def store_DHCPServers_def read_st_def store_state_def)
  have run: "SaveNetIface store_backend i0 s =
      bindE (liftE (checkIfaceRelations i ?ex (S_DHCPServers (store_state s)))) (\<lambda>_.
        bindE (on_be (be_SaveNetIface store_backend i)) (\<lambda>_.
          bindE (publish TypeIfaceChanged ''save'' 0) (\<lambda>_. ret i))) s"
    using Inr l d by (simp add: SaveNetIface_def bindE_def liftE_def orZero_def nextIfaceID_def ret_def i_def)
  show ?thesis
  proof (cases "checkIfaceRelations i ?ex (S_DHCPServers (store_state s))")
    case (Inl e)
    then show ?thesis by (intro same) (simp_all add: run bindE_def liftE_def)
  next
    case (Inr u)
    show ?thesis
      by (rule saved [of i])
        (use Inr in \<open>auto simp: run bindE_def liftE_def on_be_def publish_def ret_def store_state_def
          split: prod.splits sum.splits option.splits\<close>)
  qed
qed

lemma ifaces_disjoint_save:
  assumes d: "ifaces_disjoint is" and n: "\<And>x. x \<in> set is \<Longrightarrow> ni_ID x \<noteq> ni_ID i \<Longrightarrow> set (allIfaceIPs i) \<inter> set (allIfaceIPs x) = {}"
  shows "ifaces_disjoint (case indexByID (length is) (\<lambda>k. ni_ID (is ! k)) (ni_ID i) of
      Some k \<Rightarrow> is[k := i] | None \<Rightarrow> is @ [i])"
proof (cases "indexByID (length is) (\<lambda>k. ni_ID (is ! k)) (ni_ID i)")
  case None
  then have "ni_ID i \<notin> ni_ID ` set is" by (simp add: indexByID_None)
  with d n None show ?thesis by (auto simp: ifaces_disjoint_def)
next
  case (Some k)
  then have k: "k < length is" "ni_ID (is ! k) = ni_ID i" by (simp_all add: indexByID_nth)
  then have ids: "map ni_ID (is[k := i]) = map ni_ID is" by (intro map_update_same)
  have sub: "set (is[k := i]) \<subseteq> insert i (set is)" by (rule set_update_subset_insert)
  have "set (allIfaceIPs x) \<inter> set (allIfaceIPs y) = {}"
    if "x \<in> insert i (set is)" "y \<in> insert i (set is)" "ni_ID x \<noteq> ni_ID y" for x y
    using that d n by (auto simp: ifaces_disjoint_def) (metis Int_iff empty_iff)+
  with d sub have "ifaces_disjoint (is[k := i])"
    unfolding ifaces_disjoint_def ids by (auto simp: subset_iff)
  with Some show ?thesis by simp
qed

lemma DeleteNetIface_ifaces:
  "S_NetIfaces (store_state (snd (DeleteNetIface store_backend n s))) =
     (case canDeleteNetIface n (map with_status (S_NetIfaces (store_state s))) of
        Inl _ \<Rightarrow> S_NetIfaces (store_state s)
      | Inr _ \<Rightarrow> filter (\<lambda>x. ni_ID x \<noteq> n) (S_NetIfaces (store_state s)))"
proof (cases "canDeleteNetIface n (map with_status (S_NetIfaces (store_state s)))")
  case (Inl e)
  then show ?thesis
    by (simp add: DeleteNetIface_def bindE_def liftE_def on_be_def store_be_NetIfaces store_state_def)
next
  case (Inr u)
  obtain r b where d: "be_DeleteNetIface store_backend n (sv_be s) = (r, b)"
    by (cases "be_DeleteNetIface store_backend n (sv_be s)")
  then have "S_NetIfaces (sb_st b) = filter (\<lambda>x. ni_ID x \<noteq> n) (S_NetIfaces (store_state s))"
    using store_be_DeleteNetIface_st [of n "sv_be s"] by (simp add: store_state_def)
  with Inr d show ?thesis
    by (cases r; cases "sv_bus s")
      (simp_all add: DeleteNetIface_def bindE_def liftE_def on_be_def publish_def store_be_NetIfaces store_state_def)
qed

text \<open>Saving and deleting LAN and WAN interfaces, successful or not, never leads to two interfaces that share an IP address or an id.\<close>

lemma interfaces_stay_disjoint:
  assumes "ifaces_disjoint (S_NetIfaces (store_state s))"
  shows "ifaces_disjoint (S_NetIfaces (store_state (snd (SaveNetIface store_backend i s)))) \<and>
    ifaces_disjoint (S_NetIfaces (store_state (snd (DeleteNetIface store_backend n s))))"
proof
  show "ifaces_disjoint (S_NetIfaces (store_state (snd (SaveNetIface store_backend i s))))"
  proof (cases rule: SaveNetIface_cases [of i s])
    case same
    with assms show ?thesis by simp
  next
    case (saved j)
    have n: "set (allIfaceIPs j) \<inter> set (allIfaceIPs x) = {}"
      if "x \<in> set (S_NetIfaces (store_state s))" "ni_ID x \<noteq> ni_ID j" for x
      using checkIfaceRelations_Inr [OF saved(1), of "with_status x"] that by simp
    show ?thesis
      unfolding saved(2) store_be_SaveNetIface_st store_state_be
      by (rule ifaces_disjoint_save [OF assms]) (rule n)
  qed
  have "ifaces_disjoint (filter P xs)" if "ifaces_disjoint xs" for P xs
    using that by (auto simp: ifaces_disjoint_def distinct_map_filter_keep)
  then show "ifaces_disjoint (S_NetIfaces (store_state (snd (DeleteNetIface store_backend n s))))"
    using assms by (simp add: DeleteNetIface_ifaces split: sum.split)
qed

definition has_lan :: "NetIface list \<Rightarrow> bool" where
  "has_lan is \<longleftrightarrow> (\<exists>i \<in> set is. ni_Role i = RoleLAN)"

lemma canDeleteNetIface_keeps:
  assumes "canDeleteNetIface n is = Inr u" and "distinct (map ni_ID is)" and "has_lan is"
  shows "has_lan (filter (\<lambda>x. ni_ID x \<noteq> n) is)"
proof -
  let ?lans = "filter (\<lambda>x. ni_Role x = RoleLAN) is"
  from assms(1) have "\<not> (list_ex (\<lambda>x. ni_ID x = n) ?lans \<and> length ?lans \<le> 1)"
    by (auto simp: canDeleteNetIface_def Let_def split: if_splits)
  then consider "\<forall>x \<in> set ?lans. ni_ID x \<noteq> n" | "1 < length ?lans"
    by (force simp: list_ex_iff)
  then show ?thesis
  proof cases
    case 1
    with assms(3) show ?thesis by (auto simp: has_lan_def)
  next
    case 2
    then obtain a b rest where l: "?lans = a # b # rest"
      by (cases ?lans; cases "tl ?lans") auto
    have "distinct (map ni_ID ?lans)"
      using assms(2) by (rule distinct_map_filter_keep)
    with l have "ni_ID a \<noteq> ni_ID b" by simp
    moreover have "a \<in> set ?lans" "b \<in> set ?lans" by (simp_all add: l)
    ultimately show ?thesis by (auto simp: has_lan_def)
  qed
qed

lemma has_lan_status [simp]: "has_lan (map with_status is) = has_lan is"
  by (simp add: has_lan_def)

text \<open>Deleting interfaces never removes the last LAN, through which the router is managed.\<close>

theorem delete_keeps_a_lan:
  assumes "ifaces_disjoint (S_NetIfaces (store_state s))" and "has_lan (S_NetIfaces (store_state s))"
  shows "has_lan (S_NetIfaces (store_state (snd (DeleteNetIface store_backend n s))))"
proof (cases "canDeleteNetIface n (map with_status (S_NetIfaces (store_state s)))")
  case (Inl e)
  with assms show ?thesis by (simp add: DeleteNetIface_ifaces)
next
  case (Inr u)
  have "distinct (map ni_ID (map with_status (S_NetIfaces (store_state s))))"
    using assms(1) by (simp add: ifaces_disjoint_def comp_def)
  from canDeleteNetIface_keeps [OF Inr this] assms(2)
  have "has_lan (filter (\<lambda>x. ni_ID x \<noteq> n) (S_NetIfaces (store_state s)))"
    by (auto simp: has_lan_def)
  then show ?thesis using Inr by (simp add: DeleteNetIface_ifaces)
qed

lemma seed_ifaces: "S_NetIfaces (store_state sample_svc) = [seed_lan, seed_wan]"
  "S_DHCPServers (store_state sample_svc) = [seed_server]"
  by (simp_all add: store_state_def sample_svc_def seedState_def seedIPv6_def)

lemma seed_disjoint: "ifaces_disjoint [seed_lan, seed_wan]"
  by (simp add: ifaces_disjoint_def seed_lan_def seed_wan_def allIfaceIPs_def zeroNetIface_def)

lemma interfaces_stay_disjoint_witness:
  "ifaces_disjoint (S_NetIfaces (store_state (snd (SaveNetIface store_backend (seed_lan\<lparr>ni_ID := []\<rparr>) sample_svc)))) \<and>
   ifaces_disjoint (S_NetIfaces (store_state (snd (DeleteNetIface store_backend ''wan'' sample_svc))))"
  by (rule interfaces_stay_disjoint) (simp add: seed_ifaces seed_disjoint)

theorem delete_keeps_a_lan_witness:
  "has_lan (S_NetIfaces (store_state (snd (DeleteNetIface store_backend ''lan'' sample_svc))))"
proof -
  have "has_lan [seed_lan, seed_wan]"
    by (simp add: has_lan_def seed_lan_def zeroNetIface_def)
  then show ?thesis
    by (intro delete_keeps_a_lan) (simp_all add: seed_ifaces seed_disjoint)
qed

text \<open>Saving an interface has no such guard: on the demonstration configuration the last LAN cannot be deleted, but saving it with the role WAN is accepted and leaves no LAN.\<close>

theorem last_lan_can_become_wan:
  "fst (DeleteNetIface store_backend ''lan'' sample_svc) = Inl (Err ''keep at least one LAN'') \<and>
   (\<exists>i s'. SaveNetIface store_backend (seed_lan\<lparr>ni_Role := RoleWAN, ni_Proto := ProtoDHCP\<rparr>) sample_svc = (Inr i, s') \<and>
      \<not> has_lan (S_NetIfaces (store_state s')))"
proof
  have "canDeleteNetIface ''lan'' [with_status seed_lan, with_status seed_wan] = Inl (Err ''keep at least one LAN'')"
    by (simp add: canDeleteNetIface_def) (simp add: seed_lan_def seed_wan_def zeroNetIface_def)
  then show "fst (DeleteNetIface store_backend ''lan'' sample_svc) = Inl (Err ''keep at least one LAN'')"
    using seed_ifaces by (simp add: DeleteNetIface_def bindE_def liftE_def on_be_def store_be_NetIfaces store_state_def)
next
  let ?i = "seed_lan\<lparr>ni_Role := RoleWAN, ni_Proto := ProtoDHCP\<rparr>"
  have v: "validateNetIface ?i = Inr ?i"
    by (simp add: seed_lan_def eval_simps)
  have "SameSubnet ''192.168.1.100'' ''192.168.1.1'' ''255.255.255.0''"
    and "SameSubnet ''192.168.1.200'' ''192.168.1.1'' ''255.255.255.0''"
    by (simp_all add: eval_simps)
  then have c: "checkIfaceRelations ?i [with_status seed_lan, with_status seed_wan] [seed_server] = Inr ()"
    by (simp add: checkIfaceRelations_def ip_conflict_def pool_outside_def bad_opt_def List.map_filter_simps)
      (simp add: allIfaceIPs_def seed_lan_def seed_wan_def seed_server_def zeroNetIface_def zeroDHCPServer_def
        pool_outside_def bad_opt_def)
  have l: "on_be (be_NetIfaces store_backend) sample_svc = (Inr [with_status seed_lan, with_status seed_wan], sample_svc)"
    and d: "on_be (be_DHCPServers store_backend) sample_svc = (Inr [seed_server], sample_svc)"
    using seed_ifaces
    by (simp add: on_be_def store_be_NetIfaces store_state_def)
      (use seed_ifaces in \<open>simp add: on_be_def store_state_def store_backend_def store_DHCPServers_def read_st_def\<close>)
  have id: "ni_ID ?i = ''lan''" and role: "ni_Role ?i = RoleWAN"
    by (simp_all add: seed_lan_def)
  obtain b where b: "be_SaveNetIface store_backend ?i (sv_be sample_svc) = (Inr (), b)"
    by (simp add: store_backend_def store_SaveNetIface_def save_st_def flushLocked_def flush_disk_def
        sample_svc_def sample_eval Let_def)
  have "S_NetIfaces (sb_st b) = [?i, seed_wan]"
    using store_be_SaveNetIface_st [of ?i "sv_be sample_svc"] b seed_ifaces
    by (simp add: store_state_def indexByID_def id upt_rec) (simp add: seed_lan_def)
  moreover have "SaveNetIface store_backend ?i sample_svc = (Inr ?i, sample_svc\<lparr>sv_be := b\<rparr>)"
    using v c l d b id
    by (simp add: SaveNetIface_def bindE_def liftE_def orZero_def ret_def on_be_def publish_def)
      (simp add: sample_svc_def ret_def)
  moreover have "\<not> has_lan [?i, seed_wan]"
    by (simp add: has_lan_def) (simp add: seed_wan_def zeroNetIface_def)
  ultimately show "\<exists>i s'. SaveNetIface store_backend ?i sample_svc = (Inr i, s') \<and> \<not> has_lan (S_NetIfaces (store_state s'))"
    by (intro exI [of _ ?i] exI [of _ "sample_svc\<lparr>sv_be := b\<rparr>"]) (simp add: store_state_def)
qed

section \<open>New names\<close>

lemma v6id_loop_fresh: "v6id_loop existing prefix i \<notin> set existing"
proof (induction existing prefix i rule: v6id_loop.induct)
  case (1 existing prefix i)
  then show ?case by (subst v6id_loop.simps) (auto simp: Let_def)
qed

lemma free_iface_id_fresh:
  "free_iface_id role xs \<notin> ni_ID ` set xs \<or>
    (role \<in> ni_ID ` set xs \<and> (\<forall>n \<in> {2..<64}. role @ go_Itoa (int n) \<in> ni_ID ` set xs))"
proof (cases "role \<in> ni_ID ` set xs")
  case False
  then show ?thesis by (simp add: free_iface_id_def Let_def)
next
  case True
  show ?thesis
  proof (cases "find (\<lambda>n. role @ go_Itoa (int n) \<notin> ni_ID ` set xs) [2..<64]")
    case None
    then have "\<forall>n \<in> {2..<64}. role @ go_Itoa (int n) \<in> ni_ID ` set xs"
      unfolding find_None_iff set_upt by blast
    with True show ?thesis by blast
  next
    case (Some n)
    then have "role @ go_Itoa (int n) \<notin> ni_ID ` set xs"
      unfolding find_Some_iff by metis
    with Some True show ?thesis by (simp add: free_iface_id_def Let_def del: upt_rec_numeral)
  qed
qed

text \<open>The name chosen for a new IPv6 line is never in use, and the name chosen for a new LAN or WAN interface is not either unless all of the names role, role2, ..., role63 are.\<close>

theorem new_names_are_free:
  "nextV6ID ids ''wan6'' \<notin> set ids \<and>
   (free_iface_id role xs \<notin> ni_ID ` set xs \<or>
    (role \<in> ni_ID ` set xs \<and> (\<forall>n \<in> {2..<64}. role @ go_Itoa (int n) \<in> ni_ID ` set xs)))"
proof
  show "nextV6ID ids ''wan6'' \<notin> set ids"
    using v6id_loop_fresh [of ids "''wan6''" 2] by (simp add: nextV6ID_def)
qed (rule free_iface_id_fresh)

theorem new_names_are_free_witness:
  "nextV6ID [''wan6'', ''wan62''] ''wan6'' \<notin> {''wan6'', ''wan62''} \<and> free_iface_id ''lan'' [seed_lan, seed_wan] = ''lan2''"
proof -
  have "free_iface_id ''lan'' [seed_lan, seed_wan] = ''lan2''"
    by (simp add: free_iface_id_def seed_lan_def seed_wan_def zeroNetIface_def eval_simps upt_rec)
  then show ?thesis
    using new_names_are_free [of "[''wan6'', ''wan62'']" "''lan''" "[seed_lan, seed_wan]"] by simp
qed

section \<open>Where uniqueness fails\<close>

text \<open>The demonstration configuration on a disk that never fails.\<close>

definition demo_svc :: "store svc" where
  "demo_svc = sample_svc\<lparr>sv_be := (sv_be sample_svc)\<lparr>sb_disk := (sb_disk (sv_be sample_svc))\<lparr>dk_flush := \<lambda>_. None\<rparr>\<rparr>\<rparr>"

lemma demo_svc:
  "store_state demo_svc = seedState" "flush_ok (sv_be demo_svc)"
  by (simp_all add: store_state_def sample_svc_def demo_svc_def flush_ok_def)

lemma coll_store_ok:
  assumes "flush_ok (sv_be s)"
  shows "coll_store (statics_coll store_backend) xs arp action s = (r, s') \<Longrightarrow> r = Inr ()"
    and "coll_store (wan6s_coll store_backend) ws () action s = (r, s') \<Longrightarrow> r = Inr ()"
    and "coll_store (acl_coll store_backend) es mode action s = (r, s') \<Longrightarrow> r = Inr ()"
  using flush_ok_save [OF assms]
  by (simp_all add: coll_store_def bindE_def on_be_def publish_def coll_defs store_backend_def store_defs plain_save_def
      split: option.splits prod.splits sum.splits)
    (metis prod.inject sum.distinct(1))+

definition alias_static :: StaticLease where
  "alias_static = zeroStaticLease\<lparr>sl_MAC := ''AA:BB:CC:00:00:02'', sl_IP := '' 192.168.1.50'', sl_Enabled := True\<rparr>"

lemma seed_lists: "S_Statics seedState = [seed_static]" "S_WANv6s seedState = [seed_wan6]"
  by (simp_all add: seedState_def seedIPv6_def)

text \<open>Uniqueness of reserved addresses is a comparison of strings: on the demonstration configuration, which reserves 192.168.1.50, a second reservation of the same address written with a leading space is accepted and stored.\<close>

theorem reservation_of_the_same_address:
  "\<exists>x s'. CreateStatic L store_backend alias_static demo_svc = (Inr x, s') \<and>
     S_Statics (store_state s') = [seed_static, x] \<and>
     IPv4ToUint32 (sl_IP x) = IPv4ToUint32 (sl_IP seed_static)"
proof -
  have v: "validateStatic alias_static = Inr alias_static"
    by (simp add: alias_static_def eval_simps)
  have u: "ensureStaticUnique L alias_static [] [seed_static] = Inr ()"
    by (simp add: alias_static_def seed_static_def go_EqualFold_def fold_rune_def eval_simps)
  have ip: "IPv4ToUint32 (sl_IP alias_static) = IPv4ToUint32 (sl_IP seed_static)"
    by (simp add: alias_static_def seed_static_def eval_simps)
  obtain i s1 where i: "cryptoID ''host'' demo_svc = (Inr i, s1)" "sv_be s1 = sv_be demo_svc"
    by (auto simp: cryptoID_be)
  let ?x = "it_setManaged static_item True (it_setID static_item i alias_static)"
  have l: "store_statics.items demo_svc = [seed_static]"
    by (simp add: statics_items demo_svc seed_lists)
  obtain r s' where c: "coll_create (statics_coll store_backend) (ensureStaticUnique L alias_static []) (cryptoID ''host'') alias_static demo_svc = (r, s')"
    by (meson surj_pair)
  from store_statics.coll_create_spec [OF c i] u l have st: "S_Statics (store_state s') = [seed_static, ?x]"
    by (simp add: statics_items Let_def)
  obtain r2 s2 where w: "coll_store (statics_coll store_backend) [seed_static, ?x] (S_ARPBind (sb_st (sv_be s1))) ''create'' s1 = (r2, s2)"
    by (meson surj_pair)
  then have "r2 = Inr ()"
    using coll_store_ok(1) [of s1] demo_svc(2) i(2) by simp
  with w have "r = Inr ?x"
    using c u l i by (simp add: coll_create_def bindE_def store_statics.on_be_load liftE_def ret_def Let_def)
  then have "CreateStatic L store_backend alias_static demo_svc = (Inr ?x, s')"
    using v c by (simp add: CreateStatic_def)
  moreover have "sl_IP ?x = sl_IP alias_static"
    by (simp add: static_item_def)
  ultimately show ?thesis using st ip by auto
qed

definition second_wan6 :: WANv6 where
  "second_wan6 = seed_wan6\<lparr>w6_Name := ''second''\<rparr>"

text \<open>Creating an IPv6 line does not check that a given id is free: adding the demonstration line again stores two lines with the id wan6, and the second can no longer be reached by its id.\<close>

theorem ipv6_line_id_twice:
  "\<exists>s'. CreateWANv6 store_backend second_wan6 demo_svc = (Inr second_wan6, s') \<and>
     S_WANv6s (store_state s') = [seed_wan6, second_wan6] \<and> w6_ID second_wan6 = w6_ID seed_wan6 \<and>
     GetWANv6 store_backend (w6_ID second_wan6) s' = (Inr seed_wan6, s') \<and> second_wan6 \<noteq> seed_wan6"
proof -
  have v: "validateWANv6 second_wan6 = Inr second_wan6"
    by (simp add: second_wan6_def seed_wan6_def eval_simps)
  have e: "w6_ID second_wan6 = w6_ID seed_wan6" "w6_ID seed_wan6 = ''wan6''" "w6_Name second_wan6 \<noteq> []"
    "second_wan6 \<noteq> seed_wan6"
    by (simp_all add: second_wan6_def seed_wan6_def zeroWANv6_def)
  have w: "(second_wan6\<lparr>w6_ID := uciName (orV6 (w6_ID second_wan6) n)\<rparr>) = second_wan6"
    "second_wan6\<lparr>w6_Managed := True\<rparr> = second_wan6" for n
    by (simp_all add: second_wan6_def seed_wan6_def zeroWANv6_def orV6_def eval_simps)
  have l: "on_be (be_WANv6s store_backend) demo_svc = (Inr [seed_wan6], demo_svc)"
    using demo_svc(1) by (simp add: store_backend_def store_WANv6s_def read_st_def on_be_def store_state_def seed_lists)
  obtain r s' where c: "coll_store (wan6s_coll store_backend) [seed_wan6, second_wan6] () ''create'' demo_svc = (r, s')"
    by (meson surj_pair)
  then have r: "r = Inr ()" and st: "store_wan6s.items s' = [seed_wan6, second_wan6]"
    using demo_svc(2) coll_store_ok(2) store_wan6s.coll_store_spec(1) by auto
  have "CreateWANv6 store_backend second_wan6 demo_svc = (Inr second_wan6, s')"
    using v w e(3) l c r by (simp add: CreateWANv6_def bindE_def liftE_def ret_def Let_def)
  moreover have "GetWANv6 store_backend (w6_ID second_wan6) s' = (Inr seed_wan6, s')"
    unfolding GetWANv6_def store_wan6s.coll_get_spec st
    using e(1,2) by (simp add: lookup_item_def wan6s_coll_def wan6_item_def)
  ultimately show ?thesis
    using st e by (auto simp: store_wan6s.items_def store_state_def)
qed

text \<open>The access list of a service with two entries.\<close>

definition acl_svc :: "store svc" where
  "acl_svc = demo_svc\<lparr>sv_be := (sv_be demo_svc)\<lparr>sb_st := zeroState\<lparr>S_ACL := \<lparr>acl_Mode = ACLBlacklist, acl_Entries =
     [zeroACLEntry\<lparr>ae_ID := ''acl_1'', ae_MAC := ''AA:BB:CC:00:00:01''\<rparr>, zeroACLEntry\<lparr>ae_ID := ''acl_2'', ae_MAC := ''AA:BB:CC:00:00:02''\<rparr>]\<rparr>\<rparr>\<rparr>\<rparr>"

lemma acl_svc_items:
  "store_acl.items acl_svc = [zeroACLEntry\<lparr>ae_ID := ''acl_1'', ae_MAC := ''AA:BB:CC:00:00:01''\<rparr>,
     zeroACLEntry\<lparr>ae_ID := ''acl_2'', ae_MAC := ''AA:BB:CC:00:00:02''\<rparr>]" "flush_ok (sv_be acl_svc)"
  using demo_svc(2) by (simp_all add: store_acl.items_def acl_svc_def flush_ok_def)

text \<open>Adding a MAC that is already on the access list is refused, but an update may turn another entry into a second entry for it.\<close>

theorem acl_update_skips_check:
  "fst (AddACLEntry L store_backend (zeroACLEntry\<lparr>ae_MAC := ''AA:BB:CC:00:00:01''\<rparr>) acl_svc) = Inl (Err ''MAC is already listed'') \<and>
   (\<exists>e s'. UpdateACLEntry store_backend ''acl_2'' (zeroACLEntry\<lparr>ae_MAC := ''AA:BB:CC:00:00:01''\<rparr>) acl_svc = (Inr e, s') \<and>
      map ae_MAC (acl_Entries (S_ACL (store_state s'))) = [''AA:BB:CC:00:00:01'', ''AA:BB:CC:00:00:01''])"
proof
  let ?e = "zeroACLEntry\<lparr>ae_MAC := ''AA:BB:CC:00:00:01''\<rparr>"
  have v: "validateACLEntry ?e = Inr ?e"
    by (simp add: eval_simps)
  have d: "acl_dup L ?e (store_acl.items acl_svc) = Inl (Err ''MAC is already listed'')"
    unfolding acl_svc_items by (simp add: acl_dup_def go_EqualFold_def)
  obtain r s' where c: "coll_create (acl_coll store_backend) (acl_dup L ?e) (cryptoID ''acl'') ?e acl_svc = (r, s')"
    by (meson surj_pair)
  obtain i s1 where i: "cryptoID ''acl'' acl_svc = (Inr i, s1)" "sv_be s1 = sv_be acl_svc"
    by (auto simp: cryptoID_be)
  from store_acl.coll_create_spec [OF c i] d v c
  show "fst (AddACLEntry L store_backend ?e acl_svc) = Inl (Err ''MAC is already listed'')"
    by (simp add: AddACLEntry_def bindE_def liftE_def)
  let ?y = "?e\<lparr>ae_ID := ''acl_2'', ae_Managed := True\<rparr>"
  let ?ys = "[zeroACLEntry\<lparr>ae_ID := ''acl_1'', ae_MAC := ''AA:BB:CC:00:00:01''\<rparr>, ?y]"
  have f: "update_item (c_item (acl_coll store_backend)) no_check ''acl_2'' ?e (store_acl.items acl_svc) = Inr (?y, ?ys)"
    unfolding acl_svc_items
    by (simp add: acl_coll_def update_item_def index_item_def indexByID_def upt_rec acl_item_def bindR_def no_check_def Let_def)
  obtain r2 s2 where u: "coll_store (acl_coll store_backend) ?ys (acl_mode_of (sv_be acl_svc)) ''update'' acl_svc = (r2, s2)"
    by (meson surj_pair)
  then have r2: "r2 = Inr ()" and st: "store_acl.items s2 = ?ys"
    using acl_svc_items(2) coll_store_ok(3) store_acl.coll_store_spec(1) by auto
  have "UpdateACLEntry store_backend ''acl_2'' ?e acl_svc = (Inr ?y, s2)"
    using v u r2 f by (simp add: UpdateACLEntry_def coll_update_def store_acl.coll_mutate_item_Inr bindE_def liftE_def)
  then show "\<exists>e s'. UpdateACLEntry store_backend ''acl_2'' ?e acl_svc = (Inr e, s') \<and>
      map ae_MAC (acl_Entries (S_ACL (store_state s'))) = [''AA:BB:CC:00:00:01'', ''AA:BB:CC:00:00:01'']"
    using st by (auto simp: store_acl.items_def store_state_def)
qed

end
