(* ===== verification/NetcfgAPIProps.thy ===== *)
theory NetcfgAPIProps
  imports NetcfgAPI ImportProps IfaceProps
begin

text \<open>
  What the HTTP layer promises, for every endpoint: which requests publish an event, which answers each HTTP verb can have,
  what any history of requests keeps of the interfaces, and what a deletion answers. \<open>steady\<close> says that an action
  leaves a view of the state alone; its rules follow the structure of an action, and one line per file of handlers
  then covers all endpoints of it.
\<close>

section \<open>Views that stay the same\<close>

named_theorems steady_intros \<open>actions that leave a view of the state alone\<close>
named_theorems announce_intros \<open>actions that publish at most once, at the end\<close>

text \<open>The view \<open>f\<close> of the state is the same after the action.\<close>

definition steady :: "('s \<Rightarrow> 'x) \<Rightarrow> ('s \<Rightarrow> 'r \<times> 's) \<Rightarrow> bool" where
  "steady f m \<longleftrightarrow> (\<forall>s. f (snd (m s)) = f s)"

lemma steadyD: "steady f m \<Longrightarrow> m s = (r, t) \<Longrightarrow> f t = f s"
  by (metis snd_conv steady_def)

lemma steady_basic [steady_intros]: "steady f (ret x)" "steady f (fail e)" "steady f (liftE r)"
  by (simp_all add: steady_def ret_def fail_def liftE_def)

lemma steady_bindE [steady_intros]: "steady f m \<Longrightarrow> (\<And>x. steady f (k x)) \<Longrightarrow> steady f (bindE m k)"
  unfolding steady_def bindE_def by (auto split: prod.splits sum.splits) (metis snd_conv)+

lemma steady_orZero [steady_intros]: "steady f m \<Longrightarrow> steady f (orZero z m)"
  unfolding steady_def orZero_def by (auto split: prod.splits sum.splits) (metis snd_conv)+

lemma steady_tryE [steady_intros]: "steady f m \<Longrightarrow> steady f (tryE m)"
  unfolding steady_def tryE_def by (auto split: prod.splits) (metis snd_conv)

lemma steady_if [steady_intros]: "steady f m \<Longrightarrow> steady f n \<Longrightarrow> steady f (if c then m else n)"
  by simp

lemma steady_option [steady_intros]:
  "steady f m \<Longrightarrow> (\<And>x. steady f (k x)) \<Longrightarrow> steady f (case v of None \<Rightarrow> m | Some x \<Rightarrow> k x)"
  by (cases v) auto

lemma steady_sum [steady_intros]:
  "(\<And>x. steady f (m x)) \<Longrightarrow> (\<And>x. steady f (k x)) \<Longrightarrow> steady f (case v of Inl x \<Rightarrow> m x | Inr x \<Rightarrow> k x)"
  by (cases v) auto

lemma steady_prod [steady_intros]: "(\<And>x y. steady f (k x y)) \<Longrightarrow> steady f (case v of (x, y) \<Rightarrow> k x y)"
  by (cases v) auto

lemma steady_Let [steady_intros]: "(\<And>x. steady f (k x)) \<Longrightarrow> steady f (Let v k)"
  by (simp add: Let_def)

section \<open>The bus\<close>

definition heard :: "'b svc \<Rightarrow> NetChangeData Bus option \<times> (nat \<Rightarrow> int)" where
  "heard s = (sv_bus s, sv_clock s)"

lemma heard_on_be [steady_intros]: "steady heard (on_be m)"
  by (simp add: steady_def heard_def on_be_def split: prod.split)

lemma heard_rand [steady_intros]: "steady heard (rand_bytes n)"
  by (simp add: steady_def heard_def rand_bytes_def)

lemma heard_ids [steady_intros]: "steady heard (cryptoID p)" "steady heard generateDUID"
  unfolding cryptoID_def generateDUID_def by (intro steady_intros)+

lemma heard_fix_loop [steady_intros]: "steady heard (fix_loop L iface ls xs n)"
proof (induction ls arbitrary: xs n)
  case (Cons l ls)
  show ?case by (simp only: fix_loop.simps) (intro steady_intros Cons)
qed (simp add: steady_intros)

text \<open>The bus after an event of the Service.\<close>

definition one_event :: "'b svc \<Rightarrow> 'b svc \<Rightarrow> bool" where
  "one_event s t \<longleftrightarrow> (\<exists>ty d. sv_bus t = map_option (Publish ty [] d (sv_clock s 0)) (sv_bus s))"

definition announces :: "('b svc, 'a) act \<Rightarrow> bool" where
  "announces m \<longleftrightarrow> (\<forall>s r t. m s = (r, t) \<longrightarrow>
     (case r of Inl _ \<Rightarrow> sv_bus t = sv_bus s | Inr _ \<Rightarrow> sv_bus t = sv_bus s \<or> one_event s t))"

lemma announces_quiet: "steady heard m \<Longrightarrow> announces m"
  unfolding announces_def using steadyD [of heard m] by (fastforce simp: heard_def split: sum.split)

lemma announces_publish [announce_intros]: "announces (publish ty a n)" "announces (publishV6 a n)"
  by (auto simp: announces_def publish_def publishV6_def one_event_def split: option.splits sum.split)

lemma announces_bind [announce_intros]:
  assumes "steady heard m" and "\<And>x. announces (k x)"
  shows "announces (bindE m k)"
  unfolding announces_def
proof (intro allI impI)
  fix s r t assume e: "bindE m k s = (r, t)"
  obtain r1 s1 where m: "m s = (r1, s1)" by (cases "m s")
  have h: "sv_bus s1 = sv_bus s" "sv_clock s1 = sv_clock s"
    using steadyD [OF assms(1) m] by (simp_all add: heard_def)
  show "case r of Inl _ \<Rightarrow> sv_bus t = sv_bus s | Inr _ \<Rightarrow> sv_bus t = sv_bus s \<or> one_event s t"
  proof (cases r1)
    case (Inl x)
    with e m h show ?thesis by (auto simp: bindE_def)
  next
    case (Inr x)
    with e m have "k x s1 = (r, t)" by (simp add: bindE_def)
    with assms(2) [of x] h show ?thesis
      unfolding announces_def one_event_def by (auto split: sum.splits) (metis (no_types, lifting) Inl_Inr_False Inr_inject)+
  qed
qed

lemma announces_ret: "announces m \<Longrightarrow> announces (bindE m (\<lambda>x. ret (g x)))"
  unfolding announces_def bindE_def ret_def by (fastforce split: prod.splits sum.splits)

lemma announces_if [announce_intros]: "announces m \<Longrightarrow> announces n \<Longrightarrow> announces (if c then m else n)"
  by simp

lemma announces_option [announce_intros]:
  "announces m \<Longrightarrow> (\<And>x. announces (k x)) \<Longrightarrow> announces (case v of None \<Rightarrow> m | Some x \<Rightarrow> k x)"
  by (cases v) auto

lemma announces_prod [announce_intros]: "(\<And>x y. announces (k x y)) \<Longrightarrow> announces (case v of (x, y) \<Rightarrow> k x y)"
  by (cases v) auto

lemma announces_Let [announce_intros]: "(\<And>x. announces (k x)) \<Longrightarrow> announces (Let v k)"
  by (simp add: Let_def)

lemma announces_fail [announce_intros]: "announces (fail e)" "announces (ret x)"
  by (intro announces_quiet steady_intros)+

lemma announces_coll_store [announce_intros]: "announces (coll_store C xs c a)"
  unfolding coll_store_def by (intro announce_intros steady_intros)

lemma announces_store_ret [announce_intros]: "announces (bindE (coll_store C xs c a) (\<lambda>_. ret y))"
  by (intro announces_ret announce_intros)

lemma announces_coll [announce_intros]:
  "announces (coll_mutate C a fn)" "announces (coll_mutate_item C a f2)"
  "steady heard mk \<Longrightarrow> announces (coll_create C chk mk x)" "announces (coll_update C chk i x)"
  "announces (coll_delete C i)" "announces (coll_enable C i on)" "announces (coll_toggle C i)"
  "announces (coll_batch C act ids)"
  unfolding coll_update_def coll_delete_def coll_enable_def coll_toggle_def coll_batch_def
    coll_mutate_def coll_mutate_item_def coll_create_def
  by (intro announce_intros steady_intros; assumption?)+


lemma announces_read_back:
  assumes a: "announces m" and R: "\<And>b. \<exists>x. fst (R b) = Inr x"
  shows "announces (bindE m (\<lambda>_. on_be R))"
  unfolding announces_def
proof (intro allI impI)
  fix s r t assume e: "bindE m (\<lambda>_. on_be R) s = (r, t)"
  obtain r1 s1 where m: "m s = (r1, s1)" by (cases "m s")
  with a have c: "case r1 of Inl _ \<Rightarrow> sv_bus s1 = sv_bus s | Inr _ \<Rightarrow> sv_bus s1 = sv_bus s \<or> one_event s s1"
    by (simp add: announces_def)
  show "case r of Inl _ \<Rightarrow> sv_bus t = sv_bus s | Inr _ \<Rightarrow> sv_bus t = sv_bus s \<or> one_event s t"
  proof (cases r1)
    case (Inl x)
    with e m c show ?thesis by (auto simp: bindE_def)
  next
    case (Inr x)
    obtain y b where "R (sv_be s1) = (Inr y, b)"
      using R [of "sv_be s1"] by (cases "R (sv_be s1)") auto
    with Inr e m have "r = Inr y" "t = s1\<lparr>sv_be := b\<rparr>"
      by (simp_all add: bindE_def on_be_def)
    with c Inr show ?thesis by (simp add: one_event_def)
  qed
qed

section \<open>Handlers\<close>

definition granted :: "'v reply \<Rightarrow> bool" where
  "granted r \<longleftrightarrow> (\<exists>st v. r = Reply st v)"

definition announcing :: "('b, 'v) handler \<Rightarrow> bool" where
  "announcing h \<longleftrightarrow> (\<forall>s rep t. h s = (rep, t) \<longrightarrow>
     sv_bus t = sv_bus s \<or> granted rep \<and> one_event s t)"

lemma granted_simps [simp]: "granted (Reply st v)" "\<not> granted (Refusal c d e)" "\<not> granted NoReply"
  "\<not> granted (writeNetErr e1)" "\<not> granted (internal_error e1)" "granted (map_reply f r) = granted r"
  by (auto simp: granted_def writeNetErr_def internal_error_def) (cases r; simp)+

lemma steady_answer [steady_intros]: "steady f m \<Longrightarrow> steady f (answer g b m)"
  unfolding steady_def answer_def by (auto split: prod.splits sum.splits) (metis snd_conv)+

lemma steady_decode [steady_intros]: "(\<And>x. steady f (k x)) \<Longrightarrow> steady f (decodeJSON v k)"
  by (simp add: steady_def decodeJSON_def split: option.split)

lemma steady_without_body [steady_intros]: "steady f h \<Longrightarrow> steady f (without_body h)"
  by (simp add: steady_def without_body_def split: prod.split) (metis snd_conv)

lemma announcing_answer [announce_intros]:
  assumes "announces m"
  shows "announcing (answer (\<lambda>x. Reply c (g x)) writeNetErr m)" "announcing (answer (\<lambda>x. Reply c (g x)) internal_error m)"
    "announcing (answer (\<lambda>x. Reply c (g x)) (\<lambda>e. Refusal c' d (q e)) m)"
  using assms unfolding announcing_def answer_def announces_def
  by (fastforce split: prod.splits sum.splits)+

lemma announcing_decode [announce_intros]: "(\<And>x. announcing (k x)) \<Longrightarrow> announcing (decodeJSON v k)"
  by (auto simp: announcing_def decodeJSON_def split: option.split)

lemma announcing_prod [announce_intros]: "(\<And>x y. announcing (k x y)) \<Longrightarrow> announcing (case v of (x, y) \<Rightarrow> k x y)"
  by (cases v) auto

lemma announcing_without_body [announce_intros]: "announcing h \<Longrightarrow> announcing (without_body h)"
  unfolding announcing_def without_body_def by (fastforce split: prod.splits)

lemma announcing_quiet: "steady heard h \<Longrightarrow> announcing h"
  unfolding announcing_def using steadyD [of heard h] by (fastforce simp: heard_def)

lemmas service_defs =
  svc_Status_def ListDHCPServers_def GetDHCPServer_def checkPoolSubnet_def CreateDHCPServer_def UpdateDHCPServer_def
  DeleteDHCPServer_def SetDHCPServerEnabled_def BatchDHCPServers_def RestartDHCP_def ListStatics_def GetARPBind_def
  CreateStatic_def UpdateStatic_def DeleteStatic_def SetStaticEnabled_def BatchStatics_def SetARPBind_def
  ListLeases_def ReserveLease_def SetLeaseNote_def SuggestNextIP_def FixSubnet_def GetACL_def SetACLMode_def
  AddACLEntry_def BlacklistMAC_def UpdateACLEntry_def DeleteACLEntry_def ToggleACLEntry_def
  ListRoutes_def GetRoutePushMode_def SetRoutePushMode_def GetRoute_def CreateRoute_def UpdateRoute_def
  DeleteRoute_def SetRouteEnabled_def DuplicateRoute_def BatchRoutes_def RouteTable_def
  ListPolicyRules_def CreatePolicyRule_def UpdatePolicyRule_def DeletePolicyRule_def SetPolicyRuleEnabled_def
  BatchPolicyRules_def
  GetDNSSettings_def GetDNSDoH_def ListDNSRecords_def CreateDNSRecord_def UpdateDNSRecord_def DeleteDNSRecord_def
  SetDNSRecordEnabled_def BatchDNSRecords_def ListDNSDomainRoutes_def CreateDNSDomainRoute_def
  UpdateDNSDomainRoute_def DeleteDNSDomainRoute_def SetDNSDomainRouteEnabled_def BatchDNSDomainRoutes_def
  FlushDNSCache_def InstallDoH_def
  ListNICs_def ListNetIfaces_def GetNetIface_def WANAction_def InstallDHCP_def NetOverview_def
  ListWANv6_def GetWANv6_def CreateWANv6_def UpdateWANv6_def DeleteWANv6_def SetWANv6Enabled_def BatchWANv6_def
  RegenWANv6DUID_def ListLANv6_def GetLANv6_def CreateLANv6_def UpdateLANv6_def DeleteLANv6_def SetLANv6Enabled_def
  BatchLANv6_def ListLeasesV6_def ListPrefixStaticsV6_def CreatePrefixStaticV6_def UpdatePrefixStaticV6_def
  DeletePrefixStaticV6_def SetPrefixStaticV6Enabled_def BatchPrefixStaticsV6_def GetACLv6_def SetACLv6Mode_def
  AddACLv6Entry_def UpdateACLv6Entry_def DeleteACLv6Entry_def ToggleACLv6Entry_def ListNeighborsV6_def
  DeleteNeighborV6_def FlushNeighborsV6_def

lemma heard_coll_get [steady_intros]: "steady heard (coll_get C i)"
  unfolding coll_get_def by (intro steady_intros)

lemma quiet_common: "fst (common_endpoint rq) = GET \<Longrightarrow> steady heard (serve_common L B rq)"
  by (cases rq; (simp; fail)?; simp only: serve_common.simps api_defs service_defs; intro steady_intros)

lemma quiet_dhcp: "fst (dhcp_endpoint rq) = GET \<Longrightarrow> steady heard (serve_dhcp L B rq)"
  by (cases rq; (simp; fail)?; simp only: serve_dhcp.simps api_defs service_defs; intro steady_intros)

lemma quiet_route: "fst (route_endpoint rq) = GET \<Longrightarrow> steady heard (serve_route L B rq)"
  by (cases rq; (simp; fail)?; simp only: serve_route.simps api_defs service_defs; intro steady_intros)

lemma quiet_rule: "fst (rule_endpoint rq) = GET \<Longrightarrow> steady heard (serve_rule L B rq)"
  by (cases rq; (simp; fail)?; simp only: serve_rule.simps api_defs service_defs; intro steady_intros)

lemma quiet_dns: "fst (dns_endpoint rq) = GET \<Longrightarrow> steady heard (serve_dns L B rq)"
  by (cases rq; (simp; fail)?; simp only: serve_dns.simps api_defs service_defs; intro steady_intros)

lemma quiet_iface: "fst (iface_endpoint rq) = GET \<Longrightarrow> steady heard (serve_iface L B rq)"
  by (cases rq; (simp; fail)?; simp only: serve_iface.simps api_defs service_defs; intro steady_intros)

lemma quiet_ipv6: "fst (ipv6_endpoint rq) = GET \<Longrightarrow> steady heard (serve_ipv6 L B rq)"
  by (cases rq; (simp; fail)?; simp only: serve_ipv6.simps api_defs service_defs; intro steady_intros)

lemma announces_case_sum [announce_intros]:
  "(\<And>x. announces (m x)) \<Longrightarrow> (\<And>x. announces (k x)) \<Longrightarrow> announces (case v of Inl x \<Rightarrow> m x | Inr x \<Rightarrow> k x)"
  by (cases v) auto

lemma announces_publish_ret [announce_intros]: "announces (bindE (publish ty a n) (\<lambda>_. ret y))"
  by (intro announces_ret announce_intros)

text \<open>Reading the DNS settings never fails, as on both backends of the program.\<close>

definition dns_readable :: "'b backend \<Rightarrow> bool" where
  "dns_readable B \<longleftrightarrow> (\<forall>b. (\<exists>x. fst (be_DNSSettings B b) = Inr x) \<and> (\<exists>x. fst (be_DNSDoH B b) = Inr x))"

lemma announces_SaveDNS:
  assumes "dns_readable B"
  shows "announces (SaveDNSSettings B x)" "announces (SaveDNSDoH B y)"
  using assms unfolding SaveDNSSettings_def SaveDNSDoH_def dns_readable_def
  by (intro announce_intros announces_read_back steady_intros; simp)+

lemma announces_SaveNetIface [announce_intros]: "announces (SaveNetIface B x)"
  unfolding SaveNetIface_def nextIfaceID_def by (intro announce_intros steady_intros)

lemma announces_DeleteNetIface [announce_intros]: "announces (DeleteNetIface B x)"
  unfolding DeleteNetIface_def by (intro announce_intros steady_intros)

lemma announcing_common: "announcing (serve_common L B rq)"
  by (cases rq; (rule announcing_quiet, rule quiet_common, simp; fail)?;
      simp only: serve_common.simps api_defs service_defs; intro announce_intros steady_intros; assumption?)

lemma announcing_dhcp: "announcing (serve_dhcp L B rq)"
  by (cases rq; (rule announcing_quiet, rule quiet_dhcp, simp; fail)?;
      simp only: serve_dhcp.simps api_defs service_defs; intro announce_intros steady_intros; assumption?)

lemma announcing_route: "announcing (serve_route L B rq)"
  by (cases rq; (rule announcing_quiet, rule quiet_route, simp; fail)?;
      simp only: serve_route.simps api_defs service_defs; intro announce_intros steady_intros; assumption?)

lemma announcing_rule: "announcing (serve_rule L B rq)"
  by (cases rq; (rule announcing_quiet, rule quiet_rule, simp; fail)?;
      simp only: serve_rule.simps api_defs service_defs; intro announce_intros steady_intros; assumption?)

lemma announcing_dns: "dns_readable B \<Longrightarrow> announcing (serve_dns L B rq)"
  by (cases rq; (rule announcing_quiet, rule quiet_dns, simp; fail)?;
      simp only: serve_dns.simps api_defs service_defs; intro announce_intros announces_SaveDNS steady_intros; assumption?)

lemma announcing_iface: "announcing (serve_iface L B rq)"
  by (cases rq; (rule announcing_quiet, rule quiet_iface, simp; fail)?;
      simp only: serve_iface.simps api_defs service_defs; intro announce_intros steady_intros; assumption?)

lemma announcing_ipv6: "announcing (serve_ipv6 L B rq)"
  by (cases rq; (rule announcing_quiet, rule quiet_ipv6, simp; fail)?;
      simp only: serve_ipv6.simps api_defs service_defs; intro announce_intros steady_intros; assumption?)

lemma serve_quiet: "fst (endpoint rq) = GET \<Longrightarrow> steady heard (serve L B rq)"
  by (cases rq) (simp_all add: quiet_common quiet_dhcp quiet_route quiet_rule quiet_dns quiet_iface quiet_ipv6)

lemma serve_announcing: "dns_readable B \<Longrightarrow> announcing (serve L B rq)"
  by (cases rq) (simp_all add: announcing_common announcing_dhcp announcing_route announcing_rule announcing_dns
    announcing_iface announcing_ipv6)


section \<open>The type of an answer\<close>

named_theorems typed_intros \<open>handlers whose answers satisfy a predicate\<close>

definition answers :: "('v reply \<Rightarrow> bool) \<Rightarrow> ('b, 'v) handler \<Rightarrow> bool" where
  "answers P h \<longleftrightarrow> (\<forall>s. P (fst (h s)))"

lemma answers_answer [typed_intros]:
  "(\<And>x. P (g x)) \<Longrightarrow> (\<And>e. P (b e)) \<Longrightarrow> answers P (answer g b m)"
  by (simp add: answers_def answer_def split: prod.split sum.split)

lemma answers_decode [typed_intros]:
  "P (Refusal 400 CodeBadRequest InvalidBody) \<Longrightarrow> (\<And>x. answers P (k x)) \<Longrightarrow> answers P (decodeJSON v k)"
  by (simp add: answers_def decodeJSON_def split: option.split)

lemma answers_prod [typed_intros]: "(\<And>x y. answers P (k x y)) \<Longrightarrow> answers P (case v of (x, y) \<Rightarrow> k x y)"
  by (cases v) auto

lemma answers_Let [typed_intros]: "(\<And>x. answers P (k x)) \<Longrightarrow> answers P (Let v k)"
  by (simp add: Let_def)

text \<open>The answers that the methods may give.\<close>

fun reply_ok :: "verb \<Rightarrow> 'v reply \<Rightarrow> bool" where
  "reply_ok me (Reply st v) \<longleftrightarrow> st = 200 \<or> st = 201 \<and> me = POST"
| "reply_ok me (Refusal st co msg) \<longleftrightarrow>
     (st, co) \<in> {(400, CodeBadRequest), (404, CodeNotFound), (500, CodeInternal)} \<and>
     (st = 404 \<longleftrightarrow> msg = NoSuchResource) \<and> (msg = InvalidBody \<longrightarrow> st = 400 \<and> me \<noteq> GET)"
| "reply_ok me NoReply \<longleftrightarrow> me = GET"

lemma reply_ok_map [simp]: "reply_ok me (map_reply f r) = reply_ok me r"
  by (cases r) auto

lemma answers_without_body [typed_intros]:
  "answers (reply_ok me) h \<Longrightarrow> answers (reply_ok me) (without_body h)"
  by (simp add: answers_def without_body_def split: prod.split) (metis fst_conv)

lemma reply_ok_errors [simp]: "reply_ok me (writeNetErr e)" "reply_ok me (internal_error e)"
  by (simp_all add: writeNetErr_def internal_error_def)

lemma typed_common: "answers (reply_ok (fst (common_endpoint rq))) (serve_common L B rq)"
  by (cases rq; simp only: serve_common.simps common_endpoint.simps fst_conv api_defs; intro typed_intros;
      simp split: option.split)

lemma typed_dhcp: "answers (reply_ok (fst (dhcp_endpoint rq))) (serve_dhcp L B rq)"
  by (cases rq; simp only: serve_dhcp.simps dhcp_endpoint.simps fst_conv api_defs; intro typed_intros;
      simp split: option.split)

lemma typed_route: "answers (reply_ok (fst (route_endpoint rq))) (serve_route L B rq)"
  by (cases rq; simp only: serve_route.simps route_endpoint.simps fst_conv api_defs; intro typed_intros;
      simp split: option.split)

lemma typed_rule: "answers (reply_ok (fst (rule_endpoint rq))) (serve_rule L B rq)"
  by (cases rq; simp only: serve_rule.simps rule_endpoint.simps fst_conv api_defs; intro typed_intros;
      simp split: option.split)

lemma typed_dns: "answers (reply_ok (fst (dns_endpoint rq))) (serve_dns L B rq)"
  by (cases rq; simp only: serve_dns.simps dns_endpoint.simps fst_conv api_defs; intro typed_intros;
      simp split: option.split)

lemma typed_iface: "answers (reply_ok (fst (iface_endpoint rq))) (serve_iface L B rq)"
  by (cases rq; simp only: serve_iface.simps iface_endpoint.simps fst_conv api_defs; intro typed_intros;
      simp split: option.split)

lemma typed_ipv6: "answers (reply_ok (fst (ipv6_endpoint rq))) (serve_ipv6 L B rq)"
  by (cases rq; simp only: serve_ipv6.simps ipv6_endpoint.simps fst_conv api_defs; intro typed_intros;
      simp split: option.split)


section \<open>Interfaces under any history of requests\<close>

definition ifaces_of :: "store svc \<Rightarrow> NetIface list" where
  "ifaces_of s = S_NetIfaces (store_state s)"

lemma ifaces_on_be:
  "steady ifaces_of (on_be m) \<longleftrightarrow> (\<forall>b. S_NetIfaces (sb_st (snd (m b))) = S_NetIfaces (sb_st b))"
proof
  assume st: "steady ifaces_of (on_be m)"
  show "\<forall>b. S_NetIfaces (sb_st (snd (m b))) = S_NetIfaces (sb_st b)"
  proof
    fix b
    have "ifaces_of (snd (on_be m \<lparr>sv_be = b, sv_bus = None, sv_rand = (\<lambda>_. 0), sv_clock = (\<lambda>_. 0)\<rparr>)) = S_NetIfaces (sb_st b)"
      using st by (simp add: steady_def ifaces_of_def store_state_def)
    then show "S_NetIfaces (sb_st (snd (m b))) = S_NetIfaces (sb_st b)"
      by (simp add: ifaces_of_def store_state_def on_be_def split: prod.splits)
  qed
next
  assume "\<forall>b. S_NetIfaces (sb_st (snd (m b))) = S_NetIfaces (sb_st b)"
  then show "steady ifaces_of (on_be m)"
    by (simp add: steady_def ifaces_of_def store_state_def on_be_def split: prod.split) (metis snd_conv)
qed

lemma ifaces_misc [steady_intros]:
  "steady ifaces_of (publish ty a n)" "steady ifaces_of (publishV6 a n)" "steady ifaces_of (rand_bytes k)"
  by (simp_all add: steady_def publishV6_def publish_def rand_bytes_def ifaces_of_def store_state_def split: option.split)

lemma ifaces_ids [steady_intros]: "steady ifaces_of (cryptoID p)" "steady ifaces_of generateDUID"
  unfolding cryptoID_def generateDUID_def by (intro steady_intros)+

lemma ifaces_fix_loop [steady_intros]: "steady ifaces_of (fix_loop L iface ls xs n)"
proof (induction ls arbitrary: xs n)
  case (Cons l ls)
  show ?case by (simp only: fix_loop.simps) (intro steady_intros Cons)
qed (simp add: steady_intros)

text \<open>A collection whose load and save leave the view alone.\<close>

definition coll_steady :: "('b svc \<Rightarrow> 'x) \<Rightarrow> ('b, 'a, 'c) coll \<Rightarrow> bool" where
  "coll_steady f C \<longleftrightarrow> steady f (on_be (c_load C)) \<and> (\<forall>xs c. steady f (on_be (c_save C xs c)))"

lemma coll_steady_load [steady_intros]: "coll_steady f C \<Longrightarrow> steady f (on_be (c_load C))"
  by (simp add: coll_steady_def)

lemma ifaces_coll_store [steady_intros]: "coll_steady ifaces_of C \<Longrightarrow> steady ifaces_of (coll_store C xs c a)"
  unfolding coll_store_def by (intro steady_intros) (simp add: coll_steady_def)

lemma ifaces_coll [steady_intros]:
  assumes "coll_steady ifaces_of C"
  shows "steady ifaces_of (coll_mutate C a fn)" "steady ifaces_of (coll_mutate_item C a f2)"
    "steady ifaces_of mk \<Longrightarrow> steady ifaces_of (coll_create C chk mk x)" "steady ifaces_of (coll_update C chk i x)"
    "steady ifaces_of (coll_delete C i)" "steady ifaces_of (coll_enable C i on)" "steady ifaces_of (coll_toggle C i)"
    "steady ifaces_of (coll_batch C act ids)" "steady ifaces_of (coll_get C i)"
  unfolding coll_update_def coll_delete_def coll_enable_def coll_toggle_def coll_batch_def
    coll_mutate_def coll_mutate_item_def coll_create_def coll_get_def
  by (intro steady_intros assms; assumption?)+

lemma store_colls_steady [steady_intros]:
  "coll_steady ifaces_of (servers_coll store_backend)" "coll_steady ifaces_of (statics_coll store_backend)"
  "coll_steady ifaces_of (acl_coll store_backend)" "coll_steady ifaces_of (routes_coll store_backend)"
  "coll_steady ifaces_of (rules_coll store_backend)" "coll_steady ifaces_of (records_coll store_backend)"
  "coll_steady ifaces_of (domroutes_coll store_backend)" "coll_steady ifaces_of (wan6s_coll store_backend)"
  "coll_steady ifaces_of (lan6s_coll store_backend)" "coll_steady ifaces_of (prefix6s_coll store_backend)"
  "coll_steady ifaces_of (acl6_coll store_backend)"
  by (simp_all add: coll_steady_def ifaces_on_be store_coll_simps)

lemma store_calls_steady [steady_intros]:
  "steady ifaces_of (on_be (be_Interfaces store_backend))" "steady ifaces_of (on_be (be_Status store_backend))"
  "steady ifaces_of (on_be (be_DHCPServers store_backend))" "steady ifaces_of (on_be (be_RestartDHCP store_backend))"
  "steady ifaces_of (on_be (be_Statics store_backend))" "steady ifaces_of (on_be (be_ARPBind store_backend))"
  "steady ifaces_of (on_be (be_Leases store_backend))" "steady ifaces_of (on_be (be_LeaseNotes store_backend))"
  "steady ifaces_of (on_be (be_SetLeaseNote store_backend mac note))" "steady ifaces_of (on_be (load_ACL store_backend))"
  "steady ifaces_of (on_be (be_Routes store_backend))" "steady ifaces_of (on_be (be_PolicyRules store_backend))"
  "steady ifaces_of (on_be (be_RoutePushMode store_backend))"
  "steady ifaces_of (on_be (be_SaveRoutePushMode store_backend mode))"
  "steady ifaces_of (on_be (be_RouteTable store_backend fam))" "steady ifaces_of (on_be (be_NICs store_backend))"
  "steady ifaces_of (on_be (be_NetIfaces store_backend))" "steady ifaces_of (on_be (be_WANAction store_backend i action))"
  "steady ifaces_of (on_be (be_InstallDHCP store_backend))" "steady ifaces_of (on_be (be_DNSSettings store_backend))"
  "steady ifaces_of (on_be (be_SaveDNSSettings store_backend dns))" "steady ifaces_of (on_be (be_DNSDoH store_backend))"
  "steady ifaces_of (on_be (be_SaveDNSDoH store_backend doh))" "steady ifaces_of (on_be (be_DNSRecords store_backend))"
  "steady ifaces_of (on_be (be_DNSDomainRoutes store_backend))" "steady ifaces_of (on_be (be_FlushDNSCache store_backend))"
  "steady ifaces_of (on_be (be_InstallDoH store_backend))" "steady ifaces_of (on_be (be_WANv6s store_backend))"
  "steady ifaces_of (on_be (be_LANv6s store_backend))" "steady ifaces_of (on_be (be_PrefixStaticsV6 store_backend))"
  "steady ifaces_of (on_be (load_ACLv6 store_backend))" "steady ifaces_of (on_be (be_LeasesV6 store_backend))"
  "steady ifaces_of (on_be (be_NeighborsV6 store_backend))"
  "steady ifaces_of (on_be (be_DeleteNeighborV6 store_backend addr dev))"
  "steady ifaces_of (on_be (be_FlushNeighborsV6 store_backend dev))"
  "steady ifaces_of (on_be (staticsAndARP store_backend))"
  by (simp_all add: ifaces_on_be store_coll_simps fail_def)

lemmas iface_service_defs = service_defs SaveDNSSettings_def SaveDNSDoH_def

lemma ifaces_common: "steady ifaces_of (serve_common L store_backend rq)"
  by (cases rq; simp only: serve_common.simps api_defs iface_service_defs; intro steady_intros)

lemma ifaces_dhcp: "steady ifaces_of (serve_dhcp L store_backend rq)"
  by (cases rq; simp only: serve_dhcp.simps api_defs iface_service_defs; intro steady_intros)

lemma ifaces_route: "steady ifaces_of (serve_route L store_backend rq)"
  by (cases rq; simp only: serve_route.simps api_defs iface_service_defs; intro steady_intros)

lemma ifaces_rule: "steady ifaces_of (serve_rule L store_backend rq)"
  by (cases rq; simp only: serve_rule.simps api_defs iface_service_defs; intro steady_intros)

lemma ifaces_dns: "steady ifaces_of (serve_dns L store_backend rq)"
  by (cases rq; simp only: serve_dns.simps api_defs iface_service_defs; intro steady_intros)

lemma ifaces_ipv6: "steady ifaces_of (serve_ipv6 L store_backend rq)"
  by (cases rq; simp only: serve_ipv6.simps api_defs iface_service_defs; intro steady_intros)

definition edits_iface :: "iface_request \<Rightarrow> bool" where
  "edits_iface rq \<longleftrightarrow> (\<exists>i x. rq \<in> {Rq_CreateNetIface x, Rq_UpdateNetIface i x, Rq_DeleteNetIface i})"

lemma ifaces_iface: "\<not> edits_iface rq \<Longrightarrow> steady ifaces_of (serve_iface L store_backend rq)"
  by (cases rq; (simp add: edits_iface_def; fail)?; simp only: serve_iface.simps api_defs iface_service_defs;
      intro steady_intros)

lemma snd_handlers [simp]: "snd (answer g b m s) = snd (m s)" "snd (without_body h s) = snd (h s)"
  "snd (decodeJSON v k s) = (case v of None \<Rightarrow> s | Some x \<Rightarrow> snd (k x s))"
  by (simp_all add: answer_def without_body_def decodeJSON_def split: prod.split sum.split option.split)

lemma serve_keeps_disjoint:
  assumes "ifaces_disjoint (ifaces_of s)"
  shows "ifaces_disjoint (ifaces_of (snd (serve L store_backend rq s)))"
proof -
  have same: ?thesis if "steady ifaces_of (serve L store_backend rq)"
    using that assms by (simp add: steady_def)
  have d: "ifaces_disjoint (S_NetIfaces (store_state s))"
    using assms by (simp add: ifaces_of_def)
  show ?thesis
  proof (cases rq)
    case (Rq_iface x)
    then show ?thesis
    proof (cases "edits_iface x")
      case True
      with Rq_iface assms show ?thesis
        using interfaces_stay_disjoint [OF d]
        by (auto simp: edits_iface_def api_defs ifaces_of_def split: option.split)
    next
      case False
      with Rq_iface show ?thesis by (intro same) (simp add: ifaces_iface)
    qed
  qed (rule same; simp add: ifaces_common ifaces_dhcp ifaces_route ifaces_rule ifaces_dns ifaces_ipv6)+
qed


section \<open>Deleting\<close>

text \<open>
  What the handler \<open>h\<close> answers to DELETE: 404 for an id that is not there, and nothing changes; otherwise the
  item is gone, whether the answer is 200 or, because the file could not be written, 400.
\<close>

definition delete_contract :: "(string \<Rightarrow> ('b, string) handler) \<Rightarrow> ('b svc \<Rightarrow> string list) \<Rightarrow> bool" where
  "delete_contract h ids \<longleftrightarrow> (\<forall>i s rep t. h i s = (rep, t) \<longrightarrow>
     (if i \<in> set (ids s)
      then ids t = filter (\<lambda>j. j \<noteq> i) (ids s) \<and>
           (rep = Reply 200 i \<or> (\<exists>e. rep = Refusal 400 CodeBadRequest (ErrorText (ErrIO e))))
      else rep = Refusal 404 CodeNotFound NoSuchResource \<and> t = s))"

text \<open>The writes of a collection fail only with errors of the system.\<close>

definition io_only :: "('b, 'a, 'c) coll \<Rightarrow> bool" where
  "io_only C \<longleftrightarrow> (\<forall>xs c b err b'. c_save C xs c b = (Inl err, b') \<longrightarrow> (\<exists>x. err = ErrIO x))"

lemma save_st_IO: "save_st f b = (Inl e, b') \<Longrightarrow> \<exists>x. e = ErrIO x"
  by (auto simp: save_st_def flushLocked_def flush_disk_def Let_def split: option.splits prod.splits)

context coll_laws begin

lemma delete_contractI:
  assumes io: "io_only C"
  shows "delete_contract (\<lambda>i. answer (\<lambda>_. Reply 200 i) writeNetErr (coll_delete C i)) (\<lambda>s. ids_of (c_item C) (items s))"
  unfolding delete_contract_def
proof (intro allI impI)
  fix i s rep t
  assume e: "answer (\<lambda>_. Reply 200 i) writeNetErr (coll_delete C i) s = (rep, t)"
  show "if i \<in> set (ids_of (c_item C) (items s))
    then ids_of (c_item C) (items t) = filter (\<lambda>j. j \<noteq> i) (ids_of (c_item C) (items s)) \<and>
      (rep = Reply 200 i \<or> (\<exists>x. rep = Refusal 400 CodeBadRequest (ErrorText (ErrIO x))))
    else rep = Refusal 404 CodeNotFound NoSuchResource \<and> t = s"
proof -
  obtain r where d: "coll_delete C i s = (r, t)" and rep: "rep = (case r of Inl e \<Rightarrow> writeNetErr e | Inr _ \<Rightarrow> Reply 200 i)"
    using e by (auto simp: answer_def split: prod.splits sum.splits)
  show ?thesis
  proof (cases "delete_item (c_item C) i (items s)")
    case (Inl err)
    then have n: "i \<notin> set (ids_of (c_item C) (items s))"
      by (simp add: delete_item_Inl)
    with coll_delete_spec [OF d] have "r = Inl ErrNotFound" "t = s" by simp_all
    with n rep show ?thesis by (simp add: writeNetErr_def)
  next
    case (Inr ys)
    then have "coll_store C ys (ctx (sv_be s)) ''delete'' s = (r, t)"
      using d by (simp add: coll_delete_def coll_mutate_Inr)
    from coll_store_spec(4) [OF this]
    have "fst (c_save C ys (ctx (sv_be s)) (sv_be s)) = r" .
    then obtain b where "c_save C ys (ctx (sv_be s)) (sv_be s) = (r, b)"
      by (metis prod.collapse)
    with io have "(\<exists>x. r = Inl (ErrIO x)) \<or> r = Inr ()"
      unfolding io_only_def by (cases r) (blast, simp)
    with rep have a: "rep = Reply 200 i \<or> (\<exists>x. rep = Refusal 400 CodeBadRequest (ErrorText (ErrIO x)))"
      by (elim disjE exE) (simp_all add: writeNetErr_def)
    have "i \<in> set (ids_of (c_item C) (items s))"
      using Inr by (simp add: delete_item_Inr)
    with a coll_delete_spec [OF d] show ?thesis by simp
  qed
qed
qed

end

lemma store_io_only:
  "io_only (servers_coll store_backend)" "io_only (statics_coll store_backend)" "io_only (acl_coll store_backend)"
  "io_only (routes_coll store_backend)" "io_only (rules_coll store_backend)" "io_only (records_coll store_backend)"
  "io_only (domroutes_coll store_backend)"
  by (auto simp: io_only_def store_coll_simps dest: save_st_IO)

lemmas store_items_defs = store_servers.items_def store_statics.items_def store_acl.items_def store_routes.items_def
  store_rules.items_def store_records.items_def store_domroutes.items_def

lemmas item_ids = servers_coll_def statics_coll_def acl_coll_def routes_coll_def rules_coll_def records_coll_def
  domroutes_coll_def server_item_def static_item_def acl_item_def route_item_def rule_item_def record_item_def
  domroute_item_def

lemma store_ids_of:
  "ids_of (c_item (servers_coll B)) = map ds_ID" "ids_of (c_item (statics_coll B)) = map sl_ID"
  "ids_of (c_item (acl_coll B)) = map ae_ID" "ids_of (c_item (routes_coll B)) = map rt_ID"
  "ids_of (c_item (rules_coll B)) = map pr_ID" "ids_of (c_item (records_coll B)) = map dr_ID"
  "ids_of (c_item (domroutes_coll B)) = map dd_ID"
  by (simp_all add: ids_of_def item_ids fun_eq_iff)

lemmas delete_contracts =
  store_servers.delete_contractI [OF store_io_only(1)] store_statics.delete_contractI [OF store_io_only(2)]
  store_acl.delete_contractI [OF store_io_only(3)] store_routes.delete_contractI [OF store_io_only(4)]
  store_rules.delete_contractI [OF store_io_only(5)] store_records.delete_contractI [OF store_io_only(6)]
  store_domroutes.delete_contractI [OF store_io_only(7)]

lemmas deletes_defs = api_DeleteServer_def [abs_def] api_DeleteStatic_def [abs_def] api_DeleteACLEntry_def [abs_def]
  api_DeleteRoute_def [abs_def] api_DeletePolicyRule_def [abs_def] api_DeleteDNSRecord_def [abs_def]
  api_DeleteDNSDomainRoute_def [abs_def] DeleteDHCPServer_def DeleteStatic_def DeleteACLEntry_def DeleteRoute_def
  DeletePolicyRule_def DeleteDNSRecord_def DeleteDNSDomainRoute_def

text \<open>on the store backend, deleting a pool, a reservation, an access-list entry, a route, a policy rule, a DNS record or a domain route answers 404 exactly when there is no such item, and then changes nothing; otherwise the item is gone, even where the file could not be written and the client is told 400.\<close>

theorem delete_answers:
  "delete_contract (api_DeleteServer store_backend) (\<lambda>s. map ds_ID (S_DHCPServers (store_state s))) \<and>
   delete_contract (api_DeleteStatic store_backend) (\<lambda>s. map sl_ID (S_Statics (store_state s))) \<and>
   delete_contract (api_DeleteACLEntry store_backend) (\<lambda>s. map ae_ID (acl_Entries (S_ACL (store_state s)))) \<and>
   delete_contract (api_DeleteRoute store_backend) (\<lambda>s. map rt_ID (S_Routes (store_state s))) \<and>
   delete_contract (api_DeletePolicyRule store_backend) (\<lambda>s. map pr_ID (S_PolicyRules (store_state s))) \<and>
   delete_contract (api_DeleteDNSRecord store_backend) (\<lambda>s. map dr_ID (S_DNSRecords (store_state s))) \<and>
   delete_contract (api_DeleteDNSDomainRoute store_backend) (\<lambda>s. map dd_ID (S_DNSDomainRoutes (store_state s)))"
  using delete_contracts
  by (simp only: deletes_defs store_ids_of store_items_defs store_state_def comp_apply simp_thms)

section \<open>Interfaces that are not there\<close>

lemma store_call_ok:
  assumes "flush_ok (sv_be s)"
  shows "\<exists>b. be_SaveNetIface store_backend y (sv_be s) = (Inr (), b)"
    and "\<exists>b. be_DeleteNetIface store_backend n (sv_be s) = (Inr (), b)"
  using assms by (simp_all add: store_backend_def store_SaveNetIface_def store_DeleteNetIface_def save_st_def
    flushLocked_def flush_disk_def flush_ok_def Let_def)

text \<open>interfaces differ from the other resources: a PUT to an id that does not exist creates the interface under this id and a DELETE of it is a success, both with 200, though the description of the API promises 404.\<close>

theorem absent_interface_accepted:
  assumes "n \<notin> set (map ni_ID (ifaces_of s))" and "n \<noteq> []" and "flush_ok (sv_be s)"
    and "validateNetIface (x\<lparr>ni_ID := n\<rparr>) = Inr y" and "ni_ID y = n"
    and "checkIfaceRelations y (map with_status (ifaces_of s)) (S_DHCPServers (store_state s)) = Inr ()"
  shows "(\<exists>t. api_UpdateNetIface store_backend n (Some x) s = (Reply 200 y, t) \<and> ifaces_of t = ifaces_of s @ [y]) \<and>
    (\<exists>t. api_DeleteNetIface store_backend n s = (Reply 200 n, t) \<and> ifaces_of t = ifaces_of s)"
proof
  let ?is = "S_NetIfaces (store_state s)"
  have l: "on_be (be_NetIfaces store_backend) s = (Inr (map with_status ?is), s)"
    by (simp add: on_be_def store_be_NetIfaces store_state_def)
  have new: "n \<notin> ni_ID ` set ?is"
    using assms(1) by (simp add: ifaces_of_def)
  have d: "on_be (be_DHCPServers store_backend) s = (Inr (S_DHCPServers (store_state s)), s)"
    by (simp add: on_be_def store_backend_def store_DHCPServers_def read_st_def store_state_def)
  obtain b where b: "be_SaveNetIface store_backend y (sv_be s) = (Inr (), b)"
    using store_call_ok [OF assms(3)] by blast
  have "indexByID (length ?is) (\<lambda>k. ni_ID (?is ! k)) n = None"
    using new by (simp add: indexByID_None)
  then have st: "S_NetIfaces (sb_st b) = ?is @ [y]"
    using store_be_SaveNetIface_st [of y "sv_be s"] b assms(5) by (simp add: store_state_def)
  show "\<exists>t. api_UpdateNetIface store_backend n (Some x) s = (Reply 200 y, t) \<and> ifaces_of t = ifaces_of s @ [y]"
    using assms(2,4,5,6) l d b st
    by (cases "sv_bus s") (simp_all add: api_UpdateNetIface_def decodeJSON_def answer_def SaveNetIface_def bindE_def
      liftE_def orZero_def ifaces_of_def on_be_def publish_def ret_def store_state_def)
  obtain b' where b': "be_DeleteNetIface store_backend n (sv_be s) = (Inr (), b')"
    using store_call_ok [OF assms(3)] by blast
  have "canDeleteNetIface n (map with_status ?is) = Inr ()"
    using new by (auto simp: canDeleteNetIface_def Let_def list_ex_iff)
  moreover have "S_NetIfaces (sb_st b') = ?is"
    using store_be_DeleteNetIface_st [of n "sv_be s"] b' new
    by (force simp: store_state_def filter_id_conv)
  ultimately show "\<exists>t. api_DeleteNetIface store_backend n s = (Reply 200 n, t) \<and> ifaces_of t = ifaces_of s"
    using l b'
    by (cases "sv_bus s") (simp_all add: api_DeleteNetIface_def answer_def DeleteNetIface_def bindE_def liftE_def
      ifaces_of_def on_be_def publish_def store_state_def)
qed

section \<open>Witnesses\<close>

definition ascii_lib :: lib where
  "ascii_lib = \<lparr>lb_lower = (\<lambda>x. x), lb_fold = (\<lambda>n. n), lb_oui = Map.empty\<rparr>"

lemma store_dns_readable: "dns_readable store_backend"
  by (simp add: dns_readable_def store_coll_simps)



text \<open>The demonstration data on a disk that never fails.\<close>

definition steady_svc :: "store svc" where
  "steady_svc = sample_svc\<lparr>sv_be := (sv_be sample_svc)\<lparr>sb_disk := (sample_disk 9)\<lparr>dk_flush := (\<lambda>_. None)\<rparr>\<rparr>\<rparr>"

definition guest_lan :: NetIface where
  "guest_lan = seed_lan\<lparr>ni_ID := ''guest'', ni_IPAddr := ''192.168.2.1''\<rparr>"

theorem absent_interface_accepted_witness:
  "\<exists>t. api_UpdateNetIface store_backend ''guest'' (Some guest_lan) steady_svc = (Reply 200 guest_lan, t) \<and>
     ifaces_of t = [seed_lan, seed_wan, guest_lan]"
proof -
  have i: "ifaces_of steady_svc = [seed_lan, seed_wan]" "S_DHCPServers (store_state steady_svc) = [seed_server]"
    using seed_ifaces by (simp_all add: ifaces_of_def steady_svc_def store_state_def)
  have g: "guest_lan\<lparr>ni_ID := ''guest''\<rparr> = guest_lan" "ni_ID guest_lan = ''guest''"
    by (simp_all add: guest_lan_def)
  have v: "validateNetIface guest_lan = Inr guest_lan"
    by (simp add: guest_lan_def seed_lan_def eval_simps)
  have "ip_conflict guest_lan (with_status seed_lan) = None" "ip_conflict guest_lan (with_status seed_wan) = None"
    by (simp_all add: ip_conflict_None) (simp_all add: allIfaceIPs_def guest_lan_def seed_lan_def seed_wan_def zeroNetIface_def)
  moreover have "\<not> pool_outside guest_lan seed_server"
    by (simp add: pool_outside_def guest_lan_def seed_server_def zeroDHCPServer_def)
  ultimately have c: "checkIfaceRelations guest_lan [with_status seed_lan, with_status seed_wan] [seed_server] = Inr ()"
    by (simp add: checkIfaceRelations_def List.map_filter_simps)
  have f: "flush_ok (sv_be steady_svc)"
    by (simp add: flush_ok_def steady_svc_def)
  show ?thesis
    using absent_interface_accepted [of "''guest''" steady_svc guest_lan guest_lan] i g v c f
    by (simp add: seed_lan_def seed_wan_def)
qed

end
