(* ===== verification/UciRun.thy ===== *)
theory UciRun
  imports UciText ServiceIface StoreBackend
begin

text \<open>
  The machine under the uci backend, and the commands it is given. The backend talks to OpenWrt by
  running programs (\<open>uci\<close>, \<open>ip\<close>, \<open>ubus\<close>, init scripts) through the \<open>runner\<close> of uciexec.go and by
  looking at files. What these do is not part of the program: they are the fields of \<open>sys\<close>, arbitrary
  functions of the state of the machine. The text fed to \<open>uci batch\<close> is kept as a list of commands
  and rendered by \<open>batch_text\<close>, one line per command, as the format strings of the source do.
\<close>

section \<open>Commands of a batch\<close>

datatype ukey = Sec string string | Opt string string string

fun key_str :: "ukey \<Rightarrow> string" where
  "key_str (Sec config sec) = config @ ''.'' @ sec"
| "key_str (Opt config sec opt) = config @ ''.'' @ sec @ ''.'' @ opt"

datatype ucmd =
    SetType ukey string
  | SetKV ukey string
  | AddList ukey string
  | DelList ukey string
  | DelK ukey
  | Commit string

definition quoted :: "string \<Rightarrow> string" where
  "quoted v = byte 39 # v @ [byte 39]"

fun cmd_line :: "ucmd \<Rightarrow> string" where
  "cmd_line (SetType k t) = ''set '' @ key_str k @ ''='' @ t"
| "cmd_line (SetKV k v) = ''set '' @ key_str k @ ''='' @ quoted v"
| "cmd_line (AddList k v) = ''add_list '' @ key_str k @ ''='' @ quoted v"
| "cmd_line (DelList k v) = ''del_list '' @ key_str k @ ''='' @ quoted v"
| "cmd_line (DelK k) = ''delete '' @ key_str k"
| "cmd_line (Commit config) = ''commit '' @ config"

definition batch_text :: "ucmd list \<Rightarrow> string" where
  "batch_text cmds = concat (map (\<lambda>c. cmd_line c @ [byte 10]) cmds)"

text \<open>\<open>setKVOrDel\<close>, \<open>setOptOrDel\<close>, \<open>setBoolKV\<close>, \<open>setIntOrDel\<close>, \<open>restoreStock\<close>, \<open>ruleSetOrDel\<close>, \<open>setBoolOptOrDel\<close>.\<close>

definition setKVOrDel :: "ukey \<Rightarrow> string \<Rightarrow> ucmd" where
  "setKVOrDel k v = (if go_TrimSpace v = [] then DelK k else SetKV k v)"

definition setBoolKV :: "ukey \<Rightarrow> bool \<Rightarrow> ucmd" where
  "setBoolKV k on = SetKV k (if on then ''1'' else ''0'')"

definition setIntOrDel :: "ukey \<Rightarrow> int \<Rightarrow> ucmd" where
  "setIntOrDel k v = (if v > 0 then SetKV k (itoa v) else DelK k)"

definition restoreStock :: "ukey \<Rightarrow> string \<Rightarrow> ucmd" where
  "restoreStock k old = (if old = [] then DelK k else SetKV k old)"

definition ruleSetOrDel :: "string \<Rightarrow> string \<Rightarrow> string \<Rightarrow> ucmd" where
  "ruleSetOrDel i key v = (if v \<noteq> [] then SetKV (Opt ''network'' i key) v else DelK (Opt ''network'' i key))"

definition setOptOrDel :: "string \<Rightarrow> string \<Rightarrow> string \<Rightarrow> ucmd" where
  "setOptOrDel i opt v =
     (if go_TrimSpace v = [] then DelK (Opt ''network'' i opt) else SetKV (Opt ''network'' i opt) v)"

definition setBoolOptOrDel :: "string \<Rightarrow> string \<Rightarrow> bool option \<Rightarrow> ucmd" where
  "setBoolOptOrDel i opt v = (case v of
     None \<Rightarrow> DelK (Opt ''network'' i opt)
   | Some b \<Rightarrow> SetKV (Opt ''network'' i opt) (if b then ''1'' else ''0''))"

text \<open>The loop of \<open>desiredRebindDomains\<close> and \<open>dedupePorts\<close>: trimmed, without empty and repeated ones.\<close>

fun unseen :: "string list \<Rightarrow> string list \<Rightarrow> string list" where
  "unseen seen [] = []"
| "unseen seen (d # ds) = (let t = go_TrimSpace d in
     if t = [] \<or> t \<in> set seen then unseen seen ds else t # unseen (t # seen) ds)"

lemmas cmd_defs = setKVOrDel_def setBoolKV_def setIntOrDel_def restoreStock_def ruleSetOrDel_def
  setOptOrDel_def setBoolOptOrDel_def

section \<open>The machine\<close>

text \<open>
  \<open>sy_run stdin argv\<close> runs a program: its output and the text of the error, if any. \<open>sy_exists\<close> is
  \<open>os.Stat\<close>, \<open>sy_read\<close> is \<open>os.ReadFile\<close>, \<open>sy_now\<close> is \<open>time.Now().Unix()\<close>,
  \<open>sy_list\<close> is \<open>os.ReadDir\<close> (names in order), \<open>sy_link\<close> is \<open>os.Readlink\<close>.
\<close>

record 'w sys =
  sy_run :: "string \<Rightarrow> string list \<Rightarrow> 'w \<Rightarrow> (string \<times> string option) \<times> 'w"
  sy_exists :: "string \<Rightarrow> 'w \<Rightarrow> bool"
  sy_read :: "string \<Rightarrow> 'w \<Rightarrow> string option"
  sy_now :: "'w \<Rightarrow> int"
  sy_list :: "string \<Rightarrow> 'w \<Rightarrow> string list option"
  sy_link :: "string \<Rightarrow> 'w \<Rightarrow> string option"

text \<open>\<open>uciBackend\<close>: the embedded store, the machine, and its own fields.\<close>

record 'w uci =
  ub_store :: store
  ub_world :: 'w
  ub_pending :: bool
  ub_pendingMsg :: string
  ub_dropStock :: "string list"

definition on_store :: "(store, 'a) act \<Rightarrow> ('w uci, 'a) act" where
  "on_store m b = (case m (ub_store b) of (r, st) \<Rightarrow> (r, b\<lparr>ub_store := st\<rparr>))"

definition run_cmd :: "'w sys \<Rightarrow> string \<Rightarrow> string list \<Rightarrow> ('w uci, string \<times> string option) act" where
  "run_cmd E stdin argv b =
     (case sy_run E stdin argv (ub_world b) of (x, w) \<Rightarrow> (Inr x, b\<lparr>ub_world := w\<rparr>))"

definition uciGet :: "'w sys \<Rightarrow> string \<Rightarrow> ('w uci, string \<times> string option) act" where
  "uciGet E key = bindE (run_cmd E [] [''uci'', ''-q'', ''get'', key])
     (\<lambda>(out, e). ret (go_TrimSpace out, e))"

definition uciShow :: "'w sys \<Rightarrow> string \<Rightarrow> ('w uci, string \<times> string option) act" where
  "uciShow E config = run_cmd E [] [''uci'', ''-q'', ''show'', config]"

definition initdExists :: "'w sys \<Rightarrow> string \<Rightarrow> ('w uci, bool) act" where
  "initdExists E name b = (Inr (sy_exists E (''/etc/init.d/'' @ name) (ub_world b)), b)"

definition dhcpService :: "'w sys \<Rightarrow> ('w uci, string) act" where
  "dhcpService E = bindE (initdExists E ''dnsmasq'') (\<lambda>d.
     if d then ret ''dnsmasq''
     else bindE (initdExists E ''odhcpd'') (\<lambda>o'. ret (if o' then ''odhcpd'' else [])))"

definition set_pending :: "bool \<Rightarrow> string \<Rightarrow> ('w uci, unit) act" where
  "set_pending p msg b = (Inr (), b\<lparr>ub_pending := p, ub_pendingMsg := msg\<rparr>)"

definition ignoring :: "('w uci, 'a) act \<Rightarrow> ('w uci, unit) act" where
  "ignoring m = bindE m (\<lambda>_. ret ())"

text \<open>\<open>managedNames\<close>, \<open>managedNamesV6\<close>, \<open>managedNamesDNS\<close>: the sections that carry a marker.\<close>

definition marked :: "'w sys \<Rightarrow> string \<Rightarrow> string \<Rightarrow> ('w uci, string list) act" where
  "marked E config marker = bindE (uciShow E config) (\<lambda>(shown, e).
     if e = None then liftE (managedSectionsMarker shown config marker) else ret [])"

definition managedNames :: "'w sys \<Rightarrow> string \<Rightarrow> ('w uci, string list) act" where
  "managedNames E config = marked E config managedMarker"

text \<open>
  The map returned by the source is iterated in an unspecified order, to write one \<open>delete\<close> line per
  name; the model writes the lines in the order in which \<open>uci show\<close> lists the names.
\<close>

definition delete_others :: "string \<Rightarrow> string list \<Rightarrow> string list \<Rightarrow> ucmd list" where
  "delete_others config existing keep = [DelK (Sec config n). n \<leftarrow> existing, n \<notin> set keep]"

text \<open>One run of \<open>uci batch\<close>; the error the caller reports, if any.\<close>

definition uci_batch :: "'w sys \<Rightarrow> string \<Rightarrow> ucmd list \<Rightarrow> ('w uci, err option) act" where
  "uci_batch E what cmds = bindE (run_cmd E (batch_text cmds) [''uci'', ''batch''])
     (\<lambda>(out, e). ret (case e of None \<Rightarrow> None | Some m \<Rightarrow> Some (ErrFmt what [m, go_TrimSpace out])))"

definition orElse :: "err option \<Rightarrow> err option \<Rightarrow> err option" where
  "orElse a b = (case a of None \<Rightarrow> b | Some _ \<Rightarrow> a)"

definition raise :: "err option \<Rightarrow> ('w uci, unit) act" where
  "raise e = (case e of None \<Rightarrow> ret () | Some x \<Rightarrow> fail x)"

lemmas uci_run_defs = on_store_def run_cmd_def uciGet_def uciShow_def initdExists_def dhcpService_def
  set_pending_def ignoring_def marked_def managedNames_def uci_batch_def raise_def

section \<open>Actions that leave the sidecar alone\<close>

text \<open>
  \<open>keeps\<close>: whatever the machine answers, the action changes nothing of the sidecar that \<open>f\<close> sees.
\<close>

definition keeps :: "(store \<Rightarrow> 'x) \<Rightarrow> ('w uci, 'a) act \<Rightarrow> bool" where
  "keeps f m \<longleftrightarrow> (\<forall>b. f (ub_store (snd (m b))) = f (ub_store b))"

named_theorems keeps_intros \<open>actions that keep the sidecar\<close>

lemma keepsD: "keeps f m \<Longrightarrow> m b = (r, b') \<Longrightarrow> f (ub_store b') = f (ub_store b)"
  unfolding keeps_def by (metis snd_conv)

lemma keeps_ret [keeps_intros]: "keeps f (ret x)"
  by (simp add: keeps_def ret_def)

lemma keeps_fail [keeps_intros]: "keeps f (fail e)"
  by (simp add: keeps_def fail_def)

lemma keeps_liftE [keeps_intros]: "keeps f (liftE r)"
  by (simp add: keeps_def liftE_def)

lemma keeps_bindE [keeps_intros]:
  assumes "keeps f m" and "\<And>x. keeps f (k x)"
  shows "keeps f (bindE m k)"
  unfolding keeps_def
proof
  fix b
  obtain r b1 where m: "m b = (r, b1)" by (cases "m b")
  with keepsD [OF assms(1) m] assms(2) show "f (ub_store (snd (bindE m k b))) = f (ub_store b)"
    by (cases r) (simp_all add: bindE_def keeps_def)
qed

lemma keeps_if [keeps_intros]: "keeps f a \<Longrightarrow> keeps f b \<Longrightarrow> keeps f (if c then a else b)"
  by simp

lemma keeps_run_cmd [keeps_intros]: "keeps f (run_cmd E stdin argv)"
  by (simp add: keeps_def run_cmd_def split: prod.split)

lemma keeps_initdExists [keeps_intros]: "keeps f (initdExists E name)"
  by (simp add: keeps_def initdExists_def)

lemma keeps_set_pending [keeps_intros]: "keeps f (set_pending p msg)"
  by (simp add: keeps_def set_pending_def)

lemma keeps_prod [keeps_intros]: "(\<And>x y. keeps f (g x y)) \<Longrightarrow> keeps f (case p of (x, y) \<Rightarrow> g x y)"
  by (cases p) simp

lemma keeps_option [keeps_intros]:
  "keeps f a \<Longrightarrow> (\<And>x. keeps f (g x)) \<Longrightarrow> keeps f (case p of None \<Rightarrow> a | Some x \<Rightarrow> g x)"
  by (cases p) simp_all

lemma keeps_mapA [keeps_intros]:
  assumes "\<And>x. keeps f (g x)"
  shows "keeps f (mapA g xs)"
proof (induction xs)
  case Nil
  then show ?case by (simp add: keeps_def)
next
  case (Cons x xs)
  have "mapA g (x # xs) = bindE (g x) (\<lambda>y. bindE (mapA g xs) (\<lambda>ys. ret (y # ys)))"
    by (auto simp: fun_eq_iff bindE_def ret_def split: prod.split sum.split)
  then show ?case
    using assms Cons by (auto intro!: keeps_intros)
qed

lemma keeps_uciGet [keeps_intros]: "keeps f (uciGet E key)"
  unfolding uciGet_def by (intro keeps_intros)

lemma keeps_uciShow [keeps_intros]: "keeps f (uciShow E config)"
  unfolding uciShow_def by (intro keeps_intros)

lemma keeps_dhcpService [keeps_intros]: "keeps f (dhcpService E)"
  unfolding dhcpService_def by (intro keeps_intros)

lemma keeps_ignoring [keeps_intros]: "keeps f m \<Longrightarrow> keeps f (ignoring m)"
  unfolding ignoring_def by (intro keeps_intros)

lemma keeps_marked [keeps_intros]: "keeps f (marked E config marker)"
  unfolding marked_def by (intro keeps_intros)

lemma keeps_managedNames [keeps_intros]: "keeps f (managedNames E config)"
  unfolding managedNames_def by (intro keeps_intros)

lemma keeps_uci_batch [keeps_intros]: "keeps f (uci_batch E what cmds)"
  unfolding uci_batch_def by (intro keeps_intros)

lemma keeps_raise [keeps_intros]: "keeps f (raise e)"
  unfolding raise_def by (intro keeps_intros)

lemma keeps_read_st: "keeps f (on_store (read_st g))"
  by (simp add: keeps_def on_store_def read_st_def)

end
