(* ===== verification/UciProject.thy ===== *)
theory UciProject
  imports UciRun
begin

text \<open>
  The projection of the configuration into uci commands, as far as it is a function of data
  (backend_uci.go): one command list per DHCP pool, reservation, access-list entry, route and policy
  rule, together with the names of the sections it owns. What the source asks the machine on the way
  (the address of an interface, the start offset) is an argument here; \<open>UciApply\<close> asks.
\<close>

section \<open>Host names, options, excluded addresses\<close>

definition dnsSafeHostname :: "string \<Rightarrow> string" where
  "dnsSafeHostname name0 =
     (let name = go_TrimSpace name0 in
      if name = [] \<or> length name > 63 then []
      else if (\<forall>i \<in> set [0..<length name].
          let c = name ! i in
          is_upper c \<or> is_lower c \<or> is_digit c \<or>
          ((c = CHR ''-'' \<or> c = CHR ''_'') \<and> i \<noteq> 0 \<and> i \<noteq> length name - 1))
        then name else [])"

definition buildClasslessValue :: "string \<Rightarrow> string \<Rightarrow> Route list \<Rightarrow> string" where
  "buildClasslessValue gw nextHop routes =
     (if gw = [] \<or> nextHop = [] \<or> routes = [] then []
      else go_Join ([''0.0.0.0/0'', gw] @
        concat (map (\<lambda>r. [rt_Target r @ ''/'' @ go_Itoa (rt_Prefix r), nextHop]) routes)) '','')"

definition pool_active :: "DHCPServer \<Rightarrow> bool" where
  "pool_active s \<longleftrightarrow> ds_Managed s \<and> ds_Enabled s"

definition poolForInterface :: "DHCPServer list \<Rightarrow> string \<Rightarrow> DHCPServer option" where
  "poolForInterface servers iface =
     (case (if iface \<noteq> [] then find (\<lambda>s. pool_active s \<and> ds_Interface s = iface) servers else None) of
        Some s \<Rightarrow> Some s
      | None \<Rightarrow> find pool_active servers)"

definition hostTagOptions :: "StaticLease \<Rightarrow> string list" where
  "hostTagOptions s =
     (if go_TrimSpace (sl_Gateway s) \<noteq> [] then [''3,'' @ sl_Gateway s] else []) @
     (let dns = joinDNS (sl_DNSPrimary s) (sl_DNSSecondary s) in if dns \<noteq> [] then [''6,'' @ dns] else [])"

text \<open>
  \<open>for u := au; u <= cu && len(out) < limit; u++\<close>: the counter is a uint32. The loop ends because
  \<open>out\<close> grows in every round; \<open>room\<close> is what is left up to the limit.
\<close>

fun exclude_loop :: "u32 \<Rightarrow> u32 \<Rightarrow> nat \<Rightarrow> string list" where
  "exclude_loop u cu 0 = []"
| "exclude_loop u cu (Suc room) = (if u \<le> cu then Uint32ToIPv4 u # exclude_loop (u + 1) cu room else [])"

definition exclude_limit :: nat where
  "exclude_limit = 1024"

definition exclude_line :: "string list \<Rightarrow> string \<Rightarrow> string list" where
  "exclude_line out line = (case ParseExcludeLine line of
     None \<Rightarrow> out
   | Some (a, c) \<Rightarrow>
       out @ exclude_loop (or0 (IPv4ToUint32 a)) (or0 (IPv4ToUint32 c)) (exclude_limit - length out))"

definition expandExclude :: "string list \<Rightarrow> string list" where
  "expandExclude lines = foldl exclude_line [] lines"

definition placeholderMAC :: "string \<Rightarrow> string" where
  "placeholderMAC ip = (case IPv4ToUint32 ip of
     None \<Rightarrow> ''02:00:00:00:00:00''
   | Some u \<Rightarrow> ''02:00:'' @ go_Join (map (\<lambda>b. go_hex [b]) (bytes_of_u32 u)) '':'')"

section \<open>DHCP pools\<close>

abbreviation dhcp_opt :: "string \<Rightarrow> string \<Rightarrow> ukey" where
  "dhcp_opt i opt \<equiv> Opt ''dhcp'' i opt"

definition own :: "string \<Rightarrow> string \<Rightarrow> string \<Rightarrow> ucmd list" where
  "own config i typ = [SetType (Sec config i) typ, SetKV (Opt config i managedOpt) managedMarker]"

definition enabled_ifaces :: "DHCPServer list \<Rightarrow> string list" where
  "enabled_ifaces servers = map ds_Interface (filter (\<lambda>s. pool_active s \<and> ds_Interface s \<noteq> []) servers)"

definition push_routes :: "string \<Rightarrow> Route list \<Rightarrow> Route list" where
  "push_routes mode routes =
     (if mode = RoutePushAll \<or> mode = RoutePushTagged
      then filter (\<lambda>r. rt_Enabled r \<and> rt_Managed r \<and> rt_Family r = FamilyIPv4 \<and> rt_PushToClients r) routes
      else [])"

definition exclude_id :: "string \<Rightarrow> string \<Rightarrow> string" where
  "exclude_id i ip = uciName (i @ ''_x_'' @ ip)"

definition exclude_cmds :: "string \<Rightarrow> string \<Rightarrow> ucmd list" where
  "exclude_cmds i ip = (let x = exclude_id i ip in
     own ''dhcp'' x ''host'' @ [SetKV (dhcp_opt x ''mac'') (placeholderMAC ip), SetKV (dhcp_opt x ''ip'') ip])"

text \<open>The addresses of a pool: removed for a disabled pool whose interface another pool serves.\<close>

definition pool_range_cmds :: "string list \<Rightarrow> int \<times> int \<Rightarrow> string \<Rightarrow> DHCPServer \<Rightarrow> ucmd list" where
  "pool_range_cmds ifs sl i s =
     (if ds_Enabled s \<or> ds_Interface s \<notin> set ifs
      then [SetKV (dhcp_opt i ''start'') (go_Itoa (fst sl)), SetKV (dhcp_opt i ''limit'') (go_Itoa (snd sl))]
      else [DelK (dhcp_opt i ''start''), DelK (dhcp_opt i ''limit'')])"

definition pool_switch_cmds :: "string list \<Rightarrow> string \<Rightarrow> DHCPServer \<Rightarrow> ucmd list" where
  "pool_switch_cmds ifs i s =
     (if ds_Enabled s then [DelK (dhcp_opt i ''ignore''), SetKV (dhcp_opt i ''dhcpv4'') ''server'']
      else if ds_Interface s \<in> set ifs then [DelK (dhcp_opt i ''ignore'')]
      else [SetKV (dhcp_opt i ''ignore'') ''1''])"

definition pool_option_cmds :: "string \<Rightarrow> string \<Rightarrow> Route list \<Rightarrow> string \<Rightarrow> DHCPServer \<Rightarrow> ucmd list" where
  "pool_option_cmds mode ifip pushed i s =
     DelK (dhcp_opt i ''dhcp_option'') #
     (if ds_Gateway s \<noteq> [] then [AddList (dhcp_opt i ''dhcp_option'') (''3,'' @ ds_Gateway s)] else []) @
     (let dns = joinDNS (ds_DNSPrimary s) (ds_DNSSecondary s)
      in if dns \<noteq> [] then [AddList (dhcp_opt i ''dhcp_option'') (''6,'' @ dns)] else []) @
     map (\<lambda>o'. AddList (dhcp_opt i ''dhcp_option'') (go_Itoa (co_Code o') @ '','' @ co_Value o')) (ds_CustomOptions s) @
     (if mode = RoutePushAll then
        (let v = buildClasslessValue (ds_Gateway s) ifip pushed
         in if v \<noteq> [] then [AddList (dhcp_opt i ''dhcp_option'') (''121,'' @ v),
              AddList (dhcp_opt i ''dhcp_option'') (''249,'' @ v)] else [])
      else [])"

definition pool_cmds ::
    "string \<Rightarrow> Route list \<Rightarrow> bool \<Rightarrow> string list \<Rightarrow> string \<Rightarrow> int \<times> int \<Rightarrow> DHCPServer \<Rightarrow> ucmd list" where
  "pool_cmds mode pushed whitelist ifs ifip sl s = (let i = uciName (ds_ID s) in
     own ''dhcp'' i ''dhcp'' @
     [SetKV (dhcp_opt i ''interface'') (ds_Interface s)] @
     pool_range_cmds ifs sl i s @
     [SetKV (dhcp_opt i ''leasetime'')
        (if ds_LeaseMinutes s \<le> 0 then ''infinite'' else go_Itoa (ds_LeaseMinutes s) @ ''m'')] @
     [if ds_Force s then SetKV (dhcp_opt i ''force'') ''1'' else DelK (dhcp_opt i ''force'')] @
     pool_switch_cmds ifs i s @
     pool_option_cmds mode ifip pushed i s @
     [if whitelist then SetKV (dhcp_opt i ''dynamicdhcp'') ''0'' else DelK (dhcp_opt i ''dynamicdhcp'')] @
     (if ds_Enabled s then concat (map (exclude_cmds i) (expandExclude (ds_Exclude s))) else []))"

definition pool_keep :: "DHCPServer \<Rightarrow> string list" where
  "pool_keep s = (let i = uciName (ds_ID s) in
     i # (if ds_Enabled s then map (exclude_id i) (expandExclude (ds_Exclude s)) else []))"

section \<open>Reservations\<close>

text \<open>The options of the tag of a reservation; \<open>pool\<close> carries the pool and the address asked for in tagged mode.\<close>

definition tag_options :: "string \<Rightarrow> Route list \<Rightarrow> (DHCPServer \<times> string) option \<Rightarrow> StaticLease \<Rightarrow> string list" where
  "tag_options mode pushed pool s = hostTagOptions s @
     (case pool of
        Some (p, ifip) \<Rightarrow>
          (let v = buildClasslessValue (ds_Gateway p) ifip pushed
           in if mode = RoutePushTagged \<and> sl_RoutePush s \<and> v \<noteq> [] then [''121,'' @ v, ''249,'' @ v] else [])
      | None \<Rightarrow> [])"

definition static_cmds :: "string list \<Rightarrow> StaticLease \<Rightarrow> ucmd list" where
  "static_cmds opts s = (let i = uciName (sl_ID s); t = i @ ''_t'' in
     own ''dhcp'' i ''host'' @
     [SetKV (dhcp_opt i ''mac'') (sl_MAC s), SetKV (dhcp_opt i ''ip'') (sl_IP s)] @
     [let h = dnsSafeHostname (sl_Hostname s)
      in if h \<noteq> [] then SetKV (dhcp_opt i ''name'') h else DelK (dhcp_opt i ''name'')] @
     (if opts \<noteq> [] then
        own ''dhcp'' t ''tag'' @ [DelK (dhcp_opt t ''dhcp_option'')] @
        map (AddList (dhcp_opt t ''dhcp_option'')) opts @ [SetKV (dhcp_opt i ''tag'') t]
      else [DelK (dhcp_opt i ''tag'')]))"

definition static_keep :: "string list \<Rightarrow> StaticLease \<Rightarrow> string list" where
  "static_keep opts s = (let i = uciName (sl_ID s) in if opts \<noteq> [] then [i, i @ ''_t''] else [i])"

section \<open>Access list\<close>

definition usedPoolIPs :: "DHCPServer list \<Rightarrow> StaticLease list \<Rightarrow> string set" where
  "usedPoolIPs servers statics =
     set (map sl_IP (filter (\<lambda>s. sl_Enabled s \<and> sl_Managed s \<and> sl_IP s \<noteq> []) statics)) \<union>
     set (concat (map (\<lambda>s. expandExclude (ds_Exclude s)) servers))"

text \<open>The state of \<open>whitelistAllocator\<close>: the next and the last address of the first usable pool.\<close>

fun alloc_range :: "DHCPServer list \<Rightarrow> (u32 \<times> u32) option" where
  "alloc_range [] = None"
| "alloc_range (s # ss) =
     (if \<not> pool_active s then alloc_range ss
      else (case (IPv4ToUint32 (ds_IPStart s), IPv4ToUint32 (ds_IPEnd s)) of
          (Some su, Some eu) \<Rightarrow> if su \<le> eu then Some (su, eu) else alloc_range ss
        | _ \<Rightarrow> alloc_range ss))"

text \<open>One call of the allocator; \<open>cur\<close> is a uint32 and may wrap, then the loop may never end.\<close>

partial_function (option) alloc_next :: "u32 \<Rightarrow> u32 \<Rightarrow> string set \<Rightarrow> (string \<times> u32) option" where
  "alloc_next cur fin used =
     (if cur \<le> fin then
        (if Uint32ToIPv4 cur \<in> used then alloc_next (cur + 1) fin used else Some (Uint32ToIPv4 cur, cur + 1))
      else Some ([], cur))"

text \<open>
  The loop over the entries in whitelist mode: every enabled managed entry gets the next free
  address; the loop stops when there is none. \<open>None\<close>: a call of the allocator does not return.
\<close>

fun whitelist_ips :: "(u32 \<times> u32) option \<Rightarrow> string set \<Rightarrow> ACLEntry list \<Rightarrow> (ACLEntry \<times> string) list option" where
  "whitelist_ips rng used [] = Some []"
| "whitelist_ips rng used (e # es) =
     (if \<not> ae_Enabled e \<or> \<not> ae_Managed e then whitelist_ips rng used es
      else (case rng of
          None \<Rightarrow> Some []
        | Some (cur, fin) \<Rightarrow>
            (case alloc_next cur fin used of
               None \<Rightarrow> None
             | Some (ip, cur') \<Rightarrow>
                 if ip = [] then Some []
                 else map_option (Cons (e, ip)) (whitelist_ips (Some (cur', fin)) (insert ip used) es))))"

definition acl_host_cmds :: "ACLEntry \<Rightarrow> string \<Rightarrow> ucmd list" where
  "acl_host_cmds e ip = (let i = uciName (ae_ID e) in
     own ''dhcp'' i ''host'' @ [SetKV (dhcp_opt i ''mac'') (ae_MAC e), SetKV (dhcp_opt i ''ip'') ip])"

definition acl_hosts :: "bool \<Rightarrow> DHCPServer list \<Rightarrow> StaticLease list \<Rightarrow> ACLEntry list \<Rightarrow>
    (ACLEntry \<times> string) list option" where
  "acl_hosts whitelist servers statics entries =
     (if whitelist then whitelist_ips (alloc_range servers) (usedPoolIPs servers statics) entries
      else Some (map (\<lambda>e. (e, ''ignore'')) (filter (\<lambda>e. ae_Enabled e \<and> ae_Managed e) entries)))"

section \<open>Sections that are not ours\<close>

definition stock_cmds :: "string list \<Rightarrow> string list \<Rightarrow> string list \<Rightarrow> uciSec \<Rightarrow> ucmd list" where
  "stock_cmds owned dropped ifs s =
     (if us_typ s \<noteq> ''dhcp'' \<or> us_name s \<in> set owned then []
      else (let n = us_name s; iface = first (opts_get s ''interface'') in
        if n \<in> set dropped then
          [DelK (dhcp_opt n ''start''), DelK (dhcp_opt n ''limit'')] @
          (if iface \<notin> set ifs then [SetKV (dhcp_opt n ''ignore'') ''1''] else [])
        else if iface \<noteq> [] \<and> iface \<in> set ifs then
          [DelK (dhcp_opt n ''ignore''), DelK (dhcp_opt n ''start''), DelK (dhcp_opt n ''limit'')]
        else []))"

section \<open>Routes and policy rules\<close>

abbreviation net_opt :: "string \<Rightarrow> string \<Rightarrow> ukey" where
  "net_opt i opt \<equiv> Opt ''network'' i opt"

definition route_active :: "Route \<Rightarrow> bool" where
  "route_active r \<longleftrightarrow> rt_Enabled r \<and> rt_Managed r"

definition route_target_cmds :: "string \<Rightarrow> Route \<Rightarrow> ucmd list" where
  "route_target_cmds i r =
     (if rt_Family r = FamilyIPv6
      then [SetKV (net_opt i ''target'') (rt_Target r @ ''/'' @ go_Itoa (rt_Prefix r)), DelK (net_opt i ''netmask'')]
      else [SetKV (net_opt i ''target'') (rt_Target r), SetKV (net_opt i ''netmask'') (rt_Netmask r)])"

definition route_hop_cmds :: "string \<Rightarrow> Route \<Rightarrow> ucmd list" where
  "route_hop_cmds i r =
     (if \<not> routeHasNexthop (rt_Type r)
      then [SetKV (net_opt i ''type'') (rt_Type r), DelK (net_opt i ''gateway'')]
      else [DelK (net_opt i ''type''),
        if rt_Gateway r \<noteq> [] then SetKV (net_opt i ''gateway'') (rt_Gateway r) else DelK (net_opt i ''gateway'')])"

definition route_cmds :: "Route \<Rightarrow> ucmd list" where
  "route_cmds r = (let i = uciName (rt_ID r) in
     own ''network'' i (if rt_Family r = FamilyIPv6 then ''route6'' else ''route'') @
     [if rt_Interface r \<noteq> [] \<and> rt_Interface r \<noteq> ''auto''
      then SetKV (net_opt i ''interface'') (rt_Interface r) else DelK (net_opt i ''interface'')] @
     route_target_cmds i r @ route_hop_cmds i r @
     [SetKV (net_opt i ''metric'') (go_Itoa (rt_Metric r)),
      if rt_MTU r > 0 then SetKV (net_opt i ''mtu'') (go_Itoa (rt_MTU r)) else DelK (net_opt i ''mtu''),
      if rt_Table r > 0 then SetKV (net_opt i ''table'') (go_Itoa (rt_Table r)) else DelK (net_opt i ''table'')])"

definition rule_cmds :: "PolicyRule \<Rightarrow> ucmd list" where
  "rule_cmds p = (let i = uciName (pr_ID p) in
     own ''network'' i (if pr_Family p = FamilyIPv6 then ''rule6'' else ''rule'') @
     [ruleSetOrDel i ''src'' (pr_Src p), ruleSetOrDel i ''dest'' (pr_Dest p), ruleSetOrDel i ''in'' (pr_InIface p),
      SetKV (net_opt i ''lookup'') (pr_Lookup p),
      if pr_Priority p > 0 then SetKV (net_opt i ''priority'') (go_Itoa (pr_Priority p))
      else DelK (net_opt i ''priority'')])"

definition rule_active :: "PolicyRule \<Rightarrow> bool" where
  "rule_active p \<longleftrightarrow> pr_Enabled p \<and> pr_Managed p"

definition network_keep :: "Route list \<Rightarrow> PolicyRule list \<Rightarrow> string list" where
  "network_keep routes rules =
     map (\<lambda>r. uciName (rt_ID r)) (filter route_active routes) @
     map (\<lambda>p. uciName (pr_ID p)) (filter rule_active rules)"

definition network_cmds :: "string list \<Rightarrow> Route list \<Rightarrow> PolicyRule list \<Rightarrow> ucmd list" where
  "network_cmds existing routes rules =
     concat (map route_cmds (filter route_active routes)) @
     concat (map rule_cmds (filter rule_active rules)) @
     delete_others ''network'' existing (network_keep routes rules) @
     [Commit ''network'']"

end
