(* ===== verification/UciApply.thy ===== *)
theory UciApply
  imports UciProject
begin

text \<open>
  apply() of backend_uci.go: the configuration in the sidecar is projected into uci. The queries to
  the machine come in the order of the source; the commands are those of \<open>UciProject\<close>.
\<close>

section \<open>Queries\<close>

text \<open>\<open>ifaceIP\<close>, \<open>startLimit\<close>, \<open>ifaceDevice\<close>.\<close>

definition cut_slash :: "string \<Rightarrow> string" where
  "cut_slash s = (case go_IndexByte s CHR ''/'' of None \<Rightarrow> s | Some i \<Rightarrow> take i s)"

definition uci_ifaceIP :: "'w sys \<Rightarrow> string \<Rightarrow> ('w uci, string) act" where
  "uci_ifaceIP E iface = bindE (uciGet E (''network.'' @ iface @ ''.ipaddr'')) (\<lambda>(ip, e).
     ret (if e \<noteq> None \<or> ip = [] then [] else cut_slash ip))"

definition start_limit :: "string \<Rightarrow> string \<Rightarrow> DHCPServer \<Rightarrow> int \<times> int" where
  "start_limit ip netmask s =
     (case (if ip \<noteq> [] \<and> netmask \<noteq> [] then DHCPStartLimit ip netmask (ds_IPStart s) (ds_IPEnd s) else None) of
        Some sl \<Rightarrow> sl
      | None \<Rightarrow> (uint (or0 (IPv4ToUint32 (ds_IPStart s)) AND 255),
          case RangeCount (ds_IPStart s) (ds_IPEnd s) of None \<Rightarrow> 0 | Some n \<Rightarrow> n))"

definition uci_startLimit :: "'w sys \<Rightarrow> DHCPServer \<Rightarrow> ('w uci, int \<times> int) act" where
  "uci_startLimit E s = bindE (uci_ifaceIP E (ds_Interface s)) (\<lambda>ip.
     bindE (uciGet E (''network.'' @ ds_Interface s @ ''.netmask'')) (\<lambda>(netmask, e). ret (start_limit ip netmask s)))"

definition uci_ifaceDevice :: "'w sys \<Rightarrow> string \<Rightarrow> ('w uci, string) act" where
  "uci_ifaceDevice E iface = (let i = (if iface = [] then ''lan'' else iface) in
     bindE (uciGet E (''network.'' @ i @ ''.device'')) (\<lambda>(dev, e). ret (if e = None then dev else [])))"

section \<open>The dhcp batch\<close>

text \<open>What one round of each loop yields: the sections it keeps and its commands.\<close>

type_synonym part = "string list \<times> ucmd list"

definition join_parts :: "part list \<Rightarrow> part" where
  "join_parts ps = (concat (map fst ps), concat (map snd ps))"

definition pool_part :: "'w sys \<Rightarrow> string \<Rightarrow> Route list \<Rightarrow> bool \<Rightarrow> string list \<Rightarrow> DHCPServer \<Rightarrow> ('w uci, part) act" where
  "pool_part E mode pushed whitelist ifs s =
     bindE (uci_startLimit E s) (\<lambda>sl.
     bindE (if mode = RoutePushAll then uci_ifaceIP E (ds_Interface s) else ret []) (\<lambda>ifip.
       ret (pool_keep s, pool_cmds mode pushed whitelist ifs ifip sl s)))"

definition static_part :: "'w sys \<Rightarrow> string \<Rightarrow> Route list \<Rightarrow> DHCPServer list \<Rightarrow> StaticLease \<Rightarrow> ('w uci, part) act" where
  "static_part E mode pushed servers s =
     bindE (case (if mode = RoutePushTagged \<and> sl_RoutePush s then poolForInterface servers (sl_Interface s) else None) of
         None \<Rightarrow> ret None
       | Some p \<Rightarrow> bindE (uci_ifaceIP E (ds_Interface p)) (\<lambda>ifip. ret (Some (p, ifip)))) (\<lambda>pool.
       let opts = tag_options mode pushed pool s in ret (static_keep opts s, static_cmds opts s))"

definition acl_part :: "bool \<Rightarrow> DHCPServer list \<Rightarrow> StaticLease list \<Rightarrow> ACLEntry list \<Rightarrow> ('w uci, part) act" where
  "acl_part whitelist servers statics entries = (case acl_hosts whitelist servers statics entries of
     None \<Rightarrow> fail ErrHang
   | Some hs \<Rightarrow> ret (map (\<lambda>h. uciName (ae_ID (fst h))) hs, concat (map (\<lambda>h. acl_host_cmds (fst h) (snd h)) hs)))"

text \<open>Adopted or dropped sections of others; then \<open>dropStock\<close> is cleared.\<close>

definition stock_part :: "'w sys \<Rightarrow> string list \<Rightarrow> string list \<Rightarrow> ('w uci, ucmd list) act" where
  "stock_part E owned ifs = bindE (uciShow E ''dhcp'') (\<lambda>(shown, e). \<lambda>b.
     (Inr (if e = None then concat (map (stock_cmds owned (ub_dropStock b) ifs) (parseUci shown ''dhcp'')) else []),
      b\<lparr>ub_dropStock := []\<rparr>))"

definition maindhcp_part :: "'w sys \<Rightarrow> bool \<Rightarrow> ('w uci, ucmd list) act" where
  "maindhcp_part E any_enabled = bindE (uciGet E ''dhcp.odhcpd'') (\<lambda>(v, e).
     if e \<noteq> None then ret []
     else bindE (dhcpService E) (\<lambda>svc.
       ret (if svc = ''odhcpd'' then (if any_enabled then [SetKV (dhcp_opt ''odhcpd'' ''maindhcp'') ''1''] else [])
            else if svc = ''dnsmasq'' then [SetKV (dhcp_opt ''odhcpd'' ''maindhcp'') ''0'']
            else [])))"

definition dhcp_batch ::
    "'w sys \<Rightarrow> string list \<Rightarrow> string \<Rightarrow> DHCPServer list \<Rightarrow> StaticLease list \<Rightarrow> ACL \<Rightarrow> Route list \<Rightarrow>
     ('w uci, ucmd list) act" where
  "dhcp_batch E existing mode servers statics acl routes =
     (let whitelist = (acl_Mode acl = ACLWhitelist);
          pushed = push_routes mode routes;
          ifs = enabled_ifaces servers in
      bindE (mapA (pool_part E mode pushed whitelist ifs) (filter ds_Managed servers)) (\<lambda>ps.
      bindE (mapA (static_part E mode pushed servers) (filter (\<lambda>s. sl_Enabled s \<and> sl_Managed s) statics)) (\<lambda>ss.
      bindE (acl_part whitelist servers statics (acl_Entries acl)) (\<lambda>as.
      let (keep, cmds) = join_parts (ps @ ss @ [as]) in
      bindE (stock_part E (keep @ existing) ifs) (\<lambda>stock.
      bindE (maindhcp_part E (list_ex pool_active servers)) (\<lambda>main.
        ret (cmds @ delete_others ''dhcp'' existing keep @ stock @ main @ [Commit ''dhcp''])))))))"

section \<open>Reload and ARP\<close>

definition reload_dhcp :: "'w sys \<Rightarrow> ('w uci, unit) act" where
  "reload_dhcp E =
     bindE (set_pending False []) (\<lambda>_.
     bindE (dhcpService E) (\<lambda>svc.
       if svc = [] then set_pending True ''no DHCP service is installed''
       else bindE (run_cmd E [] [''/etc/init.d/'' @ svc, ''reload'']) (\<lambda>(out, e).
         if e = None then ret () else set_pending True (svc @ '' reload failed''))))"

definition reload_network :: "'w sys \<Rightarrow> ('w uci, unit) act" where
  "reload_network E = bindE (initdExists E ''network'') (\<lambda>there.
     if there then ignoring (run_cmd E [] [''/etc/init.d/network'', ''reload'']) else ret ())"

definition arp_one :: "'w sys \<Rightarrow> bool \<Rightarrow> StaticLease \<Rightarrow> ('w uci, unit) act" where
  "arp_one E on s =
     (if \<not> sl_Managed s then ret ()
      else bindE (uci_ifaceDevice E (sl_Interface s)) (\<lambda>dev.
        if dev = [] then ret ()
        else if on \<and> sl_Enabled s then
          ignoring (run_cmd E [] [''ip'', ''neigh'', ''replace'', sl_IP s, ''lladdr'', sl_MAC s, ''dev'', dev, ''nud'', ''permanent''])
        else ignoring (run_cmd E [] [''ip'', ''neigh'', ''del'', sl_IP s, ''dev'', dev])))"

definition applyARP :: "'w sys \<Rightarrow> StaticLease list \<Rightarrow> bool \<Rightarrow> ('w uci, unit) act" where
  "applyARP E statics on = ignoring (mapA (arp_one E on) statics)"

section \<open>apply\<close>

text \<open>Reads of the sidecar that cannot fail.\<close>

definition sidecar :: "('w uci, State) act" where
  "sidecar b = (Inr (sb_st (ub_store b)), b)"

definition apply_mode :: "State \<Rightarrow> string" where
  "apply_mode st = (if S_RoutePushMode st = [] then RoutePushOff else S_RoutePushMode st)"

definition uci_apply :: "'w sys \<Rightarrow> ('w uci, unit) act" where
  "uci_apply E =
     bindE sidecar (\<lambda>st.
     bindE (managedNames E ''dhcp'') (\<lambda>existDhcp.
     bindE (managedNames E ''network'') (\<lambda>existNet.
     bindE (dhcp_batch E existDhcp (apply_mode st) (S_DHCPServers st) (S_Statics st) (S_ACL st) (S_Routes st)) (\<lambda>d.
     bindE (uci_batch E ''uci batch dhcp'' d) (\<lambda>e1.
     bindE (uci_batch E ''uci batch network'' (network_cmds existNet (S_Routes st) (S_PolicyRules st))) (\<lambda>e2.
     bindE (reload_dhcp E) (\<lambda>_.
     bindE (reload_network E) (\<lambda>_.
     bindE (applyARP E (S_Statics st) (S_ARPBind st)) (\<lambda>_.
       raise (orElse e1 e2))))))))))"

text \<open>The error of the second batch is dropped when the first one failed: \<open>orElse\<close>.\<close>

section \<open>Saving\<close>

definition then_apply :: "'w sys \<Rightarrow> (store, unit) act \<Rightarrow> ('w uci, unit) act" where
  "then_apply E save = bindE (on_store save) (\<lambda>_. uci_apply E)"

definition dropped_stock :: "DHCPServer list \<Rightarrow> DHCPServer list \<Rightarrow> string list" where
  "dropped_stock old list =
     map (\<lambda>s. uciName (ds_ID s)) (filter (\<lambda>s. \<not> ds_Managed s \<and> ds_ID s \<notin> ds_ID ` set list) old)"

definition uci_SaveDHCPServers :: "'w sys \<Rightarrow> DHCPServer list \<Rightarrow> ('w uci, unit) act" where
  "uci_SaveDHCPServers E list =
     bindE (on_store store_DHCPServers) (\<lambda>old.
     bindE (on_store (store_SaveDHCPServers list)) (\<lambda>_.
     bindE (\<lambda>b. (Inr (), b\<lparr>ub_dropStock := ub_dropStock b @ dropped_stock old list\<rparr>)) (\<lambda>_.
       uci_apply E)))"

definition uci_SaveStatics :: "'w sys \<Rightarrow> StaticLease list \<Rightarrow> bool \<Rightarrow> ('w uci, unit) act" where
  "uci_SaveStatics E list arp = then_apply E (store_SaveStatics list arp)"

definition uci_SaveACL :: "'w sys \<Rightarrow> ACL \<Rightarrow> ('w uci, unit) act" where
  "uci_SaveACL E acl = then_apply E (store_SaveACL acl)"

definition uci_SaveRoutes :: "'w sys \<Rightarrow> Route list \<Rightarrow> ('w uci, unit) act" where
  "uci_SaveRoutes E list = then_apply E (store_SaveRoutes list)"

definition uci_SavePolicyRules :: "'w sys \<Rightarrow> PolicyRule list \<Rightarrow> ('w uci, unit) act" where
  "uci_SavePolicyRules E list = then_apply E (store_SavePolicyRules list)"

definition uci_SaveRoutePushMode :: "'w sys \<Rightarrow> string \<Rightarrow> ('w uci, unit) act" where
  "uci_SaveRoutePushMode E mode = then_apply E (store_SaveRoutePushMode mode)"

section \<open>Service control and status\<close>

definition uci_RestartDHCP :: "'w sys \<Rightarrow> ('w uci, unit) act" where
  "uci_RestartDHCP E = bindE (dhcpService E) (\<lambda>svc.
     if svc = [] then fail (Err ''no DHCP service is installed'')
     else bindE (run_cmd E [] [''/etc/init.d/'' @ svc, ''restart'']) (\<lambda>(out, e).
       case e of None \<Rightarrow> ret () | Some m \<Rightarrow> fail (ErrFmt ''restart failed'' [svc, m, go_TrimSpace out])))"

definition uci_Status :: "'w sys \<Rightarrow> ('w uci, Status) act" where
  "uci_Status E = bindE (dhcpService E) (\<lambda>svc b.
     (Inr \<lparr>st_Backend = KindUCI, st_DHCPOK = (\<not> ub_pending b \<and> svc \<noteq> []), st_EnabledServers = 0,
       st_Pending = ub_pending b,
       st_Message = (if svc = [] \<and> ub_pendingMsg b = [] then ''no DHCP service, configuration can be saved only''
                     else ub_pendingMsg b)\<rparr>, b))"

section \<open>Reading the running system\<close>

definition uci_RouteTable :: "'w sys \<Rightarrow> string \<Rightarrow> ('w uci, RouteEntry list) act" where
  "uci_RouteTable E family =
     bindE (run_cmd E [] (if family = FamilyIPv6 then [''ip'', ''-6'', ''route'', ''show''] else [''ip'', ''route'', ''show'']))
       (\<lambda>(out, e). ret (if e = None then parseIPRoute out family else []))"

definition default_iface :: Interface where
  "default_iface = \<lparr>if_Name = ''lan'', if_IPv4 = ''192.168.1.1'', if_Netmask = ''255.255.255.0'', if_Prefix = 24, if_Up = True\<rparr>"

definition iface_of_sec :: "uciSec \<Rightarrow> Interface option" where
  "iface_of_sec s =
     (let ip = first (opts_get s ''ipaddr''); netmask = first (opts_get s ''netmask'') in
      if us_typ s \<noteq> ''interface'' \<or> ip = [] \<or> us_name s = ''loopback'' then None
      else (case go_IndexByte ip CHR ''/'' of
          Some i \<Rightarrow>
            (let p = atoiSafe (drop (Suc i) ip) in
             Some \<lparr>if_Name = us_name s, if_IPv4 = take i ip, if_Netmask = (if netmask = [] then PrefixToMask p else netmask),
               if_Prefix = p, if_Up = True\<rparr>)
        | None \<Rightarrow>
            Some \<lparr>if_Name = us_name s, if_IPv4 = ip, if_Netmask = netmask,
              if_Prefix = (if netmask = [] then 0 else (case MaskToPrefix netmask of None \<Rightarrow> 0 | Some p \<Rightarrow> p)),
              if_Up = True\<rparr>))"

definition uci_Interfaces :: "'w sys \<Rightarrow> ('w uci, Interface list) act" where
  "uci_Interfaces E = bindE (uciShow E ''network'') (\<lambda>(shown, e).
     ret (if e \<noteq> None then [default_iface]
          else (let out = List.map_filter iface_of_sec (parseUci shown ''network'')
                in if out = [] then [default_iface] else out)))"

definition ifaceForIP :: "string \<Rightarrow> DHCPServer list \<Rightarrow> string" where
  "ifaceForIP ip servers =
     (case find (\<lambda>s. IPInRange ip (ds_IPStart s) (ds_IPEnd s)) servers of None \<Rightarrow> [] | Some s \<Rightarrow> ds_Interface s)"

text \<open>\<open>staticByMAC\<close>: later reservations overwrite earlier ones.\<close>

definition static_by_mac :: "StaticLease list \<Rightarrow> string \<Rightarrow> StaticLease option" where
  "static_by_mac statics mac = find (\<lambda>s. sl_MAC s = mac) (rev statics)"

definition live_lease :: "int \<Rightarrow> StaticLease list \<Rightarrow> DHCPServer list \<Rightarrow> string \<Rightarrow> Lease option" where
  "live_lease now statics servers line = (case ParseLeaseLine line of
     None \<Rightarrow> None
   | Some pl \<Rightarrow>
       (let l = zeroLease\<lparr>le_Hostname := pl_Hostname pl, le_IP := pl_IP pl, le_MAC := pl_MAC pl,
              le_Expiry := pl_Expiry pl, le_Interface := ifaceForIP (pl_IP pl) servers,
              le_RemainingSeconds := (if pl_Expiry pl > 0 \<and> pl_Expiry pl > now then wrap64 (pl_Expiry pl - now) else 0)\<rparr>
        in Some (case static_by_mac statics (pl_MAC pl) of
             None \<Rightarrow> l
           | Some s \<Rightarrow> l\<lparr>le_Static := True, le_Remark := sl_Remark s,
               le_Hostname := (if le_Hostname l = [] then sl_Hostname s else le_Hostname l),
               le_Interface := (if le_Interface l = [] then sl_Interface s else le_Interface l)\<rparr>)))"

definition uci_Leases :: "'w sys \<Rightarrow> ('w uci, Lease list) act" where
  "uci_Leases E = bindE (uciGet E ''dhcp.@dnsmasq[0].leasefile'') (\<lambda>(p, e). \<lambda>b.
     (let path = (if e = None \<and> p \<noteq> [] then p else ''/tmp/dhcp.leases''); st = sb_st (ub_store b) in
      case sy_read E path (ub_world b) of
        None \<Rightarrow> (Inr [], b)
      | Some raw \<Rightarrow> (Inr (List.map_filter (live_lease (sy_now E (ub_world b)) (S_Statics st) (S_DHCPServers st))
                  (go_Split raw (byte 10))), b)))"

end
