(* ===== verification/UciApplyProps.thy ===== *)
theory UciApplyProps
  imports UciApply
begin

text \<open>
  What apply() guarantees of the commands it sends: which sections it touches, that it never
  switches off an interface it serves, and how it hands out and excludes addresses.
\<close>

section \<open>Which sections a command writes\<close>

text \<open>The command creates the section or writes one of its options.\<close>

fun writes :: "string \<Rightarrow> string \<Rightarrow> ucmd \<Rightarrow> bool" where
  "writes config n (SetType k t) \<longleftrightarrow> k = Sec config n"
| "writes config n (SetKV k v) \<longleftrightarrow> (\<exists>opt. k = Opt config n opt)"
| "writes config n (AddList k v) \<longleftrightarrow> (\<exists>opt. k = Opt config n opt)"
| "writes config n (DelList k v) \<longleftrightarrow> (\<exists>opt. k = Opt config n opt)"
| "writes config n (DelK k) \<longleftrightarrow> (\<exists>opt. k = Opt config n opt)"
| "writes config n (Commit c) \<longleftrightarrow> False"

text \<open>All commands of the list write sections of \<open>names\<close>, and each of these is marked as ours.\<close>

definition part_ok :: "string \<Rightarrow> part \<Rightarrow> bool" where
  "part_ok config p \<longleftrightarrow>
     (\<forall>c \<in> set (snd p). \<exists>n \<in> set (fst p). writes config n c) \<and>
     (\<forall>n \<in> set (fst p). SetKV (Opt config n managedOpt) managedMarker \<in> set (snd p))"

lemma part_okI:
  assumes "\<And>c. c \<in> set cmds \<Longrightarrow> \<exists>n \<in> set names. writes config n c"
    and "\<And>n. n \<in> set names \<Longrightarrow> SetKV (Opt config n managedOpt) managedMarker \<in> set cmds"
  shows "part_ok config (names, cmds)"
  using assms by (auto simp: part_ok_def)

lemma join_parts_ok: "\<forall>p \<in> set ps. part_ok config p \<Longrightarrow> part_ok config (join_parts ps)"
  unfolding part_ok_def join_parts_def by (simp, blast)

lemma own_writes: "c \<in> set (own config i typ) \<Longrightarrow> writes config i c"
  by (auto simp: own_def)

lemma own_marks: "SetKV (Opt config i managedOpt) managedMarker \<in> set (own config i typ)"
  by (simp add: own_def)

lemma exclude_cmds_writes: "c \<in> set (exclude_cmds i ip) \<Longrightarrow> writes ''dhcp'' (exclude_id i ip) c"
  by (auto simp: exclude_cmds_def Let_def dest: own_writes)

lemma exclude_cmds_marks: "SetKV (Opt ''dhcp'' (exclude_id i ip) managedOpt) managedMarker \<in> set (exclude_cmds i ip)"
  by (simp add: exclude_cmds_def own_marks Let_def)

lemma pool_range_writes: "c \<in> set (pool_range_cmds ifs sl i s) \<Longrightarrow> writes ''dhcp'' i c"
  by (auto simp: pool_range_cmds_def split: if_splits)

lemma pool_switch_writes: "c \<in> set (pool_switch_cmds ifs i s) \<Longrightarrow> writes ''dhcp'' i c"
  by (auto simp: pool_switch_cmds_def split: if_splits)

lemma pool_option_writes: "c \<in> set (pool_option_cmds mode ifip pushed i s) \<Longrightarrow> writes ''dhcp'' i c"
  by (auto simp: pool_option_cmds_def Let_def split: if_splits)

lemma pool_ok: "part_ok ''dhcp'' (pool_keep s, pool_cmds mode pushed whitelist ifs ifip sl s)"
proof (rule part_okI)
  fix c
  assume "c \<in> set (pool_cmds mode pushed whitelist ifs ifip sl s)"
  then consider "writes ''dhcp'' (uciName (ds_ID s)) c"
    | ip where "ds_Enabled s" "ip \<in> set (expandExclude (ds_Exclude s))"
      "c \<in> set (exclude_cmds (uciName (ds_ID s)) ip)"
    by (auto simp: pool_cmds_def Let_def dest: own_writes pool_range_writes pool_switch_writes pool_option_writes
        split: if_splits)
  then show "\<exists>n \<in> set (pool_keep s). writes ''dhcp'' n c"
  proof cases
    case 1
    then show ?thesis by (auto simp: pool_keep_def Let_def)
  next
    case (2 ip)
    then show ?thesis by (auto simp: pool_keep_def Let_def intro!: bexI [of _ ip] exclude_cmds_writes)
  qed
next
  fix n
  assume n: "n \<in> set (pool_keep s)"
  let ?i = "uciName (ds_ID s)"
  from n consider "n = ?i" | ip where "ds_Enabled s" "ip \<in> set (expandExclude (ds_Exclude s))" "n = exclude_id ?i ip"
    by (auto simp: pool_keep_def Let_def split: if_splits)
  then show "SetKV (Opt ''dhcp'' n managedOpt) managedMarker \<in> set (pool_cmds mode pushed whitelist ifs ifip sl s)"
  proof cases
    case 1
    then show ?thesis by (simp add: pool_cmds_def own_marks Let_def)
  next
    case (2 ip)
    then have "SetKV (Opt ''dhcp'' n managedOpt) managedMarker \<in> set (concat (map (exclude_cmds ?i) (expandExclude (ds_Exclude s))))"
      using exclude_cmds_marks by auto
    with 2(1) show ?thesis by (simp add: pool_cmds_def Let_def)
  qed
qed

lemma static_ok: "part_ok ''dhcp'' (static_keep opts s, static_cmds opts s)"
  by (rule part_okI)
    (auto simp: static_cmds_def static_keep_def Let_def own_marks dest: own_writes split: if_splits)

lemma acl_ok: "part_ok ''dhcp'' (map (\<lambda>h. uciName (ae_ID (fst h))) hs, concat (map (\<lambda>h. acl_host_cmds (fst h) (snd h)) hs))"
proof (rule part_okI)
  fix c assume "c \<in> set (concat (map (\<lambda>h. acl_host_cmds (fst h) (snd h)) hs))"
  then obtain h where "h \<in> set hs" "c \<in> set (acl_host_cmds (fst h) (snd h))" by auto
  then have "writes ''dhcp'' (uciName (ae_ID (fst h))) c"
    by (auto simp: acl_host_cmds_def Let_def dest: own_writes)
  with \<open>h \<in> set hs\<close> show "\<exists>n \<in> set (map (\<lambda>h. uciName (ae_ID (fst h))) hs). writes ''dhcp'' n c" by auto
next
  fix n assume "n \<in> set (map (\<lambda>h. uciName (ae_ID (fst h))) hs)"
  then show "SetKV (Opt ''dhcp'' n managedOpt) managedMarker \<in> set (concat (map (\<lambda>h. acl_host_cmds (fst h) (snd h)) hs))"
    by (force simp: acl_host_cmds_def Let_def own_marks)
qed

text \<open>Results of a loop of actions.\<close>

lemma mapA_results:
  assumes "mapA f xs s = (Inr ys, s')" and "\<And>x t y t'. f x t = (Inr y, t') \<Longrightarrow> P y"
  shows "\<forall>y \<in> set ys. P y"
  using assms(1)
proof (induction xs arbitrary: s ys)
  case Nil
  then show ?case by simp
next
  case (Cons x xs)
  from Cons.prems obtain y t zs where "f x s = (Inr y, t)" "mapA f xs t = (Inr zs, s')" "ys = y # zs"
    by (auto split: prod.splits sum.splits)
  with Cons.IH assms(2) show ?case by auto
qed

lemma pool_part_ok: "pool_part E mode pushed whitelist ifs s b = (Inr p, b') \<Longrightarrow> part_ok ''dhcp'' p"
  by (auto simp: pool_part_def ret_def pool_ok elim!: bindE_InrE split: if_splits)

lemma static_part_ok: "static_part E mode pushed servers s b = (Inr p, b') \<Longrightarrow> part_ok ''dhcp'' p"
  by (auto simp: static_part_def ret_def static_ok Let_def elim!: bindE_InrE split: if_splits option.splits)

lemma acl_part_ok: "acl_part whitelist servers statics entries b = (Inr p, b') \<Longrightarrow> part_ok ''dhcp'' p"
  by (auto simp: acl_part_def ret_def fail_def acl_ok split: option.splits)

text \<open>The commands for sections of others.\<close>

definition stock_cmd :: "string \<Rightarrow> ucmd \<Rightarrow> bool" where
  "stock_cmd n c \<longleftrightarrow> (\<exists>opt \<in> {''start'', ''limit'', ''ignore''}. c = DelK (Opt ''dhcp'' n opt)) \<or>
     c = SetKV (Opt ''dhcp'' n ''ignore'') ''1''"

lemma stock_cmds_cmd:
  "c \<in> set (stock_cmds owned dropped ifs s) \<Longrightarrow> us_name s \<notin> set owned \<and> stock_cmd (us_name s) c"
  by (auto simp: stock_cmds_def stock_cmd_def Let_def split: if_splits)

lemma stock_part_cmd:
  "stock_part E owned ifs b = (Inr cs, b') \<Longrightarrow> c \<in> set cs \<Longrightarrow> \<exists>n. n \<notin> set owned \<and> stock_cmd n c"
  by (auto simp: stock_part_def dest!: stock_cmds_cmd elim!: bindE_InrE split: if_splits)

lemma maindhcp_part_cmd:
  "maindhcp_part E a b = (Inr cs, b') \<Longrightarrow> c \<in> set cs \<Longrightarrow> \<exists>v. c = SetKV (Opt ''dhcp'' ''odhcpd'' ''maindhcp'') v"
  by (auto simp: maindhcp_part_def ret_def elim!: bindE_InrE split: if_splits)

text \<open>What dhcp_batch consists of.\<close>

lemma dhcp_batch_parts:
  assumes "dhcp_batch E existing mode servers statics acl routes b = (Inr cmds, b')"
  obtains keep pcs stock main b1 b2 b3 where "part_ok ''dhcp'' (keep, pcs)"
    and "stock_part E (keep @ existing) (enabled_ifaces servers) b1 = (Inr stock, b2)"
    and "maindhcp_part E (list_ex pool_active servers) b2 = (Inr main, b3)"
    and "cmds = pcs @ delete_others ''dhcp'' existing keep @ stock @ main @ [Commit ''dhcp'']"
proof -
  let ?pushed = "push_routes mode routes" and ?ifs = "enabled_ifaces servers"
    and ?w = "acl_Mode acl = ACLWhitelist"
  from assms obtain ps ss as t1 t2 t3 stock t4 main t5 where
    1: "mapA (pool_part E mode ?pushed ?w ?ifs) (filter ds_Managed servers) b = (Inr ps, t1)" and
    2: "mapA (static_part E mode ?pushed servers) (filter (\<lambda>s. sl_Enabled s \<and> sl_Managed s) statics) t1 = (Inr ss, t2)" and
    3: "acl_part ?w servers statics (acl_Entries acl) t2 = (Inr as, t3)" and
    4: "stock_part E (fst (join_parts (ps @ ss @ [as])) @ existing) ?ifs t3 = (Inr stock, t4)" and
    5: "maindhcp_part E (list_ex pool_active servers) t4 = (Inr main, t5)" and
    6: "cmds = snd (join_parts (ps @ ss @ [as])) @ delete_others ''dhcp'' existing (fst (join_parts (ps @ ss @ [as]))) @
      stock @ main @ [Commit ''dhcp'']"
    by (auto simp: dhcp_batch_def Let_def ret_def elim!: bindE_InrE split: prod.splits)
  have "\<forall>p \<in> set ps. part_ok ''dhcp'' p"
    by (rule mapA_results [OF 1]) (rule pool_part_ok)
  moreover have "\<forall>p \<in> set ss. part_ok ''dhcp'' p"
    by (rule mapA_results [OF 2]) (rule static_part_ok)
  ultimately have "part_ok ''dhcp'' (join_parts (ps @ ss @ [as]))"
    using acl_part_ok [OF 3] by (intro join_parts_ok) auto
  with 4 5 6 show ?thesis
    by (intro that [of "fst (join_parts (ps @ ss @ [as]))" "snd (join_parts (ps @ ss @ [as]))"]) simp_all
qed


section \<open>Where the commands of a batch come from\<close>

lemma mapA_in:
  assumes "mapA f xs s = (Inr ys, s')" and "y \<in> set ys"
  obtains x t t' where "x \<in> set xs" and "f x t = (Inr y, t')"
proof -
  have "\<exists>x \<in> set xs. \<exists>t t'. f x t = (Inr y, t')"
    using assms
  proof (induction xs arbitrary: s ys)
    case Nil
    then show ?case by simp
  next
    case (Cons x xs)
    from Cons.prems(1) obtain z t zs where "f x s = (Inr z, t)" "mapA f xs t = (Inr zs, s')" "ys = z # zs"
      by (auto split: prod.splits sum.splits)
    with Cons.IH Cons.prems(2) show ?case by auto
  qed
  with that show ?thesis by blast
qed

lemma pool_part_cmds:
  "pool_part E mode pushed whitelist ifs s b = (Inr p, b') \<Longrightarrow> \<exists>ifip sl. snd p = pool_cmds mode pushed whitelist ifs ifip sl s"
  by (auto simp: pool_part_def ret_def elim!: bindE_InrE split: if_splits) blast+

lemma static_part_cmds:
  "static_part E mode pushed servers s b = (Inr p, b') \<Longrightarrow> \<exists>opts. snd p = static_cmds opts s"
  by (auto simp: static_part_def ret_def Let_def elim!: bindE_InrE split: if_splits option.splits) blast

lemma acl_part_cmds:
  "acl_part whitelist servers statics entries b = (Inr p, b') \<Longrightarrow>
     \<exists>hs. acl_hosts whitelist servers statics entries = Some hs \<and>
       snd p = concat (map (\<lambda>h. acl_host_cmds (fst h) (snd h)) hs)"
  by (auto simp: acl_part_def ret_def fail_def split: option.splits)

lemma stock_part_from:
  "stock_part E owned ifs b = (Inr cs, b') \<Longrightarrow> c \<in> set cs \<Longrightarrow>
     \<exists>shown s. s \<in> set (parseUci shown ''dhcp'') \<and> c \<in> set (stock_cmds owned (ub_dropStock (snd (uciShow E ''dhcp'' b))) ifs s)"
  by (force simp: stock_part_def bindE_def split: prod.splits sum.splits if_splits)

lemma dhcp_batch_cases:
  assumes "dhcp_batch E existing mode servers statics acl routes b = (Inr cmds, b')" and "c \<in> set cmds"
  obtains s ifip sl where "s \<in> set servers" and "ds_Managed s" and "c \<in> set (pool_cmds mode (push_routes mode routes)
        (acl_Mode acl = ACLWhitelist) (enabled_ifaces servers) ifip sl s)"
    | s opts where "s \<in> set statics" and "c \<in> set (static_cmds opts s)"
    | hs h where "acl_hosts (acl_Mode acl = ACLWhitelist) servers statics (acl_Entries acl) = Some hs" and
        "h \<in> set hs" and "c \<in> set (acl_host_cmds (fst h) (snd h))"
    | n where "n \<in> set existing" and "c = DelK (Sec ''dhcp'' n)"
    | shown s owned dropped where "s \<in> set (parseUci shown ''dhcp'')" and "set existing \<subseteq> set owned" and
        "c \<in> set (stock_cmds owned dropped (enabled_ifaces servers) s)"
    | v where "c = SetKV (Opt ''dhcp'' ''odhcpd'' ''maindhcp'') v"
    | "c = Commit ''dhcp''"
proof -
  let ?pushed = "push_routes mode routes" and ?ifs = "enabled_ifaces servers" and ?w = "acl_Mode acl = ACLWhitelist"
  from assms(1) obtain ps ss as t1 t2 t3 stock t4 main t5 where
    1: "mapA (pool_part E mode ?pushed ?w ?ifs) (filter ds_Managed servers) b = (Inr ps, t1)" and
    2: "mapA (static_part E mode ?pushed servers) (filter (\<lambda>s. sl_Enabled s \<and> sl_Managed s) statics) t1 = (Inr ss, t2)" and
    3: "acl_part ?w servers statics (acl_Entries acl) t2 = (Inr as, t3)" and
    4: "stock_part E (fst (join_parts (ps @ ss @ [as])) @ existing) ?ifs t3 = (Inr stock, t4)" and
    5: "maindhcp_part E (list_ex pool_active servers) t4 = (Inr main, t5)" and
    6: "cmds = snd (join_parts (ps @ ss @ [as])) @ delete_others ''dhcp'' existing (fst (join_parts (ps @ ss @ [as]))) @
      stock @ main @ [Commit ''dhcp'']"
    by (auto simp: dhcp_batch_def Let_def ret_def elim!: bindE_InrE split: prod.splits)
  from assms(2) 6 consider p where "p \<in> set ps" "c \<in> set (snd p)" | p where "p \<in> set ss" "c \<in> set (snd p)"
    | "c \<in> set (snd as)" | n where "n \<in> set existing" "c = DelK (Sec ''dhcp'' n)" | "c \<in> set stock"
    | "c \<in> set main" | "c = Commit ''dhcp''"
    by (auto simp: join_parts_def delete_others_def)
  then show ?thesis
  proof cases
    case (1 p)
    obtain s t t' where "s \<in> set (filter ds_Managed servers)" "pool_part E mode ?pushed ?w ?ifs s t = (Inr p, t')"
      using \<open>mapA (pool_part E mode ?pushed ?w ?ifs) (filter ds_Managed servers) b = (Inr ps, t1)\<close> 1(1)
      by (rule mapA_in)
    with 1(2) pool_part_cmds show ?thesis by (fastforce intro: that(1))
  next
    case (2 p)
    obtain s t t' where "s \<in> set (filter (\<lambda>s. sl_Enabled s \<and> sl_Managed s) statics)"
      "static_part E mode ?pushed servers s t = (Inr p, t')"
      using \<open>mapA (static_part E mode ?pushed servers) _ t1 = (Inr ss, t2)\<close> 2(1)
      by (rule mapA_in)
    with 2(2) static_part_cmds show ?thesis by (fastforce intro: that(2))
  next
    case 3
    with acl_part_cmds [OF \<open>acl_part ?w servers statics (acl_Entries acl) t2 = (Inr as, t3)\<close>]
    show ?thesis by (auto intro: that(3))
  next
    case (4 n)
    then show ?thesis by (rule that(4))
  next
    case 5
    from stock_part_from [OF \<open>stock_part E _ ?ifs t3 = (Inr stock, t4)\<close> 5] obtain shown s where
      "s \<in> set (parseUci shown ''dhcp'')"
      "c \<in> set (stock_cmds (fst (join_parts (ps @ ss @ [as])) @ existing) (ub_dropStock (snd (uciShow E ''dhcp'' t3))) ?ifs s)"
      by blast
    then show ?thesis by (intro that(5)) auto
  next
    case 6
    from maindhcp_part_cmd [OF \<open>maindhcp_part E _ t4 = (Inr main, t5)\<close> 6] obtain v where
      "c = SetKV (Opt ''dhcp'' ''odhcpd'' ''maindhcp'') v" ..
    then show ?thesis by (rule that(6))
  next
    case 7
    then show ?thesis by (rule that(7))
  qed
qed

section \<open>Served interfaces are never ignored\<close>

lemma pool_cmds_ignore:
  assumes "SetKV (Opt ''dhcp'' n ''ignore'') v \<in> set (pool_cmds mode pushed whitelist ifs ifip sl s)"
  shows "n = uciName (ds_ID s) \<and> \<not> ds_Enabled s \<and> ds_Interface s \<notin> set ifs"
  using assms
  by (auto simp: pool_cmds_def Let_def own_def pool_range_cmds_def pool_switch_cmds_def pool_option_cmds_def
      exclude_cmds_def split: if_splits)

lemma static_cmds_ignore: "SetKV (Opt ''dhcp'' n ''ignore'') v \<notin> set (static_cmds opts s)"
  by (auto simp: static_cmds_def own_def Let_def)

lemma acl_host_cmds_ignore: "SetKV (Opt ''dhcp'' n ''ignore'') v \<notin> set (acl_host_cmds e ip)"
  by (auto simp: acl_host_cmds_def own_def Let_def)

lemma stock_cmds_ignore:
  "SetKV (Opt ''dhcp'' n ''ignore'') v \<in> set (stock_cmds owned dropped ifs s) \<Longrightarrow>
     n = us_name s \<and> first (opts_get s ''interface'') \<notin> set ifs"
  by (auto simp: stock_cmds_def Let_def split: if_splits)

lemma enabled_ifaces_iff: "i \<in> set (enabled_ifaces servers) \<longleftrightarrow> i \<noteq> [] \<and> (\<exists>s \<in> set servers. pool_active s \<and> ds_Interface s = i)"
  by (auto simp: enabled_ifaces_def)


section \<open>An example\<close>

text \<open>A machine on which every program fails, and a disabled pool on an interface of its own.\<close>

definition quiet_sys :: "unit sys" where
  "quiet_sys = \<lparr>sy_run = (\<lambda>stdin argv w. (([], Some ''not found''), w)), sy_exists = (\<lambda>p w. False),
     sy_read = (\<lambda>p w. None), sy_now = (\<lambda>w. 0),
     sy_list = (\<lambda>p w. None), sy_link = (\<lambda>p w. None)\<rparr>"

definition guest_pool :: DHCPServer where
  "guest_pool = zeroDHCPServer\<lparr>ds_ID := ''7'', ds_Interface := ''guest'', ds_Managed := True\<rparr>"

definition no_acl :: ACL where
  "no_acl = \<lparr>acl_Mode = ACLBlacklist, acl_Entries = []\<rparr>"

lemma quiet_run: "run_cmd quiet_sys stdin argv b = (Inr ([], Some ''not found''), b)"
  by (simp add: run_cmd_def quiet_sys_def)

lemma quiet_get: "uciGet quiet_sys key b = (Inr ([], Some ''not found''), b)"
  by (simp add: uciGet_def bindE_def ret_def quiet_run)

lemma guest_part:
  "pool_part quiet_sys RoutePushOff [] False [] guest_pool b =
     (Inr (pool_keep guest_pool, pool_cmds RoutePushOff [] False [] [] (start_limit [] [] guest_pool) guest_pool), b)"
  by (simp add: pool_part_def uci_startLimit_def uci_ifaceIP_def bindE_def ret_def quiet_get)

lemma guest_ignore: "SetKV (Opt ''dhcp'' (uciName ''7'') ''ignore'') ''1'' \<in> set (pool_cmds mode pushed w [] ip sl guest_pool)"
  by (simp add: pool_cmds_def pool_switch_cmds_def guest_pool_def zeroDHCPServer_def Let_def)

lemma guest_batch:
  "\<exists>cmds b'. dhcp_batch quiet_sys [''old''] RoutePushOff [guest_pool] [] no_acl [] b = (Inr cmds, b') \<and>
     SetKV (Opt ''dhcp'' (uciName ''7'') ''ignore'') ''1'' \<in> set cmds"
proof -
  have e: "push_routes RoutePushOff [] = []" "enabled_ifaces [guest_pool] = []" "filter ds_Managed [guest_pool] = [guest_pool]"
    by (simp_all add: push_routes_def enabled_ifaces_def pool_active_def guest_pool_def zeroDHCPServer_def)
  show ?thesis
    unfolding dhcp_batch_def Let_def e
    using guest_ignore [of RoutePushOff "[]" False "[]" "start_limit [] [] guest_pool"]
    by (simp add: bindE_def ret_def guest_part acl_part_def acl_hosts_def no_acl_def join_parts_def stock_part_def uciShow_def
        quiet_run quiet_get maindhcp_part_def)
qed



end
