(* ===== verification/UciBatchProps.thy ===== *)
theory UciBatchProps
  imports UciApplyProps
begin

text \<open>
  Three parts of a batch in detail: the addresses excluded from a pool, the addresses handed out to
  the entries of a whitelist, and the lines of text the commands become.
\<close>

section \<open>Excluded addresses\<close>

lemma length_exclude_loop: "length (exclude_loop u cu room) \<le> room"
  by (induction u cu room rule: exclude_loop.induct) auto

lemma exclude_line_bounded:
  assumes "length out \<le> exclude_limit"
  shows "length (exclude_line out line) \<le> exclude_limit"
proof (cases "ParseExcludeLine line")
  case None
  with assms show ?thesis by (simp add: exclude_line_def)
next
  case (Some p)
  with assms length_exclude_loop [of "or0 (IPv4ToUint32 (fst p))" "or0 (IPv4ToUint32 (snd p))" "exclude_limit - length out"]
  show ?thesis by (simp add: exclude_line_def split_beta)
qed

lemma expandExclude_bounded: "length (expandExclude lines) \<le> exclude_limit"
proof -
  have "length out \<le> exclude_limit \<Longrightarrow> length (foldl exclude_line out lines) \<le> exclude_limit" for out
    by (induction lines arbitrary: out) (auto intro: exclude_line_bounded)
  then show ?thesis by (simp add: expandExclude_def)
qed

text \<open>Without a wrap the loop lists the addresses from the first one on, as far as there is room.\<close>

lemma exclude_loop_eq:
  assumes "cu \<noteq> - 1"
  shows "exclude_loop u cu room =
    map (\<lambda>k. Uint32ToIPv4 (of_nat k)) [unat u..<min (unat u + room) (max (unat u) (Suc (unat cu)))]"
proof (induction room arbitrary: u)
  case 0
  then show ?case by simp
next
  case (Suc room)
  show ?case
  proof (cases "u \<le> cu")
    case False
    then show ?thesis by (simp add: word_le_nat_alt)
  next
    case True
    then have s: "unat (u + 1) = Suc (unat u)" and le: "unat u \<le> unat cu"
      using assms by (auto simp: word_succ_le word_le_nat_alt)
    have "[unat u..<min (unat u + Suc room) (max (unat u) (Suc (unat cu)))] =
        unat u # [Suc (unat u)..<min (Suc (unat u) + room) (max (Suc (unat u)) (Suc (unat cu)))]"
      using le by (subst upt_conv_Cons) (auto simp: max_def min_def)
    with True Suc [of "u + 1"] s show ?thesis by simp
  qed
qed

text \<open>The expansion of the exclude lines of a pool never exceeds 1024 addresses; a single line that names addresses a to c, with c not 255.255.255.255, expands to exactly a, a+1, ..., c or the first 1024 of them.\<close>

theorem exclude_expansion:
  "length (expandExclude lines) \<le> 1024 \<and>
   (case ParseExcludeLine line of
      None \<Rightarrow> expandExclude [line] = []
    | Some (a, c) \<Rightarrow> or0 (IPv4ToUint32 c) = - 1 \<or> expandExclude [line] =
        map (\<lambda>k. Uint32ToIPv4 (of_nat k)) [unat (or0 (IPv4ToUint32 a))..<min (unat (or0 (IPv4ToUint32 a)) + 1024)
           (max (unat (or0 (IPv4ToUint32 a))) (Suc (unat (or0 (IPv4ToUint32 c)))))])"
proof (cases "ParseExcludeLine line")
  case None
  with expandExclude_bounded [of lines] show ?thesis
    by (simp add: expandExclude_def exclude_line_def exclude_limit_def)
next
  case (Some p)
  obtain a c where p: "p = (a, c)" by (cases p)
  show ?thesis
  proof (cases "or0 (IPv4ToUint32 c) = - 1")
    case True
    with expandExclude_bounded [of lines] Some p show ?thesis by (simp add: exclude_limit_def)
  next
    case False
    from exclude_loop_eq [OF this, of "or0 (IPv4ToUint32 a)" 1024] expandExclude_bounded [of lines] Some p
    show ?thesis by (simp add: expandExclude_def exclude_line_def exclude_limit_def)
  qed
qed

lemma length_exclude_loop_max: "length (exclude_loop u (- 1) room) = room"
  by (induction room arbitrary: u) simp_all

lemma take_exclude_loop_max: "take 2 (exclude_loop u (- 1) (Suc (Suc n))) = [Uint32ToIPv4 u, Uint32ToIPv4 (u + 1)]"
  by (simp add: numeral_2_eq_2)

text \<open>The counter of the expansion is a uint32: a pool that excludes the single address 255.255.255.255 reserves 1024 addresses, beginning with 255.255.255.255 and 0.0.0.0.\<close>

lemma exclude_wraps:
  "length (expandExclude [''255.255.255.255'']) = 1024 \<and>
   take 2 (expandExclude [''255.255.255.255'']) = [''255.255.255.255'', ''0.0.0.0'']"
proof -
  have max_plus_one: "1 + (4294967295 :: u32) = 0"
    by (rule word_unat_eq_iff [THEN iffD2]) simp
  have p: "ParseExcludeLine ''255.255.255.255'' = Some (''255.255.255.255'', ''255.255.255.255'')"
    and i': "or0 (IPv4ToUint32 ''255.255.255.255'') = 4294967295"
    and s': "Uint32ToIPv4 4294967295 = ''255.255.255.255''" and s0: "Uint32ToIPv4 0 = ''0.0.0.0''"
    by (simp_all add: eval_simps Let_def)
  have m: "(4294967295 :: u32) = - 1"
    by (metis add_eq_0_iff max_plus_one)
  note i = i' [unfolded m] and s = s' [unfolded m] s0
  have e: "expandExclude [''255.255.255.255''] = exclude_loop (- 1) (- 1) 1024"
    by (simp only: expandExclude_def foldl.simps exclude_line_def p i option.case prod.case list.size append_Nil
        exclude_limit_def diff_zero)
  have n: "(1024 :: nat) = Suc (Suc 1022)" by simp
  have z: "(- 1 :: u32) + 1 = 0" by simp
  have "take 2 (expandExclude [''255.255.255.255'']) = [''255.255.255.255'', ''0.0.0.0'']"
    unfolding e n take_exclude_loop_max z s ..
  moreover have "length (expandExclude [''255.255.255.255'']) = 1024"
    unfolding e by (rule length_exclude_loop_max)
  ultimately show ?thesis by (rule conjI [rotated])
qed

theorem exclude_expansion_witness:
  "expandExclude [''192.168.1.5 - 192.168.1.6''] = [''192.168.1.5'', ''192.168.1.6'']"
proof -
  have p: "ParseExcludeLine ''192.168.1.5 - 192.168.1.6'' = Some (''192.168.1.5'', ''192.168.1.6'')"
    and i: "IPv4ToUint32 ''192.168.1.5'' = Some 3232235781" "IPv4ToUint32 ''192.168.1.6'' = Some 3232235782"
    by (simp_all add: eval_simps)
  have s: "Uint32ToIPv4 3232235781 = ''192.168.1.5''" "Uint32ToIPv4 3232235782 = ''192.168.1.6''"
    by (simp_all add: eval_simps)
  have u: "[3232235781..<3232235783] = [3232235781, 3232235782]"
    by (simp add: upt_rec)
  from exclude_expansion [of "[]" "''192.168.1.5 - 192.168.1.6''"] p i s u show ?thesis
    by (simp add: or0_def)
qed

section \<open>Addresses for the entries of a whitelist\<close>

lemma alloc_next_spec:
  assumes "fin \<noteq> - 1"
  shows "((\<exists>c. alloc_next cur fin used = Some ([], c)) \<and> (\<forall>v. cur \<le> v \<and> v \<le> fin \<longrightarrow> Uint32ToIPv4 v \<in> used)) \<or>
    (\<exists>v. alloc_next cur fin used = Some (Uint32ToIPv4 v, v + 1) \<and> cur \<le> v \<and> v \<le> fin \<and> Uint32ToIPv4 v \<notin> used \<and>
       (\<forall>w. cur \<le> w \<and> w < v \<longrightarrow> Uint32ToIPv4 w \<in> used))"
proof (induction "Suc (unat fin) - unat cur" arbitrary: cur rule: less_induct)
  case less
  show ?case
  proof (cases "cur \<le> fin")
    case False
    then have "alloc_next cur fin used = Some ([], cur)"
      by (simp add: alloc_next.simps)
    with False show ?thesis by auto
  next
    case True
    then have s: "unat (cur + 1) = Suc (unat cur)" and le: "unat cur \<le> unat fin"
      using assms by (auto simp: word_succ_le word_le_nat_alt)
    show ?thesis
    proof (cases "Uint32ToIPv4 cur \<in> used")
      case False
      then have "alloc_next cur fin used = Some (Uint32ToIPv4 cur, cur + 1)"
        using True by (simp add: alloc_next.simps)
      with False True show ?thesis by fastforce
    next
      case used: True
      have "alloc_next cur fin used = alloc_next (cur + 1) fin used"
        using used True by (subst alloc_next.simps) simp
      moreover have nxt: "cur \<le> v \<longleftrightarrow> v = cur \<or> cur + 1 \<le> v" for v
        using s by (auto simp: word_le_nat_alt word_unat_eq_iff)
      moreover have "Suc (unat fin) - unat (cur + 1) < Suc (unat fin) - unat cur"
        using s le by simp
      note less.hyps [OF this]
      ultimately show ?thesis
        using used unfolding nxt by (auto simp: less_le)
    qed
  qed
qed

definition acl_active :: "ACLEntry \<Rightarrow> bool" where
  "acl_active e \<longleftrightarrow> ae_Enabled e \<and> ae_Managed e"

text \<open>What a hand-out \<open>hs\<close> of addresses in cur..fin must satisfy.\<close>

definition handout :: "u32 \<Rightarrow> u32 \<Rightarrow> string set \<Rightarrow> ACLEntry list \<Rightarrow> (ACLEntry \<times> string) list \<Rightarrow> bool" where
  "handout cur fin used es hs \<longleftrightarrow>
     distinct (map snd hs) \<and>
     (\<forall>ip \<in> snd ` set hs. ip \<notin> used \<and> (\<exists>v. ip = Uint32ToIPv4 v \<and> cur \<le> v \<and> v \<le> fin)) \<and>
     map fst hs = take (length hs) (filter acl_active es) \<and>
     (length hs < length (filter acl_active es) \<longrightarrow>
        (\<forall>v. cur \<le> v \<and> v \<le> fin \<longrightarrow> Uint32ToIPv4 v \<in> used \<union> snd ` set hs))"

lemma whitelist_ips_handout:
  assumes "fin \<noteq> - 1"
  shows "\<exists>hs. whitelist_ips (Some (cur, fin)) used es = Some hs \<and> handout cur fin used es hs"
proof (induction es arbitrary: cur used)
  case Nil
  then show ?case by (simp add: handout_def)
next
  case (Cons e es)
  show ?case
  proof (cases "acl_active e")
    case False
    then have "whitelist_ips (Some (cur, fin)) used (e # es) = whitelist_ips (Some (cur, fin)) used es"
      by (auto simp: acl_active_def)
    with Cons [of cur used] False show ?thesis by (simp add: handout_def)
  next
    case True
    then have act: "\<not> (\<not> ae_Enabled e \<or> \<not> ae_Managed e)" by (simp add: acl_active_def)
    from alloc_next_spec [OF assms, of cur used] show ?thesis
    proof
      assume "(\<exists>c. alloc_next cur fin used = Some ([], c)) \<and> (\<forall>v. cur \<le> v \<and> v \<le> fin \<longrightarrow> Uint32ToIPv4 v \<in> used)"
      then obtain c where c: "alloc_next cur fin used = Some ([], c)"
        and u: "\<forall>v. cur \<le> v \<and> v \<le> fin \<longrightarrow> Uint32ToIPv4 v \<in> used" by blast
      then have "whitelist_ips (Some (cur, fin)) used (e # es) = Some []"
        using act by simp
      with u show ?thesis by (simp add: handout_def)
    next
      assume "\<exists>v. alloc_next cur fin used = Some (Uint32ToIPv4 v, v + 1) \<and> cur \<le> v \<and> v \<le> fin \<and>
        Uint32ToIPv4 v \<notin> used \<and> (\<forall>w. cur \<le> w \<and> w < v \<longrightarrow> Uint32ToIPv4 w \<in> used)"
      then obtain v where a: "alloc_next cur fin used = Some (Uint32ToIPv4 v, v + 1)"
        and v: "cur \<le> v" "v \<le> fin" "Uint32ToIPv4 v \<notin> used"
        and b: "\<forall>w. cur \<le> w \<and> w < v \<longrightarrow> Uint32ToIPv4 w \<in> used" by blast
      let ?ip = "Uint32ToIPv4 v"
      obtain hs where hs: "whitelist_ips (Some (v + 1, fin)) (insert ?ip used) es = Some hs"
        and h: "handout (v + 1) fin (insert ?ip used) es hs"
        using Cons [of "v + 1" "insert ?ip used"] by blast
      then have "whitelist_ips (Some (cur, fin)) used (e # es) = Some ((e, ?ip) # hs)"
        using act a by simp
      moreover
      have nxt: "v + 1 \<le> w \<longleftrightarrow> v < w" for w
        using word_succ_le [OF v(2) assms] by (auto simp: word_le_nat_alt word_less_nat_alt)
      have "handout cur fin used (e # es) ((e, ?ip) # hs)"
        unfolding handout_def
      proof (intro conjI ballI impI allI)
        have "?ip \<notin> snd ` set hs" and "distinct (map snd hs)"
          using h unfolding handout_def by blast+
        then show "distinct (map snd ((e, ?ip) # hs))" by simp
        show "map fst ((e, ?ip) # hs) = take (length ((e, ?ip) # hs)) (filter acl_active (e # es))"
          using h True unfolding handout_def by simp
      next
        fix ip assume ip: "ip \<in> snd ` set ((e, ?ip) # hs)"
        have rest: "ip \<notin> insert ?ip used \<and> (\<exists>w. ip = Uint32ToIPv4 w \<and> v + 1 \<le> w \<and> w \<le> fin)" if "ip \<in> snd ` set hs"
          using h that unfolding handout_def by blast
        show "ip \<notin> used" using ip rest v(3) by auto
        show "\<exists>w. ip = Uint32ToIPv4 w \<and> cur \<le> w \<and> w \<le> fin"
        proof (cases "ip \<in> snd ` set hs")
          case True
          with rest obtain w where "ip = Uint32ToIPv4 w" "v < w" "w \<le> fin" unfolding nxt by blast
          with v(1) show ?thesis by (intro exI [of _ w]) auto
        next
          case False
          with ip v show ?thesis by auto
        qed
      next
        fix w
        assume "length ((e, ?ip) # hs) < length (filter acl_active (e # es))" and w: "cur \<le> w \<and> w \<le> fin"
        with h True have rest: "v < w \<longrightarrow> Uint32ToIPv4 w \<in> insert ?ip used \<union> snd ` set hs"
          unfolding handout_def nxt by simp
        show "Uint32ToIPv4 w \<in> used \<union> snd ` set ((e, ?ip) # hs)"
          using rest b w by (cases w v rule: linorder_cases) auto
      qed
      ultimately show ?thesis by blast
    qed
  qed
qed

text \<open>C12: in whitelist mode every enabled managed entry gets an address of the first usable pool, in order; no address is handed out twice or is already used by a reservation or excluded; and entries go without an address only when every address of the pool is used.\<close>

theorem whitelist_handout:
  assumes "alloc_range servers = Some (su, eu)" and "eu \<noteq> - 1"
  shows "\<exists>hs. acl_hosts True servers statics entries = Some hs \<and>
    handout su eu (usedPoolIPs servers statics) entries hs"
  using whitelist_ips_handout [OF assms(2), of su "usedPoolIPs servers statics" entries] assms(1)
  by (simp add: acl_hosts_def)

definition white_pool :: DHCPServer where
  "white_pool = zeroDHCPServer\<lparr>ds_Enabled := True, ds_Managed := True, ds_IPStart := ''192.168.2.10'', ds_IPEnd := ''192.168.2.11''\<rparr>"

definition white_entry :: ACLEntry where
  "white_entry = zeroACLEntry\<lparr>ae_Enabled := True, ae_Managed := True\<rparr>"

theorem whitelist_handout_witness:
  "\<exists>hs. acl_hosts True [white_pool] [] [white_entry] = Some hs \<and> length hs = 1"
proof -
  have i: "IPv4ToUint32 ''192.168.2.10'' = Some 3232236042" "IPv4ToUint32 ''192.168.2.11'' = Some 3232236043"
    by (simp_all add: eval_simps)
  have r: "alloc_range [white_pool] = Some (3232236042, 3232236043)" "(3232236043 :: u32) \<noteq> - 1"
    using i by (simp_all add: white_pool_def pool_active_def)
  have u: "usedPoolIPs [white_pool] [] = {}"
    by (simp add: usedPoolIPs_def white_pool_def zeroDHCPServer_def expandExclude_def)
  have f: "filter acl_active [white_entry] = [white_entry]"
    by (simp add: acl_active_def white_entry_def)
  obtain hs where hs: "acl_hosts True [white_pool] [] [white_entry] = Some hs"
    and h: "handout 3232236042 3232236043 {} [white_entry] hs"
    using whitelist_handout [OF r, of "[]" "[white_entry]"] u by auto
  have "length hs \<noteq> 0"
    using h f by (fastforce simp: handout_def)
  moreover have "length hs \<le> 1"
    using h f unfolding handout_def by (auto dest: arg_cong [of _ _ length])
  ultimately have "length hs = 1" by linarith
  with hs show ?thesis by blast
qed

section \<open>The text of a batch\<close>

text \<open>As long as no field contains a newline, the text sent to uci batch has exactly one line for each command, so what was proved of the commands holds of the lines that uci reads.\<close>

theorem batch_text_lines:
  assumes "\<forall>c \<in> set cmds. byte 10 \<notin> set (cmd_line c)"
  shows "go_Split (batch_text cmds) (byte 10) = map cmd_line cmds @ [[]]"
  using assms
  by (induction cmds) (simp_all add: batch_text_def go_Split_append)

theorem batch_text_lines_witness:
  "go_Split (batch_text [DelK (Sec ''dhcp'' ''x''), Commit ''dhcp'']) (byte 10) = [''delete dhcp.x'', ''commit dhcp'', '''']"
proof -
  have "\<forall>c \<in> set [DelK (Sec ''dhcp'' ''x''), Commit ''dhcp'']. byte 10 \<notin> set (cmd_line c)"
    by (simp add: eval_simps)
  from batch_text_lines [OF this] show ?thesis by simp
qed

lemma batch_text_append: "batch_text (xs @ ys) = batch_text xs @ batch_text ys"
  by (simp add: batch_text_def)

lemma go_Split_prefix: "set (go_Split b (byte 10)) \<subseteq> set (tl (go_Split (a @ byte 10 # b) (byte 10)))"
proof (induction a)
  case Nil
  show ?case by simp
next
  case (Cons c a)
  then show ?case by (cases "go_Split (a @ byte 10 # b) (byte 10)") auto
qed

lemma go_Split_line:
  assumes "byte 10 \<notin> set l"
  shows "l \<in> set (go_Split (a @ byte 10 # l @ byte 10 # b) (byte 10))"
  using go_Split_prefix [of "l @ byte 10 # b" a] assms
  by (cases "go_Split (a @ byte 10 # l @ byte 10 # b) (byte 10)") (auto simp: go_Split_append)

definition evil_pool :: DHCPServer where
  "evil_pool = zeroDHCPServer\<lparr>ds_Interface := ''lan'' @ byte 39 # byte 10 # ''delete network.lan'' @ byte 10 # ''#'',
     ds_IPStart := ''192.168.2.10'', ds_IPEnd := ''192.168.2.20'', ds_Netmask := ''255.255.255.0''\<rparr>"

lemma evil_pool_valid: "validateDHCPServer evil_pool = Inr evil_pool"
proof -
  have "ds_Interface evil_pool = ''lan'' @ byte 39 # byte 10 # ''delete network.lan'' @ byte 10 # ''#''"
    and f: "ds_IPStart evil_pool = ''192.168.2.10''" "ds_IPEnd evil_pool = ''192.168.2.20''"
      "ds_Netmask evil_pool = ''255.255.255.0''" "ds_Gateway evil_pool = []" "ds_DNSPrimary evil_pool = []"
      "ds_DNSSecondary evil_pool = []" "ds_LeaseMinutes evil_pool = 0" "ds_Exclude evil_pool = []"
      "ds_CustomOptions evil_pool = []"
    by (simp_all add: evil_pool_def zeroDHCPServer_def)
  then have t: "go_TrimSpace (ds_Interface evil_pool) = ds_Interface evil_pool" "ds_Interface evil_pool \<noteq> []"
    by (simp_all add: eval_simps)
  have "IsIPv4 ''192.168.2.10''" "IsIPv4 ''192.168.2.20''" "IsValidNetmask ''255.255.255.0''"
    and "RangeCount ''192.168.2.10'' ''192.168.2.20'' = Some 11"
    by (simp_all add: eval_simps Let_def)
  with t show ?thesis
    by (simp add: validateDHCPServer_def f bad_opt_def)
qed

lemma pool_interface_lines:
  assumes "ds_Interface s = x @ byte 10 # l @ byte 10 # y" and "byte 10 \<notin> set l"
  shows "l \<in> set (go_Split (batch_text (pool_cmds mode pushed whitelist ifs ifip sl s)) (byte 10))"
proof -
  let ?i = "uciName (ds_ID s)"
  obtain tl where c: "pool_cmds mode pushed whitelist ifs ifip sl s =
      own ''dhcp'' ?i ''dhcp'' @ SetKV (dhcp_opt ?i ''interface'') (x @ byte 10 # l @ byte 10 # y) # tl"
    by (simp add: pool_cmds_def Let_def assms(1))
  have k: "batch_text (SetKV k (x @ byte 10 # l @ byte 10 # y) # tl) =
      (''set '' @ key_str k @ ''='' @ byte 39 # x) @ byte 10 # l @ byte 10 # (y @ byte 39 # byte 10 # batch_text tl)" for k
    by (simp add: batch_text_def quoted_def)
  show ?thesis
    unfolding c batch_text_append k append_assoc [symmetric] by (rule go_Split_line [OF assms(2)])
qed

text \<open>the name of the interface of a pool is not checked: a pool whose interface contains a quote and a newline passes validation, and the batch that apply builds for it contains a line of its own choice, here one that deletes the LAN.\<close>

theorem interface_name_injects_command:
  "\<exists>p. validateDHCPServer evil_pool = Inr p \<and>
     ''delete network.lan'' \<in> set (go_Split (batch_text (pool_cmds mode pushed whitelist ifs ifip sl p)) (byte 10))"
proof (intro exI conjI)
  show "validateDHCPServer evil_pool = Inr evil_pool" by (rule evil_pool_valid)
  show "''delete network.lan'' \<in> set (go_Split (batch_text (pool_cmds mode pushed whitelist ifs ifip sl evil_pool)) (byte 10))"
  proof (rule pool_interface_lines)
    show "ds_Interface evil_pool = (''lan'' @ [byte 39]) @ byte 10 # ''delete network.lan'' @ byte 10 # ''#''"
      by (simp add: evil_pool_def)
    show "byte 10 \<notin> set ''delete network.lan''"
      by (simp add: eval_simps)
  qed
qed

end
