(* ===== verification/UciDNS.thy ===== *)
theory UciDNS
  imports UciApply
begin

text \<open>
  DNS on the uci backend (dns_uci.go, dns_uci_read.go): the projection \<open>applyDNS\<close> with its
  bookkeeping, the https-dns-proxy instance, the hijack rules of the firewall, the settings reflected
  from uci, and the installation of the DoH packages with its fallback mirrors.

  The bookkeeping is saved before the batch is run, and its error is dropped, as in the source.
\<close>

section \<open>What the lists should contain\<close>

abbreviation managedMarkerDNS :: string where "managedMarkerDNS \<equiv> ''kwrt-net-manager-dns''"
abbreviation dnsmasqSec :: string where "dnsmasqSec \<equiv> ''@dnsmasq[0]''"

abbreviation masq :: "string \<Rightarrow> ukey" where
  "masq opt \<equiv> Opt ''dhcp'' dnsmasqSec opt"

definition dnsManagedScalars :: "string list" where
  "dnsManagedScalars = [''filter_aaaa'', ''cachesize'', ''local_ttl'', ''min_cache_ttl'', ''max_cache_ttl'',
     ''noresolv'', ''resolvfile'', ''dnssec'', ''rebind_protection'', ''allservers'']"

definition route_servers :: "DNSDomainRoute \<Rightarrow> string list" where
  "route_servers r =
     map (\<lambda>up. ''/'' @ go_TrimPrefix (dd_Domain r) ''*.'' @ ''/'' @ up @
          (if dd_OutIface r \<noteq> [] then ''@'' @ dd_OutIface r else []))
       (splitUpstreams (dd_Server r))"

definition desiredDNSServers :: "DNSSettings \<Rightarrow> DNSDoH \<Rightarrow> DNSDomainRoute list \<Rightarrow> string list" where
  "desiredDNSServers st doh routes =
     (if dn_Enabled st then filter (\<lambda>s. s \<noteq> []) [dn_DNSPrimary st, dn_DNSSecondary st] else []) @
     (if dh_Enabled doh then [''127.0.0.1#'' @ go_Itoa (dh_ListenPort doh)] else []) @
     concat (map route_servers (filter (\<lambda>r. dd_Enabled r \<and> dd_Managed r) routes))"

definition desiredDNSAddrs :: "DNSRecord list \<Rightarrow> string list" where
  "desiredDNSAddrs records =
     map (\<lambda>r. ''/'' @ go_TrimPrefix (dr_Domain r) ''*.'' @ ''/'' @ dr_Address r)
       (filter (\<lambda>r. dr_Enabled r \<and> dr_Managed r \<and> dr_Wildcard r) records)"

definition desiredRebindDomains :: "DNSSettings \<Rightarrow> string list" where
  "desiredRebindDomains st = (if \<not> dn_Enabled st then [] else unseen [] (dn_RebindDomains st))"

section \<open>The dhcp batch of DNS\<close>

definition scalar_cmds :: "bool \<Rightarrow> DNSSettings \<Rightarrow> ucmd list" where
  "scalar_cmds filter_ok st =
     [SetKV (masq ''filter_aaaa'') (if filter_ok then ''1'' else ''0''),
      setIntOrDel (masq ''cachesize'') (dn_CacheSize st),
      setIntOrDel (masq ''local_ttl'') (dn_LocalTTL st),
      setIntOrDel (masq ''min_cache_ttl'') (dn_MinCacheTTL st),
      setIntOrDel (masq ''max_cache_ttl'') (dn_MaxCacheTTL st),
      setBoolKV (masq ''dnssec'') (dn_DNSSEC st),
      setBoolKV (masq ''rebind_protection'') (dn_RebindProtect st),
      setBoolKV (masq ''allservers'') (dn_AllServers st)]"

definition upstream_cmds :: "DNSSettings \<Rightarrow> DNSDoH \<Rightarrow> ucmd list" where
  "upstream_cmds st doh =
     (if dh_Enabled doh \<or> (dn_Enabled st \<and> dn_NoResolv st \<and> (dn_DNSPrimary st \<noteq> [] \<or> dn_DNSSecondary st \<noteq> []))
      then [SetKV (masq ''noresolv'') ''1'', SetKV (masq ''resolvfile'') ''/tmp/resolv.conf.auto'']
      else [DelK (masq ''noresolv'')])"

definition dns_managed :: "DNSSettings \<Rightarrow> DNSDoH \<Rightarrow> bool" where
  "dns_managed st doh \<longleftrightarrow> dn_Enabled st \<or> dh_Enabled doh"

text \<open>Step 1: the first take-over reads the old values of the scalars. A missing key of the map reads as the empty string.\<close>

definition snapshot :: "'w sys \<Rightarrow> ('w uci, string \<rightharpoonup> string) act" where
  "snapshot E = bindE (mapA (\<lambda>k. bindE (uciGet E (''dhcp.@dnsmasq[0].'' @ k)) (\<lambda>(v, e). ret (k, v))) dnsManagedScalars)
     (\<lambda>kvs. ret (map_of kvs))"

definition stock_value :: "(string \<rightharpoonup> string) \<Rightarrow> string \<Rightarrow> string" where
  "stock_value m k = (case m k of None \<Rightarrow> [] | Some v \<Rightarrow> v)"

definition restore_cmds :: "(string \<rightharpoonup> string) \<Rightarrow> ucmd list" where
  "restore_cmds m = map (\<lambda>k. restoreStock (masq k) (stock_value m k)) dnsManagedScalars"

definition filterAAAASupported :: "lib \<Rightarrow> 'w sys \<Rightarrow> ('w uci, bool) act" where
  "filterAAAASupported L E = bindE (run_cmd E [] [''dnsmasq'', ''--filter-AAAA'', ''--test'']) (\<lambda>(out, e).
     ret (\<not> go_Contains (go_ToLower (lb_lower L) out) ''bad option'' \<and>
          \<not> go_Contains (go_ToLower (lb_lower L) out) ''bad command''))"

text \<open>Steps 1 and 2: the commands for the scalars and the snapshot to remember.\<close>

definition scalars_part :: "lib \<Rightarrow> 'w sys \<Rightarrow> DNSSettings \<Rightarrow> DNSDoH \<Rightarrow>
    ('w uci, ucmd list \<times> (string \<rightharpoonup> string) option) act" where
  "scalars_part L E st doh =
     (if dns_managed st doh then
        bindE (case dn_SavedStock st of None \<Rightarrow> snapshot E | Some m \<Rightarrow> ret m) (\<lambda>m.
        bindE (if dn_Enabled st then
                 bindE (if dn_FilterAAAA st then filterAAAASupported L E else ret False)
                   (\<lambda>ok. ret (scalar_cmds ok st))
               else ret []) (\<lambda>cs.
          ret (cs @ upstream_cmds st doh, Some m)))
      else (case dn_SavedStock st of None \<Rightarrow> ret ([], None) | Some m \<Rightarrow> ret (restore_cmds m, None)))"

definition replace_list :: "string \<Rightarrow> string list \<Rightarrow> string list \<Rightarrow> ucmd list" where
  "replace_list opt old new = map (DelList (masq opt)) old @ map (AddList (masq opt)) new"

definition record_exact :: "DNSRecord \<Rightarrow> bool" where
  "record_exact r \<longleftrightarrow> dr_Enabled r \<and> dr_Managed r \<and> \<not> dr_Wildcard r"

definition record_cmds :: "DNSRecord \<Rightarrow> ucmd list" where
  "record_cmds r = (let i = uciName (dr_ID r) in
     [SetType (Sec ''dhcp'' i) ''hostrecord'', SetKV (dhcp_opt i managedOpt) managedMarkerDNS,
      SetKV (dhcp_opt i ''name'') (dr_Domain r), SetKV (dhcp_opt i ''ip'') (dr_Address r)])"

definition managedNamesDNS :: "'w sys \<Rightarrow> string \<Rightarrow> ('w uci, string list) act" where
  "managedNamesDNS E config = marked E config managedMarkerDNS"

definition dns_tail :: "DNSSettings \<Rightarrow> DNSDoH \<Rightarrow> DNSRecord list \<Rightarrow> DNSDomainRoute list \<Rightarrow> string list \<Rightarrow> ucmd list" where
  "dns_tail st doh records routes existing =
     replace_list ''server'' (dn_PrevServers st) (desiredDNSServers st doh routes) @
     replace_list ''address'' (dn_PrevAddrs st) (desiredDNSAddrs records) @
     replace_list ''rebind_domain'' (dn_PrevRebindDomains st) (desiredRebindDomains st) @
     concat (map record_cmds (filter record_exact records)) @
     delete_others ''dhcp'' existing (map (\<lambda>r. uciName (dr_ID r)) (filter record_exact records)) @
     [Commit ''dhcp'']"

section \<open>DoH and the firewall\<close>

definition doh_opt :: "string \<Rightarrow> string \<Rightarrow> ukey" where
  "doh_opt sec opt = Opt ''https-dns-proxy'' sec opt"

definition doh_cmds :: "DNSDoH \<Rightarrow> ucmd list" where
  "doh_cmds doh =
     [SetType (Sec ''https-dns-proxy'' ''config'') ''main'',
      SetKV (doh_opt ''config'' ''dnsmasq_config_update'') ''-'',
      SetKV (doh_opt ''config'' ''update_dnsmasq_config'') ''-''] @
     (if dh_Enabled doh then
        [SetType (Sec ''https-dns-proxy'' ''kwrtdns_doh'') ''https-dns-proxy'',
         SetKV (doh_opt ''kwrtdns_doh'' ''listen_addr'') ''127.0.0.1'',
         SetKV (doh_opt ''kwrtdns_doh'' ''listen_port'') (itoa (dh_ListenPort doh)),
         setKVOrDel (doh_opt ''kwrtdns_doh'' ''resolver_url'') (dh_ResolverURL doh),
         setKVOrDel (doh_opt ''kwrtdns_doh'' ''bootstrap_dns'') (dh_BootstrapDNS doh)]
      else [DelK (Sec ''https-dns-proxy'' ''kwrtdns_doh'')]) @
     [Commit ''https-dns-proxy'']"

definition applyDoH :: "'w sys \<Rightarrow> DNSDoH \<Rightarrow> ('w uci, unit) act" where
  "applyDoH E doh = bindE (initdExists E ''https-dns-proxy'') (\<lambda>there.
     if \<not> there then ret ()
     else bindE (ignoring (run_cmd E (batch_text (doh_cmds doh)) [''uci'', ''batch''])) (\<lambda>_.
       ignoring (run_cmd E [] [''/etc/init.d/https-dns-proxy'', if dh_Enabled doh then ''restart'' else ''reload''])))"

definition hijack_rule :: "string \<times> string \<Rightarrow> ucmd list" where
  "hijack_rule c = (case c of (name, fam) \<Rightarrow>
     (let fw = Opt ''firewall'' name in
      [SetType (Sec ''firewall'' name) ''redirect'', SetKV (fw ''name'') (''kwrt-dns-force-'' @ fam),
       SetKV (fw ''src'') ''lan'', SetKV (fw ''src_dport'') ''53'', SetKV (fw ''dest'') ''lan'',
       SetKV (fw ''dest_port'') ''53'', SetKV (fw ''target'') ''DNAT'', SetKV (fw ''family'') fam,
       AddList (fw ''proto'') ''tcp'', AddList (fw ''proto'') ''udp'']))"

definition hijack_cmds :: "bool \<Rightarrow> ucmd list" where
  "hijack_cmds on =
     [DelK (Sec ''firewall'' ''kwrtdns_force_v4''), DelK (Sec ''firewall'' ''kwrtdns_force_v6'')] @
     (if on then concat (map hijack_rule [(''kwrtdns_force_v4'', ''ipv4''), (''kwrtdns_force_v6'', ''ipv6'')]) else []) @
     [Commit ''firewall'']"

definition applyDNSHijack :: "'w sys \<Rightarrow> bool \<Rightarrow> ('w uci, unit) act" where
  "applyDNSHijack E on = bindE (initdExists E ''firewall'') (\<lambda>there.
     if \<not> there then ret ()
     else bindE (run_cmd E (batch_text (hijack_cmds on)) [''uci'', ''batch'']) (\<lambda>(out, e).
       if e = None then ignoring (run_cmd E [] [''/etc/init.d/firewall'', ''reload'']) else ret ()))"

section \<open>applyDNS\<close>

definition restart_dns :: "'w sys \<Rightarrow> ('w uci, unit) act" where
  "restart_dns E = bindE (dhcpService E) (\<lambda>svc.
     if svc = [] then ret ()
     else bindE (run_cmd E [] [''/etc/init.d/'' @ svc, ''restart'']) (\<lambda>(out, e).
       if e = None then ret () else set_pending True (svc @ '' restart failed'')))"

definition dns_batch :: "lib \<Rightarrow> 'w sys \<Rightarrow> State \<Rightarrow> ('w uci, ucmd list \<times> (string \<rightharpoonup> string) option) act" where
  "dns_batch L E s =
     bindE (scalars_part L E (S_DNS s) (S_DNSDoH s)) (\<lambda>(cs, stock).
     bindE (managedNamesDNS E ''dhcp'') (\<lambda>existing.
       ret (cs @ dns_tail (S_DNS s) (S_DNSDoH s) (S_DNSRecords s) (S_DNSDomainRoutes s) existing, stock)))"

definition applyDNS :: "lib \<Rightarrow> 'w sys \<Rightarrow> ('w uci, unit) act" where
  "applyDNS L E =
     bindE sidecar (\<lambda>s.
     bindE (dns_batch L E s) (\<lambda>(cmds, stock).
     bindE (orZero () (on_store (saveDNSBookkeeping stock
         (desiredDNSServers (S_DNS s) (S_DNSDoH s) (S_DNSDomainRoutes s)) (desiredDNSAddrs (S_DNSRecords s))
         (desiredRebindDomains (S_DNS s))))) (\<lambda>_.
     bindE (uci_batch E ''uci batch dns'' cmds) (\<lambda>err.
     bindE (applyDoH E (S_DNSDoH s)) (\<lambda>_.
     bindE (applyDNSHijack E (dn_Enabled (S_DNS s) \<and> dn_ForceProxy (S_DNS s))) (\<lambda>_.
     bindE (restart_dns E) (\<lambda>_.
       raise err)))))))"

definition uci_SaveDNSSettings :: "lib \<Rightarrow> 'w sys \<Rightarrow> DNSSettings \<Rightarrow> ('w uci, unit) act" where
  "uci_SaveDNSSettings L E s = bindE (on_store (store_SaveDNSSettings s)) (\<lambda>_. applyDNS L E)"

definition uci_SaveDNSDoH :: "lib \<Rightarrow> 'w sys \<Rightarrow> DNSDoH \<Rightarrow> ('w uci, unit) act" where
  "uci_SaveDNSDoH L E d = bindE (on_store (store_SaveDNSDoH d)) (\<lambda>_. applyDNS L E)"

definition uci_SaveDNSRecords :: "lib \<Rightarrow> 'w sys \<Rightarrow> DNSRecord list \<Rightarrow> ('w uci, unit) act" where
  "uci_SaveDNSRecords L E list = bindE (on_store (store_SaveDNSRecords list)) (\<lambda>_. applyDNS L E)"

definition uci_SaveDNSDomainRoutes :: "lib \<Rightarrow> 'w sys \<Rightarrow> DNSDomainRoute list \<Rightarrow> ('w uci, unit) act" where
  "uci_SaveDNSDomainRoutes L E list = bindE (on_store (store_SaveDNSDomainRoutes list)) (\<lambda>_. applyDNS L E)"

end
