(* ===== verification/UciIPv6.thy ===== *)
theory UciIPv6
  imports UciApply
begin

text \<open>
  IPv6 on the uci backend (ipv6\_uci.go, ipv6\_uci\_read.go): the projection \<open>applyIPv6\<close>, which marks
  its sections with a marker of its own and borrows the sections of the LAN, the reflection of an
  existing configuration, and the neighbour table.
\<close>

abbreviation managedMarkerV6 :: string where "managedMarkerV6 \<equiv> ''kwrt-net-manager-v6''"
abbreviation managedOptV6 :: string where "managedOptV6 \<equiv> ''managed_v6''"

section \<open>Projections\<close>

text \<open>A section of our own, with the IPv6 marker.\<close>

definition own6 :: "string \<Rightarrow> string \<Rightarrow> string \<Rightarrow> ucmd list" where
  "own6 config i typ = [SetType (Sec config i) typ, SetKV (Opt config i managedOpt) managedMarkerV6]"

definition nonblank :: "string list \<Rightarrow> string list" where
  "nonblank ds = filter (\<lambda>d. go_TrimSpace d \<noteq> []) ds"

definition wan6_proto_cmds :: "string \<Rightarrow> WANv6 \<Rightarrow> ucmd list" where
  "wan6_proto_cmds i w =
     (if w6_Proto w = ProtoStatic6 then
        [SetKV (net_opt i ''proto'') ''static'', setKVOrDel (net_opt i ''ip6addr'') (w6_StaticIP6 w),
         setKVOrDel (net_opt i ''ip6gw'') (w6_StaticGW w)]
      else if w6_Proto w \<in> {Proto6in4, Proto6to4, Proto6rd} then
        [SetKV (net_opt i ''proto'') (w6_Proto w), setKVOrDel (net_opt i ''peeraddr'') (w6_PeerAddr w),
         setKVOrDel (net_opt i ''ip6prefix'') (w6_TunPrefix w), setKVOrDel (net_opt i ''tunlink'') (w6_WANIface w)]
      else
        [SetKV (net_opt i ''proto'') ''dhcpv6'',
         setKVOrDel (net_opt i ''reqprefix'') (if w6_FixedPrefix w = [] then w6_ReqPrefix w else w6_FixedPrefix w),
         SetKV (net_opt i ''reqaddress'') (if w6_ForcePrefix w then ''force'' else ''try''),
         setKVOrDel (net_opt i ''clientid'') (w6_ClientID w),
         if w6_NoRelease w then SetKV (net_opt i ''norelease'') ''1'' else DelK (net_opt i ''norelease''),
         DelK (net_opt i ''dns'')] @
        (if w6_PeerDNS w then [DelK (net_opt i ''peerdns'')]
         else SetKV (net_opt i ''peerdns'') ''0'' #
           map (AddList (net_opt i ''dns'')) (nonblank [w6_DNSPrimary w, w6_DNSSecondary w])))"

definition projectWANv6 :: "string \<Rightarrow> WANv6 \<Rightarrow> ucmd list" where
  "projectWANv6 i w =
     own6 ''network'' i ''interface'' @
     [setKVOrDel (net_opt i ''device'')
        (if w6_Device w = [] \<and> w6_WANIface w \<noteq> [] then ''@'' @ w6_WANIface w else w6_Device w)] @
     map (\<lambda>o'. DelK (net_opt i o'))
       [''ip6addr'', ''ip6gw'', ''reqprefix'', ''reqaddress'', ''clientid'', ''norelease'', ''peerdns'', ''dns'',
        ''peeraddr'', ''ip6prefix'', ''tunlink''] @
     wan6_proto_cmds i w @
     [if w6_MTU w > 0 then SetKV (net_opt i ''mtu'') (itoa (w6_MTU w)) else DelK (net_opt i ''mtu'')]"

definition raManagement :: "string \<Rightarrow> string" where
  "raManagement mode = (if mode = DHCPv6Stateless then ''0'' else if mode = DHCPv6StatefulOnly then ''2'' else ''1'')"

text \<open>\<open>projectLANv6\<close>: the commands for network and for dhcp.\<close>

definition lan6_net_cmds :: "string \<Rightarrow> LANv6 \<Rightarrow> ucmd list" where
  "lan6_net_cmds i l =
     (if l6_PrefixAssignLen l > 0 then [SetKV (net_opt i ''ip6assign'') (itoa (l6_PrefixAssignLen l))] else []) @
     [DelK (net_opt i ''ip6class'')] @
     (if l6_BindWAN l \<noteq> [] then [AddList (net_opt i ''ip6class'') (l6_BindWAN l)] else []) @
     [setKVOrDel (net_opt i ''ip6hint'') (l6_PrefixHint l)]"

definition lan6_dhcp_cmds :: "string \<Rightarrow> LANv6 \<Rightarrow> ucmd list" where
  "lan6_dhcp_cmds i l =
     [SetType (Sec ''dhcp'' i) ''dhcp'', SetKV (dhcp_opt i ''interface'') (l6_Interface l),
      SetKV (dhcp_opt i managedOptV6) ''1''] @
     (if l6_Enabled l \<and> l6_DHCPv6Enabled l then
        [SetKV (dhcp_opt i ''dhcpv6'') ''server'', SetKV (dhcp_opt i ''ra'') ''server'',
         SetKV (dhcp_opt i ''ra_management'') (raManagement (l6_DHCPv6Mode l))] @
        (if l6_LeaseMinutes l > 0 then [SetKV (dhcp_opt i ''leasetime'') (itoa (l6_LeaseMinutes l) @ ''m'')] else []) @
        [if l6_RAMTUEnabled l \<and> l6_RAMTU l > 0 then SetKV (dhcp_opt i ''ra_mtu'') (itoa (l6_RAMTU l))
         else DelK (dhcp_opt i ''ra_mtu''),
         DelK (dhcp_opt i ''dns'')] @
        (if l6_IPv6DNSEnabled l then map (AddList (dhcp_opt i ''dns'')) (nonblank (l6_DNSServers l)) else [])
      else [SetKV (dhcp_opt i ''dhcpv6'') ''disabled'', SetKV (dhcp_opt i ''ra'') ''disabled''])"

definition projectPrefixV6 :: "string \<Rightarrow> PrefixStaticV6 \<Rightarrow> ucmd list" where
  "projectPrefixV6 i p =
     own6 ''dhcp'' i ''host'' @
     [setKVOrDel (dhcp_opt i ''duid'') (p6_DUID p), setKVOrDel (dhcp_opt i ''mac'') (p6_MAC p),
      setKVOrDel (dhcp_opt i ''hostid'') (go_TrimPrefix (p6_HostID p) ''::''), setKVOrDel (dhcp_opt i ''name'') (p6_Remark p)]"

definition projectACLv6DUID :: "string \<Rightarrow> ACLv6Entry \<Rightarrow> ucmd list" where
  "projectACLv6DUID i e =
     own6 ''dhcp'' i ''host'' @
     [SetKV (dhcp_opt i ''duid'') (a6_DUID e), SetKV (dhcp_opt i ''hostid'') ''ignore'']"

text \<open>\<open>disableLANv6\<close>: the commands for network and for dhcp.\<close>

definition disable_net_cmds :: "string \<Rightarrow> ucmd list" where
  "disable_net_cmds n = [DelK (net_opt n ''ip6class''), DelK (net_opt n ''ip6hint'')]"

definition disable_dhcp_cmds :: "string \<Rightarrow> ucmd list" where
  "disable_dhcp_cmds n =
     [SetKV (dhcp_opt n ''dhcpv6'') ''disabled'', SetKV (dhcp_opt n ''ra'') ''disabled'', DelK (dhcp_opt n managedOptV6)]"

section \<open>Which sections are ours\<close>

definition managedNamesV6 :: "'w sys \<Rightarrow> string \<Rightarrow> ('w uci, string list) act" where
  "managedNamesV6 E config = marked E config managedMarkerV6"

definition option_line :: "string \<Rightarrow> string \<Rightarrow> string \<Rightarrow> string option" where
  "option_line prefix suf line0 =
     (let line = go_TrimSpace line0 in
      if \<not> go_HasPrefix line prefix \<or> \<not> go_HasSuffix line suf then None
      else
        (let rest = go_TrimPrefix line prefix in
         case go_IndexByte rest CHR ''.'' of
           None \<Rightarrow> None
         | Some i \<Rightarrow> if i = 0 then None else Some (take i rest)))"

definition namesByOption :: "string \<Rightarrow> string \<Rightarrow> string \<Rightarrow> string \<Rightarrow> string list" where
  "namesByOption shown config opt val =
     foldl (\<lambda>names n. if n \<in> set names then names else names @ [n]) []
       (List.map_filter (option_line (config @ ''.'') (''.'' @ opt @ ''='' @ quoted val)) (go_Split shown (byte 10)))"

definition borrowedV6Names :: "'w sys \<Rightarrow> string \<Rightarrow> ('w uci, string list) act" where
  "borrowedV6Names E config = bindE (uciShow E config) (\<lambda>(shown, e).
     ret (if e = None then namesByOption shown config managedOptV6 ''1'' else []))"

section \<open>applyIPv6\<close>

definition wan6_active :: "WANv6 \<Rightarrow> bool" where
  "wan6_active w \<longleftrightarrow> w6_Managed w \<and> w6_Enabled w"

definition prefix6_active :: "PrefixStaticV6 \<Rightarrow> bool" where
  "prefix6_active p \<longleftrightarrow> p6_Managed p \<and> p6_Enabled p"

definition duid_active :: "ACLv6Entry \<Rightarrow> bool" where
  "duid_active e \<longleftrightarrow> a6_Enabled e \<and> a6_Managed e \<and> a6_Method e = ACLv6MethodDUID"

definition duid_entries :: "ACLv6 \<Rightarrow> ACLv6Entry list" where
  "duid_entries acl = (if acl6_Mode acl = ACLBlacklist then filter duid_active (acl6_Entries acl) else [])"

definition keep_lan :: "LANv6 list \<Rightarrow> string list" where
  "keep_lan lans = map (\<lambda>l. uciName (l6_Interface l)) (filter l6_Managed lans)"

definition keep_dhcp6 :: "PrefixStaticV6 list \<Rightarrow> ACLv6 \<Rightarrow> string list" where
  "keep_dhcp6 prefixes acl =
     map (\<lambda>p. uciName (p6_ID p)) (filter prefix6_active prefixes) @ map (\<lambda>e. uciName (a6_ID e)) (duid_entries acl)"

definition net6_cmds :: "WANv6 list \<Rightarrow> LANv6 list \<Rightarrow> string list \<Rightarrow> string list \<Rightarrow> ucmd list" where
  "net6_cmds wans lans existing borrowed =
     concat (map (\<lambda>w. projectWANv6 (uciName (w6_ID w)) w) (filter wan6_active wans)) @
     concat (map (\<lambda>l. lan6_net_cmds (uciName (l6_Interface l)) l) (filter l6_Managed lans)) @
     delete_others ''network'' existing (map (\<lambda>w. uciName (w6_ID w)) (filter wan6_active wans)) @
     concat (map disable_net_cmds (filter (\<lambda>n. n \<notin> set (keep_lan lans)) borrowed)) @
     [Commit ''network'']"

definition dhcp6_cmds ::
    "LANv6 list \<Rightarrow> PrefixStaticV6 list \<Rightarrow> ACLv6 \<Rightarrow> string list \<Rightarrow> string list \<Rightarrow> ucmd list" where
  "dhcp6_cmds lans prefixes acl existing borrowed =
     concat (map (\<lambda>l. lan6_dhcp_cmds (uciName (l6_Interface l)) l) (filter l6_Managed lans)) @
     concat (map (\<lambda>p. projectPrefixV6 (uciName (p6_ID p)) p) (filter prefix6_active prefixes)) @
     concat (map (\<lambda>e. projectACLv6DUID (uciName (a6_ID e)) e) (duid_entries acl)) @
     delete_others ''dhcp'' existing (keep_dhcp6 prefixes acl) @
     concat (map disable_dhcp_cmds (filter (\<lambda>n. n \<notin> set (keep_lan lans)) borrowed)) @
     [Commit ''dhcp'']"

definition reload_odhcpd :: "'w sys \<Rightarrow> ('w uci, unit) act" where
  "reload_odhcpd E = bindE (initdExists E ''odhcpd'') (\<lambda>there.
     if \<not> there then ret ()
     else bindE (run_cmd E [] [''/etc/init.d/odhcpd'', ''reload'']) (\<lambda>(out, e).
       if e = None then ret () else set_pending True ''odhcpd reload failed''))"

text \<open>The getter of the access list reads an empty mode as the blacklist.\<close>

definition acl6_read :: "ACLv6 \<Rightarrow> ACLv6" where
  "acl6_read acl = (if acl6_Mode acl = [] then acl\<lparr>acl6_Mode := ACLBlacklist\<rparr> else acl)"

definition applyIPv6 :: "'w sys \<Rightarrow> ('w uci, unit) act" where
  "applyIPv6 E =
     bindE sidecar (\<lambda>st.
     bindE (managedNamesV6 E ''network'') (\<lambda>existNet.
     bindE (managedNamesV6 E ''dhcp'') (\<lambda>existDhcp.
     bindE (borrowedV6Names E ''dhcp'') (\<lambda>borrowed.
     bindE (uci_batch E ''uci batch network(v6)'' (net6_cmds (S_WANv6s st) (S_LANv6s st) existNet borrowed)) (\<lambda>e1.
     bindE (uci_batch E ''uci batch dhcp(v6)''
         (dhcp6_cmds (S_LANv6s st) (S_PrefixStaticsV6 st) (acl6_read (S_ACLv6 st)) existDhcp borrowed)) (\<lambda>e2.
     bindE (reload_network E) (\<lambda>_.
     bindE (reload_odhcpd E) (\<lambda>_.
       raise (orElse e1 e2)))))))))"

definition uci_SaveWANv6s :: "'w sys \<Rightarrow> WANv6 list \<Rightarrow> ('w uci, unit) act" where
  "uci_SaveWANv6s E list = bindE (on_store (store_SaveWANv6s list)) (\<lambda>_. applyIPv6 E)"

definition uci_SaveLANv6s :: "'w sys \<Rightarrow> LANv6 list \<Rightarrow> ('w uci, unit) act" where
  "uci_SaveLANv6s E list = bindE (on_store (store_SaveLANv6s list)) (\<lambda>_. applyIPv6 E)"

definition uci_SavePrefixStaticsV6 :: "'w sys \<Rightarrow> PrefixStaticV6 list \<Rightarrow> ('w uci, unit) act" where
  "uci_SavePrefixStaticsV6 E list = bindE (on_store (store_SavePrefixStaticsV6 list)) (\<lambda>_. applyIPv6 E)"

definition uci_SaveACLv6 :: "'w sys \<Rightarrow> ACLv6 \<Rightarrow> ('w uci, unit) act" where
  "uci_SaveACLv6 E acl = bindE (on_store (store_SaveACLv6 acl)) (\<lambda>_. applyIPv6 E)"

section \<open>Reading an existing configuration\<close>

definition importProtoV6 :: "string \<Rightarrow> string" where
  "importProtoV6 proto = (if proto \<in> {ProtoDHCPv6, Proto6in4, Proto6to4, Proto6rd} then proto else ProtoStatic6)"

definition importRaMgmt :: "string \<Rightarrow> string" where
  "importRaMgmt v = (if v = ''0'' then DHCPv6Stateless else if v = ''2'' then DHCPv6StatefulOnly else DHCPv6Stateful)"

definition opt1 :: "uciSec \<Rightarrow> string \<Rightarrow> string" where
  "opt1 s k = first (opts_get s k)"

definition is_iface_sec :: "uciSec \<Rightarrow> bool" where
  "is_iface_sec s \<longleftrightarrow> us_typ s = ''interface'' \<and> us_name s \<noteq> ''loopback''"

definition import_wan6 :: "uciSec \<Rightarrow> WANv6 option" where
  "import_wan6 s = (let proto = opt1 s ''proto'' in
     if \<not> is_iface_sec s \<or>
        \<not> (proto \<in> {ProtoDHCPv6, Proto6in4, Proto6to4, Proto6rd} \<or> (proto = ''static'' \<and> opt1 s ''ip6addr'' \<noteq> []))
     then None
     else Some (zeroWANv6\<lparr>w6_ID := us_name s, w6_Name := us_name s, w6_Proto := importProtoV6 proto,
       w6_Device := opt1 s ''device'', w6_ReqPrefix := opt1 s ''reqprefix'',
       w6_ForcePrefix := (opt1 s ''reqaddress'' = ''force''), w6_ClientID := opt1 s ''clientid'',
       w6_NoRelease := (opt1 s ''norelease'' = ''1''), w6_StaticIP6 := opt1 s ''ip6addr'', w6_StaticGW := opt1 s ''ip6gw'',
       w6_PeerAddr := opt1 s ''peeraddr'', w6_TunPrefix := opt1 s ''ip6prefix'', w6_MTU := atoiSafe (opt1 s ''mtu''),
       w6_PeerDNS := True, w6_Enabled := True, w6_Managed := False,
       w6_WANIface := (if go_HasPrefix (opt1 s ''device'') ''@'' then go_TrimPrefix (opt1 s ''device'') ''@'' else [])\<rparr>))"

text \<open>\<open>ip6assign\<close>: the assignment lengths of the interfaces, 0 for the others; later sections overwrite.\<close>

definition assign_len :: "uciSec list \<Rightarrow> string \<Rightarrow> int" where
  "assign_len secs iface =
     (case find (\<lambda>s. is_iface_sec s \<and> us_name s = iface \<and> opt1 s ''ip6assign'' \<noteq> []) (rev secs) of
        None \<Rightarrow> 0 | Some s \<Rightarrow> atoiSafe (opt1 s ''ip6assign''))"

definition import_lan6 :: "(string \<Rightarrow> int) \<Rightarrow> uciSec \<Rightarrow> LANv6 option" where
  "import_lan6 assign s =
     (if us_typ s \<noteq> ''dhcp'' \<or> (opt1 s ''dhcpv6'' = [] \<and> opt1 s ''ra'' = []) then None
      else (let iface = (if opt1 s ''interface'' = [] then us_name s else opt1 s ''interface'') in
        Some (zeroLANv6\<lparr>l6_ID := us_name s, l6_Interface := iface, l6_ConfigType := ConfigTypeAuto,
          l6_PrefixAssignLen := assign iface, l6_DHCPv6Enabled := (opt1 s ''dhcpv6'' = ''server''),
          l6_DHCPv6Mode := importRaMgmt (opt1 s ''ra_management''),
          l6_LeaseMinutes := leasetimeToMin (opt1 s ''leasetime''),
          l6_RAMTUEnabled := (opt1 s ''ra_mtu'' \<noteq> []), l6_RAMTU := atoiSafe (opt1 s ''ra_mtu''),
          l6_DNSServers := opts_get s ''dns'', l6_Enabled := True, l6_Managed := False\<rparr>)))"

definition uci_secs :: "'w sys \<Rightarrow> string \<Rightarrow> ('w uci, uciSec list option) act" where
  "uci_secs E config = bindE (uciShow E config) (\<lambda>(shown, e).
     ret (if e = None then Some (parseUci shown config) else None))"

text \<open>A failed \<open>uci show\<close> shows nothing: the loops over its sections are skipped.\<close>

definition the_secs :: "uciSec list option \<Rightarrow> uciSec list" where
  "the_secs x = (case x of None \<Rightarrow> [] | Some ss \<Rightarrow> ss)"

definition importIPv6Into :: "'w sys \<Rightarrow> State \<Rightarrow> ('w uci, State) act" where
  "importIPv6Into E st =
     bindE (uci_secs E ''network'') (\<lambda>n.
     bindE (uci_secs E ''dhcp'') (\<lambda>d.
       ret (st\<lparr>S_ACLv6 := \<lparr>acl6_Mode = ACLBlacklist, acl6_Entries = []\<rparr>,
         S_WANv6s := S_WANv6s st @ List.map_filter import_wan6 (the_secs n),
         S_LANv6s := S_LANv6s st @ List.map_filter (import_lan6 (assign_len (the_secs n))) (the_secs d)\<rparr>)))"

section \<open>Leases and neighbours\<close>

fun hex_pairs :: "string \<Rightarrow> string list" where
  "hex_pairs (a # b # s) = [a, b] # hex_pairs s"
| "hex_pairs s = []"

definition duidToMAC :: "lib \<Rightarrow> string \<Rightarrow> string" where
  "duidToMAC L duid =
     (let d = go_ToLower (lb_lower L) (go_ReplaceByte duid CHR '':'' []) in
      if go_HasPrefix d ''00030001'' \<and> length d \<ge> 20 then go_Join (hex_pairs (take 12 (drop 8 d))) '':''
      else if go_HasPrefix d ''00010001'' \<and> length d \<ge> 28 then go_Join (hex_pairs (take 12 (drop 16 d))) '':''
      else [])"

fun fe80_of :: "string list \<Rightarrow> string option" where
  "fe80_of (a # b # f) =
     (if a = ''inet6'' \<and> go_HasPrefix b ''fe80'' then Some (go_SplitN2_0 b CHR ''/'') else fe80_of (b # f))"
| "fe80_of f = None"

definition linkLocalOf :: "'w sys \<Rightarrow> string \<Rightarrow> ('w uci, string) act" where
  "linkLocalOf E dev =
     bindE (run_cmd E [] [''ip'', ''-6'', ''addr'', ''show'', ''dev'', dev, ''scope'', ''link'']) (\<lambda>(out, e).
       ret (if e \<noteq> None then []
            else (case List.map_filter (\<lambda>line. fe80_of (go_Fields line)) (go_Split out (byte 10)) of
                [] \<Rightarrow> [] | a # _ \<Rightarrow> a)))"

definition neighbor_states :: "string list" where
  "neighbor_states = [''REACHABLE'', ''STALE'', ''DELAY'', ''PROBE'', ''FAILED'', ''PERMANENT'', ''NOARP'', ''INCOMPLETE'']"

fun neighbor_attrs :: "string list \<Rightarrow> NeighborV6 \<Rightarrow> NeighborV6" where
  "neighbor_attrs [] n = n"
| "neighbor_attrs [f] n =
     (if f = ''router'' then n\<lparr>nb_Router := True\<rparr> else if f \<in> set neighbor_states then n\<lparr>nb_State := f\<rparr> else n)"
| "neighbor_attrs (f # v # fs) n =
     (if f = ''dev'' then neighbor_attrs fs (n\<lparr>nb_Interface := v\<rparr>)
      else if f = ''lladdr'' then neighbor_attrs fs (n\<lparr>nb_MAC := NormalizeMAC v\<rparr>)
      else neighbor_attrs (v # fs)
        (if f = ''router'' then n\<lparr>nb_Router := True\<rparr> else if f \<in> set neighbor_states then n\<lparr>nb_State := f\<rparr> else n))"

definition neighbor_line :: "string \<Rightarrow> NeighborV6 option" where
  "neighbor_line line = (let f = go_Fields line in
     if length f < 3 then None
     else (let n = neighbor_attrs (tl f)
         \<lparr>nb_MAC = [], nb_IPv6 = hd f, nb_Interface = [], nb_State = [], nb_Router = False, nb_Remark = [], nb_Vendor = []\<rparr>
       in if nb_MAC n = [] then None else Some n))"

definition uci_NeighborsV6 :: "'w sys \<Rightarrow> ('w uci, NeighborV6 list) act" where
  "uci_NeighborsV6 E = bindE (run_cmd E [] [''ip'', ''-6'', ''neighbor'', ''show'']) (\<lambda>(out, e).
     ret (if e = None then List.map_filter neighbor_line (go_Split out (byte 10)) else []))"

definition or_fail :: "string \<Rightarrow> string \<times> string option \<Rightarrow> ('w uci, unit) act" where
  "or_fail what r = (case r of (out, None) \<Rightarrow> ret () | (out, Some m) \<Rightarrow> fail (ErrFmt what [m, go_TrimSpace out]))"

definition uci_DeleteNeighborV6 :: "'w sys \<Rightarrow> string \<Rightarrow> string \<Rightarrow> ('w uci, unit) act" where
  "uci_DeleteNeighborV6 E addr dev =
     (if dev = [] then fail (Err ''interface name is missing'')
      else bindE (run_cmd E [] [''ip'', ''-6'', ''neigh'', ''del'', addr, ''dev'', dev]) (or_fail ''delete neighbour''))"

definition uci_FlushNeighborsV6 :: "'w sys \<Rightarrow> string \<Rightarrow> ('w uci, unit) act" where
  "uci_FlushNeighborsV6 E dev =
     bindE (run_cmd E [] ([''ip'', ''-6'', ''neigh'', ''flush''] @ (if dev = [] then [''all''] else [''dev'', dev])))
       (or_fail ''flush neighbours'')"

definition uci_TransitionPkg :: "'w sys \<Rightarrow> string \<Rightarrow> ('w uci, bool \<times> string) act" where
  "uci_TransitionPkg E proto = (let pkg = transitionPkgName proto in
     if pkg = [] then ret (True, [])
     else (\<lambda>b. (Inr (sy_exists E (''/lib/netifd/proto/'' @ pkg @ ''.sh'') (ub_world b), pkg), b)))"

end
