(* ===== verification/UciIface.thy ===== *)
theory UciIface
  imports UciIPv6
begin

text \<open>
  LAN and WAN interfaces on the uci backend (iface\_uci.go): saving and deleting an interface with its
  bridge, its device section for a cloned MAC address and its firewall zone, reading the configured
  interfaces back, WAN actions, and the installation of dnsmasq.

  The decoders of the JSON that ubus prints are the fields of \<open>jsons\<close>, none where \<open>json.Unmarshal\<close>
  fails: \<open>js_iface\<close> yields the flags \<open>up\<close> and \<open>pending\<close> and the IPv4 addresses, \<open>js_iface6\<close> the IPv6
  side, \<open>js_leases6\<close> the DHCPv6 leases by device (Go iterates over that map in no particular order).
\<close>

section \<open>Small helpers\<close>

definition orDefault :: "string \<Rightarrow> string \<Rightarrow> string" where
  "orDefault v def = (if go_TrimSpace v = [] then def else v)"

definition firstOf :: "string list \<Rightarrow> string list \<Rightarrow> string" where
  "firstOf a b = (if first a \<noteq> [] then first a else first b)"

definition parseBoolOpt :: "string list \<Rightarrow> bool option" where
  "parseBoolOpt vals = (if first vals = [] then None else Some (first vals \<noteq> ''0''))"

definition skipIfaceProto :: "string \<Rightarrow> bool" where
  "skipIfaceProto p \<longleftrightarrow> p \<in> {''none'', ''dhcpv6'', ''6in4'', ''6to4'', ''6rd'', ''slaac'', ''grev6'', ''grev6tap''}"

definition ifaceRole :: "uciSec \<Rightarrow> string" where
  "ifaceRole s =
     (if go_HasPrefix (us_name s) ''wan'' then RoleWAN
      else if go_HasPrefix (us_name s) ''lan'' then RoleLAN
      else if opt1 s ''proto'' \<in> {ProtoDHCP, ProtoPPPoE} then RoleWAN else RoleLAN)"

definition dedupePorts :: "string list \<Rightarrow> string list" where
  "dedupePorts ports = unseen [] ports"

definition tail :: "string \<Rightarrow> nat \<Rightarrow> string" where
  "tail s0 n = (let s = go_TrimSpace s0 in
     if length s \<le> n then s else map byte [226, 128, 166] @ drop (length s - n) s)"

section \<open>Device sections\<close>

definition device_named :: "string \<Rightarrow> uciSec list \<Rightarrow> string" where
  "device_named dev secs =
     (case find (\<lambda>s. us_typ s = ''device'' \<and> opt1 s ''name'' = dev) secs of None \<Rightarrow> [] | Some s \<Rightarrow> us_name s)"

definition deviceSectionByName :: "'w sys \<Rightarrow> string \<Rightarrow> ('w uci, string) act" where
  "deviceSectionByName E dev = bindE (uci_secs E ''network'') (\<lambda>secs. ret (device_named dev (the_secs secs)))"

text \<open>The device of an interface; a later section of the same name would win.\<close>

definition iface_device :: "string \<Rightarrow> uciSec list \<Rightarrow> string" where
  "iface_device i secs =
     (case find (\<lambda>s. us_typ s = ''interface'' \<and> us_name s = i) (rev secs) of
        None \<Rightarrow> [] | Some s \<Rightarrow> firstOf (opts_get s ''device'') (opts_get s ''ifname''))"

definition managed_device :: "string \<Rightarrow> uciSec list \<Rightarrow> string" where
  "managed_device i secs = (let dev = iface_device i secs in
     if dev = [] then []
     else (case find (\<lambda>s. us_typ s = ''device'' \<and> opt1 s ''name'' = dev \<and> opt1 s managedOpt = managedMarker) secs of
         None \<Rightarrow> [] | Some s \<Rightarrow> us_name s))"

definition managedDeviceSectionOf :: "'w sys \<Rightarrow> string \<Rightarrow> ('w uci, string) act" where
  "managedDeviceSectionOf E i = bindE (uci_secs E ''network'') (\<lambda>secs. ret (managed_device i (the_secs secs)))"

definition is_bridge_sec :: "string \<Rightarrow> uciSec \<Rightarrow> bool" where
  "is_bridge_sec dev s \<longleftrightarrow> us_typ s = ''device'' \<and> opt1 s ''name'' = dev \<and> opt1 s ''type'' = ''bridge''"

definition isBridgeDevice :: "'w sys \<Rightarrow> string \<Rightarrow> ('w uci, bool) act" where
  "isBridgeDevice E dev =
     (if dev = [] then ret False
      else if go_HasPrefix dev ''br-'' then ret True
      else bindE (uci_secs E ''network'') (\<lambda>secs. ret (list_ex (is_bridge_sec dev) (the_secs secs))))"

definition deviceMacAddr :: "'w sys \<Rightarrow> string \<Rightarrow> ('w uci, string) act" where
  "deviceMacAddr E sec = bindE (uci_secs E ''network'') (\<lambda>secs.
     ret (case find (\<lambda>s. us_name s = sec) (the_secs secs) of None \<Rightarrow> [] | Some s \<Rightarrow> opt1 s ''macaddr''))"

definition detach_cmds :: "string \<Rightarrow> string list \<Rightarrow> uciSec list \<Rightarrow> ucmd list" where
  "detach_cmds keepSection ports secs =
     concat (map (\<lambda>s. map (DelList (net_opt (us_name s) ''ports'')) (filter (\<lambda>e. e \<in> set ports) (opts_get s ''ports'')))
       (filter (\<lambda>s. us_typ s = ''device'' \<and> us_name s \<noteq> keepSection \<and> opt1 s ''type'' = ''bridge'') secs))"

definition detachPorts :: "'w sys \<Rightarrow> string \<Rightarrow> string list \<Rightarrow> ('w uci, ucmd list) act" where
  "detachPorts E keepSection ports =
     (if ports = [] then ret []
      else bindE (uci_secs E ''network'') (\<lambda>secs. ret (detach_cmds keepSection ports (the_secs secs))))"

definition bridge_cmds :: "bool \<Rightarrow> string \<Rightarrow> string \<Rightarrow> string list \<Rightarrow> ucmd list" where
  "bridge_cmds new sec dev ports =
     (if new then [SetType (Sec ''network'' sec) ''device''] else []) @
     [SetKV (net_opt sec ''type'') ''bridge'', SetKV (net_opt sec ''name'') dev,
      SetKV (net_opt sec managedOpt) managedMarker, DelK (net_opt sec ''ports'')] @
     map (AddList (net_opt sec ''ports'')) (filter (\<lambda>p. p \<noteq> [] \<and> p \<noteq> dev) ports)"

definition writeBridge :: "'w sys \<Rightarrow> string \<Rightarrow> string list \<Rightarrow> ('w uci, ucmd list) act" where
  "writeBridge E dev ports = bindE (deviceSectionByName E dev) (\<lambda>found.
     let sec = (if found = [] then uciName (''dev_'' @ dev) else found) in
     bindE (detachPorts E sec ports) (\<lambda>ds. ret (bridge_cmds (found = []) sec dev ports @ ds)))"

definition mac_cmds :: "string \<Rightarrow> string \<Rightarrow> string \<Rightarrow> string \<Rightarrow> ucmd list" where
  "mac_cmds found i dev mac =
     (if go_TrimSpace mac = [] then (if found \<noteq> [] then [DelK (net_opt found ''macaddr'')] else [])
      else (let sec = (if found = [] then uciName (''dev_'' @ i) else found) in
        (if found = [] then
           [SetType (Sec ''network'' sec) ''device'', SetKV (net_opt sec ''name'') dev,
            SetKV (net_opt sec managedOpt) managedMarker]
         else []) @ [SetKV (net_opt sec ''macaddr'') mac]))"

definition ensureDeviceMAC :: "'w sys \<Rightarrow> string \<Rightarrow> string \<Rightarrow> string \<Rightarrow> ('w uci, ucmd list) act" where
  "ensureDeviceMAC E i dev mac =
     (if dev = [] then ret [] else bindE (deviceSectionByName E dev) (\<lambda>found. ret (mac_cmds found i dev mac)))"

section \<open>The options of an interface\<close>

definition cidr :: "string \<Rightarrow> int \<Rightarrow> string" where
  "cidr a p = a @ ''/'' @ go_Itoa p"

definition writeAddrList :: "string \<Rightarrow> NetIface \<Rightarrow> ucmd list" where
  "writeAddrList i x =
     [DelK (net_opt i ''ipaddr''), DelK (net_opt i ''netmask'')] @
     (if ni_IPAddr x \<noteq> [] then
        [AddList (net_opt i ''ipaddr'')
           (cidr (ni_IPAddr x) (case MaskToPrefix (ni_Netmask x) of None \<Rightarrow> 24 | Some p \<Rightarrow> p))]
      else []) @
     map (\<lambda>a. AddList (net_opt i ''ipaddr'') (cidr (ia_Address a) (ia_Prefix a)))
       (filter (\<lambda>a. ia_Enabled a \<and> ia_Address a \<noteq> [] \<and> ia_Family a \<noteq> FamilyIPv6) (ni_ExtraAddrs x))"

definition writeAddr6List :: "string \<Rightarrow> NetIface \<Rightarrow> ucmd list" where
  "writeAddr6List i x =
     DelK (net_opt i ''ip6addr'') #
     map (\<lambda>a. AddList (net_opt i ''ip6addr'') (cidr (ia_Address a) (ia_Prefix a)))
       (filter (\<lambda>a. ia_Family a = FamilyIPv6 \<and> ia_Enabled a \<and> ia_Address a \<noteq> []) (ni_ExtraAddrs x))"

definition writeDNSList :: "string \<Rightarrow> string list \<Rightarrow> ucmd list" where
  "writeDNSList i dns =
     DelK (net_opt i ''dns'') # map (AddList (net_opt i ''dns'')) (filter (\<lambda>d. d \<noteq> []) (map go_TrimSpace dns))"

definition delOpt :: "string \<Rightarrow> string list \<Rightarrow> ucmd list" where
  "delOpt i opts = map (\<lambda>o'. DelK (net_opt i o')) opts"

definition int_or_del :: "string \<Rightarrow> string \<Rightarrow> int \<Rightarrow> ucmd" where
  "int_or_del i opt v = (if v > 0 then SetKV (net_opt i opt) (go_Itoa v) else DelK (net_opt i opt))"

definition writeIfaceExtraOpts :: "string \<Rightarrow> NetIface \<Rightarrow> ucmd list" where
  "writeIfaceExtraOpts i x =
     [int_or_del i ''metric'' (ni_Metric x), int_or_del i ''dns_metric'' (ni_DNSMetric x),
      setBoolOptOrDel i ''peerdns'' (ni_PeerDNS x), setOptOrDel i ''broadcast'' (ni_Broadcast x),
      setBoolOptOrDel i ''force_link'' (ni_ForceLink x), setBoolOptOrDel i ''auto'' (ni_Auto x),
      int_or_del i ''ip6assign'' (ni_IP6Assign x), setOptOrDel i ''ip6hint'' (ni_IP6Hint x),
      setOptOrDel i ''ip6prefix'' (ni_IP6Prefix x), setOptOrDel i ''ip6ifaceid'' (ni_IP6IfaceID x),
      setOptOrDel i ''ip6gw'' (ni_IP6Gw x)]"

definition wan_proto_cmds :: "string \<Rightarrow> NetIface \<Rightarrow> ucmd list" where
  "wan_proto_cmds i x =
     (if ni_Proto x = ProtoPPPoE then
        [SetKV (net_opt i ''proto'') ''pppoe'', SetKV (net_opt i ''username'') (ni_Username x),
         SetKV (net_opt i ''password'') (ni_Password x), setOptOrDel i ''service'' (ni_Service x),
         setOptOrDel i ''ac'' (ni_AC x), setOptOrDel i ''keepalive'' (ni_Keepalive x),
         setBoolOptOrDel i ''ipv6'' (ni_PPPoEv6 x)] @
        delOpt i [''ipaddr'', ''netmask'', ''gateway'', ''ip6addr'']
      else if ni_Proto x = ProtoStatic then
        [SetKV (net_opt i ''proto'') ''static''] @ writeAddrList i x @ writeAddr6List i x @
        [setOptOrDel i ''gateway'' (ni_Gateway x)] @ delOpt i [''username'', ''password'']
      else
        [SetKV (net_opt i ''proto'') ''dhcp''] @
        delOpt i [''ipaddr'', ''netmask'', ''gateway'', ''username'', ''password'', ''ip6addr''])"

section \<open>Topology\<close>

text \<open>The device an interface ends up on, with the commands for it.\<close>

definition lan_part :: "'w sys \<Rightarrow> string \<Rightarrow> NetIface \<Rightarrow> ('w uci, string \<times> ucmd list) act" where
  "lan_part E i x =
     (let dev0 = ni_Device x; ports = dedupePorts (ni_Ports x) in
      bindE (if length ports \<ge> 2 then
               bindE (if dev0 = [] then ret False else isBridgeDevice E dev0) (\<lambda>bridge.
               let dev = (if bridge then dev0 else ''br-'' @ i) in
               bindE (writeBridge E dev ports) (\<lambda>cs. ret (dev, SetKV (net_opt i ''device'') dev # cs)))
             else (case ports of
                 p # _ \<Rightarrow>
                   bindE (detachPorts E [] ports) (\<lambda>cs. ret (p, SetKV (net_opt i ''device'') p # cs))
               | [] \<Rightarrow>
                   (let dev = (if dev0 = [] then ''br-'' @ i else dev0)
                    in ret (dev, [SetKV (net_opt i ''device'') dev])))) (\<lambda>(dev, cs).
        ret (dev, SetKV (net_opt i ''proto'') ''static'' # cs @ writeAddrList i x @ writeAddr6List i x)))"

definition wan_part :: "'w sys \<Rightarrow> string \<Rightarrow> NetIface \<Rightarrow> ('w uci, string \<times> ucmd list) act" where
  "wan_part E i x =
     (let dev = (if ni_Device x = [] then first (ni_Ports x) else ni_Device x);
          route = (if ni_DefaultGW x then DelK (net_opt i ''defaultroute'') else SetKV (net_opt i ''defaultroute'') ''0'') in
      bindE (if dev = [] then ret []
             else bindE (detachPorts E [] [dev]) (\<lambda>cs. ret (SetKV (net_opt i ''device'') dev # cs))) (\<lambda>cs.
        ret (dev, wan_proto_cmds i x @ cs @ [route])))"

text \<open>The section of the old device is deleted unless the new device uses it.\<close>

definition recycle_part :: "'w sys \<Rightarrow> string \<Rightarrow> string \<Rightarrow> ('w uci, ucmd list) act" where
  "recycle_part E old dev =
     (if old = [] then ret []
      else bindE (deviceSectionByName E dev) (\<lambda>new.
        ret (if old \<noteq> new then [DelK (Sec ''network'' old)] else [])))"

definition iface_batch :: "'w sys \<Rightarrow> string \<Rightarrow> string \<Rightarrow> NetIface \<Rightarrow> ('w uci, ucmd list) act" where
  "iface_batch E i old x =
     bindE (if ni_Role x = RoleLAN then lan_part E i x else wan_part E i x) (\<lambda>(dev, cs).
     bindE (ensureDeviceMAC E i dev (ni_CloneMAC x)) (\<lambda>mac.
     bindE (recycle_part E old dev) (\<lambda>gone.
       ret (SetType (Sec ''network'' i) ''interface'' # cs @
         (if ni_MTU x > 0 then [SetKV (net_opt i ''mtu'') (go_Itoa (ni_MTU x))] else []) @
         [setOptOrDel i ''remark'' (ni_Remark x)] @ writeIfaceExtraOpts i x @ writeDNSList i (ni_DNS x) @
         mac @ gone @ [Commit ''network'']))))"

section \<open>Firewall zones\<close>

definition has_member :: "string \<Rightarrow> uciSec \<Rightarrow> bool" where
  "has_member n s \<longleftrightarrow> n \<in> set (opts_get s ''network'')"

definition firewallZoneForRole :: "'w sys \<Rightarrow> string \<Rightarrow> ('w uci, string) act" where
  "firewallZoneForRole E role = bindE (uci_secs E ''firewall'') (\<lambda>secs.
     ret (case find (\<lambda>s. us_typ s = ''zone'' \<and> has_member (if role = RoleWAN then ''wan'' else ''lan'') s) (the_secs secs) of
         None \<Rightarrow> [] | Some s \<Rightarrow> us_name s))"

definition ensureZoneMembership :: "'w sys \<Rightarrow> string \<Rightarrow> string \<Rightarrow> ('w uci, unit) act" where
  "ensureZoneMembership E i role =
     (if i = ''lan'' \<or> i = ''wan'' then ret ()
      else bindE (firewallZoneForRole E role) (\<lambda>zone.
        if zone = [] then set_pending True (''no matching firewall zone for '' @ i)
        else bindE (uciShow E ''firewall'') (\<lambda>(shown, e).
          if list_ex (\<lambda>s. us_name s = zone \<and> has_member i s) (parseUci shown ''firewall'') then ret ()
          else bindE (run_cmd E (batch_text [AddList (Opt ''firewall'' zone ''network'') i, Commit ''firewall''])
                 [''uci'', ''batch'']) (\<lambda>(out, e).
            if e \<noteq> None then set_pending True (''firewall zone update failed: '' @ go_TrimSpace out)
            else bindE (initdExists E ''firewall'') (\<lambda>there.
              if \<not> there then ret ()
              else bindE (run_cmd E [] [''/etc/init.d/firewall'', ''reload'']) (\<lambda>(out, e).
                if e \<noteq> None then set_pending True ''saved, but firewall reload failed'' else ret ()))))))"

definition zone_cmds :: "string \<Rightarrow> uciSec list \<Rightarrow> ucmd list" where
  "zone_cmds i secs =
     concat (map (\<lambda>s. map (\<lambda>n. DelList (Opt ''firewall'' (us_name s) ''network'') i)
         (filter (\<lambda>n. n = i) (opts_get s ''network'')))
       (filter (\<lambda>s. us_typ s = ''zone'') secs))"

definition removeIfaceFromZones :: "'w sys \<Rightarrow> string \<Rightarrow> ('w uci, unit) act" where
  "removeIfaceFromZones E i = bindE (uci_secs E ''firewall'') (\<lambda>secs.
     let cs = zone_cmds i (the_secs secs) in
     if cs = [] then ret ()
     else bindE (run_cmd E (batch_text (cs @ [Commit ''firewall''])) [''uci'', ''batch'']) (\<lambda>(out, e).
       if e \<noteq> None then ret ()
       else bindE (initdExists E ''firewall'') (\<lambda>there.
         if there then ignoring (run_cmd E [] [''/etc/init.d/firewall'', ''reload'']) else ret ())))"

section \<open>Saving, deleting and switching interfaces\<close>

definition reload_dnsmasq :: "'w sys \<Rightarrow> ('w uci, unit) act" where
  "reload_dnsmasq E = bindE (initdExists E ''dnsmasq'') (\<lambda>there.
     if there then ignoring (run_cmd E [] [''/etc/init.d/dnsmasq'', ''reload'']) else ret ())"

definition uci_SaveNetIface :: "'w sys \<Rightarrow> NetIface \<Rightarrow> ('w uci, unit) act" where
  "uci_SaveNetIface E x = (let i = uciName (ni_ID x) in
     bindE (managedDeviceSectionOf E i) (\<lambda>old.
     bindE (orZero () (on_store (store_SaveNetIface x))) (\<lambda>_.
     bindE (iface_batch E i old x) (\<lambda>cmds.
     bindE (uci_batch E ''uci batch network'' cmds) (\<lambda>err.
       case err of
         Some m \<Rightarrow> fail m
       | None \<Rightarrow>
           bindE (reload_network E) (\<lambda>_.
           bindE (reload_dnsmasq E) (\<lambda>_.
             ensureZoneMembership E i (ni_Role x))))))))"

definition uci_DeleteNetIface :: "'w sys \<Rightarrow> string \<Rightarrow> ('w uci, unit) act" where
  "uci_DeleteNetIface E i0 = (let i = uciName i0 in
     bindE (managedDeviceSectionOf E i) (\<lambda>dev.
     bindE (orZero () (on_store (store_DeleteNetIface i))) (\<lambda>_.
     bindE (uci_batch E ''delete interface'' (DelK (Sec ''network'' i) #
         (if dev \<noteq> [] then [DelK (Sec ''network'' dev)] else []) @ [Commit ''network''])) (\<lambda>err.
       case err of
         Some m \<Rightarrow> fail m
       | None \<Rightarrow> bindE (reload_network E) (\<lambda>_. removeIfaceFromZones E i)))))"

definition uci_WANAction :: "'w sys \<Rightarrow> string \<Rightarrow> string \<Rightarrow> ('w uci, unit) act" where
  "uci_WANAction E i action =
     (let step = (\<lambda>cmd. bindE (run_cmd E [] [cmd, i]) (or_fail (cmd @ '' '' @ i))) in
      if action \<in> {''connect'', ''up''} then step ''ifup''
      else if action \<in> {''disconnect'', ''down''} then step ''ifdown''
      else if action \<in> {''restart'', ''redial''} then bindE (step ''ifdown'') (\<lambda>_. step ''ifup'')
      else fail (ErrFmt ''unsupported action'' [action]))"

section \<open>Reading the interfaces\<close>

record ifJson6 =
  j6_up :: bool
  j6_l3 :: string
  j6_addrs :: "(string \<times> int) list"
  j6_prefixes :: "(string \<times> int) list"
  j6_routes :: "(string \<times> int \<times> string) list"

record leaseJson6 =
  jl_duid :: string
  jl_iaid :: int
  jl_hostname :: string
  jl_valid :: int
  jl_addrs :: "string list"
  jl_prefixes :: "(string \<times> int) list"

record jsons =
  js_iface :: "string \<Rightarrow> (bool \<times> bool \<times> string list) option"
  js_iface6 :: "string \<Rightarrow> ifJson6 option"
  js_leases6 :: "string \<Rightarrow> (string \<times> leaseJson6 list) list option"

definition ifaceStatus :: "jsons \<Rightarrow> 'w sys \<Rightarrow> string \<Rightarrow> ('w uci, (bool \<times> bool \<times> string) option) act" where
  "ifaceStatus J E i =
     bindE (run_cmd E [] [''ubus'', ''call'', ''network.interface.'' @ i, ''status'']) (\<lambda>(out, e).
       ret (if e \<noteq> None \<or> go_TrimSpace out = [] then None
            else map_option (\<lambda>(up, pending, ips). (up, pending, first ips)) (js_iface J out)))"

definition addr_of :: "string \<Rightarrow> string \<Rightarrow> string \<times> string \<times> int" where
  "addr_of netmask raw = (case go_IndexByte raw CHR ''/'' of
     Some j \<Rightarrow> (let p = atoiSafe (drop (Suc j) raw) in (take j raw, PrefixToMask p, p))
   | None \<Rightarrow> (raw, netmask, case MaskToPrefix netmask of None \<Rightarrow> 0 | Some p \<Rightarrow> p))"

definition addr6_of :: "string \<Rightarrow> IfaceAddr" where
  "addr6_of raw = (case go_IndexByte raw CHR ''/'' of
     Some j \<Rightarrow> \<lparr>ia_Address = take j raw, ia_Prefix = atoiSafe (drop (Suc j) raw), ia_Family = FamilyIPv6,
        ia_Remark = [], ia_Enabled = True\<rparr>
   | None \<Rightarrow> \<lparr>ia_Address = raw, ia_Prefix = 128, ia_Family = FamilyIPv6, ia_Remark = [], ia_Enabled = True\<rparr>)"

definition extra_addr :: "string \<times> string \<times> int \<Rightarrow> IfaceAddr" where
  "extra_addr a = \<lparr>ia_Address = fst a, ia_Prefix = snd (snd a), ia_Family = FamilyIPv4, ia_Remark = [], ia_Enabled = True\<rparr>"

text \<open>The ports of the last bridge section of that name.\<close>

definition bridge_ports :: "uciSec list \<Rightarrow> string \<Rightarrow> string list option" where
  "bridge_ports secs dev =
     (if dev = [] then None
      else map_option (\<lambda>s. opts_get s ''ports'')
        (find (\<lambda>s. us_typ s = ''device'' \<and> opt1 s ''type'' = ''bridge'' \<and> opt1 s ''name'' = dev) (rev secs)))"

definition net_iface_of :: "uciSec list \<Rightarrow> uciSec \<Rightarrow> NetIface" where
  "net_iface_of secs s =
     (let addrs = map (addr_of (opt1 s ''netmask'')) (opts_get s ''ipaddr'');
          dev = firstOf (opts_get s ''device'') (opts_get s ''ifname'') in
      zeroNetIface\<lparr>ni_ID := us_name s, ni_Name := us_name s, ni_Role := ifaceRole s,
        ni_Proto := orDefault (opt1 s ''proto'') ProtoStatic, ni_Device := dev, ni_Gateway := opt1 s ''gateway'',
        ni_Username := opt1 s ''username'', ni_Password := opt1 s ''password'', ni_Service := opt1 s ''service'',
        ni_AC := opt1 s ''ac'', ni_MTU := atoiSafe (opt1 s ''mtu''), ni_Remark := opt1 s ''remark'',
        ni_CloneMAC := opt1 s ''macaddr'', ni_DefaultGW := (opt1 s ''defaultroute'' \<noteq> ''0''),
        ni_Metric := atoiSafe (opt1 s ''metric''), ni_DNSMetric := atoiSafe (opt1 s ''dns_metric''),
        ni_PeerDNS := parseBoolOpt (opts_get s ''peerdns''), ni_Broadcast := opt1 s ''broadcast'',
        ni_ForceLink := parseBoolOpt (opts_get s ''force_link''), ni_Auto := parseBoolOpt (opts_get s ''auto''),
        ni_IP6Assign := atoiSafe (opt1 s ''ip6assign''), ni_IP6Hint := opt1 s ''ip6hint'', ni_IP6Gw := opt1 s ''ip6gw'',
        ni_IP6Prefix := opt1 s ''ip6prefix'', ni_IP6IfaceID := opt1 s ''ip6ifaceid'',
        ni_Keepalive := opt1 s ''keepalive'', ni_PPPoEv6 := parseBoolOpt (opts_get s ''ipv6''),
        ni_IPAddr := (case addrs of [] \<Rightarrow> [] | a # _ \<Rightarrow> fst a),
        ni_Netmask := (case addrs of [] \<Rightarrow> [] | a # _ \<Rightarrow> fst (snd a)),
        ni_ExtraAddrs := map extra_addr (drop 1 addrs) @ map addr6_of (opts_get s ''ip6addr''),
        ni_DNS := opts_get s ''dns'',
        ni_Ports := (case bridge_ports secs dev of Some p \<Rightarrow> p | None \<Rightarrow> if dev = [] then [] else [dev])\<rparr>)"

definition mergeExtraRemarks :: "NetIface list \<Rightarrow> NetIface \<Rightarrow> NetIface" where
  "mergeExtraRemarks stored x = (case find (\<lambda>s. ni_ID s = ni_ID x) stored of
     None \<Rightarrow> x
   | Some s \<Rightarrow> x\<lparr>ni_ExtraAddrs := map (\<lambda>a.
         case find (\<lambda>b. ia_Remark b \<noteq> [] \<and> ia_Address b = ia_Address a) (rev (ni_ExtraAddrs s)) of
           None \<Rightarrow> a | Some b \<Rightarrow> a\<lparr>ia_Remark := ia_Remark b\<rparr>) (ni_ExtraAddrs x)\<rparr>)"

definition read_iface :: "jsons \<Rightarrow> 'w sys \<Rightarrow> uciSec list \<Rightarrow> uciSec \<Rightarrow> ('w uci, NetIface) act" where
  "read_iface J E secs s = (let x = net_iface_of secs s in
     bindE (deviceSectionByName E (ni_Device x)) (\<lambda>sec.
     bindE (if sec = [] then ret [] else deviceMacAddr E sec) (\<lambda>mac.
     bindE (ifaceStatus J E (us_name s)) (\<lambda>st.
     bindE (on_store store_NetIfaces) (\<lambda>stored.
       let y = (if mac = [] then x else x\<lparr>ni_CloneMAC := mac\<rparr>);
           z = (case st of
               None \<Rightarrow> y\<lparr>ni_Status := IfStatusDisconnected\<rparr>
             | Some (up, pending, ip) \<Rightarrow> y\<lparr>ni_Up := up, ni_RuntimeIP := ip, ni_Status := runtimeStatus up pending\<rparr>)
       in ret (mergeExtraRemarks stored z))))))"

definition wans_first :: "NetIface list \<Rightarrow> NetIface list" where
  "wans_first xs = (let ys = sort_key ni_Name xs in
     filter (\<lambda>x. ni_Role x = RoleWAN) ys @ filter (\<lambda>x. ni_Role x \<noteq> RoleWAN) ys)"

definition uci_NetIfaces :: "jsons \<Rightarrow> 'w sys \<Rightarrow> ('w uci, NetIface list) act" where
  "uci_NetIfaces J E = bindE (uci_secs E ''network'') (\<lambda>shown. case shown of
     None \<Rightarrow> ret []
   | Some secs \<Rightarrow>
       bindE (mapA (read_iface J E secs)
           (filter (\<lambda>s. is_iface_sec s \<and> \<not> skipIfaceProto (opt1 s ''proto'')) secs))
         (\<lambda>xs. ret (wans_first xs)))"

section \<open>Packages\<close>

definition pkgManager :: "'w sys \<Rightarrow> ('w uci, string) act" where
  "pkgManager E =
     bindE (run_cmd E [] [''sh'', ''-c'', ''command -v opkg'']) (\<lambda>(out, e).
       if go_TrimSpace out \<noteq> [] then ret ''opkg''
       else bindE (run_cmd E [] [''sh'', ''-c'', ''command -v apk'']) (\<lambda>(out, e).
         ret (if go_TrimSpace out \<noteq> [] then ''apk'' else [])))"

text \<open>The log that accompanies an error is dropped.\<close>

definition uci_InstallDHCP :: "'w sys \<Rightarrow> ('w uci, string) act" where
  "uci_InstallDHCP E = bindE (pkgManager E) (\<lambda>pm.
     if pm = [] then fail (Err ''no package manager, dnsmasq cannot be installed'')
     else (let name = (if pm = ''apk'' then ''apk'' else ''opkg''); verb = (if pm = ''apk'' then ''add'' else ''install'') in
       bindE (run_cmd E [] [name, ''update'']) (\<lambda>(o1, e1).
       bindE (run_cmd E [] [name, verb, ''dnsmasq'']) (\<lambda>(o2, e2).
         case e2 of
           Some m \<Rightarrow> fail (ErrFmt ''dnsmasq could not be installed'' [name, m])
         | None \<Rightarrow>
             bindE (ignoring (run_cmd E [] [''/etc/init.d/dnsmasq'', ''enable''])) (\<lambda>_.
             bindE (ignoring (run_cmd E [] [''/etc/init.d/dnsmasq'', ''start''])) (\<lambda>_.
               ret (tail o1 600 @ [byte 10] @ tail o2 1600)))))))"

end
