(* ===== verification/UciRead.thy ===== *)
theory UciRead
  imports UciDNS UciIface
begin

text \<open>
  The rest of the uci backend: the DNS settings reflected from uci and the installation of the DoH
  packages (dns\_uci\_read.go), the import of an existing configuration and the start of the backend
  (backend\_uci.go).

  \<open>InstallDoH\<close> returns its log also with an error; an action that fails carries the hint only.
\<close>

section \<open>DNS settings as uci has them\<close>

definition uciGetInt :: "'w sys \<Rightarrow> string \<Rightarrow> ('w uci, int) act" where
  "uciGetInt E key = bindE (uciGet E key) (\<lambda>(v, e). ret (atoiSafe v))"

definition uciGetBool :: "'w sys \<Rightarrow> string \<Rightarrow> ('w uci, bool) act" where
  "uciGetBool E key = bindE (uciGet E key) (\<lambda>(v, e). ret (v = ''1''))"

definition uciGetList :: "'w sys \<Rightarrow> string \<Rightarrow> ('w uci, string list) act" where
  "uciGetList E key = bindE (uciGet E key) (\<lambda>(v, e). ret (go_Fields v))"

definition upstreams :: "string list \<Rightarrow> string list" where
  "upstreams servers = filter (\<lambda>s. \<not> (go_HasPrefix s ''/'' \<or> go_HasPrefix s ''127.0.0.1'')) servers"

definition uci_DNSSettings :: "'w sys \<Rightarrow> ('w uci, DNSSettings) act" where
  "uci_DNSSettings E = bindE (on_store store_DNSSettings) (\<lambda>st.
     if dn_Enabled st then ret st
     else
       (let key = (\<lambda>o'. ''dhcp.@dnsmasq[0].'' @ o') in
        bindE (uciGetBool E (key ''filter_aaaa'')) (\<lambda>aaaa.
        bindE (uciGetInt E (key ''cachesize'')) (\<lambda>cache.
        bindE (uciGetInt E (key ''local_ttl'')) (\<lambda>localttl.
        bindE (uciGetInt E (key ''min_cache_ttl'')) (\<lambda>minttl.
        bindE (uciGetInt E (key ''max_cache_ttl'')) (\<lambda>maxttl.
        bindE (uciGetBool E (key ''noresolv'')) (\<lambda>noresolv.
        bindE (uciGetBool E (key ''dnssec'')) (\<lambda>dnssec.
        bindE (uciGetBool E (key ''rebind_protection'')) (\<lambda>rebind.
        bindE (uciGetBool E (key ''allservers'')) (\<lambda>allservers.
        bindE (uciGetList E (key ''rebind_domain'')) (\<lambda>domains.
        bindE (uciGetList E (key ''server'')) (\<lambda>servers.
          let ups = upstreams servers in
          ret (st\<lparr>dn_FilterAAAA := aaaa, dn_CacheSize := cache, dn_LocalTTL := localttl, dn_MinCacheTTL := minttl,
            dn_MaxCacheTTL := maxttl, dn_NoResolv := noresolv, dn_DNSSEC := dnssec, dn_RebindProtect := rebind,
            dn_AllServers := allservers, dn_RebindDomains := domains,
            dn_DNSPrimary := (case ups of [] \<Rightarrow> dn_DNSPrimary st | u # _ \<Rightarrow> u),
            dn_DNSSecondary := (case ups of _ # u # _ \<Rightarrow> u | _ \<Rightarrow> dn_DNSSecondary st)\<rparr>))))))))))))))"

definition uci_FlushDNSCache :: "'w sys \<Rightarrow> ('w uci, unit) act" where
  "uci_FlushDNSCache E = bindE (run_cmd E [] [''killall'', ''-HUP'', ''dnsmasq'']) (\<lambda>(out, e).
     case e of None \<Rightarrow> ret () | Some m \<Rightarrow> fail (Err m))"

section \<open>Installing DoH\<close>

definition osReleaseField :: "string \<Rightarrow> string \<Rightarrow> string" where
  "osReleaseField content key =
     (case find (\<lambda>line. go_HasPrefix line (key @ ''='')) (map go_TrimSpace (go_Split content (byte 10))) of
        None \<Rightarrow> []
      | Some line \<Rightarrow>
          (let trim = dropWhile (\<lambda>c. c = byte 34 \<or> c = byte 39)
           in rev (trim (rev (trim (go_TrimPrefix line (key @ ''='')))))))"

definition dohPkgs :: string where
  "dohPkgs = ''https-dns-proxy luci-app-https-dns-proxy''"

definition install_script :: "string \<Rightarrow> string \<Rightarrow> string" where
  "install_script pm feed =
     (let upd = (if pm = ''apk'' then ''apk update; apk add '' else ''opkg update; opkg install '') @ dohPkgs;
          path = (if pm = ''apk'' then ''/etc/apk/repositories.d/zzz-kwrt-doh.list'' else ''/etc/opkg/zzz-kwrt-doh.conf'')
      in if feed = [] then upd
         else ''cat > '' @ path @ '' <<'' @ quoted ''KWRTFEED'' @ byte 10 # feed @ ''KWRTFEED'' @ byte 10 #
           upd @ ''; rc=$?; rm -f '' @ path @ ''; exit $rc'')"

definition runPkgInstall :: "'w sys \<Rightarrow> string \<Rightarrow> string \<Rightarrow> ('w uci, string \<times> string option) act" where
  "runPkgInstall E pm feed = run_cmd E [] [''sh'', ''-c'', install_script pm feed]"

text \<open>A mirror: its name and the text of its feed.\<close>

definition feed_line :: "string \<Rightarrow> string \<Rightarrow> string \<Rightarrow> string \<Rightarrow> string" where
  "feed_line pm tag root feed =
     (if pm = ''apk'' then root @ ''/'' @ feed
      else ''src/gz kwrt_'' @ tag @ ''_'' @ feed @ '' '' @ root @ ''/'' @ feed) @ [byte 10]"

definition mirrors :: "lib \<Rightarrow> string \<Rightarrow> string \<Rightarrow> (string \<times> string) list" where
  "mirrors L pm osr =
     (let ver = osReleaseField osr ''VERSION_ID''; arch = osReleaseField osr ''OPENWRT_ARCH'';
          distro = (if osReleaseField osr ''ID'' = ''immortalwrt'' then ''immortalwrt'' else ''openwrt'');
          path = ''/releases/'' @ ver @ ''/packages/'' @ arch;
          group = (\<lambda>(tag, name, root).
            (name, concat (map (feed_line pm tag root) [''base'', ''packages'', ''luci''])))
      in if ver = [] \<or> arch = [] \<or> go_EqualFold L ver ''snapshot'' then []
         else map group
           [(''ustc'', map byte [229, 155, 189, 229, 134, 133, 233, 149, 156, 229, 131, 143] @ '' USTC'',
             ''https://mirrors.ustc.edu.cn/'' @ distro @ path),
            (''off'', map byte [229, 174, 152, 230, 150, 185, 230, 186, 144],
             ''https://downloads.'' @ distro @ ''.org'' @ path)])"

definition fallbackMirrorGroups :: "lib \<Rightarrow> 'w sys \<Rightarrow> string \<Rightarrow> ('w uci, (string \<times> string) list) act" where
  "fallbackMirrorGroups L E pm =
     bindE (run_cmd E [] [''cat'', ''/etc/os-release'']) (\<lambda>(osr, e). ret (mirrors L pm osr))"

definition lastNonEmptyLine :: "string \<Rightarrow> string" where
  "lastNonEmptyLine out =
     (case find (\<lambda>s. s \<noteq> []) (map go_TrimSpace (rev (go_Split out (byte 10)))) of
        None \<Rightarrow> ''(no output)'' | Some s \<Rightarrow> take 200 s)"

definition dohInstallHint :: "lib \<Rightarrow> string \<Rightarrow> string" where
  "dohInstallHint L out =
     (let lo = go_ToLower (lb_lower L) out; has = list_ex (go_Contains lo) in
      if has [''could not lock'', ''opkg.lock'', ''resource temporarily unavailable''] then ''another installation is running''
      else if has [''ssl error'', ''certificate'', ''handshake''] then ''HTTPS handshake with the feed failed''
      else if has [''failed to download'', ''wget returned'', ''could not'', ''resolve''] then ''the feed cannot be reached''
      else if has [''unknown package'', ''not found''] then ''https-dns-proxy is not in the feed''
      else ''installation failed: '' @ lastNonEmptyLine out)"

fun try_mirrors :: "lib \<Rightarrow> 'w sys \<Rightarrow> string \<Rightarrow> string \<Rightarrow> (string \<times> string) list \<Rightarrow> ('w uci, string) act" where
  "try_mirrors L E pm logs [] = fail (ErrFmt ''feed and mirrors failed'' [dohInstallHint L logs])"
| "try_mirrors L E pm logs (g # gs) =
     bindE (runPkgInstall E pm (snd g)) (\<lambda>(out, e).
       let logs' = logs @ [byte 10, byte 10] @ ''=== '' @
         map byte [233, 187, 152, 232, 174, 164, 230, 186, 144, 229, 164, 177, 232, 180, 165, 239, 188, 140,
           229, 183, 178, 229, 155, 158, 233, 128, 128, 227, 128, 140] @ fst g @
         map byte [227, 128, 141, 233, 135, 141, 232, 175, 149] @ '' ==='' @ byte 10 # go_TrimSpace out
       in if e = None then ret logs' else try_mirrors L E pm logs' gs)"

definition uci_InstallDoH :: "lib \<Rightarrow> 'w sys \<Rightarrow> ('w uci, string) act" where
  "uci_InstallDoH L E = bindE (pkgManager E) (\<lambda>pm.
     if pm \<noteq> ''opkg'' \<and> pm \<noteq> ''apk'' then fail (Err ''no package manager, DoH cannot be installed'')
     else bindE (runPkgInstall E pm []) (\<lambda>(out, e).
       if e = None then ret out
       else bindE (fallbackMirrorGroups L E pm) (\<lambda>groups.
         if groups = [] then fail (ErrFmt ''no mirror can be derived'' [dohInstallHint L out])
         else try_mirrors L E pm (go_TrimSpace out) groups)))"

section \<open>Importing an existing configuration\<close>

text \<open>One \<open>dhcp_option\<close> of a pool.\<close>

definition import_option :: "DHCPServer \<Rightarrow> string \<Rightarrow> DHCPServer" where
  "import_option srv o' =
     (if go_HasPrefix o' ''3,'' then srv\<lparr>ds_Gateway := drop 2 o'\<rparr>
      else if go_HasPrefix o' ''6,'' then
        (case go_Split (drop 2 o') CHR '','' of
           a # c # _ \<Rightarrow> srv\<lparr>ds_DNSPrimary := a, ds_DNSSecondary := c\<rparr>
         | [a] \<Rightarrow> srv\<lparr>ds_DNSPrimary := a\<rparr>
         | [] \<Rightarrow> srv)
      else (case splitOpt o' of
          None \<Rightarrow> srv
        | Some (c, v) \<Rightarrow> srv\<lparr>ds_CustomOptions := ds_CustomOptions srv @ [\<lparr>co_Code = c, co_Value = v, co_Type = []\<rparr>]\<rparr>))"

text \<open>\<open>ipmask\<close>: the address and mask of an interface; the last one of a name.\<close>

definition ipmask_of :: "Interface list \<Rightarrow> string \<Rightarrow> string \<times> string" where
  "ipmask_of ifaces n =
     (case find (\<lambda>i. if_Name i = n) (rev ifaces) of None \<Rightarrow> ([], []) | Some i \<Rightarrow> (if_IPv4 i, if_Netmask i))"

definition import_pool :: "Interface list \<Rightarrow> uciSec \<Rightarrow> DHCPServer option" where
  "import_pool ifaces s =
     (if us_typ s \<noteq> ''dhcp'' \<or> opt1 s ''interface'' = [] then None
      else (case ipmask_of ifaces (opt1 s ''interface'') of (ip, netmask) \<Rightarrow>
        (case startLimitToRange ip netmask (atoiSafe (opt1 s ''start'')) (atoiSafe (opt1 s ''limit'')) of (a, c) \<Rightarrow>
          (let srv = foldl import_option
             (zeroDHCPServer\<lparr>ds_ID := us_name s, ds_Interface := opt1 s ''interface'',
                ds_Enabled := (opt1 s ''ignore'' \<noteq> ''1''), ds_Force := (opt1 s ''force'' = ''1''),
                ds_LeaseMinutes := leasetimeToMin (opt1 s ''leasetime''), ds_Netmask := netmask,
                ds_IPStart := a, ds_IPEnd := c\<rparr>) (opts_get s ''dhcp_option'')
           in Some (if ds_LeaseMinutes srv < 0 then srv\<lparr>ds_LeaseMinutes := 120\<rparr> else srv)))))"

definition import_host_mac :: "uciSec \<Rightarrow> string" where
  "import_host_mac s = (if us_typ s = ''host'' then NormalizeMAC (opt1 s ''mac'') else [])"

definition import_acl :: "uciSec \<Rightarrow> ACLEntry option" where
  "import_acl s = (let mac = import_host_mac s in
     if mac = [] \<or> opt1 s ''ignore'' \<noteq> ''1'' then None
     else Some (zeroACLEntry\<lparr>ae_ID := us_name s, ae_MAC := mac, ae_Remark := opt1 s ''name'', ae_Enabled := True\<rparr>))"

definition import_static :: "uciSec \<Rightarrow> StaticLease option" where
  "import_static s = (let mac = import_host_mac s in
     if mac = [] \<or> opt1 s ''ignore'' = ''1'' then None
     else Some (zeroStaticLease\<lparr>sl_ID := us_name s, sl_Hostname := opt1 s ''name'', sl_IP := opt1 s ''ip'',
       sl_MAC := mac, sl_Enabled := True\<rparr>))"

definition import_route :: "uciSec \<Rightarrow> Route option" where
  "import_route s =
     (if us_typ s \<noteq> ''route'' \<and> us_typ s \<noteq> ''route6'' then None
      else
        (let r = zeroRoute\<lparr>rt_ID := us_name s, rt_Interface := orAuto (opt1 s ''interface''),
               rt_Gateway := opt1 s ''gateway'', rt_Metric := atoiSafe (opt1 s ''metric''), rt_Type := opt1 s ''type'',
               rt_MTU := atoiSafe (opt1 s ''mtu''), rt_Table := atoiSafe (opt1 s ''table''),
               rt_Enabled := (opt1 s ''disabled'' \<noteq> ''1'')\<rparr>;
             tgt = opt1 s ''target'' in
         Some (if us_typ s = ''route6'' then
             (case go_IndexByte tgt CHR ''/'' of
                Some i \<Rightarrow> r\<lparr>rt_Family := FamilyIPv6, rt_Target := take i tgt, rt_Prefix := atoiSafe (drop (Suc i) tgt)\<rparr>
              | None \<Rightarrow> r\<lparr>rt_Family := FamilyIPv6, rt_Target := tgt\<rparr>)
           else r\<lparr>rt_Family := FamilyIPv4, rt_Target := tgt, rt_Netmask := opt1 s ''netmask'',
               rt_Prefix := (case MaskToPrefix (opt1 s ''netmask'') of None \<Rightarrow> 0 | Some p \<Rightarrow> p)\<rparr>)))"

definition import_rule :: "uciSec \<Rightarrow> PolicyRule option" where
  "import_rule s =
     (if us_typ s \<noteq> ''rule'' \<and> us_typ s \<noteq> ''rule6'' then None
      else Some (zeroPolicyRule\<lparr>pr_ID := us_name s, pr_Src := opt1 s ''src'', pr_Dest := opt1 s ''dest'',
        pr_InIface := opt1 s ''in'', pr_Lookup := opt1 s ''lookup'', pr_Priority := atoiSafe (opt1 s ''priority''),
        pr_Enabled := (opt1 s ''disabled'' \<noteq> ''1''), pr_Managed := (opt1 s managedOpt = managedMarker),
        pr_Family := (if us_typ s = ''rule6'' then FamilyIPv6 else FamilyIPv4)\<rparr>))"

definition import_state :: "Interface list \<Rightarrow> uciSec list \<Rightarrow> uciSec list \<Rightarrow> State" where
  "import_state ifaces dhcp net = zeroState\<lparr>
     S_DHCPServers := List.map_filter (import_pool ifaces) dhcp,
     S_Statics := List.map_filter import_static dhcp,
     S_ACL := \<lparr>acl_Mode = ACLBlacklist, acl_Entries = List.map_filter import_acl dhcp\<rparr>,
     S_Routes := List.map_filter import_route net,
     S_PolicyRules := List.map_filter import_rule net\<rparr>"

definition importExisting :: "'w sys \<Rightarrow> ('w uci, unit) act" where
  "importExisting E =
     bindE (uci_Interfaces E) (\<lambda>ifaces.
     bindE (uci_secs E ''dhcp'') (\<lambda>d.
     bindE (uci_secs E ''network'') (\<lambda>n.
     bindE (importIPv6Into E (import_state ifaces (the_secs d) (the_secs n))) (\<lambda>st.
       on_store (replaceState st)))))"

text \<open>Nothing is applied at the start, and an error of the import is only logged.\<close>

definition newUCIBackend :: "'w sys \<Rightarrow> string \<Rightarrow> State disk \<Rightarrow> 'w \<Rightarrow> err + 'w uci" where
  "newUCIBackend E path d w = (case fst (newStoreBackend path False d) of
     Inl e \<Rightarrow> Inl e
   | Inr sb \<Rightarrow>
       (let b = \<lparr>ub_store = sb, ub_world = w, ub_pending = False, ub_pendingMsg = [], ub_dropStock = []\<rparr> in
        Inr (if sb_fresh sb then snd (importExisting E b) else b)))"

end
