(* ===== verification/UciNic.thy ===== *)
theory UciNic
  imports UciIface
begin

text \<open>
  Network cards of the machine (iface\_uci.go, iface\_uci\_detail.go): the inventory from /sys/class/net
  with the interface each card is bound to, and the detail page with what \<open>ip\<close> and \<open>ethtool\<close> print.
\<close>

section \<open>Reading /sys\<close>

definition readTrim :: "'w sys \<Rightarrow> 'w \<Rightarrow> string \<Rightarrow> string" where
  "readTrim E w path = (case sy_read E path w of None \<Rightarrow> [] | Some b \<Rightarrow> go_TrimSpace b)"

text \<open>\<open>ParseUint(s, 10, 64)\<close> with its error dropped: 0 for bad syntax, the largest number out of range.\<close>

definition atou64 :: "string \<Rightarrow> 64 word" where
  "atou64 s0 = (let s = go_TrimSpace s0 in
     if s = [] then 0
     else (case digits_val 0 s of
         None \<Rightarrow> 0 | Some n \<Rightarrow> if n < 2 ^ 64 then of_nat n else - 1))"

definition nicKind :: "'w sys \<Rightarrow> 'w \<Rightarrow> string \<Rightarrow> string \<Rightarrow> string" where
  "nicKind E w base name =
     (if sy_exists E (base @ ''/bridge'') w then ''bridge''
      else if sy_exists E (base @ ''/wireless'') w then ''wifi''
      else if sy_exists E (base @ ''/phy80211'') w then ''wifi''
      else if go_Contains name ''.'' then ''vlan''
      else if sy_exists E (base @ ''/device'') w then ''physical''
      else ''virtual'')"

text \<open>The interface and role each device or port is used by; a later entry overwrites.\<close>

definition bound_entries :: "uciSec list \<Rightarrow> uciSec \<Rightarrow> (string \<times> string \<times> string) list" where
  "bound_entries secs s =
     (let dev = firstOf (opts_get s ''device'') (opts_get s ''ifname'');
          ref = (us_name s, ifaceRole s) in
      if \<not> is_iface_sec s \<or> skipIfaceProto (opt1 s ''proto'') \<or> dev = [] then []
      else (dev, ref) # map (\<lambda>p. (p, ref)) (case bridge_ports secs dev of None \<Rightarrow> [] | Some ps \<Rightarrow> ps))"

definition bound_to :: "uciSec list \<Rightarrow> string \<Rightarrow> (string \<times> string) option" where
  "bound_to secs name = map_of (rev (concat (map (bound_entries secs) secs))) name"

definition deviceToIface :: "'w sys \<Rightarrow> ('w uci, string \<rightharpoonup> string \<times> string) act" where
  "deviceToIface E = bindE (uci_secs E ''network'') (\<lambda>secs. ret (bound_to (the_secs secs)))"

definition addr_entry :: "string \<Rightarrow> (string \<times> string) option" where
  "addr_entry line = (case go_Fields line of
     _ # dev # fam # a # _ \<Rightarrow>
       if fam \<noteq> ''inet'' \<and> fam \<noteq> ''inet6'' then None
       else if dev = ''lo'' \<or> go_HasPrefix a ''127.'' \<or> a = ''::1/128'' then None
       else Some (dev, a)
   | _ \<Rightarrow> None)"

definition nicAddrs :: "'w sys \<Rightarrow> ('w uci, string \<Rightarrow> string list) act" where
  "nicAddrs E = bindE (run_cmd E [] [''ip'', ''-o'', ''addr'', ''show'']) (\<lambda>(out, e).
     ret (\<lambda>dev. if e \<noteq> None then []
       else map snd (filter (\<lambda>p. fst p = dev) (List.map_filter addr_entry (go_Split out (byte 10))))))"

definition sys_nic :: "'w sys \<Rightarrow> 'w \<Rightarrow> (string \<rightharpoonup> string \<times> string) \<Rightarrow> string list \<Rightarrow> string \<Rightarrow> NIC" where
  "sys_nic E w bound ips name =
     (let base = ''/sys/class/net/'' @ name; get = (\<lambda>f. readTrim E w (base @ f)) in
      \<lparr>nic_Name = name, nic_MAC = NormalizeMAC (get ''/address''), nic_Up = (get ''/carrier'' = ''1''),
       nic_Running = (get ''/operstate'' = ''up''),
       nic_SpeedMb = (let sp = atoiSafe (get ''/speed'') in if sp > 0 then sp else 0),
       nic_Duplex = get ''/duplex'', nic_MTU = atoiSafe (get ''/mtu''), nic_Kind = nicKind E w base name,
       nic_Bound = (case bound name of None \<Rightarrow> [] | Some r \<Rightarrow> fst r),
       nic_Role = (case bound name of None \<Rightarrow> [] | Some r \<Rightarrow> snd r),
       nic_RxBytes = atou64 (get ''/statistics/rx_bytes''), nic_TxBytes = atou64 (get ''/statistics/tx_bytes''),
       nic_IPAddrs = ips\<rparr>)"

definition uci_NICs :: "'w sys \<Rightarrow> ('w uci, NIC list) act" where
  "uci_NICs E b = (case sy_list E ''/sys/class/net'' (ub_world b) of
     None \<Rightarrow> (Inr [], b)
   | Some names \<Rightarrow>
       bindE (deviceToIface E) (\<lambda>bound. bindE (nicAddrs E) (\<lambda>addrs. \<lambda>c.
         (Inr (sort_key nic_Name (map (\<lambda>n. sys_nic E (ub_world c) bound (addrs n) n)
           (filter (\<lambda>n. n \<noteq> ''lo'') names))), c))) b)"

section \<open>Parsers of the detail page\<close>

record NICAddr =
  na_Address :: string
  na_Prefix :: int
  na_Family :: string
  na_Scope :: string

fun scope_of :: "string list \<Rightarrow> string" where
  "scope_of (a # b # f) = (if a = ''scope'' then b else scope_of (b # f))"
| "scope_of f = ''global''"

definition parseAddrLine :: "string \<Rightarrow> NICAddr option" where
  "parseAddrLine line = (case go_Fields line of
     _ # _ # fam # a # rest \<Rightarrow>
       if fam \<noteq> ''inet'' \<and> fam \<noteq> ''inet6'' then None
       else if go_HasPrefix a ''127.'' \<or> a = ''::1/128'' then None
       else Some (let f = (if fam = ''inet6'' then FamilyIPv6 else FamilyIPv4) in
         case go_IndexByte a CHR ''/'' of
           Some j \<Rightarrow> \<lparr>na_Address = take j a, na_Prefix = atoiSafe (drop (Suc j) a), na_Family = f, na_Scope = scope_of rest\<rparr>
         | None \<Rightarrow> \<lparr>na_Address = a, na_Prefix = 0, na_Family = f, na_Scope = scope_of rest\<rparr>)
   | _ \<Rightarrow> None)"

definition fmtCIDR :: "NICAddr \<Rightarrow> string" where
  "fmtCIDR a = na_Address a @ ''/'' @ go_Itoa (na_Prefix a)"

text \<open>
  The inner loop of \<open>parseVlanLine\<close> reads pairs up to the end of the output; \<open>proto\<close> keeps its
  value over the rounds of the outer loop.
\<close>

fun vlan_pairs :: "string list \<Rightarrow> int option \<times> string \<Rightarrow> int option \<times> string" where
  "vlan_pairs (a # b # f) r =
     vlan_pairs (b # f)
       (if a = ''protocol'' then (fst r, b) else if a = ''id'' then (Some (atoiSafe b), snd r) else r)"
| "vlan_pairs f r = r"

fun vlan_search :: "string list \<Rightarrow> string \<Rightarrow> (int \<times> string) option" where
  "vlan_search [] proto = None"
| "vlan_search (a # f) proto =
     (if a = ''vlan'' then
        (case vlan_pairs f (None, proto) of
           (Some i, p) \<Rightarrow> Some (i, p)
         | (None, p) \<Rightarrow> vlan_search f p)
      else vlan_search f proto)"

definition parseVlanLine :: "string \<Rightarrow> (int \<times> string) option" where
  "parseVlanLine out = vlan_search (go_Fields out) []"

definition splitColon :: "string \<Rightarrow> string \<times> string" where
  "splitColon line = (case go_IndexByte line CHR '':'' of
     None \<Rightarrow> ([], line) | Some i \<Rightarrow> (go_TrimSpace (take i line), drop (Suc i) line))"

record ethtoolInfo =
  et_supported :: "string list"
  et_advertised :: "string list"
  et_autoneg :: string
  et_port :: string
  et_duplex :: string
  et_speedMb :: int
  et_linkDetected :: "bool option"

definition trimSuffix :: "string \<Rightarrow> string \<Rightarrow> string" where
  "trimSuffix s suf = (if go_HasSuffix s suf then take (length s - length suf) s else s)"

definition mode_line :: "string \<Rightarrow> bool" where
  "mode_line l \<longleftrightarrow> \<not> go_Contains l '':'' \<and> go_TrimSpace l \<noteq> []"

text \<open>\<open>collectModes\<close>: the tokens, and the lines after the continuation lines.\<close>

definition collectModes :: "string \<Rightarrow> string list \<Rightarrow> string list \<times> string list" where
  "collectModes firstVal rest =
     (go_Fields firstVal @ concat (map go_Fields (takeWhile mode_line rest)), dropWhile mode_line rest)"

lemma collectModes_shorter: "length (snd (collectModes v rest)) \<le> length rest"
  by (simp add: collectModes_def length_dropWhile_le)

definition ethtool_line :: "lib \<Rightarrow> string \<Rightarrow> string \<Rightarrow> ethtoolInfo \<Rightarrow> ethtoolInfo" where
  "ethtool_line L key val e = (let v = go_TrimSpace val; low = go_ToLower (lb_lower L) v in
     if key = ''Speed'' then e\<lparr>et_speedMb := atoiSafe (go_TrimSpace (trimSuffix v ''Mb/s''))\<rparr>
     else if key = ''Duplex'' then e\<lparr>et_duplex := low\<rparr>
     else if key = ''Auto-negotiation'' then e\<lparr>et_autoneg := low\<rparr>
     else if key = ''Port'' then e\<lparr>et_port := v\<rparr>
     else if key = ''Link detected'' then e\<lparr>et_linkDetected := Some (go_EqualFold L v ''yes'')\<rparr>
     else e)"

function ethtool_loop :: "lib \<Rightarrow> string list \<Rightarrow> ethtoolInfo \<Rightarrow> ethtoolInfo" where
  "ethtool_loop L [] e = e"
| "ethtool_loop L (l # ls) e =
     (let (key, val) = splitColon (go_TrimSpace l); m = collectModes val ls in
      if key = ''Supported link modes'' then ethtool_loop L (snd m) (e\<lparr>et_supported := fst m\<rparr>)
      else if key = ''Advertised link modes'' then ethtool_loop L (snd m) (e\<lparr>et_advertised := fst m\<rparr>)
      else ethtool_loop L ls (ethtool_line L key val e))"
  by pat_completeness auto

termination
  by (relation "measure (\<lambda>(L, ls, e). length ls)") (auto simp: less_Suc_eq_le collectModes_shorter)

definition parseEthtool :: "lib \<Rightarrow> string \<Rightarrow> ethtoolInfo" where
  "parseEthtool L out = ethtool_loop L (go_Split out (byte 10))
     \<lparr>et_supported = [], et_advertised = [], et_autoneg = [], et_port = [], et_duplex = [], et_speedMb = 0,
      et_linkDetected = None\<rparr>"

record ethtoolDriverInfo =
  ed_driver :: string
  ed_version :: string
  ed_firmware :: string
  ed_busInfo :: string

definition driver_line :: "ethtoolDriverInfo \<Rightarrow> string \<Rightarrow> ethtoolDriverInfo" where
  "driver_line d line = (case splitColon (go_TrimSpace line) of (key, val) \<Rightarrow>
     (let v = go_TrimSpace val in
      if key = ''driver'' then d\<lparr>ed_driver := v\<rparr>
      else if key = ''version'' then d\<lparr>ed_version := v\<rparr>
      else if key = ''firmware-version'' then d\<lparr>ed_firmware := v\<rparr>
      else if key = ''bus-info'' then d\<lparr>ed_busInfo := v\<rparr>
      else d))"

definition parseEthtoolDriver :: "string \<Rightarrow> ethtoolDriverInfo" where
  "parseEthtoolDriver out =
     foldl driver_line \<lparr>ed_driver = [], ed_version = [], ed_firmware = [], ed_busInfo = []\<rparr> (go_Split out (byte 10))"

definition parseEthtoolPerm :: "string \<Rightarrow> string" where
  "parseEthtoolPerm out = NormalizeMAC (go_TrimSpace (snd (splitColon (go_TrimSpace out))))"

definition lastPathElem :: "string \<Rightarrow> string" where
  "lastPathElem p0 = (let p = rev (dropWhile (\<lambda>c. c = CHR ''/'') (rev p0)) in
     rev (takeWhile (\<lambda>c. c \<noteq> CHR ''/'' \<and> c \<noteq> byte 92) (rev p)))"

section \<open>The detail page\<close>

record NICStats =
  ns_RxBytes :: "64 word"
  ns_TxBytes :: "64 word"
  ns_RxPackets :: "64 word"
  ns_TxPackets :: "64 word"
  ns_RxErrors :: "64 word"
  ns_TxErrors :: "64 word"
  ns_RxDropped :: "64 word"
  ns_TxDropped :: "64 word"
  ns_Multicast :: "64 word"
  ns_Collisions :: "64 word"

record NICDetail =
  nd_NIC :: NIC
  nd_IfIndex :: int
  nd_Operstate :: string
  nd_Carrier :: bool
  nd_CarrierChanges :: int
  nd_TxQueueLen :: int
  nd_IfAlias :: string
  nd_Master :: string
  nd_BridgePorts :: "string list"
  nd_VlanID :: int
  nd_VlanProto :: string
  nd_Driver :: string
  nd_DriverVersion :: string
  nd_Firmware :: string
  nd_BusInfo :: string
  nd_PermMAC :: string
  nd_Autoneg :: string
  nd_Port :: string
  nd_SupportedModes :: "string list"
  nd_AdvertisedModes :: "string list"
  nd_Stats :: NICStats
  nd_Addrs :: "NICAddr list"

definition sys_stats :: "'w sys \<Rightarrow> 'w \<Rightarrow> string \<Rightarrow> NICStats" where
  "sys_stats E w base = (let get = (\<lambda>f. atou64 (readTrim E w (base @ ''/statistics/'' @ f))) in
     \<lparr>ns_RxBytes = get ''rx_bytes'', ns_TxBytes = get ''tx_bytes'', ns_RxPackets = get ''rx_packets'',
      ns_TxPackets = get ''tx_packets'', ns_RxErrors = get ''rx_errors'', ns_TxErrors = get ''tx_errors'',
      ns_RxDropped = get ''rx_dropped'', ns_TxDropped = get ''tx_dropped'', ns_Multicast = get ''multicast'',
      ns_Collisions = get ''collisions''\<rparr>)"

definition with_link :: "ethtoolInfo \<Rightarrow> NICDetail \<Rightarrow> NICDetail" where
  "with_link i d =
     d\<lparr>nd_SupportedModes := et_supported i, nd_AdvertisedModes := et_advertised i, nd_Autoneg := et_autoneg i,
       nd_Port := et_port i,
       nd_NIC := (nd_NIC d)
         \<lparr>nic_SpeedMb := (if et_speedMb i > 0 \<and> nic_SpeedMb (nd_NIC d) = 0 then et_speedMb i else nic_SpeedMb (nd_NIC d)),
          nic_Duplex := (if et_duplex i \<noteq> [] \<and> nic_Duplex (nd_NIC d) = [] then et_duplex i else nic_Duplex (nd_NIC d)),
          nic_Up := (case et_linkDetected i of None \<Rightarrow> nic_Up (nd_NIC d) | Some up \<Rightarrow> up)\<rparr>\<rparr>"

definition detail_base :: "'w sys \<Rightarrow> 'w \<Rightarrow> NIC \<Rightarrow> string \<Rightarrow> string \<times> string option \<Rightarrow> NICDetail" where
  "detail_base E w n base ip =
     (let get = (\<lambda>f. readTrim E w (base @ f));
          addrs = (if snd ip = None then List.map_filter parseAddrLine (go_Split (fst ip) (byte 10)) else []) in
      \<lparr>nd_NIC = n\<lparr>nic_IPAddrs := map fmtCIDR addrs\<rparr>, nd_IfIndex = atoiSafe (get ''/ifindex''),
       nd_Operstate = get ''/operstate'', nd_Carrier = (get ''/carrier'' = ''1''),
       nd_CarrierChanges = atoiSafe (get ''/carrier_changes''), nd_TxQueueLen = atoiSafe (get ''/tx_queue_len''),
       nd_IfAlias = get ''/ifalias'',
       nd_Master = (case sy_link E (base @ ''/master'') w of None \<Rightarrow> [] | Some t \<Rightarrow> lastPathElem t),
       nd_BridgePorts = (case sy_list E (base @ ''/brif'') w of None \<Rightarrow> [] | Some ps \<Rightarrow> ps),
       nd_VlanID = 0, nd_VlanProto = [], nd_Driver = [], nd_DriverVersion = [], nd_Firmware = [], nd_BusInfo = [],
       nd_PermMAC = [], nd_Autoneg = [], nd_Port = [], nd_SupportedModes = [], nd_AdvertisedModes = [],
       nd_Stats = sys_stats E w base, nd_Addrs = addrs\<rparr>)"

definition NICDetail_of :: "lib \<Rightarrow> 'w sys \<Rightarrow> string \<Rightarrow> ('w uci, NICDetail) act" where
  "NICDetail_of L E name b0 = (let base = ''/sys/class/net/'' @ name in
     if \<not> sy_exists E base (ub_world b0) then (Inl ErrNotFound, b0)
     else
       bindE (deviceToIface E) (\<lambda>bound.
       bindE (\<lambda>b. (Inr (ub_world b), b)) (\<lambda>w.
       bindE (run_cmd E [] [''ip'', ''-o'', ''addr'', ''show'', ''dev'', name]) (\<lambda>ip.
       bindE (run_cmd E [] [''ip'', ''-d'', ''link'', ''show'', name]) (\<lambda>vl.
       bindE (run_cmd E [] [''ethtool'', name]) (\<lambda>et.
       bindE (run_cmd E [] [''ethtool'', ''-i'', name]) (\<lambda>dr.
       bindE (run_cmd E [] [''ethtool'', ''-P'', name]) (\<lambda>pm.
         let d0 = detail_base E w (sys_nic E w bound [] name) base ip;
             d1 = (case (if snd vl = None then parseVlanLine (fst vl) else None) of
                 None \<Rightarrow> d0 | Some (i, p) \<Rightarrow> d0\<lparr>nd_VlanID := i, nd_VlanProto := p\<rparr>);
             d2 = (if snd et = None then with_link (parseEthtool L (fst et)) d1 else d1);
             d3 = (if snd dr = None then
                 (let i = parseEthtoolDriver (fst dr) in
                  d2\<lparr>nd_Driver := ed_driver i, nd_DriverVersion := ed_version i, nd_Firmware := ed_firmware i,
                     nd_BusInfo := ed_busInfo i\<rparr>)
               else d2);
             mac = (if snd pm = None then parseEthtoolPerm (fst pm) else [])
         in ret (if mac \<noteq> [] then d3\<lparr>nd_PermMAC := mac\<rparr> else d3)))))))) b0)"

end
