(* ===== verification/UciBackend.thy ===== *)
theory UciBackend
  imports UciRead UciNic ServiceProps
begin

text \<open>
  The IPv6 state of the running system (ipv6\_uci\_read.go), the uci backend as a whole, and the contract
  it keeps: whatever the machine answers, a write of the Service leaves the list it saved in the
  sidecar, so the edits of the Service are the same map operations as on the store backend.
\<close>

section \<open>IPv6 state of the running system\<close>

record ifStatusV6 =
  s6_addr :: string
  s6_prefix :: string
  s6_gw :: string
  s6_local :: string
  s6_l3dev :: string
  s6_up :: bool

definition first_cidr :: "(string \<times> int) list \<Rightarrow> string" where
  "first_cidr xs = (case xs of [] \<Rightarrow> [] | a # _ \<Rightarrow> cidr (fst a) (snd a))"

definition default_gw6 :: "(string \<times> int \<times> string) list \<Rightarrow> string" where
  "default_gw6 routes =
     (case find (\<lambda>(target, netmask, hop). netmask = 0 \<and> (target = ''::'' \<or> target = []) \<and> hop \<noteq> []) routes of
        None \<Rightarrow> [] | Some (target, netmask, hop) \<Rightarrow> hop)"

definition ifaceStatusV6 :: "jsons \<Rightarrow> 'w sys \<Rightarrow> string \<Rightarrow> ('w uci, ifStatusV6 option) act" where
  "ifaceStatusV6 J E i =
     bindE (run_cmd E [] [''ubus'', ''call'', ''network.interface.'' @ i, ''status'']) (\<lambda>(out, e).
       if e \<noteq> None \<or> go_TrimSpace out = [] then ret None
       else (case js_iface6 J out of
           None \<Rightarrow> ret None
         | Some raw \<Rightarrow>
             bindE (if j6_l3 raw \<noteq> [] then linkLocalOf E (j6_l3 raw) else ret []) (\<lambda>ll.
               ret (Some \<lparr>s6_addr = first_cidr (j6_addrs raw), s6_prefix = first_cidr (j6_prefixes raw),
                 s6_gw = default_gw6 (j6_routes raw), s6_local = ll, s6_l3dev = j6_l3 raw, s6_up = j6_up raw\<rparr>))))"

definition with_status_wan6 :: "ifStatusV6 option \<Rightarrow> WANv6 \<Rightarrow> WANv6" where
  "with_status_wan6 st w = (case st of
     None \<Rightarrow> w
   | Some s \<Rightarrow> w\<lparr>w6_IP6Address := s6_addr s, w6_IP6Prefix := s6_prefix s, w6_IP6Gateway := s6_gw s, w6_Up := s6_up s,
       w6_LocalLink := (if s6_local s \<noteq> [] then s6_local s else w6_LocalLink w)\<rparr>)"

definition with_status_lan6 :: "ifStatusV6 option \<Rightarrow> LANv6 \<Rightarrow> LANv6" where
  "with_status_lan6 st l = (case st of
     None \<Rightarrow> l
   | Some s \<Rightarrow> l\<lparr>l6_IP6Address := s6_addr s,
       l6_LocalLink := (if s6_local s \<noteq> [] then s6_local s else l6_LocalLink l)\<rparr>)"

definition uci_WANv6s :: "jsons \<Rightarrow> 'w sys \<Rightarrow> ('w uci, WANv6 list) act" where
  "uci_WANv6s J E = bindE (on_store store_WANv6s)
     (mapA (\<lambda>w. bindE (ifaceStatusV6 J E (w6_ID w)) (\<lambda>st. ret (with_status_wan6 st w))))"

definition uci_LANv6s :: "jsons \<Rightarrow> 'w sys \<Rightarrow> ('w uci, LANv6 list) act" where
  "uci_LANv6s J E = bindE (on_store store_LANv6s)
     (mapA (\<lambda>l. bindE (ifaceStatusV6 J E (l6_Interface l)) (\<lambda>st. ret (with_status_lan6 st l))))"

function hex_nat :: "nat \<Rightarrow> string" where
  "hex_nat n = (if n < 16 then [hex_digit n] else hex_nat (n div 16) @ [hex_digit (n mod 16)])"
  by pat_completeness auto

termination
  by (relation "measure id") auto

declare hex_nat.simps [simp del]

text \<open>\<open>%x\<close> of an \<open>int64\<close>.\<close>

definition hex_int :: "int \<Rightarrow> string" where
  "hex_int i = (if i < 0 then ''-'' @ hex_nat (nat (- i)) else hex_nat (nat i))"

definition lease6_of :: "lib \<Rightarrow> (string \<Rightarrow> bool) \<Rightarrow> string \<Rightarrow> leaseJson6 \<Rightarrow> LeaseV6" where
  "lease6_of L reserved dev l =
     \<lparr>v6_Hostname = jl_hostname l, v6_MAC = NormalizeMAC (duidToMAC L (jl_duid l)), v6_LocalLink = [],
      v6_IPv6Addr = (case jl_addrs l of a # _ \<Rightarrow> a | [] \<Rightarrow> first_cidr (jl_prefixes l)),
      v6_DUID = jl_duid l, v6_IAID = hex_int (jl_iaid l), v6_Interface = dev, v6_ValidSeconds = jl_valid l,
      v6_Static = reserved (go_ToLower (lb_lower L) (jl_duid l)), v6_Remark = [], v6_Vendor = []\<rparr>"

definition uci_LeasesV6 :: "lib \<Rightarrow> jsons \<Rightarrow> 'w sys \<Rightarrow> ('w uci, LeaseV6 list) act" where
  "uci_LeasesV6 L J E =
     bindE (run_cmd E [] [''ubus'', ''call'', ''dhcp'', ''ipv6leases'']) (\<lambda>(out, e).
       if e \<noteq> None \<or> go_TrimSpace out = [] then ret []
       else (case js_leases6 J out of
           None \<Rightarrow> ret []
         | Some devs \<Rightarrow> bindE (on_store store_PrefixStaticsV6) (\<lambda>ps.
             let duids = map (\<lambda>p. go_ToLower (lb_lower L) (p6_DUID p)) (filter (\<lambda>p. p6_DUID p \<noteq> []) ps) in
             ret (concat (map (\<lambda>(dev, ls). map (lease6_of L (\<lambda>d. d \<in> set duids) dev) ls) devs)))))"

section \<open>The backend\<close>

definition uci_backend :: "lib \<Rightarrow> jsons \<Rightarrow> 'w sys \<Rightarrow> 'w uci backend" where
  "uci_backend L J E = \<lparr>be_Interfaces = uci_Interfaces E, be_Status = uci_Status E,
     be_DHCPServers = on_store store_DHCPServers, be_SaveDHCPServers = uci_SaveDHCPServers E,
     be_RestartDHCP = uci_RestartDHCP E, be_Statics = on_store store_Statics, be_ARPBind = on_store store_ARPBind,
     be_SaveStatics = uci_SaveStatics E, be_Leases = uci_Leases E, be_LeaseNotes = on_store store_LeaseNotes,
     be_SetLeaseNote = (\<lambda>k v. on_store (store_SetLeaseNote k v)), be_ACL = on_store store_ACL,
     be_SaveACL = uci_SaveACL E, be_Routes = on_store store_Routes, be_SaveRoutes = uci_SaveRoutes E,
     be_PolicyRules = on_store store_PolicyRules, be_SavePolicyRules = uci_SavePolicyRules E,
     be_RoutePushMode = on_store store_RoutePushMode, be_SaveRoutePushMode = uci_SaveRoutePushMode E,
     be_RouteTable = uci_RouteTable E, be_NICs = uci_NICs E, be_NetIfaces = uci_NetIfaces J E,
     be_SaveNetIface = uci_SaveNetIface E, be_DeleteNetIface = uci_DeleteNetIface E, be_WANAction = uci_WANAction E,
     be_InstallDHCP = uci_InstallDHCP E, be_DNSSettings = uci_DNSSettings E,
     be_SaveDNSSettings = uci_SaveDNSSettings L E, be_DNSDoH = on_store store_DNSDoH,
     be_SaveDNSDoH = uci_SaveDNSDoH L E, be_DNSRecords = on_store store_DNSRecords,
     be_SaveDNSRecords = uci_SaveDNSRecords L E, be_DNSDomainRoutes = on_store store_DNSDomainRoutes,
     be_SaveDNSDomainRoutes = uci_SaveDNSDomainRoutes L E, be_FlushDNSCache = uci_FlushDNSCache E,
     be_InstallDoH = uci_InstallDoH L E, be_WANv6s = uci_WANv6s J E, be_SaveWANv6s = uci_SaveWANv6s E,
     be_LANv6s = uci_LANv6s J E, be_SaveLANv6s = uci_SaveLANv6s E,
     be_PrefixStaticsV6 = on_store store_PrefixStaticsV6, be_SavePrefixStaticsV6 = uci_SavePrefixStaticsV6 E,
     be_ACLv6 = on_store store_ACLv6, be_SaveACLv6 = uci_SaveACLv6 E, be_LeasesV6 = uci_LeasesV6 L J E,
     be_NeighborsV6 = uci_NeighborsV6 E, be_DeleteNeighborV6 = uci_DeleteNeighborV6 E,
     be_FlushNeighborsV6 = uci_FlushNeighborsV6 E\<rparr>"

section \<open>Projections leave the sidecar alone\<close>

lemma keeps_sidecar [keeps_intros]: "keeps f sidecar"
  by (simp add: keeps_def sidecar_def)

lemma keeps_stock_part [keeps_intros]: "keeps f (stock_part E owned ifs)"
  unfolding stock_part_def by (intro keeps_intros) (simp add: keeps_def)

lemma keeps_uci_ifaceIP [keeps_intros]: "keeps f (uci_ifaceIP E i)"
  unfolding uci_ifaceIP_def by (intro keeps_intros)

lemma keeps_uci_ifaceDevice [keeps_intros]: "keeps f (uci_ifaceDevice E i)"
  unfolding uci_ifaceDevice_def Let_def by (intro keeps_intros)

lemma keeps_pool_part [keeps_intros]: "keeps f (pool_part E mode pushed w ifs s)"
  unfolding pool_part_def uci_startLimit_def by (intro keeps_intros)

lemma keeps_static_part [keeps_intros]: "keeps f (static_part E mode pushed servers s)"
  unfolding static_part_def Let_def by (intro keeps_intros)

lemma keeps_acl_part [keeps_intros]: "keeps f (acl_part w servers statics entries)"
  unfolding acl_part_def by (intro keeps_intros)

lemma keeps_maindhcp_part [keeps_intros]: "keeps f (maindhcp_part E on)"
  unfolding maindhcp_part_def by (intro keeps_intros)

lemma keeps_dhcp_batch [keeps_intros]: "keeps f (dhcp_batch E existing mode servers statics acl routes)"
  unfolding dhcp_batch_def Let_def by (intro keeps_intros)

lemma keeps_reloads [keeps_intros]:
  "keeps f (reload_dhcp E)" "keeps f (reload_network E)" "keeps f (reload_odhcpd E)" "keeps f (restart_dns E)"
  unfolding reload_dhcp_def reload_network_def reload_odhcpd_def restart_dns_def by (intro keeps_intros)+

lemma keeps_applyARP [keeps_intros]: "keeps f (applyARP E statics on)"
  unfolding applyARP_def arp_one_def by (intro keeps_intros)

lemma keeps_uci_apply: "keeps f (uci_apply E)"
  unfolding uci_apply_def by (intro keeps_intros)

lemma keeps_borrowed [keeps_intros]: "keeps f (borrowedV6Names E config)"
  unfolding borrowedV6Names_def by (intro keeps_intros)

lemma keeps_applyIPv6: "keeps f (applyIPv6 E)"
  unfolding applyIPv6_def managedNamesV6_def by (intro keeps_intros)

lemma keeps_dns_side [keeps_intros]:
  "keeps f (applyDoH E doh)" "keeps f (applyDNSHijack E on)" "keeps f (filterAAAASupported L E)" "keeps f (snapshot E)"
  unfolding applyDoH_def applyDNSHijack_def filterAAAASupported_def snapshot_def by (intro keeps_intros)+

lemma keeps_scalars_part [keeps_intros]: "keeps f (scalars_part L E st doh)"
  unfolding scalars_part_def by (intro keeps_intros)

lemma keeps_dns_batch [keeps_intros]: "keeps f (dns_batch L E s)"
  unfolding dns_batch_def managedNamesDNS_def by (intro keeps_intros)

lemma keeps_orZero [keeps_intros]: "keeps f m \<Longrightarrow> keeps f (orZero z m)"
  by (simp add: keeps_def orZero_def split: prod.split sum.split) (metis snd_conv)

text \<open>Projecting DNS keeps everything but the bookkeeping in the settings.\<close>

lemma keeps_bookkeeping [keeps_intros]:
  assumes "\<And>st d. f (st\<lparr>sb_st := (sb_st st)\<lparr>S_DNS := d\<rparr>\<rparr>) = f st" and "\<And>st d. f (st\<lparr>sb_disk := d\<rparr>) = f st"
  shows "keeps f (on_store (saveDNSBookkeeping a b c d))"
  using assms by (simp add: keeps_def on_store_def saveDNSBookkeeping_def save_st_def flushLocked_def split: prod.split)

lemma keeps_applyDNS:
  assumes "\<And>st d. f (st\<lparr>sb_st := (sb_st st)\<lparr>S_DNS := d\<rparr>\<rparr>) = f st" and "\<And>st d. f (st\<lparr>sb_disk := d\<rparr>) = f st"
  shows "keeps f (applyDNS L E)"
  unfolding applyDNS_def by (intro keeps_intros assms)

text \<open>A save followed by such a projection leaves what was saved.\<close>

lemma saved_then_kept:
  assumes "keeps f m"
  shows "f (ub_store (snd (bindE (on_store save) (\<lambda>_. m) b))) = f (snd (save (ub_store b)))"
proof -
  obtain r st where s: "save (ub_store b) = (r, st)" by (cases "save (ub_store b)")
  with assms show ?thesis
    by (cases r) (simp_all add: bindE_def on_store_def keeps_def)
qed

section \<open>The contract of the collections\<close>

lemma then_apply_keeps: "f (ub_store (snd (then_apply E save b))) = f (snd (save (ub_store b)))"
  unfolding then_apply_def by (rule saved_then_kept) (rule keeps_uci_apply)

lemma SaveDHCPServers_keeps:
  "f (ub_store (snd (uci_SaveDHCPServers E xs b))) = f (snd (store_SaveDHCPServers xs (ub_store b)))"
proof -
  have k: "keeps f (bindE (\<lambda>b. (Inr (), b\<lparr>ub_dropStock := ub_dropStock b @ dropped_stock old xs\<rparr>)) (\<lambda>_. uci_apply E))" for old
    by (intro keeps_intros keeps_uci_apply) (simp add: keeps_def)
  have "uci_SaveDHCPServers E xs b = bindE (on_store (store_SaveDHCPServers xs))
     (\<lambda>_. bindE (\<lambda>b. (Inr (), b\<lparr>ub_dropStock := ub_dropStock b @ dropped_stock (S_DHCPServers (sb_st (ub_store b0))) xs\<rparr>)) (\<lambda>_. uci_apply E)) b"
    if "b0 = b" for b0
    using that by (simp add: uci_SaveDHCPServers_def bindE_def on_store_def store_DHCPServers_def read_st_def)
  from this [OF refl] show ?thesis
    by (simp only: saved_then_kept [OF k])
qed

lemma save_then_IPv6: "f (ub_store (snd (bindE (on_store save) (\<lambda>_. applyIPv6 E) b))) = f (snd (save (ub_store b)))"
  by (rule saved_then_kept) (rule keeps_applyIPv6)

lemma save_then_DNS:
  assumes "\<And>st d. f (st\<lparr>sb_st := (sb_st st)\<lparr>S_DNS := d\<rparr>\<rparr>) = f st" and "\<And>st d. f (st\<lparr>sb_disk := d\<rparr>) = f st"
  shows "f (ub_store (snd (bindE (on_store save) (\<lambda>_. applyDNS L E) b))) = f (snd (save (ub_store b)))"
  by (rule saved_then_kept) (rule keeps_applyDNS [OF assms])

lemmas uci_read_simps = coll_defs uci_backend_def plain_load_def bindE_def ret_def on_store_def read_st_def

abbreviation side :: "'w uci \<Rightarrow> State" where
  "side b \<equiv> sb_st (ub_store b)"

lemma then_apply_side: "g (sb_st (ub_store (snd (then_apply E save b)))) = g (sb_st (snd (save (ub_store b))))"
  using then_apply_keeps [of "g \<circ> sb_st" E save b] by simp

interpretation uci_routes: coll_laws "routes_coll (uci_backend L J E)" "S_Routes \<circ> sb_st \<circ> ub_store" "\<lambda>_. ()"
  for L J and E :: "'w sys"
proof unfold_locales
  fix b :: "'w uci" and xs
  show "(S_Routes \<circ> sb_st \<circ> ub_store) (snd (c_save (routes_coll (uci_backend L J E)) xs () b)) = xs"
    using then_apply_side [of S_Routes E "store_SaveRoutes xs" b]
    by (simp add: coll_defs uci_backend_def plain_save_def uci_SaveRoutes_def store_SaveRoutes_def)
qed (simp_all add: uci_read_simps store_Routes_def route_item_def)

interpretation uci_rules: coll_laws "rules_coll (uci_backend L J E)" "S_PolicyRules \<circ> sb_st \<circ> ub_store" "\<lambda>_. ()"
  for L J and E :: "'w sys"
proof unfold_locales
  fix b :: "'w uci" and xs
  show "(S_PolicyRules \<circ> sb_st \<circ> ub_store) (snd (c_save (rules_coll (uci_backend L J E)) xs () b)) = xs"
    using then_apply_side [of S_PolicyRules E "store_SavePolicyRules xs" b]
    by (simp add: coll_defs uci_backend_def plain_save_def uci_SavePolicyRules_def store_SavePolicyRules_def)
qed (simp_all add: uci_read_simps store_PolicyRules_def rule_item_def)

interpretation uci_servers: coll_laws "servers_coll (uci_backend L J E)" "S_DHCPServers \<circ> sb_st \<circ> ub_store" "\<lambda>_. ()"
  for L J and E :: "'w sys"
proof unfold_locales
  fix b :: "'w uci" and xs
  show "(S_DHCPServers \<circ> sb_st \<circ> ub_store) (snd (c_save (servers_coll (uci_backend L J E)) xs () b)) = xs"
    using SaveDHCPServers_keeps [of "S_DHCPServers \<circ> sb_st" E xs b]
    by (simp add: coll_defs uci_backend_def plain_save_def store_SaveDHCPServers_def)
qed (simp_all add: uci_read_simps store_DHCPServers_def server_item_def)

interpretation uci_records: coll_laws "records_coll (uci_backend L J E)" "S_DNSRecords \<circ> sb_st \<circ> ub_store" "\<lambda>_. ()"
  for L J and E :: "'w sys"
proof unfold_locales
  fix b :: "'w uci" and xs
  show "(S_DNSRecords \<circ> sb_st \<circ> ub_store) (snd (c_save (records_coll (uci_backend L J E)) xs () b)) = xs"
    using save_then_DNS [of "S_DNSRecords \<circ> sb_st" "store_SaveDNSRecords xs" L E b]
    by (simp add: coll_defs uci_backend_def plain_save_def uci_SaveDNSRecords_def store_SaveDNSRecords_def)
qed (simp_all add: uci_read_simps store_DNSRecords_def record_item_def)

interpretation uci_domroutes: coll_laws "domroutes_coll (uci_backend L J E)" "S_DNSDomainRoutes \<circ> sb_st \<circ> ub_store" "\<lambda>_. ()"
  for L J and E :: "'w sys"
proof unfold_locales
  fix b :: "'w uci" and xs
  show "(S_DNSDomainRoutes \<circ> sb_st \<circ> ub_store) (snd (c_save (domroutes_coll (uci_backend L J E)) xs () b)) = xs"
    using save_then_DNS [of "S_DNSDomainRoutes \<circ> sb_st" "store_SaveDNSDomainRoutes xs" L E b]
    by (simp add: coll_defs uci_backend_def plain_save_def uci_SaveDNSDomainRoutes_def store_SaveDNSDomainRoutes_def)
qed (simp_all add: uci_read_simps store_DNSDomainRoutes_def domroute_item_def)

interpretation uci_prefix6s: coll_laws "prefix6s_coll (uci_backend L J E)" "S_PrefixStaticsV6 \<circ> sb_st \<circ> ub_store" "\<lambda>_. ()"
  for L J and E :: "'w sys"
proof unfold_locales
  fix b :: "'w uci" and xs
  show "(S_PrefixStaticsV6 \<circ> sb_st \<circ> ub_store) (snd (c_save (prefix6s_coll (uci_backend L J E)) xs () b)) = xs"
    using save_then_IPv6 [of "S_PrefixStaticsV6 \<circ> sb_st" "store_SavePrefixStaticsV6 xs" E b]
    by (simp add: coll_defs uci_backend_def plain_save_def uci_SavePrefixStaticsV6_def store_SavePrefixStaticsV6_def)
qed (simp_all add: uci_read_simps store_PrefixStaticsV6_def prefix6_item_def)

interpretation uci_statics: coll_laws "statics_coll (uci_backend L J E)" "S_Statics \<circ> sb_st \<circ> ub_store" "S_ARPBind \<circ> sb_st \<circ> ub_store"
  for L J and E :: "'w sys"
proof unfold_locales
  fix b :: "'w uci" and xs
  show "(S_Statics \<circ> sb_st \<circ> ub_store) (snd (c_save (statics_coll (uci_backend L J E)) xs ((S_ARPBind \<circ> sb_st \<circ> ub_store) b) b)) = xs"
    using then_apply_side [of S_Statics E "store_SaveStatics xs (S_ARPBind (side b))" b]
    by (simp add: coll_defs uci_backend_def uci_SaveStatics_def store_SaveStatics_def)
  show "(S_ARPBind \<circ> sb_st \<circ> ub_store) (snd (c_save (statics_coll (uci_backend L J E)) xs ((S_ARPBind \<circ> sb_st \<circ> ub_store) b) b)) =
      (S_ARPBind \<circ> sb_st \<circ> ub_store) b"
    using then_apply_side [of S_ARPBind E "store_SaveStatics xs (S_ARPBind (side b))" b]
    by (simp add: coll_defs uci_backend_def uci_SaveStatics_def store_SaveStatics_def)
qed (simp_all add: uci_read_simps store_Statics_def store_ARPBind_def static_item_def)

text \<open>C2: on the uci backend, whatever the machine answers to every command and whether or not the sidecar can be written, an update, a delete, a toggle or a batch of routes, policy rules, DNS records, domain routes or prefix reservations changes the map from ids to items exactly as its specification edit_map says.\<close>

theorem uci_edits_refine_map:
  "lookup_item route_item (S_Routes (side (sv_be (snd (route_edit (uci_backend L J E) e1 s))))) =
      edit_map route_item validateRoute e1 (lookup_item route_item (S_Routes (side (sv_be s)))) \<and>
    lookup_item rule_item (S_PolicyRules (side (sv_be (snd (rule_edit (uci_backend L J E) e2 s))))) =
      edit_map rule_item validatePolicyRule e2 (lookup_item rule_item (S_PolicyRules (side (sv_be s)))) \<and>
    lookup_item record_item (S_DNSRecords (side (sv_be (snd (record_edit (uci_backend L J E) e3 s))))) =
      edit_map record_item validateDNSRecord e3 (lookup_item record_item (S_DNSRecords (side (sv_be s)))) \<and>
    lookup_item domroute_item (S_DNSDomainRoutes (side (sv_be (snd (domroute_edit (uci_backend L J E) e4 s))))) =
      edit_map domroute_item validateDNSDomainRoute e4 (lookup_item domroute_item (S_DNSDomainRoutes (side (sv_be s)))) \<and>
    lookup_item prefix6_item (S_PrefixStaticsV6 (side (sv_be (snd (prefix6_edit (uci_backend L J E) e5 s))))) =
      edit_map prefix6_item validatePrefixStaticV6 e5 (lookup_item prefix6_item (S_PrefixStaticsV6 (side (sv_be s))))"
  using uci_routes.coll_edit_map [of L J E validateRoute e1 s] uci_rules.coll_edit_map [of L J E validatePolicyRule e2 s]
    uci_records.coll_edit_map [of L J E validateDNSRecord e3 s]
    uci_domroutes.coll_edit_map [of L J E validateDNSDomainRoute e4 s]
    uci_prefix6s.coll_edit_map [of L J E validatePrefixStaticV6 e5 s]
  unfolding edits_are_coll_edits
  by (simp add: uci_routes.items_def uci_rules.items_def uci_records.items_def uci_domroutes.items_def
      uci_prefix6s.items_def coll_defs)

end
