(* ===== verification/UciProps.thy ===== *)
theory UciProps
  imports UciBackend UciApplyProps
begin

text \<open>
  What the projections of DNS and IPv6 guarantee, and where the parts of the uci backend work against
  each other: the lists and scalars of dnsmasq, DoH without its proxy, the import of a configuration
  that this program wrote itself, the bridge of a LAN, and the sections the IPv6 batches touch.
\<close>

section \<open>The lists of dnsmasq\<close>

text \<open>The command changes the value of the key \<open>k\<close>, which is an option.\<close>

fun on_key :: "ukey \<Rightarrow> ucmd \<Rightarrow> bool" where
  "on_key k (SetType k' t) \<longleftrightarrow> k' = k"
| "on_key k (SetKV k' v) \<longleftrightarrow> k' = k"
| "on_key k (AddList k' v) \<longleftrightarrow> k' = k"
| "on_key k (DelList k' v) \<longleftrightarrow> k' = k"
| "on_key k (DelK k') \<longleftrightarrow> k' = k \<or> (\<exists>c s opt. k = Opt c s opt \<and> k' = Sec c s)"
| "on_key k (Commit c) \<longleftrightarrow> False"

lemma masq_not_uciName [simp]: "dnsmasqSec \<noteq> uciName i"
proof
  assume "dnsmasqSec = uciName i"
  then have h: "hd (uciName i) = CHR ''@''" by (metis list.sel(1))
  have r: "byte n \<noteq> CHR ''@''" if "name_rune n" for n
  proof
    assume "byte n = CHR ''@''"
    then have "code (byte n) = 64" by (simp add: eval_simps)
    with that show False by (auto simp: name_rune_def)
  qed
  show False
    using h r by (cases "runes i") (auto simp: uciName_def Let_def split: if_splits)
qed


definition scalar_cmd :: "ucmd \<Rightarrow> bool" where
  "scalar_cmd c \<longleftrightarrow> (\<exists>k \<in> set dnsManagedScalars. (\<exists>v. c = SetKV (masq k) v) \<or> c = DelK (masq k))"

lemma scalar_cmd_simps [simp]:
  "scalar_cmd (SetKV (masq k) v) \<longleftrightarrow> k \<in> set dnsManagedScalars"
  "scalar_cmd (DelK (masq k)) \<longleftrightarrow> k \<in> set dnsManagedScalars"
  by (auto simp: scalar_cmd_def)

lemma scalar_cmd_cmds [simp]:
  "scalar_cmd (setIntOrDel (masq k) n) \<longleftrightarrow> k \<in> set dnsManagedScalars"
  "scalar_cmd (setBoolKV (masq k) on) \<longleftrightarrow> k \<in> set dnsManagedScalars"
  "scalar_cmd (restoreStock (masq k) v) \<longleftrightarrow> k \<in> set dnsManagedScalars"
  by (simp_all add: cmd_defs)

lemma scalar_cmds_all:
  "\<forall>c \<in> set (scalar_cmds ok st). scalar_cmd c" "\<forall>c \<in> set (upstream_cmds st doh). scalar_cmd c"
  "\<forall>c \<in> set (restore_cmds m). scalar_cmd c"
  by (simp_all add: scalar_cmds_def upstream_cmds_def restore_cmds_def)
    (simp_all add: dnsManagedScalars_def)

lemma scalars_keys:
  assumes "scalars_part L E st doh b = (Inr (cs, stock), b')" and "c \<in> set cs"
  shows "scalar_cmd c"
proof -
  obtain ok m where "cs = scalar_cmds ok st @ upstream_cmds st doh \<or> cs = upstream_cmds st doh \<or> cs = [] \<or> cs = restore_cmds m"
  proof (cases "dns_managed st doh")
    case True
    with assms(1) obtain m b1 cs1 where "cs = cs1 @ upstream_cmds st doh"
      and "(if dn_Enabled st then
                 bindE (if dn_FilterAAAA st then filterAAAASupported L E else ret False)
                   (\<lambda>ok. ret (scalar_cmds ok st))
               else ret []) b1 = (Inr cs1, b')"
      unfolding scalars_part_def by (auto simp: ret_def elim!: bindE_InrE)
    then show ?thesis by (auto simp: ret_def intro: that elim!: bindE_InrE split: if_splits)
  next
    case False
    with assms(1) show ?thesis
      by (cases "dn_SavedStock st") (auto simp: scalars_part_def ret_def intro: that)
  qed
  then show ?thesis
    using assms(2) scalar_cmds_all by fastforce
qed

lemma scalar_cmd_other: "scalar_cmd c \<Longrightarrow> opt \<notin> set dnsManagedScalars \<Longrightarrow> \<not> on_key (masq opt) c"
  by (auto simp: scalar_cmd_def)

lemma lists_not_scalar:
  "''server'' \<notin> set dnsManagedScalars" "''address'' \<notin> set dnsManagedScalars" "''rebind_domain'' \<notin> set dnsManagedScalars"
  by (simp_all add: dnsManagedScalars_def)

lemma foldl_ignore:
  assumes "\<And>c xs. c \<in> set cs \<Longrightarrow> step c xs = xs"
  shows "foldl (\<lambda>xs c. step c xs) xs cs = xs"
  using assms by (induction cs) auto

lemma foldl_del:
  assumes "\<And>v xs. step (DelList k v) xs = removeAll v xs"
  shows "foldl (\<lambda>xs c. step c xs) xs (map (DelList k) old) = filter (\<lambda>v. v \<notin> set old) xs"
  using assms
proof (induction old arbitrary: xs)
  case (Cons v old)
  then show ?case by (simp add: removeAll_filter_not_eq) (metis (no_types, lifting) filter_cong)
qed simp

lemma foldl_add:
  assumes "\<And>v xs. step (AddList k v) xs = xs @ [v]"
  shows "foldl (\<lambda>xs c. step c xs) xs (map (AddList k) new) = xs @ new"
  using assms by (induction new arbitrary: xs) simp_all


text \<open>A machine of that kind.\<close>

fun plain_step :: "ukey \<Rightarrow> ucmd \<Rightarrow> string list \<Rightarrow> string list" where
  "plain_step k (DelList k' v) xs = (if k' = k then removeAll v xs else xs)"
| "plain_step k (AddList k' v) xs = (if k' = k then xs @ [v] else xs)"
| "plain_step k (SetKV k' v) xs = (if k' = k then [v] else xs)"
| "plain_step k (DelK k') xs = (if on_key k (DelK k') then [] else xs)"
| "plain_step k c xs = xs"

definition demo_dns :: DNSSettings where
  "demo_dns = zeroDNSSettings\<lparr>dn_Enabled := True, dn_DNSPrimary := ''9.9.9.9'', dn_PrevServers := [''1.1.1.1''],
     dn_SavedStock := Some Map.empty\<rparr>"


section \<open>Giving dnsmasq back\<close>

lemma mapA_reads:
  assumes "\<And>x. x \<in> set xs \<Longrightarrow> f x s = (Inr (g x), s)"
  shows "mapA f xs s = (Inr (map g xs), s)"
  using assms by (induction xs) auto

lemma snapshot_reads:
  assumes "\<And>k. k \<in> set dnsManagedScalars \<Longrightarrow> \<exists>e. uciGet E (''dhcp.@dnsmasq[0].'' @ k) b = (Inr (old k, e), b)"
  shows "snapshot E b = (Inr (map_of (map (\<lambda>k. (k, old k)) dnsManagedScalars)), b)"
proof -
  have "mapA (\<lambda>k. bindE (uciGet E (''dhcp.@dnsmasq[0].'' @ k)) (\<lambda>(v, e). ret (k, v))) dnsManagedScalars b =
      (Inr (map (\<lambda>k. (k, old k)) dnsManagedScalars), b)"
    by (rule mapA_reads) (use assms in \<open>force simp: bindE_def ret_def\<close>)
  then show ?thesis by (simp add: snapshot_def bindE_def ret_def)
qed

lemma restore_map: "restore_cmds (map_of (map (\<lambda>k. (k, old k)) dnsManagedScalars)) = map (\<lambda>k. restoreStock (masq k) (old k)) dnsManagedScalars"
  by (rule map_cong [OF refl, of dnsManagedScalars, THEN trans [OF restore_cmds_def]])
    (simp add: stock_value_def map_of_map_restrict restrict_map_def)

text \<open>C5: the scalars of dnsmasq survive a take-over. When the DNS settings or DoH are switched on for the first time the old value of every managed option is remembered; the commands sent write no other option of dnsmasq; as long as the take-over lasts the memory does not change; and the commands sent when both are off again set every one of these options to its remembered value, or delete it if it had none.\<close>

theorem dns_stock_restored:
  assumes read: "\<And>k. k \<in> set dnsManagedScalars \<Longrightarrow> \<exists>e. uciGet E (''dhcp.@dnsmasq[0].'' @ k) b = (Inr (old k, e), b)"
    and on: "dn_SavedStock st = None" "dns_managed st doh" "scalars_part L E st doh b = (Inr (cs, stock), b')"
    and on2: "dn_SavedStock st2 = stock" "dns_managed st2 doh2" "scalars_part L E st2 doh2 b2 = (Inr (cs2, stock2), b2')"
    and off: "dn_SavedStock st3 = stock2" "\<not> dns_managed st3 doh3"
  shows "(\<forall>c \<in> set (cs @ cs2). scalar_cmd c) \<and> stock2 = stock \<and>
    scalars_part L E st3 doh3 b3 =
      (Inr (map (\<lambda>k. if old k = [] then DelK (masq k) else SetKV (masq k) (old k)) dnsManagedScalars, None), b3)"
proof -
  let ?m = "map_of (map (\<lambda>k. (k, old k)) dnsManagedScalars)"
  have m: "snapshot E b = (Inr ?m, b)" by (rule snapshot_reads [OF read])
  have stock: "stock = Some ?m"
    using on m by (auto simp: scalars_part_def ret_def elim!: bindE_InrE split: if_splits)
  moreover have "stock2 = stock"
    using on2 stock by (auto simp: scalars_part_def ret_def elim!: bindE_InrE split: if_splits)
  moreover have "scalars_part L E st3 doh3 b3 = (Inr (restore_cmds ?m, None), b3)"
    using off stock calculation(2) by (simp add: scalars_part_def ret_def)
  ultimately show ?thesis
    using scalars_keys [OF on(3)] scalars_keys [OF on2(3)] by (auto simp: restore_map restoreStock_def)
qed

text \<open>A machine whose cache size is set.\<close>

definition cache_sys :: "unit sys" where
  "cache_sys = quiet_sys\<lparr>sy_run := (\<lambda>stdin argv w.
     (if argv = [''uci'', ''-q'', ''get'', ''dhcp.@dnsmasq[0].cachesize''] then (''150'' @ [byte 10], None) else ([], Some ''not found''), w))\<rparr>"

definition cache_old :: "string \<Rightarrow> string" where
  "cache_old k = (if k = ''cachesize'' then ''150'' else [])"

lemma cache_reads: "\<exists>e. uciGet cache_sys (''dhcp.@dnsmasq[0].'' @ k) b = (Inr (cache_old k, e), b)"
proof -
  have "go_TrimSpace (''150'' @ [byte 10]) = ''150''" and "go_TrimSpace [] = []"
    by (simp_all add: eval_simps)
  then show ?thesis
    by (auto simp: uciGet_def run_cmd_def cache_sys_def cache_old_def bindE_def ret_def)
qed

theorem dns_stock_restored_witness:
  "\<forall>L b b3. \<exists>stock cs b'. scalars_part L cache_sys (demo_dns\<lparr>dn_SavedStock := None\<rparr>) zeroDNSDoH b = (Inr (cs, stock), b') \<and>
     SetKV (masq ''cachesize'') ''150'' \<in> set (case scalars_part L cache_sys (zeroDNSSettings\<lparr>dn_SavedStock := stock\<rparr>) zeroDNSDoH b3 of
       (Inr (ds, m), b) \<Rightarrow> ds | (Inl e, b) \<Rightarrow> [])"
proof (intro allI)
  fix L and b b3 :: "unit uci"
  let ?on = "demo_dns\<lparr>dn_SavedStock := None\<rparr>" and ?off = "\<lambda>m. zeroDNSSettings\<lparr>dn_SavedStock := m\<rparr>"
  have man: "dns_managed ?on zeroDNSDoH" "\<not> dns_managed (?off m) zeroDNSDoH" "dn_Enabled ?on" "\<not> dn_FilterAAAA ?on" for m
    by (simp_all add: dns_managed_def demo_dns_def zeroDNSSettings_def zeroDNSDoH_def)
  have sn: "snapshot cache_sys b = (Inr (map_of (map (\<lambda>k. (k, cache_old k)) dnsManagedScalars)), b)"
    by (rule snapshot_reads) (rule cache_reads)
  obtain cs stock b' where p: "scalars_part L cache_sys ?on zeroDNSDoH b = (Inr (cs, stock), b')"
    and q: "\<exists>m. stock = Some m"
    using man sn by (simp add: scalars_part_def bindE_def ret_def)
  obtain cs2 stock2 b2' where p2: "scalars_part L cache_sys (?on\<lparr>dn_SavedStock := stock\<rparr>) zeroDNSDoH b = (Inr (cs2, stock2), b2')"
    using man q by (auto simp: scalars_part_def dns_managed_def bindE_def ret_def)
  have "dns_managed (?on\<lparr>dn_SavedStock := stock\<rparr>) zeroDNSDoH" using man by (simp add: dns_managed_def)
  note r = dns_stock_restored [OF cache_reads _ man(1) p _ this p2 _ man(2), of stock2 b3]
  then have s2: "stock2 = stock" by simp
  with r have "scalars_part L cache_sys (?off stock2) zeroDNSDoH b3 =
      (Inr (map (\<lambda>k. if cache_old k = [] then DelK (masq k) else SetKV (masq k) (cache_old k)) dnsManagedScalars, None), b3)"
    by simp
  with p s2 show "\<exists>stock cs b'. scalars_part L cache_sys ?on zeroDNSDoH b = (Inr (cs, stock), b') \<and>
     SetKV (masq ''cachesize'') ''150'' \<in> set (case scalars_part L cache_sys (?off stock) zeroDNSDoH b3 of
       (Inr (ds, m), b) \<Rightarrow> ds | (Inl e, b) \<Rightarrow> [])"
    by (intro exI [of _ stock] exI [of _ cs] exI [of _ b']) (simp add: cache_old_def dnsManagedScalars_def)
qed

section \<open>DoH without its proxy\<close>

text \<open>DoH can be switched on where https-dns-proxy is not installed. dnsmasq is then told not to use any other resolver and to ask 127.0.0.1 at the port of the proxy, while nothing is configured that could listen there.\<close>

theorem doh_without_proxy:
  assumes "dh_Enabled doh" and "scalars_part L E st doh b = (Inr (cs, stock), b')"
    and "\<not> sy_exists E ''/etc/init.d/https-dns-proxy'' (ub_world c)"
  shows "SetKV (masq ''noresolv'') ''1'' \<in> set cs \<and>
    AddList (masq ''server'') (''127.0.0.1#'' @ go_Itoa (dh_ListenPort doh)) \<in> set (dns_tail st doh records routes existing) \<and>
    applyDoH E doh c = (Inr (), c)"
proof (intro conjI)
  have m: "dns_managed st doh" using assms(1) by (simp add: dns_managed_def)
  obtain cs1 where "cs = cs1 @ upstream_cmds st doh"
    using assms(2) m by (auto simp: scalars_part_def ret_def elim!: bindE_InrE)
  with assms(1) show "SetKV (masq ''noresolv'') ''1'' \<in> set cs"
    by (simp add: upstream_cmds_def)
  show "AddList (masq ''server'') (''127.0.0.1#'' @ go_Itoa (dh_ListenPort doh)) \<in> set (dns_tail st doh records routes existing)"
    using assms(1) by (simp add: dns_tail_def replace_list_def desiredDNSServers_def)
  show "applyDoH E doh c = (Inr (), c)"
    using assms(3) by (simp add: applyDoH_def initdExists_def bindE_def ret_def)
qed

theorem doh_without_proxy_witness:
  "\<forall>L b. \<exists>cs stock b'. scalars_part L quiet_sys zeroDNSSettings (zeroDNSDoH\<lparr>dh_Enabled := True, dh_ListenPort := 5053\<rparr>) b =
      (Inr (cs, stock), b') \<and> SetKV (masq ''noresolv'') ''1'' \<in> set cs"
proof (intro allI)
  fix L and b :: "unit uci"
  let ?doh = "zeroDNSDoH\<lparr>dh_Enabled := True, dh_ListenPort := 5053\<rparr>"
  have sn: "snapshot quiet_sys b = (Inr (map_of (map (\<lambda>k. (k, [])) dnsManagedScalars)), b)"
    by (rule snapshot_reads) (simp add: quiet_get)
  obtain cs stock b' where p: "scalars_part L quiet_sys zeroDNSSettings ?doh b = (Inr (cs, stock), b')"
    using sn by (simp add: scalars_part_def dns_managed_def zeroDNSSettings_def bindE_def ret_def)
  have "\<not> sy_exists quiet_sys ''/etc/init.d/https-dns-proxy'' (ub_world b)"
    by (simp add: quiet_sys_def)
  from doh_without_proxy [OF _ p this] p show "\<exists>cs stock b'. scalars_part L quiet_sys zeroDNSSettings ?doh b = (Inr (cs, stock), b') \<and>
      SetKV (masq ''noresolv'') ''1'' \<in> set cs"
    by auto
qed

section \<open>What an import forgets\<close>

lemma set_map_filter: "set (List.map_filter f xs) = {y. \<exists>x \<in> set xs. f x = Some y}"
  by (force simp: List.map_filter_def)

lemma import_option_managed: "ds_Managed (import_option srv o') = ds_Managed srv"
  by (auto simp: import_option_def split: list.splits option.splits)

lemma import_options_managed: "ds_Managed (foldl import_option srv os) = ds_Managed srv"
  by (induction os arbitrary: srv) (simp_all add: import_option_managed)

lemma import_pool_unmanaged: "import_pool ifaces s = Some p \<Longrightarrow> \<not> ds_Managed p"
  by (auto simp: import_pool_def import_options_managed zeroDHCPServer_def Let_def split: if_splits prod.splits)

lemma import_static_unmanaged: "import_static s = Some p \<Longrightarrow> \<not> sl_Managed p"
  by (auto simp: import_static_def zeroStaticLease_def Let_def split: if_splits)

lemma import_acl_unmanaged: "import_acl s = Some p \<Longrightarrow> \<not> ae_Managed p"
  by (auto simp: import_acl_def zeroACLEntry_def Let_def split: if_splits)

lemma import_route_unmanaged: "import_route s = Some p \<Longrightarrow> \<not> rt_Managed p"
  by (auto simp: import_route_def zeroRoute_def Let_def split: if_splits option.splits)

lemma imported_unmanaged:
  "filter ds_Managed (S_DHCPServers (import_state ifaces dhcp net)) = []"
  "filter (\<lambda>s. sl_Enabled s \<and> sl_Managed s) (S_Statics (import_state ifaces dhcp net)) = []"
  "filter (\<lambda>e. ae_Enabled e \<and> ae_Managed e) (acl_Entries (S_ACL (import_state ifaces dhcp net))) = []"
  "filter route_active (S_Routes (import_state ifaces dhcp net)) = []"
  by (auto simp: import_state_def zeroState_def filter_empty_conv route_active_def set_map_filter
      dest: import_pool_unmanaged import_static_unmanaged import_acl_unmanaged import_route_unmanaged)

text \<open>the import of an existing configuration, which happens when the sidecar is missing, takes over pools, reservations, access-list entries and routes without the information that this program owns them. So the first save after it deletes every section of dhcp that carries the marker, and every section of network that carries it and is not one of the imported policy rules, although the imported lists still show them.\<close>

theorem import_forgets_ownership:
  assumes "st = import_state ifaces dhcp net"
    and "dhcp_batch E existing mode (S_DHCPServers st) (S_Statics st) (S_ACL st) (S_Routes st) b = (Inr cmds, b')"
  shows "(\<forall>n \<in> set existing. DelK (Sec ''dhcp'' n) \<in> set cmds) \<and>
    (\<forall>n \<in> set found. n \<notin> uciName ` pr_ID ` set (S_PolicyRules st) \<longrightarrow>
       DelK (Sec ''network'' n) \<in> set (network_cmds found (S_Routes st) (S_PolicyRules st)))"
proof
  have w: "(acl_Mode (S_ACL st) = ACLWhitelist) = False"
    by (simp add: assms(1) import_state_def)
  note no = imported_unmanaged [of ifaces dhcp net, folded assms(1)]
  show "\<forall>n \<in> set existing. DelK (Sec ''dhcp'' n) \<in> set cmds"
    using assms(2) unfolding dhcp_batch_def Let_def w no
    by (auto simp: acl_part_def acl_hosts_def no ret_def join_parts_def delete_others_def
        elim!: bindE_InrE)
  show "\<forall>n \<in> set found. n \<notin> uciName ` pr_ID ` set (S_PolicyRules st) \<longrightarrow>
      DelK (Sec ''network'' n) \<in> set (network_cmds found (S_Routes st) (S_PolicyRules st))"
    by (auto simp: network_cmds_def delete_others_def network_keep_def no)
qed

definition lost_pool :: uciSec where
  "lost_pool = \<lparr>us_name = ''guest'', us_typ = ''dhcp'',
     us_opts = [''interface'' \<mapsto> [''guest''], managedOpt \<mapsto> [managedMarker]]\<rparr>"

theorem import_forgets_ownership_witness:
  "\<forall>b. \<exists>cmds b'. dhcp_batch quiet_sys [''guest''] RoutePushOff (S_DHCPServers (import_state [] [lost_pool] []))
       (S_Statics (import_state [] [lost_pool] [])) (S_ACL (import_state [] [lost_pool] []))
       (S_Routes (import_state [] [lost_pool] [])) b = (Inr cmds, b') \<and> DelK (Sec ''dhcp'' ''guest'') \<in> set cmds"
proof
  fix b :: "unit uci"
  let ?st = "import_state [] [lost_pool] []"
  have w: "(acl_Mode (S_ACL ?st) = ACLWhitelist) = False"
    by (simp add: import_state_def)
  obtain cmds b' where d: "dhcp_batch quiet_sys [''guest''] RoutePushOff (S_DHCPServers ?st) (S_Statics ?st) (S_ACL ?st)
      (S_Routes ?st) b = (Inr cmds, b')"
    unfolding dhcp_batch_def Let_def w imported_unmanaged
    by (simp add: bindE_def ret_def acl_part_def acl_hosts_def imported_unmanaged join_parts_def stock_part_def uciShow_def
        quiet_run quiet_get maindhcp_part_def)
  with import_forgets_ownership [OF refl d] show "\<exists>cmds b'. dhcp_batch quiet_sys [''guest''] RoutePushOff (S_DHCPServers ?st)
      (S_Statics ?st) (S_ACL ?st) (S_Routes ?st) b = (Inr cmds, b') \<and> DelK (Sec ''dhcp'' ''guest'') \<in> set cmds"
    by simp
qed

section \<open>A LAN bridge is collected as garbage\<close>

text \<open>saving a LAN with two or more ports marks the device section of its bridge as owned by this program, also when it is a stock section that already existed. The next projection of the DHCP and routing configuration, after any save of a pool, a reservation, an access list, a route or a rule, deletes every marked section of network that is not a route or a rule, and so that bridge.\<close>

theorem bridge_is_collected:
  assumes "lan_part E i x b = (Inr (dev, cs), b')" and "2 \<le> length (dedupePorts (ni_Ports x))"
  shows "\<exists>sec. SetKV (net_opt sec ''name'') dev \<in> set cs \<and> SetKV (net_opt sec managedOpt) managedMarker \<in> set cs \<and>
    (\<forall>existing routes rules. sec \<in> set existing \<and> sec \<notin> set (network_keep routes rules) \<longrightarrow>
       DelK (Sec ''network'' sec) \<in> set (network_cmds existing routes rules))"
proof -
  have "\<exists>bs c c'. writeBridge E dev (dedupePorts (ni_Ports x)) c = (Inr bs, c') \<and> (\<forall>y \<in> set bs. y \<in> set cs)"
    using assms by (auto simp: lan_part_def Let_def ret_def elim!: bindE_InrE split: if_splits) (blast+)?
  then obtain bs c c' where w: "writeBridge E dev (dedupePorts (ni_Ports x)) c = (Inr bs, c')"
    and cs: "\<forall>y \<in> set bs. y \<in> set cs" by blast
  from w have "\<exists>new sec ds. bs = bridge_cmds new sec dev (dedupePorts (ni_Ports x)) @ ds"
    by (auto simp: writeBridge_def Let_def ret_def elim!: bindE_InrE) blast+
  then obtain new sec ds where "bs = bridge_cmds new sec dev (dedupePorts (ni_Ports x)) @ ds" by blast
  then have "SetKV (net_opt sec ''name'') dev \<in> set cs" "SetKV (net_opt sec managedOpt) managedMarker \<in> set cs"
    using cs by (auto simp: bridge_cmds_def)
  then show ?thesis
    by (intro exI [of _ sec]) (auto simp: network_cmds_def delete_others_def)
qed

definition two_port_lan :: NetIface where
  "two_port_lan = zeroNetIface\<lparr>ni_ID := ''lan'', ni_Role := RoleLAN, ni_Ports := [''eth0'', ''eth1'']\<rparr>"

theorem bridge_is_collected_witness:
  "\<forall>b. \<exists>dev cs b' sec. lan_part quiet_sys ''lan'' two_port_lan b = (Inr (dev, cs), b') \<and>
     SetKV (net_opt sec managedOpt) managedMarker \<in> set cs \<and>
     DelK (Sec ''network'' sec) \<in> set (network_cmds [sec] [] [])"
proof
  fix b :: "unit uci"
  have p: "dedupePorts (ni_Ports two_port_lan) = [''eth0'', ''eth1'']"
    by (simp add: dedupePorts_def two_port_lan_def zeroNetIface_def eval_simps)
  have d: "ni_Device two_port_lan = []"
    by (simp add: two_port_lan_def zeroNetIface_def)
  obtain dev cs b' where l: "lan_part quiet_sys ''lan'' two_port_lan b = (Inr (dev, cs), b')"
    using d p by (simp add: lan_part_def Let_def bindE_def ret_def writeBridge_def deviceSectionByName_def uci_secs_def
        uciShow_def quiet_run detachPorts_def)
  from bridge_is_collected [OF l] p show "\<exists>dev cs b' sec. lan_part quiet_sys ''lan'' two_port_lan b = (Inr (dev, cs), b') \<and>
     SetKV (net_opt sec managedOpt) managedMarker \<in> set cs \<and>
     DelK (Sec ''network'' sec) \<in> set (network_cmds [sec] [] [])"
    using l by (fastforce simp: network_keep_def)
qed

section \<open>What the IPv6 projection touches\<close>

text \<open>The command writes one of the options of that section.\<close>

fun sets_option :: "string \<Rightarrow> string \<Rightarrow> string set \<Rightarrow> ucmd \<Rightarrow> bool" where
  "sets_option config n opts (SetKV k v) \<longleftrightarrow> k \<in> Opt config n ` opts"
| "sets_option config n opts (AddList k v) \<longleftrightarrow> k \<in> Opt config n ` opts"
| "sets_option config n opts (DelK k) \<longleftrightarrow> k \<in> Opt config n ` opts"
| "sets_option config n opts c \<longleftrightarrow> False"

definition lan_net_options :: "string set" where
  "lan_net_options = {''ip6assign'', ''ip6class'', ''ip6hint''}"

definition lan_dhcp_options :: "string set" where
  "lan_dhcp_options = {''interface'', managedOptV6, ''dhcpv6'', ''ra'', ''ra_management'', ''leasetime'', ''ra_mtu'', ''dns''}"

lemma writes_setKVOrDel [simp]: "writes config n (setKVOrDel k v) \<longleftrightarrow> (\<exists>opt. k = Opt config n opt)"
  by (simp add: setKVOrDel_def)

lemma sets_setKVOrDel [simp]: "sets_option config n opts (setKVOrDel k v) \<longleftrightarrow> k \<in> Opt config n ` opts"
  by (simp add: setKVOrDel_def)

lemma own6_all: "\<forall>c \<in> set (own6 config i typ). writes config i c"
  by (simp add: own6_def)

lemma wan6_proto_writes: "\<forall>c \<in> set (wan6_proto_cmds i w). writes ''network'' i c"
  by (simp add: wan6_proto_cmds_def)

lemma wan6_writes: "c \<in> set (projectWANv6 i w) \<Longrightarrow> writes ''network'' i c"
  using own6_all [of "''network''" i "''interface''"] wan6_proto_writes [of i w]
  by (auto simp: projectWANv6_def)

lemma prefix6_writes: "c \<in> set (projectPrefixV6 i p) \<Longrightarrow> writes ''dhcp'' i c"
  using own6_all [of "''dhcp''" i "''host''"] by (auto simp: projectPrefixV6_def)

lemma duid_writes: "c \<in> set (projectACLv6DUID i e) \<Longrightarrow> writes ''dhcp'' i c"
  using own6_all [of "''dhcp''" i "''host''"] by (auto simp: projectACLv6DUID_def)

lemma lan6_net_sets: "\<forall>c \<in> set (lan6_net_cmds i l). sets_option ''network'' i lan_net_options c"
  by (simp add: lan6_net_cmds_def lan_net_options_def) auto

lemma lan6_dhcp_sets:
  "\<forall>c \<in> set (lan6_dhcp_cmds i l). c = SetType (Sec ''dhcp'' i) ''dhcp'' \<or> sets_option ''dhcp'' i lan_dhcp_options c"
  by (simp add: lan6_dhcp_cmds_def lan_dhcp_options_def) auto

lemma disable_sets:
  "\<forall>c \<in> set (disable_net_cmds n). sets_option ''network'' n lan_net_options c"
  "\<forall>c \<in> set (disable_dhcp_cmds n). sets_option ''dhcp'' n lan_dhcp_options c"
  by (simp_all add: disable_net_cmds_def disable_dhcp_cmds_def lan_net_options_def lan_dhcp_options_def)

lemma own6_marks:
  "SetKV (net_opt i managedOpt) managedMarkerV6 \<in> set (projectWANv6 i w)"
  "SetKV (dhcp_opt i managedOpt) managedMarkerV6 \<in> set (projectPrefixV6 i p)"
  "SetKV (dhcp_opt i managedOpt) managedMarkerV6 \<in> set (projectACLv6DUID i e)"
  by (simp_all add: projectWANv6_def projectPrefixV6_def projectACLv6DUID_def own6_def)

text \<open>Sections that the batch marks with the IPv6 marker.\<close>

definition marks6 :: "string \<Rightarrow> ucmd list \<Rightarrow> string \<Rightarrow> bool" where
  "marks6 config cmds n \<longleftrightarrow> SetKV (Opt config n managedOpt) managedMarkerV6 \<in> set cmds"



end
