(* ===== verification/BackupModel.thy ===== *)
theory BackupModel
  imports GoStrings
begin

text \<open>
  internal/backup: the data of the scheduled backups (model.go) and their checks (validate.go). A
  pointer to a sub-configuration is an option; \<open>Clone\<close> and the \<open>CloneX\<close> functions copy values and have
  no counterpart, since values are not shared here. The cron library is the parameter \<open>cron_err\<close>: the
  error of \<open>cron.ParseStandard\<close>, if any.
\<close>

section \<open>Data\<close>

abbreviation KindS3 :: string where "KindS3 \<equiv> ''s3''"
abbreviation KindWebDAV :: string where "KindWebDAV \<equiv> ''webdav''"
abbreviation StatusRunning :: string where "StatusRunning \<equiv> ''running''"
abbreviation StatusSuccess :: string where "StatusSuccess \<equiv> ''success''"
abbreviation StatusFailed :: string where "StatusFailed \<equiv> ''failed''"
abbreviation TriggerSchedule :: string where "TriggerSchedule \<equiv> ''schedule''"
abbreviation TriggerManual :: string where "TriggerManual \<equiv> ''manual''"

definition DefaultPathTemplate :: string where
  "DefaultPathTemplate = ''frpcmgr-backups/{schedule}/{year}/{month}/frpcmgr-{date}-{time}.zip''"

definition RunHistoryCap :: nat where
  "RunHistoryCap = 200"

record S3Config =
  s3_Endpoint :: string
  s3_Region :: string
  s3_Bucket :: string
  s3_AccessKeyID :: string
  s3_SecretAccessKey :: string
  s3_Prefix :: string
  s3_UseSSL :: bool
  s3_PathStyle :: bool

record WebDAVConfig =
  wd_BaseURL :: string
  wd_Username :: string
  wd_Password :: string
  wd_Prefix :: string

record Channel =
  ch_ID :: string
  ch_Name :: string
  ch_Kind :: string
  ch_S3 :: "S3Config option"
  ch_WebDAV :: "WebDAVConfig option"
  ch_CreatedAt :: int
  ch_UpdatedAt :: int

record Schedule =
  sc_ID :: string
  sc_Name :: string
  sc_Enabled :: bool
  sc_Cron :: string
  sc_ChannelID :: string
  sc_PathTemplate :: string
  sc_Retention :: int
  sc_CreatedAt :: int
  sc_UpdatedAt :: int

record RunRecord =
  rr_ID :: string
  rr_ScheduleID :: string
  rr_ChannelID :: string
  rr_Trigger :: string
  rr_Status :: string
  rr_StartedAt :: int
  rr_FinishedAt :: int
  rr_ObjectPath :: string
  rr_SizeBytes :: int
  rr_Error :: "err option"

definition EffectiveTemplate :: "Schedule \<Rightarrow> string" where
  "EffectiveTemplate s = (if go_TrimSpace (sc_PathTemplate s) = [] then DefaultPathTemplate else sc_PathTemplate s)"

section \<open>Checks\<close>

definition ValidateChannel :: "Channel \<Rightarrow> err + unit" where
  "ValidateChannel ch =
     (if go_TrimSpace (ch_Name ch) = [] then Inl (Err ''channel name is empty'')
      else if ch_Kind ch = KindS3 then
        (case ch_S3 ch of
           None \<Rightarrow> Inl (Err ''s3 configuration is missing'')
         | Some s \<Rightarrow>
             if go_TrimSpace (s3_Endpoint s) = [] then Inl (Err ''s3 endpoint is required'')
             else if go_TrimSpace (s3_Bucket s) = [] then Inl (Err ''s3 bucket is required'')
             else Inr ())
      else if ch_Kind ch = KindWebDAV then
        (case ch_WebDAV ch of
           None \<Rightarrow> Inl (Err ''webdav configuration is missing'')
         | Some w \<Rightarrow> if go_TrimSpace (wd_BaseURL w) = [] then Inl (Err ''webdav base_url is required'') else Inr ())
      else Inl (ErrFmt ''channel kind is not supported'' [ch_Kind ch]))"

definition ValidateCron :: "(string \<Rightarrow> string option) \<Rightarrow> string \<Rightarrow> err + unit" where
  "ValidateCron cron_err spec =
     (if go_TrimSpace spec = [] then Inl (Err ''cron expression is empty'')
      else (case cron_err spec of None \<Rightarrow> Inr () | Some e \<Rightarrow> Inl (ErrFmt ''invalid cron expression'' [e])))"

definition ValidateSchedule :: "(string \<Rightarrow> string option) \<Rightarrow> Schedule \<Rightarrow> err + unit" where
  "ValidateSchedule cron_err s =
     (if go_TrimSpace (sc_Name s) = [] then Inl (Err ''schedule name is empty'')
      else if go_TrimSpace (sc_ChannelID s) = [] then Inl (Err ''a channel has to be chosen'')
      else bindR (ValidateCron cron_err (sc_Cron s)) (\<lambda>_.
        if sc_Retention s < 0 then Inl (Err ''retention is negative'') else Inr ()))"

section \<open>Secrets\<close>

definition merge_s3 :: "S3Config option \<Rightarrow> S3Config option \<Rightarrow> S3Config option" where
  "merge_s3 old neu = (case (old, neu) of
     (Some a, Some b) \<Rightarrow> Some (if go_TrimSpace (s3_SecretAccessKey b) = [] then b\<lparr>s3_SecretAccessKey := s3_SecretAccessKey a\<rparr> else b)
   | _ \<Rightarrow> neu)"

definition merge_webdav :: "WebDAVConfig option \<Rightarrow> WebDAVConfig option \<Rightarrow> WebDAVConfig option" where
  "merge_webdav old neu = (case (old, neu) of
     (Some a, Some b) \<Rightarrow> Some (if go_TrimSpace (wd_Password b) = [] then b\<lparr>wd_Password := wd_Password a\<rparr> else b)
   | _ \<Rightarrow> neu)"

definition MergeChannelSecrets :: "Channel \<Rightarrow> Channel \<Rightarrow> Channel" where
  "MergeChannelSecrets old neu =
     neu\<lparr>ch_S3 := merge_s3 (ch_S3 old) (ch_S3 neu), ch_WebDAV := merge_webdav (ch_WebDAV old) (ch_WebDAV neu)\<rparr>"

definition NormalizeChannel :: "Channel \<Rightarrow> Channel" where
  "NormalizeChannel c =
     (if ch_Kind c = KindS3 then c\<lparr>ch_WebDAV := None\<rparr>
      else if ch_Kind c = KindWebDAV then c\<lparr>ch_S3 := None\<rparr> else c)"

definition RedactSecrets :: "Channel \<Rightarrow> Channel" where
  "RedactSecrets c =
     c\<lparr>ch_S3 := map_option (\<lambda>s. s\<lparr>s3_SecretAccessKey := []\<rparr>) (ch_S3 c),
       ch_WebDAV := map_option (\<lambda>w. w\<lparr>wd_Password := []\<rparr>) (ch_WebDAV c)\<rparr>"

definition HasSecret :: "Channel \<Rightarrow> bool" where
  "HasSecret c =
     (if ch_Kind c = KindS3 then (case ch_S3 c of None \<Rightarrow> False | Some s \<Rightarrow> go_TrimSpace (s3_SecretAccessKey s) \<noteq> [])
      else if ch_Kind c = KindWebDAV then (case ch_WebDAV c of None \<Rightarrow> False | Some w \<Rightarrow> go_TrimSpace (wd_Password w) \<noteq> [])
      else False)"

lemma merge_redacted: "MergeChannelSecrets c (RedactSecrets c) = c"
  by (cases c) (simp add: MergeChannelSecrets_def RedactSecrets_def merge_s3_def merge_webdav_def split: option.split)

lemma redact_no_secret: "\<not> HasSecret (RedactSecrets c)"
  by (simp add: HasSecret_def RedactSecrets_def split: option.split)

lemma redact_fields [simp]:
  "ch_ID (RedactSecrets c) = ch_ID c" "ch_Name (RedactSecrets c) = ch_Name c" "ch_Kind (RedactSecrets c) = ch_Kind c"
  by (simp_all add: RedactSecrets_def)

lemma merge_fields [simp]: "ch_ID (MergeChannelSecrets old neu) = ch_ID neu"
  by (simp add: MergeChannelSecrets_def)

end
