(* ===== verification/MetaStore.thy ===== *)
theory MetaStore
  imports BackupModel FileStore
begin

text \<open>
  internal/store/store.go: meta.json, which holds the branding of the user interface, overrides of the
  daemon's configuration, and the storage channels, schedules and runs of the scheduled backups.
  Pointers that may be nil are options; the closure that UpdateX applies is a function. Random ids
  and the time are arguments of the operations that draw them.
\<close>

section \<open>Data\<close>

record Branding =
  br_AppName :: string
  br_AppSubtitle :: string
  br_HTMLTitle :: string

record SystemConfig =
  cf_LogLevel :: "string option"
  cf_SelfUpdateEnabled :: "bool option"
  cf_DocsEnabled :: "bool option"
  cf_CORSOrigins :: "string list option"

record BackupData =
  bd_Channels :: "Channel list"
  bd_Schedules :: "Schedule list"
  bd_Runs :: "RunRecord list"

record Meta =
  mt_Version :: int
  mt_Branding :: "Branding option"
  mt_SystemConfig :: "SystemConfig option"
  mt_Backup :: "BackupData option"

record mstore =
  ms_path :: string
  ms_data :: Meta
  ms_disk :: "Meta disk"

definition defaultMeta :: Meta where
  "defaultMeta = \<lparr>mt_Version = 1, mt_Branding = None, mt_SystemConfig = None, mt_Backup = None\<rparr>"

definition no_backup :: BackupData where
  "no_backup = \<lparr>bd_Channels = [], bd_Schedules = [], bd_Runs = []\<rparr>"

section \<open>Opening and saving\<close>

definition meta_flush :: "(mstore, unit) act" where
  "meta_flush s = (case flush_disk (ms_path s) (ms_data s) (ms_disk s) of (r, d) \<Rightarrow> (r, s\<lparr>ms_disk := d\<rparr>))"

text \<open>A file that does not parse is ignored: the result of \<open>Unmarshal\<close> is dropped.\<close>

definition NewMeta :: "string \<Rightarrow> Meta disk \<Rightarrow> err + mstore" where
  "NewMeta path d0 =
     (let d = d0\<lparr>dk_read := (\<lambda>n. dk_read d0 (Suc n))\<rparr>; s = \<lparr>ms_path = path, ms_data = defaultMeta, ms_disk = d\<rparr> in
      case dk_read d0 0 of
        Some e \<Rightarrow> Inl (ErrIO e)
      | None \<Rightarrow> (case dk_files d path of
            Some Torn \<Rightarrow> Inr s
          | Some (Doc m) \<Rightarrow> Inr (s\<lparr>ms_data := (if mt_Version m = 0 then m\<lparr>mt_Version := 1\<rparr> else m)\<rparr>)
          | None \<Rightarrow> (case meta_flush s of (Inl e, _) \<Rightarrow> Inl e | (Inr _, s') \<Rightarrow> Inr s')))"

definition meta_save :: "(Meta \<Rightarrow> Meta) \<Rightarrow> (mstore, unit) act" where
  "meta_save f s = meta_flush (s\<lparr>ms_data := f (ms_data s)\<rparr>)"

section \<open>System configuration and branding\<close>

definition no_config :: SystemConfig where
  "no_config = \<lparr>cf_LogLevel = None, cf_SelfUpdateEnabled = None, cf_DocsEnabled = None, cf_CORSOrigins = None\<rparr>"

definition orNil :: "'a \<Rightarrow> 'a option \<Rightarrow> 'a" where
  "orNil z x = (case x of None \<Rightarrow> z | Some y \<Rightarrow> y)"

definition GetSystemConfig :: "mstore \<Rightarrow> SystemConfig" where
  "GetSystemConfig s = orNil no_config (mt_SystemConfig (ms_data s))"

definition SetSystemConfig :: "SystemConfig \<Rightarrow> (mstore, unit) act" where
  "SetSystemConfig c = meta_save (\<lambda>m. m\<lparr>mt_SystemConfig := Some c\<rparr>)"

definition UpdateSystemConfig :: "(SystemConfig \<Rightarrow> SystemConfig) \<Rightarrow> (mstore, unit) act" where
  "UpdateSystemConfig f = meta_save (\<lambda>m. m\<lparr>mt_SystemConfig := Some (f (orNil no_config (mt_SystemConfig m)))\<rparr>)"

definition DefaultAppName :: string where
  "DefaultAppName = ''OP'' @ map byte [229, 162, 158, 229, 188, 186, 231, 136, 177, 229, 191, 171, 231, 179, 187, 231, 187, 159]"

definition DefaultAppSubtitle :: string where
  "DefaultAppSubtitle = map byte [228, 187, 191, 231, 136, 177, 229, 191, 171, 32, 194, 183] @ '' DHCP / '' @
     map byte [233, 157, 153, 230, 128, 129, 232, 183, 175, 231, 148, 177]"

definition DefaultHTMLTitle :: string where
  "DefaultHTMLTitle = DefaultAppName @ map byte [32, 194, 183] @ '' DHCP / '' @
     map byte [233, 157, 153, 230, 128, 129, 232, 183, 175, 231, 148, 177, 230, 142, 167, 229, 136, 182, 229, 143, 176]"

definition Effective :: "Branding \<Rightarrow> Branding" where
  "Effective b =
     \<lparr>br_AppName = (if go_TrimSpace (br_AppName b) = [] then DefaultAppName else br_AppName b),
      br_AppSubtitle = (if go_TrimSpace (br_AppSubtitle b) = [] then DefaultAppSubtitle else br_AppSubtitle b),
      br_HTMLTitle = (if go_TrimSpace (br_HTMLTitle b) = [] then DefaultHTMLTitle else br_HTMLTitle b)\<rparr>"

text \<open>A string that is cut is encoded again from its runes; one that is short enough is returned as it is.\<close>

definition truncateRunes :: "string \<Rightarrow> nat \<Rightarrow> string" where
  "truncateRunes s k = (let r = rune_segs s in if k < length r then concat (map write_rune (take k r)) else s)"

definition GetBrandingRaw :: "mstore \<Rightarrow> Branding" where
  "GetBrandingRaw s = orNil \<lparr>br_AppName = [], br_AppSubtitle = [], br_HTMLTitle = []\<rparr> (mt_Branding (ms_data s))"

definition GetBranding :: "mstore \<Rightarrow> Branding" where
  "GetBranding s = Effective (GetBrandingRaw s)"

definition SetBranding :: "Branding \<Rightarrow> (mstore, Branding) act" where
  "SetBranding b =
     (let c = \<lparr>br_AppName = truncateRunes (go_TrimSpace (br_AppName b)) 40,
               br_AppSubtitle = truncateRunes (go_TrimSpace (br_AppSubtitle b)) 60,
               br_HTMLTitle = truncateRunes (go_TrimSpace (br_HTMLTitle b)) 120\<rparr> in
      bindE (meta_save (\<lambda>m. m\<lparr>mt_Branding := Some c\<rparr>)) (\<lambda>_. ret (Effective c)))"

section \<open>Channels and schedules\<close>

text \<open>
  The loops over channels and over schedules are the same; \<open>update_first\<close> is the loop that changes
  the first item with an id and returns it.
\<close>

fun update_first :: "('a \<Rightarrow> bool) \<Rightarrow> ('a \<Rightarrow> 'a) \<Rightarrow> 'a list \<Rightarrow> ('a \<times> 'a list) option" where
  "update_first P f [] = None"
| "update_first P f (x # xs) =
     (if P x then Some (f x, f x # xs) else map_option (\<lambda>(y, ys). (y, x # ys)) (update_first P f xs))"

definition backup_of :: "Meta \<Rightarrow> BackupData" where
  "backup_of m = orNil no_backup (mt_Backup m)"

definition set_backup :: "(BackupData \<Rightarrow> BackupData) \<Rightarrow> Meta \<Rightarrow> Meta" where
  "set_backup f m = m\<lparr>mt_Backup := Some (f (backup_of m))\<rparr>"

text \<open>\<open>ensureBackupLocked\<close>.\<close>

definition ensureBackup :: "mstore \<Rightarrow> mstore" where
  "ensureBackup s = s\<lparr>ms_data := set_backup id (ms_data s)\<rparr>"

definition ListBackupChannels :: "mstore \<Rightarrow> Channel list" where
  "ListBackupChannels s = bd_Channels (backup_of (ms_data s))"

definition GetBackupChannel :: "string \<Rightarrow> mstore \<Rightarrow> Channel option" where
  "GetBackupChannel i s = find (\<lambda>c. ch_ID c = i) (ListBackupChannels s)"

definition store_channels :: "Channel \<times> Channel list \<Rightarrow> (mstore, Channel) act" where
  "store_channels r = bindE (meta_save (set_backup (\<lambda>b. b\<lparr>bd_Channels := snd r\<rparr>))) (\<lambda>_. ret (fst r))"

definition UpsertBackupChannel :: "int \<Rightarrow> string \<Rightarrow> Channel \<Rightarrow> (mstore, Channel) act" where
  "UpsertBackupChannel now new ch s =
     (if ch_ID ch = [] then
        (let c = ch\<lparr>ch_ID := new, ch_CreatedAt := now, ch_UpdatedAt := now\<rparr>
         in store_channels (c, ListBackupChannels s @ [c]) s)
      else (case update_first (\<lambda>c. ch_ID c = ch_ID ch) (\<lambda>c. ch\<lparr>ch_CreatedAt := ch_CreatedAt c, ch_UpdatedAt := now\<rparr>)
                   (ListBackupChannels s) of
          None \<Rightarrow> (Inl ErrNotFound, ensureBackup s)
        | Some r \<Rightarrow> store_channels r s))"

definition DeleteBackupChannel :: "string \<Rightarrow> (mstore, unit) act" where
  "DeleteBackupChannel i s =
     (if i \<notin> ch_ID ` set (ListBackupChannels s) then (Inl ErrNotFound, s)
      else meta_save (set_backup (\<lambda>b. b\<lparr>bd_Channels := filter (\<lambda>c. ch_ID c \<noteq> i) (bd_Channels b)\<rparr>)) s)"

definition UpdateBackupChannel :: "int \<Rightarrow> string \<Rightarrow> (Channel \<Rightarrow> Channel) \<Rightarrow> (mstore, Channel) act" where
  "UpdateBackupChannel now i f s =
     (case update_first (\<lambda>c. ch_ID c = i) (\<lambda>c. (f c)\<lparr>ch_ID := i, ch_UpdatedAt := now\<rparr>) (ListBackupChannels s) of
        None \<Rightarrow> (Inl ErrNotFound, s)
      | Some r \<Rightarrow> store_channels r s)"

definition ListBackupSchedules :: "mstore \<Rightarrow> Schedule list" where
  "ListBackupSchedules s = bd_Schedules (backup_of (ms_data s))"

definition GetBackupSchedule :: "string \<Rightarrow> mstore \<Rightarrow> Schedule option" where
  "GetBackupSchedule i s = find (\<lambda>c. sc_ID c = i) (ListBackupSchedules s)"

definition store_schedules :: "Schedule \<times> Schedule list \<Rightarrow> (mstore, Schedule) act" where
  "store_schedules r = bindE (meta_save (set_backup (\<lambda>b. b\<lparr>bd_Schedules := snd r\<rparr>))) (\<lambda>_. ret (fst r))"

definition UpsertBackupSchedule :: "int \<Rightarrow> string \<Rightarrow> Schedule \<Rightarrow> (mstore, Schedule) act" where
  "UpsertBackupSchedule now new sc s =
     (if sc_ID sc = [] then
        (let c = sc\<lparr>sc_ID := new, sc_CreatedAt := now, sc_UpdatedAt := now\<rparr>
         in store_schedules (c, ListBackupSchedules s @ [c]) s)
      else (case update_first (\<lambda>c. sc_ID c = sc_ID sc) (\<lambda>c. sc\<lparr>sc_CreatedAt := sc_CreatedAt c, sc_UpdatedAt := now\<rparr>)
                   (ListBackupSchedules s) of
          None \<Rightarrow> (Inl ErrNotFound, ensureBackup s)
        | Some r \<Rightarrow> store_schedules r s))"

definition UpdateBackupSchedule :: "int \<Rightarrow> string \<Rightarrow> (Schedule \<Rightarrow> Schedule) \<Rightarrow> (mstore, Schedule) act" where
  "UpdateBackupSchedule now i f s =
     (case update_first (\<lambda>c. sc_ID c = i) (\<lambda>c. (f c)\<lparr>sc_ID := i, sc_UpdatedAt := now\<rparr>) (ListBackupSchedules s) of
        None \<Rightarrow> (Inl ErrNotFound, s)
      | Some r \<Rightarrow> store_schedules r s)"

definition DeleteBackupSchedule :: "string \<Rightarrow> (mstore, unit) act" where
  "DeleteBackupSchedule i s =
     (if i \<notin> sc_ID ` set (ListBackupSchedules s) then (Inl ErrNotFound, s)
      else meta_save (set_backup (\<lambda>b. b\<lparr>bd_Schedules := filter (\<lambda>c. sc_ID c \<noteq> i) (bd_Schedules b)\<rparr>)) s)"

section \<open>Run history\<close>

definition push_run :: "RunRecord \<Rightarrow> RunRecord list \<Rightarrow> RunRecord list" where
  "push_run r runs = (let rs = runs @ [r] in
     if 0 < RunHistoryCap \<and> RunHistoryCap < length rs then drop (length rs - RunHistoryCap) rs else rs)"

definition AppendBackupRun :: "RunRecord \<Rightarrow> (mstore, unit) act" where
  "AppendBackupRun r = meta_save (set_backup (\<lambda>b. b\<lparr>bd_Runs := push_run r (bd_Runs b)\<rparr>))"

definition ListBackupRuns :: "int \<Rightarrow> mstore \<Rightarrow> RunRecord list" where
  "ListBackupRuns limit s = (let out = rev (bd_Runs (backup_of (ms_data s))) in
     if 0 < limit \<and> limit < int (length out) then take (nat limit) out else out)"

section \<open>Export and import\<close>

text \<open>
  What an exported meta.json says, as ImportMeta decodes it: empty lists are left out of the file, so
  they come back as nil. The run history is part of the file and is not read.
\<close>

record MetaDoc =
  md_Branding :: "Branding option"
  md_SystemConfig :: "SystemConfig option"
  md_Channels :: "Channel list option"
  md_Schedules :: "Schedule list option"

definition omitempty :: "'a list \<Rightarrow> 'a list option" where
  "omitempty xs = (if xs = [] then None else Some xs)"

definition RedactedMeta :: "mstore \<Rightarrow> Meta" where
  "RedactedMeta s = (ms_data s)\<lparr>mt_Backup :=
     map_option (\<lambda>b. b\<lparr>bd_Channels := map RedactSecrets (bd_Channels b)\<rparr>) (mt_Backup (ms_data s))\<rparr>"

definition meta_doc :: "Meta \<Rightarrow> MetaDoc" where
  "meta_doc m = \<lparr>md_Branding = mt_Branding m, md_SystemConfig = mt_SystemConfig m,
     md_Channels = omitempty (bd_Channels (backup_of m)), md_Schedules = omitempty (bd_Schedules (backup_of m))\<rparr>"

text \<open>
  The map \<open>existing\<close> of the source is filled in order, so the last channel with an id is the one
  whose secrets are carried over.
\<close>

definition carry_secrets :: "Channel list \<Rightarrow> Channel \<Rightarrow> Channel" where
  "carry_secrets existing c = (case find (\<lambda>o'. ch_ID o' = ch_ID c) (rev existing) of
     None \<Rightarrow> c | Some old \<Rightarrow> MergeChannelSecrets old c)"

definition restored :: "Channel list option \<Rightarrow> Schedule list option \<Rightarrow> BackupData \<Rightarrow> BackupData" where
  "restored channels schedules b =
     (let chs = (case channels of None \<Rightarrow> bd_Channels b | Some cs \<Rightarrow> map (carry_secrets (bd_Channels b)) cs);
          scs = (case schedules of None \<Rightarrow> bd_Schedules b | Some ss \<Rightarrow> ss) in
      b\<lparr>bd_Channels := chs, bd_Schedules := filter (\<lambda>s. sc_ChannelID s \<in> ch_ID ` set chs) scs\<rparr>)"

definition restoreBackupConfig :: "Channel list option \<Rightarrow> Schedule list option \<Rightarrow> (mstore, unit) act" where
  "restoreBackupConfig channels schedules = meta_save (set_backup (restored channels schedules))"

definition import_part :: "bool \<Rightarrow> (mstore, unit) act \<Rightarrow> err option \<Rightarrow> (mstore, bool \<times> err option) act" where
  "import_part present m e =
     (if \<not> present then ret (False, e)
      else bindE (tryE m) (\<lambda>r. case r of
          Inl e' \<Rightarrow> ret (False, (case e of None \<Rightarrow> Some e' | Some _ \<Rightarrow> e))
        | Inr _ \<Rightarrow> ret (True, e)))"

definition branding_set :: "Branding \<Rightarrow> bool" where
  "branding_set b \<longleftrightarrow> go_TrimSpace (br_AppName b) \<noteq> [] \<or> go_TrimSpace (br_AppSubtitle b) \<noteq> [] \<or> go_TrimSpace (br_HTMLTitle b) \<noteq> []"

definition config_set :: "SystemConfig \<Rightarrow> bool" where
  "config_set c \<longleftrightarrow> cf_LogLevel c \<noteq> None \<or> cf_SelfUpdateEnabled c \<noteq> None \<or> cf_DocsEnabled c \<noteq> None \<or> cf_CORSOrigins c \<noteq> None"

text \<open>\<open>None\<close> is a blob that does not parse; the result says which parts were restored, and the first error.\<close>

definition ImportMeta :: "MetaDoc option \<Rightarrow> (mstore, bool \<times> bool \<times> bool \<times> err option) act" where
  "ImportMeta raw =
     (case raw of
        None \<Rightarrow> ret (False, False, False, Some (Err ''not a meta.json''))
      | Some d \<Rightarrow>
          bindE (import_part (case md_Branding d of None \<Rightarrow> False | Some b \<Rightarrow> branding_set b)
                   (bindE (SetBranding (the (md_Branding d))) (\<lambda>_. ret ())) None) (\<lambda>(br, e1).
          bindE (import_part (case md_SystemConfig d of None \<Rightarrow> False | Some c \<Rightarrow> config_set c)
                   (SetSystemConfig (the (md_SystemConfig d))) e1) (\<lambda>(sc, e2).
          bindE (import_part (orNil [] (md_Channels d) \<noteq> [] \<or> orNil [] (md_Schedules d) \<noteq> [])
                   (restoreBackupConfig (md_Channels d) (md_Schedules d)) e2) (\<lambda>(bk, e3).
            ret (br, sc, bk, e3)))))"

section \<open>What an operation leaves\<close>

lemma meta_flush_data [simp]: "ms_data (snd (meta_flush s)) = ms_data s" "ms_path (snd (meta_flush s)) = ms_path s"
  by (simp_all add: meta_flush_def split: prod.split)

lemma meta_save_data [simp]: "ms_data (snd (meta_save f s)) = f (ms_data s)" "ms_path (snd (meta_save f s)) = ms_path s"
  by (simp_all add: meta_save_def)

lemma snd_then_ret: "snd (bindE m (\<lambda>x. ret (f x)) s) = snd (m s)"
  by (simp add: bindE_def ret_def split: prod.split sum.split)

lemma backup_of_set [simp]: "backup_of (set_backup f m) = f (backup_of m)"
  by (simp add: backup_of_def set_backup_def orNil_def)

lemma store_channels_data [simp]:
  "ListBackupChannels (snd (store_channels r s)) = snd r"
  "ListBackupSchedules (snd (store_channels r s)) = ListBackupSchedules s"
  by (simp_all add: store_channels_def snd_then_ret ListBackupChannels_def ListBackupSchedules_def)

lemma store_schedules_data [simp]:
  "ListBackupSchedules (snd (store_schedules r s)) = snd r"
  "ListBackupChannels (snd (store_schedules r s)) = ListBackupChannels s"
  by (simp_all add: store_schedules_def snd_then_ret ListBackupChannels_def ListBackupSchedules_def)

lemma ensureBackup_data [simp]:
  "ListBackupSchedules (ensureBackup s) = ListBackupSchedules s"
  "ListBackupChannels (ensureBackup s) = ListBackupChannels s"
  by (simp_all add: ensureBackup_def ListBackupChannels_def ListBackupSchedules_def)

text \<open>A disk on which no write fails.\<close>

definition meta_ok :: "mstore \<Rightarrow> bool" where
  "meta_ok s \<longleftrightarrow> (\<forall>n. dk_flush (ms_disk s) n = None)"

lemma meta_save_ok: "meta_ok s \<Longrightarrow> \<exists>s'. meta_save f s = (Inr (), s') \<and> meta_ok s' \<and> ms_data s' = f (ms_data s)"
  using meta_save_data(1) [of f s]
  by (auto simp: meta_save_def meta_flush_def flush_disk_def meta_ok_def Let_def)

end
