(* ===== verification/BackupPath.thy ===== *)
theory BackupPath
  imports GoStrings
begin

text \<open>
  internal/backup/path.go: the object keys under which a schedule stores its backups, and the pattern
  by which retention recognises them again. A pattern is the list of its parts: literal text and
  classes of digits; \<open>matcherPattern\<close> writes it as the source of a regular expression and \<open>pat_match\<close>
  is the anchored match of that expression on the runes of a key (package regexp decodes both sides).
\<close>

section \<open>Rendering\<close>

text \<open>The instant of a backup, in UTC, as \<open>time.Format\<close> sees it.\<close>

record instant =
  tm_year :: nat
  tm_month :: nat
  tm_day :: nat
  tm_hour :: nat
  tm_min :: nat
  tm_sec :: nat

definition pad :: "nat \<Rightarrow> nat \<Rightarrow> string" where
  "pad w n = replicate (w - length (go_nat_str n)) CHR ''0'' @ go_nat_str n"

definition fmt_date :: "instant \<Rightarrow> string" where
  "fmt_date t = pad 4 (tm_year t) @ pad 2 (tm_month t) @ pad 2 (tm_day t)"

definition fmt_time :: "instant \<Rightarrow> string" where
  "fmt_time t = pad 2 (tm_hour t) @ pad 2 (tm_min t) @ pad 2 (tm_sec t)"

text \<open>\<open>slug\<close>: the loop over the runes of the name, with the flag lastDash.\<close>

definition slug_dash :: "nat \<Rightarrow> bool" where
  "slug_dash r \<longleftrightarrow> r = 47 \<or> r = 92 \<or> r < 32 \<or> r = 127 \<or> r = 32 \<or> r = 9"

fun slug_loop :: "bool \<Rightarrow> (nat \<times> string) list \<Rightarrow> string" where
  "slug_loop dashed [] = []"
| "slug_loop dashed (rb # xs) =
     (if slug_dash (fst rb) then (if dashed then slug_loop True xs else CHR ''-'' # slug_loop True xs)
      else write_rune rb @ slug_loop False xs)"

definition trim_ends :: "(char \<Rightarrow> bool) \<Rightarrow> string \<Rightarrow> string" where
  "trim_ends P s = rev (dropWhile P (rev (dropWhile P s)))"

definition slug :: "string \<Rightarrow> string" where
  "slug name = (let out = trim_ends (\<lambda>c. c = CHR ''-'' \<or> c = CHR ''.'') (slug_loop False (rune_segs name)) in
     if out = [] then ''default'' else out)"

text \<open>
  \<open>strings.NewReplacer(...).Replace\<close>: at each position the first pair whose old string starts there is
  replaced; replacements do not overlap.
\<close>

function go_Replace :: "(string \<times> string) list \<Rightarrow> string \<Rightarrow> string" where
  "go_Replace ps [] = []"
| "go_Replace ps (c # cs) =
     (case find (\<lambda>p. go_HasPrefix (c # cs) (fst p)) ps of
        None \<Rightarrow> c # go_Replace ps cs
      | Some p \<Rightarrow> snd p @ go_Replace ps (drop (length (fst p) - 1) cs))"
  by pat_completeness auto
termination
  by (relation "measure (\<lambda>(ps, s). length s)") auto

text \<open>\<open>cleanKey\<close>: \<open>ReplaceAll(k, "//", "/")\<close> as long as there are double slashes, then the leading slash.\<close>

fun squeeze :: "string \<Rightarrow> string" where
  "squeeze (c # d # cs) = (if c = CHR ''/'' \<and> d = CHR ''/'' then CHR ''/'' # squeeze cs else c # squeeze (d # cs))"
| "squeeze s = s"

lemma squeeze_shorter: "length (squeeze s) \<le> length s"
  by (induction s rule: squeeze.induct) auto

lemma squeeze_less: "go_Contains s ''//'' \<Longrightarrow> length (squeeze s) < length s"
  by (induction s rule: squeeze.induct)
    (auto simp: le_imp_less_Suc split: if_splits intro: le_less_trans [OF squeeze_shorter])

function squeeze_all :: "string \<Rightarrow> string" where
  "squeeze_all k = (if go_Contains k ''//'' then squeeze_all (squeeze k) else k)"
  by pat_completeness auto
termination
  by (relation "measure length") (auto simp: squeeze_less)

declare squeeze_all.simps [simp del]

definition cleanKey :: "string \<Rightarrow> string" where
  "cleanKey k = go_TrimPrefix (squeeze_all k) ''/''"

definition stable_tokens :: "string \<Rightarrow> string \<Rightarrow> (string \<times> string) list" where
  "stable_tokens name host = [(''{schedule}'', slug name), (''{host}'', slug host)]"

definition all_tokens :: "string \<Rightarrow> string \<Rightarrow> instant \<Rightarrow> (string \<times> string) list" where
  "all_tokens name host t = stable_tokens name host @
     [(''{year}'', pad 4 (tm_year t)), (''{YYYY}'', pad 4 (tm_year t)),
      (''{month}'', pad 2 (tm_month t)), (''{MM}'', pad 2 (tm_month t)),
      (''{day}'', pad 2 (tm_day t)), (''{DD}'', pad 2 (tm_day t)),
      (''{date}'', fmt_date t), (''{time}'', fmt_time t),
      (''{datetime}'', fmt_date t @ ''-'' @ fmt_time t), (''{ts}'', fmt_date t @ ''-'' @ fmt_time t)]"

definition renderPath :: "string \<Rightarrow> string \<Rightarrow> string \<Rightarrow> instant \<Rightarrow> string" where
  "renderPath tpl name host t = cleanKey (go_Replace (all_tokens name host t) tpl)"

section \<open>The directory that retention lists\<close>

definition timeTokens :: "string list" where
  "timeTokens = [''{year}'', ''{YYYY}'', ''{month}'', ''{MM}'', ''{day}'', ''{DD}'',
     ''{date}'', ''{time}'', ''{datetime}'', ''{ts}'']"

definition go_LastIndexByte :: "string \<Rightarrow> char \<Rightarrow> nat option" where
  "go_LastIndexByte s d = (case go_IndexByte (rev s) d of None \<Rightarrow> None | Some i \<Rightarrow> Some (length s - 1 - i))"

definition upto_zero :: "string \<Rightarrow> string" where
  "upto_zero s = (case go_IndexByte s (byte 0) of Some i \<Rightarrow> take i s | None \<Rightarrow> s)"

definition retentionPrefix :: "string \<Rightarrow> string \<Rightarrow> string \<Rightarrow> string" where
  "retentionPrefix tpl name host =
     (let s = upto_zero (foldl (\<lambda>s tk. go_Replace [(tk, [byte 0])] s) (go_Replace (stable_tokens name host) tpl) timeTokens)
      in case go_LastIndexByte s (CHR ''/'') of Some j \<Rightarrow> cleanKey (take (Suc j) s) | None \<Rightarrow> [])"

section \<open>The pattern of a schedule\<close>

datatype pitem = Lit string | Digits nat

definition tokenPattern :: "string \<Rightarrow> string \<Rightarrow> string \<Rightarrow> pitem list" where
  "tokenPattern tok name host =
     (if tok = ''{schedule}'' then [Lit (slug name)]
      else if tok = ''{host}'' then [Lit (slug host)]
      else if tok = ''{year}'' \<or> tok = ''{YYYY}'' then [Digits 4]
      else if tok = ''{month}'' \<or> tok = ''{MM}'' \<or> tok = ''{day}'' \<or> tok = ''{DD}'' then [Digits 2]
      else if tok = ''{date}'' then [Digits 8]
      else if tok = ''{time}'' then [Digits 6]
      else if tok = ''{datetime}'' \<or> tok = ''{ts}'' then [Digits 8, Lit ''-'', Digits 6]
      else [Lit tok])"

text \<open>\<open>string(tpl[i])\<close>: the conversion of a byte to a string gives the UTF-8 encoding of the rune of that number.\<close>

definition byte_str :: "char \<Rightarrow> string" where
  "byte_str c = (if code c < 128 then [c] else [byte (192 + code c div 64), byte (128 + code c mod 64)])"

function scan_pattern :: "string \<Rightarrow> string \<Rightarrow> string \<Rightarrow> pitem list" where
  "scan_pattern name host [] = []"
| "scan_pattern name host (c # cs) =
     (case (if c = CHR ''{'' then go_IndexByte cs (CHR ''}'') else None) of
        Some j \<Rightarrow> tokenPattern (c # take (Suc j) cs) name host @ scan_pattern name host (drop (Suc j) cs)
      | None \<Rightarrow> Lit (byte_str c) # scan_pattern name host cs)"
  by pat_completeness auto
termination
  by (relation "measure (\<lambda>(n, h, s). length s)") auto

definition patternItems :: "string \<Rightarrow> string \<Rightarrow> string \<Rightarrow> pitem list" where
  "patternItems tpl name host = scan_pattern name host (cleanKey tpl)"

text \<open>\<open>regexp.QuoteMeta\<close> and the source text of the expression.\<close>

definition go_QuoteMeta :: "string \<Rightarrow> string" where
  "go_QuoteMeta s = concat (map (\<lambda>c. if c \<in> set (byte 92 # ''.+*?()|[]{}^$'') then [byte 92, c] else [c]) s)"

fun item_src :: "pitem \<Rightarrow> string" where
  "item_src (Lit w) = go_QuoteMeta w"
| "item_src (Digits n) = byte 92 # ''d{'' @ go_nat_str n @ ''}''"

definition matcherPattern :: "string \<Rightarrow> string \<Rightarrow> string \<Rightarrow> string" where
  "matcherPattern tpl name host = ''^'' @ concat (map item_src (patternItems tpl name host)) @ ''$''"

definition scopeSignature :: "string \<Rightarrow> string \<Rightarrow> string \<Rightarrow> string" where
  "scopeSignature tpl name host = matcherPattern tpl name host"

text \<open>The expression compiles unless it is not valid UTF-8.\<close>

definition valid_utf8 :: "string \<Rightarrow> bool" where
  "valid_utf8 s \<longleftrightarrow> (\<forall>rb \<in> set (rune_segs s). fst rb = 65533 \<longrightarrow> snd rb = map byte [239, 191, 189])"

definition objectMatcher :: "string \<Rightarrow> string \<Rightarrow> string \<Rightarrow> pitem list option" where
  "objectMatcher tpl name host =
     (if valid_utf8 (matcherPattern tpl name host) then Some (patternItems tpl name host) else None)"

fun pat_match :: "pitem list \<Rightarrow> nat list \<Rightarrow> bool" where
  "pat_match [] rs \<longleftrightarrow> rs = []"
| "pat_match (Lit w # is) rs \<longleftrightarrow> take (length (runes w)) rs = runes w \<and> pat_match is (drop (length (runes w)) rs)"
| "pat_match (Digits n # is) rs \<longleftrightarrow>
     n \<le> length rs \<and> (\<forall>r \<in> set (take n rs). 48 \<le> r \<and> r \<le> 57) \<and> pat_match is (drop n rs)"

definition matchString :: "pitem list \<Rightarrow> string \<Rightarrow> bool" where
  "matchString m key \<longleftrightarrow> pat_match m (runes key)"

definition joinKey :: "string \<Rightarrow> string \<Rightarrow> string" where
  "joinKey pre key =
     (let pre = trim_ends (\<lambda>c. c = CHR ''/'') (go_TrimSpace pre); key = cleanKey key in
      if pre = [] then key else if key = [] then pre else cleanKey (pre @ ''/'' @ key))"

end
