(* ===== verification/BackupSched.thy ===== *)
theory BackupSched
  imports BackupModel BackupPath "HOL-Library.Product_Lexorder"
begin

text \<open>
  internal/backup/scheduler.go: one backup run and its retention, and the scheduler as a system of
  steps: the launch guard, the jobs that run concurrently, the cron registry, and stopping.

  The world of a run (storage, clock, export, random ids) is a parameter: the operations of a storage
  channel are actions, and what \<open>NewUploader\<close> makes of a channel is \<open>be_uploader\<close>. Log output is
  left out.
\<close>

section \<open>Storage and environment\<close>

text \<open>\<open>Object\<close> of uploader.go; the time of the last modification is a number.\<close>

record Object =
  ob_Key :: string
  ob_Size :: int
  ob_Modified :: int

record 'w Uploader =
  up_Put :: "string \<Rightarrow> string \<Rightarrow> ('w, unit) act"
  up_List :: "string \<Rightarrow> ('w, Object list) act"
  up_Delete :: "string \<Rightarrow> ('w, unit) act"

record 'w benv =
  be_channel :: "string \<Rightarrow> ('w, Channel option) act"
  be_uploader :: "Channel \<Rightarrow> err + 'w Uploader"
  be_zip :: "('w, string) act"
  be_start :: "('w, instant \<times> int) act"
  be_now :: "('w, int) act"
  be_id :: "('w, string) act"
  be_host :: string

section \<open>Retention\<close>

definition older :: "Object \<Rightarrow> int \<times> string" where
  "older o' = (ob_Modified o', ob_Key o')"

text \<open>The objects to delete, oldest first: \<open>mine[:len(mine)-sched.Retention]\<close> after the sort.\<close>

definition retention_victims :: "pitem list \<Rightarrow> int \<Rightarrow> Object list \<Rightarrow> Object list" where
  "retention_victims m keep objs =
     (let mine = filter (\<lambda>o'. matchString m (ob_Key o')) objs in
      if int (length mine) \<le> keep then []
      else take (length mine - nat keep) (sort_key older mine))"

definition delete_all :: "'w Uploader \<Rightarrow> Object list \<Rightarrow> ('w, unit) act" where
  "delete_all up objs = bindE (mapA (\<lambda>o'. tryE (up_Delete up (ob_Key o'))) objs) (\<lambda>_. ret ())"

definition applyRetention :: "string \<Rightarrow> 'w Uploader \<Rightarrow> Schedule \<Rightarrow> ('w, unit) act" where
  "applyRetention host up sched =
     (if sc_Retention sched \<le> 0 then ret ()
      else (let tpl = EffectiveTemplate sched; pre = retentionPrefix tpl (sc_Name sched) host in
        if pre = [] then ret ()
        else (case objectMatcher tpl (sc_Name sched) host of
            None \<Rightarrow> ret ()
          | Some m \<Rightarrow> bindE (tryE (up_List up pre)) (\<lambda>r. case r of
                Inl e \<Rightarrow> ret ()
              | Inr objs \<Rightarrow> delete_all up (retention_victims m (sc_Retention sched) objs)))))"

definition ScopeSignature :: "string \<Rightarrow> Schedule \<Rightarrow> string" where
  "ScopeSignature host sched = scopeSignature (EffectiveTemplate sched) (sc_Name sched) host"

section \<open>One run\<close>

definition run_failed :: "'w benv \<Rightarrow> RunRecord \<Rightarrow> err \<Rightarrow> ('w, RunRecord) act" where
  "run_failed B rec e = bindE (be_now B) (\<lambda>now.
     ret (rec\<lparr>rr_Status := StatusFailed, rr_Error := Some e, rr_FinishedAt := now\<rparr>))"

text \<open>The calls of the environment that cannot fail in the source do not fail here: their error is dropped.\<close>

definition upload :: "'w benv \<Rightarrow> Schedule \<Rightarrow> instant \<Rightarrow> 'w Uploader \<Rightarrow> RunRecord \<Rightarrow> ('w, RunRecord) act" where
  "upload B sched t up rec =
     bindE (tryE (be_zip B)) (\<lambda>z. case z of
       Inl e \<Rightarrow> run_failed B rec e
     | Inr data \<Rightarrow>
        (let key = renderPath (EffectiveTemplate sched) (sc_Name sched) (be_host B) t;
             rec = rec\<lparr>rr_SizeBytes := int (length data), rr_ObjectPath := key\<rparr> in
         bindE (tryE (up_Put up key data)) (\<lambda>p. case p of
           Inl e \<Rightarrow> run_failed B rec e
         | Inr _ \<Rightarrow>
             bindE (applyRetention (be_host B) up sched) (\<lambda>_.
             bindE (be_now B) (\<lambda>now.
               ret (rec\<lparr>rr_Status := StatusSuccess, rr_FinishedAt := now\<rparr>))))))"

definition execute :: "'w benv \<Rightarrow> Schedule \<Rightarrow> string \<Rightarrow> ('w, RunRecord) act" where
  "execute B sched trigger =
     bindE (be_start B) (\<lambda>(t, start).
     bindE (be_id B) (\<lambda>i.
       (let rec = \<lparr>rr_ID = i, rr_ScheduleID = sc_ID sched, rr_ChannelID = sc_ChannelID sched, rr_Trigger = trigger,
              rr_Status = StatusRunning, rr_StartedAt = start, rr_FinishedAt = 0, rr_ObjectPath = [], rr_SizeBytes = 0,
              rr_Error = None\<rparr> in
        bindE (be_channel B (sc_ChannelID sched)) (\<lambda>ch. case ch of
          None \<Rightarrow> run_failed B rec (Err ''channel does not exist'')
        | Some c \<Rightarrow> (case be_uploader B c of
              Inl e \<Rightarrow> run_failed B rec e
            | Inr up \<Rightarrow> upload B sched t up rec)))))"

section \<open>The scheduler\<close>

text \<open>
  A job is a goroutine started by \<open>launch\<close>. It works (execute, or a recovered panic), appends a
  record and publishes it; then its deferred functions take its id off the running set and leave
  the wait group.
\<close>

datatype phase = Working | Worked | Cleared

record job =
  jb_sched :: Schedule
  jb_trigger :: string
  jb_phase :: phase

record scheduler =
  sd_started :: bool
  sd_stopped :: bool
  sd_cron :: "Schedule list option"
  sd_running :: "string set"
  sd_jobs :: "job list"
  sd_runs :: "RunRecord list"
  sd_events :: "RunRecord list"

definition NewScheduler :: scheduler where
  "NewScheduler = \<lparr>sd_started = False, sd_stopped = False, sd_cron = None, sd_running = {}, sd_jobs = [], sd_runs = [], sd_events = []\<rparr>"

text \<open>The record that announces a run.\<close>

definition started_event :: "int \<Rightarrow> Schedule \<Rightarrow> string \<Rightarrow> RunRecord" where
  "started_event now sched trigger =
     \<lparr>rr_ID = [], rr_ScheduleID = sc_ID sched, rr_ChannelID = sc_ChannelID sched, rr_Trigger = trigger,
      rr_Status = StatusRunning, rr_StartedAt = now, rr_FinishedAt = 0, rr_ObjectPath = [], rr_SizeBytes = 0, rr_Error = None\<rparr>"

definition launch :: "int \<Rightarrow> Schedule \<Rightarrow> string \<Rightarrow> scheduler \<Rightarrow> bool \<times> scheduler" where
  "launch now sched trigger s =
     (if sd_stopped s \<or> sc_ID sched \<in> sd_running s then (False, s)
      else (True, s\<lparr>sd_running := insert (sc_ID sched) (sd_running s),
               sd_jobs := sd_jobs s @ [\<lparr>jb_sched = sched, jb_trigger = trigger, jb_phase = Working\<rparr>],
               sd_events := sd_events s @ [started_event now sched trigger]\<rparr>))"

text \<open>\<open>Reload\<close>: the registry of the enabled schedules whose cron expression is accepted.\<close>

definition Reload :: "(string \<Rightarrow> string option) \<Rightarrow> Schedule list \<Rightarrow> scheduler \<Rightarrow> scheduler" where
  "Reload cron_err scheds s =
     (if \<not> sd_started s then s\<lparr>sd_cron := None\<rparr>
      else s\<lparr>sd_cron := Some (filter (\<lambda>c. sc_Enabled c \<and> cron_err (sc_Cron c) = None) scheds)\<rparr>)"

definition Start :: "(string \<Rightarrow> string option) \<Rightarrow> Schedule list \<Rightarrow> scheduler \<Rightarrow> scheduler" where
  "Start cron_err scheds s = Reload cron_err scheds (s\<lparr>sd_started := True\<rparr>)"

definition Stop :: "scheduler \<Rightarrow> scheduler" where
  "Stop s = s\<lparr>sd_started := False, sd_stopped := True, sd_cron := None\<rparr>"

definition RunNow :: "int \<Rightarrow> (string \<Rightarrow> Schedule option) \<Rightarrow> string \<Rightarrow> scheduler \<Rightarrow> (err + unit) \<times> scheduler" where
  "RunNow now get i s =
     (case get i of
        None \<Rightarrow> (Inl (Err ''backup schedule does not exist''), s)
      | Some sched \<Rightarrow> (case launch now sched TriggerManual s of
            (ok, s') \<Rightarrow> (if ok then Inr () else Inl (Err ''backup schedule is running''), s')))"

definition RunningSchedules :: "scheduler \<Rightarrow> string set" where
  "RunningSchedules s = sd_running s"

text \<open>
  The steps of a job. What \<open>execute\<close> returns, and the record of a recovered panic, is a
  \<open>final_record\<close>; it is handed to the recorder and published.
\<close>

definition set_phase :: "nat \<Rightarrow> phase \<Rightarrow> scheduler \<Rightarrow> scheduler" where
  "set_phase k p s = s\<lparr>sd_jobs := (sd_jobs s)[k := (sd_jobs s ! k)\<lparr>jb_phase := p\<rparr>]\<rparr>"

definition final_record :: "job \<Rightarrow> RunRecord \<Rightarrow> bool" where
  "final_record j r \<longleftrightarrow> rr_ScheduleID r = sc_ID (jb_sched j) \<and> rr_ChannelID r = sc_ChannelID (jb_sched j) \<and>
     rr_Trigger r = jb_trigger j \<and> rr_Status r \<in> {StatusSuccess, StatusFailed}"

inductive job_step :: "scheduler \<Rightarrow> scheduler \<Rightarrow> bool" where
  job_works: "k < length (sd_jobs s) \<Longrightarrow> jb_phase (sd_jobs s ! k) = Working \<Longrightarrow> final_record (sd_jobs s ! k) r \<Longrightarrow>
    job_step s (set_phase k Worked (s\<lparr>sd_runs := sd_runs s @ [r], sd_events := sd_events s @ [r]\<rparr>))"
| job_clears: "k < length (sd_jobs s) \<Longrightarrow> jb_phase (sd_jobs s ! k) = Worked \<Longrightarrow>
    job_step s (set_phase k Cleared (s\<lparr>sd_running := sd_running s - {sc_ID (jb_sched (sd_jobs s ! k))}\<rparr>))"
| job_leaves: "k < length (sd_jobs s) \<Longrightarrow> jb_phase (sd_jobs s ! k) = Cleared \<Longrightarrow>
    job_step s (s\<lparr>sd_jobs := take k (sd_jobs s) @ drop (Suc k) (sd_jobs s)\<rparr>)"

text \<open>
  The steps of the system. A tick of cron may still run when its registry has been replaced, so a
  tick may launch any schedule; RunNow reads its schedule from the store at any time.
\<close>

inductive sched_step :: "scheduler \<Rightarrow> scheduler \<Rightarrow> bool" where
  of_job: "job_step s s' \<Longrightarrow> sched_step s s'"
| of_cron: "sched_step s (snd (launch now sched TriggerSchedule s))"
| of_api: "sched_step s (snd (RunNow now get i s))"
| of_reload: "sched_step s (Reload cron_err scheds s)"
| of_start: "sched_step s (Start cron_err scheds s)"
| of_stop: "sched_step s (Stop s)"

inductive sched_reach :: "scheduler \<Rightarrow> bool" where
  fresh: "sched_reach NewScheduler"
| step: "sched_reach s \<Longrightarrow> sched_step s s' \<Longrightarrow> sched_reach s'"

inductive_cases job_stepE: "job_step s s'"
inductive_cases sched_stepE: "sched_step s s'"

end
