(* ===== verification/BackupAPI.thy ===== *)
theory BackupAPI
  imports MetaStore BackupSched
begin

text \<open>
  internal/api/backup.go and exportsource.go: the handlers of the backup pages over the meta store and
  the scheduler, after the request has been decoded. A response is the stored item or an error; the
  status codes are not modelled. \<open>cron_err\<close> is the cron library and \<open>host\<close> the name of the host.
\<close>

record bk =
  bk_store :: mstore
  bk_sched :: scheduler

definition on_meta :: "(mstore, 'a) act \<Rightarrow> (bk, 'a) act" where
  "on_meta m st = (case m (bk_store st) of (r, s) \<Rightarrow> (r, st\<lparr>bk_store := s\<rparr>))"

definition reload :: "(string \<Rightarrow> string option) \<Rightarrow> bk \<Rightarrow> bk" where
  "reload cron_err st = st\<lparr>bk_sched := Reload cron_err (ListBackupSchedules (bk_store st)) (bk_sched st)\<rparr>"

definition then_reload :: "(string \<Rightarrow> string option) \<Rightarrow> (bk, 'a) act \<Rightarrow> (bk, 'a) act" where
  "then_reload cron_err m = bindE m (\<lambda>x st. (Inr x, reload cron_err st))"

section \<open>Channels\<close>

definition CreateChannel :: "int \<Rightarrow> string \<Rightarrow> Channel \<Rightarrow> (bk, Channel) act" where
  "CreateChannel now new ch =
     (let c = NormalizeChannel (ch\<lparr>ch_ID := []\<rparr>) in
      bindE (liftE (ValidateChannel c)) (\<lambda>_. on_meta (UpsertBackupChannel now new c)))"

definition merge_channel :: "Channel \<Rightarrow> Channel \<Rightarrow> Channel" where
  "merge_channel ch cur =
     NormalizeChannel ((MergeChannelSecrets cur ch)\<lparr>ch_ID := ch_ID cur, ch_CreatedAt := ch_CreatedAt cur\<rparr>)"

definition UpdateChannel :: "int \<Rightarrow> string \<Rightarrow> Channel \<Rightarrow> (bk, Channel) act" where
  "UpdateChannel now i ch =
     (let c = NormalizeChannel (ch\<lparr>ch_ID := i\<rparr>) in
      bindE (liftE (ValidateChannel c)) (\<lambda>_. on_meta (UpdateBackupChannel now i (merge_channel c))))"

definition DeleteChannel :: "string \<Rightarrow> (bk, unit) act" where
  "DeleteChannel i st =
     (if i \<in> sc_ChannelID ` set (ListBackupSchedules (bk_store st)) then (Inl (Err ''a schedule uses the channel''), st)
      else on_meta (DeleteBackupChannel i) st)"

section \<open>Schedules\<close>

definition validateSchedule :: "string \<Rightarrow> (string \<Rightarrow> string option) \<Rightarrow> Schedule \<Rightarrow> mstore \<Rightarrow> err + unit" where
  "validateSchedule host cron_err s m =
     bindR (ValidateSchedule cron_err s) (\<lambda>_.
       if GetBackupChannel (sc_ChannelID s) m = None then Inl (Err ''the channel does not exist'')
       else (case find (\<lambda>x. sc_ID x \<noteq> sc_ID s \<and> sc_ChannelID x = sc_ChannelID s \<and>
               ScopeSignature host x = ScopeSignature host s) (ListBackupSchedules m) of
           Some x \<Rightarrow> Inl (ErrFmt ''the path collides with another schedule'' [sc_Name x])
         | None \<Rightarrow> Inr ()))"

definition CreateSchedule :: "string \<Rightarrow> (string \<Rightarrow> string option) \<Rightarrow> int \<Rightarrow> string \<Rightarrow> Schedule \<Rightarrow> (bk, Schedule) act" where
  "CreateSchedule host cron_err now new s st =
     (let s = s\<lparr>sc_ID := []\<rparr> in
      bindE (liftE (validateSchedule host cron_err s (bk_store st))) (\<lambda>_.
        then_reload cron_err (on_meta (UpsertBackupSchedule now new s))) st)"

definition UpdateSchedule :: "string \<Rightarrow> (string \<Rightarrow> string option) \<Rightarrow> int \<Rightarrow> string \<Rightarrow> Schedule \<Rightarrow> (bk, Schedule) act" where
  "UpdateSchedule host cron_err now i s st =
     (let s = s\<lparr>sc_ID := i\<rparr> in
      bindE (liftE (validateSchedule host cron_err s (bk_store st))) (\<lambda>_.
        then_reload cron_err (on_meta (UpdateBackupSchedule now i (\<lambda>cur. s\<lparr>sc_CreatedAt := sc_CreatedAt cur\<rparr>)))) st)"

definition DeleteSchedule :: "(string \<Rightarrow> string option) \<Rightarrow> string \<Rightarrow> (bk, unit) act" where
  "DeleteSchedule cron_err i = then_reload cron_err (on_meta (DeleteBackupSchedule i))"

definition ToggleSchedule :: "(string \<Rightarrow> string option) \<Rightarrow> int \<Rightarrow> string \<Rightarrow> (bk, Schedule) act" where
  "ToggleSchedule cron_err now i =
     then_reload cron_err (on_meta (UpdateBackupSchedule now i (\<lambda>s. s\<lparr>sc_Enabled := \<not> sc_Enabled s\<rparr>)))"

definition RunSchedule :: "int \<Rightarrow> string \<Rightarrow> (bk, unit) act" where
  "RunSchedule now i st =
     (case RunNow now (\<lambda>j. GetBackupSchedule j (bk_store st)) i (bk_sched st) of (r, s) \<Rightarrow> (r, st\<lparr>bk_sched := s\<rparr>))"

text \<open>The default limit is 50; a query that is not a positive number leaves it.\<close>

definition ListRuns :: "string \<Rightarrow> bk \<Rightarrow> RunRecord list" where
  "ListRuns query st =
     (let limit = (case go_Atoi query of None \<Rightarrow> 50 | Some n \<Rightarrow> if 0 < n then n else 50)
      in ListBackupRuns limit (bk_store st))"

section \<open>The archive\<close>

text \<open>
  The entries of the zip file. The export of the network configuration is the argument \<open>net\<close>: no
  exporter, its error, or its document. An error of the export leaves the entry out.
\<close>

definition BuildBackupZip :: "(err + 'n) option \<Rightarrow> mstore \<Rightarrow> MetaDoc option \<times> 'n option" where
  "BuildBackupZip net s = (Some (meta_doc (RedactedMeta s)),
     (case net of Some (Inr d) \<Rightarrow> Some d | _ \<Rightarrow> None))"

text \<open>
  Restoring: an entry that is missing is skipped; \<open>md\<close> is what \<open>meta.json\<close> decodes to. The import of
  the network configuration is an action on its own state.
\<close>

definition RestoreFromZip :: "(string \<Rightarrow> string option) \<Rightarrow> ('n \<Rightarrow> ('v, unit) act) option \<Rightarrow> MetaDoc option option \<Rightarrow> 'n option \<Rightarrow>
    bk \<times> 'v \<Rightarrow> (bool \<times> bool \<times> bool \<times> bool) \<times> (bk \<times> 'v)" where
  "RestoreFromZip cron_err net md nd sv =
     (let (br, sc, bk, st) = (case md of
            None \<Rightarrow> (False, False, False, fst sv)
          | Some raw \<Rightarrow> (case on_meta (ImportMeta raw) (fst sv) of
                (Inr (br, sc, bk, e), st) \<Rightarrow> (br, sc, bk, st)
              | (Inl e, st) \<Rightarrow> (False, False, False, st)));
          (ok, v) = (case (nd, net) of
            (Some d, Some imp) \<Rightarrow> (case imp d (snd sv) of (Inl e, v) \<Rightarrow> (False, v) | (Inr _, v) \<Rightarrow> (True, v))
          | _ \<Rightarrow> (False, snd sv))
      in ((br, sc, bk, ok), ((if bk then reload cron_err st else st), v)))"

end
