(* ===== verification/BackupPathProps.thy ===== *)
theory BackupPathProps
  imports BackupPath
begin

text \<open>
  What holds of the object keys and patterns of path.go: cleaning and rendering commute, a slug is
  valid UTF-8 without slashes, and the pattern of an ASCII template accepts every key that the
  template renders.
\<close>

section \<open>Slashes\<close>

fun collapse :: "string \<Rightarrow> string" where
  "collapse (c # d # cs) = (if c = CHR ''/'' \<and> d = CHR ''/'' then collapse (d # cs) else c # collapse (d # cs))"
| "collapse s = s"

lemma collapse_squeeze: "collapse (squeeze s) = collapse s"
proof (induction s rule: squeeze.induct)
  case (1 c d cs)
  show ?case
  proof (cases "c = CHR ''/'' \<and> d = CHR ''/''")
    case True
    with 1(1) show ?thesis
      by (cases cs; cases "squeeze cs"; cases "tl cs") (auto split: if_splits)
  next
    case False
    with 1(2) show ?thesis
      by (cases "squeeze (d # cs)"; cases cs) (auto split: if_splits)
  qed
qed auto

lemma collapse_id: "\<not> go_Contains s ''//'' \<Longrightarrow> collapse s = s"
  by (induction s rule: collapse.induct) auto

lemma squeeze_all_eq: "squeeze_all s = collapse s"
  by (induction s rule: squeeze_all.induct) (subst squeeze_all.simps, simp add: collapse_squeeze collapse_id)

lemma cleanKey_collapse: "cleanKey k = go_TrimPrefix (collapse k) ''/''"
  by (simp add: cleanKey_def squeeze_all_eq)

lemma collapse_no_slash: "c \<noteq> CHR ''/'' \<Longrightarrow> collapse (c # s) = c # collapse s"
  by (cases s) auto

lemma collapse_append: "CHR ''/'' \<notin> set a \<Longrightarrow> collapse (a @ b) = a @ collapse b"
  by (induction a) (auto simp: collapse_no_slash)

lemma collapse_hd: "s \<noteq> [] \<Longrightarrow> collapse s \<noteq> [] \<and> hd (collapse s) = hd s"
  by (induction s rule: collapse.induct) auto

lemma collapse_slash: "collapse (CHR ''/'' # s) = (if s \<noteq> [] \<and> hd s = CHR ''/'' then collapse s else CHR ''/'' # collapse s)"
  by (cases s) auto

lemma collapse_prefix: "CHR ''/'' \<notin> set p \<Longrightarrow> go_HasPrefix (collapse s) p = go_HasPrefix s p"
proof (induction p arbitrary: s)
  case (Cons c p)
  show ?case
  proof (cases s)
    case s: (Cons d s')
    show ?thesis
    proof (cases "d = CHR ''/''")
      case True
      with Cons.prems s show ?thesis
        using collapse_hd [of s] by (cases "collapse s") auto
    next
      case False
      with Cons s show ?thesis by (simp add: collapse_no_slash)
    qed
  qed simp
qed simp

section \<open>Replacing tokens\<close>

text \<open>Tokens start with a brace; neither they nor their values contain a slash, and both are not empty.\<close>

definition tokens_ok :: "(string \<times> string) list \<Rightarrow> bool" where
  "tokens_ok ps \<longleftrightarrow> (\<forall>p \<in> set ps. (\<exists>w. fst p = CHR ''{'' # w) \<and> CHR ''/'' \<notin> set (fst p) \<and> CHR ''/'' \<notin> set (snd p) \<and> snd p \<noteq> [])"

lemma go_Replace_other:
  assumes "tokens_ok ps" and "c \<noteq> CHR ''{''"
  shows "go_Replace ps (c # cs) = c # go_Replace ps cs"
proof -
  have "find (\<lambda>p. go_HasPrefix (c # cs) (fst p)) ps = None"
    using assms by (auto simp: find_None_iff tokens_ok_def)
  then show ?thesis by simp
qed

lemma go_Replace_append:
  assumes "tokens_ok ps" and "CHR ''{'' \<notin> set a"
  shows "go_Replace ps (a @ b) = a @ go_Replace ps b"
  using assms(2) by (induction a) (auto simp: go_Replace_other [OF assms(1)] simp del: go_Replace.simps(2))

lemma go_Replace_hd:
  assumes "tokens_ok ps" and "s \<noteq> []"
  shows "go_Replace ps s \<noteq> [] \<and> (hd (go_Replace ps s) = CHR ''/'' \<longleftrightarrow> hd s = CHR ''/'')"
proof (cases s)
  case (Cons c cs)
  show ?thesis
  proof (cases "find (\<lambda>p. go_HasPrefix (c # cs) (fst p)) ps")
    case (Some p)
    then have p: "p \<in> set ps" "go_HasPrefix (c # cs) (fst p)" by (auto dest: find_SomeD)
    then have "c = CHR ''{''" "snd p \<noteq> []" "CHR ''/'' \<notin> set (snd p)"
      using assms(1) by (auto simp: tokens_ok_def)
    then show ?thesis using Cons Some by (cases "snd p") auto
  qed (use Cons in simp)
qed (use assms in simp)

lemma collapse_replace:
  assumes ok: "tokens_ok ps"
  shows "collapse (go_Replace ps s) = go_Replace ps (collapse s)"
proof (induction "length s" arbitrary: s rule: less_induct)
  case less
  show ?case
  proof (cases s)
    case (Cons c cs)
    show ?thesis
    proof (cases "c = CHR ''/''")
      case True
      have IH: "collapse (go_Replace ps cs) = go_Replace ps (collapse cs)"
        using less Cons by simp
      have "go_Replace ps s = CHR ''/'' # go_Replace ps cs"
        using Cons True by (simp add: go_Replace_other [OF ok] del: go_Replace.simps(2))
      then show ?thesis
        using go_Replace_hd [OF ok, of cs] Cons True IH
        by (cases cs) (auto simp: collapse_slash go_Replace_other [OF ok] simp del: go_Replace.simps(2) collapse.simps(1))
    next
      case False
      have same: "go_HasPrefix (c # collapse cs) (fst p) = go_HasPrefix (c # cs) (fst p)" if "p \<in> set ps" for p
        using that ok collapse_prefix [of "fst p" "c # cs"] False
        by (simp add: tokens_ok_def collapse_no_slash del: collapse.simps(1))
      have find: "find (\<lambda>p. go_HasPrefix (c # collapse cs) (fst p)) ps = find (\<lambda>p. go_HasPrefix (c # cs) (fst p)) ps"
        by (rule find_cong) (use same in auto)
      show ?thesis
      proof (cases "find (\<lambda>p. go_HasPrefix (c # cs) (fst p)) ps")
        case None
        then have "go_Replace ps s = c # go_Replace ps cs" "go_Replace ps (collapse s) = c # go_Replace ps (collapse cs)"
          using Cons False find by (simp_all add: collapse_no_slash)
        with less Cons False show ?thesis by (simp add: collapse_no_slash)
      next
        case (Some p)
        then have p: "p \<in> set ps" "go_HasPrefix (c # cs) (fst p)" by (auto dest: find_SomeD)
        then obtain w r where w: "fst p = c # w" and cs: "cs = w @ r" and ns: "CHR ''/'' \<notin> set w" "CHR ''/'' \<notin> set (snd p)"
          using ok by (auto simp: tokens_ok_def go_HasPrefix_iff)
        have "go_Replace ps s = snd p @ go_Replace ps r"
          using Some Cons w cs by simp
        moreover have "go_Replace ps (collapse s) = snd p @ go_Replace ps (collapse r)"
          using Some find Cons False w cs ns by (simp add: collapse_no_slash collapse_append)
        moreover have "collapse (go_Replace ps r) = go_Replace ps (collapse r)"
          using less Cons cs by simp
        ultimately show ?thesis using ns by (simp add: collapse_append)
      qed
    qed
  qed simp
qed

lemma cleanKey_replace:
  assumes "tokens_ok ps"
  shows "cleanKey (go_Replace ps s) = go_Replace ps (cleanKey s)"
proof -
  have hd: "go_Replace ps (collapse s) \<noteq> [] \<and> (hd (go_Replace ps (collapse s)) = CHR ''/'' \<longleftrightarrow> hd (collapse s) = CHR ''/'')"
    if "collapse s \<noteq> []" using go_Replace_hd [OF assms that] .
  show ?thesis
    unfolding cleanKey_collapse collapse_replace [OF assms]
    using hd by (cases "collapse s"; cases "go_Replace ps (collapse s)")
      (auto simp: go_TrimPrefix_def go_Replace_other [OF assms] simp del: go_Replace.simps(2))
qed

section \<open>Digits and slugs\<close>

definition all_digits :: "nat \<Rightarrow> string \<Rightarrow> bool" where
  "all_digits n s \<longleftrightarrow> length s = n \<and> (\<forall>c \<in> set s. is_digit c)"

lemma dec_length: "n < 10 ^ Suc k \<Longrightarrow> length (go_nat_str n) \<le> Suc k"
proof (induction k arbitrary: n)
  case 0
  then show ?case by (simp add: go_nat_str.simps [of n])
next
  case (Suc k)
  have "n div 10 < 10 ^ Suc k" using Suc.prems by (simp add: less_mult_imp_div_less mult.commute)
  with Suc.IH [of "n div 10"] show ?case by (simp add: go_nat_str.simps [of n])
qed

lemma all_digits_pad: "n < 10 ^ w \<Longrightarrow> 0 < w \<Longrightarrow> all_digits w (pad w n)"
  using dec_length [of n "w - 1"] go_nat_str_digits [of n]
  by (auto simp: all_digits_def pad_def is_digit_def code_def)

lemma all_digits_append: "all_digits a s \<Longrightarrow> all_digits b t \<Longrightarrow> all_digits (a + b) (s @ t)"
  by (auto simp: all_digits_def)

text \<open>An instant that a clock can show.\<close>

definition clock_time :: "instant \<Rightarrow> bool" where
  "clock_time t \<longleftrightarrow> tm_year t < 10000 \<and> tm_month t < 100 \<and> tm_day t < 100 \<and> tm_hour t < 100 \<and> tm_min t < 100 \<and> tm_sec t < 100"

lemma digits_date: "clock_time t \<Longrightarrow> all_digits 8 (fmt_date t)"
  using all_digits_append [OF all_digits_pad all_digits_append [OF all_digits_pad all_digits_pad], of "tm_year t" 4 "tm_month t" 2 "tm_day t" 2]
  by (simp add: clock_time_def fmt_date_def)

lemma digits_time: "clock_time t \<Longrightarrow> all_digits 6 (fmt_time t)"
  using all_digits_append [OF all_digits_pad all_digits_append [OF all_digits_pad all_digits_pad], of "tm_hour t" 2 "tm_min t" 2 "tm_sec t" 2]
  by (simp add: clock_time_def fmt_time_def)

lemma digits_pads:
  assumes "clock_time t"
  shows "all_digits 4 (pad 4 (tm_year t))" "all_digits 2 (pad 2 (tm_month t))" "all_digits 2 (pad 2 (tm_day t))"
  using assms by (auto simp: clock_time_def intro!: all_digits_pad)

lemma digits_no_slash: "all_digits n s \<Longrightarrow> CHR ''/'' \<notin> set s"
  by (auto simp: all_digits_def is_digit_def code_def)

lemma digits_not_Nil: "all_digits n s \<Longrightarrow> 0 < n \<Longrightarrow> s \<noteq> []"
  by (auto simp: all_digits_def)

lemma set_trim_ends: "c \<in> set (trim_ends P s) \<Longrightarrow> c \<in> set s"
  unfolding trim_ends_def by (metis set_dropWhileD set_rev)

lemma slash_code: "c = CHR ''/'' \<longleftrightarrow> code c = 47"
  using code_eq_iff [of c "CHR ''/''"] by (simp add: code_def)

lemma code_chars: "code (CHR ''/'') = 47" "code (CHR ''-'') = 45" "code (CHR ''.'') = 46"
  by (simp_all add: code_def)

lemma decode_rune_bytes:
  "decode_rune (c # cs) = (r, w) \<Longrightarrow> r \<noteq> 65533 \<Longrightarrow>
    (w = 1 \<and> code c = r \<and> r < 128) \<or> (194 \<le> code c \<and> (\<forall>d \<in> set (take (w - 1) cs). 128 \<le> code d))"
  by (cases cs; cases "tl cs"; cases "tl (tl cs)") (auto simp: Let_def is_cont_def split: if_splits)

lemma rune_seg_bytes:
  "(r, bs) \<in> set (rune_segs s) \<Longrightarrow> r \<noteq> 65533 \<Longrightarrow>
    (\<exists>c. bs = [c] \<and> code c = r \<and> r < 128) \<or> (\<exists>c cs. bs = c # cs \<and> 194 \<le> code c \<and> (\<forall>d \<in> set cs. 128 \<le> code d))"
proof (induction s rule: rune_segs.induct)
  case (2 c cs)
  obtain r' w where d: "decode_rune (c # cs) = (r', w)" by (cases "decode_rune (c # cs)")
  from decode_rune_width [OF d] obtain k where w: "w = Suc k" by (cases w) auto
  show ?case
  proof (cases "(r, bs) = (r', take w (c # cs))")
    case True
    then show ?thesis using decode_rune_bytes [OF d] 2(3) w by auto
  next
    case False
    with 2(2) d have "(r, bs) \<in> set (rune_segs (drop (w - 1) cs))"
      by (auto simp del: decode_rune.simps(2))
    then show ?thesis using 2(1) [OF d [symmetric] refl] 2(3) by blast
  qed
qed simp

lemma write_rune_bytes:
  assumes "rb \<in> set (rune_segs s)"
  shows "(\<exists>c. write_rune rb = [c] \<and> code c = fst rb \<and> fst rb < 128) \<or>
    (\<exists>c cs. write_rune rb = c # cs \<and> 194 \<le> code c \<and> (\<forall>d \<in> set cs. 128 \<le> code d))"
proof (cases "fst rb = 65533")
  case False
  then show ?thesis using rune_seg_bytes [of "fst rb" "snd rb" s] assms by (auto simp: write_rune_def)
qed (auto simp: write_rune_def)

text \<open>Every byte of a slug is printable, and no rune starts in the middle of one.\<close>

lemma slug_loop_no_slash: "set xs \<subseteq> set (rune_segs s) \<Longrightarrow> CHR ''/'' \<notin> set (slug_loop dashed xs)"
proof (induction xs arbitrary: dashed)
  case (Cons rb xs)
  have "CHR ''/'' \<notin> set (write_rune rb)" if "\<not> slug_dash (fst rb)"
    using write_rune_bytes [of rb s] Cons.prems that by (force simp: slug_dash_def code_chars)
  with Cons show ?case by auto
qed simp

lemma slug_no_slash: "CHR ''/'' \<notin> set (slug name)"
  using slug_loop_no_slash [of "rune_segs name" name False] by (auto simp: slug_def Let_def dest: set_trim_ends)

lemma slug_not_Nil: "slug name \<noteq> []"
  by (simp add: slug_def Let_def)

lemma rune_start_Cons: "code c < 128 \<or> 192 \<le> code c \<Longrightarrow> rune_start (c # cs)"
  by (auto simp: rune_start_def is_cont_def)

lemma slug_loop_start:
  "set xs \<subseteq> set (rune_segs s) \<Longrightarrow> rune_start (dropWhile (\<lambda>c. c = CHR ''-'' \<or> c = CHR ''.'') (slug_loop dashed xs))"
proof (induction xs arbitrary: dashed)
  case Nil
  show ?case by (simp add: rune_start_def)
next
  case (Cons rb xs)
  have IH: "rune_start (dropWhile (\<lambda>c. c = CHR ''-'' \<or> c = CHR ''.'') (slug_loop d xs))" for d
    using Cons by simp
  show ?case
    using write_rune_bytes [of rb s] Cons.prems IH
    by (auto intro!: rune_start_Cons simp: code_chars)
qed

lemma rune_start_take: "rune_start s \<Longrightarrow> rune_start (take n s)"
  by (cases s; cases n) (auto simp: rune_start_def)

lemma rune_start_cut: "rune_start s \<Longrightarrow> rune_start (rev (dropWhile P (rev s)))"
  by (simp add: dropWhile_eq_drop rev_drop rune_start_take)

lemma slug_start: "rune_start (slug name)"
proof -
  let ?P = "\<lambda>c. c = CHR ''-'' \<or> c = CHR ''.''"
  have "rune_start (dropWhile ?P (slug_loop False (rune_segs name)))"
    by (rule slug_loop_start [of _ name]) simp
  then have "rune_start (trim_ends ?P (slug_loop False (rune_segs name)))"
    unfolding trim_ends_def by (rule rune_start_cut)
  moreover have "rune_start ''default''" by (simp add: rune_start_def is_cont_def code_def)
  ultimately show ?thesis by (simp add: slug_def Let_def)
qed

section \<open>The pattern of a template accepts what the template renders\<close>

fun fits :: "pitem \<Rightarrow> string \<Rightarrow> bool" where
  "fits (Lit w) s \<longleftrightarrow> s = w \<and> rune_start s"
| "fits (Digits n) s \<longleftrightarrow> all_digits n s"

lemma digits_start: "all_digits n s \<Longrightarrow> rune_start s"
  by (cases s) (auto simp: all_digits_def is_digit_def rune_start_def is_cont_def)

lemma fits_start: "fits i s \<Longrightarrow> rune_start s"
  by (cases i) (auto dest: digits_start)

lemma runes_append: "rune_start v \<Longrightarrow> runes (p @ v) = runes p @ runes v"
  by (simp add: runes_def rune_segs_append)

lemma rune_start_append: "rune_start s \<Longrightarrow> rune_start v \<Longrightarrow> rune_start (s @ v)"
  by (cases s) (auto simp: rune_start_def)

lemma fits_concat_start: "list_all2 fits is ps \<Longrightarrow> rune_start (concat ps)"
  proof (induction rule: list_all2_induct)
  case (Cons i its p ps)
  then show ?case by (simp add: fits_start rune_start_append)
qed (simp add: rune_start_def)

lemma runes_digits: "all_digits n s \<Longrightarrow> runes s = map code s"
proof -
  assume a: "all_digits n s"
  then have "ascii s" by (auto simp: all_digits_def ascii_def list_all_iff is_digit_def)
  then show ?thesis by (simp add: runes_def rune_segs_ascii)
qed

lemma pat_match_fits: "list_all2 fits is ps \<Longrightarrow> pat_match is (runes (concat ps))"
proof (induction rule: list_all2_induct)
  case Nil
  show ?case by (simp add: runes_def)
next
  case (Cons i its p ps)
  have r: "runes (concat (p # ps)) = runes p @ runes (concat ps)"
    using fits_concat_start [OF Cons.hyps(2)] by (simp add: runes_append)
  show ?case
  proof (cases i)
    case (Lit w)
    with Cons r show ?thesis by simp
  next
    case (Digits n)
    then have "all_digits n p" using Cons.hyps(1) by simp
    then have "length (runes p) = n" "\<forall>x \<in> set (runes p). 48 \<le> x \<and> x \<le> 57"
      by (auto simp: runes_digits) (auto simp: all_digits_def is_digit_def)
    with Cons r Digits show ?thesis by simp
  qed
qed

fun braces_ok :: "string \<Rightarrow> bool" where
  "braces_ok [] = True"
| "braces_ok (c # s) = ((c = CHR ''{'' \<longrightarrow>
     (case go_IndexByte s (CHR ''}'') of None \<Rightarrow> True | Some j \<Rightarrow> CHR ''{'' \<notin> set (take j s))) \<and> braces_ok s)"

lemma braces_ok_Cons: "braces_ok (c # s) \<Longrightarrow> braces_ok s"
  by simp

lemma braces_ok_drop: "braces_ok s \<Longrightarrow> braces_ok (drop n s)"
proof (induction n arbitrary: s)
  case (Suc n)
  then show ?case by (cases s) (auto dest: braces_ok_Cons)
qed simp

lemma braces_ok_hd: "braces_ok (CHR ''{'' # s) \<Longrightarrow> go_IndexByte s (CHR ''}'') = Some j \<Longrightarrow> CHR ''{'' \<notin> set (take j s)"
  by simp

lemma close_prefix:
  "CHR ''}'' \<notin> set w \<Longrightarrow> CHR ''}'' \<notin> set a \<Longrightarrow> go_HasPrefix (a @ CHR ''}'' # b) (w @ ''}'') \<longleftrightarrow> w = a"
proof (induction w arbitrary: a)
  case Nil
  then show ?case by (cases a) auto
next
  case (Cons c w)
  then show ?case by (cases a) auto
qed

lemma prefix_set: "go_HasPrefix s p \<Longrightarrow> set p \<subseteq> set s"
  by (auto simp: go_HasPrefix_iff)

text \<open>Every token is an opening brace, text without a closing one, and a closing brace.\<close>

definition token_names :: "string list" where
  "token_names = [''schedule'', ''host'', ''year'', ''YYYY'', ''month'', ''MM'', ''day'', ''DD'', ''date'', ''time'', ''datetime'', ''ts'']"

lemma all_tokens_names: "map fst (all_tokens name host t) = map (\<lambda>w. CHR ''{'' # w @ ''}'') token_names"
  by (simp add: all_tokens_def stable_tokens_def token_names_def)

lemma all_tokens_shape: "p \<in> set (all_tokens name host t) \<Longrightarrow> \<exists>w. fst p = CHR ''{'' # w @ ''}'' \<and> CHR ''}'' \<notin> set w \<and> CHR ''/'' \<notin> set w"
  unfolding all_tokens_def stable_tokens_def by auto

lemma all_tokens_ok:
  assumes t: "clock_time t"
  shows "tokens_ok (all_tokens name host t)"
proof -
  have "CHR ''/'' \<notin> set (snd p) \<and> snd p \<noteq> []" if "p \<in> set (all_tokens name host t)" for p
    using that digits_pads [OF t] digits_date [OF t] digits_time [OF t]
    unfolding all_tokens_def stable_tokens_def
    by (auto simp: slug_no_slash slug_not_Nil dest: digits_no_slash digits_not_Nil)
  then show ?thesis
    using all_tokens_shape [of _ name host t] by (fastforce simp: tokens_ok_def)
qed

lemma find_token:
  assumes "go_IndexByte cs (CHR ''}'') = Some j"
  shows "find (\<lambda>p. go_HasPrefix (CHR ''{'' # cs) (fst p)) (all_tokens name host t) =
    find (\<lambda>p. fst p = CHR ''{'' # take (Suc j) cs) (all_tokens name host t)"
proof (rule find_cong)
  fix p assume "p \<in> set (all_tokens name host t)"
  then obtain w where w: "fst p = CHR ''{'' # w @ ''}''" "CHR ''}'' \<notin> set w"
    by (auto dest: all_tokens_shape)
  from assms have j: "CHR ''}'' \<notin> set (take j cs)" "cs = take j cs @ CHR ''}'' # drop (Suc j) cs" "take (Suc j) cs = take j cs @ ''}''"
    using id_take_nth_drop [of j cs] by (auto dest!: go_IndexByte_Some simp: take_Suc_conv_app_nth)
  show "go_HasPrefix (CHR ''{'' # cs) (fst p) = (fst p = CHR ''{'' # take (Suc j) cs)"
    using close_prefix [OF w(2) j(1), of "drop (Suc j) cs"] j(2,3) w(1) by auto
qed simp


lemma token_fits:
  assumes t: "clock_time t" and s: "ascii tok"
  shows "case find (\<lambda>p. fst p = tok) (all_tokens name host t) of
      None \<Rightarrow> tokenPattern tok name host = [Lit tok]
    | Some p \<Rightarrow> \<exists>ps. list_all2 fits (tokenPattern tok name host) ps \<and> concat ps = snd p"
proof (cases "find (\<lambda>p. fst p = tok) (all_tokens name host t)")
  case None
  then show ?thesis
    by (simp add: all_tokens_def stable_tokens_def tokenPattern_def split: if_splits)
next
  case (Some p)
  have one: "\<exists>ps. list_all2 fits [i] ps \<and> concat ps = v" if "fits i v" for i v
    using that by (intro exI [of _ "[v]"]) simp
  have three: "\<exists>ps. list_all2 fits [Digits 8, Lit ''-'', Digits 6] ps \<and> concat ps = fmt_date t @ CHR ''-'' # fmt_time t"
    using digits_date [OF t] digits_time [OF t]
    by (intro exI [of _ "[fmt_date t, ''-'', fmt_time t]"]) (simp add: rune_start_def is_cont_def code_def)
  have "p \<in> set (all_tokens name host t)" and tok: "tok = fst p"
    using Some by (auto dest: find_SomeD)
  then have "\<exists>ps. list_all2 fits (tokenPattern tok name host) ps \<and> concat ps = snd p"
    unfolding tok all_tokens_def stable_tokens_def append.simps list.set insert_iff empty_iff
    using digits_pads [OF t] digits_date [OF t] digits_time [OF t] slug_start
    by (elim disjE) (simp_all add: tokenPattern_def one three)
  then show ?thesis by (simp add: Some)
qed

lemma scan_fits:
  assumes "ascii s" and "braces_ok s" and t: "clock_time t"
  shows "\<exists>ps. list_all2 fits (scan_pattern name host s) ps \<and> concat ps = go_Replace (all_tokens name host t) s"
  using assms(1,2)
proof (induction name host s rule: scan_pattern.induct)
  case (1 name host)
  show ?case by (intro exI [of _ "[]"]) simp
next
  case (2 name host c cs)
  note ok = all_tokens_ok [OF t, of name host]
  show ?case
  proof (cases "if c = CHR ''{'' then go_IndexByte cs (CHR ''}'') else None")
    case None
    have "find (\<lambda>p. go_HasPrefix (c # cs) (fst p)) (all_tokens name host t) = None"
    proof -
      have "\<not> go_HasPrefix (c # cs) (fst p)" if p: "p \<in> set (all_tokens name host t)" for p
      proof
        assume "go_HasPrefix (c # cs) (fst p)"
        moreover obtain w where "fst p = CHR ''{'' # w @ ''}''" using all_tokens_shape [OF p] by blast
        ultimately have "c = CHR ''{''" "CHR ''}'' \<in> set cs"
          using prefix_set [of cs "w @ ''}''"] by auto
        then show False using None by (simp add: go_IndexByte_None)
      qed
      then show ?thesis by (auto simp: find_None_iff)
    qed
    then have "go_Replace (all_tokens name host t) (c # cs) = c # go_Replace (all_tokens name host t) cs"
      by simp
    moreover obtain ps where "list_all2 fits (scan_pattern name host cs) ps"
        "concat ps = go_Replace (all_tokens name host t) cs"
      using 2(1) [OF None] 2(3,4) by (auto dest: braces_ok_Cons)
    moreover have "byte_str c = [c]" "rune_start [c]"
      using 2(3) by (auto simp: byte_str_def rune_start_def is_cont_def)
    ultimately show ?thesis
      using None by (intro exI [of _ "[c] # ps"]) simp
  next
    case (Some j)
    then have c: "c = CHR ''{''" and j: "go_IndexByte cs (CHR ''}'') = Some j"
      by (auto split: if_splits)
    let ?tok = "c # take (Suc j) cs" and ?rest = "drop (Suc j) cs"
    have "ascii ?rest" "ascii ?tok"
      using 2(3) by (auto simp: ascii_def list_all_iff dest: in_set_dropD in_set_takeD)
    then obtain qs where qs: "list_all2 fits (scan_pattern name host ?rest) qs"
        "concat qs = go_Replace (all_tokens name host t) ?rest"
      using 2(2) [OF Some] braces_ok_drop [OF 2(4), of "Suc (Suc j)"] by auto
    have scan: "scan_pattern name host (c # cs) = tokenPattern ?tok name host @ scan_pattern name host ?rest"
      using Some by simp
    note find = find_token [OF j, folded c, of name host t]
    show ?thesis
    proof (cases "find (\<lambda>p. fst p = ?tok) (all_tokens name host t)")
      case None
      then have "tokenPattern ?tok name host = [Lit ?tok]"
        using token_fits [OF t \<open>ascii ?tok\<close>, of name host] by simp
      moreover have "go_Replace (all_tokens name host t) (c # cs) = ?tok @ go_Replace (all_tokens name host t) ?rest"
      proof -
        have "CHR ''{'' \<notin> set (take (Suc j) cs)"
          using braces_ok_hd [of cs j] 2(4) c j go_IndexByte_Some [OF j]
          by (simp add: take_Suc_conv_app_nth)
        then have "go_Replace (all_tokens name host t) (take (Suc j) cs @ ?rest) =
            take (Suc j) cs @ go_Replace (all_tokens name host t) ?rest"
          by (rule go_Replace_append [OF ok])
        then show ?thesis using None find by simp
      qed
      moreover have "rune_start ?tok" using c by (simp add: rune_start_def is_cont_def code_def)
      ultimately show ?thesis
        unfolding scan using qs by (intro exI [of _ "?tok # qs"]) simp
    next
      case (Some p)
      then obtain ps where ps: "list_all2 fits (tokenPattern ?tok name host) ps" "concat ps = snd p"
        using token_fits [OF t \<open>ascii ?tok\<close>, of name host] by auto
      have "fst p = ?tok" using Some by (auto dest: find_SomeD)
      then have "go_Replace (all_tokens name host t) (c # cs) = snd p @ go_Replace (all_tokens name host t) ?rest"
        using Some find go_IndexByte_Some [OF j] by simp
      with ps qs show ?thesis
        unfolding scan by (intro exI [of _ "ps @ qs"]) (simp add: list_all2_appendI)
    qed
  qed
qed

section \<open>The expression is valid UTF-8\<close>

lemma valid_ascii: "ascii s \<Longrightarrow> valid_utf8 s"
  by (auto simp: valid_utf8_def rune_segs_ascii ascii_def list_all_iff)

lemma valid_append: "rune_start v \<Longrightarrow> valid_utf8 (p @ v) \<longleftrightarrow> valid_utf8 p \<and> valid_utf8 v"
  by (auto simp: valid_utf8_def rune_segs_append)

lemma valid_Cons: "code c < 128 \<Longrightarrow> valid_utf8 (c # s) \<longleftrightarrow> valid_utf8 s"
  by (auto simp: valid_utf8_def)

lemma valid_start: "valid_utf8 s \<Longrightarrow> rune_start s"
  by (cases s) (auto simp: valid_utf8_def rune_start_def is_cont_def Let_def)

lemma decode_rune_take:
  "decode_rune (c # cs) = (r, w) \<Longrightarrow> r \<noteq> 65533 \<Longrightarrow> decode_rune (c # take (w - 1) cs) = (r, w)"
  by (cases cs; cases "tl cs"; cases "tl (tl cs)") (auto simp: Let_def split: if_splits)

lemma rune_seg_alone: "(r, bs) \<in> set (rune_segs s) \<Longrightarrow> r \<noteq> 65533 \<Longrightarrow> rune_segs bs = [(r, bs)]"
proof (induction s rule: rune_segs.induct)
  case (2 c cs)
  obtain r' w where d: "decode_rune (c # cs) = (r', w)" by (cases "decode_rune (c # cs)")
  from decode_rune_width [OF d] obtain k where w: "w = Suc k" "k \<le> length cs" by (cases w) auto
  show ?case
  proof (cases "(r, bs) = (r', take w (c # cs))")
    case True
    then have bs: "bs = c # take k cs" "r = r'" using w by auto
    have "decode_rune (c # take k cs) = (r, Suc k)"
      using decode_rune_take [OF d] 2(3) bs w by simp
    then show ?thesis using bs w by (simp del: decode_rune.simps(2))
  next
    case False
    with 2(2) d have "(r, bs) \<in> set (rune_segs (drop (w - 1) cs))"
      by (auto simp del: decode_rune.simps(2))
    then show ?thesis using 2(1) [OF d [symmetric] refl] 2(3) by blast
  qed
qed simp

lemma replacement_segs: "rune_segs (map byte [239, 191, 189]) = [(65533, map byte [239, 191, 189])]"
  by (simp add: is_cont_def)

lemma write_rune_valid: "rb \<in> set (rune_segs s) \<Longrightarrow> valid_utf8 (write_rune rb)"
  using rune_seg_alone [of "fst rb" "snd rb" s] replacement_segs
  by (auto simp: write_rune_def valid_utf8_def)

lemma slug_loop_valid: "set xs \<subseteq> set (rune_segs s) \<Longrightarrow> valid_utf8 (slug_loop dashed xs)"
proof (induction xs arbitrary: dashed)
  case (Cons rb xs)
  then have "valid_utf8 (slug_loop d xs)" for d by simp
  then show ?case
    using Cons.prems write_rune_valid [of rb s] by (auto simp: valid_append valid_start valid_Cons code_chars)
qed (simp add: valid_utf8_def)

lemma valid_dropWhile: "(\<And>c. P c \<Longrightarrow> code c < 128) \<Longrightarrow> valid_utf8 s \<Longrightarrow> valid_utf8 (dropWhile P s)"
  by (induction s) (auto simp: valid_Cons)

lemma valid_trim:
  assumes P: "\<And>c. P c \<Longrightarrow> code c < 128" and v: "valid_utf8 s"
  shows "valid_utf8 (trim_ends P s)"
proof -
  let ?s = "dropWhile P s"
  have "?s = trim_ends P s @ rev (takeWhile P (rev ?s))"
    unfolding trim_ends_def by (metis rev_append rev_rev_ident takeWhile_dropWhile_id)
  moreover have "ascii (rev (takeWhile P (rev ?s)))"
    using P by (auto simp: ascii_def list_all_iff dest: set_takeWhileD)
  moreover have "valid_utf8 ?s" using P v by (rule valid_dropWhile)
  ultimately show ?thesis by (metis valid_append valid_ascii valid_start)
qed

lemma slug_valid: "valid_utf8 (slug name)"
proof -
  have "valid_utf8 (slug_loop False (rune_segs name))" by (rule slug_loop_valid [of _ name]) simp
  then have "valid_utf8 (trim_ends (\<lambda>c. c = CHR ''-'' \<or> c = CHR ''.'') (slug_loop False (rune_segs name)))"
    by (rule valid_trim [rotated]) (auto simp: code_chars)
  moreover have "valid_utf8 ''default''" by (intro valid_ascii) (simp add: code_def)
  ultimately show ?thesis by (simp add: slug_def Let_def)
qed

definition special :: "char \<Rightarrow> bool" where
  "special c \<longleftrightarrow> c \<in> set (byte 92 # ''.+*?()|[]{}^$'')"

lemma special_ascii: "special c \<Longrightarrow> code c < 128"
  by (auto simp: special_def byte_def code_def)

lemma QuoteMeta_simps:
  "go_QuoteMeta [] = []"
  "go_QuoteMeta (c # s) = (if special c then byte 92 # c # go_QuoteMeta s else c # go_QuoteMeta s)"
  "go_QuoteMeta (s @ s') = go_QuoteMeta s @ go_QuoteMeta s'"
  by (simp_all add: go_QuoteMeta_def special_def)

lemma QuoteMeta_high: "(\<forall>c \<in> set s. 128 \<le> code c) \<Longrightarrow> go_QuoteMeta s = s"
  by (induction s) (auto simp: QuoteMeta_simps dest: special_ascii)

lemma QuoteMeta_start: "rune_start s \<Longrightarrow> rune_start (go_QuoteMeta s)"
  by (cases s) (auto simp: QuoteMeta_simps rune_start_def is_cont_def)

lemma QuoteMeta_valid: "valid_utf8 s \<Longrightarrow> valid_utf8 (go_QuoteMeta s)"
proof (induction s rule: rune_segs.induct)
  case 1
  then show ?case by (simp add: QuoteMeta_simps)
next
  case (2 c cs)
  obtain r w where d: "decode_rune (c # cs) = (r, w)" by (cases "decode_rune (c # cs)")
  from decode_rune_width [OF d] obtain k where w: "w = Suc k" by (cases w) auto
  have segs: "rune_segs (c # cs) = (r, c # take k cs) # rune_segs (drop k cs)"
    using d w by (simp del: decode_rune.simps(2))
  then have rest: "valid_utf8 (drop k cs)" and seg: "r = 65533 \<Longrightarrow> c # take k cs = map byte [239, 191, 189]"
    using 2(2) by (auto simp: valid_utf8_def)
  have IH: "valid_utf8 (go_QuoteMeta (drop k cs))"
    using 2(1) [OF d [symmetric] refl] w rest by simp
  have bytes: "(k = 0 \<and> code c < 128) \<or> (\<forall>d \<in> set (c # take k cs). 128 \<le> code d)"
  proof (cases "r = 65533")
    case True
    then show ?thesis using seg by auto
  next
    case False
    then show ?thesis using decode_rune_bytes [OF d] w by auto
  qed
  have alone: "valid_utf8 (c # take k cs)"
  proof (cases "r = 65533")
    case True
    then show ?thesis unfolding seg [OF True] valid_utf8_def replacement_segs by simp
  next
    case False
    then show ?thesis using rune_seg_alone [of r "c # take k cs" "c # cs"] segs
      unfolding valid_utf8_def by (metis list.set_intros(1) list.set(1) set_simps(2) fst_conv insertE empty_iff)
  qed
  have split: "go_QuoteMeta (c # cs) = go_QuoteMeta (c # take k cs) @ go_QuoteMeta (drop k cs)"
    by (metis QuoteMeta_simps(3) append_Cons append_take_drop_id)
  from bytes show ?case
  proof
    assume "k = 0 \<and> code c < 128"
    then show ?thesis using IH by (simp add: QuoteMeta_simps valid_Cons)
  next
    assume "\<forall>d \<in> set (c # take k cs). 128 \<le> code d"
    then have "go_QuoteMeta (c # cs) = (c # take k cs) @ go_QuoteMeta (drop k cs)"
      unfolding split by (simp only: QuoteMeta_high)
    then show ?thesis
      using valid_append [OF valid_start [OF IH], of "c # take k cs"] IH alone by simp
  qed
qed

lemma ascii_nat_str: "ascii (go_nat_str n)"
  by (simp add: plain_ascii)

lemma item_src_valid: "(case i of Lit w \<Rightarrow> valid_utf8 w | Digits n \<Rightarrow> True) \<Longrightarrow> valid_utf8 (item_src i)"
proof (cases i)
  case (Digits n)
  have "ascii (item_src (Digits n))" by (simp add: ascii_nat_str) (simp add: code_def)
  then show ?thesis using Digits valid_ascii by blast
qed (auto intro: QuoteMeta_valid)

lemma concat_valid: "\<forall>s \<in> set ss. valid_utf8 s \<Longrightarrow> valid_utf8 (concat ss)"
  by (induction ss) (auto simp: valid_append valid_start, simp add: valid_utf8_def)

lemma tokenPattern_valid: "ascii tok \<Longrightarrow> i \<in> set (tokenPattern tok name host) \<Longrightarrow> case i of Lit w \<Rightarrow> valid_utf8 w | Digits n \<Rightarrow> True"
proof -
  assume a: "ascii tok" and i: "i \<in> set (tokenPattern tok name host)"
  have both: "set (if b then xs else ys) \<subseteq> S" if "set xs \<subseteq> S" "set ys \<subseteq> S" for b xs ys and S :: "pitem set"
    using that by simp
  have "set (tokenPattern tok name host) \<subseteq> {Lit (slug name), Lit (slug host), Lit ''-'', Lit tok} \<union> range Digits"
    unfolding tokenPattern_def by (intro both) auto
  with i have "i \<in> {Lit (slug name), Lit (slug host), Lit ''-'', Lit tok} \<union> range Digits" by blast
  moreover have "valid_utf8 ''-''" by (intro valid_ascii) (simp add: code_chars)
  ultimately show ?thesis using a by (auto simp: slug_valid valid_ascii)
qed

lemma scan_valid: "ascii s \<Longrightarrow> i \<in> set (scan_pattern name host s) \<Longrightarrow> case i of Lit w \<Rightarrow> valid_utf8 w | Digits n \<Rightarrow> True"
proof (induction name host s rule: scan_pattern.induct)
  case (2 name host c cs)
  show ?case
  proof (cases "if c = CHR ''{'' then go_IndexByte cs (CHR ''}'') else None")
    case None
    with 2 show ?thesis by (auto simp: byte_str_def valid_ascii)
  next
    case (Some j)
    have "ascii (drop (Suc j) cs)" "ascii (c # take (Suc j) cs)"
      using 2(3) by (auto simp: ascii_def list_all_iff dest: in_set_dropD in_set_takeD)
    with 2(2) [OF Some] 2(4) Some tokenPattern_valid [of "c # take (Suc j) cs" i name host] show ?thesis by auto
  qed
qed simp

lemma ascii_set: "set s' \<subseteq> set s \<Longrightarrow> ascii s \<Longrightarrow> ascii s'"
  by (auto simp: ascii_def list_all_iff)

lemma set_collapse: "set (collapse s) \<subseteq> set s"
  by (induction s rule: collapse.induct) auto

lemma cleanKey_ascii: "ascii s \<Longrightarrow> ascii (cleanKey s)"
  by (rule ascii_set [of _ s]) (use set_collapse [of s] in \<open>auto simp: cleanKey_collapse go_TrimPrefix_def dest: in_set_dropD\<close>)

lemma matcher_of_items:
  assumes "\<forall>i \<in> set (patternItems tpl name host). case i of Lit w \<Rightarrow> valid_utf8 w | Digits n \<Rightarrow> True"
  shows "objectMatcher tpl name host = Some (patternItems tpl name host)"
proof -
  have "\<forall>s \<in> set (map item_src (patternItems tpl name host)). valid_utf8 s"
    using assms by (auto intro!: item_src_valid)
  then have "valid_utf8 (concat (map item_src (patternItems tpl name host)))" by (rule concat_valid)
  moreover have "valid_utf8 ''$''" "rune_start ''$''"
    by (simp_all add: valid_ascii code_def rune_start_def is_cont_def)
  ultimately have "valid_utf8 (matcherPattern tpl name host)"
    unfolding matcherPattern_def by (simp add: valid_Cons valid_append) (simp add: valid_Cons code_def valid_append)
  then show ?thesis by (simp add: objectMatcher_def)
qed

lemma matcher_exists: "ascii tpl \<Longrightarrow> objectMatcher tpl name host = Some (patternItems tpl name host)"
  using scan_valid [OF cleanKey_ascii] by (intro matcher_of_items) (auto simp: patternItems_def)

lemma byte_str_valid: "valid_utf8 (byte_str c)"
proof (cases "code c < 128")
  case True
  then show ?thesis by (simp add: byte_str_def valid_ascii)
next
  case False
  then have "code c div 64 = 2 \<or> code c div 64 = 3" using code_less [of c] by linarith
  moreover have "code c mod 64 \<le> 63" using mod_less_divisor [of 64 "code c"] by linarith
  ultimately show ?thesis using False by (auto simp: byte_str_def valid_utf8_def is_cont_def)
qed

lemma pattern_accepts:
  assumes "ascii tpl" and "braces_ok (cleanKey tpl)" and t: "clock_time t"
  shows "\<exists>m. objectMatcher tpl name host = Some m \<and> matchString m (renderPath tpl name host t)"
proof -
  obtain ps where "list_all2 fits (patternItems tpl name host) ps"
      "concat ps = go_Replace (all_tokens name host t) (cleanKey tpl)"
    using scan_fits [OF cleanKey_ascii [OF assms(1)] assms(2,3)] by (auto simp: patternItems_def)
  then have "matchString (patternItems tpl name host) (renderPath tpl name host t)"
    using pat_match_fits cleanKey_replace [OF all_tokens_ok [OF t]]
    by (metis matchString_def renderPath_def)
  then show ?thesis using matcher_exists [OF assms(1)] by blast
qed

end
