(* ===== verification/BackupSchedProps.thy ===== *)
theory BackupSchedProps
  imports BackupSched BackupPathProps
begin

text \<open>
  What the scheduler guarantees: retention deletes only old objects of its own schedule, at most one
  job runs for each schedule, and after a stop the running jobs drain. Then two limits of the patterns.
\<close>

section \<open>Retention\<close>

lemma older_newest:
  assumes "n \<le> length xs"
  shows "\<forall>d \<in> set (take n (sort_key f xs)). \<forall>k \<in> set (drop n (sort_key f xs)). f d \<le> f k"
proof (intro ballI)
  fix d k assume d: "d \<in> set (take n (sort_key f xs))" and k: "k \<in> set (drop n (sort_key f xs))"
  have "sorted (map f (take n (sort_key f xs) @ drop n (sort_key f xs)))" by simp
  then show "f d \<le> f k" using d k unfolding map_append sorted_append by auto
qed

lemma delete_all_view:
  assumes del: "\<And>k w. view (snd (up_Delete up k w)) \<in> {view w, filter (\<lambda>o'. ob_Key o' \<noteq> k) (view w)}"
    and run: "delete_all up objs w = (r, w')"
  shows "\<exists>K \<subseteq> ob_Key ` set objs. view w' = filter (\<lambda>o'. ob_Key o' \<notin> K) (view w)"
proof -
  have "\<exists>K \<subseteq> ob_Key ` set objs. view w' = filter (\<lambda>o'. ob_Key o' \<notin> K) (view w)"
    if "mapA (\<lambda>o'. tryE (up_Delete up (ob_Key o'))) objs w = (x, w')" for x
    using that
  proof (induction objs arbitrary: w x)
    case Nil
    then show ?case by (intro exI [of _ "{}"]) simp
  next
    case (Cons a objs)
    obtain q w1 where q: "up_Delete up (ob_Key a) w = (q, w1)" by (cases "up_Delete up (ob_Key a) w")
    have tryE: "tryE (up_Delete up (ob_Key a)) w = (Inr q, w1)" by (simp add: tryE_def q)
    obtain y where y: "mapA (\<lambda>o'. tryE (up_Delete up (ob_Key o'))) objs w1 = (y, w')"
      using Cons.prems tryE by (cases "mapA (\<lambda>o'. tryE (up_Delete up (ob_Key o'))) objs w1") (auto split: sum.splits)
    from Cons.IH [OF y] obtain K where K: "K \<subseteq> ob_Key ` set objs" "view w' = filter (\<lambda>o'. ob_Key o' \<notin> K) (view w1)"
      by blast
    have "view w1 = view w \<or> view w1 = filter (\<lambda>o'. ob_Key o' \<noteq> ob_Key a) (view w)"
      using del [where k = "ob_Key a" and w = w] by (simp add: q)
    then show ?case
    proof
      assume "view w1 = view w"
      with K show ?thesis by (intro exI [of _ K]) auto
    next
      assume "view w1 = filter (\<lambda>o'. ob_Key o' \<noteq> ob_Key a) (view w)"
      with K show ?thesis by (intro exI [of _ "insert (ob_Key a) K"]) (auto intro: filter_cong)
    qed
  qed
  moreover obtain x where "mapA (\<lambda>o'. tryE (up_Delete up (ob_Key o'))) objs w = (x, w')"
    using run by (auto simp: delete_all_def bindE_def ret_def split: prod.splits sum.splits)
  ultimately show ?thesis by blast
qed

definition own_objects :: "string \<Rightarrow> Schedule \<Rightarrow> Object list \<Rightarrow> Object list" where
  "own_objects host sched objs =
     (let tpl = EffectiveTemplate sched in
      filter (\<lambda>o'. go_HasPrefix (ob_Key o') (retentionPrefix tpl (sc_Name sched) host) \<and>
        (case objectMatcher tpl (sc_Name sched) host of None \<Rightarrow> False | Some m \<Rightarrow> matchString m (ob_Key o'))) objs)"

definition newest :: "int \<Rightarrow> Object list \<Rightarrow> Object list" where
  "newest n objs = drop (length objs - nat n) (sort_key older objs)"


section \<open>The launch guard\<close>

definition live_ids :: "scheduler \<Rightarrow> string list" where
  "live_ids s = map (\<lambda>j. sc_ID (jb_sched j)) (filter (\<lambda>j. jb_phase j \<noteq> Cleared) (sd_jobs s))"

definition guarded :: "scheduler \<Rightarrow> bool" where
  "guarded s \<longleftrightarrow> distinct (live_ids s) \<and> sd_running s = set (live_ids s)"

lemma split_at: "k < length xs \<Longrightarrow> xs = take k xs @ xs ! k # drop (Suc k) xs"
  by (rule id_take_nth_drop)

lemma guarded_job_step: "job_step s s' \<Longrightarrow> guarded s \<Longrightarrow> guarded s'"
proof (erule job_step.cases, goal_cases)
  case (1 k s rs)
  obtain pre j post where "sd_jobs s = pre @ j # post" "length pre = k"
    using 1(4) split_at by (metis length_take min.absorb4)
  with 1 show ?case by (auto simp: guarded_def live_ids_def set_phase_def list_update_append)
next
  case (2 k s)
  obtain pre j post where "sd_jobs s = pre @ j # post" "length pre = k"
    using 2(4) split_at by (metis length_take min.absorb4)
  with 2 show ?case by (auto simp: guarded_def live_ids_def set_phase_def list_update_append)
next
  case (3 k s)
  obtain pre j post where "sd_jobs s = pre @ j # post" "length pre = k"
    using 3(4) split_at by (metis length_take min.absorb4)
  with 3 show ?case by (auto simp: guarded_def live_ids_def)
qed

lemma guarded_launch:
  assumes "guarded s"
  shows "guarded (snd (launch now sched trigger s))"
proof (cases "sd_stopped s \<or> sc_ID sched \<in> sd_running s")
  case False
  then have "live_ids (snd (launch now sched trigger s)) = live_ids s @ [sc_ID sched]"
    "sd_running (snd (launch now sched trigger s)) = insert (sc_ID sched) (sd_running s)"
    by (simp_all add: live_ids_def launch_def)
  with assms False show ?thesis by (auto simp: guarded_def)
qed (use assms in \<open>simp add: launch_def\<close>)

lemma guarded_Reload [simp]: "guarded (Reload cron_err scheds s) = guarded s"
  by (simp add: guarded_def live_ids_def Reload_def)

lemma guarded_Start [simp]: "guarded (Start cron_err scheds s) = guarded s"
  by (simp add: Start_def) (simp add: guarded_def live_ids_def)

lemma guarded_Stop [simp]: "guarded (Stop s) = guarded s"
  by (simp add: guarded_def live_ids_def Stop_def)

lemma RunNow_state: "snd (RunNow now get i s) = s \<or> (\<exists>sched. snd (RunNow now get i s) = snd (launch now sched TriggerManual s))"
  by (cases "get i") (auto simp: RunNow_def split: prod.split, metis snd_conv)

lemma guarded_step: "sched_step s s' \<Longrightarrow> guarded s \<Longrightarrow> guarded s'"
proof (induction rule: sched_step.induct)
  case (of_api s now get i)
  then show ?case using RunNow_state [of now get i s] guarded_launch by auto
qed (simp_all add: guarded_job_step guarded_launch)

lemma guarded_reach: "sched_reach s \<Longrightarrow> guarded s"
  by (induction rule: sched_reach.induct) (simp add: guarded_def live_ids_def NewScheduler_def, rule guarded_step)

text \<open>C21: in every reachable state of the scheduler, whatever cron ticks, API calls, reloads and jobs have interleaved, at most one job works for a schedule, the set of running schedules is exactly the set of these jobs, and a launch succeeds just when the scheduler was not stopped and no job of the schedule works.\<close>

theorem one_job_per_schedule:
  assumes "sched_reach s"
  shows "distinct (live_ids s) \<and> RunningSchedules s = set (live_ids s) \<and>
    (fst (launch now sched trigger s) \<longleftrightarrow> \<not> sd_stopped s \<and> sc_ID sched \<notin> set (live_ids s))"
  using guarded_reach [OF assms] by (auto simp: guarded_def RunningSchedules_def launch_def)

section \<open>Stopping\<close>

fun phase_steps :: "phase \<Rightarrow> nat" where
  "phase_steps Working = 3"
| "phase_steps Worked = 2"
| "phase_steps Cleared = 1"

definition weight :: "scheduler \<Rightarrow> nat" where
  "weight s = sum_list (map (\<lambda>j. phase_steps (jb_phase j)) (sd_jobs s))"

lemma weight_job_step: "job_step s s' \<Longrightarrow> weight s = Suc (weight s') \<and> sd_stopped s' = sd_stopped s"
proof (erule job_step.cases, goal_cases)
  case (1 k s rs)
  obtain pre j post where "sd_jobs s = pre @ j # post" "length pre = k"
    using 1(3) split_at by (metis length_take min.absorb4)
  with 1 show ?case by (auto simp: weight_def set_phase_def list_update_append)
next
  case (2 k s)
  obtain pre j post where "sd_jobs s = pre @ j # post" "length pre = k"
    using 2(3) split_at by (metis length_take min.absorb4)
  with 2 show ?case by (auto simp: weight_def set_phase_def list_update_append)
next
  case (3 k s)
  obtain pre j post where "sd_jobs s = pre @ j # post" "length pre = k"
    using 3(3) split_at by (metis length_take min.absorb4)
  with 3 show ?case by (auto simp: weight_def)
qed

lemma final_record_ex: "\<exists>r. final_record j r"
proof
  show "final_record j ((started_event 0 (jb_sched j) (jb_trigger j))\<lparr>rr_Status := StatusFailed\<rparr>)"
    by (simp add: final_record_def started_event_def)
qed

text \<open>What a run of a job returns is such a record.\<close>

lemma run_failed_final:
  "fst (run_failed B rec e w) = Inr r \<Longrightarrow> final_record j (rec\<lparr>rr_Status := StatusFailed\<rparr>) \<Longrightarrow> final_record j r"
  by (auto simp: run_failed_def final_record_def bindE_def ret_def split: prod.splits sum.splits)

lemma upload_final:
  assumes "fst (upload B sched t up rec w) = Inr r" and "\<And>s. s \<in> {StatusSuccess, StatusFailed} \<Longrightarrow> final_record j (rec\<lparr>rr_Status := s\<rparr>)"
  shows "final_record j r"
  using assms(1) assms(2) [of StatusFailed] assms(2) [of StatusSuccess]
  by (auto simp: upload_def Let_def bindE_def ret_def run_failed_def final_record_def split: prod.splits sum.splits)

lemma execute_final:
  assumes "fst (execute B (jb_sched j) (jb_trigger j) w) = Inr r"
  shows "final_record j r"
  using assms
  by (auto simp: execute_def Let_def bindE_def final_record_def split: prod.splits sum.splits option.splits
      dest!: run_failed_final [where j = j] upload_final [where j = j])

lemma job_step_exists: "sd_jobs s \<noteq> [] \<Longrightarrow> \<exists>s'. job_step s s'"
proof -
  assume "sd_jobs s \<noteq> []"
  then have k: "0 < length (sd_jobs s)" by simp
  show ?thesis
    using job_works [OF k] final_record_ex [of "sd_jobs s ! 0"] job_clears [OF k] job_leaves [OF k]
    by (cases "jb_phase (sd_jobs s ! 0)") blast+
qed

lemma phase_steps_pos: "0 < phase_steps p"
  by (cases p) simp_all

lemma weight_zero: "weight s = 0 \<longleftrightarrow> sd_jobs s = []"
  by (cases "sd_jobs s") (auto simp: weight_def phase_steps_pos)

lemma stopped_step:
  assumes "sched_step s s'" and "sd_stopped s"
  shows "sd_stopped s' \<and> (job_step s s' \<or> weight s' = weight s)"
  using assms
proof (induction rule: sched_step.induct)
  case (of_job s s')
  then show ?case using weight_job_step by blast
next
  case (of_api s now get i)
  then show ?case using RunNow_state [of _ get i s] by (auto simp: launch_def)
qed (simp_all add: launch_def Reload_def Start_def Stop_def weight_def)

definition fair_run :: "(nat \<Rightarrow> scheduler) \<Rightarrow> bool" where
  "fair_run f \<longleftrightarrow> (\<forall>i. sched_step (f i) (f (Suc i))) \<and>
     (\<forall>i. (\<exists>s'. job_step (f i) s') \<longrightarrow> (\<exists>j \<ge> i. job_step (f j) (f (Suc j))))"

text \<open>C23: once the scheduler is stopped, every fair run of the system reaches a point from which no job is left, no schedule is running and no launch succeeds any more.\<close>

theorem stop_drains_jobs:
  assumes "sched_reach (f 0)" and "sd_stopped (f 0)" and fair: "fair_run f"
  shows "\<exists>n. \<forall>i \<ge> n. sd_jobs (f i) = [] \<and> RunningSchedules (f i) = {} \<and> \<not> fst (launch now sched trigger (f i))"
proof -
  have st: "sched_step (f i) (f (Suc i))" for i using fair by (simp add: fair_run_def)
  have inv: "sched_reach (f i) \<and> sd_stopped (f i)" for i
    using assms(1,2) stopped_step [OF st] by (induction i) (auto intro: sched_reach.step st)
  have dec: "weight (f (Suc i)) \<le> weight (f i)" for i
    using stopped_step [OF st, of i] weight_job_step [of "f i" "f (Suc i)"] inv [of i] by auto
  have mono: "i \<le> j \<Longrightarrow> weight (f j) \<le> weight (f i)" for i j
    by (induction j rule: dec_induct) (auto intro: order_trans dec)
  have "\<exists>n \<ge> i. weight (f n) = 0" for i
  proof (induction "weight (f i)" arbitrary: i rule: less_induct)
    case less
    show ?case
    proof (cases "weight (f i) = 0")
      case False
      then obtain s' where "job_step (f i) s'" using job_step_exists by (auto simp: weight_zero)
      then obtain j where j: "i \<le> j" "job_step (f j) (f (Suc j))" using fair by (auto simp: fair_run_def)
      then have "weight (f (Suc j)) < weight (f i)" using mono [OF j(1)] weight_job_step [OF j(2)] by simp
      from less [OF this] j show ?thesis by (meson le_trans le_SucI)
    qed auto
  qed
  then obtain n where n: "weight (f n) = 0" by blast
  have "sd_jobs (f i) = [] \<and> RunningSchedules (f i) = {} \<and> \<not> fst (launch now sched trigger (f i))" if "n \<le> i" for i
  proof -
    have "sd_jobs (f i) = []" using mono [OF that] n by (simp add: weight_zero [symmetric])
    then show ?thesis
      using guarded_reach [of "f i"] inv [of i] by (simp add: guarded_def live_ids_def RunningSchedules_def launch_def)
  qed
  then show ?thesis by blast
qed

section \<open>Limits of the patterns\<close>

lemma three_bytes:
  "decode_rune s = (r, 3) \<Longrightarrow> \<exists>c1 c2 c3 s'. s = c1 # c2 # c3 # s' \<and> 224 \<le> code c1 \<and> 2048 \<le> r \<and>
    (\<forall>u. decode_rune (c1 # c2 # c3 # u) = (r, 3)) \<and> code c2 \<ge> 128 \<and> code c3 \<ge> 128"
  by (cases s; cases "tl s"; cases "tl (tl s)"; cases "tl (tl (tl s))")
    (auto simp: Let_def is_cont_def split: if_splits)

lemma byte_str_runes: "192 \<le> code c \<Longrightarrow> runes (byte_str c) = [code c]"
proof -
  assume c: "192 \<le> code c"
  then have "code c div 64 = 3" using code_less [of c] by linarith
  then have "code c = 192 + code c mod 64" using div_mult_mod_eq [of "code c" 64] by linarith
  then have m: "byte_str c = [byte 195, byte (128 + code c mod 64)]" "192 + code c mod 64 = code c"
    using \<open>code c div 64 = 3\<close> c by (simp_all add: byte_str_def)
  have "code c mod 64 < 64" by simp
  then show ?thesis
    unfolding m(1) runes_def by (simp add: is_cont_def m(2))
qed

lemma multibyte_template_mismatch:
  assumes "decode_rune tpl = (r, 3)" and "clock_time t"
  shows "\<not> matchString (patternItems tpl name host) (renderPath tpl name host t)"
proof -
  from three_bytes [OF assms(1)] obtain c1 c2 c3 s where tpl: "tpl = c1 # c2 # c3 # s" and c: "224 \<le> code c1" "128 \<le> code c2" "128 \<le> code c3"
    and r: "2048 \<le> r" "\<And>u. decode_rune (c1 # c2 # c3 # u) = (r, 3)" by blast
  note ok = all_tokens_ok [OF assms(2), of name host]
  have ne: "c1 \<noteq> CHR ''/''" "c2 \<noteq> CHR ''/''" "c3 \<noteq> CHR ''/''" "c1 \<noteq> CHR ''{''" "c2 \<noteq> CHR ''{''" "c3 \<noteq> CHR ''{''"
    using c by (auto simp: code_def)
  then obtain u where u: "cleanKey tpl = c1 # c2 # c3 # u"
    unfolding tpl by (simp add: cleanKey_collapse collapse_no_slash go_TrimPrefix_def del: collapse.simps(1))
  have key: "renderPath tpl name host t = c1 # c2 # c3 # go_Replace (all_tokens name host t) u"
    unfolding renderPath_def cleanKey_replace [OF ok] u
    using ne by (simp add: go_Replace_other [OF ok] del: go_Replace.simps(2))
  have "hd (runes (renderPath tpl name host t)) = r"
    unfolding key runes_def by (simp add: r(2) del: decode_rune.simps(2))
  moreover have "patternItems tpl name host = Lit (byte_str c1) # scan_pattern name host (c2 # c3 # u)"
    unfolding patternItems_def u using ne by simp
  moreover have "code c1 \<noteq> r" using r(1) code_less [of c1] by linarith
  ultimately show ?thesis
    using byte_str_runes [of c1] c(1) by (cases "runes (renderPath tpl name host t)") (auto simp: matchString_def)
qed

text \<open>a path template that starts with a three-byte character, such as a Chinese one, makes retention useless: the pattern is built from single bytes converted to runes, so it matches none of the objects that the schedule stores, and nothing is ever deleted.\<close>

theorem multibyte_template_never_pruned:
  assumes "decode_rune (EffectiveTemplate sched) = (r, 3)"
    and "\<forall>o' \<in> set objs. \<exists>t. clock_time t \<and> ob_Key o' = renderPath (EffectiveTemplate sched) (sc_Name sched) host t"
    and "objectMatcher (EffectiveTemplate sched) (sc_Name sched) host = Some m"
  shows "retention_victims m keep objs = []"
proof -
  have "m = patternItems (EffectiveTemplate sched) (sc_Name sched) host"
    using assms(3) by (simp add: objectMatcher_def split: if_splits)
  then have "filter (\<lambda>o'. matchString m (ob_Key o')) objs = []"
    using assms(2) multibyte_template_mismatch [OF assms(1)] by (fastforce simp: filter_empty_conv)
  then show ?thesis by (simp add: retention_victims_def)
qed

definition demo_schedule :: "string \<Rightarrow> Schedule" where
  "demo_schedule tpl = \<lparr>sc_ID = ''sc_1'', sc_Name = ''home'', sc_Enabled = True, sc_Cron = ''0 3 * * *'', sc_ChannelID = ''ch_1'',
     sc_PathTemplate = tpl, sc_Retention = 3, sc_CreatedAt = 0, sc_UpdatedAt = 0\<rparr>"

definition demo_instant :: instant where
  "demo_instant = \<lparr>tm_year = 2026, tm_month = 3, tm_day = 1, tm_hour = 4, tm_min = 5, tm_sec = 6\<rparr>"

lemma demo_clock: "clock_time demo_instant"
  by (simp add: demo_instant_def clock_time_def)

text \<open>the objects of a schedule are recognised by its own pattern: for a path template of ASCII characters in which no brace is opened inside another, the expression that retention builds compiles and matches every key that a run of the schedule renders, for any schedule name, host and time.\<close>

theorem own_objects_recognised:
  assumes "ascii tpl" and "braces_ok (cleanKey tpl)" and "clock_time t"
  shows "\<exists>m. objectMatcher tpl name host = Some m \<and> matchString m (renderPath tpl name host t)"
  by (rule pattern_accepts [OF assms])

theorem own_objects_recognised_witness:
  "\<exists>m. objectMatcher ''b/{schedule}/{date}.zip'' ''home'' ''r1'' = Some m \<and>
     matchString m (renderPath ''b/{schedule}/{date}.zip'' ''home'' ''r1'' demo_instant)"
proof (rule own_objects_recognised)
  show "ascii ''b/{schedule}/{date}.zip''" by (simp add: code_def)
  show "braces_ok (cleanKey ''b/{schedule}/{date}.zip'')"
    by (simp add: cleanKey_collapse go_TrimPrefix_def)
qed (rule demo_clock)

definition cjk_template :: string where
  "cjk_template = map byte [229, 164, 135] @ ''/{date}.zip''"

lemma cjk_effective: "EffectiveTemplate (demo_schedule cjk_template) = cjk_template"
  by (simp add: EffectiveTemplate_def demo_schedule_def cjk_template_def eval_simps Let_def)

theorem multibyte_template_never_pruned_witness:
  "\<exists>m. objectMatcher cjk_template ''home'' ''r1'' = Some m \<and>
    retention_victims m 0 [\<lparr>ob_Key = renderPath cjk_template ''home'' ''r1'' demo_instant, ob_Size = 0, ob_Modified = 0\<rparr>] = []"
proof -
  have "patternItems cjk_template ''home'' ''r1'' = map (\<lambda>c. Lit (byte_str c)) (map byte [229, 164, 135]) @ scan_pattern ''home'' ''r1'' ''/{date}.zip''"
    by (simp add: patternItems_def cjk_template_def cleanKey_collapse go_TrimPrefix_def byte_def char_of_def)
  moreover have "ascii ''/{date}.zip''" by (simp add: code_def)
  ultimately obtain m where m: "objectMatcher cjk_template ''home'' ''r1'' = Some m"
    using scan_valid [of "''/{date}.zip''" _ "''home''" "''r1''"] by (subst (asm) matcher_of_items) (auto simp: byte_str_valid)
  have d: "decode_rune cjk_template = (22791, 3)" by (simp add: cjk_template_def is_cont_def)
  let ?s = "demo_schedule cjk_template"
  have n: "sc_Name ?s = ''home''" by (simp add: demo_schedule_def)
  have "retention_victims m 0 [\<lparr>ob_Key = renderPath cjk_template ''home'' ''r1'' demo_instant, ob_Size = 0, ob_Modified = 0\<rparr>] = []"
    by (rule multibyte_template_never_pruned [of ?s 22791 _ "''r1''" m]) (use m d demo_clock in \<open>auto simp: cjk_effective n\<close>)
  with m show ?thesis by blast
qed

definition daily_template :: string where "daily_template = ''b/{date}.zip''"
definition parts_template :: string where "parts_template = ''b/{YYYY}{MM}{DD}.zip''"

text \<open>the collision check compares the text of the patterns, but two different patterns can accept the same keys: there are two schedules with different signatures such that the pattern of one accepts every object of the other, so its retention deletes the backups of the other.\<close>

theorem different_scopes_overlap:
  assumes "clock_time t"
  shows "\<exists>a b. ScopeSignature host a \<noteq> ScopeSignature host b \<and>
    (\<exists>m. objectMatcher (EffectiveTemplate b) (sc_Name b) host = Some m \<and>
      matchString m (renderPath (EffectiveTemplate a) (sc_Name a) host t))"
proof -
  let ?a = "demo_schedule daily_template" and ?b = "demo_schedule parts_template"
  have e: "EffectiveTemplate ?a = daily_template" "EffectiveTemplate ?b = parts_template" and n: "sc_Name ?a = ''home''" "sc_Name ?b = ''home''"
    by (simp_all add: EffectiveTemplate_def demo_schedule_def daily_template_def parts_template_def eval_simps Let_def)
  have sig: "ScopeSignature host ?a \<noteq> ScopeSignature host ?b"
    unfolding ScopeSignature_def e n
    by (simp add: scopeSignature_def daily_template_def parts_template_def matcherPattern_def patternItems_def cleanKey_collapse
        go_TrimPrefix_def byte_str_def tokenPattern_def go_QuoteMeta_def go_nat_str.simps code_def byte_def)
  have "renderPath daily_template ''home'' host t = renderPath parts_template ''home'' host t"
    by (simp add: renderPath_def daily_template_def parts_template_def all_tokens_def stable_tokens_def fmt_date_def)
  moreover obtain m where "objectMatcher parts_template ''home'' host = Some m"
      "matchString m (renderPath parts_template ''home'' host t)"
  proof -
    have "ascii parts_template" "braces_ok (cleanKey parts_template)"
      by (simp_all add: parts_template_def code_def cleanKey_collapse go_TrimPrefix_def)
    from pattern_accepts [OF this assms] show ?thesis using that by blast
  qed
  ultimately show ?thesis by (intro exI [of _ ?a] exI [of _ ?b]) (use sig in \<open>auto simp: e n\<close>)
qed

theorem different_scopes_overlap_witness:
  "\<exists>a b. ScopeSignature ''r1'' a \<noteq> ScopeSignature ''r1'' b \<and>
    (\<exists>m. objectMatcher (EffectiveTemplate b) (sc_Name b) ''r1'' = Some m \<and>
      matchString m (renderPath (EffectiveTemplate a) (sc_Name a) ''r1'' demo_instant))"
  by (rule different_scopes_overlap [OF demo_clock])

section \<open>Witnesses\<close>

text \<open>A storage that holds its objects in a list.\<close>

definition shelf :: "Object list Uploader" where
  "shelf = \<lparr>up_Put = (\<lambda>k d w. (Inr (), w @ [\<lparr>ob_Key = k, ob_Size = int (length d), ob_Modified = int (length w)\<rparr>])),
     up_List = (\<lambda>p w. (Inr (filter (\<lambda>o'. go_HasPrefix (ob_Key o') p) w), w)),
     up_Delete = (\<lambda>k w. (Inr (), filter (\<lambda>o'. ob_Key o' \<noteq> k) w))\<rparr>"

definition demo_object :: "nat \<Rightarrow> Object" where
  "demo_object d = \<lparr>ob_Key = renderPath daily_template ''home'' ''r1'' (demo_instant\<lparr>tm_day := d\<rparr>), ob_Size = 10, ob_Modified = int d\<rparr>"

definition demo_shelf :: "Object list" where
  "demo_shelf = [demo_object 1, demo_object 2, \<lparr>ob_Key = ''b/notes.txt'', ob_Size = 1, ob_Modified = 0\<rparr>]"


lemma demo_running_reach: "sched_reach (snd (launch now s TriggerSchedule NewScheduler))"
  by (rule sched_reach.step [OF sched_reach.fresh of_cron])

theorem one_job_per_schedule_witness:
  "RunningSchedules (snd (launch 0 (demo_schedule daily_template) TriggerSchedule NewScheduler)) = {''sc_1''} \<and>
   \<not> fst (launch 0 (demo_schedule parts_template) TriggerManual (snd (launch 0 (demo_schedule daily_template) TriggerSchedule NewScheduler)))"
  using one_job_per_schedule [OF demo_running_reach, of 0 "demo_schedule daily_template" 0 "demo_schedule parts_template" TriggerManual]
  by (simp add: live_ids_def launch_def NewScheduler_def demo_schedule_def)

definition demo_stopped :: "job list \<Rightarrow> string set \<Rightarrow> RunRecord list \<Rightarrow> scheduler" where
  "demo_stopped jobs running runs = \<lparr>sd_started = False, sd_stopped = True, sd_cron = None, sd_running = running, sd_jobs = jobs, sd_runs = runs, 
     sd_events = started_event 0 (demo_schedule daily_template) TriggerSchedule # runs\<rparr>"

definition demo_job :: "phase \<Rightarrow> job" where
  "demo_job p = \<lparr>jb_sched = demo_schedule daily_template, jb_trigger = TriggerSchedule, jb_phase = p\<rparr>"

definition demo_final :: RunRecord where
  "demo_final = (started_event 0 (demo_schedule daily_template) TriggerSchedule)\<lparr>rr_Status := StatusFailed\<rparr>"

fun drain_run :: "nat \<Rightarrow> scheduler" where
  "drain_run 0 = demo_stopped [demo_job Working] {''sc_1''} []"
| "drain_run (Suc 0) = demo_stopped [demo_job Worked] {''sc_1''} [demo_final]"
| "drain_run (Suc (Suc 0)) = demo_stopped [demo_job Cleared] {} [demo_final]"
| "drain_run (Suc (Suc (Suc i))) = demo_stopped [] {} [demo_final]"

lemma drain_steps:
  "job_step (drain_run 0) (drain_run 1)" "job_step (drain_run 1) (drain_run 2)" "job_step (drain_run 2) (drain_run 3)"
proof -
  show "job_step (drain_run 0) (drain_run 1)"
    using job_works [of 0 "drain_run 0" demo_final]
    by (simp add: demo_stopped_def demo_job_def set_phase_def final_record_def demo_final_def started_event_def)
  show "job_step (drain_run 1) (drain_run 2)"
    using job_clears [of 0 "drain_run 1"] by (simp add: demo_stopped_def demo_job_def set_phase_def demo_schedule_def numeral_2_eq_2)
  show "job_step (drain_run 2) (drain_run 3)"
    using job_leaves [of 0 "drain_run 2"] by (simp add: demo_stopped_def demo_job_def numeral_2_eq_2 numeral_3_eq_3)
qed

lemma drain_fair: "fair_run drain_run"
proof -
  have three: "i = 0 \<or> i = 1 \<or> i = 2 \<or> (\<exists>k. i = Suc (Suc (Suc k)))" for i :: nat
    by (cases i rule: drain_run.cases) (auto simp: numeral_2_eq_2)
  have idle: "Stop (demo_stopped [] {} [demo_final]) = demo_stopped [] {} [demo_final]" by (simp add: Stop_def demo_stopped_def)
  have step: "sched_step (drain_run i) (drain_run (Suc i))" for i
    using three [of i] drain_steps of_stop [of "demo_stopped [] {} [demo_final]"]
    by (auto simp: idle numeral_2_eq_2 numeral_3_eq_3 intro: of_job)
  have live: "\<exists>j \<ge> i. job_step (drain_run j) (drain_run (Suc j))" if "job_step (drain_run i) s'" for i s'
  proof -
    have "sd_jobs (drain_run i) \<noteq> []" using that by (auto elim: job_step.cases)
    then have "i = 0 \<or> i = 1 \<or> i = 2" using three [of i] by (auto simp: demo_stopped_def)
    then show ?thesis using drain_steps by (metis Suc_1 One_nat_def le_refl numeral_3_eq_3 numeral_2_eq_2)
  qed
  show ?thesis unfolding fair_run_def using step live by blast
qed

theorem stop_drains_jobs_witness:
  "\<exists>n. \<forall>i \<ge> n. sd_jobs (drain_run i) = [] \<and> RunningSchedules (drain_run i) = {} \<and>
     \<not> fst (launch 0 (demo_schedule parts_template) TriggerSchedule (drain_run i))"
proof (rule stop_drains_jobs [OF _ _ drain_fair])
  have "sched_step (snd (launch 0 (demo_schedule daily_template) TriggerSchedule NewScheduler))
      (Stop (snd (launch 0 (demo_schedule daily_template) TriggerSchedule NewScheduler)))"
    by (rule of_stop)
  moreover have "Stop (snd (launch 0 (demo_schedule daily_template) TriggerSchedule NewScheduler)) = drain_run 0"
    by (simp add: Stop_def launch_def NewScheduler_def demo_stopped_def demo_job_def demo_schedule_def)
  ultimately show "sched_reach (drain_run 0)" using sched_reach.step [OF demo_running_reach] by metis
  show "sd_stopped (drain_run 0)" by (simp add: demo_stopped_def)
qed

end
