(* ===== verification/BackupAPIProps.thy ===== *)
theory BackupAPIProps
  imports BackupAPI BackupSchedProps
begin

text \<open>
  What the backup pages guarantee: schedules refer to channels that exist and do not share a scope,
  the cron registry follows the store, and an exported configuration restores its secrets.
\<close>

section \<open>Lists with ids\<close>

lemma update_first_None: "update_first P f xs = None \<longleftrightarrow> (\<forall>x \<in> set xs. \<not> P x)"
  by (induction xs) auto

lemma update_first_Some:
  "update_first P f xs = Some (y, ys) \<Longrightarrow> \<exists>pre x post. xs = pre @ x # post \<and> P x \<and> y = f x \<and> ys = pre @ f x # post \<and> (\<forall>z \<in> set pre. \<not> P z)"
proof (induction xs arbitrary: ys)
  case (Cons x xs)
  show ?case
  proof (cases "P x")
    case True
    with Cons.prems show ?thesis by (intro exI [of _ "[]"]) auto
  next
    case False
    with Cons.prems obtain zs where "update_first P f xs = Some (y, zs)" "ys = x # zs" by auto
    from Cons.IH [OF this(1)] this(2) False show ?thesis
      by (metis append_Cons set_ConsD)
  qed
qed simp

section \<open>References and scopes\<close>

definition refs_ok :: "mstore \<Rightarrow> bool" where
  "refs_ok m \<longleftrightarrow> sc_ChannelID ` set (ListBackupSchedules m) \<subseteq> ch_ID ` set (ListBackupChannels m)"

definition scopes_apart :: "string \<Rightarrow> Schedule list \<Rightarrow> bool" where
  "scopes_apart host xs \<longleftrightarrow> distinct (map sc_ID xs) \<and>
     (\<forall>a \<in> set xs. \<forall>b \<in> set xs. sc_ID a \<noteq> sc_ID b \<longrightarrow> sc_ChannelID a = sc_ChannelID b \<longrightarrow>
        ScopeSignature host a \<noteq> ScopeSignature host b)"

definition bk_ok :: "string \<Rightarrow> bk \<Rightarrow> bool" where
  "bk_ok host st \<longleftrightarrow> refs_ok (bk_store st) \<and> scopes_apart host (ListBackupSchedules (bk_store st))"

definition in_sync :: "(string \<Rightarrow> string option) \<Rightarrow> bk \<Rightarrow> bool" where
  "in_sync cron_err st \<longleftrightarrow> sd_cron (bk_sched st) =
     (if sd_started (bk_sched st)
      then Some (filter (\<lambda>c. sc_Enabled c \<and> cron_err (sc_Cron c) = None) (ListBackupSchedules (bk_store st))) else None)"

datatype bk_op = NewChannel int string Channel | EditChannel int string Channel | DropChannel string
  | NewSchedule int string Schedule | EditSchedule int string Schedule | DropSchedule string
  | FlipSchedule int string | RunIt int string

definition quietly :: "(bk, 'a) act \<Rightarrow> (bk, unit) act" where
  "quietly m = bindE m (\<lambda>_. ret ())"

fun run_bk :: "string \<Rightarrow> (string \<Rightarrow> string option) \<Rightarrow> bk_op \<Rightarrow> (bk, unit) act" where
  "run_bk host ce (NewChannel now new c) = quietly (CreateChannel now new c)"
| "run_bk host ce (EditChannel now i c) = quietly (UpdateChannel now i c)"
| "run_bk host ce (DropChannel i) = DeleteChannel i"
| "run_bk host ce (NewSchedule now new s) = quietly (CreateSchedule host ce now new s)"
| "run_bk host ce (EditSchedule now i s) = quietly (UpdateSchedule host ce now i s)"
| "run_bk host ce (DropSchedule i) = DeleteSchedule ce i"
| "run_bk host ce (FlipSchedule now i) = quietly (ToggleSchedule ce now i)"
| "run_bk host ce (RunIt now i) = RunSchedule now i"

text \<open>The id drawn for a new schedule is new.\<close>

fun fresh_op :: "bk_op \<Rightarrow> bk \<Rightarrow> bool" where
  "fresh_op (NewSchedule now new s) st \<longleftrightarrow> new \<notin> sc_ID ` set (ListBackupSchedules (bk_store st))"
| "fresh_op p st \<longleftrightarrow> True"

lemma snd_quietly [simp]: "snd (quietly m st) = snd (m st)"
  by (simp add: quietly_def snd_then_ret)

lemma snd_on_meta [simp]: "bk_store (snd (on_meta m st)) = snd (m (bk_store st))" "bk_sched (snd (on_meta m st)) = bk_sched st"
  by (simp_all add: on_meta_def split: prod.split)

lemma reload_store [simp]: "bk_store (reload ce st) = bk_store st"
  by (simp add: reload_def)

lemma snd_then_reload_store [simp]: "bk_store (snd (then_reload ce m st)) = bk_store (snd (m st))"
  by (simp add: then_reload_def bindE_def split: prod.split sum.split)

lemma liftE_bind: "bindE (liftE r) k st = (case r of Inl e \<Rightarrow> (Inl e, st) | Inr x \<Rightarrow> k x st)"
  by (simp add: bindE_def liftE_def)

lemma scopes_apart_map:
  assumes "scopes_apart host (pre @ x # post)" and "sc_ID y = sc_ID x"
    and "\<forall>z \<in> set (pre @ post). sc_ChannelID z = sc_ChannelID y \<longrightarrow> ScopeSignature host z \<noteq> ScopeSignature host y"
  shows "scopes_apart host (pre @ y # post)"
  using assms by (auto simp: scopes_apart_def)

lemma scopes_apart_append:
  assumes "scopes_apart host xs" and "sc_ID y \<notin> sc_ID ` set xs"
    and "\<forall>z \<in> set xs. sc_ChannelID z = sc_ChannelID y \<longrightarrow> ScopeSignature host z \<noteq> ScopeSignature host y"
  shows "scopes_apart host (xs @ [y])"
  using assms scopes_apart_map [of host xs y "[]" y] by (auto simp: scopes_apart_def)

lemma scopes_apart_filter: "scopes_apart host xs \<Longrightarrow> scopes_apart host (filter P xs)"
  by (auto simp: scopes_apart_def distinct_map_filter)

lemma signature_cong: "sc_Name a = sc_Name b \<Longrightarrow> sc_PathTemplate a = sc_PathTemplate b \<Longrightarrow> ScopeSignature host a = ScopeSignature host b"
  by (simp add: ScopeSignature_def EffectiveTemplate_def)

lemma validateSchedule_ok:
  assumes "validateSchedule host ce s m = Inr ()"
  shows "sc_ChannelID s \<in> ch_ID ` set (ListBackupChannels m)"
    "\<forall>x \<in> set (ListBackupSchedules m). sc_ID x \<noteq> sc_ID s \<longrightarrow> sc_ChannelID x = sc_ChannelID s \<longrightarrow> ScopeSignature host x \<noteq> ScopeSignature host s"
  using assms
  by (force simp: validateSchedule_def bindR_def GetBackupChannel_def find_None_iff split: sum.splits if_splits option.splits)+

lemma channels_only:
  assumes "bk_ok host st" and "ListBackupSchedules (bk_store st') = ListBackupSchedules (bk_store st)"
    and "sc_ChannelID ` set (ListBackupSchedules (bk_store st)) \<subseteq> ch_ID ` set (ListBackupChannels (bk_store st'))"
  shows "bk_ok host st'"
  using assms by (simp add: bk_ok_def refs_ok_def)

lemma normalize_fields [simp]: "ch_ID (NormalizeChannel c) = ch_ID c" "ch_Name (NormalizeChannel c) = ch_Name c" "ch_Kind (NormalizeChannel c) = ch_Kind c"
  by (simp_all add: NormalizeChannel_def)

lemma create_channel_lists:
  "ListBackupSchedules (bk_store (snd (CreateChannel now new c st))) = ListBackupSchedules (bk_store st)"
  "ch_ID ` set (ListBackupChannels (bk_store st)) \<subseteq> ch_ID ` set (ListBackupChannels (bk_store (snd (CreateChannel now new c st))))"
  by (auto simp: CreateChannel_def Let_def liftE_bind UpsertBackupChannel_def split: sum.split)

lemma update_channel_lists:
  "ListBackupSchedules (bk_store (snd (UpdateChannel now i c st))) = ListBackupSchedules (bk_store st)"
  "ch_ID ` set (ListBackupChannels (bk_store (snd (UpdateChannel now i c st)))) = ch_ID ` set (ListBackupChannels (bk_store st))"
proof -
  show "ListBackupSchedules (bk_store (snd (UpdateChannel now i c st))) = ListBackupSchedules (bk_store st)"
    by (simp add: UpdateChannel_def Let_def liftE_bind UpdateBackupChannel_def split: sum.split option.split)
  have "ch_ID ` set (snd r) = ch_ID ` set xs"
    if "update_first (\<lambda>c. ch_ID c = i) (\<lambda>c. (f c)\<lparr>ch_ID := i, ch_UpdatedAt := now\<rparr>) xs = Some r" for r xs and f :: "Channel \<Rightarrow> Channel"
    using update_first_Some [of _ _ xs "fst r" "snd r"] that by fastforce
  then show "ch_ID ` set (ListBackupChannels (bk_store (snd (UpdateChannel now i c st)))) = ch_ID ` set (ListBackupChannels (bk_store st))"
    by (simp add: UpdateChannel_def Let_def liftE_bind UpdateBackupChannel_def split: sum.split option.split)
qed

lemma delete_channel_lists:
  assumes "refs_ok (bk_store st)"
  shows "ListBackupSchedules (bk_store (snd (DeleteChannel i st))) = ListBackupSchedules (bk_store st)"
    "sc_ChannelID ` set (ListBackupSchedules (bk_store st)) \<subseteq> ch_ID ` set (ListBackupChannels (bk_store (snd (DeleteChannel i st))))"
proof -
  show "ListBackupSchedules (bk_store (snd (DeleteChannel i st))) = ListBackupSchedules (bk_store st)"
    by (simp add: DeleteChannel_def DeleteBackupChannel_def ListBackupSchedules_def)
  show "sc_ChannelID ` set (ListBackupSchedules (bk_store st)) \<subseteq> ch_ID ` set (ListBackupChannels (bk_store (snd (DeleteChannel i st))))"
  proof (cases "i \<in> sc_ChannelID ` set (ListBackupSchedules (bk_store st)) \<or> i \<notin> ch_ID ` set (ListBackupChannels (bk_store st))")
    case True
    then show ?thesis using assms by (auto simp: DeleteChannel_def DeleteBackupChannel_def refs_ok_def)
  next
    case False
    then have "ch_ID ` set (ListBackupChannels (bk_store (snd (DeleteChannel i st)))) = ch_ID ` set (ListBackupChannels (bk_store st)) - {i}"
      by (auto simp: DeleteChannel_def DeleteBackupChannel_def ListBackupChannels_def)
    moreover have "sc_ChannelID ` set (ListBackupSchedules (bk_store st)) \<subseteq> ch_ID ` set (ListBackupChannels (bk_store st))"
      using assms unfolding refs_ok_def .
    ultimately show ?thesis using False by (simp only: subset_Diff_insert Diff_empty) simp
  qed
qed

lemma bk_ok_channels:
  assumes "bk_ok host st"
  shows "bk_ok host (snd (CreateChannel now new c st))" "bk_ok host (snd (UpdateChannel now i c st))" "bk_ok host (snd (DeleteChannel i st))"
proof -
  have r: "sc_ChannelID ` set (ListBackupSchedules (bk_store st)) \<subseteq> ch_ID ` set (ListBackupChannels (bk_store st))"
    and ro: "refs_ok (bk_store st)"
    using assms by (simp_all add: bk_ok_def refs_ok_def)
  show "bk_ok host (snd (CreateChannel now new c st))"
    using create_channel_lists [where st = st] r by (intro channels_only [OF assms]) (simp, rule order_trans [of _ "ch_ID ` set (ListBackupChannels (bk_store st))"])
  show "bk_ok host (snd (UpdateChannel now i c st))"
    using update_channel_lists r by (intro channels_only [OF assms]) simp_all
  show "bk_ok host (snd (DeleteChannel i st))"
    using delete_channel_lists [OF ro] by (intro channels_only [OF assms]) simp_all
qed

text \<open>Schedules are appended, replaced, or filtered out.\<close>

lemma schedules_only:
  assumes "bk_ok host st" and "ListBackupChannels (bk_store st') = ListBackupChannels (bk_store st)"
    and "scopes_apart host (ListBackupSchedules (bk_store st'))"
    and "sc_ChannelID ` set (ListBackupSchedules (bk_store st')) \<subseteq> ch_ID ` set (ListBackupChannels (bk_store st))"
  shows "bk_ok host st'"
  using assms by (simp add: bk_ok_def refs_ok_def)

lemma bk_ok_create_schedule:
  assumes ok: "bk_ok host st" and fresh: "new \<notin> sc_ID ` set (ListBackupSchedules (bk_store st))"
    and ids: "[] \<notin> sc_ID ` set (ListBackupSchedules (bk_store st))"
  shows "bk_ok host (snd (CreateSchedule host ce now new s st))"
proof (cases "validateSchedule host ce (s\<lparr>sc_ID := []\<rparr>) (bk_store st)")
  case (Inl e)
  then show ?thesis using ok by (simp add: CreateSchedule_def liftE_bind Let_def)
next
  case (Inr u)
  let ?c = "s\<lparr>sc_ID := new, sc_CreatedAt := now, sc_UpdatedAt := now\<rparr>"
  have v: "validateSchedule host ce (s\<lparr>sc_ID := []\<rparr>) (bk_store st) = Inr ()" using Inr by simp
  note val = validateSchedule_ok [OF v]
  have sig: "ScopeSignature host ?c = ScopeSignature host (s\<lparr>sc_ID := []\<rparr>)" by (rule signature_cong) simp_all
  have st: "ListBackupSchedules (bk_store (snd (CreateSchedule host ce now new s st))) = ListBackupSchedules (bk_store st) @ [?c]"
    "ListBackupChannels (bk_store (snd (CreateSchedule host ce now new s st))) = ListBackupChannels (bk_store st)"
    by (simp_all add: CreateSchedule_def liftE_bind Let_def v UpsertBackupSchedule_def)
  show ?thesis
  proof (rule schedules_only [OF ok])
    show "scopes_apart host (ListBackupSchedules (bk_store (snd (CreateSchedule host ce now new s st))))"
      unfolding st
    proof (rule scopes_apart_append)
      show "\<forall>z \<in> set (ListBackupSchedules (bk_store st)). sc_ChannelID z = sc_ChannelID ?c \<longrightarrow> ScopeSignature host z \<noteq> ScopeSignature host ?c"
        unfolding sig using val(2) ids by (auto simp: image_iff)
    qed (use ok fresh in \<open>simp_all add: bk_ok_def\<close>)
  qed (use st ok val(1) in \<open>auto simp: bk_ok_def refs_ok_def\<close>)
qed

lemma bk_ok_replace:
  assumes ok: "bk_ok host st" and upd: "update_first (\<lambda>c. sc_ID c = i) f (ListBackupSchedules (bk_store st)) = Some r"
    and st: "ListBackupSchedules (bk_store st') = snd r" "ListBackupChannels (bk_store st') = ListBackupChannels (bk_store st)"
    and id: "\<And>x. sc_ID (f x) = i"
    and new: "\<And>x. x \<in> set (ListBackupSchedules (bk_store st)) \<Longrightarrow> sc_ID x = i \<Longrightarrow> sc_ChannelID (f x) \<in> ch_ID ` set (ListBackupChannels (bk_store st)) \<and>
      (\<forall>z \<in> set (ListBackupSchedules (bk_store st)). sc_ID z \<noteq> i \<longrightarrow> sc_ChannelID z = sc_ChannelID (f x) \<longrightarrow> ScopeSignature host z \<noteq> ScopeSignature host (f x))"
  shows "bk_ok host st'"
proof -
  obtain pre x post where l: "ListBackupSchedules (bk_store st) = pre @ x # post" "sc_ID x = i" "snd r = pre @ f x # post"
    using update_first_Some [of _ _ _ "fst r" "snd r"] upd by (metis (mono_tags, lifting) prod.collapse)
  have other: "\<forall>z \<in> set (pre @ post). sc_ID z \<noteq> i"
    using ok l unfolding bk_ok_def scopes_apart_def by (metis (no_types, lifting) distinct_append distinct.simps(2) imageI image_set list.simps(9) map_append set_append Un_iff IntI emptyE insert_iff list.set(2) not_distinct_conv_prefix disjoint_iff)
  have nx: "sc_ChannelID (f x) \<in> ch_ID ` set (ListBackupChannels (bk_store st)) \<and>
      (\<forall>z \<in> set (pre @ post). sc_ChannelID z = sc_ChannelID (f x) \<longrightarrow> ScopeSignature host z \<noteq> ScopeSignature host (f x))"
    using new [of x] l other by auto
  show ?thesis
  proof (rule schedules_only [OF ok])
    show "scopes_apart host (ListBackupSchedules (bk_store st'))"
      using ok scopes_apart_map [of host pre x post "f x"] nx l id by (simp add: st bk_ok_def)
    show "sc_ChannelID ` set (ListBackupSchedules (bk_store st')) \<subseteq> ch_ID ` set (ListBackupChannels (bk_store st))"
      using ok nx l by (auto simp: st bk_ok_def refs_ok_def)
  qed (rule st(2))
qed

lemma bk_ok_update_schedule:
  assumes ok: "bk_ok host st"
  shows "bk_ok host (snd (UpdateSchedule host ce now i s st))"
proof (cases "validateSchedule host ce (s\<lparr>sc_ID := i\<rparr>) (bk_store st)")
  case (Inl e)
  then show ?thesis using ok by (simp add: UpdateSchedule_def liftE_bind Let_def)
next
  case (Inr u)
  then have v: "validateSchedule host ce (s\<lparr>sc_ID := i\<rparr>) (bk_store st) = Inr ()" by simp
  note val = validateSchedule_ok [OF v]
  let ?f = "\<lambda>cur. s\<lparr>sc_CreatedAt := sc_CreatedAt cur, sc_ID := i, sc_UpdatedAt := now\<rparr>"
  have run: "bk_store (snd (UpdateSchedule host ce now i s st)) =
      (case update_first (\<lambda>c. sc_ID c = i) ?f (ListBackupSchedules (bk_store st)) of
         None \<Rightarrow> bk_store st | Some r \<Rightarrow> snd (store_schedules r (bk_store st)))"
    by (simp add: UpdateSchedule_def liftE_bind Let_def v UpdateBackupSchedule_def split: option.split)
  show ?thesis
  proof (cases "update_first (\<lambda>c. sc_ID c = i) ?f (ListBackupSchedules (bk_store st))")
    case None
    then show ?thesis using ok run by (simp add: bk_ok_def)
  next
    case (Some r)
    show ?thesis
    proof (rule bk_ok_replace [OF ok Some])
      fix x
      have sig: "ScopeSignature host (?f x) = ScopeSignature host (s\<lparr>sc_ID := i\<rparr>)" by (rule signature_cong) simp_all
      show "sc_ChannelID (?f x) \<in> ch_ID ` set (ListBackupChannels (bk_store st)) \<and>
        (\<forall>z \<in> set (ListBackupSchedules (bk_store st)). sc_ID z \<noteq> i \<longrightarrow> sc_ChannelID z = sc_ChannelID (?f x) \<longrightarrow> ScopeSignature host z \<noteq> ScopeSignature host (?f x))"
        unfolding sig using val by simp
    qed (simp_all add: run Some)
  qed
qed

lemma bk_ok_toggle:
  assumes ok: "bk_ok host st"
  shows "bk_ok host (snd (ToggleSchedule ce now i st))"
proof -
  let ?f = "\<lambda>s. s\<lparr>sc_Enabled := \<not> sc_Enabled s, sc_ID := i, sc_UpdatedAt := now\<rparr>"
  have run: "bk_store (snd (ToggleSchedule ce now i st)) =
      (case update_first (\<lambda>c. sc_ID c = i) ?f (ListBackupSchedules (bk_store st)) of
         None \<Rightarrow> bk_store st | Some r \<Rightarrow> snd (store_schedules r (bk_store st)))"
    by (simp add: ToggleSchedule_def UpdateBackupSchedule_def split: option.split)
  show ?thesis
  proof (cases "update_first (\<lambda>c. sc_ID c = i) ?f (ListBackupSchedules (bk_store st))")
    case None
    then show ?thesis using ok run by (simp add: bk_ok_def)
  next
    case (Some r)
    show ?thesis
    proof (rule bk_ok_replace [OF ok Some])
      fix x assume x: "x \<in> set (ListBackupSchedules (bk_store st))" "sc_ID x = i"
      have "ScopeSignature host (?f x) = ScopeSignature host x" by (rule signature_cong) simp_all
      then show "sc_ChannelID (?f x) \<in> ch_ID ` set (ListBackupChannels (bk_store st)) \<and>
        (\<forall>z \<in> set (ListBackupSchedules (bk_store st)). sc_ID z \<noteq> i \<longrightarrow> sc_ChannelID z = sc_ChannelID (?f x) \<longrightarrow> ScopeSignature host z \<noteq> ScopeSignature host (?f x))"
        using ok x by (auto simp: bk_ok_def refs_ok_def scopes_apart_def)
    qed (simp_all add: run Some)
  qed
qed

lemma bk_ok_delete_schedule:
  assumes ok: "bk_ok host st"
  shows "bk_ok host (snd (DeleteSchedule ce i st))"
proof (rule schedules_only [OF ok])
  show "ListBackupChannels (bk_store (snd (DeleteSchedule ce i st))) = ListBackupChannels (bk_store st)"
    by (simp add: DeleteSchedule_def DeleteBackupSchedule_def ListBackupChannels_def)
  show "scopes_apart host (ListBackupSchedules (bk_store (snd (DeleteSchedule ce i st))))"
    using ok by (simp add: DeleteSchedule_def DeleteBackupSchedule_def bk_ok_def)
      (simp add: ListBackupSchedules_def scopes_apart_filter)
  show "sc_ChannelID ` set (ListBackupSchedules (bk_store (snd (DeleteSchedule ce i st)))) \<subseteq> ch_ID ` set (ListBackupChannels (bk_store st))"
    using ok by (simp add: DeleteSchedule_def DeleteBackupSchedule_def bk_ok_def refs_ok_def) (auto simp: ListBackupSchedules_def)
qed

lemma bk_ok_run: "bk_ok host st \<Longrightarrow> bk_ok host (snd (RunSchedule now i st))"
  by (simp add: RunSchedule_def bk_ok_def split: prod.split)

lemma sync_reload [simp]: "in_sync ce (reload ce st)"
  by (simp add: in_sync_def reload_def Reload_def)

lemma sync_then_reload: "then_reload ce m st = (Inr x, st') \<Longrightarrow> in_sync ce st'"
  by (auto simp: then_reload_def elim!: bindE_InrE)

lemma sync_store: "ListBackupSchedules (bk_store st') = ListBackupSchedules (bk_store st) \<Longrightarrow> bk_sched st' = bk_sched st \<Longrightarrow> in_sync ce st \<Longrightarrow> in_sync ce st'"
  by (simp add: in_sync_def)

lemma channel_sched [simp]:
  "bk_sched (snd (CreateChannel now new c st)) = bk_sched st" "bk_sched (snd (UpdateChannel now i c st)) = bk_sched st"
  "bk_sched (snd (DeleteChannel i st)) = bk_sched st"
  by (simp_all add: CreateChannel_def UpdateChannel_def DeleteChannel_def Let_def liftE_bind split: sum.split)

lemma RunNow_cron: "sd_cron (snd (RunNow now get i s)) = sd_cron s \<and> sd_started (snd (RunNow now get i s)) = sd_started s"
  by (auto simp: RunNow_def launch_def split: option.split prod.split)

lemma sync_run_bk:
  assumes "refs_ok (bk_store st)" and "in_sync ce st" and "run_bk host ce p st = (Inr (), st')"
  shows "in_sync ce st'"
proof (cases p)
  case (NewChannel now new c)
  then have "st' = snd (CreateChannel now new c st)" using assms(3) by (metis run_bk.simps(1) snd_conv snd_quietly)
  then show ?thesis using assms(2) by (intro sync_store [of st' st]) (simp_all add: create_channel_lists)
next
  case (EditChannel now i c)
  then have "st' = snd (UpdateChannel now i c st)" using assms(3) by (metis run_bk.simps(2) snd_conv snd_quietly)
  then show ?thesis using assms(2) by (intro sync_store [of st' st]) (simp_all add: update_channel_lists)
next
  case (DropChannel i)
  then have "st' = snd (DeleteChannel i st)" using assms(3) by (metis run_bk.simps(3) snd_conv)
  then show ?thesis using assms(1,2) by (intro sync_store [of st' st]) (simp_all add: delete_channel_lists)
next
  case (RunIt now i)
  then show ?thesis
    using assms(2,3) RunNow_cron [of now "\<lambda>j. GetBackupSchedule j (bk_store st)" i "bk_sched st"]
    by (auto simp: RunSchedule_def in_sync_def split: prod.splits)
qed (use assms(3) in \<open>auto simp: quietly_def CreateSchedule_def UpdateSchedule_def DeleteSchedule_def ToggleSchedule_def Let_def ret_def liftE_bind
    elim!: bindE_InrE dest: sync_then_reload split: sum.splits\<close>)


section \<open>Export and import\<close>

definition known_schedules :: "mstore \<Rightarrow> bool" where
  "known_schedules s \<longleftrightarrow> distinct (map ch_ID (ListBackupChannels s)) \<and> refs_ok s"

lemma carry_redacted:
  assumes "distinct (map ch_ID cs)" and "c \<in> set cs"
  shows "carry_secrets cs (RedactSecrets c) = c"
proof -
  have d: "distinct (map ch_ID (rev cs))" using assms(1) by (simp add: rev_map [symmetric])
  have "find (\<lambda>o'. ch_ID o' = ch_ID c) xs = Some c" if "distinct (map ch_ID xs)" "c \<in> set xs" for xs
    using that by (induction xs) auto
  from this [OF d] assms(2) show ?thesis
    by (simp add: carry_secrets_def merge_redacted)
qed

lemma restored_redacted:
  assumes "known_schedules s"
  shows "restored (omitempty (map RedactSecrets (ListBackupChannels s))) (omitempty (ListBackupSchedules s)) (backup_of (ms_data s)) = backup_of (ms_data s)"
proof -
  let ?b = "backup_of (ms_data s)"
  have cs: "map (carry_secrets (bd_Channels ?b)) (map RedactSecrets (bd_Channels ?b)) = bd_Channels ?b"
    using assms carry_redacted [of "bd_Channels ?b"]
    by (auto simp: known_schedules_def ListBackupChannels_def intro!: map_idI)
  have ss: "filter (\<lambda>x. sc_ChannelID x \<in> ch_ID ` set (bd_Channels ?b)) (bd_Schedules ?b) = bd_Schedules ?b"
    using assms by (auto simp: known_schedules_def refs_ok_def ListBackupChannels_def ListBackupSchedules_def intro!: filter_True)
  show ?thesis
    using cs ss by (auto simp: restored_def omitempty_def ListBackupChannels_def ListBackupSchedules_def Let_def)
qed

lemma import_part_run: "m s = (Inr (), s') \<Longrightarrow> import_part present m None s = (Inr (present, None), if present then s' else s)"
  by (simp add: import_part_def ret_def bindE_def tryE_def)

lemma SetBranding_run:
  assumes "meta_ok s"
  shows "\<exists>s'. bindE (SetBranding b) (\<lambda>_. ret ()) s = (Inr (), s') \<and> meta_ok s' \<and>
    mt_Backup (ms_data s') = mt_Backup (ms_data s) \<and> mt_SystemConfig (ms_data s') = mt_SystemConfig (ms_data s)"
  using meta_save_ok [OF assms, of "\<lambda>m. m\<lparr>mt_Branding := Some \<lparr>br_AppName = truncateRunes (go_TrimSpace (br_AppName b)) 40,
               br_AppSubtitle = truncateRunes (go_TrimSpace (br_AppSubtitle b)) 60,
               br_HTMLTitle = truncateRunes (go_TrimSpace (br_HTMLTitle b)) 120\<rparr>\<rparr>"]
  by (auto simp: SetBranding_def Let_def bindE_def ret_def)

lemma import_meta_same:
  assumes ok: "meta_ok s" and known: "known_schedules s"
  shows "\<exists>br sc bk s'. ImportMeta (Some (meta_doc (RedactedMeta s))) s = (Inr (br, sc, bk, None), s') \<and>
    backup_of (ms_data s') = backup_of (ms_data s) \<and> mt_SystemConfig (ms_data s') = mt_SystemConfig (ms_data s)"
proof -
  let ?d = "meta_doc (RedactedMeta s)"
  let ?br = "case md_Branding ?d of None \<Rightarrow> False | Some b \<Rightarrow> branding_set b"
  let ?sc = "case md_SystemConfig ?d of None \<Rightarrow> False | Some c \<Rightarrow> config_set c"
  let ?bk = "orNil [] (md_Channels ?d) \<noteq> [] \<or> orNil [] (md_Schedules ?d) \<noteq> []"
  have doc: "md_Channels ?d = omitempty (map RedactSecrets (ListBackupChannels s))" "md_Schedules ?d = omitempty (ListBackupSchedules s)"
    "md_SystemConfig ?d = mt_SystemConfig (ms_data s)"
    by (cases "mt_Backup (ms_data s)"; simp add: meta_doc_def RedactedMeta_def backup_of_def orNil_def no_backup_def ListBackupChannels_def ListBackupSchedules_def)+
  obtain s1 where s1: "bindE (SetBranding (the (md_Branding ?d))) (\<lambda>_. ret ()) s = (Inr (), s1)" "meta_ok s1"
      "mt_Backup (ms_data s1) = mt_Backup (ms_data s)" "mt_SystemConfig (ms_data s1) = mt_SystemConfig (ms_data s)"
    using SetBranding_run [OF ok] by blast
  define t1 where "t1 = (if ?br then s1 else s)"
  have t1: "meta_ok t1" "mt_Backup (ms_data t1) = mt_Backup (ms_data s)" "mt_SystemConfig (ms_data t1) = mt_SystemConfig (ms_data s)"
    using s1 ok by (simp_all add: t1_def)
  obtain s2 where s2: "SetSystemConfig (the (md_SystemConfig ?d)) t1 = (Inr (), s2)" "meta_ok s2"
      "ms_data s2 = (ms_data t1)\<lparr>mt_SystemConfig := Some (the (md_SystemConfig ?d))\<rparr>"
    using meta_save_ok [OF t1(1)] unfolding SetSystemConfig_def by metis
  define t2 where "t2 = (if ?sc then s2 else t1)"
  have t2: "meta_ok t2" "mt_Backup (ms_data t2) = mt_Backup (ms_data s)" "mt_SystemConfig (ms_data t2) = mt_SystemConfig (ms_data s)"
    using s2 t1 doc(3) by (auto simp: t2_def split: option.splits)
  obtain s3 where s3: "restoreBackupConfig (md_Channels ?d) (md_Schedules ?d) t2 = (Inr (), s3)"
      "ms_data s3 = set_backup (restored (md_Channels ?d) (md_Schedules ?d)) (ms_data t2)"
    using meta_save_ok [OF t2(1)] unfolding restoreBackupConfig_def by metis
  define t3 where "t3 = (if ?bk then s3 else t2)"
  have same: "backup_of (ms_data t2) = backup_of (ms_data s)" using t2(2) by (simp add: backup_of_def)
  have "backup_of (ms_data t3) = backup_of (ms_data s)"
    using restored_redacted [OF known] same by (simp add: t3_def s3(2) doc)
  moreover have "mt_SystemConfig (ms_data t3) = mt_SystemConfig (ms_data s)"
    using t2 s3(2) by (simp add: t3_def set_backup_def)
  moreover have "ImportMeta (Some ?d) s = (Inr (?br, ?sc, ?bk, None), t3)"
    unfolding ImportMeta_def option.case
    by (simp only: bindE_def import_part_run [where m = "bindE (SetBranding (the (md_Branding ?d))) (\<lambda>_. ret ())", OF s1(1)]
        sum.case prod.case t1_def [symmetric] import_part_run [where m = "SetSystemConfig (the (md_SystemConfig ?d))", OF s2(1)] t2_def [symmetric] import_part_run [where m = "restoreBackupConfig (md_Channels ?d) (md_Schedules ?d)", OF s3(1)] t3_def [symmetric] ret_def)
  ultimately show ?thesis by blast
qed


section \<open>Concrete states\<close>

definition demo_channel :: Channel where
  "demo_channel = \<lparr>ch_ID = ''ch_1'', ch_Name = ''nas'', ch_Kind = KindWebDAV, ch_S3 = None,
     ch_WebDAV = Some \<lparr>wd_BaseURL = ''https://nas/dav'', wd_Username = ''u'', wd_Password = ''p'', wd_Prefix = []\<rparr>,
     ch_CreatedAt = 0, ch_UpdatedAt = 0\<rparr>"

definition demo_meta :: mstore where
  "demo_meta = \<lparr>ms_path = ''/data/meta.json'',
     ms_data = defaultMeta\<lparr>mt_Backup := Some \<lparr>bd_Channels = [demo_channel], bd_Schedules = [demo_schedule daily_template], bd_Runs = []\<rparr>\<rparr>,
     ms_disk = \<lparr>dk_files = Map.empty, dk_flush = (\<lambda>_. None), dk_read = (\<lambda>_. None)\<rparr>\<rparr>"

definition demo_bk :: bk where
  "demo_bk = \<lparr>bk_store = demo_meta, bk_sched = NewScheduler\<rparr>"

lemma demo_lists: "ListBackupChannels demo_meta = [demo_channel]" "ListBackupSchedules demo_meta = [demo_schedule daily_template]"
  by (simp_all add: demo_meta_def ListBackupChannels_def ListBackupSchedules_def backup_of_def orNil_def)



end
