(* ===== verification/Pkgmgr.thy ===== *)
theory Pkgmgr
  imports UciBackend
begin

text \<open>
  internal/pkgmgr: installing OpenWrt packages, with mirrors as a fallback. The state is the machine
  alone, reached through the same \<open>sys\<close> as the uci backend uses. The log that accompanies an error is
  dropped; messages are glosses.
\<close>

definition run_w :: "'w sys \<Rightarrow> string \<Rightarrow> string list \<Rightarrow> ('w, string \<times> string option) act" where
  "run_w E stdin argv w = (case sy_run E stdin argv w of (x, w') \<Rightarrow> (Inr x, w'))"

definition have_cmd :: "'w sys \<Rightarrow> string \<Rightarrow> ('w, bool) act" where
  "have_cmd E name = bindE (run_w E [] [''sh'', ''-c'', ''command -v '' @ name]) (\<lambda>(out, e). ret (e = None))"

text \<open>apk is preferred only where there is no opkg beside it.\<close>

definition pkg_manager :: "'w sys \<Rightarrow> ('w, string) act" where
  "pkg_manager E =
     bindE (have_cmd E ''apk'') (\<lambda>a1.
     bindE (if a1 then have_cmd E ''opkg'' else ret True) (\<lambda>o1.
       if \<not> o1 then ret ''apk''
       else bindE (have_cmd E ''opkg'') (\<lambda>o2.
         if o2 then ret ''opkg''
         else bindE (have_cmd E ''apk'') (\<lambda>a2. ret (if a2 then ''apk'' else [])))))"

definition Installed :: "'w sys \<Rightarrow> string \<Rightarrow> ('w, bool) act" where
  "Installed E initdName =
     bindE (run_w E [] [''test'', ''-x'', ''/etc/init.d/'' @ initdName]) (\<lambda>(out, e).
       ret (e = None \<and> go_TrimSpace out = []))"

definition pkg_script :: "string \<Rightarrow> string \<Rightarrow> string \<Rightarrow> string" where
  "pkg_script pm pkgs feed =
     (let upd = (if pm = ''apk'' then ''apk update; apk add '' else ''opkg update; opkg install '') @ pkgs;
          path = (if pm = ''apk'' then ''/etc/apk/repositories.d/zzz-kwrt-pkg.list'' else ''/etc/opkg/zzz-kwrt-pkg.conf'')
      in if feed = [] then upd
         else ''cat > '' @ path @ '' <<'' @ quoted ''KWRTFEED'' @ byte 10 # feed @ ''KWRTFEED'' @ byte 10 #
           upd @ ''; rc=$?; rm -f '' @ path @ ''; exit $rc'')"

definition runInstall :: "'w sys \<Rightarrow> string \<Rightarrow> string \<Rightarrow> string \<Rightarrow> ('w, string \<times> string option) act" where
  "runInstall E pm pkgs feed = run_w E [] [''sh'', ''-c'', pkg_script pm pkgs feed]"

definition osField :: "string \<Rightarrow> string \<Rightarrow> string" where
  "osField content key = osReleaseField content key"

definition pkg_feed_line :: "string \<Rightarrow> string \<Rightarrow> string \<Rightarrow> string \<Rightarrow> string" where
  "pkg_feed_line pm tag root feed =
     (if pm = ''apk'' then root @ ''/'' @ feed
      else ''src/gz kwrtpkg_'' @ tag @ ''_'' @ feed @ '' '' @ root @ ''/'' @ feed) @ [byte 10]"

definition pkg_groups :: "lib \<Rightarrow> string \<Rightarrow> string \<Rightarrow> (string \<times> string) list" where
  "pkg_groups L pm osr =
     (let ver = osField osr ''VERSION_ID''; arch = osField osr ''OPENWRT_ARCH'';
          distro = (if osField osr ''ID'' = ''immortalwrt'' then ''immortalwrt'' else ''openwrt'');
          path = ''/releases/'' @ ver @ ''/packages/'' @ arch;
          group = (\<lambda>(tag, name, root).
            (name, concat (map (pkg_feed_line pm tag root) [''base'', ''packages'', ''luci''])))
      in if ver = [] \<or> arch = [] \<or> go_EqualFold L ver ''snapshot'' then []
         else map group
           [(''ustc'', ''USTC mirror'', ''https://mirrors.ustc.edu.cn/'' @ distro @ path),
            (''off'', ''official'', ''https://downloads.'' @ distro @ ''.org'' @ path)])"

definition fallbackGroups :: "lib \<Rightarrow> 'w sys \<Rightarrow> string \<Rightarrow> ('w, (string \<times> string) list) act" where
  "fallbackGroups L E pm = bindE (run_w E [] [''cat'', ''/etc/os-release'']) (\<lambda>(osr, e). ret (pkg_groups L pm osr))"

definition lastLine :: "string \<Rightarrow> string" where
  "lastLine out = lastNonEmptyLine out"

definition hint :: "lib \<Rightarrow> string \<Rightarrow> string" where
  "hint L out =
     (let lo = go_ToLower (lb_lower L) out; has = list_ex (go_Contains lo) in
      if has [''could not lock'', ''opkg.lock'', ''resource temporarily unavailable''] then ''another installation is running''
      else if has [''ssl error'', ''certificate'', ''handshake''] then ''HTTPS handshake with the feed failed''
      else if has [''failed to download'', ''wget returned'', ''could not'', ''resolve''] then ''the feed cannot be reached''
      else if has [''unknown package'', ''not found''] then ''the package is not in the feed''
      else ''installation failed: '' @ lastLine out)"

definition retry_header :: "string \<Rightarrow> string" where
  "retry_header name = [byte 10, byte 10] @ ''=== retry with '' @ name @ '' ==='' @ [byte 10]"

fun try_groups :: "lib \<Rightarrow> 'w sys \<Rightarrow> string \<Rightarrow> string \<Rightarrow> string \<Rightarrow> (string \<times> string) list \<Rightarrow> ('w, string) act" where
  "try_groups L E pm pkgs logs [] = fail (ErrFmt ''feed and mirrors failed'' [hint L logs])"
| "try_groups L E pm pkgs logs (g # gs) =
     bindE (runInstall E pm pkgs (snd g)) (\<lambda>(out, e).
       let logs' = logs @ retry_header (fst g) @ go_TrimSpace out
       in if e = None then ret logs' else try_groups L E pm pkgs logs' gs)"

definition Install :: "lib \<Rightarrow> 'w sys \<Rightarrow> string \<Rightarrow> ('w, string) act" where
  "Install L E pkgs = bindE (pkg_manager E) (\<lambda>pm.
     if pm \<noteq> ''opkg'' \<and> pm \<noteq> ''apk'' then fail (Err ''no package manager'')
     else bindE (runInstall E pm pkgs []) (\<lambda>(out, e).
       if e = None then ret out
       else bindE (fallbackGroups L E pm) (\<lambda>groups.
         if groups = [] then fail (ErrFmt ''no mirror can be derived'' [hint L out])
         else try_groups L E pm pkgs (go_TrimSpace out) groups)))"

end
