(* ===== verification/Ddns.thy ===== *)
theory Ddns
  imports MetaStore Pkgmgr "HOL-Library.Product_Lexorder"
begin

text \<open>
  internal/ddns: dynamic DNS with the ddns-scripts of OpenWrt. The entries live in a JSON file beside
  the program (the sidecar) and are projected into the uci configuration ddns, as sections with a
  marker of their own. For a device of the LAN the program itself finds a global IPv6 address, from
  DHCPv6 leases and the neighbour table, and caches it in a file that a small script prints.

  The machine is \<open>sys\<close> again. The sidecar is written in place (no temporary file), so its document can
  be torn. The cache and script files are \<open>dv_files\<close>; \<open>dv_io\<close> decides which of their writes fails, and
  what the file holds then.
\<close>

section \<open>Data\<close>

record DdnsEntry =
  de_ID :: string
  de_Provider :: string
  de_Domain :: string
  de_AuthMode :: string
  de_Username :: string
  de_Password :: string
  de_IPSource :: string
  de_Interface :: string
  de_MAC :: string
  de_RecordType :: string
  de_Enabled :: bool
  de_Remark :: string
  de_LastResult :: string
  de_CurrentIP :: string
  de_LastUpdate :: string

record 'w ddns =
  dv_world :: 'w
  dv_path :: string
  dv_disk :: "DdnsEntry list disk"
  dv_dir :: string
  dv_files :: "string \<rightharpoonup> string"
  dv_io :: "nat \<Rightarrow> (string \<times> string option) option"
  dv_rand :: "nat \<Rightarrow> string"

definition on_w :: "('w, 'a) act \<Rightarrow> ('w ddns, 'a) act" where
  "on_w m s = (case m (dv_world s) of (r, w) \<Rightarrow> (r, s\<lparr>dv_world := w\<rparr>))"

abbreviation markerDDNS :: string where "markerDDNS \<equiv> ''kwrt-net-manager-ddns''"
abbreviation markerOpt :: string where "markerOpt \<equiv> ''managed_by''"

definition ddns_validate :: "DdnsEntry \<Rightarrow> err + unit" where
  "ddns_validate e =
     (if go_TrimSpace (de_Provider e) = [] then Inl (Err ''provider is empty'')
      else if go_TrimSpace (de_Domain e) = [] then Inl (Err ''domain is empty'')
      else if go_TrimSpace (de_Password e) = [] then Inl (Err ''token or password is empty'')
      else bindR
        (if de_IPSource e = ''web'' then Inr ()
         else if de_IPSource e = ''network'' then
           (if go_TrimSpace (de_Interface e) = [] then Inl (Err ''an interface is needed'') else Inr ())
         else if de_IPSource e = ''device'' then
           (if NormalizeMAC (de_MAC e) = [] then Inl (Err ''a device MAC is needed'')
            else if de_RecordType e \<noteq> ''AAAA'' then Inl (Err ''devices are IPv6 only'')
            else Inr ())
         else Inl (Err ''unknown address source''))
        (\<lambda>_. if de_RecordType e \<noteq> ''A'' \<and> de_RecordType e \<noteq> ''AAAA'' then Inl (Err ''record type must be A or AAAA'')
             else Inr ()))"

section \<open>Addresses of a device\<close>

record v6cand =
  vc_mac :: string
  vc_ip :: "nat list"
  vc_fromDHCP :: bool

text \<open>\<open>IP.String\<close> of an address that is not IPv4: the first longest run of at least two zero groups is elided.\<close>

fun ipv6_groups :: "nat list \<Rightarrow> nat list" where
  "ipv6_groups (a # b # bs) = (a * 256 + b) # ipv6_groups bs"
| "ipv6_groups bs = []"

definition zero_run :: "nat list \<Rightarrow> nat" where
  "zero_run gs = length (takeWhile (\<lambda>g. g = 0) gs)"

fun longest_run :: "nat \<Rightarrow> nat list \<Rightarrow> nat \<times> nat \<Rightarrow> nat \<times> nat" where
  "longest_run i [] best = best"
| "longest_run i (g # gs) best =
     (let n = zero_run (g # gs) in longest_run (Suc i) gs (if 2 \<le> n \<and> snd best < n then (i, n) else best))"

definition go_IPv6String :: "nat list \<Rightarrow> string" where
  "go_IPv6String ip =
     (let gs = ipv6_groups ip; hexs = (\<lambda>l. go_Join (map hex_nat l) '':'') in
      case longest_run 0 gs (0, 0) of (i, n) \<Rightarrow>
        if n = 0 then hexs gs else hexs (take i gs) @ ''::'' @ hexs (drop (i + n) gs))"

definition isGlobalGUA :: "nat list \<Rightarrow> bool" where
  "isGlobalGUA ip \<longleftrightarrow> length ip = 16 \<and> go_To4 ip = None \<and> ip \<noteq> replicate 16 0 \<and> ip \<noteq> replicate 15 0 @ [1] \<and>
     ip ! 0 \<noteq> 255 \<and> \<not> (ip ! 0 = 254 \<and> ip ! 1 div 64 = 2) \<and> ip ! 0 div 2 \<noteq> 126"

definition eui64IID :: "string \<Rightarrow> nat list option" where
  "eui64IID mac = (case go_ParseMAC (NormalizeMAC mac) of
     Some [a, b, c, d, e, f] \<Rightarrow> Some [a XOR 2, b, c, 255, 254, d, e, f]
   | _ \<Rightarrow> None)"

definition cand_rank :: "nat list option \<Rightarrow> v6cand \<Rightarrow> nat \<times> string" where
  "cand_rank iid c =
     (if vc_fromDHCP c then (0, ''dhcpv6'')
      else if iid = Some (drop (length (vc_ip c) - 8) (vc_ip c)) then (1, ''slaac'')
      else (2, ''neighbor''))"

definition pick_step :: "string \<Rightarrow> nat list option \<Rightarrow> nat \<times> string \<times> string \<Rightarrow> v6cand \<Rightarrow> nat \<times> string \<times> string" where
  "pick_step target iid best c =
     (case best of (bestRank, bestIP, bestSrc) \<Rightarrow>
        if vc_mac c \<noteq> target \<or> \<not> isGlobalGUA (vc_ip c) then best
        else (case cand_rank iid c of (rank, src) \<Rightarrow>
          let ipStr = go_IPv6String (vc_ip c) in
          if rank < bestRank \<or> (rank = bestRank \<and> (bestIP = [] \<or> ipStr < bestIP)) then (rank, ipStr, src) else best))"

definition pickStableGUA :: "string \<Rightarrow> v6cand list \<Rightarrow> string \<times> string" where
  "pickStableGUA mac cands =
     (let target = NormalizeMAC mac in
      if target = [] then ([], [])
      else snd (foldl (pick_step target (eui64IID target)) (99, [], []) cands))"

fun lladdr_of :: "string \<Rightarrow> string list \<Rightarrow> string" where
  "lladdr_of mac (f # v # fs) = (if f = ''lladdr'' then lladdr_of (NormalizeMAC v) fs else lladdr_of mac (v # fs))"
| "lladdr_of mac fs = mac"

definition neighbor_cand :: "string \<Rightarrow> v6cand option" where
  "neighbor_cand line = (let f = go_Fields line in
     if length f < 3 then None
     else (case go_ParseIP (hd f) of None \<Rightarrow> None
       | Some ip \<Rightarrow> (let mac = lladdr_of [] (tl f) in
           if mac = [] then None else Some \<lparr>vc_mac = mac, vc_ip = ip, vc_fromDHCP = False\<rparr>)))"

definition parseNeighborCands :: "string \<Rightarrow> v6cand list" where
  "parseNeighborCands out = List.map_filter neighbor_cand (go_Split out (byte 10))"

text \<open>The devices of the decoded JSON come from a Go map, in any order.\<close>

definition lease_cands :: "lib \<Rightarrow> leaseJson6 \<Rightarrow> v6cand list" where
  "lease_cands L l = (let mac = NormalizeMAC (duidToMAC L (jl_duid l)) in
     if mac = [] then []
     else map (\<lambda>ip. \<lparr>vc_mac = mac, vc_ip = ip, vc_fromDHCP = True\<rparr>) (List.map_filter go_ParseIP (jl_addrs l)))"

definition parseLeaseCandsV6 :: "lib \<Rightarrow> jsons \<Rightarrow> string \<Rightarrow> v6cand list" where
  "parseLeaseCandsV6 L J out = (case js_leases6 J out of
     None \<Rightarrow> []
   | Some devs \<Rightarrow> concat (map (lease_cands L) (concat (map snd devs))))"

definition lease_cmd :: "string list" where
  "lease_cmd = [''ubus'', ''call'', ''dhcp'', ''ipv6leases'']"

definition neighbor_cmd :: "string list" where
  "neighbor_cmd = [''ip'', ''-6'', ''neighbor'', ''show'']"

definition resolveDeviceGUA :: "lib \<Rightarrow> jsons \<Rightarrow> 'w sys \<Rightarrow> string \<Rightarrow> ('w, string \<times> string) act" where
  "resolveDeviceGUA L J E mac =
     (let target = NormalizeMAC mac in
      if target = [] then fail (Err ''invalid MAC address'')
      else bindE (run_w E [] lease_cmd) (\<lambda>(out1, e1).
           bindE (run_w E [] neighbor_cmd) (\<lambda>(out2, e2).
             let cands = (if e1 = None then parseLeaseCandsV6 L J out1 else []) @
                         (if e2 = None then parseNeighborCands out2 else []);
                 r = pickStableGUA target cands
             in if fst r = [] then fail (ErrFmt ''no global address for the device'' [target]) else ret r)))"

section \<open>The devices to choose from\<close>

record Device =
  dc_MAC :: string
  dc_Hostname :: string
  dc_IPv6 :: string
  dc_Source :: string
  dc_Vendor :: string

definition lease_host :: "string \<Rightarrow> (string \<times> string) option" where
  "lease_host line = (let f = go_Fields line in
     if length f < 4 then None
     else (let mac = NormalizeMAC (f ! 1) in
       if mac = [] \<or> f ! 3 = [] \<or> f ! 3 = ''*'' then None else Some (mac, f ! 3)))"

text \<open>A later line of the lease file replaces an earlier one.\<close>

definition leaseHostnames :: "string option \<Rightarrow> (string \<times> string) list" where
  "leaseHostnames content = (case content of None \<Rightarrow> []
     | Some b \<Rightarrow> rev (List.map_filter lease_host (go_Split b (byte 10))))"

definition device_of :: "lib \<Rightarrow> v6cand list \<Rightarrow> (string \<rightharpoonup> string) \<Rightarrow> string \<Rightarrow> Device" where
  "device_of L cands hosts m = (case pickStableGUA m cands of (ip, src) \<Rightarrow>
     \<lparr>dc_MAC = m, dc_Hostname = (case hosts m of None \<Rightarrow> [] | Some h \<Rightarrow> h), dc_IPv6 = ip, dc_Source = src,
      dc_Vendor = Vendor (lb_oui L) m\<rparr>)"

text \<open>\<open>iter\<close> is the order in which the map of the MAC addresses is walked; the sort has distinct keys.\<close>

definition devices :: "lib \<Rightarrow> (string set \<Rightarrow> string list) \<Rightarrow> v6cand list \<Rightarrow> (string \<times> string) list \<Rightarrow> Device list" where
  "devices L iter cands hosts =
     sort_key (\<lambda>d. (dc_Hostname d, dc_MAC d))
       (map (device_of L cands (map_of hosts)) (iter (vc_mac ` set cands \<union> fst ` set hosts)))"

definition listDevices ::
    "lib \<Rightarrow> jsons \<Rightarrow> 'w sys \<Rightarrow> (string set \<Rightarrow> string list) \<Rightarrow> string \<Rightarrow> ('w, Device list) act" where
  "listDevices L J E iter leaseFile =
     bindE (run_w E [] neighbor_cmd) (\<lambda>(neigh, e1).
     bindE (run_w E [] lease_cmd) (\<lambda>(lease6, e2) w.
       (Inr (devices L iter (parseLeaseCandsV6 L J lease6 @ parseNeighborCands neigh)
          (leaseHostnames (sy_read E leaseFile w))), w)))"

section \<open>The sidecar\<close>

definition load :: "('w ddns, DdnsEntry list) act" where
  "load s = (let d = dv_disk s; s' = s\<lparr>dv_disk := d\<lparr>dk_read := (\<lambda>n. dk_read d (Suc n))\<rparr>\<rparr> in
     (Inr (if dk_read d 0 \<noteq> None then []
           else (case dk_files d (dv_path s) of Some (Doc items) \<Rightarrow> items | _ \<Rightarrow> [])), s'))"

definition sidecar_micros :: "string \<Rightarrow> DdnsEntry list \<Rightarrow> DdnsEntry list micro list" where
  "sidecar_micros path items = [Truncate path, Fill path items]"

definition write_sidecar :: "DdnsEntry list \<Rightarrow> ('w ddns, unit) act" where
  "write_sidecar items s =
     (let d = dv_disk s; ms = sidecar_micros (dv_path s) items; d' = d\<lparr>dk_flush := (\<lambda>n. dk_flush d (Suc n))\<rparr> in
      case dk_flush d 0 of
        None \<Rightarrow> (Inr (), s\<lparr>dv_disk := d'\<lparr>dk_files := run_micros ms (dk_files d)\<rparr>\<rparr>)
      | Some (k, e) \<Rightarrow> (Inl (ErrIO e), s\<lparr>dv_disk := d'\<lparr>dk_files := run_micros (take (min k 1) ms) (dk_files d)\<rparr>\<rparr>))"

section \<open>Cache and script of a device (device.go)\<close>

definition deviceIPPath :: "'w ddns \<Rightarrow> string \<Rightarrow> string" where
  "deviceIPPath s i = dv_dir s @ ''/'' @ i @ ''.ip''"

definition deviceScriptPath :: "'w ddns \<Rightarrow> string \<Rightarrow> string" where
  "deviceScriptPath s i = dv_dir s @ ''/'' @ i @ ''.sh''"

definition write_file :: "string \<Rightarrow> string \<Rightarrow> ('w ddns, unit) act" where
  "write_file path content s =
     (let s' = s\<lparr>dv_io := (\<lambda>n. dv_io s (Suc n))\<rparr> in
      case dv_io s 0 of
        None \<Rightarrow> (Inr (), s'\<lparr>dv_files := (dv_files s)(path \<mapsto> content)\<rparr>)
      | Some (e, None) \<Rightarrow> (Inl (ErrIO e), s')
      | Some (e, Some torn) \<Rightarrow> (Inl (ErrIO e), s'\<lparr>dv_files := (dv_files s)(path \<mapsto> torn)\<rparr>))"

text \<open>The script; its comment line is Chinese in the source.\<close>

definition script_text :: "string \<Rightarrow> string" where
  "script_text ip_path = ''#!/bin/sh'' @ [byte 10] @ ''# generated by kwrt-net-manager'' @ [byte 10] @
     ''cat '' @ [byte 34] @ ip_path @ [byte 34] @ '' 2>/dev/null'' @ [byte 10]"

definition ensureDeviceScript :: "string \<Rightarrow> ('w ddns, unit) act" where
  "ensureDeviceScript i s = write_file (deviceScriptPath s i) (script_text (deviceIPPath s i)) s"

definition refreshDevice :: "lib \<Rightarrow> jsons \<Rightarrow> 'w sys \<Rightarrow> DdnsEntry \<Rightarrow> ('w ddns, string \<times> bool) act" where
  "refreshDevice L J E e =
     bindE (on_w (resolveDeviceGUA L J E (de_MAC e))) (\<lambda>(ip, src) s.
       (let p = deviceIPPath s (de_ID e) in
        if go_TrimSpace (orNil [] (dv_files s p)) = ip then (Inr (ip, False), s)
        else bindE (write_file p (ip @ [byte 10])) (\<lambda>_. ret (ip, True)) s))"

definition refresh_entry :: "lib \<Rightarrow> jsons \<Rightarrow> 'w sys \<Rightarrow> DdnsEntry \<Rightarrow> ('w ddns, unit) act" where
  "refresh_entry L J E e =
     bindE (tryE (ensureDeviceScript (de_ID e))) (\<lambda>_.
       if de_Enabled e then bindE (tryE (refreshDevice L J E e)) (\<lambda>_. ret ()) else ret ())"

definition RefreshDevices :: "lib \<Rightarrow> jsons \<Rightarrow> 'w sys \<Rightarrow> ('w ddns, unit) act" where
  "RefreshDevices L J E = bindE load (\<lambda>items.
     bindE (mapA (refresh_entry L J E) (filter (\<lambda>e. de_Enabled e \<and> de_IPSource e = ''device'') items)) (\<lambda>_. ret ()))"

section \<open>The projection (apply.go)\<close>

definition uciEsc :: "string \<Rightarrow> string" where
  "uciEsc v = go_ReplaceByte v (byte 39) [byte 39, byte 92, byte 39, byte 39]"

definition ddns_set :: "string \<Rightarrow> string \<Rightarrow> string \<Rightarrow> ucmd" where
  "ddns_set i k v = SetKV (Opt ''ddns'' i k) (uciEsc v)"

definition svc_name :: "DdnsEntry \<Rightarrow> string" where
  "svc_name e = (let p = de_Provider e in
     if go_HasSuffix p ''-v4'' \<or> go_HasSuffix p ''-v6'' then p
     else p @ (if de_RecordType e = ''AAAA'' then ''-v6'' else ''-v4''))"

definition entry_iface :: "DdnsEntry \<Rightarrow> string" where
  "entry_iface e = (if de_Interface e \<noteq> [] then de_Interface e
     else if de_IPSource e = ''device'' then ''lan'' else ''wan'')"

definition source_cmds :: "string \<Rightarrow> DdnsEntry \<Rightarrow> ucmd list" where
  "source_cmds script e = (let i = de_ID e in
     if de_IPSource e = ''device'' then
       [ddns_set i ''ip_source'' ''script'', ddns_set i ''ip_script'' script, DelK (Opt ''ddns'' i ''ip_network'')]
     else if de_IPSource e = ''network'' then
       [ddns_set i ''ip_source'' ''network'', ddns_set i ''ip_network'' (entry_iface e)]
     else [ddns_set i ''ip_source'' (de_IPSource e), DelK (Opt ''ddns'' i ''ip_network'')])"

definition entry_cmds :: "string \<Rightarrow> DdnsEntry \<Rightarrow> ucmd list" where
  "entry_cmds script e = (let i = de_ID e in
     [SetType (Sec ''ddns'' i) ''service'', ddns_set i markerOpt markerDDNS,
      ddns_set i ''enabled'' (if de_Enabled e then ''1'' else ''0''),
      ddns_set i ''service_name'' (svc_name e), ddns_set i ''lookup_host'' (de_Domain e),
      ddns_set i ''domain'' (de_Domain e),
      (if de_Username e \<noteq> [] then ddns_set i ''username'' (de_Username e) else DelK (Opt ''ddns'' i ''username'')),
      ddns_set i ''password'' (de_Password e),
      ddns_set i ''use_ipv6'' (if de_RecordType e = ''AAAA'' then ''1'' else ''0'')] @
     source_cmds script e @
     [ddns_set i ''interface'' (entry_iface e), ddns_set i ''use_https'' ''1'', ddns_set i ''cacert'' ''/etc/ssl/certs'',
      ddns_set i ''check_interval'' (if de_IPSource e = ''device'' then ''2'' else ''10''),
      ddns_set i ''check_unit'' ''minutes'', ddns_set i ''force_interval'' ''72'', ddns_set i ''force_unit'' ''hours''])"

fun uniq :: "string list \<Rightarrow> string list \<Rightarrow> string list" where
  "uniq seen [] = []"
| "uniq seen (x # xs) = (if x \<in> set seen then uniq seen xs else x # uniq (x # seen) xs)"

definition managed_line :: "string \<Rightarrow> string option" where
  "managed_line line0 = (let line = go_TrimSpace line0 in
     if \<not> go_HasPrefix line ''ddns.'' \<or> \<not> go_HasSuffix line (''.'' @ markerOpt @ ''='' @ quoted markerDDNS) then None
     else (let rest = go_TrimPrefix line ''ddns.'' in
       case go_IndexByte rest CHR ''.'' of None \<Rightarrow> None
       | Some i \<Rightarrow> if 0 < i then Some (take i rest) else None))"

definition managed_names :: "string \<Rightarrow> string list" where
  "managed_names shown = uniq [] (List.map_filter managed_line (go_Split shown (byte 10)))"

definition ddns_managedNames :: "'w sys \<Rightarrow> ('w, string list) act" where
  "ddns_managedNames E = bindE (run_w E [] [''uci'', ''show'', ''ddns'']) (\<lambda>(shown, e).
     ret (if e = None then managed_names shown else []))"

definition ddns_batch :: "(string \<Rightarrow> string) \<Rightarrow> DdnsEntry list \<Rightarrow> string list \<Rightarrow> ucmd list" where
  "ddns_batch script items managed =
     concat (map (\<lambda>e. entry_cmds (script (de_ID e)) e) items) @
     delete_others ''ddns'' managed (map de_ID items) @ [Commit ''ddns'']"

definition device_effects :: "lib \<Rightarrow> jsons \<Rightarrow> 'w sys \<Rightarrow> DdnsEntry \<Rightarrow> ('w ddns, unit) act" where
  "device_effects L J E e = (if de_IPSource e = ''device'' then refresh_entry L J E e else ret ())"

definition restart_ddns :: "'w sys \<Rightarrow> bool \<Rightarrow> ('w, unit) act" where
  "restart_ddns E any =
     bindE (run_w E [] [''/etc/init.d/ddns'', ''enable'']) (\<lambda>_.
     bindE (run_w E [] [''sh'', ''-c'',
         (if any then ''/etc/init.d/ddns restart'' else ''/etc/init.d/ddns stop'') @ '' >/dev/null 2>&1 &'']) (\<lambda>_. ret ()))"

definition ddns_apply :: "lib \<Rightarrow> jsons \<Rightarrow> 'w sys \<Rightarrow> DdnsEntry list \<Rightarrow> ('w ddns, unit) act" where
  "ddns_apply L J E items =
     bindE (on_w (Installed E ''ddns'')) (\<lambda>ok.
       if \<not> ok then ret ()
       else bindE (mapA (device_effects L J E) items) (\<lambda>_.
            bindE (on_w (ddns_managedNames E)) (\<lambda>managed s.
              bindE (on_w (run_w E (batch_text (ddns_batch (deviceScriptPath s) items managed)) [''uci'', ''batch''])) (\<lambda>(out, e).
                case e of Some m \<Rightarrow> fail (ErrFmt ''uci batch ddns'' [m, go_TrimSpace out])
                | None \<Rightarrow> on_w (restart_ddns E (list_ex de_Enabled items))) s)))"

definition saveAndApply :: "lib \<Rightarrow> jsons \<Rightarrow> 'w sys \<Rightarrow> DdnsEntry list \<Rightarrow> ('w ddns, unit) act" where
  "saveAndApply L J E items = bindE (write_sidecar items) (\<lambda>_. ddns_apply L J E items)"

section \<open>The operations (ddns.go)\<close>

definition new_id :: "('w ddns, string) act" where
  "new_id s = (Inr (dv_rand s 0), s\<lparr>dv_rand := (\<lambda>n. dv_rand s (Suc n))\<rparr>)"

text \<open>
  \<open>return in, s.saveAndApply(items)\<close>: the entry is returned beside the error; the handler drops it.
\<close>

definition ddns_Create :: "lib \<Rightarrow> jsons \<Rightarrow> 'w sys \<Rightarrow> DdnsEntry \<Rightarrow> ('w ddns, DdnsEntry) act" where
  "ddns_Create L J E inp =
     bindE (liftE (ddns_validate inp)) (\<lambda>_. bindE load (\<lambda>items. bindE new_id (\<lambda>i.
       let e = inp\<lparr>de_ID := i, de_Enabled := True\<rparr> in
       bindE (saveAndApply L J E (items @ [e])) (\<lambda>_. ret e))))"

definition ddns_Update :: "lib \<Rightarrow> jsons \<Rightarrow> 'w sys \<Rightarrow> string \<Rightarrow> DdnsEntry \<Rightarrow> ('w ddns, DdnsEntry) act" where
  "ddns_Update L J E i inp =
     bindE (liftE (ddns_validate inp)) (\<lambda>_. bindE load (\<lambda>items.
       case update_first (\<lambda>e. de_ID e = i) (\<lambda>e. inp\<lparr>de_ID := i, de_Enabled := de_Enabled e\<rparr>) items of
         None \<Rightarrow> fail ErrNotFound
       | Some (e, items') \<Rightarrow> bindE (saveAndApply L J E items') (\<lambda>_. ret e)))"

definition ddns_Delete :: "lib \<Rightarrow> jsons \<Rightarrow> 'w sys \<Rightarrow> string \<Rightarrow> ('w ddns, unit) act" where
  "ddns_Delete L J E i = bindE load (\<lambda>items.
     if i \<notin> de_ID ` set items then fail ErrNotFound
     else saveAndApply L J E (filter (\<lambda>e. de_ID e \<noteq> i) items))"

definition ddns_Toggle :: "lib \<Rightarrow> jsons \<Rightarrow> 'w sys \<Rightarrow> string \<Rightarrow> bool \<Rightarrow> ('w ddns, unit) act" where
  "ddns_Toggle L J E i on = bindE load (\<lambda>items.
     case update_first (\<lambda>e. de_ID e = i) (\<lambda>e. e\<lparr>de_Enabled := on\<rparr>) items of
       None \<Rightarrow> fail ErrNotFound
     | Some (_, items') \<Rightarrow> saveAndApply L J E items')"

definition ddns_Batch :: "lib \<Rightarrow> jsons \<Rightarrow> 'w sys \<Rightarrow> string \<Rightarrow> string list \<Rightarrow> ('w ddns, unit) act" where
  "ddns_Batch L J E action ids = bindE load (\<lambda>items.
     if action = ''enable'' \<or> action = ''disable'' then
       saveAndApply L J E (map (\<lambda>e. if de_ID e \<in> set ids then e\<lparr>de_Enabled := (action = ''enable'')\<rparr> else e) items)
     else if action = ''delete'' then saveAndApply L J E (filter (\<lambda>e. de_ID e \<notin> set ids) items)
     else fail (ErrFmt ''unknown batch action'' [action]))"

text \<open>What the list shows: the address ddns-scripts registered, or the one found for a device. \<open>stat\<close> is the time of a file.\<close>

definition enrich :: "'w sys \<Rightarrow> (string \<Rightarrow> string option) \<Rightarrow> 'w ddns \<Rightarrow> DdnsEntry \<Rightarrow> DdnsEntry" where
  "enrich E stat s e =
     (let ipFile = ''/var/run/ddns/'' @ de_ID e @ ''.ip'';
          ip = go_TrimSpace (orNil [] (sy_read E ipFile (dv_world s)));
          cached = go_TrimSpace (orNil [] (dv_files s (deviceIPPath s (de_ID e)))) in
      if \<not> de_Enabled e then e\<lparr>de_LastResult := ''disabled''\<rparr>
      else if ip \<noteq> [] then e\<lparr>de_CurrentIP := ip, de_LastResult := ''ok'', de_LastUpdate := orNil (de_LastUpdate e) (stat ipFile)\<rparr>
      else if de_IPSource e = ''device'' then
        (if cached \<noteq> [] then e\<lparr>de_CurrentIP := cached, de_LastResult := ''waiting for update''\<rparr>
         else e\<lparr>de_LastResult := ''waiting for address''\<rparr>)
      else e\<lparr>de_LastResult := ''waiting for update''\<rparr>)"

definition ddns_List :: "'w sys \<Rightarrow> (string \<Rightarrow> string option) \<Rightarrow> ('w ddns, DdnsEntry list) act" where
  "ddns_List E stat = bindE load (\<lambda>items s. (Inr (map (enrich E stat s) items), s))"

definition provider_name :: "string \<Rightarrow> string" where
  "provider_name f = (let cut = (\<lambda>suf s. if go_HasSuffix s suf then take (length s - length suf) s else s)
     in cut ''-v6'' (cut ''-v4'' (cut ''.json'' f)))"

definition providerFiles :: "string list \<Rightarrow> string list" where
  "providerFiles names = sort (uniq [] (filter (\<lambda>n. n \<noteq> []) (map provider_name names)))"

definition fallbackProviders :: "string list" where
  "fallbackProviders = [''cloudflare.com'', ''dnspod.cn'', ''aliyun.com'', ''duckdns.org'', ''no-ip.com'',
     ''dyndns.org'', ''freedns.afraid.org'', ''godaddy.com'', ''namecheap.com'', ''he.net'']"

record SvcInfo =
  si_Installed :: bool
  si_CanInstall :: bool
  si_PkgManager :: string
  si_Providers :: "string list"

definition ServiceInfo :: "'w sys \<Rightarrow> string list \<Rightarrow> ('w, SvcInfo) act" where
  "ServiceInfo E names = bindE (pkg_manager E) (\<lambda>pm. bindE (Installed E ''ddns'') (\<lambda>inst.
     ret \<lparr>si_Installed = inst, si_CanInstall = (pm \<noteq> []), si_PkgManager = pm,
       si_Providers = (if providerFiles names = [] then fallbackProviders else providerFiles names)\<rparr>))"

definition ddns_pkgs :: string where
  "ddns_pkgs = ''ddns-scripts ddns-scripts-services ddns-scripts-cloudflare ddns-scripts-dnspod ddns-scripts-aliyun ddns-scripts-noip''"

definition ddns_Install :: "lib \<Rightarrow> 'w sys \<Rightarrow> ('w, string) act" where
  "ddns_Install L E = Install L E ddns_pkgs"

end
