(* ===== verification/DdnsProps.thy ===== *)
theory DdnsProps
  imports Ddns
begin

text \<open>
  What internal/ddns guarantees: the address chosen for a device is the least of its candidates,
  whatever order they are found in, and so is the list of devices; the projection stays in its own
  sections; and what is lost when the sidecar is torn.
\<close>

section \<open>The stable address of a device\<close>

lemma hex_nat_nonempty: "hex_nat n \<noteq> []"
  by (subst hex_nat.simps) simp

lemma go_Join_nonempty: "xs \<noteq> [] \<Longrightarrow> \<forall>x\<in>set xs. x \<noteq> [] \<Longrightarrow> go_Join xs sep \<noteq> []"
  by (cases "(xs, sep)" rule: go_Join.cases) auto

lemma ipv6_groups_length: "length (ipv6_groups bs) = length bs div 2"
  by (induction bs rule: ipv6_groups.induct) auto

lemma IPv6String_nonempty: "length ip = 16 \<Longrightarrow> go_IPv6String ip \<noteq> []"
proof -
  assume "length ip = 16"
  then have "ipv6_groups ip \<noteq> []" using ipv6_groups_length [of ip] by auto
  then have "go_Join (map hex_nat (ipv6_groups ip)) '':'' \<noteq> []"
    by (intro go_Join_nonempty) (auto simp: hex_nat_nonempty)
  then show ?thesis by (auto simp: go_IPv6String_def Let_def split: prod.split)
qed

text \<open>The reference: the least of the keys (rank, address, source) of the global addresses of the device.\<close>

definition cand_key :: "nat list option \<Rightarrow> v6cand \<Rightarrow> nat \<times> string \<times> string" where
  "cand_key iid c = (fst (cand_rank iid c), go_IPv6String (vc_ip c), snd (cand_rank iid c))"

definition gua_keys :: "string \<Rightarrow> v6cand set \<Rightarrow> (nat \<times> string \<times> string) set" where
  "gua_keys target S = cand_key (eui64IID target) ` {c \<in> S. vc_mac c = target \<and> isGlobalGUA (vc_ip c)}"

definition stable_gua :: "string \<Rightarrow> v6cand set \<Rightarrow> string \<times> string" where
  "stable_gua mac S = (let K = gua_keys (NormalizeMAC mac) S in
     if NormalizeMAC mac = [] \<or> K = {} then ([], []) else snd (Min K))"

definition good_best :: "nat \<times> string \<times> string \<Rightarrow> bool" where
  "good_best b \<longleftrightarrow> b = (99, [], []) \<or> (fst (snd b) \<noteq> [] \<and>
     (fst b, snd (snd b)) \<in> {(0, ''dhcpv6''), (1, ''slaac''), (2, ''neighbor'')})"

lemma cand_rank_cases: "cand_rank iid c \<in> {(0, ''dhcpv6''), (1, ''slaac''), (2, ''neighbor'')}"
  by (simp add: cand_rank_def)

lemma good_key: "isGlobalGUA (vc_ip c) \<Longrightarrow> good_best (cand_key iid c)"
  using cand_rank_cases [of iid c] IPv6String_nonempty [of "vc_ip c"]
  by (auto simp: good_best_def cand_key_def isGlobalGUA_def)

lemma pick_step_min:
  assumes "good_best b"
  shows "pick_step target iid b c =
    (if vc_mac c = target \<and> isGlobalGUA (vc_ip c) then min b (cand_key iid c) else b)"
proof (cases "vc_mac c = target \<and> isGlobalGUA (vc_ip c)")
  case True
  obtain r s where rs: "cand_rank iid c = (r, s)" by (cases "cand_rank iid c")
  obtain r0 i0 s0 where b: "b = (r0, i0, s0)" by (cases b)
  have rank: "r < 99" and same: "i0 = [] \<Longrightarrow> r0 = 99" "r = r0 \<Longrightarrow> s = s0"
    using assms cand_rank_cases [of iid c] by (auto simp: rs b good_best_def)
  let ?ip = "go_IPv6String (vc_ip c)"
  have "pick_step target iid b c =
      (if r < r0 \<or> (r = r0 \<and> (i0 = [] \<or> ?ip < i0)) then (r, ?ip, s) else b)"
    using True unfolding pick_step_def b rs Let_def prod.case by (simp only: simp_thms if_False)
  also have "\<dots> = min b (r, ?ip, s)"
  proof (cases r r0 rule: linorder_cases)
    case equal
    with rank same have "i0 \<noteq> []" "s = s0" by auto
    with equal show ?thesis by (cases ?ip i0 rule: linorder_cases) (auto simp: b min_def less_eq_prod_simp)
  qed (auto simp: b min_def less_eq_prod_simp)
  finally show ?thesis using True by (simp add: cand_key_def rs)
next
  case False
  then show ?thesis by (cases b) (auto simp: pick_step_def)
qed

lemma good_min: "good_best a \<Longrightarrow> good_best b \<Longrightarrow> good_best (min a b)"
  by (simp add: min_def)

lemma foldl_pick:
  "good_best b \<Longrightarrow> foldl (pick_step target (eui64IID target)) b cands = Min (insert b (gua_keys target (set cands)))"
proof (induction cands arbitrary: b)
  case Nil
  then show ?case by (simp add: gua_keys_def)
next
  case (Cons c cands)
  let ?k = "cand_key (eui64IID target) c"
  show ?case
  proof (cases "vc_mac c = target \<and> isGlobalGUA (vc_ip c)")
    case True
    have keys: "gua_keys target (set (c # cands)) = insert ?k (gua_keys target (set cands))"
      using True by (auto simp: gua_keys_def)
    have fin: "finite (gua_keys target (set cands))" by (simp add: gua_keys_def)
    have "foldl (pick_step target (eui64IID target)) b (c # cands) =
        Min (insert (min b ?k) (gua_keys target (set cands)))"
      using True Cons.prems good_min good_key pick_step_min [OF Cons.prems, of target "eui64IID target" c] by (simp add: Cons.IH)
    also have "\<dots> = Min (insert b (insert ?k (gua_keys target (set cands))))"
      using fin by (cases "gua_keys target (set cands) = {}") (simp_all add: min.assoc)
    finally show ?thesis by (simp only: keys)
  next
    case False
    then have "gua_keys target (set (c # cands)) = gua_keys target (set cands)" by (auto simp: gua_keys_def)
    moreover have "pick_step target (eui64IID target) b c = b" using False pick_step_min [OF Cons.prems] by (simp only: if_False)
    ultimately show ?thesis using Cons by (simp del: set_simps)
  qed
qed

lemma key_below_start: "k \<in> gua_keys target S \<Longrightarrow> k < (99, [], [])"
proof -
  assume "k \<in> gua_keys target S"
  then obtain c where "k = cand_key (eui64IID target) c" by (auto simp: gua_keys_def)
  then have "fst k < 99" using cand_rank_cases [of "eui64IID target" c] by (auto simp: cand_key_def)
  then show ?thesis by (cases k) (simp add: less_prod_simp)
qed

lemma pick_is_least: "pickStableGUA mac cands = stable_gua mac (set cands)"
proof -
  let ?t = "NormalizeMAC mac"
  let ?K = "gua_keys ?t (set cands)"
  have fin: "finite ?K" by (simp add: gua_keys_def)
  have "foldl (pick_step ?t (eui64IID ?t)) (99, [], []) cands = Min (insert (99, [], []) ?K)"
    by (rule foldl_pick) (simp add: good_best_def)
  also have "\<dots> = (if ?K = {} then (99, [], []) else Min ?K)"
    using fin key_below_start [OF Min_in [OF fin]]
    by (cases "?K = {}") (auto simp: min_def simp del: Min_gr_iff Min_less_iff Min_ge_iff Min_le_iff)
  finally show ?thesis by (simp add: pickStableGUA_def stable_gua_def Let_def)
qed

text \<open>C27: the address chosen for a device depends only on the set of candidates, which come in no fixed order: it is the least of the keys (rank, text of the address) of the global unicast addresses recorded for its MAC, leases before addresses derived from the MAC before all others, and empty when there is none.\<close>

theorem pick_is_least_candidate: "pickStableGUA mac cands = stable_gua mac (set cands)"
  by (rule pick_is_least)

section \<open>The list of devices\<close>

lemma device_key: "(dc_Hostname (device_of L cands hosts m), dc_MAC (device_of L cands hosts m)) =
    ((case hosts m of None \<Rightarrow> [] | Some h \<Rightarrow> h), m)"
  by (simp add: device_of_def split: prod.split)

lemma sort_key_set_eq:
  assumes "distinct xs" and "distinct ys" and "set xs = set ys" and "inj_on f (set xs)"
  shows "sort_key f xs = sort_key f ys"
proof (rule map_sorted_distinct_set_unique [of f])
  show "inj_on f (set (sort_key f xs) \<union> set (sort_key f ys))" using assms by simp
  show "distinct (map f (sort_key f xs))" using assms by (simp add: distinct_map)
  show "distinct (map f (sort_key f ys))" using assms by (simp add: distinct_map)
qed (use assms in simp_all)

text \<open>Two results of decoding that differ in the order of the JSON object only.\<close>

definition same_leases :: "jsons \<Rightarrow> jsons \<Rightarrow> bool" where
  "same_leases J J' \<longleftrightarrow> (\<forall>out. rel_option (\<lambda>xs ys. set xs = set ys) (js_leases6 J out) (js_leases6 J' out))"

lemma lease_cands_set: "same_leases J J' \<Longrightarrow> set (parseLeaseCandsV6 L J out) = set (parseLeaseCandsV6 L J' out)"
proof -
  assume "same_leases J J'"
  then have "rel_option (\<lambda>xs ys. set xs = set ys) (js_leases6 J out) (js_leases6 J' out)" by (simp add: same_leases_def)
  then show ?thesis by (cases rule: option.rel_cases) (simp_all add: parseLeaseCandsV6_def)
qed

definition walks :: "(string set \<Rightarrow> string list) \<Rightarrow> bool" where
  "walks iter \<longleftrightarrow> (\<forall>A. finite A \<longrightarrow> distinct (iter A) \<and> set (iter A) = A)"

lemma device_of_set: "set cs = set cs' \<Longrightarrow> device_of L cs hosts = device_of L cs' hosts"
  by (simp add: fun_eq_iff device_of_def pick_is_least)

text \<open>The list of devices does not depend on the order in which Go walks its two maps, the devices of the decoded lease report and the set of MAC addresses.\<close>

theorem devices_in_fixed_order:
  assumes "walks iter" and "walks iter'" and "same_leases J J'"
  shows "listDevices L J E iter f w = listDevices L J' E iter' f w"
proof -
  have dev: "devices L iter cs hosts = devices L iter' cs' hosts" if cs: "set cs = set cs'" for cs cs' hosts
  proof -
    let ?A = "vc_mac ` set cs \<union> fst ` set hosts" and ?d = "device_of L cs (map_of hosts)"
    have A: "set (iter ?A) = ?A" "distinct (iter ?A)" "set (iter' ?A) = ?A" "distinct (iter' ?A)"
      using assms by (auto simp: walks_def)
    have mac: "dc_MAC (?d m) = m" for m by (simp add: device_of_def split: prod.split)
    then have inj: "inj_on ?d X" for X by (metis inj_onI)
    have "sort_key (\<lambda>d. (dc_Hostname d, dc_MAC d)) (map ?d (iter ?A)) = sort_key (\<lambda>d. (dc_Hostname d, dc_MAC d)) (map ?d (iter' ?A))"
    proof (rule sort_key_set_eq)
      show "inj_on (\<lambda>d. (dc_Hostname d, dc_MAC d)) (set (map ?d (iter ?A)))"
        by (rule inj_onI) (auto simp: mac)
    qed (use A inj in \<open>simp_all add: distinct_map\<close>)
    then show ?thesis using cs device_of_set [OF cs] by (simp add: devices_def)
  qed
  show ?thesis
    using lease_cands_set [OF assms(3), of L] by (auto simp: listDevices_def bindE_def split: prod.split sum.split intro!: dev)
qed

section \<open>The projection\<close>

fun ddns_section :: "ucmd \<Rightarrow> string option" where
  "ddns_section (SetType (Sec c n) t) = Some n"
| "ddns_section (SetKV (Opt c n k) v) = Some n"
| "ddns_section (DelK (Opt c n k)) = Some n"
| "ddns_section (DelK (Sec c n)) = Some n"
| "ddns_section _ = None"

definition carries_marker :: "string \<Rightarrow> string \<Rightarrow> bool" where
  "carries_marker shown n \<longleftrightarrow> n \<noteq> [] \<and> (\<exists>line \<in> set (go_Split shown (byte 10)).
     go_HasPrefix (go_TrimSpace line) (''ddns.'' @ n @ ''.'') \<and>
     go_HasSuffix (go_TrimSpace line) (''.'' @ markerOpt @ ''='' @ quoted markerDDNS))"

lemma entry_cmds_section:
  "c \<in> set (entry_cmds script e) \<Longrightarrow> ddns_section c = Some (de_ID e) \<and> c \<noteq> DelK (Sec ''ddns'' (de_ID e))"
  by (auto simp: entry_cmds_def source_cmds_def ddns_set_def Let_def split: if_splits)

lemma uniq_set: "set (uniq seen xs) = set xs - set seen"
  by (induction seen xs rule: uniq.induct) auto

lemma prefix_upto: "go_HasPrefix s p \<longleftrightarrow> take (length p) s = p"
  by (induction s p rule: go_HasPrefix.induct) auto

lemma index_byte_split: "go_IndexByte s d = Some i \<Longrightarrow> take (Suc i) s = take i s @ [d]"
  by (induction s d arbitrary: i rule: go_IndexByte.induct) (auto split: if_splits option.splits)

lemma prefix_split: "go_HasPrefix s p \<Longrightarrow> s = p @ go_TrimPrefix s p"
  unfolding go_TrimPrefix_def prefix_upto by (metis append_take_drop_id)

lemma managed_line_marker:
  assumes "managed_line line = Some n"
  shows "n \<noteq> [] \<and> go_HasPrefix (go_TrimSpace line) (''ddns.'' @ n @ ''.'') \<and>
    go_HasSuffix (go_TrimSpace line) (''.'' @ markerOpt @ ''='' @ quoted markerDDNS)"
proof -
  define l where "l = go_TrimSpace line"
  define rest where "rest = go_TrimPrefix l ''ddns.''"
  from assms have pre: "go_HasPrefix l ''ddns.''" and suf: "go_HasSuffix l (''.'' @ markerOpt @ ''='' @ quoted markerDDNS)"
    by (auto simp: managed_line_def l_def Let_def split: if_splits)
  from assms pre suf obtain i where i: "go_IndexByte rest CHR ''.'' = Some i" "0 < i" "n = take i rest"
    unfolding managed_line_def l_def [symmetric] Let_def rest_def [symmetric]
    by (auto simp del: append.simps split: option.splits if_splits)
  have "rest = (n @ ''.'') @ drop (Suc i) rest"
    using index_byte_split [OF i(1)] i(3) by (metis append_take_drop_id)
  with prefix_split [OF pre] have "l = (''ddns.'' @ n @ ''.'') @ drop (Suc i) rest"
    by (metis append.assoc rest_def)
  then have "go_HasPrefix l (''ddns.'' @ n @ ''.'')" unfolding prefix_upto by (metis append_eq_conv_conj)
  moreover have "n \<noteq> []" using i by (cases rest) auto
  ultimately show ?thesis using suf by (simp only: l_def simp_thms)
qed

lemma managed_names_marker: "n \<in> set (managed_names shown) \<Longrightarrow> carries_marker shown n"
proof -
  assume "n \<in> set (managed_names shown)"
  then obtain line where l: "line \<in> set (go_Split shown (byte 10))" "managed_line line = Some n"
    by (auto simp: managed_names_def uniq_set map_filter_def)
  show ?thesis unfolding carries_marker_def using l(1) managed_line_marker [OF l(2)] by blast
qed

text \<open>C35: every command of a projection works on a section of an entry, which it never deletes, or deletes a section that carries the marker of this program in the output of uci and that no entry owns any more; sections of others are not touched.\<close>

theorem ddns_batch_own_sections:
  assumes "c \<in> set (ddns_batch script items (managed_names shown))"
  shows "c = Commit ''ddns'' \<or>
    (\<exists>e \<in> set items. ddns_section c = Some (de_ID e) \<and> c \<noteq> DelK (Sec ''ddns'' (de_ID e))) \<or>
    (\<exists>n. c = DelK (Sec ''ddns'' n) \<and> n \<notin> de_ID ` set items \<and> carries_marker shown n)"
proof -
  from assms consider "c = Commit ''ddns''" | e where "e \<in> set items" "c \<in> set (entry_cmds (script (de_ID e)) e)"
    | n where "n \<in> set (managed_names shown)" "n \<notin> de_ID ` set items" "c = DelK (Sec ''ddns'' n)"
    by (auto simp: ddns_batch_def delete_others_def)
  then show ?thesis
  proof cases
    case 2
    then show ?thesis using entry_cmds_section by blast
  next
    case 3
    then show ?thesis using managed_names_marker by blast
  qed simp
qed

section \<open>The cached address\<close>

lemma stable_gua_in:
  assumes "fst (stable_gua mac S) \<noteq> []" and "finite S"
  obtains c where "c \<in> S" "vc_mac c = NormalizeMAC mac" "isGlobalGUA (vc_ip c)" "fst (stable_gua mac S) = go_IPv6String (vc_ip c)"
proof -
  let ?K = "gua_keys (NormalizeMAC mac) S"
  have K: "?K \<noteq> {}" "stable_gua mac S = snd (Min ?K)" using assms(1) by (auto simp: stable_gua_def Let_def split: if_splits)
  have "finite ?K" using assms(2) by (simp add: gua_keys_def)
  from Min_in [OF this K(1)] obtain c where "c \<in> S" "vc_mac c = NormalizeMAC mac" "isGlobalGUA (vc_ip c)"
      "Min ?K = cand_key (eui64IID (NormalizeMAC mac)) c" by (auto simp: gua_keys_def)
  with K(2) that show ?thesis by (simp add: cand_key_def)
qed

lemma resolve_global:
  assumes "resolveDeviceGUA L J E mac w = (Inr (ip, src), w')"
  shows "\<exists>c :: v6cand. vc_mac c = NormalizeMAC (NormalizeMAC mac) \<and> isGlobalGUA (vc_ip c) \<and> ip = go_IPv6String (vc_ip c)"
proof -
  obtain o1 e1 w1 where r1: "run_w E [] lease_cmd w = (Inr (o1, e1), w1)"
    by (cases "sy_run E [] lease_cmd w") (auto simp: run_w_def)
  obtain o2 e2 w2 where r2: "run_w E [] neighbor_cmd w1 = (Inr (o2, e2), w2)"
    by (cases "sy_run E [] neighbor_cmd w1") (auto simp: run_w_def)
  define cands where "cands = (if e1 = None then parseLeaseCandsV6 L J o1 else []) @
    (if e2 = None then parseNeighborCands o2 else [])"
  define r where "r = pickStableGUA (NormalizeMAC mac) cands"
  have "resolveDeviceGUA L J E mac w = (if NormalizeMAC mac = [] then fail (Err ''invalid MAC address'') w
      else if fst r = [] then fail (ErrFmt ''no global address for the device'' [NormalizeMAC mac]) w2 else ret r w2)"
    by (simp add: resolveDeviceGUA_def Let_def bindE_Inr [where m = "run_w E [] lease_cmd", OF r1]
        bindE_Inr [where m = "run_w E [] neighbor_cmd", OF r2] cands_def [symmetric] r_def [symmetric])
  with assms have "pickStableGUA (NormalizeMAC mac) cands = (ip, src) \<and> ip \<noteq> []"
    by (auto simp: fail_def ret_def r_def [symmetric] split: if_splits)
  then have "fst (stable_gua (NormalizeMAC mac) (set cands)) = ip" "fst (stable_gua (NormalizeMAC mac) (set cands)) \<noteq> []"
    by (simp_all add: pick_is_least)
  then show ?thesis by (metis stable_gua_in finite_set)
qed

lemma write_file_ok:
  assumes "dv_io s 0 = None"
  shows "write_file p x s = (Inr (), s\<lparr>dv_io := (\<lambda>n. dv_io s (Suc n)), dv_files := (dv_files s)(p \<mapsto> x)\<rparr>)"
  by (simp add: write_file_def assms)

text \<open>refreshing the cached address of a device leaves every file alone when no address is found, and otherwise at most writes into the cache file of that entry a global unicast address that the router has recorded for the MAC of the device.\<close>

theorem cache_holds_global_address:
  assumes "dv_io s 0 = None"
  shows "dv_files (snd (refreshDevice L J E e s)) = dv_files s \<or>
    (\<exists>c :: v6cand. vc_mac c = NormalizeMAC (de_MAC e) \<and> isGlobalGUA (vc_ip c) \<and>
      dv_files (snd (refreshDevice L J E e s)) =
        (dv_files s)(deviceIPPath s (de_ID e) \<mapsto> go_IPv6String (vc_ip c) @ [byte 10]))"
proof -
  obtain r w where rw: "resolveDeviceGUA L J E (de_MAC e) (dv_world s) = (r, w)" by (cases "resolveDeviceGUA L J E (de_MAC e) (dv_world s)")
  then have on: "on_w (resolveDeviceGUA L J E (de_MAC e)) s = (r, s\<lparr>dv_world := w\<rparr>)" by (simp add: on_w_def)
  show ?thesis
  proof (cases r)
    case (Inl x)
    with on show ?thesis by (simp add: refreshDevice_def bindE_def)
  next
    case (Inr x)
    obtain ip src where x: "x = (ip, src)" by (cases x)
    with rw Inr obtain c :: v6cand where "vc_mac c = NormalizeMAC (de_MAC e)" "isGlobalGUA (vc_ip c)" "ip = go_IPv6String (vc_ip c)"
      using resolve_global [of L J E "de_MAC e" "dv_world s" ip src w] by auto
    moreover have "dv_files (snd (refreshDevice L J E e s)) = dv_files s \<or>
        dv_files (snd (refreshDevice L J E e s)) = (dv_files s)(deviceIPPath s (de_ID e) \<mapsto> ip @ [byte 10])"
      using on assms by (simp add: refreshDevice_def Inr x bindE_def ret_def write_file_ok Let_def deviceIPPath_def)
    ultimately show ?thesis by blast
  qed
qed

section \<open>A torn sidecar\<close>

text \<open>Actions that leave the sidecar alone.\<close>

definition sidecar_kept :: "('w ddns, 'a) act \<Rightarrow> bool" where
  "sidecar_kept m \<longleftrightarrow> (\<forall>s. dv_disk (snd (m s)) = dv_disk s \<and> dv_path (snd (m s)) = dv_path s)"

named_theorems sidecar_intros \<open>actions that leave the sidecar alone\<close>

lemma sidecar_ret [sidecar_intros]: "sidecar_kept (ret x)"
  by (simp add: sidecar_kept_def ret_def)

lemma sidecar_fail [sidecar_intros]: "sidecar_kept (fail x)"
  by (simp add: sidecar_kept_def fail_def)

lemma sidecar_keptD: "sidecar_kept m \<Longrightarrow> m s = (r, s') \<Longrightarrow> dv_disk s' = dv_disk s \<and> dv_path s' = dv_path s"
  unfolding sidecar_kept_def by (metis snd_conv)

lemma sidecar_bindE [sidecar_intros]:
  assumes "sidecar_kept m" and "\<And>x. sidecar_kept (k x)"
  shows "sidecar_kept (bindE m k)"
  unfolding sidecar_kept_def
proof
  fix s
  obtain r s1 where m: "m s = (r, s1)" by (cases "m s")
  with sidecar_keptD [OF assms(1) m] assms(2)
  show "dv_disk (snd (bindE m k s)) = dv_disk s \<and> dv_path (snd (bindE m k s)) = dv_path s"
    by (cases r) (simp_all add: bindE_def sidecar_kept_def)
qed

lemma sidecar_tryE [sidecar_intros]: "sidecar_kept m \<Longrightarrow> sidecar_kept (tryE m)"
  by (simp add: sidecar_kept_def tryE_def split_def)

lemma sidecar_state: "(\<And>s. sidecar_kept (k s)) \<Longrightarrow> sidecar_kept (\<lambda>s. k s s)"
  by (simp add: sidecar_kept_def)

lemma sidecar_on_w [sidecar_intros]: "sidecar_kept (on_w m)"
  by (simp add: sidecar_kept_def on_w_def split: prod.split)

lemma sidecar_write_file [sidecar_intros]: "sidecar_kept (write_file p x)"
  by (auto simp: sidecar_kept_def write_file_def Let_def split: option.split)

lemma sidecar_if [sidecar_intros]: "sidecar_kept a \<Longrightarrow> sidecar_kept b \<Longrightarrow> sidecar_kept (if c then a else b)"
  by simp

lemma sidecar_mapA [sidecar_intros]:
  assumes "\<And>x. sidecar_kept (f x)"
  shows "sidecar_kept (mapA f xs)"
proof (induction xs)
  case (Cons x xs)
  have "mapA f (x # xs) = bindE (f x) (\<lambda>y. bindE (mapA f xs) (\<lambda>ys. ret (y # ys)))"
    by (auto simp: fun_eq_iff bindE_def ret_def split: prod.split sum.split)
  then show ?case using assms Cons by (simp add: sidecar_bindE sidecar_ret)
qed (simp add: sidecar_kept_def)

lemma sidecar_branch:
  assumes "\<And>s. sidecar_kept (m s)"
  shows "sidecar_kept (\<lambda>s. if c s then (Inr x, s) else m s s)"
  using assms by (simp add: sidecar_kept_def)

lemma sidecar_refreshDevice [sidecar_intros]: "sidecar_kept (refreshDevice L J E e)"
  unfolding refreshDevice_def Let_def split_def
  by (intro sidecar_bindE sidecar_on_w sidecar_branch sidecar_write_file sidecar_ret)

lemma sidecar_ensure [sidecar_intros]: "sidecar_kept (ensureDeviceScript i)"
  unfolding ensureDeviceScript_def
  by (rule sidecar_state [where k = "\<lambda>s. write_file (deviceScriptPath s i) (script_text (deviceIPPath s i))"])
    (rule sidecar_write_file)

lemma sidecar_refresh_entry [sidecar_intros]: "sidecar_kept (refresh_entry L J E e)"
  unfolding refresh_entry_def by (intro sidecar_intros)

lemma sidecar_apply: "sidecar_kept (ddns_apply L J E items)"
proof -
  let ?run = "\<lambda>managed s. bindE (on_w (run_w E (batch_text (ddns_batch (deviceScriptPath s) items managed)) [''uci'', ''batch''])) (\<lambda>(out, e).
                case e of Some m \<Rightarrow> fail (ErrFmt ''uci batch ddns'' [m, go_TrimSpace out])
                | None \<Rightarrow> on_w (restart_ddns E (list_ex de_Enabled items)))"
  have "sidecar_kept (?run managed s)" for managed s
    by (rule sidecar_bindE [OF sidecar_on_w]) (auto split: prod.split option.split intro: sidecar_intros)
  then have run: "sidecar_kept (\<lambda>s. ?run managed s s)" for managed
    by (rule sidecar_state [where k = "?run managed" for managed])
  have dev: "sidecar_kept (device_effects L J E e)" for e
    unfolding device_effects_def by (rule sidecar_if [OF sidecar_refresh_entry sidecar_ret])
  show ?thesis
    unfolding ddns_apply_def
    by (rule sidecar_bindE [OF sidecar_on_w], rule sidecar_if [OF sidecar_ret],
        rule sidecar_bindE [OF sidecar_mapA [OF dev]], rule sidecar_bindE [OF sidecar_on_w], rule run)
qed

text \<open>A crash between the truncation and the writing of the file.\<close>

definition torn :: "DdnsEntry list \<Rightarrow> 'w ddns \<Rightarrow> 'w ddns" where
  "torn items s = s\<lparr>dv_disk := (dv_disk s)\<lparr>dk_files := run_micros (take 1 (sidecar_micros (dv_path s) items)) (dk_files (dv_disk s))\<rparr>\<rparr>"

text \<open>the sidecar is written in place and a file that does not parse counts as empty, so after a crash in the middle of a save the next new entry is the only one left: the file holds just that entry, and the projection of it deletes every section that this program had written for another.\<close>

theorem torn_sidecar_forgets:
  assumes "ddns_validate e = Inr ()" and "dk_flush (dv_disk s) 0 = None"
  shows "let new = e\<lparr>de_ID := dv_rand s 0, de_Enabled := True\<rparr> in
    dk_files (dv_disk (snd (ddns_Create L J E e (torn items s)))) (dv_path s) = Some (Doc [new]) \<and>
    (\<forall>n \<in> set managed. n \<noteq> dv_rand s 0 \<longrightarrow> DelK (Sec ''ddns'' n) \<in> set (ddns_batch script [new] managed))"
proof -
  let ?new = "e\<lparr>de_ID := dv_rand s 0, de_Enabled := True\<rparr>"
  obtain s1 where load: "load (torn items s) = (Inr [], s1)" "dv_path s1 = dv_path s" "dv_rand s1 = dv_rand s"
      "dk_flush (dv_disk s1) 0 = None"
    using assms(2) by (simp add: load_def torn_def sidecar_micros_def run_micros_def Let_def)
  obtain s2 where new: "new_id s1 = (Inr (dv_rand s 0), s2)" "dv_path s2 = dv_path s" "dk_flush (dv_disk s2) 0 = None"
    using load by (simp add: new_id_def)
  obtain s3 where save: "write_sidecar [?new] s2 = (Inr (), s3)" "dv_path s3 = dv_path s"
      "dk_files (dv_disk s3) (dv_path s) = Some (Doc [?new])"
    using new by (simp add: write_sidecar_def sidecar_micros_def run_micros_def Let_def)
  have "snd (ddns_Create L J E e (torn items s)) = snd (bindE (ddns_apply L J E [?new]) (\<lambda>_. ret ?new) s3)"
    using assms(1) load(1) new(1) save(1) by (simp add: ddns_Create_def saveAndApply_def liftE_def bindE_def Let_def)
  also have "dv_disk \<dots> = dv_disk s3"
  proof -
    have "sidecar_kept (bindE (ddns_apply L J E [?new]) (\<lambda>_. ret ?new))"
      by (rule sidecar_bindE [OF sidecar_apply sidecar_ret])
    then show ?thesis by (simp add: sidecar_kept_def)
  qed
  finally show ?thesis
    using save(3) by (auto simp: Let_def ddns_batch_def delete_others_def)
qed

section \<open>The hypotheses can hold\<close>

definition demo_lease :: "string \<Rightarrow> leaseJson6" where
  "demo_lease a = \<lparr>jl_duid = ''0003000100155dffee01'', jl_iaid = 1, jl_hostname = ''nas'', jl_valid = 3600,
     jl_addrs = [a], jl_prefixes = []\<rparr>"

definition demo_jsons :: "(string \<times> leaseJson6 list) list \<Rightarrow> jsons" where
  "demo_jsons devs = \<lparr>js_iface = (\<lambda>_. None), js_iface6 = (\<lambda>_. None), js_leases6 = (\<lambda>_. Some devs)\<rparr>"

theorem devices_in_fixed_order_witness:
  "\<forall>L E w. listDevices L (demo_jsons [(''br-lan'', [demo_lease ''2001:db8::1'']), (''br-guest'', [demo_lease ''2001:db8::2''])])
       E sorted_list_of_set ''/tmp/dhcp.leases'' w =
     listDevices L (demo_jsons [(''br-guest'', [demo_lease ''2001:db8::2'']), (''br-lan'', [demo_lease ''2001:db8::1''])])
       E (\<lambda>A. rev (sorted_list_of_set A)) ''/tmp/dhcp.leases'' w"
  by (intro allI devices_in_fixed_order) (auto simp: walks_def same_leases_def demo_jsons_def)

definition demo_entry :: "string \<Rightarrow> string \<Rightarrow> DdnsEntry" where
  "demo_entry i src = \<lparr>de_ID = i, de_Provider = ''cloudflare.com'', de_Domain = ''home.example.com'', de_AuthMode = ''token'',
     de_Username = [], de_Password = ''secret'', de_IPSource = src, de_Interface = [], de_MAC = ''00:15:5d:ff:ee:01'',
     de_RecordType = ''AAAA'', de_Enabled = True, de_Remark = [], de_LastResult = [], de_CurrentIP = [], de_LastUpdate = []\<rparr>"

definition demo_shown :: string where
  "demo_shown = ''ddns.ddns_old=service'' @ [byte 10] @ ''ddns.ddns_old.managed_by='' @ quoted markerDDNS"

theorem ddns_batch_own_sections_witness:
  "\<exists>n. DelK (Sec ''ddns'' ''ddns_old'') = DelK (Sec ''ddns'' n) \<and> n \<notin> de_ID ` {demo_entry ''ddns_1'' ''web''} \<and> carries_marker demo_shown n"
proof -
  have "DelK (Sec ''ddns'' ''ddns_old'') \<in> set (ddns_batch (\<lambda>i. i) [demo_entry ''ddns_1'' ''web''] (managed_names demo_shown))"
    by (simp add: ddns_batch_def delete_others_def demo_entry_def demo_shown_def managed_names_def managed_line_def quoted_def
        map_filter_def eval_simps Let_def byte_def char_of_def)
  from ddns_batch_own_sections [OF this] show ?thesis
    by (auto simp: demo_entry_def)
qed

definition demo_ddns :: "(string \<rightharpoonup> DdnsEntry list doc) \<Rightarrow> unit ddns" where
  "demo_ddns files = \<lparr>dv_world = (), dv_path = ''/data/ddns.json'',
     dv_disk = \<lparr>dk_files = files, dk_flush = (\<lambda>_. None), dk_read = (\<lambda>_. None)\<rparr>, dv_dir = ''/var/run/kwrtmgrd-ddns'',
     dv_files = (\<lambda>_. None), dv_io = (\<lambda>_. None), dv_rand = (\<lambda>_. ''ddns_new'')\<rparr>"

theorem cache_holds_global_address_witness:
  "\<forall>L J E. dv_files (snd (refreshDevice L J E (demo_entry ''ddns_1'' ''device'') (demo_ddns (\<lambda>_. None)))) = (\<lambda>_. None) \<or>
    (\<exists>c :: v6cand. vc_mac c = NormalizeMAC ''00:15:5d:ff:ee:01'' \<and> isGlobalGUA (vc_ip c) \<and>
      dv_files (snd (refreshDevice L J E (demo_entry ''ddns_1'' ''device'') (demo_ddns (\<lambda>_. None)))) =
        [''/var/run/kwrtmgrd-ddns/ddns_1.ip'' \<mapsto> go_IPv6String (vc_ip c) @ [byte 10]])"
  using cache_holds_global_address [of "demo_ddns (\<lambda>_. None)" _ _ _ "demo_entry ''ddns_1'' ''device''"]
  by (simp add: demo_ddns_def demo_entry_def deviceIPPath_def)

theorem torn_sidecar_forgets_witness:
  "\<forall>L J E. dk_files (dv_disk (snd (ddns_Create L J E (demo_entry [] ''web'')
      (torn [demo_entry ''ddns_1'' ''web''] (demo_ddns (\<lambda>_. Some (Doc [demo_entry ''ddns_1'' ''web''])))))))
      ''/data/ddns.json'' = Some (Doc [demo_entry ''ddns_new'' ''web'']) \<and>
    DelK (Sec ''ddns'' ''ddns_1'') \<in> set (ddns_batch (\<lambda>i. i) [demo_entry ''ddns_new'' ''web''] [''ddns_1''])"
  using torn_sidecar_forgets [of "demo_entry [] ''web''" "demo_ddns (\<lambda>_. Some (Doc [demo_entry ''ddns_1'' ''web'']))"
      _ _ _ "[demo_entry ''ddns_1'' ''web'']" "[''ddns_1'']" "\<lambda>i. i"]
  by (simp add: demo_ddns_def demo_entry_def ddns_validate_def eval_simps Let_def)

end
