(* ===== verification/GoRegexp.thy ===== *)
theory GoRegexp
  imports GoStrings
begin

text \<open>
  package regexp, as far as the program uses it: the match that a backtracking search finds first, which is the one
  Go returns (leftmost, then by the order of the alternatives, repetitions as long as possible). The expressions of
  the program are terms of \<open>regex\<close> with one constructor per construct they use. All literals and classes are ASCII
  and a negated class takes every other rune, so that reading bytes instead of runes gives the same matches. The
  search is a function with a continuation: \<open>rx r k p\<close> matches \<open>r\<close> at \<open>p\<close> in the first way for which \<open>k\<close> succeeds.
\<close>

section \<open>Expressions\<close>

datatype regex =
    Eps
  | Cls "char \<Rightarrow> bool"
  | Many "char \<Rightarrow> bool" nat "nat option"
  | Few "char \<Rightarrow> bool"
  | Cat regex regex
  | Alt regex regex
  | Bol
  | Eol
  | WordB
  | Grp nat regex

text \<open>\<open>Few\<close> is \<open>+?\<close>, one or more, as few as possible. Literals, sequences, alternatives, and \<open>r{m,n}\<close> of an expression:\<close>

definition Lit :: "string \<Rightarrow> regex" where
  "Lit w = foldr (\<lambda>c. Cat (Cls (\<lambda>x. x = c))) w Eps"

fun Seqs :: "regex list \<Rightarrow> regex" where
  "Seqs [] = Eps"
| "Seqs [r] = r"
| "Seqs (r # s # rs) = Cat r (Seqs (s # rs))"

fun Alts :: "regex \<Rightarrow> regex list \<Rightarrow> regex" where
  "Alts r [] = r"
| "Alts r (s # rs) = Alt r (Alts s rs)"

fun Upto :: "nat \<Rightarrow> regex \<Rightarrow> regex" where
  "Upto 0 r = Eps"
| "Upto (Suc n) r = Alt (Cat r (Upto n r)) Eps"

definition Rep :: "nat \<Rightarrow> nat \<Rightarrow> regex \<Rightarrow> regex" where
  "Rep m n r = foldr Cat (replicate m r) (Upto (n - m) r)"

text \<open>The classes \<open>\d\<close>, \<open>\w\<close>, \<open>\s\<close>, \<open>[A-Z]\<close> and \<open>[0-9a-fA-F]\<close>.\<close>

definition word_char :: "char \<Rightarrow> bool" where
  "word_char c \<longleftrightarrow> is_digit c \<or> is_lower c \<or> is_upper c \<or> c = CHR ''_''"

definition re_space :: "char \<Rightarrow> bool" where
  "re_space c \<longleftrightarrow> code c \<in> {9, 10, 12, 13, 32}"

definition hex_char :: "char \<Rightarrow> bool" where
  "hex_char c \<longleftrightarrow> is_digit c \<or> c \<in> set ''abcdefABCDEF''"

text \<open>\<open>(?i)\<close> of a literal whose letters fold only to ASCII.\<close>

definition LitI :: "string \<Rightarrow> regex" where
  "LitI w = foldr (\<lambda>c. Cat (Cls (\<lambda>x. lower_char x = lower_char c))) w Eps"

section \<open>Matching\<close>

text \<open>A position: the byte before it, the bytes after it, and the groups so far.\<close>

type_synonym rpos = "char option \<times> string \<times> (nat \<times> string) list"

definition at_word :: "char option \<Rightarrow> bool" where
  "at_word o_c = (case o_c of None \<Rightarrow> False | Some c \<Rightarrow> word_char c)"

definition head_of :: "string \<Rightarrow> char option" where
  "head_of s = (case s of [] \<Rightarrow> None | c # _ \<Rightarrow> Some c)"

fun many :: "(char \<Rightarrow> bool) \<Rightarrow> nat \<Rightarrow> nat option \<Rightarrow> (rpos \<Rightarrow> rpos option) \<Rightarrow> char option \<Rightarrow> string \<Rightarrow>
    (nat \<times> string) list \<Rightarrow> rpos option" where
  "many P m n k pr [] caps = (if m = 0 then k (pr, [], caps) else None)"
| "many P m n k pr (c # s) caps =
     (if P c \<and> n \<noteq> Some 0 then
        (case many P (m - 1) (map_option (\<lambda>x. x - 1) n) k (Some c) s caps of
           Some q \<Rightarrow> Some q
         | None \<Rightarrow> if m = 0 then k (pr, c # s, caps) else None)
      else if m = 0 then k (pr, c # s, caps) else None)"

fun few :: "(char \<Rightarrow> bool) \<Rightarrow> (rpos \<Rightarrow> rpos option) \<Rightarrow> string \<Rightarrow> (nat \<times> string) list \<Rightarrow> rpos option" where
  "few P k [] caps = None"
| "few P k (c # s) caps =
     (if P c then (case k (Some c, s, caps) of Some q \<Rightarrow> Some q | None \<Rightarrow> few P k s caps) else None)"

primrec rx :: "regex \<Rightarrow> (rpos \<Rightarrow> rpos option) \<Rightarrow> rpos \<Rightarrow> rpos option" where
  "rx Eps k p = k p"
| "rx (Cls P) k p = (case p of (pr, s, caps) \<Rightarrow>
     (case s of [] \<Rightarrow> None | c # t \<Rightarrow> if P c then k (Some c, t, caps) else None))"
| "rx (Many P m n) k p = (case p of (pr, s, caps) \<Rightarrow> many P m n k pr s caps)"
| "rx (Few P) k p = (case p of (pr, s, caps) \<Rightarrow> few P k s caps)"
| "rx (Cat a b) k p = rx a (rx b k) p"
| "rx (Alt a b) k p = (case rx a k p of Some q \<Rightarrow> Some q | None \<Rightarrow> rx b k p)"
| "rx Bol k p = (if fst p = None then k p else None)"
| "rx Eol k p = (if fst (snd p) = [] then k p else None)"
| "rx WordB k p = (if at_word (fst p) \<noteq> at_word (head_of (fst (snd p))) then k p else None)"
| "rx (Grp i a) k p = (case p of (pr, s, caps) \<Rightarrow>
     rx a (\<lambda>(pr', s', caps'). k (pr', s', (i, take (length s - length s') s) # caps')) p)"

text \<open>The leftmost match: its text and its groups.\<close>

fun rx_find :: "regex \<Rightarrow> char option \<Rightarrow> string \<Rightarrow> (string \<times> (nat \<times> string) list) option" where
  "rx_find r pr [] = (case rx r Some (pr, [], []) of
     Some (_, _, caps) \<Rightarrow> Some ([], caps) | None \<Rightarrow> None)"
| "rx_find r pr (c # s) = (case rx r Some (pr, c # s, []) of
     Some (_, s', caps) \<Rightarrow> Some (take (length (c # s) - length s') (c # s), caps)
   | None \<Rightarrow> rx_find r (Some c) s)"

definition FindString :: "regex \<Rightarrow> string \<Rightarrow> string" where
  "FindString r s = (case rx_find r None s of None \<Rightarrow> [] | Some (m, _) \<Rightarrow> m)"

definition MatchString :: "regex \<Rightarrow> string \<Rightarrow> bool" where
  "MatchString r s \<longleftrightarrow> rx_find r None s \<noteq> None"

text \<open>\<open>FindStringSubmatch\<close>; \<open>group i m\<close> is \<open>m[i]\<close>.\<close>

definition FindSubmatch :: "regex \<Rightarrow> string \<Rightarrow> (nat \<times> string) list option" where
  "FindSubmatch r s = map_option snd (rx_find r None s)"

definition group :: "nat \<Rightarrow> (nat \<times> string) list \<Rightarrow> string" where
  "group i caps = (case map_of caps i of None \<Rightarrow> [] | Some t \<Rightarrow> t)"

lemmas rx_eval [eval_simps] = Lit_def LitI_def Rep_def word_char_def re_space_def hex_char_def at_word_def head_of_def
  FindString_def MatchString_def FindSubmatch_def group_def

section \<open>Laws\<close>

text \<open>A greedy repetition takes the whole run of its class when what follows then succeeds.\<close>

lemma many_run:
  assumes "list_all P a" and "b = [] \<or> \<not> P (hd b)" and "m \<le> length a"
    and "n = None \<or> (\<exists>x. n = Some x \<and> length a \<le> x)"
    and "k (if a = [] then pr else Some (last a), b, caps) = Some q"
  shows "many P m n k pr (a @ b) caps = Some q"
  using assms
proof (induction a arbitrary: m n pr)
  case Nil
  then show ?case by (cases b) auto
next
  case (Cons c a)
  have "many P (m - 1) (map_option (\<lambda>x. x - 1) n) k (Some c) (a @ b) caps = Some q"
    using Cons.prems by (intro Cons.IH) auto
  with Cons.prems show ?case by auto
qed

lemma rx_Many:
  assumes "list_all P a" and "b = [] \<or> \<not> P (hd b)" and "m \<le> length a"
    and "n = None \<or> (\<exists>x. n = Some x \<and> length a \<le> x)"
    and "k (if a = [] then pr else Some (last a), b, caps) = Some q"
  shows "rx (Many P m n) k (pr, a @ b, caps) = Some q"
  using assms by (simp only: rx.simps prod.case) (rule many_run)

text \<open>A match consumes a prefix of what is left.\<close>

definition consumes :: "rpos \<Rightarrow> rpos \<Rightarrow> bool" where
  "consumes p q \<longleftrightarrow> (\<exists>a. fst (snd p) = a @ fst (snd q))"

lemma consumes_refl [simp]: "consumes p p"
  by (simp add: consumes_def)

lemma consumes_trans: "consumes p q \<Longrightarrow> consumes q r \<Longrightarrow> consumes p r"
  by (auto simp: consumes_def)

lemma many_consumes:
  assumes "many P m n k pr s caps = Some q" and "\<And>p q. k p = Some q \<Longrightarrow> consumes p q"
  shows "consumes (pr, s, caps) q"
  using assms(1)
proof (induction s arbitrary: m n pr)
  case Nil
  then show ?case using assms(2) by (auto split: if_splits)
next
  case (Cons c s)
  have step: "consumes (pr, c # s, caps) (Some c, s, caps)"
    by (simp add: consumes_def)
  from Cons.prems consider
      (more) "many P (m - 1) (map_option (\<lambda>x. x - 1) n) k (Some c) s caps = Some q"
    | (stop) "k (pr, c # s, caps) = Some q"
    by (auto split: if_splits option.splits)
  then show ?case
  proof cases
    case more
    from consumes_trans [OF step Cons.IH [OF this]] show ?thesis .
  qed (use assms(2) in blast)
qed

lemma few_consumes:
  assumes "few P k s caps = Some q" and "\<And>p q. k p = Some q \<Longrightarrow> consumes p q"
  shows "consumes (pr, s, caps) q"
  using assms(1)
proof (induction s arbitrary: pr)
  case (Cons c s)
  have step: "consumes (pr, c # s, caps) (Some c, s, caps)"
    by (simp add: consumes_def)
  from Cons.prems consider (stop) "k (Some c, s, caps) = Some q" | (more) "few P k s caps = Some q"
    by (auto split: if_splits option.splits)
  then show ?case
  proof cases
    case stop
    from consumes_trans [OF step assms(2) [OF this]] show ?thesis .
  next
    case more
    from consumes_trans [OF step Cons.IH [OF this]] show ?thesis .
  qed
qed simp

lemma rx_consumes:
  "rx r k p = Some q \<Longrightarrow> (\<And>p q. k p = Some q \<Longrightarrow> consumes p q) \<Longrightarrow> consumes p q"
proof (induction r arbitrary: k p q)
  case (Many P m n)
  then show ?case by (cases p) (auto intro: many_consumes)
next
  case (Few P)
  then show ?case by (cases p) (auto intro: few_consumes)
next
  case (Cls P)
  obtain pr s caps where p: "p = (pr, s, caps)" by (cases p)
  with Cls(1) obtain c t where s: "s = c # t" and k: "k (Some c, t, caps) = Some q"
    by (auto split: list.splits if_splits)
  have "consumes p (Some c, t, caps)" by (simp add: p s consumes_def)
  from consumes_trans [OF this Cls(2) [OF k]] show ?case .
next
  case (Cat a b)
  show ?case
  proof (rule Cat.IH(1))
    show "rx a (rx b k) p = Some q" using Cat.prems(1) by simp
    show "consumes p' q'" if "rx b k p' = Some q'" for p' q'
      using Cat.IH(2) [OF that] Cat.prems(2) by blast
  qed
next
  case (Grp i a)
  obtain pr s caps where p: "p = (pr, s, caps)" by (cases p)
  show ?case
  proof (rule Grp.IH)
    show "rx a (\<lambda>(pr', s', caps'). k (pr', s', (i, take (length s - length s') s) # caps')) p = Some q"
      using Grp.prems(1) p by simp
  next
    fix p' q' :: rpos
    assume a: "(\<lambda>(pr', s', caps'). k (pr', s', (i, take (length s - length s') s) # caps')) p' = Some q'"
    then show "consumes p' q'"
      using Grp.prems(2) by (cases p') (fastforce simp: consumes_def)
  qed
qed (auto split: option.splits if_splits)

text \<open>What \<open>FindString\<close> returns is part of the string.\<close>

lemma rx_find_part: "rx_find r pr s = Some (m, caps) \<Longrightarrow> \<exists>a b. s = a @ m @ b"
proof (induction r pr s rule: rx_find.induct)
  case (1 r pr)
  then show ?case by (auto split: option.splits)
next
  case (2 r pr c s)
  show ?case
  proof (cases "rx r Some (pr, c # s, [])")
    case None
    with 2 obtain a b where "s = a @ m @ b" by auto
    then have "c # s = (c # a) @ m @ b" by simp
    then show ?thesis by blast
  next
    case (Some q)
    obtain pr' s' caps' where q: "q = (pr', s', caps')" by (cases q)
    have "consumes (pr, c # s, []) q"
      using Some by (rule rx_consumes) auto
    then obtain a where "c # s = a @ s'" by (auto simp: consumes_def q)
    moreover have "m = take (length (c # s) - length s') (c # s)"
      using 2(2) Some q by simp
    ultimately show ?thesis by (metis append_Nil append_take_drop_id)
  qed
qed

lemma FindString_part: "\<exists>a b. s = a @ FindString r s @ b"
  using rx_find_part [of r None s] by (auto simp: FindString_def split: option.split)

end
