(* ===== verification/LogCenter.thy ===== *)
theory LogCenter
  imports GoRegexp
begin

text \<open>
  internal/logcenter (logcenter.go, parse.go): the log centre. It reads the system log by running \<open>logread\<close>, the files of
  the DDNS scripts, and two logs of its own (operations and ARP events) that it keeps as lines of JSON, at most 5000
  each; a query filters, sorts and pages them. A background scan of \<open>ip neigh\<close> produces the ARP events.

  What a query sees of the machine is a \<open>view\<close>. Instants are nanoseconds since 1970, the local zone a fixed offset
  \<open>loc\<close> in seconds, as \<open>detectLoc\<close> makes it. The JSON codec is the parameter \<open>J\<close>, case mapping outside ASCII \<open>low\<close> and
  \<open>up\<close>, the order in which Go walks a map \<open>iter\<close>.
\<close>

section \<open>Text and time\<close>

text \<open>A literal of the source with runes outside ASCII, all below U+10000.\<close>

definition utf8_rune :: "nat \<Rightarrow> string" where
  "utf8_rune r =
     (if r < 128 then [byte r]
      else if r < 2048 then [byte (192 + r div 64), byte (128 + r mod 64)]
      else [byte (224 + r div 4096), byte (128 + r div 64 mod 64), byte (128 + r mod 64)])"

definition utf8 :: "nat list \<Rightarrow> string" where
  "utf8 rs = concat (map utf8_rune rs)"

text \<open>Days since 1970 of a date of the Gregorian calendar, and back.\<close>

definition days_of :: "int \<Rightarrow> int \<Rightarrow> int \<Rightarrow> int" where
  "days_of y m d =
     (let y = (if m \<le> 2 then y - 1 else y); yoe = y mod 400;
          doy = (153 * (if m > 2 then m - 3 else m + 9) + 2) div 5 + d - 1
      in y div 400 * 146097 + yoe * 365 + yoe div 4 - yoe div 100 + doy - 719468)"

definition date_of :: "int \<Rightarrow> int \<times> int \<times> int" where
  "date_of days =
     (let z = days + 719468; doe = z mod 146097;
          yoe = (doe - doe div 1460 + doe div 36524 - doe div 146096) div 365;
          doy = doe - (365 * yoe + yoe div 4 - yoe div 100); mp = (5 * doy + 2) div 153;
          m = (if mp < 10 then mp + 3 else mp - 9)
      in (yoe + z div 146097 * 400 + (if m \<le> 2 then 1 else 0), m, doy - (153 * mp + 2) div 5 + 1))"

definition days_in :: "int \<Rightarrow> int \<Rightarrow> int" where
  "days_in y m =
     (if m \<in> {4, 6, 9, 11} then 30 else if m \<noteq> 2 then 31
      else if y mod 4 = 0 \<and> (y mod 100 \<noteq> 0 \<or> y mod 400 = 0) then 29 else 28)"

definition pad0 :: "nat \<Rightarrow> nat \<Rightarrow> string" where
  "pad0 w n = replicate (w - length (go_nat_str n)) CHR ''0'' @ go_nat_str n"

text \<open>\<open>t.In(loc).Format("2006-01-02 15:04:05")\<close> of an instant in seconds.\<close>

definition fmt_stamp :: "int \<Rightarrow> int \<Rightarrow> string" where
  "fmt_stamp loc ts =
     (let t = ts + loc; s = t mod 86400 in
      case date_of (t div 86400) of (y, m, d) \<Rightarrow>
        pad0 4 (nat y) @ ''-'' @ pad0 2 (nat m) @ ''-'' @ pad0 2 (nat d) @ '' '' @ pad0 2 (nat (s div 3600)) @ '':'' @
        pad0 2 (nat (s div 60 mod 60)) @ '':'' @ pad0 2 (nat (s mod 60)))"

text \<open>The last step of \<open>time.ParseInLocation\<close>: fields in range, then the instant in seconds.\<close>

definition make_time :: "int \<Rightarrow> int \<Rightarrow> int \<Rightarrow> int \<Rightarrow> int \<Rightarrow> int \<Rightarrow> int \<Rightarrow> int option" where
  "make_time loc y m d h mi s =
     (if 1 \<le> m \<and> m \<le> 12 \<and> 1 \<le> d \<and> d \<le> days_in y m \<and> h < 24 \<and> mi < 60 \<and> s < 60
      then Some (days_of y m d * 86400 + h * 3600 + mi * 60 + s - loc) else None)"

definition num :: "string \<Rightarrow> int" where
  "num s = (case digits_val 0 s of None \<Rightarrow> - 1 | Some n \<Rightarrow> int n)"

definition name_index :: "string \<Rightarrow> string list \<Rightarrow> nat option" where
  "name_index s names = (case filter (\<lambda>i. map lower_char (names ! i) = map lower_char s) [0..<length names] of
     [] \<Rightarrow> None | i # _ \<Rightarrow> Some i)"

text \<open>
  \<open>detectLoc\<close>: the offset that \<open>date +%z\<close> prints. A byte that is no digit is not refused: \<open>z[1]-'0'\<close> is a byte.
\<close>

definition digit_byte :: "char \<Rightarrow> int" where
  "digit_byte c = (int (code c) - 48) mod 256"

definition detectLoc :: "int \<Rightarrow> err + string \<Rightarrow> int" where
  "detectLoc local_zone out = (case out of
     Inl _ \<Rightarrow> local_zone
   | Inr s \<Rightarrow>
       (let z = go_TrimSpace s in
        if length z \<noteq> 5 then local_zone
        else if z ! 0 \<noteq> CHR ''-'' \<and> z ! 0 \<noteq> CHR ''+'' then local_zone
        else (if z ! 0 = CHR ''-'' then - 1 else 1) *
          ((digit_byte (z ! 1) * 10 + digit_byte (z ! 2)) * 3600 + (digit_byte (z ! 3) * 10 + digit_byte (z ! 4)) * 60)))"

section \<open>Entries\<close>

record Entry =
  en_Time :: string
  en_TS :: int
  en_Level :: string
  en_Proc :: string
  en_Message :: string
  en_Type :: string
  en_Iface :: string
  en_MAC :: string
  en_IP :: string
  en_User :: string
  en_ClientIP :: string
  en_Module :: string
  en_Action :: string
  en_Phase :: string
  en_DialState :: string
  en_Severity :: string
  en_Diagnosis :: string
  en_Advice :: string
  en_Seq :: nat

definition zeroEntry :: Entry where
  "zeroEntry = \<lparr>en_Time = [], en_TS = 0, en_Level = [], en_Proc = [], en_Message = [], en_Type = [], en_Iface = [],
     en_MAC = [], en_IP = [], en_User = [], en_ClientIP = [], en_Module = [], en_Action = [], en_Phase = [],
     en_DialState = [], en_Severity = [], en_Diagnosis = [], en_Advice = [], en_Seq = 0\<rparr>"

definition SourceSystem :: string where "SourceSystem = ''system''"
definition SourceDHCP :: string where "SourceDHCP = ''dhcp''"
definition SourceDialup :: string where "SourceDialup = ''dialup''"
definition SourceDDNS :: string where "SourceDDNS = ''ddns''"
definition SourceOperation :: string where "SourceOperation = ''operation''"
definition SourceARP :: string where "SourceARP = ''arp''"

definition selfManaged :: "string \<Rightarrow> bool" where
  "selfManaged source \<longleftrightarrow> source = SourceOperation \<or> source = SourceARP"

definition maxFileLines :: nat where "maxFileLines = 5000"

record LogFilter =
  lq_Start :: int
  lq_End :: int
  lq_Keyword :: string
  lq_Iface :: string
  lq_Page :: int
  lq_PageSize :: int

record LogResult =
  lr_Items :: "Entry list"
  lr_Total :: int

section \<open>parse.go\<close>

text \<open>The expressions of parse.go and of the neighbour table.\<close>

definition digits :: "nat \<Rightarrow> nat \<Rightarrow> regex" where
  "digits m n = Many is_digit m (Some n)"

definition spaces1 :: regex where
  "spaces1 = Many (\<lambda>c. c = CHR '' '') 1 None"

definition reSyslog :: regex where
  "reSyslog = Seqs [Bol, Grp 1 (Seqs [Many word_char 3 (Some 3), Lit '' '', Many word_char 3 (Some 3), spaces1,
       digits 1 2, Lit '' '', digits 2 2, Lit '':'', digits 2 2, Lit '':'', digits 2 2, Lit '' '', digits 4 4]),
     spaces1, Grp 2 (Many (\<lambda>c. \<not> re_space c) 1 None), spaces1, Grp 3 (Many (\<lambda>c. c \<noteq> CHR '':'') 1 None), Lit '': '',
     Grp 4 (Many (\<lambda>c. c \<noteq> byte 10) 0 None), Eol]"

definition reDHCPType :: regex where
  "reDHCPType = Seqs [WordB, Alts (Cat (Lit ''DHCP'') (Many is_upper 1 None))
     (map Lit [''SOLICIT'', ''ADVERTISE'', ''REQUEST'', ''RENEW'', ''REBIND'', ''REPLY'', ''RELEASE'', ''CONFIRM'',
       ''DECLINE'', ''INFORMATION-REQUEST'']), WordB]"

definition reIface :: regex where
  "reIface = Seqs [Lit ''('', Grp 1 (Many (\<lambda>c. c \<noteq> CHR '')'') 1 None), Lit '')'']"

definition reMAC :: regex where
  "reMAC = Seqs [Rep 5 5 (Cat (Many hex_char 2 (Some 2)) (Lit '':'')), Many hex_char 2 (Some 2)]"

definition reIPv4 :: regex where
  "reIPv4 = Seqs [WordB, digits 1 3, Rep 3 3 (Cat (Lit ''.'') (digits 1 3)), WordB]"

definition reIPv6 :: regex where
  "reIPv6 = Seqs [WordB, Rep 2 7 (Cat (Many hex_char 0 (Some 4)) (Lit '':'')), Many hex_char 0 (Some 4),
     Upto 1 (Cat (Lit ''/'') (digits 1 3)), WordB]"

definition reDialup :: regex where
  "reDialup = Alts (LitI ''pppd'') (map LitI [''pppoe'', ''ip-up'', ''ip-down'', ''udhcpc'', ''netifd''])"

definition reDDNSDate :: regex where
  "reDDNSDate = Cat Bol (Grp 1 (Seqs [digits 8 8, Lit '' '', digits 2 2, Lit '':'', digits 2 2, Lit '':'', digits 2 2]))"

text \<open>
  \<open>parseSyslogTime\<close> on a stamp of the shape that \<open>reSyslog\<close> matched: \<open>None\<close> is the error of both layouts, for which
  the code takes the current time. The name of the day is checked against the list of names only.
\<close>

definition day_names :: "string list" where
  "day_names = [''Sun'', ''Mon'', ''Tue'', ''Wed'', ''Thu'', ''Fri'', ''Sat'']"

definition month_names :: "string list" where
  "month_names = [''Jan'', ''Feb'', ''Mar'', ''Apr'', ''May'', ''Jun'', ''Jul'', ''Aug'', ''Sep'', ''Oct'', ''Nov'', ''Dec'']"

definition parseSyslogTime :: "int \<Rightarrow> string \<Rightarrow> int option" where
  "parseSyslogTime loc s = (case go_Fields s of
     [wd, mon, d, clock, y] \<Rightarrow> (case (name_index wd day_names, name_index mon month_names) of
       (Some _, Some m) \<Rightarrow> make_time loc (num y) (int m + 1) (num d) (num (take 2 clock))
         (num (take 2 (drop 3 clock))) (num (drop 6 clock))
     | _ \<Rightarrow> None)
   | _ \<Rightarrow> None)"

fun last_index :: "string \<Rightarrow> char \<Rightarrow> nat option" where
  "last_index [] d = None"
| "last_index (c # cs) d = (case last_index cs d of
     Some i \<Rightarrow> Some (Suc i) | None \<Rightarrow> if c = d then Some 0 else None)"

definition trim_cr :: "string \<Rightarrow> string" where
  "trim_cr s = rev (dropWhile (\<lambda>c. c = byte 13) (rev s))"

text \<open>\<open>now\<close> is the current time in seconds.\<close>

definition parseSyslogLine :: "int \<Rightarrow> int \<Rightarrow> string \<Rightarrow> Entry option" where
  "parseSyslogLine now loc line =
     (let line = trim_cr line in
      if go_TrimSpace line = [] then None
      else (case FindSubmatch reSyslog line of
          None \<Rightarrow> None
        | Some m \<Rightarrow>
            (let ts = (case parseSyslogTime loc (group 1 m) of Some t \<Rightarrow> t | None \<Rightarrow> now);
                 level = (case last_index (group 2 m) CHR ''.'' of
                   None \<Rightarrow> group 2 m | Some i \<Rightarrow> drop (Suc i) (group 2 m));
                 proc = (case go_IndexByte (group 3 m) CHR ''['' of
                   None \<Rightarrow> group 3 m | Some i \<Rightarrow> take i (group 3 m))
             in Some (zeroEntry\<lparr>en_Time := fmt_stamp loc ts, en_TS := ts, en_Level := level,
                  en_Proc := go_TrimSpace proc, en_Message := go_TrimSpace (group 4 m)\<rparr>))))"

definition isDHCPLine :: "Entry \<Rightarrow> bool" where
  "isDHCPLine e \<longleftrightarrow>
     go_Contains (en_Proc e) ''dnsmasq-dhcp'' \<or> go_Contains (en_Proc e) ''odhcpd'' \<or>
     (go_Contains (en_Proc e) ''dnsmasq'' \<and> MatchString reDHCPType (en_Message e))"

definition enrichDHCP :: "Entry \<Rightarrow> Entry" where
  "enrichDHCP e =
     (let msg = en_Message e; ty = FindString reDHCPType msg; mac = FindString reMAC msg;
          ip4 = FindString reIPv4 msg; ip6 = FindString reIPv6 msg;
          e = (if ty \<noteq> [] then e\<lparr>en_Type := ty\<rparr> else e);
          e = (case FindSubmatch reIface msg of None \<Rightarrow> e | Some m \<Rightarrow> e\<lparr>en_Iface := group 1 m\<rparr>);
          e = (if mac \<noteq> [] then e\<lparr>en_MAC := map lower_char mac\<rparr> else e)
      in if ip4 \<noteq> [] then e\<lparr>en_IP := ip4\<rparr>
         else if ip6 \<noteq> [] \<and> go_Contains ip6 '':'' then e\<lparr>en_IP := ip6\<rparr> else e)"

definition isDialupLine :: "Entry \<Rightarrow> bool" where
  "isDialupLine e \<longleftrightarrow> MatchString reDialup (en_Proc e) \<or> MatchString reDialup (en_Message e)"

definition parseDDNSLine :: "int \<Rightarrow> int \<Rightarrow> string \<Rightarrow> int \<times> string" where
  "parseDDNSLine now loc line = (case FindSubmatch reDDNSDate line of
     None \<Rightarrow> (now, line)
   | Some m \<Rightarrow>
       (let s = group 1 m in
        case make_time loc (num (take 4 s)) (num (take 2 (drop 4 s))) (num (take 2 (drop 6 s)))
            (num (take 2 (drop 9 s))) (num (take 2 (drop 12 s))) (num (drop 15 s)) of
          None \<Rightarrow> (now, line)
        | Some t \<Rightarrow> (t, go_TrimSpace (go_TrimPrefix line s))))"

text \<open>
  What a query sees: the time, the output of \<open>logread\<close>, and the files of \<open>/var/log/ddns\<close> in the order of Glob, by
  their base name with the content that could be read.
\<close>

record view =
  vw_now :: int
  vw_logread :: "err + string"
  vw_ddns :: "(string \<times> string option) list"

definition now_sec :: "int \<Rightarrow> int" where
  "now_sec now = now div 1000000000"

section \<open>Dial diagnosis: dialdiag.go\<close>

definition dialConnecting :: string where "dialConnecting = ''connecting''"
definition dialConnected :: string where "dialConnected = ''connected''"
definition dialFailed :: string where "dialFailed = ''failed''"

record dialPattern =
  dp_sub :: string
  dp_phase :: string
  dp_state :: string
  dp_severity :: string
  dp_diagnosis :: string
  dp_advice :: string

definition dial_row :: "string \<Rightarrow> string \<Rightarrow> string \<Rightarrow> string \<Rightarrow> string \<Rightarrow> string \<Rightarrow> dialPattern" where
  "dial_row sub phase state severity diagnosis advice = \<lparr>dp_sub = sub, dp_phase = phase, dp_state = state,
     dp_severity = severity, dp_diagnosis = diagnosis, dp_advice = advice\<rparr>"

text \<open>The table, in the order in which it is searched.\<close>

definition dialPatterns :: "dialPattern list" where
  "dialPatterns = [
     dial_row ''local  IP address'' ''ipcp'' dialConnected ''success''
       (utf8 [24050, 20998, 37197, 21040, 26412, 31471] @ '' IP'' @ utf8 [65292] @ ''IPCP '' @ utf8 [21327, 21830,
         23436, 25104, 65292, 25320, 21495, 25104, 21151, 12290])
       (utf8 [33509, 20173, 26080, 27861, 19978, 32593, 65292, 36716, 26597] @ '' DNS / '' @ utf8 [36335, 30001]
         @ '' / NAT'' @ utf8 [65288, 38450, 28779, 22681] @ '' WAN '' @ utf8 [21306, 65289, 12290]),
     dial_row ''local IP address'' ''ipcp'' dialConnected ''success''
       (utf8 [24050, 20998, 37197, 21040, 26412, 31471] @ '' IP'' @ utf8 [65292] @ ''IPCP '' @ utf8 [21327, 21830,
         23436, 25104, 65292, 25320, 21495, 25104, 21151, 12290])
       (utf8 [33509, 20173, 26080, 27861, 19978, 32593, 65292, 36716, 26597] @ '' DNS / '' @ utf8 [36335, 30001]
         @ '' / NAT'' @ utf8 [65288, 38450, 28779, 22681] @ '' WAN '' @ utf8 [21306, 65289, 12290]),
     dial_row ''CHAP authentication succeeded'' ''auth'' dialConnecting ''info''
       (''CHAP '' @ utf8 [35748, 35777, 36890, 36807, 65292, 36134, 21495, 23494, 30721, 27491, 30830, 12290])
       [],
     dial_row ''PAP authentication succeeded'' ''auth'' dialConnecting ''info''
       (''PAP '' @ utf8 [35748, 35777, 36890, 36807, 65292, 36134, 21495, 23494, 30721, 27491, 30830, 12290])
       [],
     dial_row ''CHAP authentication failed'' ''auth'' dialFailed ''error''
       (''CHAP '' @ utf8 [35748, 35777, 22833, 36133, 65292, 36134, 21495, 25110, 23494, 30721, 19981, 27491, 30830, 12290])
       (utf8 [36880, 23383, 26680, 23545, 23485, 24102, 36134, 21495, 65288, 21547] @ '' @'' @ utf8 [21518, 32512]
         @ ''/'' @ utf8 [21306, 21495, 65289, 19982, 23494, 30721, 65307, 30830, 35748, 26410, 27424, 36153, 12289,
           26410, 34987, 38145, 23450, 12290]),
     dial_row ''PAP authentication failed'' ''auth'' dialFailed ''error''
       (''PAP '' @ utf8 [35748, 35777, 22833, 36133, 65292, 36134, 21495, 25110, 23494, 30721, 19981, 27491, 30830, 12290])
       (utf8 [36880, 23383, 26680, 23545, 23485, 24102, 36134, 21495, 19982, 23494, 30721, 65307, 30830, 35748,
         26410, 27424, 36153, 12289, 26410, 34987, 38145, 23450, 12290]),
     dial_row ''peer refused to authenticate'' ''auth'' dialFailed ''error''
       (utf8 [23545, 31471, 25298, 32477, 35748, 35777, 65292, 22810, 20026, 36134, 21495, 29366, 24577, 24322,
         24120, 65288, 27424, 36153] @ '' / '' @ utf8 [34987, 38145] @ '' / '' @ utf8 [34987, 20182, 35774, 22791, 21344, 29992, 65289, 12290])
       (utf8 [30830, 35748, 36134, 21495, 26410, 27424, 36153, 12289, 26410, 34987, 38145, 12289, 26410, 22312,
         20182, 22788, 30331, 24405, 65307, 24517, 35201, 26102, 32852, 31995, 36816, 33829, 21830, 12290]),
     dial_row ''Failed to authenticate ourselves to peer'' ''auth'' dialFailed ''error''
       (utf8 [21521, 23545, 31471, 35748, 35777, 22833, 36133, 65292, 36134, 21495, 23494, 30721, 34987, 25298, 12290])
       (utf8 [26680, 23545, 36134, 21495, 23494, 30721, 21518, 32512, 19982, 22823, 23567, 20889, 65307, 30830,
         35748, 32447, 36335, 24050, 24320, 36890, 12290]),
     dial_row ''Authentication failed'' ''auth'' dialFailed ''error''
       (''PPP '' @ utf8 [35748, 35777, 26410, 36890, 36807, 65292, 25320, 21495, 34987, 25298, 12290])
       (utf8 [26816, 26597, 36134, 21495, 23494, 30721, 12289, 26159, 21542, 27424, 36153] @ '' / '' @ utf8 [38145,
         23450, 65307, 20801, 35768] @ '' PAP/CHAP '' @ utf8 [33258, 36866, 24212, 12290]),
     dial_row ''Timeout waiting for PADO'' ''discovery'' dialFailed ''error''
       (utf8 [24191, 25773] @ '' PADI '' @ utf8 [21518, 36229, 26102, 26410, 25910, 21040, 20219, 20309]
         @ '' PADO '' @ utf8 [24212, 31572, 65292, 32447, 36335, 19978, 25506, 27979, 19981, 21040] @ '' PPPoE '' @ utf8 [26381, 21153, 22120, 12290])
       (utf8 [20381, 27425, 25490, 26597, 65306, 20809, 29483, 26159, 21542, 26725, 25509] @ '' / '' @ utf8 [22312,
         32447, 12289, 32593, 32447, 19982] @ '' WAN '' @ utf8 [21475, 12289, 36816, 33829, 21830] @ '' VLAN''
           @ utf8 [65307, 21487, 20808, 20999] @ '' DHCP '' @ utf8 [39564, 35777, 29289, 29702, 38142, 36335, 12290]),
     dial_row ''Timeout waiting for PADS'' ''discovery'' dialFailed ''error''
       (utf8 [25910, 21040] @ '' PADO '' @ utf8 [24182, 21457, 20986] @ '' PADR'' @ utf8 [65292, 20294, 23616, 31471,
         19981, 22238] @ '' PADS'' @ utf8 [65292] @ ''PPPoE '' @ utf8 [20250, 35805, 26410, 24314, 31435, 12290])
       (utf8 [22810, 20026] @ '' Service-Name '' @ utf8 [19981, 21305, 37197, 25110, 23616, 31471, 25298, 32477]
         @ '' / '' @ utf8 [20250, 35805, 28385, 65307, 28165, 31354, 26381, 21153, 21517] @ ''(service) / AC '' @ utf8 [21518, 37325, 25320, 12290]),
     dial_row ''Unable to complete PPPoE Discovery'' ''discovery'' dialFailed ''error''
       (''PPPoE '' @ utf8 [21457, 29616, 38454, 27573, 22235, 27493, 25569, 25163, 26410, 23436, 25104, 65292, 38142,
         36335, 24314, 31435, 21069, 21363, 32456, 27490, 12290])
       (utf8 [23545, 31471, 26080] @ '' PPPoE '' @ utf8 [26381, 21153, 22120] @ '' / VLAN '' @ utf8 [19981, 23545]
         @ '' / Service-Name '' @ utf8 [19981, 31526, 65307, 20808, 29992] @ '' DHCP '' @ utf8 [39564, 35777, 29289, 29702, 38142, 36335, 12290]),
     dial_row ''LCP: timeout sending Config-Requests'' ''auth'' dialFailed ''error''
       (''LCP '' @ utf8 [38142, 36335, 21327, 21830, 36229, 26102, 65292, 23545, 31471, 26080, 22238, 24212, 12290])
       (utf8 [21487, 33021] @ '' MRU '' @ utf8 [36807, 22823, 25110, 23545, 31471, 20250, 35805, 24322, 24120, 65307,
         23581, 35797, 25226] @ '' MTU '' @ utf8 [35774, 20026] @ '' 1492 '' @ utf8 [21518, 37325, 25320, 12290]),
     dial_row ''IPCP: timeout sending Config-Requests'' ''ipcp'' dialFailed ''error''
       (utf8 [35748, 35777, 24050, 36890, 36807, 20294] @ '' IPCP '' @ utf8 [25343, 19981, 21040] @ '' IP '' @ utf8 [22320, 22336, 12290])
       (utf8 [23616, 31471, 20250, 35805, 24322, 24120, 25110] @ '' IP '' @ utf8 [27744, 32791, 23613, 65307, 31245,
         21518, 37325, 25320, 65292, 39057, 32321, 20986, 29616, 35831, 32852, 31995, 36816, 33829, 21830, 12290]),
     dial_row ''Peer is not authorized to use remote address'' ''ipcp'' dialFailed ''error''
       (utf8 [23616, 31471, 25298, 32477, 26412, 31471, 35831, 27714, 30340, 22266, 23450, 22320, 22336, 12290])
       (utf8 [31227, 38500, 25509, 21475, 37324, 20889, 27515, 30340, 22266, 23450] @ '' IP'' @ utf8 [65292, 25913,
         29992, 23545, 31471, 21160, 24577, 19979, 21457, 12290]),
     dial_row ''No response to'' ''teardown'' dialFailed ''warning''
       (utf8 [22810, 27425] @ '' LCP echo '' @ utf8 [26080, 21709, 24212, 65292, 38142, 36335, 30097, 20284, 20013, 26029, 12290])
       (utf8 [26816, 26597, 32447, 36335, 31283, 23450, 24615] @ '' / '' @ utf8 [20809, 34928, 65307] @ ''netifd ''
         @ utf8 [36890, 24120, 20250, 33258, 21160, 37325, 25320, 12290]),
     dial_row ''LCP terminated by peer'' ''teardown'' dialFailed ''warning''
       (utf8 [23545, 31471, 20027, 21160, 32456, 27490, 38142, 36335, 65288, 24378, 21046, 19979, 32447] @ '' / ''
         @ utf8 [36134, 21495, 20182, 22788, 30331, 24405] @ '' / '' @ utf8 [27424, 36153, 65289, 12290])
       (utf8 [30830, 35748, 36134, 21495, 26159, 21542, 34987, 20182, 22788, 21344, 29992, 12289, 26159, 21542,
         27424, 36153, 25110, 34987, 23450, 26102, 36386, 32447, 12290]),
     dial_row ''Modem hangup'' ''teardown'' dialFailed ''warning''
       (utf8 [24213, 23618, 38142, 36335, 25346, 26029, 65292, 36830, 25509, 20013, 26029, 12290])
       (utf8 [26816, 26597, 29289, 29702, 32447, 36335] @ '' / '' @ utf8 [20809, 29483, 65307] @ ''netifd ''
         @ utf8 [36890, 24120, 20250, 33258, 21160, 37325, 25320, 12290]),
     dial_row ''Serial link appears to be disconnected'' ''teardown'' dialFailed ''warning''
       (utf8 [38142, 36335, 30475, 36215, 26469, 24050, 26029, 24320, 65292] @ ''pppd '' @ utf8 [23558, 36864, 20986, 37325, 35797, 12290])
       (utf8 [26816, 26597, 32593, 32447] @ '' / '' @ utf8 [20809, 29483, 19982, 36816, 33829, 21830, 32447, 36335, 12290]),
     dial_row ''Connection terminated'' ''teardown'' dialFailed ''warning''
       (''PPP '' @ utf8 [36830, 25509, 24050, 32456, 27490, 12290])
       (utf8 [26597, 30475, 19978, 25991, 20855, 20307, 21407, 22240, 65307] @ ''netifd '' @ utf8 [36890, 24120,
         20250, 33258, 21160, 37325, 25320, 12290]),
     dial_row ''Connect: ppp'' ''established'' dialConnecting ''info''
       (''PPP '' @ utf8 [38142, 36335, 24050, 24314, 31435, 65292, 36827, 20837, 21327, 21830, 38454, 27573, 8230])
       [],
     dial_row ''Send PPPOE Discovery'' ''discovery'' dialConnecting ''info''
       (utf8 [27491, 22312, 24191, 25773] @ '' PADI '' @ utf8 [25506, 27979] @ '' PPPoE '' @ utf8 [26381, 21153, 22120, 8230])
       [],
     dial_row ''PADS'' ''discovery'' dialConnecting ''info''
       (utf8 [25910, 21040] @ '' PADS'' @ utf8 [65292] @ ''PPPoE '' @ utf8 [20250, 35805, 24050, 24314, 31435, 12290])
       [],
     dial_row ''started by'' ''other'' dialConnecting ''info''
       (''pppd '' @ utf8 [24050, 21551, 21160, 65292, 24320, 22987, 25320, 21495, 8230])
       []]"

definition classifyDial :: "Entry \<Rightarrow> Entry" where
  "classifyDial e = (case find (\<lambda>p. go_Contains (en_Message e) (dp_sub p)) dialPatterns of
     Some p \<Rightarrow> e\<lparr>en_Phase := dp_phase p, en_DialState := dp_state p, en_Severity := dp_severity p,
       en_Diagnosis := dp_diagnosis p, en_Advice := dp_advice p\<rparr>
   | None \<Rightarrow>
       if en_Level e \<in> {''err'', ''crit'', ''alert'', ''emerg''} then e\<lparr>en_Severity := ''error''\<rparr>
       else if en_Level e \<in> {''warn'', ''warning''} then e\<lparr>en_Severity := ''warning''\<rparr> else e)"

definition reDialIface :: regex where
  "reDialIface = Seqs [WordB, Grp 1 (Alt (Cat (Lit ''pppoe-'') (Many word_char 1 None))
     (Cat (Lit ''ppp'') (Many is_digit 1 None))), WordB]"

definition reIfaceQuoted :: regex where
  "reIfaceQuoted = Seqs [Lit (''Interface '' @ [byte 39]), Grp 1 (Many (\<lambda>c. c \<noteq> byte 39) 1 None), Lit [byte 39]]"

definition reIfaceProc :: regex where
  "reIfaceProc = Seqs [Bol, Grp 1 (Many word_char 1 None), Lit '' ('', Many is_digit 1 None, Lit ''):'']"

definition extractDialIface :: "Entry \<Rightarrow> Entry" where
  "extractDialIface e =
     (if en_Iface e \<noteq> [] then e
      else if FindString reDialIface (en_Message e) \<noteq> [] then e\<lparr>en_Iface := FindString reDialIface (en_Message e)\<rparr>
      else (case FindSubmatch reIfaceQuoted (en_Message e) of
          Some m \<Rightarrow> e\<lparr>en_Iface := group 1 m\<rparr>
        | None \<Rightarrow> (case FindSubmatch reIfaceProc (en_Message e) of
            Some m \<Rightarrow> e\<lparr>en_Iface := group 1 m\<rparr> | None \<Rightarrow> e)))"

definition enrichDial :: "Entry \<Rightarrow> Entry" where
  "enrichDial e = extractDialIface (classifyDial e)"

section \<open>Reading the sources\<close>

definition syslog_entry :: "int \<Rightarrow> int \<Rightarrow> string \<Rightarrow> string \<Rightarrow> Entry option" where
  "syslog_entry now loc source line = (case parseSyslogLine now loc line of
     None \<Rightarrow> None
   | Some e \<Rightarrow>
       if source = SourceDHCP then (if isDHCPLine e then Some (enrichDHCP e) else None)
       else if source = SourceDialup then (if isDialupLine e then Some (enrichDial e) else None)
       else Some e)"

definition readSyslog :: "int \<Rightarrow> view \<Rightarrow> string \<Rightarrow> Entry list" where
  "readSyslog loc v source = (case vw_logread v of
     Inl _ \<Rightarrow> []
   | Inr out \<Rightarrow> if go_TrimSpace out = [] then []
       else List.map_filter (syslog_entry (now_sec (vw_now v)) loc source) (go_Split out (byte 10)))"

definition ddns_entries :: "int \<Rightarrow> int \<Rightarrow> string \<times> string option \<Rightarrow> Entry list" where
  "ddns_entries now loc f = (case f of
     (base, None) \<Rightarrow> []
   | (base, Some data) \<Rightarrow>
       (let name = (if go_HasSuffix base ''.log'' then take (length base - 4) base else base);
            lines = filter (\<lambda>l. l \<noteq> []) (map go_TrimSpace (go_Split data (byte 10)))
        in map (\<lambda>l. case parseDDNSLine now loc l of (ts, msg) \<Rightarrow>
             zeroEntry\<lparr>en_Time := fmt_stamp loc ts, en_TS := ts, en_Proc := name, en_Message := msg\<rparr>) lines))"

definition readDDNS :: "int \<Rightarrow> view \<Rightarrow> Entry list" where
  "readDDNS loc v = concat (map (ddns_entries (now_sec (vw_now v)) loc) (vw_ddns v))"

section \<open>The logs of the program\<close>

record codec =
  cd_enc :: "Entry \<Rightarrow> string"
  cd_dec :: "string \<Rightarrow> Entry option"

text \<open>
  The state of the centre: its two files by source, the outcome of its next writes (\<open>None\<close> succeeds; otherwise the
  write fails and the file holds what is given), the zone, the neighbours last seen by interface and address, and when
  an event was last logged.
\<close>

record center =
  ct_files :: "string \<rightharpoonup> string"
  ct_io :: "nat \<Rightarrow> string option option"
  ct_loc :: int
  ct_seen :: "string \<rightharpoonup> string"
  ct_logged :: "string \<rightharpoonup> int"

text \<open>
  \<open>bufio.Scanner\<close> over the lines, with a buffer of at most 1 MiB: a line that does not fit ends the scan.
\<close>

definition scan_lines :: "string \<Rightarrow> string list" where
  "scan_lines s =
     (let ls = go_Split s (byte 10); ls = (if last ls = [] then butlast ls else ls)
      in map (\<lambda>l. if l \<noteq> [] \<and> last l = byte 13 then butlast l else l) (takeWhile (\<lambda>l. length l < 1048576) ls))"

definition readLinesLocked :: "center \<Rightarrow> string \<Rightarrow> string list" where
  "readLinesLocked c source = (case ct_files c source of
     None \<Rightarrow> []
   | Some s \<Rightarrow> filter (\<lambda>l. l \<noteq> []) (map go_TrimSpace (scan_lines s)))"

definition readJSONL :: "codec \<Rightarrow> center \<Rightarrow> string \<Rightarrow> Entry list" where
  "readJSONL J c source = List.map_filter (cd_dec J) (readLinesLocked c source)"

definition last_n :: "nat \<Rightarrow> 'a list \<Rightarrow> 'a list" where
  "last_n n xs = drop (length xs - n) xs"

definition appendEntry :: "codec \<Rightarrow> string \<Rightarrow> Entry \<Rightarrow> center \<Rightarrow> center" where
  "appendEntry J source e c =
     (let lines = last_n maxFileLines (readLinesLocked c source @ [cd_enc J e]);
          text = go_Join lines [byte 10] @ [byte 10]; c' = c\<lparr>ct_io := (\<lambda>n. ct_io c (Suc n))\<rparr>
      in case ct_io c 0 of
           None \<Rightarrow> c'\<lparr>ct_files := (ct_files c)(source \<mapsto> text)\<rparr>
         | Some rest \<Rightarrow> c'\<lparr>ct_files := (ct_files c)(source := rest)\<rparr>)"

record OperationEntry =
  oe_User :: string
  oe_ClientIP :: string
  oe_Module :: string
  oe_Action :: string
  oe_Detail :: string

definition Record :: "codec \<Rightarrow> int \<Rightarrow> OperationEntry \<Rightarrow> center \<Rightarrow> center" where
  "Record J now op c = appendEntry J SourceOperation
     (zeroEntry\<lparr>en_Time := fmt_stamp (ct_loc c) (now_sec now), en_TS := now_sec now, en_User := oe_User op,
        en_ClientIP := oe_ClientIP op, en_Module := oe_Module op, en_Action := oe_Action op,
        en_Message := oe_Detail op\<rparr>) c"

text \<open>\<open>os.Remove\<close> fails when there is no file; another failure is not modelled.\<close>

definition Clear :: "string \<Rightarrow> (center, unit) act" where
  "Clear source c =
     (if \<not> selfManaged source then (Inl (ErrFmt ''the log is kept by OpenWrt'' [source]), c)
      else (case ct_files c source of
          None \<Rightarrow> (Inl (ErrIO ''no such file''), c)
        | Some _ \<Rightarrow> (Inr (), c\<lparr>ct_files := (ct_files c)(source := None)\<rparr>)))"

section \<open>Queries\<close>

definition entryMatch :: "(string \<Rightarrow> string) \<Rightarrow> Entry \<Rightarrow> string \<Rightarrow> bool" where
  "entryMatch low e kw \<longleftrightarrow> list_ex (\<lambda>s. s \<noteq> [] \<and> go_Contains (go_ToLower low s) kw)
     [en_Message e, en_Proc e, en_Type e, en_Iface e, en_MAC e, en_IP e, en_User e, en_ClientIP e, en_Module e,
      en_Action e, en_Level e]"

definition keeps_entry :: "(string \<Rightarrow> string) \<Rightarrow> string \<Rightarrow> LogFilter \<Rightarrow> Entry \<Rightarrow> bool" where
  "keeps_entry low source f e \<longleftrightarrow>
     (let kw = go_ToLower low (go_TrimSpace (lq_Keyword f)); iface = go_TrimSpace (lq_Iface f) in
      \<not> (lq_Start f > 0 \<and> en_TS e > 0 \<and> en_TS e < lq_Start f) \<and>
      \<not> (lq_End f > 0 \<and> en_TS e > 0 \<and> en_TS e > lq_End f) \<and>
      \<not> (source = SourceDialup \<and> iface \<noteq> [] \<and> en_Iface e \<noteq> [] \<and> \<not> go_Contains (en_Iface e) iface) \<and>
      \<not> (kw \<noteq> [] \<and> \<not> entryMatch low e kw))"

definition all_entries :: "codec \<Rightarrow> view \<Rightarrow> string \<Rightarrow> center \<Rightarrow> err + Entry list" where
  "all_entries J v source c =
     (if source = SourceOperation \<or> source = SourceARP then Inr (readJSONL J c source)
      else if source = SourceDDNS then Inr (readDDNS (ct_loc c) v)
      else if source = SourceSystem \<or> source = SourceDHCP \<or> source = SourceDialup
        then Inr (readSyslog (ct_loc c) v source)
      else Inl (ErrFmt ''unknown log source'' [source]))"

text \<open>\<open>filtered[start:end]\<close> with the arithmetic of a 64-bit int; a slice out of range panics.\<close>

definition page_slice :: "int \<Rightarrow> int \<Rightarrow> 'a list \<Rightarrow> err + 'a list" where
  "page_slice page psize xs =
     (let page = (if page < 1 then 1 else page); psize = (if psize \<le> 0 then 20 else psize); tot = int (length xs);
          start = wrap64 ((page - 1) * psize)
      in if start \<ge> tot then Inr []
         else (let stop = wrap64 (start + psize); stop = (if stop > tot then tot else stop)
           in if start < 0 \<or> stop < start then Inl ErrPanic
              else Inr (take (nat (stop - start)) (drop (nat start) xs))))"

text \<open>\<open>sort.SliceStable\<close>, newest first.\<close>

definition newest_first :: "Entry list \<Rightarrow> Entry list" where
  "newest_first es = sort_key (\<lambda>e. - en_TS e) es"

definition Query :: "codec \<Rightarrow> (string \<Rightarrow> string) \<Rightarrow> view \<Rightarrow> string \<Rightarrow> LogFilter \<Rightarrow> center \<Rightarrow> err + LogResult" where
  "Query J low v source f c = bindR (all_entries J v source c) (\<lambda>all.
     let filtered = newest_first (filter (keeps_entry low source f) all) in
     bindR (page_slice (lq_Page f) (lq_PageSize f) filtered) (\<lambda>items.
       Inr \<lparr>lr_Items = items, lr_Total = int (length filtered)\<rparr>))"

definition export_line :: "Entry \<Rightarrow> string" where
  "export_line e = en_Time e @
     concat (map (\<lambda>kv. if kv \<noteq> [] then byte 9 # kv else [])
       [en_Level e, en_Proc e, en_Module e, en_Action e, en_User e, en_ClientIP e, en_Type e, en_Iface e, en_MAC e,
        en_IP e]) @
     (if en_Message e \<noteq> [] then byte 9 # en_Message e else []) @ [byte 10]"

definition Export :: "codec \<Rightarrow> (string \<Rightarrow> string) \<Rightarrow> view \<Rightarrow> string \<Rightarrow> LogFilter \<Rightarrow> center \<Rightarrow> err + string" where
  "Export J low v source f c =
     bindR (Query J low v source (f\<lparr>lq_Page := 1, lq_PageSize := 2 ^ 30\<rparr>) c) (\<lambda>res.
       Inr (concat (map export_line (lr_Items res))))"

section \<open>The conclusion of a dial\<close>

record DialDiagnosis =
  dg_Iface :: string
  dg_DialState :: string
  dg_Phase :: string
  dg_Severity :: string
  dg_Headline :: string
  dg_Diagnosis :: string
  dg_Advice :: string
  dg_MatchLine :: string
  dg_UpdatedAt :: string

fun go_Index :: "string \<Rightarrow> string \<Rightarrow> nat option" where
  "go_Index [] sep = (if sep = [] then Some 0 else None)"
| "go_Index (c # cs) sep = (if go_HasPrefix (c # cs) sep then Some 0 else map_option Suc (go_Index cs sep))"

definition firstClause :: "string \<Rightarrow> string" where
  "firstClause s = (case List.map_filter (\<lambda>sep. case go_Index s sep of Some i \<Rightarrow> if i > 0 then Some (take i s) else None
       | None \<Rightarrow> None) [utf8 [12290], utf8 [65292], '',''] of
     [] \<Rightarrow> s | t # _ \<Rightarrow> t)"

definition dialConcl :: "Entry \<Rightarrow> DialDiagnosis" where
  "dialConcl e = \<lparr>dg_Iface = en_Iface e,
     dg_DialState = (if en_DialState e = [] then ''unknown'' else en_DialState e), dg_Phase = en_Phase e,
     dg_Severity = en_Severity e,
     dg_Headline =
       (if en_Severity e = ''success'' then utf8 [25320, 21495, 25104, 21151, 65306, 24050, 33719, 21462] @ '' IP''
         @ utf8 [65292, 36830, 25509, 24050, 24314, 31435]
        else if en_Severity e = ''error'' then utf8 [25320, 21495, 22833, 36133, 65306] @ firstClause (en_Diagnosis e)
        else if en_Severity e = ''warning'' then utf8 [36830, 25509, 24322, 24120, 65306] @ firstClause (en_Diagnosis e)
        else en_Diagnosis e),
     dg_Diagnosis = en_Diagnosis e, dg_Advice = en_Advice e, dg_MatchLine = en_Message e, dg_UpdatedAt = en_Time e\<rparr>"

definition dial_connecting :: "Entry \<Rightarrow> DialDiagnosis" where
  "dial_connecting e = \<lparr>dg_Iface = en_Iface e, dg_DialState = dialConnecting, dg_Phase = en_Phase e,
     dg_Severity = ''info'', dg_Headline = utf8 [25320, 21495, 36827, 34892, 20013, 8230], dg_Diagnosis = en_Diagnosis e, dg_Advice = [],
     dg_MatchLine = [], dg_UpdatedAt = en_Time e\<rparr>"

definition dial_unknown :: DialDiagnosis where
  "dial_unknown = \<lparr>dg_Iface = [], dg_DialState = ''unknown'', dg_Phase = [], dg_Severity = [],
     dg_Headline = utf8 [26242, 26080, 25320, 21495, 35760, 24405], dg_Diagnosis = [], dg_Advice = [], dg_MatchLine = [], dg_UpdatedAt = []\<rparr>"

text \<open>The loop from the newest entry back; \<open>conn\<close> is the newest entry of a dial in progress so far.\<close>

fun diagnose_loop :: "string \<Rightarrow> Entry option \<Rightarrow> Entry list \<Rightarrow> DialDiagnosis" where
  "diagnose_loop iface conn [] =
     (case conn of Some e \<Rightarrow> dial_connecting e | None \<Rightarrow> dial_unknown)"
| "diagnose_loop iface conn (e # es) =
     (if iface \<noteq> [] \<and> en_Iface e \<noteq> [] \<and> \<not> go_Contains (en_Iface e) iface then diagnose_loop iface conn es
      else if en_Diagnosis e \<noteq> [] \<and> en_Severity e \<in> {''success'', ''error'', ''warning''} then dialConcl e
      else diagnose_loop iface (if conn = None \<and> en_DialState e = dialConnecting then Some e else conn) es)"

definition Diagnose :: "view \<Rightarrow> string \<Rightarrow> center \<Rightarrow> DialDiagnosis" where
  "Diagnose v iface c = diagnose_loop iface None (rev (readSyslog (ct_loc c) v SourceDialup))"

section \<open>ARP events\<close>

definition reNeigh :: regex where
  "reNeigh = Seqs [Bol, Grp 1 (Many (\<lambda>c. \<not> re_space c) 1 None), Many re_space 1 None, Lit ''dev'', Many re_space 1 None,
     Grp 2 (Many (\<lambda>c. \<not> re_space c) 1 None), Many re_space 1 None, Lit ''lladdr'', Many re_space 1 None,
     Grp 3 (Many (\<lambda>c. hex_char c \<or> c = CHR '':'') 17 (Some 17)), Many re_space 1 None,
     Grp 4 (Many (\<lambda>c. \<not> re_space c) 1 None)]"

definition arpTypeChanged :: string where "arpTypeChanged = ''ARP'' @ utf8 [22320, 22336, 21464, 21270]"
definition arpTypeMultiIP :: string where "arpTypeMultiIP = utf8 [30097, 20284] @ ''ARP'' @ utf8 [27450, 39575]"
definition arpTypeConflict :: string where "arpTypeConflict = utf8 [19982, 38745, 24577, 20998, 37197, 20914, 31361]"

definition arpDedupWindow :: int where
  "arpDedupWindow = 30 * 60 * 1000000000"

definition isIPv4 :: "string \<Rightarrow> bool" where
  "isIPv4 ip \<longleftrightarrow> \<not> go_Contains ip '':'' \<and> length (filter (\<lambda>c. c = CHR ''.'') ip) = 3"

definition arpShouldLog :: "string \<Rightarrow> int \<Rightarrow> center \<Rightarrow> bool \<times> center" where
  "arpShouldLog key now c = (case ct_logged c key of
     Some t \<Rightarrow> if now - t < arpDedupWindow then (False, c) else (True, c\<lparr>ct_logged := (ct_logged c)(key \<mapsto> now)\<rparr>)
   | None \<Rightarrow> (True, c\<lparr>ct_logged := (ct_logged c)(key \<mapsto> now)\<rparr>))"

definition log_arp :: "codec \<Rightarrow> int \<Rightarrow> string \<Rightarrow> Entry \<Rightarrow> center \<Rightarrow> center" where
  "log_arp J now key e c = (case arpShouldLog key now c of (ok, c') \<Rightarrow>
     if ok then appendEntry J SourceARP (e\<lparr>en_Time := fmt_stamp (ct_loc c') (now_sec now), en_TS := now_sec now\<rparr>) c'
     else c')"

text \<open>The three events.\<close>

definition arp_changed :: "string \<Rightarrow> string \<Rightarrow> string \<Rightarrow> string \<Rightarrow> Entry" where
  "arp_changed dev ip prev mac = zeroEntry\<lparr>en_Type := arpTypeChanged, en_Iface := dev, en_IP := ip, en_MAC := mac,
     en_Message := utf8 [25509, 21475] @ ''('' @ dev @ '') '' @ utf8 [19978] @ '' '' @ ip @ '' '' @ utf8 [30340]
       @ '' MAC '' @ utf8 [21457, 29983, 21464, 21270] @ '': '' @ prev @ '' -> '' @ mac @
       utf8 [65288, 35774, 22791, 28459, 28216] @ ''/'' @ utf8 [26356, 25442] @ ''/'' @ utf8 [38543, 26426]
         @ '' MAC '' @ utf8 [37117, 20250, 22914, 27492, 65292, 20598, 21457, 23646, 27491, 24120, 65289]\<rparr>"

definition arp_multi :: "string \<Rightarrow> string \<Rightarrow> string list \<Rightarrow> Entry" where
  "arp_multi dev mac ips = zeroEntry\<lparr>en_Type := arpTypeMultiIP, en_Iface := dev, en_IP := hd ips, en_MAC := mac,
     en_Message := utf8 [21516, 19968] @ '' MAC '' @ mac @ '' '' @ utf8 [21516, 26102, 21344, 29992] @ '' ''
       @ go_nat_str (length ips) @ '' '' @ utf8 [20010] @ '' IP: '' @ go_Join ips '', '' @
       utf8 [65288] @ ''ARP '' @ utf8 [27450, 39575, 30340, 20856, 22411, 29305, 24449, 65307, 33509, 26159, 33258,
         23478, 30340, 26080, 32447, 20013, 32487] @ ''/AP '' @ utf8 [20195, 31572, 21017, 23646, 27491, 24120, 65289]\<rparr>"

definition arp_conflict :: "string \<Rightarrow> string \<Rightarrow> string \<Rightarrow> string \<Rightarrow> Entry" where
  "arp_conflict dev ip want mac = zeroEntry\<lparr>en_Type := arpTypeConflict, en_Iface := dev, en_IP := ip, en_MAC := mac,
     en_Message := ip @ '' '' @ utf8 [30340, 38745, 24577, 20998, 37197, 32465, 23450, 30340, 26159] @ '' '' @ want
       @ utf8 [65292, 23454, 38469, 22312, 32447, 30340, 21364, 26159] @ '' '' @ mac @ utf8 [65288] @ ''IP ''
         @ utf8 [34987, 21344, 29992, 25110, 34987, 20882, 29992, 65289]\<rparr>"

text \<open>A usable line of \<open>ip neigh\<close>: address, interface and MAC.\<close>

definition neigh_line :: "(string \<Rightarrow> string) \<Rightarrow> string \<Rightarrow> (string \<times> string \<times> string) option" where
  "neigh_line up line = (case FindSubmatch reNeigh (go_TrimSpace line) of
     None \<Rightarrow> None
   | Some m \<Rightarrow>
       (let state = go_ToUpper up (group 4 m) in
        if \<not> isIPv4 (group 1 m) \<or> state = ''FAILED'' \<or> state = ''INCOMPLETE'' then None
        else Some (group 1 m, group 2 m, map lower_char (group 3 m))))"

text \<open>The maps of one scan, as lists of pairs.\<close>

fun add_ip :: "string \<Rightarrow> string \<Rightarrow> (string \<times> string list) list \<Rightarrow> (string \<times> string list) list" where
  "add_ip mac ip [] = [(mac, [ip])]"
| "add_ip mac ip ((m, ips) # xs) = (if m = mac then (m, ips @ [ip]) # xs else (m, ips) # add_ip mac ip xs)"

definition scan_neigh :: "codec \<Rightarrow> bool \<Rightarrow> int \<Rightarrow> string \<times> string \<times> string \<Rightarrow>
    center \<times> (string \<times> string list) list \<times> (string \<rightharpoonup> string) \<Rightarrow>
    center \<times> (string \<times> string list) list \<times> (string \<rightharpoonup> string)" where
  "scan_neigh J seed now n acc = (case (n, acc) of ((ip, dev, mac), (c, ips, devs)) \<Rightarrow>
     (let key = dev @ ''|'' @ ip; prev = ct_seen c key; c1 = c\<lparr>ct_seen := (ct_seen c)(key \<mapsto> mac)\<rparr>;
          c2 = (case prev of
            None \<Rightarrow> c1
          | Some p \<Rightarrow> if seed \<or> p = mac then c1
              else log_arp J now (''chg|'' @ key @ ''|'' @ p @ ''|'' @ mac) (arp_changed dev ip p mac) c1)
      in (c2, add_ip mac ip ips, devs(mac \<mapsto> dev))))"

definition dev_of :: "(string \<rightharpoonup> string) \<Rightarrow> string \<Rightarrow> string" where
  "dev_of devs mac = (case devs mac of None \<Rightarrow> [] | Some d \<Rightarrow> d)"

text \<open>\<open>sort.Strings\<close> sorts the slice that the map holds, so the next walk sees it sorted: the map is returned.\<close>

definition reportARPSpoof :: "codec \<Rightarrow> int \<Rightarrow> (string \<rightharpoonup> string) \<Rightarrow> (string \<times> string list) list \<Rightarrow> center \<Rightarrow>
    (string \<times> string list) list \<times> center" where
  "reportARPSpoof J now devs ips c =
     (map (\<lambda>(mac, l). (mac, if length l < 2 then l else sort l)) ips,
      fold (\<lambda>(mac, l) c. if length l < 2 then c
        else (let l = sort l in log_arp J now (''multi|'' @ mac @ ''|'' @ go_Join l '', '') (arp_multi (dev_of devs mac) mac l) c)) ips c)"

definition reportARPConflict :: "codec \<Rightarrow> int \<Rightarrow> (string \<rightharpoonup> string) option \<Rightarrow> (string \<rightharpoonup> string) \<Rightarrow>
    (string \<times> string list) list \<Rightarrow> center \<Rightarrow> center" where
  "reportARPConflict J now bindings devs ips c = (case bindings of
     None \<Rightarrow> c
   | Some bound \<Rightarrow>
       fold (\<lambda>(mac, ip) c. case bound ip of
           None \<Rightarrow> c
         | Some want \<Rightarrow> if want = mac then c
             else log_arp J now (''conflict|'' @ ip @ ''|'' @ mac) (arp_conflict (dev_of devs mac) ip want mac) c)
         (concat (map (\<lambda>(mac, l). map (\<lambda>ip. (mac, ip)) l) ips)) c)"

text \<open>
  One scan at \<open>now\<close>: \<open>out\<close> is what \<open>ip neigh\<close> printed and \<open>bindings\<close> the static reservations, when they are wired in.
  The first scan (\<open>seed\<close>) only records. \<open>iter1\<close> and \<open>iter2\<close> are the orders of the two walks over the map.
\<close>

definition scanARP :: "codec \<Rightarrow> (string \<Rightarrow> string) \<Rightarrow> ((string \<times> string list) list \<Rightarrow> (string \<times> string list) list) \<Rightarrow>
    ((string \<times> string list) list \<Rightarrow> (string \<times> string list) list) \<Rightarrow> (string \<rightharpoonup> string) option \<Rightarrow> bool \<Rightarrow> int \<Rightarrow>
    err + string \<Rightarrow> center \<Rightarrow> center" where
  "scanARP J up iter1 iter2 bindings seed now out c = (case out of
     Inl _ \<Rightarrow> c
   | Inr out \<Rightarrow>
       if go_TrimSpace out = [] then c
       else (case fold (scan_neigh J seed now) (List.map_filter (neigh_line up) (go_Split out (byte 10)))
               (c, [], Map.empty) of (c1, ips, devs) \<Rightarrow>
           if seed then c1
           else (case reportARPSpoof J now devs (iter1 ips) c1 of (ips', c2) \<Rightarrow>
             reportARPConflict J now bindings devs (iter2 ips') c2)))"

text \<open>
  The goroutine of \<open>StartARPMonitor\<close>: a first scan as the baseline, then one per tick. A scan that happens is its time,
  what the machine answered, the reservations then, and the orders of its walks.
\<close>

record arp_tick =
  at_now :: int
  at_out :: "err + string"
  at_bound :: "(string \<rightharpoonup> string) option"
  at_iter1 :: "(string \<times> string list) list \<Rightarrow> (string \<times> string list) list"
  at_iter2 :: "(string \<times> string list) list \<Rightarrow> (string \<times> string list) list"

definition arp_tick_scan :: "codec \<Rightarrow> (string \<Rightarrow> string) \<Rightarrow> bool \<Rightarrow> arp_tick \<Rightarrow> center \<Rightarrow> center" where
  "arp_tick_scan J up seed x c =
     scanARP J up (at_iter1 x) (at_iter2 x) (at_bound x) seed (at_now x) (at_out x) c"

fun StartARPMonitor :: "codec \<Rightarrow> (string \<Rightarrow> string) \<Rightarrow> arp_tick list \<Rightarrow> center \<Rightarrow> center" where
  "StartARPMonitor J up [] c = c"
| "StartARPMonitor J up (x # xs) c = fold (arp_tick_scan J up False) xs (arp_tick_scan J up True x c)"

end
