(* ===== verification/LogDial.thy ===== *)
theory LogDial
  imports LogCenter "HOL-Library.Word"
begin

text \<open>
  internal/logcenter/dialstream.go: the live log of a dial. One source (\<open>logread -f\<close>, or a script where there is no
  OpenWrt) feeds a ring of recent entries and the channels of all subscribers; the first subscriber starts it, the
  last one to leave stops it. The critical sections of the mutex are the steps of a transition system; between them
  the goroutines of the sources run, including one that was cancelled and has not noticed yet.
\<close>

section \<open>State\<close>

definition dialRingCap :: nat where "dialRingCap = 300"

definition chanCap :: nat where "chanCap = 128"

text \<open>
  A subscriber: the buffer of its channel. The other fields are history: the number of the last entry before it came,
  the entries it has received, and how many were dropped because the buffer was full.
\<close>

record dsub =
  su_queue :: "Entry list"
  su_from :: nat
  su_got :: "Entry list"
  su_dropped :: nat

text \<open>A goroutine that reads a source: its context, whether that is cancelled, and the frame of the script it is at.\<close>

record source =
  so_id :: nat
  so_cancelled :: bool
  so_frame :: nat

record dstream =
  ds_subs :: "nat \<rightharpoonup> dsub"
  ds_closed :: "nat set"
  ds_nextID :: nat
  ds_ring :: "Entry list"
  ds_seq :: "64 word"
  ds_cancel :: "nat option"
  ds_running :: bool
  ds_sources :: "source list"
  ds_nextSrc :: nat

definition newDialStream :: dstream where
  "newDialStream = \<lparr>ds_subs = Map.empty, ds_closed = {}, ds_nextID = 0, ds_ring = [], ds_seq = 0, ds_cancel = None,
     ds_running = False, ds_sources = [], ds_nextSrc = 0\<rparr>"

section \<open>Operations\<close>

text \<open>\<open>started\<close>: the runner can stream and \<open>logread -f\<close> could be started; not asked in the simulation.\<close>

definition startLocked :: "bool \<Rightarrow> bool \<Rightarrow> dstream \<Rightarrow> dstream" where
  "startLocked simulate started s =
     (let i = ds_nextSrc s; s = s\<lparr>ds_nextSrc := Suc i, ds_cancel := Some i, ds_running := True\<rparr> in
      if simulate \<or> started
      then s\<lparr>ds_sources := ds_sources s @ [\<lparr>so_id = i, so_cancelled = False, so_frame = 0\<rparr>]\<rparr>
      else s\<lparr>ds_running := False\<rparr>)"

definition stopLocked :: "dstream \<Rightarrow> dstream" where
  "stopLocked s =
     s\<lparr>ds_sources := map (\<lambda>x. if Some (so_id x) = ds_cancel s then x\<lparr>so_cancelled := True\<rparr> else x) (ds_sources s),
       ds_cancel := None, ds_running := False\<rparr>"

text \<open>The id of the new subscriber and the snapshot it replays.\<close>

definition subscribe :: "bool \<Rightarrow> bool \<Rightarrow> dstream \<Rightarrow> nat \<times> Entry list \<times> dstream" where
  "subscribe simulate started s =
     (let i = ds_nextID s;
          s' = s\<lparr>ds_nextID := Suc i,
            ds_subs := (ds_subs s)(i \<mapsto> \<lparr>su_queue = [], su_from = unat (ds_seq s), su_got = [], su_dropped = 0\<rparr>)\<rparr>
      in (i, ds_ring s, if ds_running s' then s' else startLocked simulate started s'))"

definition unsubscribe :: "nat \<Rightarrow> dstream \<Rightarrow> dstream" where
  "unsubscribe i s =
     (let s' = (if ds_subs s i \<noteq> None
        then s\<lparr>ds_subs := (ds_subs s)(i := None), ds_closed := insert i (ds_closed s)\<rparr> else s)
      in if ds_subs s' = Map.empty \<and> ds_running s' then stopLocked s' else s')"

definition offer :: "Entry \<Rightarrow> dsub \<Rightarrow> dsub" where
  "offer e u = (if length (su_queue u) < chanCap then u\<lparr>su_queue := su_queue u @ [e]\<rparr>
     else u\<lparr>su_dropped := Suc (su_dropped u)\<rparr>)"

definition broadcast :: "Entry \<Rightarrow> dstream \<Rightarrow> dstream" where
  "broadcast e0 s =
     (let sq = ds_seq s + 1; e = e0\<lparr>en_Seq := unat sq\<rparr>
      in s\<lparr>ds_seq := sq, ds_ring := last_n dialRingCap (ds_ring s @ [e]),
         ds_subs := (\<lambda>i. map_option (offer e) (ds_subs s i))\<rparr>)"

text \<open>A line of the source that the goroutine passes on.\<close>

definition dial_entry :: "int \<Rightarrow> int \<Rightarrow> string \<Rightarrow> Entry option" where
  "dial_entry now loc line = (case parseSyslogLine now loc line of
     None \<Rightarrow> None | Some e \<Rightarrow> if isDialupLine e then Some (enrichDial e) else None)"

definition script :: "(string \<times> string) list" where
  "script = [(''notice'', ''pppd 2.5.1 started by root, uid 0''), (''info'', ''Send PPPOE Discovery V1T1 PADI packet''),
     (''warn'', ''Timeout waiting for PADO packets''), (''err'', ''Unable to complete PPPoE Discovery phase 1''),
     (''info'', ''Exit.''),
     (''notice'', ''pppd 2.5.1 started by root, uid 0''), (''info'', ''Send PPPOE Discovery V1T1 PADI packet''),
     (''info'', ''PADS: Service-Name: '' @ [byte 39, byte 39]), (''notice'', ''Connect: ppp0 <--> eth1''),
     (''info'', ''CHAP authentication succeeded''), (''notice'', ''local  IP address 100.64.12.34''),
     (''notice'', ''remote IP address 100.64.0.1''), (''notice'', ''primary   DNS address 119.29.29.29'')]"

definition sim_entry :: "int \<Rightarrow> int \<Rightarrow> nat \<Rightarrow> Entry" where
  "sim_entry now loc n = (case script ! (n mod length script) of (level, msg) \<Rightarrow>
     enrichDial (zeroEntry\<lparr>en_Time := fmt_stamp loc (now_sec now), en_TS := now_sec now, en_Level := level,
       en_Proc := ''pppd'', en_Iface := ''pppoe-wan'', en_Message := msg\<rparr>))"

section \<open>Steps\<close>

text \<open>
  \<open>Line\<close>: the goroutine \<open>x\<close> of a \<open>logread\<close> took a line from its channel. \<open>Eof\<close>: the process behind it has ended.
  \<open>Quit\<close>: it saw that its context is cancelled; Go chooses freely when several cases of a select are ready, so a
  cancelled goroutine can also go on for a while. The script looks at its context only after a frame. The guard on the
  counter leaves out the wrap-around after \<open>2^64\<close> entries.
\<close>

inductive dstep :: "bool \<Rightarrow> dstream \<Rightarrow> dstream \<Rightarrow> bool" for simulate :: bool where
  Subscribe: "subscribe simulate started s = (i, snap, s') \<Longrightarrow> dstep simulate s s'"
| Unsubscribe: "dstep simulate s (unsubscribe i s)"
| Line: "\<not> simulate \<Longrightarrow> x \<in> set (ds_sources s) \<Longrightarrow> ds_seq s \<noteq> - 1 \<Longrightarrow> dial_entry now loc line = Some e \<Longrightarrow>
    dstep simulate s (broadcast e s)"
| Frame: "simulate \<Longrightarrow> ds_sources s = xs @ x # ys \<Longrightarrow> ds_seq s \<noteq> - 1 \<Longrightarrow>
    dstep simulate s ((broadcast (sim_entry now loc (so_frame x)) s)
      \<lparr>ds_sources := xs @ x\<lparr>so_frame := Suc (so_frame x)\<rparr> # ys\<rparr>)"
| Eof: "\<not> simulate \<Longrightarrow> ds_sources s = xs @ x # ys \<Longrightarrow> dstep simulate s (s\<lparr>ds_sources := xs @ ys\<rparr>)"
| Quit: "ds_sources s = xs @ x # ys \<Longrightarrow> so_cancelled x \<Longrightarrow> simulate \<longrightarrow> so_frame x > 0 \<Longrightarrow>
    dstep simulate s (s\<lparr>ds_sources := xs @ ys\<rparr>)"
| Receive: "ds_subs s i = Some u \<Longrightarrow> su_queue u = e # q \<Longrightarrow>
    dstep simulate s (s\<lparr>ds_subs := (ds_subs s)(i \<mapsto> u\<lparr>su_queue := q, su_got := su_got u @ [e]\<rparr>)\<rparr>)"

inductive dreach :: "bool \<Rightarrow> dstream \<Rightarrow> bool" for simulate :: bool where
  start: "dreach simulate newDialStream"
| step: "dreach simulate s \<Longrightarrow> dstep simulate s s' \<Longrightarrow> dreach simulate s'"

text \<open>The entries of a source that is alive.\<close>

definition live :: "dstream \<Rightarrow> source list" where
  "live s = filter (\<lambda>x. \<not> so_cancelled x) (ds_sources s)"

end
