(* ===== verification/LogAPI.thy ===== *)
theory LogAPI
  imports LogDial
begin

text \<open>
  internal/api/logs.go and logs_stream.go: the endpoints of the log centre, the middleware that records every write in
  the operation log, and the selection of the entries that a subscriber of the live log gets.
\<close>

section \<open>Queries\<close>

text \<open>
  \<open>n, _ := strconv.ParseInt(s, 10, 64)\<close>: with the error dropped, a text that is no number is 0 and a number out of
  range is the nearest that fits.
\<close>

definition parse_clamped :: "string \<Rightarrow> int" where
  "parse_clamped s = (case go_ParseInt s of
     Some n \<Rightarrow> n
   | None \<Rightarrow>
       (let (neg, ds) = (case s of
            c # cs \<Rightarrow> if c = CHR ''-'' then (True, cs) else if c = CHR ''+'' then (False, cs) else (False, s)
          | [] \<Rightarrow> (False, []))
        in if ds = [] \<or> digits_val 0 ds = None then 0 else if neg then - (2 ^ 63) else 2 ^ 63 - 1))"

text \<open>The query parameters by name; a missing one is empty.\<close>

definition log_filter :: "(string \<Rightarrow> string) \<Rightarrow> LogFilter" where
  "log_filter q = \<lparr>lq_Start = parse_clamped (q ''start''), lq_End = parse_clamped (q ''end''),
     lq_Keyword = q ''keyword'', lq_Iface = q ''iface'', lq_Page = parse_clamped (q ''page''),
     lq_PageSize = parse_clamped (q ''page_size'')\<rparr>"

definition log_Query :: "codec \<Rightarrow> (string \<Rightarrow> string) \<Rightarrow> view \<Rightarrow> string \<Rightarrow> (string \<Rightarrow> string) \<Rightarrow> center \<Rightarrow> err + LogResult" where
  "log_Query J low v source q c = Query J low v source (log_filter q) c"

definition log_Export :: "codec \<Rightarrow> (string \<Rightarrow> string) \<Rightarrow> view \<Rightarrow> string \<Rightarrow> (string \<Rightarrow> string) \<Rightarrow> center \<Rightarrow> err + string" where
  "log_Export J low v source q c = Export J low v source (log_filter q) c"

definition log_Clear :: "string \<Rightarrow> (center, unit) act" where
  "log_Clear source = Clear source"

section \<open>The operation log\<close>

record http_request =
  hr_Method :: string
  hr_Path :: string
  hr_Header :: "string \<Rightarrow> string"
  hr_RemoteAddr :: string

definition skipAudit :: "string \<Rightarrow> bool" where
  "skipAudit path = go_HasPrefix path ''/api/v1/logs/''"

text \<open>\<open>net.SplitHostPort\<close> is the parameter \<open>host_of\<close>.\<close>

definition clientIP :: "(string \<Rightarrow> string option) \<Rightarrow> http_request \<Rightarrow> string" where
  "clientIP host_of r =
     (if hr_Header r ''X-Real-IP'' \<noteq> [] then hr_Header r ''X-Real-IP''
      else if hr_Header r ''X-Forwarded-For'' \<noteq> [] then go_TrimSpace (go_SplitN2_0 (hr_Header r ''X-Forwarded-For'') CHR '','')
      else (case host_of (hr_RemoteAddr r) of Some h \<Rightarrow> h | None \<Rightarrow> hr_RemoteAddr r))"

definition auditModules :: "(string \<times> string) list" where
  "auditModules = [
     (''/dhcp/servers'', ''DHCP'' @ utf8 [26381, 21153, 31471]),
     (''/dhcp/statics'', ''DHCP'' @ utf8 [38745, 24577, 20998, 37197]),
     (''/dhcp/leases'', ''DHCP'' @ utf8 [32456, 31471, 21015, 34920]),
     (''/dhcp/acl'', ''DHCP'' @ utf8 [40657, 30333, 21517, 21333]),
     (''/dhcp/route-push'', ''DHCP'' @ utf8 [26381, 21153, 31471]),
     (''/dhcp/restart'', ''DHCP'' @ utf8 [26381, 21153, 31471]),
     (''/dhcp/install'', ''DHCP'' @ utf8 [26381, 21153, 31471]),
     (''/routes'', utf8 [38745, 24577, 36335, 30001]),
     (''/dns/records'', utf8 [33258, 23450, 20041, 35299, 26512]),
     (''/dns/domain-routes'', utf8 [22495, 21517, 20998, 27969]),
     (''/dns/doh'', ''DNS'' @ utf8 [35774, 32622]),
     (''/dns/cache'', ''DNS'' @ utf8 [35774, 32622]),
     (''/dns/settings'', ''DNS'' @ utf8 [35774, 32622]),
     (''/ddns'', utf8 [21160, 24577, 22495, 21517]),
     (''/speedtest'', utf8 [32447, 36335, 27979, 36895]),
     (''/ipv6/'', ''IPv6'' @ utf8 [35774, 32622]),
     (''/ifaces'', utf8 [20869, 22806, 32593, 35774, 32622]),
     (''/nics'', utf8 [20869, 22806, 32593, 35774, 32622]),
     (''/backup'', utf8 [23450, 26102, 22791, 20221]),
     (''/import'', utf8 [23548, 20837, 23548, 20986]),
     (''/export'', utf8 [23548, 20837, 23548, 20986]),
     (''/system/config'', utf8 [31995, 32479, 35774, 32622]),
     (''/system/update'', utf8 [31995, 32479, 26356, 26032]),
     (''/ui/branding'', utf8 [21697, 29260, 35774, 32622])]"

definition deriveAudit :: "string \<Rightarrow> string \<Rightarrow> string \<times> string" where
  "deriveAudit meth path =
     ((case find (\<lambda>m. go_Contains path (fst m)) auditModules of Some m \<Rightarrow> snd m | None \<Rightarrow> utf8 [31995, 32479]),
      (if go_HasSuffix path ''/toggle'' then utf8 [21551, 29992] @ ''/'' @ utf8 [20572, 29992, 35268, 21017]
       else if go_HasSuffix path ''/batch'' then utf8 [25209, 37327, 25805, 20316]
       else if go_HasSuffix path ''/restart'' then utf8 [37325, 21551, 26381, 21153]
       else if go_HasSuffix path ''/install'' then utf8 [23433, 35013, 32452, 20214]
       else if go_HasSuffix path ''/run'' then utf8 [25191, 34892, 21629, 20196]
       else if go_HasSuffix path ''/flush'' then utf8 [28165, 31354]
       else if go_HasSuffix path ''/duplicate'' then utf8 [22797, 21046, 35268, 21017]
       else if meth = ''POST'' then utf8 [26032, 22686, 35268, 21017]
       else if meth = ''PUT'' then utf8 [20462, 25913, 37197, 32622]
       else if meth = ''DELETE'' then utf8 [21024, 38500, 35268, 21017]
       else utf8 [25805, 20316]))"

text \<open>After the handler answered with \<open>status\<close>; a handler that wrote nothing leaves 0.\<close>

definition auditMiddleware :: "codec \<Rightarrow> (string \<Rightarrow> string option) \<Rightarrow> int \<Rightarrow> http_request \<Rightarrow> nat \<Rightarrow> center \<Rightarrow> center" where
  "auditMiddleware J host_of now r status c =
     (if hr_Method r = ''GET'' \<or> hr_Method r = ''HEAD'' then c
      else if 200 \<le> status \<and> status < 400 \<and> \<not> skipAudit (hr_Path r) then
        (case deriveAudit (hr_Method r) (hr_Path r) of (module, action) \<Rightarrow>
          Record J now \<lparr>oe_User = ''admin'', oe_ClientIP = clientIP host_of r, oe_Module = module,
            oe_Action = action, oe_Detail = hr_Method r @ '' '' @ hr_Path r\<rparr> c)
      else c)"

section \<open>The live log\<close>

definition dialIfaceMatch :: "string \<Rightarrow> Entry \<Rightarrow> bool" where
  "dialIfaceMatch iface e \<longleftrightarrow> iface = [] \<or> en_Iface e = [] \<or> go_Contains (en_Iface e) iface"

fun replay_loop :: "nat \<Rightarrow> string \<Rightarrow> nat" where
  "replay_loop n [] = n"
| "replay_loop n (c # cs) =
     (if \<not> is_digit c then 50
      else (let n = n * 10 + digit_val c in if n > 300 then 300 else replay_loop n cs))"

definition parseReplay :: "string \<Rightarrow> nat" where
  "parseReplay v = (if v = [] then 50 else replay_loop 0 v)"

text \<open>What a new subscriber is sent first: the end of the snapshot, filtered.\<close>

definition replayed :: "string \<Rightarrow> nat \<Rightarrow> Entry list \<Rightarrow> Entry list" where
  "replayed iface replay snap = filter (dialIfaceMatch iface) (if replay > 0 then last_n replay snap else [])"

end
