(* ===== verification/LogProps.thy ===== *)
theory LogProps
  imports LogAPI
begin

text \<open>
  Properties of the log centre: queries and their pages, the conclusion of a dial, the operation log that the
  middleware writes, and the events of the ARP monitor.
\<close>

section \<open>Pages of a query\<close>

lemma keeps_entry_page [simp]:
  "keeps_entry low source (f\<lparr>lq_Page := p, lq_PageSize := n\<rparr>) = keeps_entry low source f"
  by (intro ext) (simp add: keeps_entry_def)

lemma length_newest_first [simp]: "length (newest_first es) = length es"
  by (simp add: newest_first_def)

lemma newest_first_order: "sorted_wrt (\<lambda>a b. en_TS b \<le> en_TS a) (newest_first es)"
proof -
  have "sorted (map (\<lambda>e. - en_TS e) (newest_first es))"
    by (simp add: newest_first_def)
  then show ?thesis by (simp add: sorted_map)
qed

lemma newest_first_stable: "filter (\<lambda>e. en_TS e = t) (newest_first es) = filter (\<lambda>e. en_TS e = t) es"
  using sort_key_stable [of "\<lambda>e. - en_TS e" "- t" es] by (simp add: newest_first_def)

lemma page_slice_in:
  assumes "0 < n" and "int (Suc i) * int n < 2 ^ 63"
  shows "page_slice (int i + 1) (int n) xs = Inr (take n (drop (i * n) xs))"
proof -
  have prod: "int i * int n \<ge> 0" and more: "int i * int n + int n < 2 ^ 63"
    using assms(2) by (simp_all add: algebra_simps)
  have "wrap64 (int i * int n) = int i * int n"
    using prod more by (intro wrap64_id) linarith+
  moreover have "wrap64 (int i * int n + int n) = int i * int n + int n"
    using prod more by (intro wrap64_id) linarith+
  moreover have "nat (int i * int n) = i * n" by (simp add: nat_mult_distrib)
  ultimately show ?thesis
    using assms(1) prod by (auto simp: page_slice_def Let_def nat_add_distrib min_def simp flip: of_nat_mult)
qed

lemma concat_pages: "concat (map (\<lambda>i. take n (drop (i * n) xs)) [0..<k]) = take (k * n) xs"
  by (induction k) (simp_all add: add.commute flip: take_add)

lemma Query_page:
  assumes "all_entries J v source c = Inr all" and "0 < n" and "int (Suc i) * int n < 2 ^ 63"
  shows "Query J low v source (f\<lparr>lq_Page := int i + 1, lq_PageSize := int n\<rparr>) c =
    Inr \<lparr>lr_Items = take n (drop (i * n) (newest_first (filter (keeps_entry low source f) all))),
      lr_Total = int (length (filter (keeps_entry low source f) all))\<rparr>"
  by (simp add: Query_def assms(1) Let_def page_slice_in [OF assms(2,3)])

lemma Export_page:
  assumes "all_entries J v source c = Inr all" and "length all \<le> 2 ^ 30"
  shows "Export J low v source f c =
    Inr (concat (map export_line (newest_first (filter (keeps_entry low source f) all))))"
proof -
  have "length (filter (keeps_entry low source f) all) \<le> 2 ^ 30"
    using length_filter_le [of "keeps_entry low source f" all] assms(2) by linarith
  with Query_page [OF assms(1), of "2 ^ 30" 0 low f] show ?thesis
    by (simp add: Export_def)
qed

text \<open>C36: The pages of a query, one after the other, are the entries that the filter keeps, newest first and in the
  order of the log where the time is the same. No entry is on two pages or on none, every page names the total, and
  an export is their lines.\<close>

theorem query_pages:
  assumes "all_entries J v source c = Inr all" and "0 < n" and "int k * int n < 2 ^ 63"
    and "length all \<le> k * n" and "length all \<le> 2 ^ 30"
  shows "\<exists>pages items.
    map (\<lambda>i. Query J low v source (f\<lparr>lq_Page := int i + 1, lq_PageSize := int n\<rparr>) c) [0..<k] = map Inr pages \<and>
    concat (map lr_Items pages) = items \<and>
    list_all (\<lambda>r. lr_Total r = int (length items) \<and> length (lr_Items r) \<le> n) pages \<and>
    sorted_wrt (\<lambda>a b. en_TS b \<le> en_TS a) items \<and>
    (\<forall>t. filter (\<lambda>e. en_TS e = t) items = filter (\<lambda>e. en_TS e = t) (filter (keeps_entry low source f) all)) \<and>
    Export J low v source f c = Inr (concat (map export_line items))"
proof -
  let ?items = "newest_first (filter (keeps_entry low source f) all)"
  let ?page = "\<lambda>i. \<lparr>lr_Items = take n (drop (i * n) ?items), lr_Total = int (length ?items)\<rparr>"
  have bound: "int (Suc i) * int n < 2 ^ 63" if "i < k" for i
  proof -
    have "int (Suc i) * int n \<le> int k * int n" using that by (intro mult_right_mono) auto
    with assms(3) show ?thesis by linarith
  qed
  have "length ?items \<le> k * n"
    using length_filter_le [of "keeps_entry low source f" all] assms(4) by (simp only: length_newest_first)
  then have "concat (map lr_Items (map ?page [0..<k])) = ?items"
    by (simp add: comp_def concat_pages)
  moreover have "map (\<lambda>i. Query J low v source (f\<lparr>lq_Page := int i + 1, lq_PageSize := int n\<rparr>) c) [0..<k] =
      map Inr (map ?page [0..<k])"
    using Query_page [OF assms(1,2) bound] by simp
  moreover have "list_all (\<lambda>r. lr_Total r = int (length ?items) \<and> length (lr_Items r) \<le> n) (map ?page [0..<k])"
    by (simp add: list_all_iff)
  ultimately show ?thesis
    using newest_first_order newest_first_stable Export_page [OF assms(1,5)] by blast
qed

text \<open>An operation log of three entries, each a line with the text \<open>a\<close> or \<open>b\<close>.\<close>

definition demo_codec :: codec where
  "demo_codec = \<lparr>cd_enc = en_Message, cd_dec = (\<lambda>s. Some (zeroEntry\<lparr>en_TS := int (length s), en_Message := s\<rparr>))\<rparr>"

definition demo_center :: center where
  "demo_center = \<lparr>ct_files = [''operation'' \<mapsto> ''a'' @ [byte 10] @ ''bb'' @ [byte 10] @ ''c'' @ [byte 10]],
     ct_io = (\<lambda>_. None), ct_loc = 0, ct_seen = Map.empty, ct_logged = Map.empty\<rparr>"

definition demo_view :: view where
  "demo_view = \<lparr>vw_now = 0, vw_logread = Inr [], vw_ddns = []\<rparr>"

definition demo_filter :: LogFilter where
  "demo_filter = log_filter (\<lambda>_. [])"

theorem query_pages_witness:
  "\<exists>all pages items. all_entries demo_codec demo_view SourceOperation demo_center = Inr all \<and> length all = 3 \<and>
    map (\<lambda>i. Query demo_codec id demo_view SourceOperation
      (demo_filter\<lparr>lq_Page := int i + 1, lq_PageSize := int 2\<rparr>) demo_center) [0..<2] = map Inr pages \<and>
    concat (map lr_Items pages) = items \<and>
    (\<forall>t. filter (\<lambda>e. en_TS e = t) items =
      filter (\<lambda>e. en_TS e = t) (filter (keeps_entry id SourceOperation demo_filter) all))"
proof -
  let ?es = "map (\<lambda>s. zeroEntry\<lparr>en_TS := int (length s), en_Message := s\<rparr>) [''a'', ''bb'', ''c'']"
  have all: "all_entries demo_codec demo_view SourceOperation demo_center = Inr ?es"
    by (simp add: all_entries_def SourceOperation_def readJSONL_def readLinesLocked_def demo_center_def
        demo_codec_def scan_lines_def List.map_filter_def eval_simps)
  show ?thesis
    using query_pages [OF all, of 2 2 id demo_filter] all by fastforce
qed

text \<open>A page number that does not fit 64 bits makes the handler panic: Atoi returns the largest number with the
  error that is dropped, and the start of the page wraps around to a negative index.\<close>

theorem page_number_panics:
  "log_Query J low v SourceOperation (\<lambda>k. if k = ''page'' then ''99999999999999999999'' else []) c = Inl ErrPanic \<and>
   log_Query J low v SourceSystem (\<lambda>k. if k = ''page'' then ''99999999999999999999'' else []) c = Inl ErrPanic"
proof -
  have big: "wrap64 184467440737095516120 = - 40"
    by (simp add: wrap64_def signed_take_bit_eq_take_bit_shift take_bit_eq_mod)
  have panic: "page_slice (2 ^ 63 - 1) 0 xs = Inl ErrPanic" for xs :: "Entry list"
    by (simp add: page_slice_def Let_def big wrap64_id)
  have "parse_clamped ''99999999999999999999'' = 2 ^ 63 - 1" and "parse_clamped [] = 0"
    by (simp_all add: parse_clamped_def eval_simps)
  with panic show ?thesis
    by (simp add: log_Query_def log_filter_def Query_def all_entries_def SourceOperation_def SourceSystem_def Let_def)
qed

section \<open>The conclusion of a dial\<close>

definition of_line :: "string \<Rightarrow> Entry \<Rightarrow> bool" where
  "of_line iface e \<longleftrightarrow> iface = [] \<or> en_Iface e = [] \<or> go_Contains (en_Iface e) iface"

definition assigned :: "string \<Rightarrow> bool" where
  "assigned msg \<longleftrightarrow> go_Contains msg ''local  IP address'' \<or> go_Contains msg ''local IP address''"

definition decided :: "Entry \<Rightarrow> bool" where
  "decided e \<longleftrightarrow> en_DialState e = dialConnected \<or> en_DialState e = dialFailed"

text \<open>What the loop looks at.\<close>

abbreviation decides :: "Entry \<Rightarrow> bool" where
  "decides e \<equiv> en_Diagnosis e \<noteq> [] \<and> en_Severity e \<in> {''success'', ''error'', ''warning''}"

lemma utf8_Nil_iff [simp]: "utf8 rs = [] \<longleftrightarrow> rs = []"
  by (cases rs) (simp_all add: utf8_def utf8_rune_def)

lemmas dial_states = dialConnecting_def dialConnected_def dialFailed_def

lemma dial_table:
  "list_all (\<lambda>p. dp_diagnosis p \<noteq> [] \<and> (dp_severity p \<in> {''success'', ''error'', ''warning''} \<longleftrightarrow>
     dp_state p = dialConnected \<or> dp_state p = dialFailed)) dialPatterns"
  by (simp add: dialPatterns_def dial_row_def dial_states)

lemma dial_table_success:
  "\<exists>a b ps. dialPatterns = a # b # ps \<and> dp_sub a = ''local  IP address'' \<and> dp_sub b = ''local IP address'' \<and>
     dp_state a = dialConnected \<and> dp_state b = dialConnected \<and> list_all (\<lambda>p. dp_state p \<noteq> dialConnected) ps"
  unfolding dialPatterns_def by (intro exI conjI, rule refl) (simp_all add: dial_row_def dial_states)

lemma classified:
  assumes "en_Diagnosis e = []" and "en_DialState e = []"
  defines "d \<equiv> classifyDial e"
  shows "decides d \<longleftrightarrow> decided d"
    and "en_DialState d = dialConnected \<longleftrightarrow> assigned (en_Message e)"
    and "en_Message d = en_Message e"
proof -
  let ?f = "find (\<lambda>p. go_Contains (en_Message e) (dp_sub p)) dialPatterns"
  show "en_Message d = en_Message e"
    by (auto simp: d_def classifyDial_def split: option.split)
  show "decides d \<longleftrightarrow> decided d"
  proof (cases ?f)
    case None
    then show ?thesis
      using assms by (simp add: d_def classifyDial_def decided_def dial_states)
  next
    case (Some p)
    with dial_table find_SomeD [OF Some] show ?thesis
      by (simp add: d_def classifyDial_def decided_def list_all_iff)
  qed
  obtain a b ps where table: "dialPatterns = a # b # ps" "dp_sub a = ''local  IP address''" "dp_sub b = ''local IP address''"
      "dp_state a = dialConnected" "dp_state b = dialConnected" "list_all (\<lambda>p. dp_state p \<noteq> dialConnected) ps"
    using dial_table_success by blast
  have first: "?f = (if go_Contains (en_Message e) ''local  IP address'' then Some a
      else if go_Contains (en_Message e) ''local IP address'' then Some b
      else find (\<lambda>p. go_Contains (en_Message e) (dp_sub p)) ps)"
    unfolding table(1) by (simp add: table)
  show "en_DialState d = dialConnected \<longleftrightarrow> assigned (en_Message e)"
  proof (cases ?f)
    case None
    with first have "\<not> assigned (en_Message e)" by (auto simp: assigned_def split: if_splits)
    with None show ?thesis
      using assms by (simp add: d_def classifyDial_def dial_states)
  next
    case (Some p)
    then have state: "en_DialState d = dp_state p" by (simp add: d_def classifyDial_def)
    show ?thesis
    proof (cases "assigned (en_Message e)")
      case True
      with Some first have "p = a \<or> p = b" by (auto simp: assigned_def split: if_splits)
      with True state table show ?thesis by auto
    next
      case False
      with Some first have "find (\<lambda>p. go_Contains (en_Message e) (dp_sub p)) ps = Some p" by (simp add: assigned_def)
      then have "p \<in> set ps" by (simp add: find_SomeD)
      with False state table show ?thesis by (auto simp: list_all_iff)
    qed
  qed
qed

lemma extractDialIface_keeps [simp]:
  "en_Message (extractDialIface e) = en_Message e" "en_Diagnosis (extractDialIface e) = en_Diagnosis e"
  "en_Severity (extractDialIface e) = en_Severity e" "en_DialState (extractDialIface e) = en_DialState e"
  by (auto simp: extractDialIface_def split: option.split)

lemma parseSyslogLine_plain:
  assumes "parseSyslogLine now loc line = Some e"
  shows "en_Diagnosis e = [] \<and> en_DialState e = [] \<and> en_Severity e = []"
  using assms by (auto simp: parseSyslogLine_def Let_def zeroEntry_def split: if_splits option.splits)

lemma dialup_entry:
  assumes "e \<in> set (readSyslog loc v SourceDialup)"
  shows "decides e \<longleftrightarrow> decided e" and "en_DialState e = dialConnected \<longleftrightarrow> assigned (en_Message e)"
proof -
  obtain now line where "syslog_entry now loc SourceDialup line = Some e"
    using assms by (auto simp: readSyslog_def List.map_filter_def split: sum.splits if_splits)
  then obtain d where parsed: "parseSyslogLine now loc line = Some d" and e: "e = enrichDial d"
    by (auto simp: syslog_entry_def SourceDialup_def SourceDHCP_def split: option.splits if_splits)
  from parseSyslogLine_plain [OF parsed] have "en_Diagnosis d = []" and "en_DialState d = []" by simp_all
  from classified [OF this]
  show "decides e \<longleftrightarrow> decided e" and "en_DialState e = dialConnected \<longleftrightarrow> assigned (en_Message e)"
    unfolding e by (simp_all add: enrichDial_def decided_def)
qed

lemma diagnose_loop_finds:
  assumes "list_all (\<lambda>e. decides e \<longleftrightarrow> decided e) es"
  shows "diagnose_loop iface conn es =
    (case find decided (filter (of_line iface) es) of
       Some e \<Rightarrow> dialConcl e
     | None \<Rightarrow> (case (case conn of Some e \<Rightarrow> Some e
           | None \<Rightarrow> find (\<lambda>e. en_DialState e = dialConnecting) (filter (of_line iface) es)) of
         Some e \<Rightarrow> dial_connecting e | None \<Rightarrow> dial_unknown))"
  using assms
proof (induction es arbitrary: conn)
  case Nil
  then show ?case by (simp split: option.split)
next
  case (Cons e es)
  have skip: "iface \<noteq> [] \<and> en_Iface e \<noteq> [] \<and> \<not> go_Contains (en_Iface e) iface \<longleftrightarrow> \<not> of_line iface e"
    by (auto simp: of_line_def)
  have decides: "decides e \<longleftrightarrow> decided e"
    using Cons.prems by simp
  have IH: "\<And>conn. diagnose_loop iface conn es = (case find decided (filter (of_line iface) es) of
       Some e \<Rightarrow> dialConcl e
     | None \<Rightarrow> (case (case conn of Some e \<Rightarrow> Some e
           | None \<Rightarrow> find (\<lambda>e. en_DialState e = dialConnecting) (filter (of_line iface) es)) of
         Some e \<Rightarrow> dial_connecting e | None \<Rightarrow> dial_unknown))"
    using Cons by simp
  show ?case
    unfolding diagnose_loop.simps skip decides IH by (cases conn) (auto split: option.splits)
qed


section \<open>The operation log\<close>

text \<open>Files of lines: what is written is read back.\<close>

lemma trim_segs_last:
  assumes "trim_segs s \<noteq> []"
  shows "\<not> is_space (fst (last (trim_segs s)))"
proof -
  let ?P = "is_space \<circ> fst"
  let ?d = "dropWhile ?P (rev (dropWhile ?P (rune_segs s)))"
  have t: "trim_segs s = rev ?d" by (simp add: trim_segs_def)
  with assms have "?d \<noteq> []" by simp
  with hd_dropWhile [of ?P] have "\<not> ?P (hd ?d)" by blast
  with t assms show ?thesis by (simp add: last_rev)
qed

lemma trimmed_no_cr:
  assumes "go_TrimSpace l = l" and "l \<noteq> []"
  shows "last l \<noteq> byte 13"
proof
  assume cr: "last l = byte 13"
  have "rune_start [byte 13]" by (simp add: rune_start_def is_cont_def)
  then have "rune_segs (butlast l @ [byte 13]) = rune_segs (butlast l) @ rune_segs [byte 13]"
    by (rule rune_segs_append)
  moreover have "butlast l @ [byte 13] = l"
    using append_butlast_last_id [OF assms(2)] cr by simp
  moreover have "rune_segs [byte 13] = [(13, [byte 13])]"
    by (simp add: rune_segs_ascii ascii_def)
  ultimately have segs: "rune_segs l = rune_segs (butlast l) @ [(13, [byte 13])]"
    by metis
  have "trim_segs l = rune_segs l" using rune_segs_TrimSpace [of l] assms(1) by simp
  with trim_segs_last [of l] segs show False by (simp add: is_space_def)
qed

definition text_line :: "string \<Rightarrow> bool" where
  "text_line l \<longleftrightarrow> l \<noteq> [] \<and> byte 10 \<notin> set l \<and> go_TrimSpace l = l \<and> length l < 1048576"

lemma split_lines:
  "list_all text_line ls \<Longrightarrow> ls \<noteq> [] \<Longrightarrow> go_Split (go_Join ls [byte 10] @ [byte 10]) (byte 10) = ls @ [[]]"
proof (induction ls)
  case (Cons l ls)
  then show ?case
    using go_Split_append [of "byte 10" l "[]"] go_Split_append [of "byte 10" l "go_Join ls [byte 10] @ [byte 10]"]
    by (cases "ls = []") (simp_all add: text_line_def go_Join_Cons)
qed simp

lemma lines_of_text:
  assumes "list_all text_line ls" and "ls \<noteq> []"
  shows "filter (\<lambda>l. l \<noteq> []) (map go_TrimSpace (scan_lines (go_Join ls [byte 10] @ [byte 10]))) = ls"
proof -
  have "takeWhile (\<lambda>l. length l < 1048576) ls = ls"
    using assms(1) by (auto simp: takeWhile_eq_all_conv list_all_iff text_line_def)
  moreover have "map (\<lambda>l. if l \<noteq> [] \<and> last l = byte 13 then butlast l else l) ls = ls"
    using assms(1) trimmed_no_cr by (intro map_idI) (auto simp: list_all_iff text_line_def)
  ultimately have "scan_lines (go_Join ls [byte 10] @ [byte 10]) = ls"
    by (simp add: scan_lines_def split_lines [OF assms] Let_def del: takeWhile_eq_all_conv)
  moreover have "map go_TrimSpace ls = ls" and "filter (\<lambda>l. l \<noteq> []) ls = ls"
    using assms(1) by (auto intro!: map_idI simp: list_all_iff text_line_def filter_id_conv)
  ultimately show ?thesis by simp
qed

text \<open>An entry that the codec turns into one line and back, and a file that holds such entries.\<close>

definition survives :: "codec \<Rightarrow> Entry \<Rightarrow> bool" where
  "survives J e \<longleftrightarrow> text_line (cd_enc J e) \<and> cd_dec J (cd_enc J e) = Some e"

definition log_holds :: "codec \<Rightarrow> center \<Rightarrow> string \<Rightarrow> Entry list \<Rightarrow> bool" where
  "log_holds J c source es \<longleftrightarrow> list_all (survives J) es \<and> readLinesLocked c source = map (cd_enc J) es"

lemma last_n_again: "last_n n (last_n n xs @ ys) = last_n n (xs @ ys)"
  by (cases "n \<le> length xs") (simp_all add: last_n_def add.commute)

lemma last_n_map: "last_n n (map f xs) = map f (last_n n xs)"
  by (simp add: last_n_def drop_map)

lemma list_all_last_n: "list_all P xs \<Longrightarrow> list_all P (last_n n xs)"
  by (auto simp: last_n_def list_all_iff dest: in_set_dropD)

lemma readJSONL_holds: "log_holds J c source es \<Longrightarrow> readJSONL J c source = es"
  by (auto simp: log_holds_def readJSONL_def survives_def list_all_iff List.map_filter_def comp_def
      intro!: map_idI filter_True)

lemma appendEntry_holds:
  assumes "log_holds J c source es" and "survives J e" and "ct_io c 0 = None"
  shows "log_holds J (appendEntry J source e c) source (last_n maxFileLines (es @ [e]))"
proof -
  let ?es = "last_n maxFileLines (es @ [e])"
  have good: "list_all (survives J) ?es"
    using assms by (intro list_all_last_n) (simp add: log_holds_def)
  have lines: "last_n maxFileLines (readLinesLocked c source @ [cd_enc J e]) = map (cd_enc J) ?es"
    using assms(1) by (simp add: log_holds_def flip: last_n_map)
  have "?es \<noteq> []" by (simp add: last_n_def maxFileLines_def)
  moreover have "list_all text_line (map (cd_enc J) ?es)"
    using good by (auto simp: list_all_iff survives_def)
  ultimately have "readLinesLocked (appendEntry J source e c) source = map (cd_enc J) ?es"
    using lines_of_text [of "map (cd_enc J) ?es"] assms(3)
    by (simp add: appendEntry_def readLinesLocked_def [of "_\<lparr>ct_files := _\<rparr>"] lines Let_def)
  with good show ?thesis by (simp add: log_holds_def)
qed

text \<open>A request as the middleware sees it: when, what, and the status of the answer.\<close>

type_synonym served = "int \<times> http_request \<times> nat"

definition audited :: "served \<Rightarrow> bool" where
  "audited x = (case x of (now, r, status) \<Rightarrow>
     hr_Method r \<noteq> ''GET'' \<and> hr_Method r \<noteq> ''HEAD'' \<and> 200 \<le> status \<and> status < 400 \<and>
     \<not> go_HasPrefix (hr_Path r) ''/api/v1/logs/'')"

definition audit_entry :: "(string \<Rightarrow> string option) \<Rightarrow> int \<Rightarrow> served \<Rightarrow> Entry" where
  "audit_entry host_of loc x = (case x of (now, r, status) \<Rightarrow>
     zeroEntry\<lparr>en_Time := fmt_stamp loc (now div 1000000000), en_TS := now div 1000000000, en_User := ''admin'',
       en_ClientIP := clientIP host_of r, en_Module := fst (deriveAudit (hr_Method r) (hr_Path r)),
       en_Action := snd (deriveAudit (hr_Method r) (hr_Path r)), en_Message := hr_Method r @ '' '' @ hr_Path r\<rparr>)"

definition serve_requests :: "codec \<Rightarrow> (string \<Rightarrow> string option) \<Rightarrow> served list \<Rightarrow> center \<Rightarrow> center" where
  "serve_requests J host_of xs c = fold (\<lambda>(now, r, status). auditMiddleware J host_of now r status) xs c"

lemma auditMiddleware_cases:
  "auditMiddleware J host_of now r status c =
    (if audited (now, r, status)
     then appendEntry J SourceOperation (audit_entry host_of (ct_loc c) (now, r, status)) c else c)"
  by (auto simp: auditMiddleware_def audited_def audit_entry_def Record_def skipAudit_def now_sec_def split: prod.split)

lemma appendEntry_keeps [simp]:
  "ct_loc (appendEntry J source e c) = ct_loc c" "ct_logged (appendEntry J source e c) = ct_logged c"
  "ct_seen (appendEntry J source e c) = ct_seen c"
  by (simp_all add: appendEntry_def Let_def split: option.split)

lemma appendEntry_io: "ct_io c = (\<lambda>_. None) \<Longrightarrow> ct_io (appendEntry J source e c) = (\<lambda>_. None)"
  by (simp add: appendEntry_def Let_def)

lemma serve_requests_holds:
  assumes "log_holds J c SourceOperation (last_n maxFileLines es)" and "ct_io c = (\<lambda>_. None)"
    and "list_all (survives J) (map (audit_entry host_of (ct_loc c)) (filter audited xs))"
  shows "log_holds J (serve_requests J host_of xs c) SourceOperation
    (last_n maxFileLines (es @ map (audit_entry host_of (ct_loc c)) (filter audited xs)))"
  using assms
proof (induction xs arbitrary: c es)
  case Nil
  then show ?case by (simp add: serve_requests_def)
next
  case (Cons x xs)
  let ?e = "audit_entry host_of (ct_loc c) x"
  have step: "serve_requests J host_of (x # xs) c =
      serve_requests J host_of xs (if audited x then appendEntry J SourceOperation ?e c else c)"
    by (cases x) (simp add: serve_requests_def auditMiddleware_cases)
  show ?case
  proof (cases "audited x")
    case True
    let ?c = "appendEntry J SourceOperation ?e c"
    have "log_holds J ?c SourceOperation (last_n maxFileLines (es @ [?e]))"
      using appendEntry_holds [OF Cons.prems(1), of ?e] Cons.prems True by (simp add: last_n_again)
    from Cons.IH [OF this] Cons.prems True show ?thesis
      by (simp add: step appendEntry_io)
  next
    case False
    with Cons show ?thesis by (simp add: step)
  qed
qed


text \<open>Four requests of one client, of which one leaves an entry.\<close>

definition demo_request :: "string \<Rightarrow> string \<Rightarrow> http_request" where
  "demo_request meth path = \<lparr>hr_Method = meth, hr_Path = path, hr_Header = (\<lambda>_. []), hr_RemoteAddr = ''10.0.0.2:5''\<rparr>"

definition demo_served :: "served list" where
  "demo_served = [(0, demo_request ''GET'' ''/api/v1/routes'', 200),
     (5000000000, demo_request ''DELETE'' ''/api/v1/routes/3'', 200),
     (6000000000, demo_request ''POST'' ''/api/v1/routes'', 400),
     (7000000000, demo_request ''POST'' ''/api/v1/logs/arp/clear'', 200)]"

definition demo_audit :: Entry where
  "demo_audit = audit_entry (\<lambda>_. Some ''10.0.0.2'') 0 (5000000000, demo_request ''DELETE'' ''/api/v1/routes/3'', 200)"

definition demo_audit_codec :: codec where
  "demo_audit_codec = \<lparr>cd_enc = en_Message, cd_dec = (\<lambda>s. Some (demo_audit\<lparr>en_Message := s\<rparr>))\<rparr>"


section \<open>ARP events\<close>

text \<open>An event apart from its time, and the key under which it is suppressed.\<close>

definition said :: "Entry \<Rightarrow> Entry" where
  "said e = e\<lparr>en_Time := [], en_TS := 0\<rparr>"

inductive arp_event :: "string \<Rightarrow> Entry \<Rightarrow> bool" where
  changed: "arp_event (''chg|'' @ (dev @ ''|'' @ ip) @ ''|'' @ p @ ''|'' @ mac) (arp_changed dev ip p mac)"
| multi: "arp_event (''multi|'' @ mac @ ''|'' @ go_Join ips '', '') (arp_multi dev mac ips)"
| conflict: "arp_event (''conflict|'' @ ip @ ''|'' @ mac) (arp_conflict dev ip want mac)"

inductive_cases arp_eventE: "arp_event k e"

lemma utf8_simps [simp]:
  "utf8 [] = []" "utf8 (r # rs) = utf8_rune r @ utf8 rs"
  by (simp_all add: utf8_def)

lemma digits_then_text:
  assumes "list_all is_digit a" and "list_all is_digit b" and "\<not> is_digit d"
    and "a @ d # s = b @ d # t"
  shows "a = b \<and> s = t"
proof -
  have "takeWhile is_digit (a @ d # s) = a" "takeWhile is_digit (b @ d # t) = b"
    using assms(1-3) by (simp_all add: takeWhile_append2 list_all_iff)
  with assms(4) show ?thesis by (metis append_same_eq list.inject same_append_eq)
qed

lemma arp_types:
  "arpTypeChanged \<noteq> arpTypeMultiIP" "arpTypeChanged \<noteq> arpTypeConflict" "arpTypeMultiIP \<noteq> arpTypeConflict"
  by (simp_all add: arpTypeChanged_def arpTypeMultiIP_def arpTypeConflict_def utf8_rune_def eval_simps)

lemma arp_event_type: "arp_event k e \<Longrightarrow>
  en_Type e = arpTypeChanged \<or> en_Type e = arpTypeMultiIP \<or> en_Type e = arpTypeConflict"
  by (elim arp_eventE) (simp_all add: arp_changed_def arp_multi_def arp_conflict_def zeroEntry_def)

lemma arp_changed_inj:
  assumes "arp_changed d i p m = arp_changed d' i' p' m'"
  shows "d = d' \<and> i = i' \<and> p = p' \<and> m = m'"
proof -
  have same: "d' = d \<and> i' = i \<and> m' = m"
    using arg_cong [OF assms, of en_Iface] arg_cong [OF assms, of en_IP] arg_cong [OF assms, of en_MAC]
    by (simp add: arp_changed_def)
  have "en_Message (arp_changed d i p m) = en_Message (arp_changed d i p' m)"
    using assms same by simp
  then have "p = p'" by (simp add: arp_changed_def)
  with same show ?thesis by simp
qed

lemma arp_multi_inj:
  assumes "arp_multi d m l = arp_multi d' m' l'"
  shows "m = m' \<and> go_Join l '', '' = go_Join l' '', ''"
proof -
  have same: "d' = d \<and> m' = m"
    using arg_cong [OF assms, of en_Iface] arg_cong [OF assms, of en_MAC] by (simp add: arp_multi_def)
  have digits: "list_all is_digit (go_nat_str n)" for n
    using go_nat_str_digits [of n] by (simp add: list_all_iff)
  have msg: "en_Message (arp_multi d m l) = en_Message (arp_multi d m l')"
    using arg_cong [OF assms, of en_Message] same by (simp add: arp_multi_def)
  have "\<not> is_digit CHR '' ''" by (simp add: eval_simps)
  moreover have "go_nat_str (length l) @ CHR '' '' # (utf8 [20010] @ '' IP: '' @ go_Join l '', '') =
      go_nat_str (length l') @ CHR '' '' # (utf8 [20010] @ '' IP: '' @ go_Join l' '', '')"
    using msg by (simp add: arp_multi_def)
  ultimately have "utf8 [20010] @ '' IP: '' @ go_Join l '', '' = utf8 [20010] @ '' IP: '' @ go_Join l' '', ''"
    using digits_then_text [OF digits digits] by blast
  with same show ?thesis by simp
qed

lemma arp_conflict_inj:
  assumes "arp_conflict d i w m = arp_conflict d' i' w' m'"
  shows "i = i' \<and> m = m'"
  using arg_cong [OF assms, of en_IP] arg_cong [OF assms, of en_MAC] by (simp add: arp_conflict_def)

lemma arp_type_of [simp]:
  "en_Type (arp_changed d i p m) = arpTypeChanged" "en_Type (arp_multi d m l) = arpTypeMultiIP"
  "en_Type (arp_conflict d i w m) = arpTypeConflict"
  by (simp_all add: arp_changed_def arp_multi_def arp_conflict_def)

lemma arp_disjoint:
  "arp_changed d i p m \<noteq> arp_multi d' m' l" "arp_changed d i p m \<noteq> arp_conflict d'' i' w m''"
  "arp_multi d m l \<noteq> arp_conflict d'' i' w m''"
  by (metis arp_type_of arp_types)+

lemma arp_event_key: "arp_event k e \<Longrightarrow> arp_event k' e \<Longrightarrow> k = k'"
proof (elim arp_eventE)
qed (auto simp: arp_disjoint arp_disjoint [symmetric] dest: arp_changed_inj arp_multi_inj arp_conflict_inj)

lemma said_event: "arp_event k e \<Longrightarrow> said (e\<lparr>en_Time := s, en_TS := t\<rparr>) = e"
  by (elim arp_eventE) (simp_all add: said_def arp_changed_def arp_multi_def arp_conflict_def zeroEntry_def)

text \<open>A stretch of the monitor: the events it logs, each with its time and key.\<close>

inductive arp_run :: "codec \<Rightarrow> (int \<times> string \<times> Entry) list \<Rightarrow> center \<Rightarrow> center \<Rightarrow> bool" for J :: codec where
  none: "arp_run J [] c c"
| baseline: "arp_run J evs c d \<Longrightarrow> arp_run J evs c (d\<lparr>ct_seen := x\<rparr>)"
| event: "arp_run J evs c d \<Longrightarrow> (case ct_logged d k of None \<Rightarrow> True | Some t0 \<Rightarrow> arpDedupWindow \<le> t - t0) \<Longrightarrow>
    arp_event k e \<Longrightarrow> e' = e\<lparr>en_Time := s, en_TS := now_sec t\<rparr> \<Longrightarrow>
    arp_run J (evs @ [(t, k, e')]) c (appendEntry J SourceARP e' (d\<lparr>ct_logged := (ct_logged d)(k \<mapsto> t)\<rparr>))"

lemma arp_run_trans: "arp_run J fs d d' \<Longrightarrow> arp_run J es c d \<Longrightarrow> arp_run J (es @ fs) c d'"
proof (induction rule: arp_run.induct)
  case (event evs c' d' k t e e' s)
  from arp_run.event [OF event.IH [OF event.prems] event.hyps(2-4)] show ?case by simp
qed (auto intro: arp_run.baseline)

text \<open>A stretch at one time, with events or without.\<close>

definition arp_steps :: "codec \<Rightarrow> bool \<Rightarrow> int \<Rightarrow> center \<Rightarrow> center \<Rightarrow> bool" where
  "arp_steps J quiet t c d \<longleftrightarrow>
     (\<exists>evs. arp_run J evs c d \<and> fst ` set evs \<subseteq> {t} \<and> (quiet \<longrightarrow> evs = []))"

lemma arp_steps_refl: "arp_steps J quiet t c c"
  unfolding arp_steps_def by (intro exI [of _ "[]"]) (simp add: arp_run.none)

lemma arp_steps_trans: "arp_steps J quiet t c d \<Longrightarrow> arp_steps J quiet t d e \<Longrightarrow> arp_steps J quiet t c e"
  unfolding arp_steps_def
  by (elim exE) (rule_tac x = "evs @ evsa" in exI, auto intro: arp_run_trans)

lemma arp_steps_fold:
  assumes "\<And>x c. arp_steps J quiet t c (f x c)"
  shows "arp_steps J quiet t c (fold f xs c)"
  by (induction xs arbitrary: c) (auto intro: arp_steps_refl arp_steps_trans assms)

lemma arp_steps_log: "arp_event k e \<Longrightarrow> arp_steps J False t c (log_arp J t k e c)"
proof -
  assume e: "arp_event k e"
  show ?thesis
  proof (cases "\<exists>t0. ct_logged c k = Some t0 \<and> t - t0 < arpDedupWindow")
    case True
    then show ?thesis by (auto simp: log_arp_def arpShouldLog_def intro: arp_steps_refl)
  next
    case False
    then have quiet: "case ct_logged c k of None \<Rightarrow> True | Some t0 \<Rightarrow> arpDedupWindow \<le> t - t0"
      by (auto split: option.split)
    from False have "log_arp J t k e c = appendEntry J SourceARP
        (e\<lparr>en_Time := fmt_stamp (ct_loc c) (now_sec t), en_TS := now_sec t\<rparr>) (c\<lparr>ct_logged := (ct_logged c)(k \<mapsto> t)\<rparr>)"
      by (auto simp: log_arp_def arpShouldLog_def split: option.split)
    with arp_run.event [OF arp_run.none quiet e refl] show ?thesis
      unfolding arp_steps_def by (intro exI [of _ "[_]"]) auto
  qed
qed

lemmas arp_logged = arp_steps_log [OF arp_event.changed, simplified] arp_steps_log [OF arp_event.multi, simplified]
  arp_steps_log [OF arp_event.conflict, simplified]

lemma scan_neigh_steps:
  assumes "scan_neigh J seed t n (c, ips, devs) = (d, ips', devs')"
  shows "arp_steps J seed t c d"
proof -
  obtain ip dev mac where n: "n = (ip, dev, mac)" by (cases n)
  let ?key = "dev @ ''|'' @ ip"
  let ?c = "c\<lparr>ct_seen := (ct_seen c)(?key \<mapsto> mac)\<rparr>"
  have base: "arp_steps J quiet t c ?c" for quiet
    unfolding arp_steps_def by (intro exI [of _ "[]"]) (simp add: arp_run.none arp_run.baseline)
  have "d = ?c \<or> (\<exists>p. \<not> seed \<and> d = log_arp J t (''chg|'' @ ?key @ ''|'' @ p @ ''|'' @ mac) (arp_changed dev ip p mac) ?c)"
    using assms by (auto simp: scan_neigh_def n Let_def split: option.splits if_splits)
  then show ?thesis
  proof (elim disjE exE conjE)
    fix p
    assume "\<not> seed" and d: "d = log_arp J t (''chg|'' @ ?key @ ''|'' @ p @ ''|'' @ mac) (arp_changed dev ip p mac) ?c"
    then show ?thesis
      using arp_steps_trans [OF base arp_steps_log [OF arp_event.changed]] by simp
  qed (use base in simp)
qed

lemma scan_neighs_steps:
  assumes "fold (scan_neigh J seed t) ns (c, ips, devs) = (d, ips', devs')"
  shows "arp_steps J seed t c d"
  using assms
proof (induction ns arbitrary: c ips devs)
  case Nil
  then show ?case by (simp add: arp_steps_refl)
next
  case (Cons n ns)
  obtain c1 ips1 devs1 where one: "scan_neigh J seed t n (c, ips, devs) = (c1, ips1, devs1)"
    by (cases "scan_neigh J seed t n (c, ips, devs)")
  with Cons show ?case by (auto intro: arp_steps_trans scan_neigh_steps)
qed

lemma arp_steps_weaken: "arp_steps J True t c d \<Longrightarrow> arp_steps J quiet t c d"
  by (auto simp: arp_steps_def)

lemma spoof_steps: "arp_steps J False t c (snd (reportARPSpoof J t devs ips c))"
  unfolding reportARPSpoof_def snd_conv
  by (rule arp_steps_fold) (auto simp: Let_def intro: arp_steps_refl arp_logged split: prod.split)

lemma conflict_steps: "arp_steps J False t c (reportARPConflict J t bound devs ips c)"
  unfolding reportARPConflict_def
  by (auto intro!: arp_steps_refl arp_steps_fold arp_logged split: option.split prod.split)

lemma scanARP_steps: "arp_steps J seed t c (scanARP J up iter1 iter2 bound seed t out c)"
proof (cases out)
  case (Inr s)
  obtain c1 ips devs where scan: "fold (scan_neigh J seed t) (List.map_filter (neigh_line up) (go_Split s (byte 10)))
      (c, [], Map.empty) = (c1, ips, devs)" by (metis prod_cases3)
  note first = scan_neighs_steps [OF this]
  show ?thesis
  proof (cases seed)
    case True
    with first scan Inr show ?thesis by (simp add: scanARP_def arp_steps_refl)
  next
    case False
    obtain ips' c2 where spoof: "reportARPSpoof J t devs (iter1 ips) c1 = (ips', c2)" by (metis surj_pair)
    have first': "arp_steps J False t c c1" using first False by simp
    have "arp_steps J False t c1 c2" using spoof_steps [of J t c1 devs "iter1 ips"] spoof by simp
    from arp_steps_trans [OF arp_steps_trans [OF first' this] conflict_steps]
    have "arp_steps J False t c (reportARPConflict J t bound devs (iter2 ips') c2)" .
    with False scan spoof show ?thesis
      unfolding scanARP_def Inr by (simp add: arp_steps_refl)
  qed
qed (simp add: scanARP_def arp_steps_refl)

text \<open>What a stretch says about its events and leaves in the file.\<close>

lemma append_same_log:
  assumes "ct_files c = ct_files d" and "ct_io c = ct_io d"
  shows "ct_files (appendEntry J source e c) = ct_files (appendEntry J source e d)"
    and "ct_io (appendEntry J source e c) = ct_io (appendEntry J source e d)"
  using assms by (simp_all add: appendEntry_def readLinesLocked_def Let_def split: option.split)

lemma arp_run_file:
  "arp_run J evs c d \<Longrightarrow> ct_files d = ct_files (fold (\<lambda>(t, k, e). appendEntry J SourceARP e) evs c) \<and>
     ct_io d = ct_io (fold (\<lambda>(t, k, e). appendEntry J SourceARP e) evs c)"
proof (induction rule: arp_run.induct)
  case (event evs c d k t e e' s)
  then show ?case
    using append_same_log [of "d\<lparr>ct_logged := (ct_logged d)(k \<mapsto> t)\<rparr>"
        "fold (\<lambda>(t, k, e). appendEntry J SourceARP e) evs c" J SourceARP e'] by simp
qed simp_all

lemma arp_run_events:
  "arp_run J evs c d \<Longrightarrow>
     list_all (\<lambda>(t, k, e). arp_event k (said e) \<and> en_TS e = now_sec t) evs \<and>
     list_all (\<lambda>(t, k, e). \<exists>u. ct_logged d k = Some u \<and> t \<le> u) evs \<and>
     sorted_wrt (\<lambda>(t, k, e) (t', k', e'). k = k' \<longrightarrow> arpDedupWindow \<le> t' - t) evs"
proof (induction rule: arp_run.induct)
  case (event evs c d k t e e' s)
  have later: "arpDedupWindow \<le> t - t0 \<and> t0 \<le> t" if "(t0, k, e0) \<in> set evs" for t0 e0
  proof -
    from event.IH that obtain u where "ct_logged d k = Some u" and "t0 \<le> u" by (auto simp: list_all_iff)
    with event.hyps(2) have "arpDedupWindow \<le> t - t0" by simp
    then show ?thesis by (simp add: arpDedupWindow_def)
  qed
  have "said e' = e" using said_event [OF event.hyps(3)] event.hyps(4) by simp
  moreover have "en_TS e' = now_sec t" using event.hyps(4) by simp
  ultimately show ?case
    using event.IH event.hyps(3) later by (fastforce simp: list_all_iff sorted_wrt_append)
qed simp_all

lemma monitor_run:
  "\<exists>evs. arp_run J evs c (StartARPMonitor J up xs c) \<and> fst ` set evs \<subseteq> at_now ` set (tl xs)"
proof (cases xs)
  case Nil
  then show ?thesis by (intro exI [of _ "[]"]) (simp add: arp_run.none)
next
  case (Cons x ys)
  have "\<exists>evs. arp_run J evs c (fold (arp_tick_scan J up False) ys d) \<and> fst ` set evs \<subseteq> at_now ` set ys"
    if "arp_run J [] c d" for d
  proof (induction ys rule: rev_induct)
    case Nil
    with that show ?case by (intro exI [of _ "[]"]) simp
  next
    case (snoc y ys)
    then obtain evs where "arp_run J evs c (fold (arp_tick_scan J up False) ys d)" "fst ` set evs \<subseteq> at_now ` set ys"
      by blast
    moreover obtain evs' where "arp_run J evs' (fold (arp_tick_scan J up False) ys d)
        (arp_tick_scan J up False y (fold (arp_tick_scan J up False) ys d))" "fst ` set evs' \<subseteq> {at_now y}"
      using scanARP_steps [of J False "at_now y"] unfolding arp_steps_def arp_tick_scan_def by blast
    ultimately show ?case
      by (intro exI [of _ "evs @ evs'"]) (auto intro: arp_run_trans)
  qed
  moreover have "arp_run J [] c (arp_tick_scan J up True x c)"
    using scanARP_steps [of J True "at_now x"] unfolding arp_steps_def arp_tick_scan_def by force
  ultimately show ?thesis by (simp add: Cons)
qed

lemma now_sec_apart: "arpDedupWindow \<le> t' - t \<Longrightarrow> 1800 \<le> now_sec t' - now_sec t"
proof -
  assume "arpDedupWindow \<le> t' - t"
  then have "(t + 1800 * 1000000000) div 1000000000 \<le> t' div 1000000000"
    by (intro zdiv_mono1) (simp_all add: arpDedupWindow_def)
  then show ?thesis by (simp add: now_sec_def)
qed

text \<open>Whatever the neighbour table shows and however the scans are timed, the monitor only appends entries to the ARP
  log, none for the first scan, and two entries that say the same (all fields but the time) are at least 30 minutes
  apart.\<close>

theorem arp_events_apart:
  "\<exists>es. ct_files (StartARPMonitor J up xs c) = ct_files (fold (appendEntry J SourceARP) es c) \<and>
     list_all (\<lambda>e. en_TS e \<in> now_sec ` at_now ` set (tl xs)) es \<and>
     sorted_wrt (\<lambda>e e'. said e = said e' \<longrightarrow> 30 * 60 \<le> en_TS e' - en_TS e) es"
proof -
  obtain evs where run: "arp_run J evs c (StartARPMonitor J up xs c)" and times: "fst ` set evs \<subseteq> at_now ` set (tl xs)"
    using monitor_run by blast
  note facts = arp_run_events [OF run]
  let ?es = "map (\<lambda>(t, k, e). e) evs"
  have "fold (\<lambda>(t, k, e). appendEntry J SourceARP e) evs c = fold (appendEntry J SourceARP) ?es c"
    by (simp add: fold_map comp_def case_prod_unfold)
  with arp_run_file [OF run] have "ct_files (StartARPMonitor J up xs c) = ct_files (fold (appendEntry J SourceARP) ?es c)"
    by simp
  moreover have "list_all (\<lambda>e. en_TS e \<in> now_sec ` at_now ` set (tl xs)) ?es"
    using facts times by (fastforce simp: list_all_iff)
  moreover have "sorted_wrt (\<lambda>e e'. said e = said e' \<longrightarrow> 30 * 60 \<le> en_TS e' - en_TS e) ?es"
    unfolding sorted_wrt_map
  proof (rule sorted_wrt_mono_rel [OF _ conjunct2 [OF conjunct2 [OF facts]]])
    fix x y assume "x \<in> set evs" "y \<in> set evs"
    moreover obtain t k e t' k' e' where [simp]: "x = (t, k, e)" "y = (t', k', e')" by (metis prod_cases3)
    ultimately have ev: "arp_event k (said e)" "arp_event k' (said e')" and ts: "en_TS e = now_sec t" "en_TS e' = now_sec t'"
      using facts by (auto simp: list_all_iff)
    assume apart: "(\<lambda>(t, k, e) (t', k', e'). k = k' \<longrightarrow> arpDedupWindow \<le> t' - t) x y"
    show "said ((\<lambda>(t, k, e). e) x) = said ((\<lambda>(t, k, e). e) y) \<longrightarrow>
        30 * 60 \<le> en_TS ((\<lambda>(t, k, e). e) y) - en_TS ((\<lambda>(t, k, e). e) x)"
    proof
      assume "said ((\<lambda>(t, k, e). e) x) = said ((\<lambda>(t, k, e). e) y)"
      with ev have "k = k'" using arp_event_key by simp
      with apart have "arpDedupWindow \<le> t' - t" by simp
      then show "30 * 60 \<le> en_TS ((\<lambda>(t, k, e). e) y) - en_TS ((\<lambda>(t, k, e). e) x)"
        by (simp add: ts now_sec_apart)
    qed
  qed
  ultimately show ?thesis by blast
qed

text \<open>Two lines of a neighbour table: one address on two bridges, from the same device.\<close>

definition demo_neigh :: string where
  "demo_neigh = ''192.168.1.9 dev br-a lladdr 02:11:22:33:44:55 REACHABLE'' @ [byte 10] @
     ''192.168.1.9 dev br-b lladdr 02:11:22:33:44:55 STALE''"

definition demo_tick :: "int \<Rightarrow> arp_tick" where
  "demo_tick now = \<lparr>at_now = now, at_out = Inr demo_neigh, at_bound = None, at_iter1 = id, at_iter2 = id\<rparr>"

theorem arp_events_apart_witness:
  "\<exists>es. ct_files (StartARPMonitor demo_codec id [demo_tick 0, demo_tick 20000000000, demo_tick 40000000000] demo_center) =
       ct_files (fold (appendEntry demo_codec SourceARP) es demo_center) \<and>
     list_all (\<lambda>e. en_TS e \<in> {20, 40}) es \<and>
     sorted_wrt (\<lambda>e e'. said e = said e' \<longrightarrow> 30 * 60 \<le> en_TS e' - en_TS e) es"
  using arp_events_apart [of demo_codec id "[demo_tick 0, demo_tick 20000000000, demo_tick 40000000000]" demo_center]
  by (simp add: demo_tick_def now_sec_def)

lemma demo_neigh_lines:
  "List.map_filter (neigh_line up) (go_Split demo_neigh (byte 10)) =
     [(''192.168.1.9'', ''br-a'', ''02:11:22:33:44:55''), (''192.168.1.9'', ''br-b'', ''02:11:22:33:44:55'')]"
proof -
  have "go_Split demo_neigh (byte 10) = [''192.168.1.9 dev br-a lladdr 02:11:22:33:44:55 REACHABLE'',
      ''192.168.1.9 dev br-b lladdr 02:11:22:33:44:55 STALE'']"
    by (simp add: demo_neigh_def eval_simps)
  moreover have "neigh_line up ''192.168.1.9 dev br-a lladdr 02:11:22:33:44:55 REACHABLE'' =
      Some (''192.168.1.9'', ''br-a'', ''02:11:22:33:44:55'')"
    by (simp add: neigh_line_def reNeigh_def isIPv4_def eval_simps Let_def)
  moreover have "neigh_line up ''192.168.1.9 dev br-b lladdr 02:11:22:33:44:55 STALE'' =
      Some (''192.168.1.9'', ''br-b'', ''02:11:22:33:44:55'')"
    by (simp add: neigh_line_def reNeigh_def isIPv4_def eval_simps Let_def)
  ultimately show ?thesis by (simp add: List.map_filter_def)
qed

lemma append_updates:
  "ct_files (appendEntry J source e (c\<lparr>ct_seen := x, ct_logged := y\<rparr>)) = ct_files (appendEntry J source e c)"
  by (rule append_same_log) simp_all

text \<open>A device that is in the neighbour table of two bridges with one and the same address is reported as one that
  occupies two addresses: the monitor keeps its baseline per interface, but collects the addresses of a device over
  all interfaces and does not look whether they differ.\<close>

theorem one_address_reported_as_two:
  "\<exists>e. ct_files (StartARPMonitor J up [demo_tick t, demo_tick t'] (c\<lparr>ct_seen := Map.empty, ct_logged := Map.empty\<rparr>)) =
       ct_files (appendEntry J SourceARP e c) \<and> en_TS e = now_sec t' \<and>
     said e = arp_multi ''br-b'' ''02:11:22:33:44:55'' [''192.168.1.9'', ''192.168.1.9'']"
proof -
  let ?mac = "''02:11:22:33:44:55''" and ?ip = "''192.168.1.9''"
  let ?c = "c\<lparr>ct_seen := Map.empty, ct_logged := Map.empty\<rparr>"
  let ?seen = "[''br-a|192.168.1.9'' \<mapsto> ?mac, ''br-b|192.168.1.9'' \<mapsto> ?mac]"
  define d where "d = ?c\<lparr>ct_seen := ?seen\<rparr>"
  let ?acc = "([(?mac, [?ip, ?ip])], [?mac \<mapsto> ''br-b''])"
  let ?e = "(arp_multi ''br-b'' ?mac [?ip, ?ip])\<lparr>en_Time := fmt_stamp (ct_loc c) (now_sec t'), en_TS := now_sec t'\<rparr>"
  let ?ns = "[(?ip, ''br-a'', ?mac), (?ip, ''br-b'', ?mac)]"
  have some: "go_TrimSpace demo_neigh \<noteq> []"
    by (simp add: demo_neigh_def eval_simps)
  have seed: "fold (scan_neigh J True t) ?ns (?c, [], Map.empty) = (d, ?acc)"
    by (simp add: scan_neigh_def Let_def d_def)
  have next_scan: "fold (scan_neigh J False t') ?ns (d, [], Map.empty) = (d, ?acc)"
    by (simp add: scan_neigh_def Let_def fun_upd_idem d_def)
  have "arp_tick_scan J up True (demo_tick t) ?c = d"
    by (simp add: arp_tick_scan_def demo_tick_def scanARP_def some demo_neigh_lines seed del: fold.simps)
  then have "StartARPMonitor J up [demo_tick t, demo_tick t'] ?c = arp_tick_scan J up False (demo_tick t') d"
    by simp
  also have "\<dots> = snd (reportARPSpoof J t' [?mac \<mapsto> ''br-b''] [(?mac, [?ip, ?ip])] d)"
    by (simp add: arp_tick_scan_def demo_tick_def scanARP_def some demo_neigh_lines next_scan reportARPConflict_def
        split: prod.split del: fold.simps)
  also have "\<dots> = log_arp J t' (''multi|'' @ ?mac @ ''|192.168.1.9, 192.168.1.9'') (arp_multi ''br-b'' ?mac [?ip, ?ip]) d"
    by (simp add: reportARPSpoof_def Let_def dev_of_def)
  also have "\<dots> = appendEntry J SourceARP ?e (d\<lparr>ct_logged := [''multi|'' @ ?mac @ ''|192.168.1.9, 192.168.1.9'' \<mapsto> t']\<rparr>)"
    by (simp add: log_arp_def arpShouldLog_def d_def)
  finally have "ct_files (StartARPMonitor J up [demo_tick t, demo_tick t'] ?c) = ct_files (appendEntry J SourceARP ?e c)"
    by (simp add: d_def append_updates)
  then show ?thesis
    by (intro exI [of _ ?e]) (simp add: said_event [OF arp_event.multi])
qed

end
