(* ===== verification/LogDialProps.thy ===== *)
theory LogDialProps
  imports LogDial
begin

text \<open>
  Properties of the live log of a dial: what holds in every state that the subscribers and the goroutines of the sources
  can reach, and what happens when the source ends by itself.
\<close>

section \<open>Sources\<close>

text \<open>A source that is not cancelled is the one that the stream knows how to cancel, and somebody listens.\<close>

definition sources_ok :: "dstream \<Rightarrow> bool" where
  "sources_ok s \<longleftrightarrow>
     list_all (\<lambda>x. so_id x < ds_nextSrc s \<and> (so_cancelled x \<or> ds_running s \<and> ds_cancel s = Some (so_id x))) (ds_sources s) \<and>
     distinct (map so_id (ds_sources s)) \<and> (ds_running s \<longrightarrow> ds_subs s \<noteq> Map.empty)"

lemma sources_ok_subs:
  assumes "sources_ok s" and "ds_subs t = Map.empty \<longrightarrow> ds_subs s = Map.empty" and "ds_sources t = ds_sources s"
    and "ds_running t = ds_running s" and "ds_cancel t = ds_cancel s" and "ds_nextSrc t = ds_nextSrc s"
  shows "sources_ok t"
  using assms by (auto simp: sources_ok_def)

lemma sources_ok_remove:
  "sources_ok s \<Longrightarrow> ds_sources s = xs @ x # ys \<Longrightarrow> sources_ok (s\<lparr>ds_sources := xs @ ys\<rparr>)"
  by (auto simp: sources_ok_def)

lemma startLocked_ok:
  assumes "sources_ok s" and "\<not> ds_running s" and "ds_subs s \<noteq> Map.empty"
  shows "sources_ok (startLocked simulate started s)"
proof -
  have "so_id x < ds_nextSrc s \<and> so_cancelled x" if "x \<in> set (ds_sources s)" for x
    using assms(1,2) that by (auto simp: sources_ok_def list_all_iff)
  with assms show ?thesis
    by (fastforce simp: sources_ok_def startLocked_def Let_def list_all_iff)
qed

lemma stopLocked_ok:
  assumes "sources_ok s"
  shows "sources_ok (stopLocked s)"
proof -
  have "map so_id (ds_sources (stopLocked s)) = map so_id (ds_sources s)"
    by (simp add: stopLocked_def comp_def if_distrib cong: if_cong)
  then have "distinct (map so_id (ds_sources (stopLocked s)))"
    using assms by (simp only: sources_ok_def)
  moreover have "so_id x < ds_nextSrc s \<and> (Some (so_id x) = ds_cancel s \<or> so_cancelled x)"
    if "x \<in> set (ds_sources s)" for x
    using assms that by (auto simp: sources_ok_def list_all_iff)
  ultimately show ?thesis
    by (auto simp: sources_ok_def stopLocked_def list_all_iff)
qed

lemma broadcast_fields [simp]:
  "ds_sources (broadcast e s) = ds_sources s" "ds_running (broadcast e s) = ds_running s"
  "ds_cancel (broadcast e s) = ds_cancel s" "ds_nextSrc (broadcast e s) = ds_nextSrc s"
  "ds_closed (broadcast e s) = ds_closed s" "ds_nextID (broadcast e s) = ds_nextID s"
  by (simp_all add: broadcast_def Let_def)

lemma broadcast_subs: "ds_subs (broadcast e s) = Map.empty \<longleftrightarrow> ds_subs s = Map.empty"
  by (auto simp: broadcast_def Let_def fun_eq_iff)

text \<open>Before a possible start or stop, a subscriber is added or removed.\<close>

definition add_sub :: "dstream \<Rightarrow> dstream" where
  "add_sub s = s\<lparr>ds_nextID := Suc (ds_nextID s), ds_subs := (ds_subs s)(ds_nextID s \<mapsto>
     \<lparr>su_queue = [], su_from = unat (ds_seq s), su_got = [], su_dropped = 0\<rparr>)\<rparr>"

definition drop_sub :: "nat \<Rightarrow> dstream \<Rightarrow> dstream" where
  "drop_sub i s = (if ds_subs s i \<noteq> None
     then s\<lparr>ds_subs := (ds_subs s)(i := None), ds_closed := insert i (ds_closed s)\<rparr> else s)"

lemma subscribe_add: "subscribe simulate started s = (i, snap, s') \<Longrightarrow>
    i = ds_nextID s \<and> snap = ds_ring s \<and>
    s' = (if ds_running s then add_sub s else startLocked simulate started (add_sub s))"
  by (auto simp: subscribe_def add_sub_def Let_def)

lemma unsubscribe_drop: "unsubscribe i s =
    (if ds_subs (drop_sub i s) = Map.empty \<and> ds_running s then stopLocked (drop_sub i s) else drop_sub i s)"
  by (simp add: unsubscribe_def drop_sub_def Let_def)

lemma sources_ok_step: "dstep simulate s s' \<Longrightarrow> sources_ok s \<Longrightarrow> sources_ok s'"
proof (induction rule: dstep.induct)
  case (Subscribe started s i snap s')
  have "sources_ok (add_sub s)"
    by (rule sources_ok_subs [OF Subscribe.prems]) (auto simp: add_sub_def)
  moreover have "ds_subs (add_sub s) \<noteq> Map.empty" and "ds_running (add_sub s) = ds_running s"
    by (auto simp: add_sub_def)
  ultimately show ?case
    using subscribe_add [OF Subscribe.hyps] startLocked_ok by simp
next
  case (Unsubscribe s i)
  have same: "ds_sources (drop_sub i s) = ds_sources s" "ds_running (drop_sub i s) = ds_running s"
    "ds_cancel (drop_sub i s) = ds_cancel s" "ds_nextSrc (drop_sub i s) = ds_nextSrc s"
    by (simp_all add: drop_sub_def)
  show ?case
  proof (cases "ds_subs (drop_sub i s) = Map.empty \<and> ds_running s")
    case True
    have "sources_ok (stopLocked s)" using Unsubscribe by (rule stopLocked_ok)
    then have "sources_ok (stopLocked (drop_sub i s))"
      using same by (auto simp: sources_ok_def stopLocked_def)
    with True show ?thesis by (simp add: unsubscribe_drop)
  next
    case False
    with Unsubscribe same show ?thesis by (auto simp: unsubscribe_drop sources_ok_def)
  qed
next
  case (Line x s now loc line e)
  show ?case by (rule sources_ok_subs [OF Line.prems]) (simp_all add: broadcast_subs)
next
  case (Frame s xs x ys now loc)
  then show ?case
    using broadcast_subs [of "sim_entry now loc (so_frame x)" s] by (auto simp: sources_ok_def)
next
  case (Receive s i u e q)
  show ?case by (rule sources_ok_subs [OF Receive.prems]) (auto simp: Receive.hyps)
qed (simp_all add: sources_ok_remove)

section \<open>Numbers\<close>

text \<open>What a subscriber has received and what waits in its channel.\<close>

definition seen :: "dsub \<Rightarrow> nat list" where
  "seen u = map en_Seq (su_got u @ su_queue u)"

definition sub_ok :: "nat \<Rightarrow> dsub \<Rightarrow> bool" where
  "sub_ok n u \<longleftrightarrow> su_from u \<le> n \<and> length (su_queue u) \<le> 128 \<and>
     sorted_wrt (<) (seen u) \<and> set (seen u) \<subseteq> {su_from u<..n} \<and> length (seen u) + su_dropped u = n - su_from u"

definition numbers_ok :: "dstream \<Rightarrow> bool" where
  "numbers_ok s \<longleftrightarrow> (let n = unat (ds_seq s) in
     map en_Seq (ds_ring s) = [Suc (n - 300)..<Suc n] \<and>
     (\<forall>i \<in> ds_closed s. i < ds_nextID s) \<and>
     (\<forall>i u. ds_subs s i = Some u \<longrightarrow> i < ds_nextID s \<and> i \<notin> ds_closed s \<and> sub_ok n u))"

lemma offer_ok:
  assumes "sub_ok n u" and "en_Seq e = Suc n"
  shows "sub_ok (Suc n) (offer e u)"
  using assms by (auto simp: sub_ok_def offer_def seen_def sorted_wrt_append chanCap_def subset_iff)

lemma last_n_upt: "last_n k [a..<b] = [max a (b - k)..<b]"
proof -
  have "a + (b - a - k) = max a (b - k)" if "a \<le> b - k" using that by linarith
  then show ?thesis by (auto simp: last_n_def drop_upt max_def)
qed

lemma ring_ok:
  assumes "map en_Seq r = [Suc (n - 300)..<Suc n]" and "en_Seq e = Suc n"
  shows "map en_Seq (last_n 300 (r @ [e])) = [Suc (Suc n - 300)..<Suc (Suc n)]"
proof -
  have "map en_Seq (last_n 300 (r @ [e])) = last_n 300 (map en_Seq r @ [Suc n])"
    by (simp add: last_n_def drop_map assms(2))
  also have "map en_Seq r @ [Suc n] = [Suc (n - 300)..<Suc (Suc n)]"
    by (simp add: assms(1))
  also have "last_n 300 \<dots> = [Suc (Suc n - 300)..<Suc (Suc n)]"
    unfolding last_n_upt by (rule arg_cong [where f = "\<lambda>a. [a..<_]"]) simp
  finally show ?thesis .
qed

lemma seq_next: "q \<noteq> - 1 \<Longrightarrow> unat (q + 1 :: 64 word) = Suc (unat q)"
  by (metis Suc_eq_plus1 add_eq_0_iff2 unatSuc add.commute minus_equation_iff word_succ_p1)

lemma broadcast_numbers:
  assumes "numbers_ok s" and "ds_seq s \<noteq> - 1"
  shows "numbers_ok (broadcast e s)"
proof -
  let ?n = "unat (ds_seq s)"
  let ?e = "e\<lparr>en_Seq := Suc ?n\<rparr>"
  have s': "ds_seq (broadcast e s) = ds_seq s + 1" "ds_ring (broadcast e s) = last_n 300 (ds_ring s @ [?e])"
      "ds_subs (broadcast e s) = (\<lambda>i. map_option (offer ?e) (ds_subs s i))"
    by (simp_all add: broadcast_def Let_def dialRingCap_def seq_next [OF assms(2)])
  show ?thesis
    using assms(1) ring_ok [of "ds_ring s" ?n ?e] offer_ok [of ?n _ ?e]
    unfolding numbers_ok_def Let_def broadcast_fields s' seq_next [OF assms(2)] by auto
qed

lemma numbers_ok_frame:
  assumes "numbers_ok s" and "ds_seq t = ds_seq s" and "ds_ring t = ds_ring s" and "ds_closed t = ds_closed s"
    and "ds_nextID t = ds_nextID s" and "ds_subs t = ds_subs s"
  shows "numbers_ok t"
  using assms by (simp add: numbers_ok_def)

lemma startLocked_frame [simp]:
  "ds_seq (startLocked simulate started s) = ds_seq s" "ds_ring (startLocked simulate started s) = ds_ring s"
  "ds_closed (startLocked simulate started s) = ds_closed s" "ds_nextID (startLocked simulate started s) = ds_nextID s"
  "ds_subs (startLocked simulate started s) = ds_subs s"
  by (simp_all add: startLocked_def Let_def)

lemma stopLocked_frame [simp]:
  "ds_seq (stopLocked s) = ds_seq s" "ds_ring (stopLocked s) = ds_ring s" "ds_closed (stopLocked s) = ds_closed s"
  "ds_nextID (stopLocked s) = ds_nextID s" "ds_subs (stopLocked s) = ds_subs s"
  by (simp_all add: stopLocked_def)

lemma add_sub_numbers:
  assumes "numbers_ok s"
  shows "numbers_ok (add_sub s)"
  using assms by (fastforce simp: numbers_ok_def add_sub_def Let_def sub_ok_def seen_def split: if_splits)

lemma drop_sub_numbers: "numbers_ok s \<Longrightarrow> numbers_ok (drop_sub i s)"
  by (auto simp: numbers_ok_def drop_sub_def Let_def split: if_splits)

lemma numbers_ok_step: "dstep simulate s s' \<Longrightarrow> numbers_ok s \<Longrightarrow> numbers_ok s'"
proof (induction rule: dstep.induct)
  case (Subscribe started s i snap s')
  from add_sub_numbers [OF Subscribe.prems] subscribe_add [OF Subscribe.hyps] show ?case
    by (auto intro: numbers_ok_frame)
next
  case (Unsubscribe s i)
  from drop_sub_numbers [OF Unsubscribe, of i] show ?case
    by (auto simp: unsubscribe_drop intro: numbers_ok_frame)
next
  case (Line x s now loc line e)
  then show ?case by (simp add: broadcast_numbers)
next
  case (Frame s xs x ys now loc)
  from broadcast_numbers [OF Frame.prems Frame.hyps(3)] show ?case by (rule numbers_ok_frame) simp_all
next
  case (Receive s i u e q)
  let ?u = "u\<lparr>su_queue := q, su_got := su_got u @ [e]\<rparr>"
  have "sub_ok n u \<Longrightarrow> sub_ok n ?u" for n
    using Receive.hyps(2) by (auto simp: sub_ok_def seen_def)
  with Receive show ?case by (auto simp: numbers_ok_def Let_def)
qed (auto intro: numbers_ok_frame)

lemma dreach_ok: "dreach simulate s \<Longrightarrow> sources_ok s \<and> numbers_ok s"
proof (induction rule: dreach.induct)
  case start
  then show ?case by (simp add: newDialStream_def sources_ok_def numbers_ok_def)
qed (auto intro: sources_ok_step numbers_ok_step)

lemma all_same_length: "distinct xs \<Longrightarrow> (\<And>x. x \<in> set xs \<Longrightarrow> x = a) \<Longrightarrow> length xs \<le> 1"
  by (cases xs; cases "tl xs") auto

lemma live_one:
  assumes "sources_ok s"
  shows "length (live s) \<le> 1" and "live s \<noteq> [] \<Longrightarrow> ds_subs s \<noteq> Map.empty"
proof -
  have all: "ds_running s \<and> so_id x = the (ds_cancel s)" if "x \<in> set (live s)" for x
    using assms that by (auto simp: sources_ok_def live_def list_all_iff)
  have "distinct (map so_id (live s))"
    using assms by (simp add: sources_ok_def live_def distinct_map_filter)
  with all have "length (map so_id (live s)) \<le> 1"
    by (intro all_same_length [where a = "the (ds_cancel s)"]) auto
  then show "length (live s) \<le> 1" by simp
  show "ds_subs s \<noteq> Map.empty" if "live s \<noteq> []"
    using all [of "hd (live s)"] assms that by (simp add: sources_ok_def)
qed

lemma full_range:
  assumes "sorted_wrt (<) xs" and "set xs \<subseteq> {a<..b}" and "length xs = b - a"
  shows "xs = [Suc a..<Suc b]"
proof -
  have xs: "sorted xs" "distinct xs" using assms(1) by (simp_all add: strict_sorted_iff)
  then have "card (set xs) = card {a<..b}" using assms(3) by (simp add: distinct_card)
  then have "set xs = {a<..b}" using assms(2) by (intro card_subset_eq) auto
  moreover have "set [Suc a..<Suc b] = {a<..b}" by auto
  ultimately show ?thesis
    using xs by (intro sorted_distinct_set_unique) (simp_all del: upt_Suc)
qed

section \<open>Properties\<close>

text \<open>C24: Whatever subscribers come and go and however the goroutines of old and new sources interleave, at most one
  source that is not cancelled runs, and only while somebody listens. The ring holds the last 300 entries with
  consecutive numbers. No subscriber's channel is closed, its buffer holds at most 128 entries, it gets the entries
  since it came in increasing order without repetition, those it does not get are the ones that were dropped because
  its buffer was full, and with none dropped there is no gap.\<close>

theorem dial_stream_invariant:
  assumes "dreach simulate s"
  defines "n \<equiv> unat (ds_seq s)"
  shows "length (live s) \<le> 1 \<and> (live s \<noteq> [] \<longrightarrow> ds_subs s \<noteq> Map.empty) \<and>
    map en_Seq (ds_ring s) = [Suc (n - 300)..<Suc n] \<and>
    (\<forall>i u. ds_subs s i = Some u \<longrightarrow>
       i \<notin> ds_closed s \<and> length (su_queue u) \<le> 128 \<and>
       (let xs = map en_Seq (su_got u @ su_queue u) in
         sorted_wrt (<) xs \<and> set xs \<subseteq> {su_from u<..n} \<and> length xs + su_dropped u = n - su_from u \<and>
         (su_dropped u = 0 \<longrightarrow> xs = [Suc (su_from u)..<Suc n])))"
proof -
  have src: "sources_ok s" and num: "numbers_ok s" using dreach_ok [OF assms(1)] by simp_all
  have subs: "i \<notin> ds_closed s" "sub_ok n u" if "ds_subs s i = Some u" for i u
    using num that by (auto simp: numbers_ok_def n_def Let_def)
  have gapless: "seen u = [Suc (su_from u)..<Suc n]" if "sub_ok n u" "su_dropped u = 0" for u
    using that by (intro full_range) (simp_all add: sub_ok_def)
  have "map en_Seq (ds_ring s) = [Suc (n - 300)..<Suc n]"
    using num by (simp add: numbers_ok_def n_def Let_def del: upt_Suc)
  then show ?thesis
    using live_one [OF src] subs gapless unfolding Let_def sub_ok_def seen_def by blast
qed

definition demo_stream :: dstream where
  "demo_stream = broadcast (sim_entry 0 0 0) (snd (snd (subscribe True True newDialStream)))"

lemma demo_reached: "dreach True (demo_stream\<lparr>ds_sources := [\<lparr>so_id = 0, so_cancelled = False, so_frame = 1\<rparr>]\<rparr>)"
proof -
  let ?s = "snd (snd (subscribe True True newDialStream))"
  have "dstep True newDialStream ?s"
    by (rule dstep.Subscribe [of True True newDialStream 0 "[]"]) (simp add: subscribe_def Let_def newDialStream_def)
  then have reach: "dreach True ?s" by (rule dreach.step [OF dreach.start])
  have "dstep True ?s ((broadcast (sim_entry 0 0 (so_frame \<lparr>so_id = 0, so_cancelled = False, so_frame = 0\<rparr>)) ?s)
      \<lparr>ds_sources := [] @ \<lparr>so_id = 0, so_cancelled = False, so_frame = 0\<rparr>\<lparr>so_frame := Suc
        (so_frame \<lparr>so_id = 0, so_cancelled = False, so_frame = 0\<rparr>)\<rparr> # []\<rparr>)"
    by (rule dstep.Frame) (simp_all add: subscribe_def startLocked_def newDialStream_def Let_def)
  with reach show ?thesis by (auto simp: demo_stream_def intro: dreach.step)
qed

theorem dial_stream_invariant_witness:
  "length (live (demo_stream\<lparr>ds_sources := [\<lparr>so_id = 0, so_cancelled = False, so_frame = 1\<rparr>]\<rparr>)) = 1 \<and>
   map en_Seq (ds_ring demo_stream) = [1]"
proof -
  have "unat (ds_seq demo_stream) = 1"
    by (simp add: demo_stream_def broadcast_def subscribe_def startLocked_def newDialStream_def Let_def)
  with dial_stream_invariant [OF demo_reached] show ?thesis
    by (simp add: live_def)
qed

text \<open>When \<open>logread -f\<close> ends by itself the stream still counts as running: as long as somebody stays, nobody
  gets another line, and a new subscriber does not start a new source.\<close>

theorem dead_source_starves:
  assumes "dreach False s" and "ds_running s" and "ds_sources s = []"
    and "rtranclp (\<lambda>a b. dstep False a b \<and> ds_subs b \<noteq> Map.empty) s t"
  shows "ds_seq t = ds_seq s \<and> ds_ring t = ds_ring s \<and> ds_sources t = []"
proof -
  have stuck: "ds_seq b = ds_seq a \<and> ds_ring b = ds_ring a \<and> ds_sources b = [] \<and> ds_running b"
    if "dstep False a b" "ds_subs b \<noteq> Map.empty" "ds_sources a = []" "ds_running a" for a b
    using that(1)
  proof cases
    case (Subscribe started i snap)
    with that show ?thesis using subscribe_add [OF Subscribe(1)] by (simp add: add_sub_def)
  next
    case (Unsubscribe i)
    with that show ?thesis by (auto simp: unsubscribe_drop drop_sub_def split: if_splits)
  qed (use that in auto)
  have "ds_seq t = ds_seq s \<and> ds_ring t = ds_ring s \<and> ds_sources t = [] \<and> ds_running t"
    using assms(4)
  proof (induction rule: rtranclp_induct)
    case (step a b)
    with stuck [of a b] show ?case by simp
  qed (use assms in simp)
  then show ?thesis by simp
qed

text \<open>One subscriber, whose source ends; then a second one comes.\<close>

theorem dead_source_starves_witness:
  "\<exists>s i snap t. dreach False s \<and> ds_running s \<and> subscribe False True s = (i, snap, t) \<and> i = 1 \<and>
     dom (ds_subs t) = {0, 1} \<and> ds_sources t = []"
proof -
  let ?a = "snd (snd (subscribe False True newDialStream))"
  let ?s = "?a\<lparr>ds_sources := []\<rparr>"
  let ?t = "snd (snd (subscribe False True ?s))"
  have "dstep False newDialStream ?a"
    by (rule dstep.Subscribe [of False True newDialStream 0 "[]"]) (simp add: subscribe_def Let_def newDialStream_def)
  then have "dreach False ?a" by (rule dreach.step [OF dreach.start])
  moreover have "dstep False ?a (?a\<lparr>ds_sources := [] @ []\<rparr>)"
    by (rule dstep.Eof) (simp_all add: subscribe_def startLocked_def newDialStream_def Let_def)
  ultimately have reach: "dreach False ?s" by (auto intro: dreach.step)
  have sub: "subscribe False True ?s = (1, [], ?t)"
    by (simp add: subscribe_def startLocked_def newDialStream_def Let_def)
  have dom: "dom (ds_subs ?t) = {0, 1}"
    by (auto simp: subscribe_def startLocked_def newDialStream_def Let_def)
  then have listens: "ds_subs ?t \<noteq> Map.empty" by (metis dom_eq_empty_conv insert_not_empty)
  have run: "ds_running ?s" by (simp add: subscribe_def startLocked_def newDialStream_def Let_def)
  have "dstep False ?s ?t" using sub by (rule dstep.Subscribe)
  with listens have "ds_sources ?t = []"
    using dead_source_starves [OF reach run, of ?t] by auto
  with reach run sub dom show ?thesis by blast
qed

end
