(* ===== verification/Speedtest.thy ===== *)
theory Speedtest
  imports Complex_Main LogCenter Pkgmgr "HOL-Library.Product_Lexorder"
begin

text \<open>
  internal/speedtest: measuring the line with the program \<open>speedtest-go\<close>. One job at a time is current; every start takes
  a new generation, and a job writes the shared status only while its generation is the current one, so that a job
  that hangs can be superseded. A job is a sequence of stages: each reads or changes the status in one critical
  section, or runs one command. Finished runs go to a history file.

  The machine is the \<open>sys\<close> of the uci backend. Parameters (\<open>spenv\<close>): \<open>strconv.ParseFloat\<close> (its value and whether there
  was no error), what \<open>json.Unmarshal\<close> makes of a result, the download of a binary, and case mapping outside ASCII.
  A float64 is the rational it denotes; infinities, NaN and the rounding of a division are left out. Messages that only
  describe progress and errors are glosses.
\<close>

section \<open>Data\<close>

record Server =
  se_ID :: string
  se_Name :: string
  se_Sponsor :: string
  se_DistanceKm :: rat
  se_PingMs :: rat
  se_Reachable :: bool
  se_Recommended :: bool

record NodeResult =
  no_ID :: string
  no_Name :: string
  no_Sponsor :: string
  no_DistanceKm :: rat
  no_Status :: string
  no_DownloadMbps :: rat
  no_UploadMbps :: rat
  no_PingMs :: rat
  no_JitterMs :: rat
  no_Error :: "err option"

record SpeedStatus =
  ss_Phase :: string
  ss_Running :: bool
  ss_Message :: string
  ss_Nodes :: "NodeResult list"
  ss_ISP :: string
  ss_StartedAt :: string
  ss_FinishedAt :: string
  ss_Error :: "err option"

definition status_zero :: SpeedStatus where
  "status_zero = \<lparr>ss_Phase = [], ss_Running = False, ss_Message = [], ss_Nodes = [], ss_ISP = [], ss_StartedAt = [],
     ss_FinishedAt = [], ss_Error = None\<rparr>"

record HistoryEntry =
  he_Time :: string
  he_BestNode :: string
  he_BestDownloadMbps :: rat
  he_BestUploadMbps :: rat
  he_MinPingMs :: rat
  he_Nodes :: "NodeResult list"

text \<open>One element of \<open>servers\<close> in the JSON of a measurement.\<close>

record RawNode =
  rn_ID :: string
  rn_Name :: string
  rn_Sponsor :: string
  rn_Distance :: rat
  rn_Latency :: int
  rn_Jitter :: int
  rn_DLSpeed :: rat
  rn_ULSpeed :: rat

record 'w spenv =
  pe_lib :: lib
  pe_low :: "string \<Rightarrow> string"
  pe_float :: "string \<Rightarrow> rat \<times> bool"
  pe_json :: "string \<Rightarrow> RawNode list option"
  pe_linux :: bool
  pe_download :: "string \<Rightarrow> string \<Rightarrow> 'w \<Rightarrow> err option \<times> 'w"
  pe_sys :: "'w sys"

section \<open>parse.go\<close>

definition blank1 :: regex where
  "blank1 = Many re_space 1 None"

definition not_nl :: "char \<Rightarrow> bool" where
  "not_nl c \<longleftrightarrow> c \<noteq> byte 10"

definition reServerLine :: regex where
  "reServerLine = Seqs [Bol, Lit ''['', Many re_space 0 None, Grp 1 (Many is_digit 1 None), Lit '']'', blank1,
     Grp 2 (Many (\<lambda>c. is_digit c \<or> c = CHR ''.'') 1 None), Lit ''km'', blank1, Grp 3 (Many (\<lambda>c. \<not> re_space c) 1 None),
     blank1, Grp 4 (Few not_nl), blank1, Lit ''by'', blank1, Grp 5 (Few not_nl), Eol]"

text \<open>\<open>(?i)\<close> lets the letter s match the long s, U+017F.\<close>

definition reISP :: regex where
  "reISP = Seqs [WordB, LitI ''i'', Alt (LitI ''s'') (Lit [byte 197, byte 191]), LitI ''p:'',
     Many (\<lambda>c. c \<noteq> CHR ''('') 0 None, Lit ''('', Grp 1 (Many (\<lambda>c. c \<noteq> CHR '')'') 1 None), Lit '')'']"

definition parse_server :: "(string \<Rightarrow> rat \<times> bool) \<Rightarrow> string \<Rightarrow> Server option" where
  "parse_server fl line = (case FindSubmatch reServerLine (go_TrimSpace line) of
     None \<Rightarrow> None
   | Some m \<Rightarrow>
       (let ping = fl (take (length (group 3 m) - 2) (group 3 m)); ok = go_HasSuffix (group 3 m) ''ms'' \<and> snd ping in
        Some \<lparr>se_ID = group 1 m, se_Name = go_TrimSpace (group 4 m), se_Sponsor = go_TrimSpace (group 5 m),
          se_DistanceKm = fst (fl (group 2 m)), se_PingMs = (if ok then fst ping else - 1), se_Reachable = ok,
          se_Recommended = False\<rparr>))"

definition parseServerList :: "(string \<Rightarrow> rat \<times> bool) \<Rightarrow> string \<Rightarrow> Server list" where
  "parseServerList fl out = List.map_filter (parse_server fl) (go_Split out (byte 10))"

definition parseISP :: "string \<Rightarrow> string" where
  "parseISP out = (case FindSubmatch reISP out of Some m \<Rightarrow> go_TrimSpace (group 1 m) | None \<Rightarrow> [])"

text \<open>The conversion to an integer cuts off towards 0.\<close>

definition round2 :: "rat \<Rightarrow> rat" where
  "round2 v = (let x = v * 100 + 1 / 2 in of_int (if x \<ge> 0 then \<lfloor>x\<rfloor> else \<lceil>x\<rceil>) / 100)"

definition parseNodeJSON :: "(string \<Rightarrow> RawNode list option) \<Rightarrow> string \<Rightarrow> NodeResult option" where
  "parseNodeJSON js out = (case js (go_TrimSpace out) of
     None \<Rightarrow> None
   | Some [] \<Rightarrow> None
   | Some (sv # _) \<Rightarrow> Some \<lparr>no_ID = rn_ID sv, no_Name = rn_Name sv, no_Sponsor = rn_Sponsor sv,
       no_DistanceKm = rn_Distance sv, no_Status = [], no_DownloadMbps = round2 (rn_DLSpeed sv / 1000000),
       no_UploadMbps = round2 (rn_ULSpeed sv / 1000000), no_PingMs = round2 (of_int (rn_Latency sv) / 1000000),
       no_JitterMs = round2 (of_int (rn_Jitter sv) / 1000000), no_Error = None\<rparr>)"

definition countryOf :: "string \<Rightarrow> string" where
  "countryOf name = (case (last_index name CHR ''('', last_index name CHR '')'') of
     (Some l, Some r) \<Rightarrow> if r > l then go_TrimSpace (take (r - l - 1) (drop (Suc l) name)) else []
   | _ \<Rightarrow> [])"

definition ispBucket :: "(string \<Rightarrow> string) \<Rightarrow> string \<Rightarrow> string" where
  "ispBucket low sponsor = (let s = go_ToLower low sponsor in
     if go_Contains s ''unicom'' \<or> go_Contains sponsor (utf8 [32852, 36890]) then ''unicom''
     else if go_Contains s ''telecom'' \<or> go_Contains sponsor (utf8 [30005, 20449]) then ''telecom''
     else if go_Contains s ''mobile'' \<or> go_Contains s ''cmcc'' \<or> go_Contains sponsor (utf8 [31227, 21160]) then ''mobile''
     else ''other:'' @ s)"

text \<open>\<open>pickRecommended\<close>: the indices it picks, by operator first, then by country and ping; then the marks.\<close>

definition reachable_by_distance :: "Server list \<Rightarrow> nat list" where
  "reachable_by_distance ss =
     sort_key (\<lambda>i. se_DistanceKm (ss ! i)) (filter (\<lambda>i. se_Reachable (ss ! i)) [0..<length ss])"

definition pick_operator :: "(string \<Rightarrow> string) \<Rightarrow> nat \<Rightarrow> Server list \<Rightarrow> string \<Rightarrow> nat list \<Rightarrow> nat list" where
  "pick_operator low n ss bucket used =
     (if length used \<ge> n then used
      else (case find (\<lambda>i. i \<notin> set used \<and> ispBucket low (se_Sponsor (ss ! i)) = bucket) (reachable_by_distance ss) of
          Some i \<Rightarrow> used @ [i] | None \<Rightarrow> used))"

definition pick_rest :: "nat \<Rightarrow> Server list \<Rightarrow> nat list \<Rightarrow> nat list" where
  "pick_rest n ss used =
     (let home = (case reachable_by_distance ss of [] \<Rightarrow> [] | i # _ \<Rightarrow> countryOf (se_Name (ss ! i)));
          abroad = (\<lambda>i. \<not> (home \<noteq> [] \<and> countryOf (se_Name (ss ! i)) = home));
          rem = filter (\<lambda>i. se_Reachable (ss ! i) \<and> i \<notin> set used) [0..<length ss]
      in used @ take (n - length used) (sort_key (\<lambda>i. (abroad i, se_PingMs (ss ! i))) rem))"

definition picked :: "(string \<Rightarrow> string) \<Rightarrow> nat \<Rightarrow> Server list \<Rightarrow> nat list" where
  "picked low n ss = pick_rest n ss (fold (pick_operator low n ss) [''unicom'', ''telecom'', ''mobile''] [])"

definition pickRecommended :: "(string \<Rightarrow> string) \<Rightarrow> nat \<Rightarrow> Server list \<Rightarrow> Server list" where
  "pickRecommended low n ss = map (\<lambda>i. (ss ! i)\<lparr>se_Recommended := i \<in> set (picked low n ss)\<rparr>) [0..<length ss]"

section \<open>binfetch.go\<close>

definition assetArch :: "(string \<Rightarrow> string) \<Rightarrow> string \<Rightarrow> string" where
  "assetArch low unameM = (let a = go_ToLower low (go_TrimSpace unameM) in
     if a \<in> {''aarch64'', ''arm64'', ''armv8l''} then ''arm64''
     else if a \<in> {''x86_64'', ''amd64''} then ''x86_64''
     else if a \<in> {''i386'', ''i486'', ''i586'', ''i686'', ''x86''} then ''i386''
     else if a \<in> {''armv7l'', ''armv7''} then ''armv7''
     else if a \<in> {''armv6l'', ''armv6''} then ''armv6''
     else if a \<in> {''armv5l'', ''armv5tel'', ''armv5''} then ''armv5''
     else if a = ''mips'' then ''mips_softfloat''
     else if a \<in> {''mipsel'', ''mipsle''} then ''mipsle_softfloat''
     else if a = ''mips64'' then ''mips64_hardfloat''
     else if a \<in> {''mips64el'', ''mips64le''} then ''mips64le_hardfloat''
     else if a = ''riscv64'' then ''riscv64''
     else if a \<in> {''loongarch64'', ''loong64''} then ''loong64''
     else [])"

definition binInstallPath :: string where
  "binInstallPath = ''/usr/bin/speedtest-go''"

definition binMirrors :: "string list" where
  "binMirrors = [[], ''https://gh-proxy.com/'', ''https://ghfast.top/'']"

text \<open>\<open>downloadBinaryTo\<close> is the parameter \<open>pe_download\<close>.\<close>

fun try_downloads :: "'w spenv \<Rightarrow> string \<Rightarrow> string list \<Rightarrow> 'w \<Rightarrow> err option \<times> 'w" where
  "try_downloads V url [] w = (Some (Err ''no mirror could be reached''), w)"
| "try_downloads V url (m # ms) w = (case pe_download V (m @ url) binInstallPath w of
     (None, w') \<Rightarrow> (None, snd (sy_run (pe_sys V) [] [binInstallPath, ''--version''] w'))
   | (Some _, w') \<Rightarrow> try_downloads V url ms w')"

definition installBinary :: "'w spenv \<Rightarrow> 'w \<Rightarrow> err option \<times> 'w" where
  "installBinary V w = (case sy_run (pe_sys V) [] [''uname'', ''-m''] w of ((out, _), w') \<Rightarrow>
     (let arch = assetArch (pe_low V) out;
          asset = ''speedtest-go_1.8.3_Linux_'' @ arch @ ''.tar.gz'';
          url = ''https://github.com/showwin/speedtest-go/releases/download/v1.8.3/'' @ asset
      in if arch = [] then (Some (ErrFmt ''no binary for this architecture'' [go_TrimSpace out]), w')
         else try_downloads V url binMirrors w'))"

section \<open>Commands\<close>

definition speed_installed :: "'w spenv \<Rightarrow> 'w \<Rightarrow> bool \<times> 'w" where
  "speed_installed V w = (case sy_run (pe_sys V) [] [''sh'', ''-c'', ''command -v speedtest-go''] w of
     ((_, e), w') \<Rightarrow> (e = None, w'))"

definition speed_Install :: "'w spenv \<Rightarrow> 'w \<Rightarrow> err option \<times> 'w" where
  "speed_Install V w = (case Install (pe_lib V) (pe_sys V) ''speedtest-go'' w of
     (Inr _, w') \<Rightarrow> (None, w')
   | (Inl e, w') \<Rightarrow>
       if \<not> pe_linux V then (Some e, w')
       else (case installBinary V w' of
           (None, w'') \<Rightarrow> (None, w'')
         | (Some _, w'') \<Rightarrow> (Some (Err ''the package manager and the direct installation failed''), w'')))"

definition listServers :: "'w spenv \<Rightarrow> 'w \<Rightarrow> (err + Server list \<times> string) \<times> 'w" where
  "listServers V w = (case sy_run (pe_sys V) [] [''sh'', ''-c'', ''speedtest-go --list 2>&1''] w of
     ((out, e), w') \<Rightarrow>
       (let servers = parseServerList (pe_float V) out in
        if e \<noteq> None \<and> go_TrimSpace out = [] then (Inl (ErrIO (the e)), w')
        else if servers = [] then (Inl (Err ''no server found''), w')
        else (Inr (servers, parseISP out), w')))"

definition defaultPick :: nat where "defaultPick = 3"
definition maxNodes :: nat where "maxNodes = 8"

definition Servers :: "'w spenv \<Rightarrow> 'w \<Rightarrow> (err + Server list \<times> string) \<times> 'w" where
  "Servers V w = (case speed_installed V w of
     (False, w') \<Rightarrow> (Inl (Err ''speedtest-go is not installed''), w')
   | (True, w') \<Rightarrow> (case listServers V w' of
       (Inl e, w'') \<Rightarrow> (Inl e, w'')
     | (Inr (servers, isp), w'') \<Rightarrow> (Inr (pickRecommended (pe_low V) defaultPick servers, isp), w'')))"

section \<open>The service\<close>

text \<open>
  \<open>sp_hist\<close> is what the history file decodes to. \<open>sp_io\<close> gives the outcome of each write to come: a write that fails
  leaves the old file, or one that is empty or cut off, which decodes to nothing.
\<close>

datatype outcome = Written | Kept | Lost

record speed =
  sp_st :: SpeedStatus
  sp_gen :: nat
  sp_startedAt :: int
  sp_loc :: int
  sp_hist :: "HistoryEntry list"
  sp_io :: "nat \<Rightarrow> outcome"

definition newSpeed :: "int \<Rightarrow> HistoryEntry list \<Rightarrow> (nat \<Rightarrow> outcome) \<Rightarrow> speed" where
  "newSpeed loc hist io = \<lparr>sp_st = status_zero\<lparr>ss_Phase := ''idle''\<rparr>, sp_gen = 0, sp_startedAt = 0, sp_loc = loc,
     sp_hist = hist, sp_io = io\<rparr>"

definition speed_now :: "speed \<Rightarrow> int \<Rightarrow> string" where
  "speed_now s now = fmt_stamp (sp_loc s) (now_sec now)"

definition staleGuard :: "nat \<Rightarrow> int" where
  "staleGuard n = max (int (max n defaultPick) * 90 * 1000000000) (5 * 60 * 1000000000)"

text \<open>A job between two of its critical sections or commands.\<close>

datatype stage =
    Probe "string list"
  | ToInstall "string list"
  | RunInstall "string list"
  | ToList "string list"
  | RunList "string list"
  | SetNodes "NodeResult list" string
  | Mark nat "NodeResult list"
  | Tell nat "NodeResult list"
  | Measure nat "NodeResult list"
  | Judge nat "NodeResult list" string "string option"
  | Finish
  | Append "NodeResult list"
  | Failed err
  | Setup
  | SetupDone "err option"

definition Run :: "string list \<Rightarrow> int \<Rightarrow> speed \<Rightarrow> err + (nat \<times> stage) \<times> speed" where
  "Run serverIDs now s =
     (if ss_Running (sp_st s) \<and> now - sp_startedAt s < staleGuard (length serverIDs)
      then Inl (Err ''a measurement is running'')
      else (let g = Suc (sp_gen s); ids = (if length serverIDs > maxNodes then take maxNodes serverIDs else serverIDs) in
        Inr ((g, Probe ids), s\<lparr>sp_gen := g, sp_startedAt := now,
          sp_st := status_zero\<lparr>ss_Phase := ''starting'', ss_Running := True, ss_Message := ''starting'',
            ss_StartedAt := speed_now s now\<rparr>\<rparr>)))"

definition StartInstall :: "int \<Rightarrow> speed \<Rightarrow> err + (nat \<times> stage) \<times> speed" where
  "StartInstall now s =
     (if ss_Running (sp_st s) \<and> now - sp_startedAt s < staleGuard 0
      then Inl (Err ''a task is running'')
      else (let g = Suc (sp_gen s) in
        Inr ((g, Setup), s\<lparr>sp_gen := g, sp_startedAt := now,
          sp_st := status_zero\<lparr>ss_Phase := ''installing'', ss_Running := True, ss_Message := ''installing'',
            ss_StartedAt := speed_now s now\<rparr>\<rparr>)))"

definition withGen :: "nat \<Rightarrow> (SpeedStatus \<Rightarrow> SpeedStatus) \<Rightarrow> speed \<Rightarrow> bool \<times> speed" where
  "withGen g f s = (if sp_gen s \<noteq> g then (False, s) else (True, s\<lparr>sp_st := f (sp_st s)\<rparr>))"

definition setPhase :: "nat \<Rightarrow> string \<Rightarrow> string \<Rightarrow> speed \<Rightarrow> bool \<times> speed" where
  "setPhase g phase msg = withGen g (\<lambda>st. st\<lparr>ss_Phase := phase, ss_Message := msg\<rparr>)"

definition updateNode :: "nat \<Rightarrow> nat \<Rightarrow> (NodeResult \<Rightarrow> NodeResult) \<Rightarrow> speed \<Rightarrow> bool \<times> speed" where
  "updateNode g i f = withGen g (\<lambda>st.
     if i < length (ss_Nodes st) then st\<lparr>ss_Nodes := (ss_Nodes st)[i := f (ss_Nodes st ! i)]\<rparr> else st)"

definition fail_job :: "nat \<Rightarrow> err \<Rightarrow> int \<Rightarrow> speed \<Rightarrow> speed" where
  "fail_job g e now s = snd (withGen g (\<lambda>st. st\<lparr>ss_Running := False, ss_Phase := ''error'', ss_Error := Some e,
     ss_Message := ''failed'', ss_FinishedAt := speed_now s now\<rparr>) s)"

definition nodeLabel :: "NodeResult \<Rightarrow> string" where
  "nodeLabel n = (if no_Sponsor n \<noteq> [] then no_Name n @ '' '' @ utf8 [183] @ '' '' @ no_Sponsor n else no_Name n)"

text \<open>The node of an id: the last server with it, or an empty one.\<close>

definition node_of :: "Server list \<Rightarrow> string \<Rightarrow> NodeResult" where
  "node_of servers i =
     (let base = \<lparr>no_ID = i, no_Name = [], no_Sponsor = [], no_DistanceKm = 0, no_Status = ''pending'',
        no_DownloadMbps = 0, no_UploadMbps = 0, no_PingMs = 0, no_JitterMs = 0, no_Error = None\<rparr>
      in case find (\<lambda>sv. se_ID sv = i) (rev servers) of
           None \<Rightarrow> base
         | Some sv \<Rightarrow> base\<lparr>no_Name := se_Name sv, no_Sponsor := se_Sponsor sv, no_DistanceKm := se_DistanceKm sv\<rparr>)"

definition measure_script :: "string \<Rightarrow> string" where
  "measure_script i = ''speedtest-go --server '' @ i @ '' --json 2>/dev/null''"

definition judged :: "(string \<Rightarrow> RawNode list option) \<Rightarrow> string \<Rightarrow> string option \<Rightarrow> NodeResult \<Rightarrow> NodeResult" where
  "judged js out runErr n =
     (let bad = n\<lparr>no_Status := ''failed'', no_Error := Some (case runErr of
            Some e \<Rightarrow> if go_TrimSpace out = [] then ErrIO e else Err ''the server cannot be reached or is limited''
          | None \<Rightarrow> Err ''the server cannot be reached or is limited'')\<rparr>
      in case parseNodeJSON js out of
           None \<Rightarrow> bad
         | Some nr \<Rightarrow>
             if no_DownloadMbps nr = 0 \<and> no_UploadMbps nr = 0 then bad
             else n\<lparr>no_Status := ''done'', no_DownloadMbps := no_DownloadMbps nr, no_UploadMbps := no_UploadMbps nr,
               no_PingMs := no_PingMs nr, no_JitterMs := no_JitterMs nr\<rparr>)"

section \<open>history.go\<close>

definition maxHistory :: nat where "maxHistory = 50"

definition best_of :: "NodeResult \<Rightarrow> HistoryEntry \<Rightarrow> HistoryEntry" where
  "best_of n e =
     (if no_Status n \<noteq> ''done'' then e
      else (let
          e = (if no_DownloadMbps n > he_BestDownloadMbps e
            then e\<lparr>he_BestDownloadMbps := no_DownloadMbps n, he_BestNode := nodeLabel n\<rparr> else e);
          e = (if no_UploadMbps n > he_BestUploadMbps e then e\<lparr>he_BestUploadMbps := no_UploadMbps n\<rparr> else e)
        in if no_PingMs n > 0 \<and> (he_MinPingMs e = 0 \<or> no_PingMs n < he_MinPingMs e)
           then e\<lparr>he_MinPingMs := no_PingMs n\<rparr> else e))"

definition history_entry :: "string \<Rightarrow> NodeResult list \<Rightarrow> HistoryEntry" where
  "history_entry time nodes = fold best_of nodes \<lparr>he_Time = time, he_BestNode = [], he_BestDownloadMbps = 0,
     he_BestUploadMbps = 0, he_MinPingMs = 0, he_Nodes = nodes\<rparr>"

definition appendHistory :: "int \<Rightarrow> NodeResult list \<Rightarrow> speed \<Rightarrow> speed" where
  "appendHistory now nodes s =
     (if \<not> list_ex (\<lambda>n. no_Status n = ''done'') nodes then s
      else (let hist = take maxHistory (history_entry (speed_now s now) nodes # sp_hist s);
                s' = s\<lparr>sp_io := (\<lambda>n. sp_io s (Suc n))\<rparr>
        in case sp_io s 0 of Written \<Rightarrow> s'\<lparr>sp_hist := hist\<rparr> | Kept \<Rightarrow> s' | Lost \<Rightarrow> s'\<lparr>sp_hist := []\<rparr>))"

definition ClearHistory :: "speed \<Rightarrow> speed" where
  "ClearHistory s = s\<lparr>sp_hist := []\<rparr>"

section \<open>Jobs\<close>

text \<open>What a job does next; \<open>None\<close> when it returns.\<close>

fun stage_step :: "'w spenv \<Rightarrow> int \<Rightarrow> nat \<Rightarrow> stage \<Rightarrow> speed \<times> 'w \<Rightarrow> stage option \<times> speed \<times> 'w" where
  "stage_step V now g (Probe ids) (s, w) = (case speed_installed V w of
     (ok, w') \<Rightarrow> (Some (if ok then ToList ids else ToInstall ids), s, w'))"
| "stage_step V now g (ToInstall ids) (s, w) = (case setPhase g ''installing'' ''installing'' s of
     (ok, s') \<Rightarrow> (if ok then Some (RunInstall ids) else None, s', w))"
| "stage_step V now g (RunInstall ids) (s, w) = (case speed_Install V w of
     (None, w') \<Rightarrow> (Some (ToList ids), s, w') | (Some e, w') \<Rightarrow> (Some (Failed e), s, w'))"
| "stage_step V now g (ToList ids) (s, w) = (case setPhase g ''listing'' ''listing'' s of
     (ok, s') \<Rightarrow> (if ok then Some (RunList ids) else None, s', w))"
| "stage_step V now g (RunList ids) (s, w) = (case listServers V w of
     (Inl e, w') \<Rightarrow> (Some (Failed e), s, w')
   | (Inr (servers, isp), w') \<Rightarrow>
       (let ids = (if ids \<noteq> [] then ids
          else map se_ID (filter se_Recommended (pickRecommended (pe_low V) defaultPick servers)))
        in (Some (if ids = [] then Failed (Err ''no server to measure'') else SetNodes (map (node_of servers) ids) isp), s, w')))"
| "stage_step V now g (SetNodes nodes isp) (s, w) =
     (case withGen g (\<lambda>st. st\<lparr>ss_ISP := isp, ss_Nodes := nodes\<rparr>) s of
       (ok, s') \<Rightarrow> (if ok then Some (Mark 0 nodes) else None, s', w))"
| "stage_step V now g (Mark i nodes) (s, w) =
     (if i \<ge> length nodes then (Some Finish, s, w)
      else (case updateNode g i (\<lambda>n. n\<lparr>no_Status := ''testing''\<rparr>) s of
          (ok, s') \<Rightarrow> (if ok then Some (Tell i nodes) else None, s', w)))"
| "stage_step V now g (Tell i nodes) (s, w) =
     (Some (Measure i nodes), snd (setPhase g ''testing'' (nodeLabel (nodes ! i)) s), w)"
| "stage_step V now g (Measure i nodes) (s, w) =
     (case sy_run (pe_sys V) [] [''sh'', ''-c'', measure_script (no_ID (nodes ! i))] w of
       ((out, e), w') \<Rightarrow> (Some (Judge i nodes out e), s, w'))"
| "stage_step V now g (Judge i nodes out e) (s, w) = (case updateNode g i (judged (pe_json V) out e) s of
     (ok, s') \<Rightarrow> (if ok then Some (Mark (Suc i) nodes) else None, s', w))"
| "stage_step V now g Finish (s, w) =
     (case withGen g (\<lambda>st. st\<lparr>ss_Running := False, ss_Phase := ''done'', ss_Message := ''done'',
        ss_FinishedAt := speed_now s now\<rparr>) s of
       (ok, s') \<Rightarrow> (if ok then Some (Append (ss_Nodes (sp_st s'))) else None, s', w))"
| "stage_step V now g (Append nodes) (s, w) = (None, appendHistory now nodes s, w)"
| "stage_step V now g (Failed e) (s, w) = (None, fail_job g e now s, w)"
| "stage_step V now g Setup (s, w) = (case speed_Install V w of (r, w') \<Rightarrow> (Some (SetupDone r), s, w'))"
| "stage_step V now g (SetupDone r) (s, w) =
     (None, snd (withGen g (\<lambda>st. let st = st\<lparr>ss_Running := False, ss_FinishedAt := speed_now s now\<rparr> in
        case r of
          Some e \<Rightarrow> st\<lparr>ss_Phase := ''error'', ss_Message := ''installation failed'', ss_Error := Some e\<rparr>
        | None \<Rightarrow> st\<lparr>ss_Phase := ''done'', ss_Message := ''installed''\<rparr>) s), w)"

text \<open>The daemon: the service, its goroutines with their generations, and the machine.\<close>

type_synonym 'w jobs = "(nat \<times> stage) list \<times> speed \<times> 'w"

inductive sstep :: "'w spenv \<Rightarrow> 'w jobs \<Rightarrow> 'w jobs \<Rightarrow> bool" for V :: "'w spenv" where
  start: "Run ids now s = Inr (j, s') \<Longrightarrow> sstep V (js, s, w) (js @ [j], s', w)"
| installs: "StartInstall now s = Inr (j, s') \<Longrightarrow> sstep V (js, s, w) (js @ [j], s', w)"
| go_on: "stage_step V now g st (s, w) = (Some st', s', w') \<Longrightarrow>
    sstep V (xs @ (g, st) # ys, s, w) (xs @ (g, st') # ys, s', w')"
| return: "stage_step V now g st (s, w) = (None, s', w') \<Longrightarrow> sstep V (xs @ (g, st) # ys, s, w) (xs @ ys, s', w')"
| clear: "sstep V (js, s, w) (js, ClearHistory s, w)"
| machine: "sstep V (js, s, w) (js, s, w')"

inductive sreach :: "'w spenv \<Rightarrow> 'w jobs \<Rightarrow> bool" for V :: "'w spenv" where
  init: "sreach V ([], newSpeed loc [] io, w)"
| step: "sreach V a \<Longrightarrow> sstep V a b \<Longrightarrow> sreach V b"

end
