(* ===== verification/SpeedtestProps.thy ===== *)
theory SpeedtestProps
  imports Speedtest
begin

text \<open>
  Properties of the speed test: the servers it picks, the generations of its jobs, their end, and the command that a
  server id reaches.
\<close>

section \<open>Recommended servers\<close>

definition reachables :: "Server list \<Rightarrow> nat set" where
  "reachables ss = {i. i < length ss \<and> se_Reachable (ss ! i)}"

lemma set_by_distance [simp]: "set (reachable_by_distance ss) = reachables ss"
  by (auto simp: reachable_by_distance_def reachables_def)

lemma sorted_by_distance: "sorted (map (\<lambda>i. se_DistanceKm (ss ! i)) (reachable_by_distance ss))"
  by (simp add: reachable_by_distance_def)

lemma find_sorted_least:
  assumes "find P xs = Some x" and "sorted (map f xs)" and "y \<in> set xs" and "P y"
  shows "f x \<le> f y"
proof -
  obtain i where i: "i < length xs" "P (xs ! i)" "x = xs ! i" "\<forall>j<i. \<not> P (xs ! j)"
    using assms(1) by (auto simp: find_Some_iff)
  obtain j where j: "j < length xs" "xs ! j = y" using assms(3) by (auto simp: in_set_conv_nth)
  with i(4) assms(4) have "i \<le> j" by (metis not_le)
  then have "map f xs ! i \<le> map f xs ! j"
    using assms(2) j(1) by (intro sorted_nth_mono) auto
  with i j show ?thesis by simp
qed

text \<open>The operators that have been tried so far.\<close>

definition nearest :: "(string \<Rightarrow> string) \<Rightarrow> Server list \<Rightarrow> string \<Rightarrow> nat \<Rightarrow> bool" where
  "nearest low ss b i \<longleftrightarrow> i \<in> reachables ss \<and> ispBucket low (se_Sponsor (ss ! i)) = b \<and>
     (\<forall>j \<in> reachables ss. ispBucket low (se_Sponsor (ss ! j)) = b \<longrightarrow> se_DistanceKm (ss ! i) \<le> se_DistanceKm (ss ! j))"

definition operators_ok :: "(string \<Rightarrow> string) \<Rightarrow> Server list \<Rightarrow> string set \<Rightarrow> nat list \<Rightarrow> bool" where
  "operators_ok low ss done used \<longleftrightarrow> distinct used \<and> set used \<subseteq> reachables ss \<and> length used \<le> card done \<and>
     (\<forall>i \<in> set used. ispBucket low (se_Sponsor (ss ! i)) \<in> done \<and> nearest low ss (ispBucket low (se_Sponsor (ss ! i))) i) \<and>
     (\<forall>b \<in> done. \<forall>j \<in> reachables ss. ispBucket low (se_Sponsor (ss ! j)) = b \<longrightarrow> (\<exists>i \<in> set used. nearest low ss b i))"

lemma pick_operator_step:
  assumes "operators_ok low ss done used" and "b \<notin> done" and "finite done" and "card done < n"
  shows "operators_ok low ss (insert b done) (pick_operator low n ss b used)"
proof -
  let ?P = "\<lambda>i. i \<notin> set used \<and> ispBucket low (se_Sponsor (ss ! i)) = b"
  have room: "\<not> length used \<ge> n" using assms by (simp add: operators_ok_def)
  have new: "i \<notin> set used" if "ispBucket low (se_Sponsor (ss ! i)) = b" for i
    using assms(1,2) that by (auto simp: operators_ok_def)
  show ?thesis
  proof (cases "find ?P (reachable_by_distance ss)")
    case None
    then have "\<not> (\<exists>j \<in> reachables ss. ispBucket low (se_Sponsor (ss ! j)) = b)"
      using new by (auto simp: find_None_iff)
    with None room assms show ?thesis
      by (auto simp: operators_ok_def pick_operator_def)
  next
    case (Some i)
    have i: "i \<in> reachables ss" "ispBucket low (se_Sponsor (ss ! i)) = b" "i \<notin> set used"
      using find_SomeD [OF Some] by auto
    have "nearest low ss b i"
      using i find_sorted_least [OF Some sorted_by_distance] new by (auto simp: nearest_def)
    with i Some room assms show ?thesis
      by (auto simp: operators_ok_def pick_operator_def)
  qed
qed

lemma operators_ok_three:
  assumes "3 \<le> n"
  shows "operators_ok low ss {''unicom'', ''telecom'', ''mobile''}
    (fold (pick_operator low n ss) [''unicom'', ''telecom'', ''mobile''] [])"
proof -
  have "operators_ok low ss {} []" by (simp add: operators_ok_def)
  from pick_operator_step [OF this, of "''unicom''" n]
  have "operators_ok low ss {''unicom''} (pick_operator low n ss ''unicom'' [])" using assms by simp
  from pick_operator_step [OF this, of "''telecom''" n]
  have "operators_ok low ss {''telecom'', ''unicom''}
      (pick_operator low n ss ''telecom'' (pick_operator low n ss ''unicom'' []))" using assms by simp
  from pick_operator_step [OF this, of "''mobile''" n] assms show ?thesis
    by (simp add: insert_commute)
qed

lemma pick_rest_ok:
  assumes "distinct used" and "set used \<subseteq> reachables ss" and "length used \<le> n"
  shows "distinct (pick_rest n ss used)" and "set (pick_rest n ss used) \<subseteq> reachables ss"
    and "set used \<subseteq> set (pick_rest n ss used)" and "length (pick_rest n ss used) = min n (card (reachables ss))"
proof -
  let ?rem = "filter (\<lambda>i. se_Reachable (ss ! i) \<and> i \<notin> set used) [0..<length ss]"
  obtain f :: "nat \<Rightarrow> bool \<times> rat" where
    r: "pick_rest n ss used = used @ take (n - length used) (sort_key f ?rem)"
    by (simp add: pick_rest_def Let_def)
  have rem: "set ?rem = reachables ss - set used" by (auto simp: reachables_def)
  have fin: "finite (reachables ss)" by (simp add: reachables_def)
  have sub: "set (take (n - length used) (sort_key f ?rem)) \<subseteq> reachables ss - set used"
    using set_take_subset [of "n - length used" "sort_key f ?rem"] rem by simp
  show "distinct (pick_rest n ss used)" using sub assms(1) by (auto simp: r distinct_take)
  show "set (pick_rest n ss used) \<subseteq> reachables ss" using sub assms(2) by (auto simp: r)
  show "set used \<subseteq> set (pick_rest n ss used)" by (simp add: r)
  have "length ?rem = card (reachables ss - set used)"
    using rem distinct_card [of ?rem] by simp
  also have "\<dots> = card (reachables ss) - length used"
    using assms(1,2) fin by (simp add: card_Diff_subset distinct_card)
  finally have "length (pick_rest n ss used) = length used + min (n - length used) (card (reachables ss) - length used)"
    by (simp add: r min.commute)
  moreover have "length used \<le> card (reachables ss)"
    using card_mono [OF fin assms(2)] assms(1) by (simp add: distinct_card)
  ultimately show "length (pick_rest n ss used) = min n (card (reachables ss))"
    using assms(3) by linarith
qed

lemma picked_three:
  assumes "3 \<le> n"
  shows "operators_ok low ss {''unicom'', ''telecom'', ''mobile''}
      (fold (pick_operator low n ss) [''unicom'', ''telecom'', ''mobile''] [])"
    and "length (fold (pick_operator low n ss) [''unicom'', ''telecom'', ''mobile''] []) \<le> n"
proof -
  show ops: "operators_ok low ss {''unicom'', ''telecom'', ''mobile''}
      (fold (pick_operator low n ss) [''unicom'', ''telecom'', ''mobile''] [])"
    using assms by (rule operators_ok_three)
  have "card {''unicom'', ''telecom'', ''mobile''} = 3" by simp
  with ops assms show "length (fold (pick_operator low n ss) [''unicom'', ''telecom'', ''mobile''] []) \<le> n"
    unfolding operators_ok_def by linarith
qed

text \<open>C32: The servers that are ticked are reachable, as many as asked for or all there are, and of each of the three
  big operators that has a reachable server the nearest one is among them.\<close>

theorem recommended_servers:
  assumes "3 \<le> n"
  shows "let ticked = {i. i < length ss \<and> se_Recommended (pickRecommended low n ss ! i)} in
    ticked \<subseteq> reachables ss \<and> card ticked = min n (card (reachables ss)) \<and>
    (\<forall>b \<in> {''unicom'', ''telecom'', ''mobile''}. \<forall>j \<in> reachables ss. ispBucket low (se_Sponsor (ss ! j)) = b \<longrightarrow>
       (\<exists>i \<in> ticked. nearest low ss b i))"
proof -
  let ?ops = "fold (pick_operator low n ss) [''unicom'', ''telecom'', ''mobile''] []"
  note ops = picked_three [OF assms, of low ss]
  have used: "distinct ?ops" "set ?ops \<subseteq> reachables ss" using ops(1) by (simp_all add: operators_ok_def)
  note rest = pick_rest_ok [OF used ops(2)]
  have ticked: "{i. i < length ss \<and> se_Recommended (pickRecommended low n ss ! i)} = set (picked low n ss)"
    using rest(2) by (auto simp: pickRecommended_def picked_def reachables_def)
  have "card (set (picked low n ss)) = min n (card (reachables ss))"
    using rest(1,4) by (simp add: picked_def distinct_card)
  moreover have "\<forall>b \<in> {''unicom'', ''telecom'', ''mobile''}. \<forall>j \<in> reachables ss. ispBucket low (se_Sponsor (ss ! j)) = b \<longrightarrow>
       (\<exists>i \<in> set (picked low n ss). nearest low ss b i)"
    using ops(1) rest(3) unfolding operators_ok_def picked_def by blast
  ultimately show ?thesis
    using rest(2) unfolding Let_def ticked by (simp add: picked_def)
qed

theorem recommended_servers_witness:
  "\<exists>ss. reachables ss = {0} \<and> card {i. i < length ss \<and> se_Recommended (pickRecommended id 3 ss ! i)} = 1"
proof -
  define ss where "ss = [\<lparr>se_ID = ''1'', se_Name = ''Beijing (China)'', se_Sponsor = ''BJ Unicom'', se_DistanceKm = 9,
    se_PingMs = 5, se_Reachable = True, se_Recommended = False\<rparr>]"
  have reach: "reachables ss = {0}" by (auto simp: reachables_def ss_def)
  have "card {i. i < length ss \<and> se_Recommended (pickRecommended id 3 ss ! i)} = min 3 (card (reachables ss))"
    using recommended_servers [of 3 ss id] by (simp only: Let_def)
  with reach show ?thesis by auto
qed

section \<open>Generations\<close>

lemma withGen_cases: "withGen g f s = (if sp_gen s = g then (True, s\<lparr>sp_st := f (sp_st s)\<rparr>) else (False, s))"
  by (simp add: withGen_def)

lemmas lock_simps = setPhase_def updateNode_def fail_job_def withGen_cases

lemma stage_mute:
  assumes "g \<noteq> sp_gen s" and "stage_step V now g st (s, w) = (r, s', w')"
  shows "sp_st s' = sp_st s \<and> sp_startedAt s' = sp_startedAt s"
  using assms by (cases st) (auto simp: lock_simps appendHistory_def Let_def
    split: prod.splits if_splits option.splits sum.splits outcome.splits)

lemma stage_gen: "stage_step V now g st (s, w) = (r, s', w') \<Longrightarrow> sp_gen s' = sp_gen s"
  by (cases st) (auto simp: lock_simps appendHistory_def Let_def
    split: prod.splits if_splits option.splits sum.splits outcome.splits)

lemma stage_hist:
  "stage_step V now g st (s, w) = (r, s', w') \<Longrightarrow> (\<And>nodes. st \<noteq> Append nodes) \<Longrightarrow> sp_hist s' = sp_hist s"
  by (cases st) (auto simp: lock_simps Let_def split: prod.splits if_splits option.splits sum.splits)

text \<open>A job whose generation is not the current one any more changes nothing of the status, whatever stage it is
  in; all that can still come of it is the record of a run that it had completed while it was current.\<close>

theorem superseded_job_is_mute:
  assumes "g \<noteq> sp_gen s" and "stage_step V now g st (s, w) = (r, s', w')"
  shows "sp_st s' = sp_st s \<and> sp_gen s' = sp_gen s \<and> sp_startedAt s' = sp_startedAt s \<and>
    (sp_hist s' = sp_hist s \<or> (\<exists>nodes. st = Append nodes))"
  using stage_mute [OF assms] stage_gen [OF assms(2)] stage_hist [OF assms(2)] by blast

theorem superseded_job_is_mute_witness:
  "\<exists>s s'. Run [] 0 (newSpeed 0 [] (\<lambda>_. Written)) = Inr ((1, Probe []), s) \<and>
     Run [] 300000000000 s = Inr ((2, Probe []), s') \<and>
     (\<forall>V w. sp_st (fst (snd (stage_step V 0 1 (Failed (Err ''late'')) (s', w)))) = sp_st s')"
proof -
  define s where "s = snd (projr (Run [] 0 (newSpeed 0 [] (\<lambda>_. Written))))"
  define s' where "s' = snd (projr (Run [] 300000000000 s))"
  have one: "Run [] 0 (newSpeed 0 [] (\<lambda>_. Written)) = Inr ((1, Probe []), s)"
    by (simp add: s_def Run_def newSpeed_def status_zero_def Let_def maxNodes_def)
  have two: "Run [] 300000000000 s = Inr ((2, Probe []), s')"
    by (simp add: s'_def s_def Run_def newSpeed_def status_zero_def staleGuard_def defaultPick_def Let_def maxNodes_def)
  have gen: "(1::nat) \<noteq> sp_gen s'"
    using two by (auto simp: Run_def Let_def split: if_splits)
  have "sp_st (fst (snd (stage_step V 0 1 (Failed (Err ''late'')) (s', w)))) = sp_st s'" for V :: "'a spenv" and w
    using superseded_job_is_mute [OF gen, of V 0 "Failed (Err ''late'')" w] by (metis prod.collapse)
  with one two show ?thesis by blast
qed

section \<open>The current job\<close>

definition completed :: "HistoryEntry \<Rightarrow> bool" where
  "completed e \<longleftrightarrow> list_ex (\<lambda>n. no_Status n = ''done'') (he_Nodes e) \<and>
     he_BestDownloadMbps e = fold max (map no_DownloadMbps (filter (\<lambda>n. no_Status n = ''done'') (he_Nodes e))) 0"

fun pending :: "stage \<Rightarrow> bool" where
  "pending (Append nodes) = False"
| "pending st = True"

definition jobs_ok :: "'w jobs \<Rightarrow> bool" where
  "jobs_ok a = (case a of (js, s, w) \<Rightarrow>
     distinct (map fst js) \<and> (\<forall>j \<in> set js. fst j \<le> sp_gen s) \<and>
     (ss_Running (sp_st s) \<longleftrightarrow> (\<exists>st. (sp_gen s, st) \<in> set js \<and> pending st)) \<and>
     (\<not> ss_Running (sp_st s) \<longrightarrow> ss_Phase (sp_st s) \<in> {''idle'', ''done'', ''error''}) \<and>
     length (sp_hist s) \<le> 50 \<and> list_all completed (sp_hist s))"

lemma fold_best_nodes: "he_Nodes (fold best_of ns e) = he_Nodes e"
  by (induction ns arbitrary: e) (simp_all add: best_of_def Let_def)

lemma best_of_download: "he_BestDownloadMbps (best_of n e) =
    (if no_Status n = ''done'' then max (no_DownloadMbps n) (he_BestDownloadMbps e) else he_BestDownloadMbps e)"
  by (auto simp: best_of_def Let_def max_def)

lemma fold_best_download: "he_BestDownloadMbps (fold best_of ns e) =
    fold max (map no_DownloadMbps (filter (\<lambda>n. no_Status n = ''done'') ns)) (he_BestDownloadMbps e)"
  by (induction ns arbitrary: e) (simp_all add: best_of_download)

lemma appendHistory_ok:
  assumes "length (sp_hist s) \<le> 50" and "list_all completed (sp_hist s)"
  shows "length (sp_hist (appendHistory now nodes s)) \<le> 50 \<and> list_all completed (sp_hist (appendHistory now nodes s))"
proof -
  have "completed (history_entry t nodes)" if "list_ex (\<lambda>n. no_Status n = ''done'') nodes" for t
    using that by (simp add: completed_def history_entry_def fold_best_nodes fold_best_download)
  then have "list_all completed (take maxHistory (history_entry t nodes # sp_hist s))"
    if "list_ex (\<lambda>n. no_Status n = ''done'') nodes" for t
    using that assms(2) by (auto simp: list_all_iff dest!: in_set_takeD)
  with assms show ?thesis
    by (auto simp: appendHistory_def Let_def maxHistory_def split: outcome.split)
qed

lemma appendHistory_frame [simp]:
  "sp_st (appendHistory now nodes s) = sp_st s" "sp_gen (appendHistory now nodes s) = sp_gen s"
  by (auto simp: appendHistory_def Let_def split: outcome.split)

text \<open>The current job: as long as it goes on the service runs, and when it ends the service does not.\<close>

lemma stage_current:
  assumes "stage_step V now g st (s, w) = (r, s', w')" and "g = sp_gen s" and "pending st" and "ss_Running (sp_st s)"
  shows "(case r of Some st' \<Rightarrow> pending st' = ss_Running (sp_st s') | None \<Rightarrow> \<not> ss_Running (sp_st s')) \<and>
    (ss_Running (sp_st s') \<or> ss_Phase (sp_st s') \<in> {''done'', ''error''})"
  using assms
  by (cases st) (auto simp: lock_simps Let_def split: prod.splits if_splits option.splits sum.splits)

lemma stage_go_on_pending: "stage_step V now g st (s, w) = (Some st', s', w') \<Longrightarrow> pending st"
  by (cases st) simp_all

lemma stage_hist_ok:
  assumes "stage_step V now g st (s, w) = (r, s', w')" and "length (sp_hist s) \<le> 50" and "list_all completed (sp_hist s)"
  shows "length (sp_hist s') \<le> 50 \<and> list_all completed (sp_hist s')"
proof (cases "\<exists>nodes. st = Append nodes")
  case True
  then show ?thesis using assms appendHistory_ok by auto
next
  case False
  with stage_hist [OF assms(1)] assms show ?thesis by simp
qed

text \<open>One job of the list goes a stage on; \<open>rest\<close> is what stays of it.\<close>

lemma jobs_ok_job:
  assumes ok: "jobs_ok (xs @ (g, st) # ys, s, w)" and stage: "stage_step V now g st (s, w) = (r, s', w')"
  shows "jobs_ok (xs @ (case r of Some st' \<Rightarrow> [(g, st')] | None \<Rightarrow> []) @ ys, s', w')"
proof -
  let ?js = "xs @ (g, st) # ys" and ?js' = "xs @ (case r of Some st' \<Rightarrow> [(g, st')] | None \<Rightarrow> []) @ ys"
  have js: "distinct (map fst ?js)" "\<forall>j \<in> set ?js. fst j \<le> sp_gen s"
    and run: "ss_Running (sp_st s) \<longleftrightarrow> (\<exists>st. (sp_gen s, st) \<in> set ?js \<and> pending st)"
    and phase: "\<not> ss_Running (sp_st s) \<longrightarrow> ss_Phase (sp_st s) \<in> {''idle'', ''done'', ''error''}"
    using ok by (simp_all add: jobs_ok_def)
  have gen: "sp_gen s' = sp_gen s" using stage by (rule stage_gen)
  have js': "distinct (map fst ?js')" "\<forall>j \<in> set ?js'. fst j \<le> sp_gen s'"
    using js gen by (auto split: option.split)
  have hist: "length (sp_hist s') \<le> 50 \<and> list_all completed (sp_hist s')"
    using stage_hist_ok [OF stage] ok by (simp add: jobs_ok_def)
  show ?thesis
  proof (cases "g = sp_gen s \<and> pending st")
    case True
    then have "ss_Running (sp_st s)" using run by auto
    from stage_current [OF stage _ _ this] True
    have cur: "case r of Some st' \<Rightarrow> pending st' = ss_Running (sp_st s') | None \<Rightarrow> \<not> ss_Running (sp_st s')"
      "ss_Running (sp_st s') \<or> ss_Phase (sp_st s') \<in> {''done'', ''error''}" by auto
    have others: "(sp_gen s, st') \<notin> set xs \<union> set ys" for st'
      using js(1) True by force
    then have "ss_Running (sp_st s') \<longleftrightarrow> (\<exists>st. (sp_gen s', st) \<in> set ?js' \<and> pending st)"
      using cur(1) True gen by (auto split: option.splits)
    with js' hist cur(2) show ?thesis by (auto simp: jobs_ok_def)
  next
    case False
    have same: "sp_st s' = sp_st s"
    proof (cases "g = sp_gen s")
      case True
      with False obtain nodes where "st = Append nodes" by (cases st) auto
      with stage show ?thesis by auto
    next
      case False
      then show ?thesis using stage_mute [OF _ stage] by simp
    qed
    have "(\<exists>st. (sp_gen s, st) \<in> set ?js \<and> pending st) \<longleftrightarrow> (\<exists>st. (sp_gen s', st) \<in> set ?js' \<and> pending st)"
    proof (cases r)
      case None
      with False gen show ?thesis by auto
    next
      case (Some st')
      with stage have "pending st" using stage_go_on_pending [of V now g st s w st' s' w'] by simp
      with False Some gen show ?thesis by auto
    qed
    with js' hist run phase same show ?thesis by (auto simp: jobs_ok_def)
  qed
qed

lemma jobs_ok_new:
  assumes "jobs_ok (js, s, w)" and "sp_gen s' = Suc (sp_gen s)" and "ss_Running (sp_st s')" and "pending st"
    and "sp_hist s' = sp_hist s"
  shows "jobs_ok (js @ [(sp_gen s', st)], s', w)"
  using assms by (fastforce simp: jobs_ok_def)

lemma jobs_ok_step: "sstep V a b \<Longrightarrow> jobs_ok a \<Longrightarrow> jobs_ok b"
proof (induction rule: sstep.induct)
  case (start ids now s j s' js w)
  then show ?case
    using jobs_ok_new [of js s w s' "snd j"] by (auto simp: Run_def Let_def split: if_splits)
next
  case (installs now s j s' js w)
  then show ?case
    using jobs_ok_new [of js s w s' "snd j"] by (auto simp: StartInstall_def Let_def split: if_splits)
next
  case (go_on now g st s w st' s' w' xs ys)
  from jobs_ok_job [OF go_on.prems go_on.hyps] show ?case by simp
next
  case (return now g st s w s' w' xs ys)
  from jobs_ok_job [OF return.prems return.hyps] show ?case by simp
qed (simp_all add: jobs_ok_def ClearHistory_def)

lemma sreach_ok: "sreach V a \<Longrightarrow> jobs_ok a"
proof (induction rule: sreach.induct)
  case (init loc io w)
  then show ?case by (simp add: jobs_ok_def newSpeed_def status_zero_def)
qed (rule jobs_ok_step)

text \<open>C25: However starts, installations, stages of old and new jobs and answers of the machine interleave: every job has
  a generation of its own; the status says that a task runs exactly when the job of the current generation is still at
  work, so that it is never left running by nobody; and the history holds at most 50 runs, each with a server that was
  measured, whose best download is the greatest of these.\<close>

theorem speedtest_status_true:
  assumes "sreach V (js, s, w)"
  shows "distinct (map fst js) \<and> (ss_Running (sp_st s) \<longleftrightarrow> (\<exists>st. (sp_gen s, st) \<in> set js \<and> pending st)) \<and>
    (\<not> ss_Running (sp_st s) \<longrightarrow> ss_Phase (sp_st s) \<in> {''idle'', ''done'', ''error''}) \<and>
    length (sp_hist s) \<le> 50 \<and>
    list_all (\<lambda>e. list_ex (\<lambda>n. no_Status n = ''done'') (he_Nodes e) \<and> he_BestDownloadMbps e =
      fold max (map no_DownloadMbps (filter (\<lambda>n. no_Status n = ''done'') (he_Nodes e))) 0) (sp_hist s)"
  using sreach_ok [OF assms] unfolding jobs_ok_def prod.case completed_def by blast

theorem speedtest_status_true_witness:
  "\<exists>st s. Run [] 0 (newSpeed 0 [] (\<lambda>_. Written)) = Inr ((1, st), s) \<and> ss_Running (sp_st s) \<and>
     length (sp_hist s) \<le> 50"
proof -
  obtain st s where run: "Run [] 0 (newSpeed 0 [] (\<lambda>_. Written)) = Inr ((1, st), s)"
    by (simp add: Run_def newSpeed_def status_zero_def Let_def maxNodes_def)
  have gen: "sp_gen s = 1" "pending st"
    using run by (auto simp: Run_def newSpeed_def Let_def split: if_splits)
  have "sreach V ([(1, st)], s, ())" for V :: "unit spenv"
    using sreach.step [OF sreach.init sstep.start [OF run]] by simp
  from speedtest_status_true [OF this] run gen show ?thesis by auto
qed

section \<open>A measurement ends\<close>

text \<open>A job alone, for at most \<open>n\<close> stages: whether it has returned.\<close>

fun alone :: "'w spenv \<Rightarrow> int \<Rightarrow> nat \<Rightarrow> nat \<Rightarrow> stage \<Rightarrow> speed \<times> 'w \<Rightarrow> bool \<times> speed \<times> 'w" where
  "alone V now 0 g st x = (False, x)"
| "alone V now (Suc n) g st x = (case stage_step V now g st x of
     (None, y) \<Rightarrow> (True, y) | (Some st', y) \<Rightarrow> alone V now n g st' y)"

text \<open>The stages that are left at most, and what keeps the number of servers in bounds.\<close>

definition wanted :: "string list \<Rightarrow> nat" where
  "wanted ids = (if ids = [] then 3 else length ids)"

fun stages_left :: "stage \<Rightarrow> nat" where
  "stages_left (Probe ids) = 9 + 4 * wanted ids"
| "stages_left (ToInstall ids) = 8 + 4 * wanted ids"
| "stages_left (RunInstall ids) = 7 + 4 * wanted ids"
| "stages_left (ToList ids) = 6 + 4 * wanted ids"
| "stages_left (RunList ids) = 5 + 4 * wanted ids"
| "stages_left (SetNodes nodes isp) = 4 + 4 * length nodes"
| "stages_left (Mark i nodes) = 3 + 4 * (length nodes - i)"
| "stages_left (Tell i nodes) = 2 + 4 * (length nodes - i)"
| "stages_left (Measure i nodes) = 1 + 4 * (length nodes - i)"
| "stages_left (Judge i nodes out e) = 4 * (length nodes - i)"
| "stages_left Finish = 2"
| "stages_left (Append nodes) = 1"
| "stages_left (Failed e) = 1"
| "stages_left Setup = 2"
| "stages_left (SetupDone r) = 1"

fun in_range :: "stage \<Rightarrow> bool" where
  "in_range (Tell i nodes) \<longleftrightarrow> i < length nodes"
| "in_range (Measure i nodes) \<longleftrightarrow> i < length nodes"
| "in_range (Judge i nodes out e) \<longleftrightarrow> i < length nodes"
| "in_range st \<longleftrightarrow> True"

lemma length_recommended: "length (filter se_Recommended (pickRecommended low 3 ss)) \<le> 3"
proof -
  let ?ops = "fold (pick_operator low 3 ss) [''unicom'', ''telecom'', ''mobile''] []"
  note ops = picked_three [of 3 low ss, simplified order.refl TrueI]
  have "distinct ?ops" "set ?ops \<subseteq> reachables ss" using ops(1) by (simp_all add: operators_ok_def)
  from pick_rest_ok [OF this ops(2)]
  have three: "length (picked low 3 ss) \<le> 3" by (simp add: picked_def)
  have "filter se_Recommended (pickRecommended low 3 ss) =
      map (\<lambda>i. (ss ! i)\<lparr>se_Recommended := True\<rparr>) (filter (\<lambda>i. i \<in> set (picked low 3 ss)) [0..<length ss])"
    by (simp add: pickRecommended_def filter_map comp_def cong: map_cong)
  then have "length (filter se_Recommended (pickRecommended low 3 ss)) =
      length (filter (\<lambda>i. i \<in> set (picked low 3 ss)) [0..<length ss])"
    by simp
  also have "\<dots> = card (set (filter (\<lambda>i. i \<in> set (picked low 3 ss)) [0..<length ss]))"
    by (rule distinct_card [symmetric]) simp
  also have "\<dots> \<le> card (set (picked low 3 ss))" by (intro card_mono) auto
  also have "\<dots> \<le> 3" using three card_length [of "picked low 3 ss"] by linarith
  finally show ?thesis .
qed

lemma stages_left_step:
  assumes "stage_step V now g st (s, w) = (Some st', s', w')" and "in_range st"
  shows "stages_left st' < stages_left st \<and> in_range st'"
proof (cases st)
  case (RunList ids)
  have few: "4 * length (filter se_Recommended (pickRecommended (pe_low V) 3 ss)) < 13" for ss
    using length_recommended [of "pe_low V" ss] by linarith
  with RunList assms(1) show ?thesis
    by (auto simp: wanted_def Let_def defaultPick_def split: prod.splits sum.splits if_splits)
qed (use assms in \<open>auto simp: lock_simps wanted_def split: prod.splits if_splits option.splits sum.splits\<close>)

lemma alone_ends:
  assumes "stages_left st \<le> n" and "in_range st" and "sp_gen s = g"
    and "pending st \<and> ss_Running (sp_st s) \<or> \<not> pending st \<and> \<not> ss_Running (sp_st s) \<and> ss_Phase (sp_st s) \<in> {''done'', ''error''}"
  shows "\<exists>s' w'. alone V now n g st (s, w) = (True, s', w') \<and> \<not> ss_Running (sp_st s') \<and>
    ss_Phase (sp_st s') \<in> {''done'', ''error''} \<and> sp_gen s' = g"
  using assms
proof (induction n arbitrary: st s w)
  case 0
  then show ?case by (cases st) auto
next
  case (Suc n)
  obtain r s1 w1 where stage: "stage_step V now g st (s, w) = (r, s1, w1)" by (metis prod_cases3)
  have gen: "sp_gen s1 = g" using stage_gen [OF stage] Suc.prems(3) by simp
  show ?case
  proof (cases "pending st")
    case True
    with Suc.prems stage_current [OF stage] have
      cur: "case r of Some st' \<Rightarrow> pending st' = ss_Running (sp_st s1) | None \<Rightarrow> \<not> ss_Running (sp_st s1)"
        "ss_Running (sp_st s1) \<or> ss_Phase (sp_st s1) \<in> {''done'', ''error''}" by auto
    show ?thesis
    proof (cases r)
      case None
      with stage cur gen show ?thesis by auto
    next
      case (Some st')
      from stages_left_step [of V now g st s w st'] stage Some Suc.prems
      have "stages_left st' \<le> n" "in_range st'" by auto
      from Suc.IH [OF this gen] cur Some stage show ?thesis by auto
    qed
  next
    case False
    then obtain nodes where "st = Append nodes" by (cases st) auto
    with Suc.prems False show ?thesis by simp
  qed
qed

text \<open>C37: A measurement that is started and not superseded ends: after at most 41 of its stages, whatever the machine
  answers, its job has returned and the status says done or error. (Each command is taken to return.)\<close>

theorem measurement_ends:
  assumes "Run ids now s = Inr ((g, st), s')"
  shows "\<exists>s'' w'. alone V now' 41 g st (s', w) = (True, s'', w') \<and> \<not> ss_Running (sp_st s'') \<and>
    ss_Phase (sp_st s'') \<in> {''done'', ''error''}"
proof -
  have st: "st = Probe (take 8 ids)" "sp_gen s' = g" "ss_Running (sp_st s')"
    using assms by (auto simp: Run_def Let_def maxNodes_def split: if_splits)
  have "wanted (take 8 ids) \<le> 8" by (simp add: wanted_def)
  with alone_ends [of st 41 s' g V now' w] st show ?thesis by auto
qed

theorem measurement_ends_witness:
  "\<exists>st s'. Run [''43752''] 0 (newSpeed 0 [] (\<lambda>_. Written)) = Inr ((1, st), s') \<and>
     (\<forall>V now w. fst (alone V now 41 1 st (s', w :: nat)))"
proof -
  obtain st s' where run: "Run [''43752''] 0 (newSpeed 0 [] (\<lambda>_. Written)) = Inr ((1, st), s')"
    by (simp add: Run_def newSpeed_def status_zero_def Let_def maxNodes_def)
  have "fst (alone V now 41 1 st (s', w))" for V :: "nat spenv" and now w
    using measurement_ends [OF run, of V now w] by auto
  with run show ?thesis by blast
qed

section \<open>The command of a measurement\<close>

text \<open>A machine that has speedtest-go, knows one server, and writes down what it is asked to run.\<close>

definition recorder :: "string list list sys" where
  "recorder = \<lparr>sy_run = (\<lambda>stdin argv w.
       ((if last argv = ''speedtest-go --list 2>&1'' then ''[1] 1km 1ms A (B) by C'' else [], None), w @ [argv])),
     sy_exists = (\<lambda>p w. False), sy_read = (\<lambda>p w. None), sy_now = (\<lambda>w. 0), sy_list = (\<lambda>p w. None), sy_link = (\<lambda>p w. None)\<rparr>"

lemma recorder_run: "sy_run recorder [] argv w =
    ((if last argv = ''speedtest-go --list 2>&1'' then ''[1] 1km 1ms A (B) by C'' else [], None), w @ [argv])"
  by (simp add: recorder_def)

lemma one_server: "parseServerList fl ''[1] 1km 1ms A (B) by C'' \<noteq> []"
proof -
  have "parse_server fl ''[1] 1km 1ms A (B) by C'' \<noteq> None"
    by (simp add: parse_server_def reServerLine_def blank1_def not_nl_def eval_simps Let_def)
  moreover have "go_Split ''[1] 1km 1ms A (B) by C'' (byte 10) = [''[1] 1km 1ms A (B) by C'']"
    by (simp add: eval_simps)
  ultimately show ?thesis by (simp add: parseServerList_def List.map_filter_def)
qed

lemma sreach_stage:
  "sreach V ([(g, st)], s, w) \<Longrightarrow> stage_step V now g st (s, w) = (Some st', s', w') \<Longrightarrow> sreach V ([(g, st')], s', w')"
  using sstep.go_on [of V now g st s w st' s' w' "[]" "[]"] by (auto intro: sreach.step)

text \<open>Any text that is sent as a server id becomes part of a script that \<open>sh -c\<close> runs: neither the handler nor the
  service checks it, so an id with a semicolon runs commands of its own.\<close>

theorem server_id_reaches_shell:
  "\<exists>js s w. sreach (V\<lparr>pe_sys := recorder\<rparr>) (js, s, w) \<and>
     [''sh'', ''-c'', ''speedtest-go --server '' @ x @ '' --json 2>/dev/null''] \<in> set w"
proof -
  let ?V = "V\<lparr>pe_sys := recorder\<rparr>" and ?w = "[[''sh'', ''-c'', ''command -v speedtest-go'']]"
  let ?w' = "?w @ [[''sh'', ''-c'', ''speedtest-go --list 2>&1'']]"
  obtain s where run: "Run [x] 0 (newSpeed 0 [] (\<lambda>_. Written)) = Inr ((1, Probe [x]), s)" and gen: "sp_gen s = 1"
    by (simp add: Run_def newSpeed_def status_zero_def Let_def maxNodes_def)
  have "sreach ?V ([(1, Probe [x])], s, [])"
    using sreach.step [OF sreach.init sstep.start [OF run]] by simp
  from sreach_stage [OF this, of 0] have "sreach ?V ([(1, ToList [x])], s, ?w)"
    by (simp add: speed_installed_def recorder_run)
  from sreach_stage [OF this, of 0] obtain s1 where "sreach ?V ([(1, RunList [x])], s1, ?w)" and gen: "sp_gen s1 = 1"
    by (simp add: lock_simps gen)
  moreover obtain servers isp where servers: "listServers ?V ?w = (Inr (servers, isp), ?w')"
    using one_server by (simp add: listServers_def recorder_run Let_def)
  ultimately have "sreach ?V ([(1, SetNodes [node_of servers x] isp)], s1, ?w')"
    using sreach_stage [of ?V 1 "RunList [x]" s1 ?w 0] by simp
  from sreach_stage [OF this, of 0] obtain s2 where "sreach ?V ([(1, Mark 0 [node_of servers x])], s2, ?w')"
    and gen: "sp_gen s2 = 1" by (simp add: lock_simps gen)
  from sreach_stage [OF this(1), of 0] obtain s3 where "sreach ?V ([(1, Tell 0 [node_of servers x])], s3, ?w')"
    by (auto simp: lock_simps gen split: if_splits)
  from sreach_stage [OF this, of 0] obtain s4 where "sreach ?V ([(1, Measure 0 [node_of servers x])], s4, ?w')"
    by simp
  from sreach_stage [OF this, of 0] show ?thesis
    by (fastforce simp: recorder_run measure_script_def node_of_def Let_def split: option.splits)
qed

end
