(* ===== verification/Access.thy ===== *)
theory Access
  imports LogAPI NetcfgAPI MetaStore
begin

text \<open>
  Who may do what: the configuration of the daemon from its environment (internal/appcfg), its overrides in meta.json
  and their page (internal/api/syscfg.go), the token of a request (middleware/auth.go) and its origin
  (middleware/cors.go). A handler maps a request and a state to the status, the headers it sets, and the state it
  leaves; a middleware maps handlers to handlers, as in the code. \<open>low\<close> is the case mapping of runes outside ASCII.
\<close>

section \<open>appcfg.go\<close>

text \<open>\<open>net.SplitHostPort\<close>; \<open>None\<close> is an error.\<close>

definition SplitHostPort :: "string \<Rightarrow> (string \<times> string) option" where
  "SplitHostPort hp = (case last_index hp CHR '':'' of
     None \<Rightarrow> None
   | Some i \<Rightarrow>
       (if go_HasPrefix hp ''['' then (case go_IndexByte hp CHR '']'' of
            None \<Rightarrow> None
          | Some e \<Rightarrow>
              if Suc e \<noteq> i \<or> CHR ''['' \<in> set (drop 1 hp) \<or> CHR '']'' \<in> set (drop (Suc e) hp) then None
              else Some (take (e - 1) (drop 1 hp), drop (Suc i) hp))
        else if CHR '':'' \<in> set (take i hp) \<or> CHR ''['' \<in> set hp \<or> CHR '']'' \<in> set hp then None
        else Some (take i hp, drop (Suc i) hp)))"

definition isAllASCIIDigits :: "string \<Rightarrow> bool" where
  "isAllASCIIDigits s \<longleftrightarrow> s \<noteq> [] \<and> list_all is_digit s"

definition port_ok :: "string \<Rightarrow> bool" where
  "port_ok s = (case go_Atoi s of Some n \<Rightarrow> 1 \<le> n \<and> n \<le> 65535 | None \<Rightarrow> False)"

text \<open>The address and the warning.\<close>

definition NormalizeListenAddr :: "string \<Rightarrow> string \<times> err option" where
  "NormalizeListenAddr raw =
     (let s = go_TrimSpace raw in
      if s = [] then ('':18080'', None)
      else if isAllASCIIDigits s then
        (if port_ok s then ('':'' @ s, None) else (s, Some (ErrFmt ''the port is out of range'' [raw])))
      else (case SplitHostPort s of
          Some (h, p) \<Rightarrow> if port_ok p then (s, None) else (s, Some (ErrFmt ''the port is not valid'' [raw]))
        | None \<Rightarrow> (s, Some (ErrFmt ''the address is not recognised'' [raw]))))"

datatype level = LevelDebug | LevelInfo | LevelWarn | LevelError

definition ParseLevel :: "(string \<Rightarrow> string) \<Rightarrow> string \<Rightarrow> level" where
  "ParseLevel low s = (let t = go_ToLower low (go_TrimSpace s) in
     if t \<in> {''trace'', ''debug''} then LevelDebug
     else if t = ''warn'' then LevelWarn
     else if t = ''error'' then LevelError
     else LevelInfo)"

definition parseBool :: "(string \<Rightarrow> string) \<Rightarrow> string \<Rightarrow> bool \<Rightarrow> bool" where
  "parseBool low s d = (let t = go_ToLower low (go_TrimSpace s) in
     if t \<in> {''1'', ''true'', ''yes'', ''on'', ''y''} then True
     else if t \<in> {''0'', ''false'', ''no'', ''off'', ''n''} then False
     else d)"

definition csv_items :: "string \<Rightarrow> string list" where
  "csv_items s = filter (\<lambda>t. t \<noteq> []) (map go_TrimSpace (go_Split s CHR '',''))"

record Config =
  co_HTTPAddr :: string
  co_HTTPAddrWarn :: "err option"
  co_APIToken :: string
  co_CORSOrigins :: "string list"
  co_DataDir :: string
  co_ProfilesDir :: string
  co_LogsDir :: string
  co_StoresDir :: string
  co_MetaFile :: string
  co_LogLevel :: string
  co_DocsEnabled :: bool
  co_SelfUpdateEnabled :: bool
  co_ShutdownWait :: int
  co_NetcfgBackend :: string

text \<open>\<open>env\<close> is the environment; a variable that is not set reads as empty.\<close>

definition getEnv :: "(string \<Rightarrow> string) \<Rightarrow> string \<Rightarrow> string \<Rightarrow> string" where
  "getEnv env key d = (if env key \<noteq> [] then env key else d)"

definition Load :: "(string \<Rightarrow> string) \<Rightarrow> (string \<Rightarrow> string) \<Rightarrow> err + Config" where
  "Load low env =
     (let (addr, warn) = NormalizeListenAddr (getEnv env ''KWRTNET_HTTP_ADDR'' '':18080'');
          dir = getEnv env ''KWRTNET_DATA_DIR'' ''/data''
      in if env ''KWRTNET_API_TOKEN'' = [] then Inl (Err ''KWRTNET_API_TOKEN is required'')
         else Inr \<lparr>co_HTTPAddr = addr, co_HTTPAddrWarn = warn, co_APIToken = env ''KWRTNET_API_TOKEN'',
           co_CORSOrigins = csv_items (getEnv env ''KWRTNET_CORS_ORIGINS'' ''*''), co_DataDir = dir,
           co_ProfilesDir = dir @ ''/profiles'', co_LogsDir = dir @ ''/logs'', co_StoresDir = dir @ ''/stores'',
           co_MetaFile = dir @ ''/meta.json'', co_LogLevel = go_ToLower low (getEnv env ''KWRTNET_LOG_LEVEL'' ''info''),
           co_DocsEnabled = parseBool low (getEnv env ''KWRTNET_DOCS_ENABLED'' ''true'') True,
           co_SelfUpdateEnabled = parseBool low (getEnv env ''KWRTNET_SELF_UPDATE_ENABLED'' ''true'') True,
           co_ShutdownWait = 10 * 1000000000,
           co_NetcfgBackend = go_ToLower low (getEnv env ''KWRTNET_NETCFG_BACKEND'' ''auto'')\<rparr>)"

section \<open>middleware/cors.go and auth.go\<close>

record web_request = http_request +
  wr_Query :: "string \<Rightarrow> string"

type_synonym 's hnd = "web_request \<Rightarrow> 's \<Rightarrow> nat \<times> (string \<times> string) list \<times> 's"

text \<open>\<open>nil\<close> is the empty list: callers only ask for its length.\<close>

definition NormalizeOrigins :: "string list \<Rightarrow> string list" where
  "NormalizeOrigins os = (let out = filter (\<lambda>t. t \<noteq> []) (map go_TrimSpace os) in
     if ''*'' \<in> set out then [''*''] else out)"

definition IsWildcard :: "string list \<Rightarrow> bool" where
  "IsWildcard os \<longleftrightarrow> (case os of [x] \<Rightarrow> go_TrimSpace x = ''*'' | _ \<Rightarrow> False)"

definition allow_origin :: "string list \<Rightarrow> string \<Rightarrow> (string \<times> string) list" where
  "allow_origin allowed origin =
     (if origin = [] then []
      else if IsWildcard allowed then [(''Access-Control-Allow-Origin'', ''*'')]
      else if origin \<in> set allowed then [(''Access-Control-Allow-Origin'', origin), (''Vary'', ''Origin'')]
      else [])"

definition CORS :: "('s \<Rightarrow> string list) \<Rightarrow> 's hnd \<Rightarrow> 's hnd" where
  "CORS origins next r s =
     (let hs = allow_origin (origins s) (hr_Header r ''Origin'') @
           [(''Access-Control-Allow-Methods'', ''GET, POST, PUT, PATCH, DELETE, OPTIONS''),
            (''Access-Control-Allow-Headers'', ''Authorization, Content-Type''), (''Access-Control-Max-Age'', ''600'')]
      in if hr_Method r = ''OPTIONS'' then (204, hs, s)
         else (case next r s of (st, hs', s') \<Rightarrow> (st, hs @ hs', s')))"

definition extractToken :: "web_request \<Rightarrow> string" where
  "extractToken r =
     (let h = hr_Header r ''Authorization'' in
      if h \<noteq> [] \<and> go_HasPrefix h ''Bearer '' then go_TrimSpace (go_TrimPrefix h ''Bearer '')
      else wr_Query r ''token'')"

definition Bearer :: "string \<Rightarrow> 's hnd \<Rightarrow> 's hnd" where
  "Bearer token next r s =
     (let got = extractToken r in if got = [] \<or> got \<noteq> token then (401, [], s) else next r s)"

section \<open>syscfg.go\<close>

text \<open>The page that changes the configuration; \<open>rt_level\<close> is the level of the running logger.\<close>

record runtime =
  rt_cfg :: Config
  rt_store :: mstore
  rt_level :: "level option"

definition EffectiveLogLevel :: "(string \<Rightarrow> string) \<Rightarrow> runtime \<Rightarrow> string" where
  "EffectiveLogLevel low rt = (case cf_LogLevel (GetSystemConfig (rt_store rt)) of
     Some x \<Rightarrow> if go_TrimSpace x \<noteq> [] then go_ToLower low (go_TrimSpace x) else co_LogLevel (rt_cfg rt)
   | None \<Rightarrow> co_LogLevel (rt_cfg rt))"

definition SelfUpdateEnabled :: "runtime \<Rightarrow> bool" where
  "SelfUpdateEnabled rt = (case cf_SelfUpdateEnabled (GetSystemConfig (rt_store rt)) of
     Some b \<Rightarrow> b | None \<Rightarrow> co_SelfUpdateEnabled (rt_cfg rt))"

definition DocsEnabled :: "runtime \<Rightarrow> bool" where
  "DocsEnabled rt = (case cf_DocsEnabled (GetSystemConfig (rt_store rt)) of
     Some b \<Rightarrow> b | None \<Rightarrow> co_DocsEnabled (rt_cfg rt))"

definition EffectiveCORS :: "runtime \<Rightarrow> string list" where
  "EffectiveCORS rt = (case cf_CORSOrigins (GetSystemConfig (rt_store rt)) of
     Some os \<Rightarrow> if NormalizeOrigins os \<noteq> [] then NormalizeOrigins os else NormalizeOrigins (co_CORSOrigins (rt_cfg rt))
   | None \<Rightarrow> NormalizeOrigins (co_CORSOrigins (rt_cfg rt)))"

definition apply_level :: "(string \<Rightarrow> string) \<Rightarrow> runtime \<Rightarrow> runtime" where
  "apply_level low rt = rt\<lparr>rt_level := map_option (\<lambda>_. ParseLevel low (EffectiveLogLevel low rt)) (rt_level rt)\<rparr>"

definition NewRuntimeConfig :: "(string \<Rightarrow> string) \<Rightarrow> Config \<Rightarrow> mstore \<Rightarrow> level option \<Rightarrow> runtime" where
  "NewRuntimeConfig low cfg st lv = apply_level low \<lparr>rt_cfg = cfg, rt_store = st, rt_level = lv\<rparr>"

record PutBody =
  pb_LogLevel :: "string option"
  pb_SelfUpdateEnabled :: "bool option"
  pb_DocsEnabled :: "bool option"
  pb_CORSOrigins :: "string list option"
  pb_Reset :: "string list"

record ConfigView =
  cv_log_level :: string
  cv_self_update :: bool
  cv_docs :: bool
  cv_cors :: "string list"

text \<open>The effective values, the values of the environment, and what is overridden.\<close>

definition config_response :: "(string \<Rightarrow> string) \<Rightarrow> runtime \<Rightarrow> ConfigView \<times> ConfigView \<times> (bool \<times> bool \<times> bool \<times> bool)" where
  "config_response low rt =
     (let raw = GetSystemConfig (rt_store rt); cfg = rt_cfg rt in
      (\<lparr>cv_log_level = EffectiveLogLevel low rt, cv_self_update = SelfUpdateEnabled rt, cv_docs = DocsEnabled rt,
         cv_cors = EffectiveCORS rt\<rparr>,
       \<lparr>cv_log_level = co_LogLevel cfg, cv_self_update = co_SelfUpdateEnabled cfg, cv_docs = co_DocsEnabled cfg,
         cv_cors = co_CORSOrigins cfg\<rparr>,
       (cf_LogLevel raw \<noteq> None, cf_SelfUpdateEnabled raw \<noteq> None, cf_DocsEnabled raw \<noteq> None, cf_CORSOrigins raw \<noteq> None)))"

definition validLogLevels :: "string set" where
  "validLogLevels = {''trace'', ''debug'', ''info'', ''warn'', ''error''}"

text \<open>What the closure given to \<open>UpdateSystemConfig\<close> does.\<close>

definition overlay :: "PutBody \<Rightarrow> SystemConfig \<Rightarrow> SystemConfig" where
  "overlay b c =
     (let c = (if pb_LogLevel b \<noteq> None then c\<lparr>cf_LogLevel := pb_LogLevel b\<rparr> else c);
          c = (if pb_SelfUpdateEnabled b \<noteq> None then c\<lparr>cf_SelfUpdateEnabled := pb_SelfUpdateEnabled b\<rparr> else c);
          c = (if pb_DocsEnabled b \<noteq> None then c\<lparr>cf_DocsEnabled := pb_DocsEnabled b\<rparr> else c);
          c = (if pb_CORSOrigins b \<noteq> None then c\<lparr>cf_CORSOrigins := pb_CORSOrigins b\<rparr> else c);
          c = (if ''log_level'' \<in> set (pb_Reset b) then c\<lparr>cf_LogLevel := None\<rparr> else c);
          c = (if ''self_update_enabled'' \<in> set (pb_Reset b) then c\<lparr>cf_SelfUpdateEnabled := None\<rparr> else c);
          c = (if ''docs_enabled'' \<in> set (pb_Reset b) then c\<lparr>cf_DocsEnabled := None\<rparr> else c)
      in if ''cors_origins'' \<in> set (pb_Reset b) then c\<lparr>cf_CORSOrigins := None\<rparr> else c)"

definition clean_body :: "(string \<Rightarrow> string) \<Rightarrow> PutBody \<Rightarrow> err + PutBody" where
  "clean_body low b =
     (let lv = map_option (\<lambda>x. go_ToLower low (go_TrimSpace x)) (pb_LogLevel b);
          os = map_option NormalizeOrigins (pb_CORSOrigins b)
      in if lv \<noteq> None \<and> the lv \<notin> validLogLevels then Inl (Err ''log_level is not valid'')
         else if os = Some [] then Inl (Err ''cors_origins must not be empty'')
         else Inr (b\<lparr>pb_LogLevel := lv, pb_CORSOrigins := os\<rparr>))"

definition Put_config :: "(string \<Rightarrow> string) \<Rightarrow> PutBody option \<Rightarrow> runtime \<Rightarrow>
    (ConfigView \<times> ConfigView \<times> (bool \<times> bool \<times> bool \<times> bool)) reply \<times> runtime" where
  "Put_config low body rt = (case body of
     None \<Rightarrow> (Refusal 400 CodeBadRequest InvalidBody, rt)
   | Some b \<Rightarrow> (case clean_body low b of
       Inl e \<Rightarrow> (Refusal 400 CodeBadRequest (ErrorText e), rt)
     | Inr c \<Rightarrow> (case UpdateSystemConfig (overlay c) (rt_store rt) of
         (Inl e, st) \<Rightarrow> (Refusal 500 CodeInternal (Prefixed ''saving failed'' e), rt\<lparr>rt_store := st\<rparr>)
       | (Inr _, st) \<Rightarrow> (let rt' = apply_level low (rt\<lparr>rt_store := st\<rparr>) in (Reply 200 (config_response low rt'), rt')))))"

end
