(* ===== verification/Branding.thy ===== *)
theory Branding
  imports Access GoRegexp
begin

text \<open>
  internal/api/ui.go: the branding of the user interface and its injection into the page that the daemon serves, with
  what it uses of encoding/json, html and regexp.
\<close>

section \<open>Escaping\<close>

text \<open>\<open>html.EscapeString\<close>.\<close>

definition html_char :: "char \<Rightarrow> string" where
  "html_char c =
     (if c = CHR ''&'' then ''&amp;''
      else if c = byte 39 then ''&#39;''
      else if c = CHR ''<'' then ''&lt;''
      else if c = CHR ''>'' then ''&gt;''
      else if c = byte 34 then ''&#34;''
      else [c])"

definition EscapeString :: "string \<Rightarrow> string" where
  "EscapeString s = concat (map html_char s)"

text \<open>\<open>json.Marshal\<close> of a string: one rune, then the string in quotes.\<close>

definition json_rune :: "nat \<times> string \<Rightarrow> string" where
  "json_rune seg = (case seg of (r, bs) \<Rightarrow>
     (if r < 128 then
        (if r = 92 \<or> r = 34 then byte 92 # bs
         else if r = 8 then byte 92 # ''b''
         else if r = 12 then byte 92 # ''f''
         else if r = 10 then byte 92 # ''n''
         else if r = 13 then byte 92 # ''r''
         else if r = 9 then byte 92 # ''t''
         else if r < 32 \<or> r = 38 \<or> r = 60 \<or> r = 62 then byte 92 # ''u00'' @ [hex_digit (r div 16), hex_digit (r mod 16)]
         else bs)
      else if r = 65533 \<and> length bs = 1 then byte 92 # ''ufffd''
      else if r = 8232 \<or> r = 8233 then byte 92 # ''u202'' @ [hex_digit (r mod 16)]
      else bs))"

definition json_string :: "string \<Rightarrow> string" where
  "json_string s = byte 34 # concat (map json_rune (rune_segs s)) @ [byte 34]"

definition json_branding :: "Branding \<Rightarrow> string" where
  "json_branding b = ''{'' @ json_string ''app_name'' @ '':'' @ json_string (br_AppName b) @ '','' @
     json_string ''app_subtitle'' @ '':'' @ json_string (br_AppSubtitle b) @ '','' @
     json_string ''html_title'' @ '':'' @ json_string (br_HTMLTitle b) @ ''}''"

section \<open>ui.go\<close>

text \<open>\<open>(?is)<title>.*?</title>\<close>; no letter of \<open>title\<close> folds to a rune outside ASCII.\<close>

definition titleRe :: regex where
  "titleRe = Seqs [LitI ''<title>'', Alt Eps (Few (\<lambda>_. True)), LitI ''</title>'']"

text \<open>\<open>ReplaceAllStringFunc\<close> of an expression that never matches the empty string, with a constant replacement.\<close>

function replace_all :: "regex \<Rightarrow> string \<Rightarrow> char option \<Rightarrow> string \<Rightarrow> string" where
  "replace_all r t pr [] = []"
| "replace_all r t pr (c # s) = (case rx r Some (pr, c # s, []) of
     Some (pr', s', _) \<Rightarrow> if length s' \<le> length s then t @ replace_all r t pr' s' else c # replace_all r t (Some c) s
   | None \<Rightarrow> c # replace_all r t (Some c) s)"
  by pat_completeness auto
termination
  by (relation "measure (\<lambda>(r, t, pr, s). length s)") auto

text \<open>\<open>strings.Replace(s, old, new, 1)\<close>, when \<open>old\<close> occurs in \<open>s\<close>.\<close>

fun replace_first :: "string \<Rightarrow> string \<Rightarrow> string \<Rightarrow> string" where
  "replace_first [] old new = []"
| "replace_first (c # s) old new =
     (if go_HasPrefix (c # s) old then new @ drop (length old) (c # s) else c # replace_first s old new)"

definition title_text :: "Branding \<Rightarrow> string" where
  "title_text b = ''<title>'' @ EscapeString (br_HTMLTitle b) @ ''</title>''"

definition boot_script :: "Branding \<Rightarrow> string" where
  "boot_script b = ''<script>window.__KWRTNET_BRANDING__='' @ json_branding b @ '';</script>''"

definition InjectBranding :: "Branding \<Rightarrow> string \<Rightarrow> string" where
  "InjectBranding b index =
     (let s = replace_all titleRe (title_text b) None index in
      if go_Contains s ''</head>'' then replace_first s ''</head>'' (boot_script b @ ''</head>'')
      else boot_script b @ s)"

record BrandingReq =
  bq_AppName :: "string option"
  bq_AppSubtitle :: "string option"
  bq_HTMLTitle :: "string option"

definition merge_branding :: "BrandingReq \<Rightarrow> Branding \<Rightarrow> Branding" where
  "merge_branding q b = \<lparr>br_AppName = orNil (br_AppName b) (bq_AppName q),
     br_AppSubtitle = orNil (br_AppSubtitle b) (bq_AppSubtitle q), br_HTMLTitle = orNil (br_HTMLTitle b) (bq_HTMLTitle q)\<rparr>"

definition UpdateBranding :: "BrandingReq option \<Rightarrow> mstore \<Rightarrow> Branding reply \<times> mstore" where
  "UpdateBranding body st = (case body of
     None \<Rightarrow> (Refusal 400 CodeBadRequest InvalidBody, st)
   | Some q \<Rightarrow> (case SetBranding (merge_branding q (GetBrandingRaw st)) st of
       (Inl e, st') \<Rightarrow> (Refusal 500 CodeInternal (Prefixed ''persist branding: '' e), st')
     | (Inr b, st') \<Rightarrow> (Reply 200 b, st')))"

definition GetBranding_page :: "mstore \<Rightarrow> Branding reply \<times> mstore" where
  "GetBranding_page st = (Reply 200 (GetBranding st), st)"

end
