(* ===== verification/Server.thy ===== *)
theory Server
  imports Branding
begin

text \<open>
  internal/api/server.go: the routes of the daemon behind their middlewares. Which route a request matches is decided
  by the router library, the parameter \<open>chi\<close>; a route that is not one of the open ones is in the guarded group, whose
  handlers are the parameter \<open>closed\<close>. The bodies of answers are left out here. The access log and the recovery from
  panics, which change no state, are left out; \<open>web\<close> is the embedded file system of the user interface.
\<close>

record 'b daemon =
  dm_rt :: runtime
  dm_net :: "'b svc"
  dm_logs :: center

record web =
  wb_has :: "string \<Rightarrow> bool"
  wb_serve :: "string \<Rightarrow> nat"
  wb_index :: "string option"

type_synonym site = "string \<times> string"

text \<open>A handler that only reads the state.\<close>

definition reading :: "(web_request \<Rightarrow> 's \<Rightarrow> nat \<times> (string \<times> string) list) \<Rightarrow> 's hnd" where
  "reading f r s = (case f r s of (st, hs) \<Rightarrow> (st, hs, s))"

definition docs_page :: "nat \<Rightarrow> 'b daemon hnd" where
  "docs_page st = reading (\<lambda>r s. (if DocsEnabled (dm_rt s) then st else 404, []))"

definition web_page :: "web \<Rightarrow> 'b daemon hnd" where
  "web_page W = reading (\<lambda>r s.
     (let file = go_TrimPrefix (hr_Path r) ''/'' in
      if go_HasPrefix (hr_Path r) ''/api/'' then (404, [])
      else if file \<noteq> [] \<and> file \<noteq> ''index.html'' \<and> wb_has W file then (wb_serve W file, [])
      else if wb_index W = None then (404, [])
      else (200, [(''Cache-Control'', ''no-cache, no-store, must-revalidate'')])))"

definition web_body :: "web \<Rightarrow> 'b daemon \<Rightarrow> string" where
  "web_body W s = InjectBranding (GetBranding (rt_store (dm_rt s))) (orNil [] (wb_index W))"

definition open_sites :: "site list" where
  "open_sites = [(''GET'', ''/api/v1/health''), (''GET'', ''/api/v1/ui/branding''), (''GET'', ''/api/docs''),
     (''GET'', ''/api/docs/''), (''GET'', ''/api/docs/openapi.yaml''), (''GET'', ''/api/docs/openapi.json''), (''GET'', ''/*'')]"

definition open_page :: "web \<Rightarrow> site \<Rightarrow> 'b daemon hnd" where
  "open_page W p =
     (if snd p \<in> {''/api/v1/health'', ''/api/v1/ui/branding''} then reading (\<lambda>r s. (200, []))
      else if snd p = ''/api/docs'' then docs_page 301
      else if snd p \<in> {''/api/docs/'', ''/api/docs/openapi.yaml'', ''/api/docs/openapi.json''} then docs_page 200
      else web_page W)"

definition audited :: "codec \<Rightarrow> (string \<Rightarrow> string option) \<Rightarrow> int \<Rightarrow> 'b daemon hnd \<Rightarrow> 'b daemon hnd" where
  "audited J host_of now next r s = (case next r s of (st, hs, s') \<Rightarrow>
     (st, hs, s'\<lparr>dm_logs := auditMiddleware J host_of now (http_request.truncate r) st (dm_logs s')\<rparr>))"

definition NewRouter :: "codec \<Rightarrow> (string \<Rightarrow> string option) \<Rightarrow> int \<Rightarrow> web \<Rightarrow> (web_request \<Rightarrow> site option) \<Rightarrow>
    (site \<Rightarrow> 'b daemon hnd) \<Rightarrow> string \<Rightarrow> 'b daemon hnd" where
  "NewRouter J host_of now W chi closed token =
     CORS (\<lambda>s. EffectiveCORS (dm_rt s)) (\<lambda>r s. case chi r of
         None \<Rightarrow> (404, [], s)
       | Some p \<Rightarrow> if p \<in> set open_sites then open_page W p r s
           else Bearer token (audited J host_of now (closed p)) r s)"

text \<open>Handlers of the guarded group.\<close>

definition status :: "'v reply \<Rightarrow> nat" where
  "status a = (case a of Reply st v \<Rightarrow> st | Refusal st c m \<Rightarrow> st | NoReply \<Rightarrow> 0)"

definition net_page :: "lib \<Rightarrow> 'b backend \<Rightarrow> request \<Rightarrow> 'b daemon hnd" where
  "net_page L B rq r s = (case serve L B rq (dm_net s) of (a, n) \<Rightarrow> (status a, [], s\<lparr>dm_net := n\<rparr>))"

definition config_page :: "(string \<Rightarrow> string) \<Rightarrow> PutBody option \<Rightarrow> 'b daemon hnd" where
  "config_page low body r s = (case Put_config low body (dm_rt s) of (a, rt) \<Rightarrow> (status a, [], s\<lparr>dm_rt := rt\<rparr>))"

definition branding_page :: "BrandingReq option \<Rightarrow> 'b daemon hnd" where
  "branding_page body r s = (case UpdateBranding body (rt_store (dm_rt s)) of
     (a, st) \<Rightarrow> (status a, [], s\<lparr>dm_rt := (dm_rt s)\<lparr>rt_store := st\<rparr>\<rparr>))"

end
