(* ===== verification/AccessProps.thy ===== *)
theory AccessProps
  imports Server
begin

text \<open>
  Properties of the access to the daemon: nothing changes without the token, what a change of the configuration does,
  which origins are allowed, the listen address, and the page with its branding.
\<close>

section \<open>The token\<close>

lemma reading_keeps: "snd (snd (reading f r s)) = s"
  by (simp add: reading_def split: prod.split)

lemma open_page_keeps: "snd (snd (open_page W p r s)) = s"
  by (simp add: open_page_def docs_page_def web_page_def reading_keeps)

lemma CORS_state: "hr_Method r \<noteq> ''OPTIONS'' \<Longrightarrow> snd (snd (CORS f h r s)) = snd (snd (h r s)) \<and> fst (CORS f h r s) = fst (h r s)"
  by (simp add: CORS_def Let_def split: prod.split)

lemma CORS_options: "hr_Method r = ''OPTIONS'' \<Longrightarrow> fst (CORS f h r s) = 204 \<and> snd (snd (CORS f h r s)) = s"
  by (simp add: CORS_def Let_def)

lemma Bearer_refuses: "extractToken r \<noteq> token \<Longrightarrow> Bearer token h r s = (401, [], s)"
  by (simp add: Bearer_def Let_def)

lemma Bearer_admits: "token \<noteq> [] \<Longrightarrow> extractToken r = token \<Longrightarrow> Bearer token h r s = h r s"
  by (simp add: Bearer_def)

lemma Load_token: "Load low env = Inr cfg \<Longrightarrow> co_APIToken cfg \<noteq> []"
  by (auto simp: Load_def Let_def split: prod.splits if_splits)

text \<open>C9: With the configuration that the daemon loads, a request without its token changes nothing, neither the network
  configuration nor the settings nor the operation log, whatever its method and path, and is answered 401 by every
  route of the guarded group; a preflight request changes nothing even with the token; any other request with the
  token is handled by its route and then audited.\<close>

theorem guarded_by_token:
  assumes "Load low env = Inr cfg"
  shows "let answer = NewRouter J host_of now W chi closed (co_APIToken cfg) r s in
    (extractToken r \<noteq> co_APIToken cfg \<or> hr_Method r = ''OPTIONS'' \<longrightarrow> snd (snd answer) = s) \<and>
       (\<forall>p. chi r = Some p \<and> p \<notin> set open_sites \<and> hr_Method r \<noteq> ''OPTIONS'' \<longrightarrow>
          (extractToken r \<noteq> co_APIToken cfg \<longrightarrow> fst answer = 401) \<and>
          (extractToken r = co_APIToken cfg \<longrightarrow>
             fst answer = fst (audited J host_of now (closed p) r s) \<and>
             snd (snd answer) = snd (snd (audited J host_of now (closed p) r s))))"
proof -
  have token: "co_APIToken cfg \<noteq> []" by (rule Load_token [OF assms])
  show ?thesis
  proof (cases "hr_Method r = ''OPTIONS''")
    case True
    then show ?thesis by (simp add: NewRouter_def CORS_options)
  next
    case False
    then show ?thesis
      unfolding NewRouter_def Let_def CORS_state [OF False, THEN conjunct1] CORS_state [OF False, THEN conjunct2]
      by (auto simp: Bearer_refuses Bearer_admits [OF token] open_page_keeps split: option.splits)
  qed
qed

definition demo_env :: "string \<Rightarrow> string \<Rightarrow> string" where
  "demo_env token key = (if key = ''KWRTNET_API_TOKEN'' then token else [])"

lemma demo_load: "token \<noteq> [] \<Longrightarrow> \<exists>cfg. Load id (demo_env token) = Inr cfg \<and> co_APIToken cfg = token"
  by (simp add: Load_def demo_env_def Let_def split: prod.split)

theorem guarded_by_token_witness:
  "\<exists>cfg. Load id (demo_env ''secret'') = Inr cfg \<and>
     (\<forall>J host_of W closed s. snd (snd (NewRouter J host_of 0 W (\<lambda>r. Some (''PUT'', ''/api/v1/system/config'')) closed (co_APIToken cfg)
        \<lparr>hr_Method = ''PUT'', hr_Path = ''/api/v1/system/config'', hr_Header = (\<lambda>_. []), hr_RemoteAddr = [], wr_Query = (\<lambda>_. [])\<rparr>
        (s :: nat daemon))) = s)"
proof -
  obtain cfg where cfg: "Load id (demo_env ''secret'') = Inr cfg" "co_APIToken cfg = ''secret''"
    using demo_load [of "''secret''"] by auto
  let ?r = "\<lparr>hr_Method = ''PUT'', hr_Path = ''/api/v1/system/config'', hr_Header = (\<lambda>_. []), hr_RemoteAddr = [], wr_Query = (\<lambda>_. [])\<rparr>"
  have "extractToken ?r \<noteq> co_APIToken cfg" by (simp add: extractToken_def cfg)
  then have "snd (snd (NewRouter J host_of 0 W (\<lambda>r. Some (''PUT'', ''/api/v1/system/config'')) closed (co_APIToken cfg) ?r s)) = s"
    for J host_of W closed and s :: "nat daemon"
    using guarded_by_token [OF cfg(1), of J host_of 0 W "\<lambda>r. Some (''PUT'', ''/api/v1/system/config'')" closed ?r s]
    unfolding Let_def by blast
  with cfg(1) show ?thesis by blast
qed

text \<open>A token with white space around it in the environment is accepted as it is, but the token of a header is
  trimmed: then no request that sends a token in its header is ever admitted.\<close>

theorem blank_token_locks_out:
  assumes "Load low env = Inr cfg" and "go_TrimSpace (co_APIToken cfg) \<noteq> co_APIToken cfg"
    and "hr_Header r ''Authorization'' = ''Bearer '' @ x"
  shows "Bearer (co_APIToken cfg) h r s = (401, [], s)"
proof -
  have "extractToken r = go_TrimSpace x"
    using assms(3) by (simp add: extractToken_def go_TrimPrefix_def)
  with assms(2) have "extractToken r \<noteq> co_APIToken cfg" by (metis go_TrimSpace_idem)
  then show ?thesis by (rule Bearer_refuses)
qed

theorem blank_token_locks_out_witness:
  "\<exists>cfg. Load id (demo_env ''secret '') = Inr cfg \<and>
     Bearer (co_APIToken cfg) (\<lambda>r s. (200, [], Suc s))
       \<lparr>hr_Method = ''GET'', hr_Path = [], hr_Header = (\<lambda>_. ''Bearer secret ''), hr_RemoteAddr = [], wr_Query = (\<lambda>_. [])\<rparr> 0 = (401, [], 0)"
proof -
  obtain cfg where cfg: "Load id (demo_env ''secret '') = Inr cfg" "co_APIToken cfg = ''secret ''"
    using demo_load [of "''secret ''"] by auto
  have trim: "go_TrimSpace ''secret '' \<noteq> ''secret ''" by (simp add: eval_simps)
  let ?r = "\<lparr>hr_Method = ''GET'', hr_Path = [], hr_Header = (\<lambda>_. ''Bearer secret ''), hr_RemoteAddr = [], wr_Query = (\<lambda>_. [])\<rparr>"
  have "Bearer (co_APIToken cfg) (\<lambda>r s. (200, [], Suc s)) ?r 0 = (401, [], 0)"
    using blank_token_locks_out [OF cfg(1), of ?r "''secret ''"] trim cfg(2) by simp
  with cfg(1) show ?thesis by blast
qed

section \<open>Origins\<close>

lemma trim_star [simp]: "go_TrimSpace ''*'' = ''*''"
  by (simp add: eval_simps)

lemma NormalizeOrigins_trimmed: "x \<in> set (NormalizeOrigins os) \<Longrightarrow> go_TrimSpace x = x \<and> x \<noteq> []"
  by (auto simp: NormalizeOrigins_def Let_def split: if_splits)

lemma NormalizeOrigins_idem [simp]: "NormalizeOrigins (NormalizeOrigins os) = NormalizeOrigins os"
proof -
  have "map go_TrimSpace (NormalizeOrigins os) = NormalizeOrigins os"
    using NormalizeOrigins_trimmed by (simp add: map_idI)
  moreover have "filter (\<lambda>t. t \<noteq> []) (NormalizeOrigins os) = NormalizeOrigins os"
    using NormalizeOrigins_trimmed by (auto simp: filter_id_conv)
  moreover have "''*'' \<in> set (NormalizeOrigins os) \<Longrightarrow> NormalizeOrigins os = [''*'']"
    by (auto simp: NormalizeOrigins_def Let_def split: if_splits)
  ultimately show ?thesis by (subst NormalizeOrigins_def) (auto simp: Let_def)
qed

lemma wildcard_iff: "IsWildcard (NormalizeOrigins os) \<longleftrightarrow> ''*'' \<in> go_TrimSpace ` set os"
proof (cases "''*'' \<in> go_TrimSpace ` set os")
  case True
  then have "NormalizeOrigins os = [''*'']" by (auto simp: NormalizeOrigins_def Let_def)
  with True show ?thesis by (simp add: IsWildcard_def)
next
  case False
  then have no: "''*'' \<notin> set (NormalizeOrigins os)" by (auto simp: NormalizeOrigins_def Let_def)
  have "\<not> IsWildcard (NormalizeOrigins os)"
  proof
    assume "IsWildcard (NormalizeOrigins os)"
    then obtain x where "NormalizeOrigins os = [x]" "go_TrimSpace x = ''*''"
      by (auto simp: IsWildcard_def split: list.splits)
    with no NormalizeOrigins_trimmed [of x os] show False by simp
  qed
  with False show ?thesis by simp
qed

lemma NormalizeOrigins_set: "''*'' \<notin> go_TrimSpace ` set os \<Longrightarrow> set (NormalizeOrigins os) = go_TrimSpace ` set os - {[]}"
  by (auto simp: NormalizeOrigins_def Let_def)

text \<open>A browser page may read answers exactly if the list of origins that is in force, read entry by entry without
  the white space around it, names its origin or the wildcard; credentials of the wildcard are never allowed.\<close>

theorem origin_admitted:
  "let admitted = allow_origin (NormalizeOrigins os) origin in
   (admitted \<noteq> [] \<longleftrightarrow> origin \<noteq> [] \<and> (''*'' \<in> go_TrimSpace ` set os \<or> origin \<in> go_TrimSpace ` set os)) \<and>
   (\<forall>k v. (k, v) \<in> set admitted \<longrightarrow> k \<noteq> ''Access-Control-Allow-Credentials'') \<and>
   NormalizeOrigins (NormalizeOrigins os) = NormalizeOrigins os"
proof (cases "''*'' \<in> go_TrimSpace ` set os")
  case True
  then show ?thesis using wildcard_iff [of os] by (simp add: allow_origin_def)
next
  case False
  then show ?thesis
    using wildcard_iff [of os] NormalizeOrigins_set [OF False] by (auto simp: allow_origin_def)
qed

section \<open>The listen address\<close>

lemma last_index_None: "last_index s d = None \<longleftrightarrow> d \<notin> set s"
  by (induction s) (auto split: option.splits)

lemma last_index_Cons: "d \<notin> set s \<Longrightarrow> last_index (d # s) d = Some 0"
  using last_index_None [of s d] by simp

lemma digit_not: "is_digit c \<Longrightarrow> c \<noteq> CHR '':'' \<and> c \<noteq> CHR ''['' \<and> c \<noteq> CHR '']''"
  by (auto simp: eval_simps)

lemma split_port:
  assumes "isAllASCIIDigits s"
  shows "SplitHostPort ('':'' @ s) = Some ([], s)" and "SplitHostPort s = None"
proof -
  have no: "CHR '':'' \<notin> set s" "CHR ''['' \<notin> set s" "CHR '']'' \<notin> set s"
    using assms digit_not by (auto simp: isAllASCIIDigits_def list_all_iff)
  then show "SplitHostPort ('':'' @ s) = Some ([], s)" "SplitHostPort s = None"
    using last_index_Cons [of "CHR '':''" s] last_index_None [of s "CHR '':''"]
    by (auto simp: SplitHostPort_def)
qed

text \<open>The listen address is taken without a warning exactly when it has a port between 1 and 65535.\<close>

theorem listen_address_checked:
  "let (addr, warn) = NormalizeListenAddr raw in
   warn = None \<longleftrightarrow> (\<exists>host port n. SplitHostPort addr = Some (host, port) \<and> go_Atoi port = Some n \<and> 1 \<le> n \<and> n \<le> 65535)"
proof -
  have ok: "port_ok p \<longleftrightarrow> (\<exists>n. go_Atoi p = Some n \<and> 1 \<le> n \<and> n \<le> 65535)" for p
    by (auto simp: port_ok_def split: option.split)
  have default_addr: "SplitHostPort '':18080'' = Some ([], ''18080'')" "port_ok ''18080''"
    by (simp_all add: SplitHostPort_def port_ok_def eval_simps)
  show ?thesis
    using split_port [of "go_TrimSpace raw"] default_addr
    by (auto simp: NormalizeListenAddr_def Let_def ok [symmetric] split: option.splits)
qed

end
