(* ===== verification/SettingsProps.thy ===== *)
theory SettingsProps
  imports AccessProps
begin

text \<open>
  Properties of the settings page: what a change puts in force, when it is saved and when it is not.
\<close>

section \<open>What a change means\<close>

text \<open>The values in force after a change: a field that is reset follows the environment, one that is given has the given
  value, and any other keeps its value.\<close>

definition chosen :: "string \<Rightarrow> PutBody \<Rightarrow> 'a \<Rightarrow> 'a option \<Rightarrow> 'a \<Rightarrow> 'a" where
  "chosen field b env given current =
     (if field \<in> set (pb_Reset b) then env else case given of Some x \<Rightarrow> x | None \<Rightarrow> current)"

definition in_force :: "(string \<Rightarrow> string) \<Rightarrow> PutBody \<Rightarrow> runtime \<Rightarrow> runtime \<Rightarrow> bool" where
  "in_force low b rt rt' \<longleftrightarrow>
     EffectiveLogLevel low rt' = chosen ''log_level'' b (co_LogLevel (rt_cfg rt))
       (map_option (\<lambda>x. go_ToLower low (go_TrimSpace x)) (pb_LogLevel b)) (EffectiveLogLevel low rt) \<and>
     SelfUpdateEnabled rt' = chosen ''self_update_enabled'' b (co_SelfUpdateEnabled (rt_cfg rt))
       (pb_SelfUpdateEnabled b) (SelfUpdateEnabled rt) \<and>
     DocsEnabled rt' = chosen ''docs_enabled'' b (co_DocsEnabled (rt_cfg rt)) (pb_DocsEnabled b) (DocsEnabled rt) \<and>
     EffectiveCORS rt' = chosen ''cors_origins'' b (NormalizeOrigins (co_CORSOrigins (rt_cfg rt)))
       (map_option NormalizeOrigins (pb_CORSOrigins b)) (EffectiveCORS rt)"

lemma valid_level:
  assumes "x \<in> validLogLevels"
  shows "go_TrimSpace x = x" and "go_ToLower low x = x" and "x \<noteq> []"
  using assms by (auto simp: validLogLevels_def eval_simps)

lemma clean_body_cases:
  assumes "clean_body low b = Inr c"
  shows "pb_LogLevel c = map_option (\<lambda>x. go_ToLower low (go_TrimSpace x)) (pb_LogLevel b)"
    and "pb_CORSOrigins c = map_option NormalizeOrigins (pb_CORSOrigins b)"
    and "pb_SelfUpdateEnabled c = pb_SelfUpdateEnabled b" and "pb_DocsEnabled c = pb_DocsEnabled b" and "pb_Reset c = pb_Reset b"
    and "pb_LogLevel c = Some x \<Longrightarrow> x \<in> validLogLevels" and "pb_CORSOrigins c \<noteq> Some []"
  using assms by (auto simp: clean_body_def Let_def split: if_splits)

lemma overlay_fields:
  "cf_LogLevel (overlay b c) = (if ''log_level'' \<in> set (pb_Reset b) then None
     else if pb_LogLevel b \<noteq> None then pb_LogLevel b else cf_LogLevel c)"
  "cf_SelfUpdateEnabled (overlay b c) = (if ''self_update_enabled'' \<in> set (pb_Reset b) then None
     else if pb_SelfUpdateEnabled b \<noteq> None then pb_SelfUpdateEnabled b else cf_SelfUpdateEnabled c)"
  "cf_DocsEnabled (overlay b c) = (if ''docs_enabled'' \<in> set (pb_Reset b) then None
     else if pb_DocsEnabled b \<noteq> None then pb_DocsEnabled b else cf_DocsEnabled c)"
  "cf_CORSOrigins (overlay b c) = (if ''cors_origins'' \<in> set (pb_Reset b) then None
     else if pb_CORSOrigins b \<noteq> None then pb_CORSOrigins b else cf_CORSOrigins c)"
  by (simp_all add: overlay_def Let_def)

lemma overlay_in_force:
  assumes "clean_body low b = Inr c" and "GetSystemConfig (rt_store rt') = overlay c (GetSystemConfig (rt_store rt))"
    and "rt_cfg rt' = rt_cfg rt"
  shows "in_force low b rt rt'"
proof -
  note c = clean_body_cases [OF assms(1)]
  have "EffectiveLogLevel low rt' = chosen ''log_level'' b (co_LogLevel (rt_cfg rt)) (pb_LogLevel c) (EffectiveLogLevel low rt)"
    using c(5) c(6) valid_level assms(2,3)
    by (cases "pb_LogLevel c") (auto simp: EffectiveLogLevel_def overlay_fields chosen_def split: option.split)
  moreover have "SelfUpdateEnabled rt' = chosen ''self_update_enabled'' b (co_SelfUpdateEnabled (rt_cfg rt))
      (pb_SelfUpdateEnabled c) (SelfUpdateEnabled rt)"
    using c(5) assms(2,3) by (cases "pb_SelfUpdateEnabled c") (auto simp: SelfUpdateEnabled_def overlay_fields chosen_def split: option.split)
  moreover have "DocsEnabled rt' = chosen ''docs_enabled'' b (co_DocsEnabled (rt_cfg rt)) (pb_DocsEnabled c) (DocsEnabled rt)"
    using c(5) assms(2,3) by (cases "pb_DocsEnabled c") (auto simp: DocsEnabled_def overlay_fields chosen_def split: option.split)
  moreover have "EffectiveCORS rt' = chosen ''cors_origins'' b (NormalizeOrigins (co_CORSOrigins (rt_cfg rt)))
      (pb_CORSOrigins c) (EffectiveCORS rt)"
    using c(2) c(5) c(7) assms(2,3)
    by (cases "pb_CORSOrigins b") (auto simp: EffectiveCORS_def overlay_fields chosen_def split: option.split)
  ultimately show ?thesis by (simp add: in_force_def c)
qed

lemma update_store:
  assumes "UpdateSystemConfig f st = (r, st')"
  shows "GetSystemConfig st' = f (GetSystemConfig st)" and "ms_path st' = ms_path st"
    and "case r of Inl e \<Rightarrow> dk_files (ms_disk st') (ms_path st) = dk_files (ms_disk st) (ms_path st)
       | Inr _ \<Rightarrow> dk_files (ms_disk st') (ms_path st) = Some (Doc (ms_data st'))"
  using assms run_micros_path [of 3] run_micros_all
  by (auto simp: UpdateSystemConfig_def meta_save_def meta_flush_def flush_disk_def GetSystemConfig_def orNil_def Let_def
    run_micros_path split: option.splits prod.splits)

lemma apply_level_frame [simp]:
  "rt_store (apply_level low rt) = rt_store rt" "rt_cfg (apply_level low rt) = rt_cfg rt"
  by (simp_all add: apply_level_def)

lemma apply_level_value: "rt_level (apply_level low rt) =
    map_option (\<lambda>_. ParseLevel low (EffectiveLogLevel low (apply_level low rt))) (rt_level rt)"
proof -
  have "EffectiveLogLevel low (apply_level low rt) = EffectiveLogLevel low rt"
    by (simp add: EffectiveLogLevel_def split: option.split)
  then show ?thesis by (simp add: apply_level_def)
qed

lemma put_cases:
  assumes "Put_config low (Some b) rt = (a, rt')"
  obtains (refused) e where "clean_body low b = Inl e" "a = Refusal 400 CodeBadRequest (ErrorText e)" "rt' = rt"
  | (unsaved) c e st where "clean_body low b = Inr c" "UpdateSystemConfig (overlay c) (rt_store rt) = (Inl e, st)"
      "a = Refusal 500 CodeInternal (Prefixed ''saving failed'' e)" "rt' = rt\<lparr>rt_store := st\<rparr>"
  | (saved) c st where "clean_body low b = Inr c" "UpdateSystemConfig (overlay c) (rt_store rt) = (Inr (), st)"
      "a = Reply 200 (config_response low rt')" "rt' = apply_level low (rt\<lparr>rt_store := st\<rparr>)"
  using assms by (auto simp: Put_config_def Let_def split: sum.splits prod.splits)

text \<open>C20: A change of the settings that is answered 200 puts in force, for each field, the value of the environment if it
  is reset, else the given value, else the one it had; it has set the level of the running logger accordingly, shows the
  new values, and is in the file.\<close>

theorem config_change:
  assumes "Put_config low (Some b) rt = (Reply st v, rt')"
  shows "st = 200 \<and> in_force low b rt rt' \<and>
    rt_level rt' = map_option (\<lambda>_. ParseLevel low (EffectiveLogLevel low rt')) (rt_level rt) \<and>
    v = config_response low rt' \<and>
    dk_files (ms_disk (rt_store rt')) (ms_path (rt_store rt)) = Some (Doc (ms_data (rt_store rt')))"
  using assms
proof (cases rule: put_cases)
  case (saved c st')
  have "in_force low b rt rt'"
    using saved(1) by (rule overlay_in_force) (simp_all add: saved(4) update_store(1) [OF saved(2)])
  with saved update_store(3) [OF saved(2)] show ?thesis by (simp add: apply_level_value)
qed simp_all

text \<open>C28: A change of the settings that is answered 500 because it could not be saved is in force nevertheless, except for
  the level of the running logger; only the file is as it was.\<close>

theorem refused_change_in_force:
  assumes "Put_config low (Some b) rt = (Refusal 500 x y, rt')"
  shows "in_force low b rt rt' \<and> rt_level rt' = rt_level rt \<and>
    dk_files (ms_disk (rt_store rt')) (ms_path (rt_store rt)) = dk_files (ms_disk (rt_store rt)) (ms_path (rt_store rt))"
  using assms
proof (cases rule: put_cases)
  case (unsaved c e st)
  have "in_force low b rt rt'"
    using unsaved(1) by (rule overlay_in_force) (simp_all add: unsaved(4) update_store(1) [OF unsaved(2)])
  with unsaved update_store(3) [OF unsaved(2)] show ?thesis by simp
qed simp_all

section \<open>Examples\<close>

definition no_self_update :: PutBody where
  "no_self_update = \<lparr>pb_LogLevel = Some '' WARN'', pb_SelfUpdateEnabled = Some False, pb_DocsEnabled = None,
     pb_CORSOrigins = None, pb_Reset = []\<rparr>"

definition demo_runtime :: "Config \<Rightarrow> (nat \<times> string) option \<Rightarrow> runtime" where
  "demo_runtime cfg broken = \<lparr>rt_cfg = cfg, rt_store = \<lparr>ms_path = ''m'', ms_data = defaultMeta,
     ms_disk = \<lparr>dk_files = Map.empty, dk_flush = (\<lambda>_. broken), dk_read = (\<lambda>_. None)\<rparr>\<rparr>, rt_level = Some LevelInfo\<rparr>"

lemma clean_demo: "clean_body id no_self_update = Inr (no_self_update\<lparr>pb_LogLevel := Some ''warn''\<rparr>)"
  by (simp add: clean_body_def no_self_update_def Let_def validLogLevels_def eval_simps)


lemma demo_put: "\<exists>a rt'. Put_config id (Some no_self_update) (demo_runtime cfg broken) = (a, rt') \<and>
    (if broken = None then \<exists>v. a = Reply 200 v else \<exists>x y. a = Refusal 500 x y)"
  by (cases broken) (auto simp: Put_config_def clean_demo UpdateSystemConfig_def meta_save_def meta_flush_def flush_disk_def
    demo_runtime_def Let_def simp del: split_paired_Ex split_paired_All)

theorem config_change_witness:
  "\<forall>cfg. \<exists>v rt'. Put_config id (Some no_self_update) (demo_runtime cfg None) = (Reply 200 v, rt') \<and>
     EffectiveLogLevel id rt' = ''warn'' \<and> rt_level rt' = Some LevelWarn"
proof
  fix cfg
  obtain v rt' where put: "Put_config id (Some no_self_update) (demo_runtime cfg None) = (Reply 200 v, rt')"
    using demo_put [of cfg None] by auto
  have level: "EffectiveLogLevel id rt' = ''warn''"
    using config_change [OF put] by (simp add: in_force_def chosen_def no_self_update_def eval_simps)
  moreover have "rt_level rt' = Some LevelWarn"
    using config_change [OF put] unfolding level by (simp add: demo_runtime_def ParseLevel_def eval_simps)
  ultimately show "\<exists>v rt'. Put_config id (Some no_self_update) (demo_runtime cfg None) = (Reply 200 v, rt') \<and>
     EffectiveLogLevel id rt' = ''warn'' \<and> rt_level rt' = Some LevelWarn" using put by blast
qed

theorem refused_change_in_force_witness:
  "\<forall>cfg. \<exists>x y rt'. Put_config id (Some no_self_update) (demo_runtime cfg (Some (0, ''disk full''))) = (Refusal 500 x y, rt') \<and>
     \<not> SelfUpdateEnabled rt' \<and> rt_level rt' = Some LevelInfo"
proof
  fix cfg
  obtain x y rt' where put: "Put_config id (Some no_self_update) (demo_runtime cfg (Some (0, ''disk full''))) = (Refusal 500 x y, rt')"
    using demo_put [of cfg "Some (0, ''disk full'')"] by auto
  have "\<not> SelfUpdateEnabled rt'" "rt_level rt' = Some LevelInfo"
    using refused_change_in_force [OF put] by (simp_all add: in_force_def chosen_def no_self_update_def demo_runtime_def)
  with put show "\<exists>x y rt'. Put_config id (Some no_self_update) (demo_runtime cfg (Some (0, ''disk full''))) = (Refusal 500 x y, rt') \<and>
     \<not> SelfUpdateEnabled rt' \<and> rt_level rt' = Some LevelInfo" by blast
qed

end
