(* ===== verification/BrandingProps.thy ===== *)
theory BrandingProps
  imports Server
begin

text \<open>
  The page with its branding: whatever the branding is, the markup of the page is the same.
\<close>

section \<open>Texts with the same markup\<close>

text \<open>The tags of a page: what stands between an opening and the next closing angle bracket.\<close>

fun tags :: "string option \<Rightarrow> string \<Rightarrow> string list" where
  "tags None [] = []"
| "tags (Some t) [] = [t]"
| "tags None (c # s) = (if c = CHR ''<'' then tags (Some [c]) s else tags None s)"
| "tags (Some t) (c # s) = (if c = CHR ''>'' then (t @ [c]) # tags None s else tags (Some (t @ [c])) s)"

definition no_angle :: "string \<Rightarrow> bool" where
  "no_angle x \<longleftrightarrow> CHR ''<'' \<notin> set x \<and> CHR ''>'' \<notin> set x"

lemma no_angle_simps [simp]:
  "no_angle []" "no_angle (c # x) \<longleftrightarrow> c \<noteq> CHR ''<'' \<and> c \<noteq> CHR ''>'' \<and> no_angle x" "no_angle (x @ y) \<longleftrightarrow> no_angle x \<and> no_angle y"
  by (auto simp: no_angle_def)

lemma no_angle_concat: "no_angle (concat (map f xs)) \<longleftrightarrow> (\<forall>x \<in> set xs. no_angle (f x))"
  by (induction xs) auto

text \<open>Two pages that differ only in texts between a tag and the next one.\<close>

inductive same_markup :: "string \<Rightarrow> string \<Rightarrow> bool" where
  nil: "same_markup [] []"
| char: "same_markup s s' \<Longrightarrow> same_markup (c # s) (c # s')"
| hole: "same_markup (CHR ''<'' # s) (CHR ''<'' # s') \<Longrightarrow> no_angle x \<Longrightarrow> no_angle x' \<Longrightarrow>
    same_markup (CHR ''>'' # x @ CHR ''<'' # s) (CHR ''>'' # x' @ CHR ''<'' # s')"

inductive_cases same_markup_Cons: "same_markup (c # s) t"

lemma same_refl [simp]: "same_markup s s"
  by (induction s) (auto intro: same_markup.intros)

lemma same_append: "same_markup a a' \<Longrightarrow> same_markup b b' \<Longrightarrow> same_markup (a @ b) (a' @ b')"
  by (induction rule: same_markup.induct) (auto intro: same_markup.intros)

lemma same_text:
  assumes "no_angle x" and "no_angle x'"
  shows "same_markup (CHR ''>'' # x @ CHR ''<'' # s) (CHR ''>'' # x' @ CHR ''<'' # s)"
  using assms by (intro same_markup.hole) simp_all

lemma tags_text: "no_angle x \<Longrightarrow> tags None (x @ s) = tags None s"
  by (induction x) auto

lemma tags_same: "same_markup s s' \<Longrightarrow> tags cur s = tags cur s'"
proof (induction arbitrary: cur rule: same_markup.induct)
  case (char s s' c)
  then show ?case by (cases cur) auto
next
  case (hole s s' x x')
  have "tags None (x @ CHR ''<'' # s) = tags None (x' @ CHR ''<'' # s')"
    using hole.IH [of None] tags_text [OF hole.hyps(2)] tags_text [OF hole.hyps(3)] by simp
  then show ?case by (cases cur) simp_all
qed simp

section \<open>Searching in them\<close>

lemma prefix_same:
  "same_markup s s' \<Longrightarrow> CHR ''>'' \<notin> set (butlast q) \<Longrightarrow> go_HasPrefix s q = go_HasPrefix s' q"
proof (induction q arbitrary: s s')
  case (Cons d q)
  from Cons.prems(1) show ?case
  proof cases
    case (char t t' c)
    then show ?thesis using Cons by (cases "q = []") auto
  next
    case (hole t t' x x')
    then show ?thesis using Cons.prems(2) by (cases "q = []") auto
  qed simp
qed simp

text \<open>The searched text: a tag.\<close>

definition a_tag :: "string \<Rightarrow> bool" where
  "a_tag q \<longleftrightarrow> (\<exists>w. q = CHR ''<'' # w @ [CHR ''>''] \<and> no_angle w)"

lemma a_tag_prefix: "a_tag q \<Longrightarrow> CHR ''>'' \<notin> set (butlast q)"
  by (auto simp: a_tag_def butlast_append no_angle_def)

lemma a_tag_start: "a_tag q \<Longrightarrow> c \<noteq> CHR ''<'' \<Longrightarrow> \<not> go_HasPrefix (c # s) q"
  by (auto simp: a_tag_def)

lemma contains_text: "a_tag q \<Longrightarrow> no_angle x \<Longrightarrow> go_Contains (x @ s) q = go_Contains s q"
  by (induction x) (auto simp: a_tag_start)

lemma contains_same: "same_markup s s' \<Longrightarrow> a_tag q \<Longrightarrow> go_Contains s q = go_Contains s' q"
proof (induction rule: same_markup.induct)
  case (char s s' c)
  then show ?case using prefix_same [OF same_markup.char [OF char.hyps, of c] a_tag_prefix] by simp
next
  case (hole s s' x x')
  then show ?case by (simp add: contains_text a_tag_start del: go_Contains.simps(2)) (simp add: a_tag_start contains_text)
qed simp

lemma replace_first_text:
  "a_tag q \<Longrightarrow> no_angle x \<Longrightarrow> replace_first (x @ s) q n = x @ replace_first s q n"
  by (induction x) (auto simp: a_tag_start)

lemma replace_first_tag: "\<exists>u. replace_first (CHR ''<'' # s) q (CHR ''<'' # n) = CHR ''<'' # u"
  by simp

lemma replace_first_same:
  assumes "same_markup s s'" and "a_tag q" and "same_markup (CHR ''<'' # n) (CHR ''<'' # n')"
  shows "same_markup (replace_first s q ((CHR ''<'' # n) @ q)) (replace_first s' q ((CHR ''<'' # n') @ q))"
  using assms(1)
proof (induction rule: same_markup.induct)
  case (char s s' c)
  have same: "same_markup (c # s) (c # s')" by (rule same_markup.char [OF char.hyps])
  note pre = prefix_same [OF same a_tag_prefix [OF assms(2)]]
  have put: "((CHR ''<'' # k) @ q) @ drop (length q) t = (CHR ''<'' # k) @ t" if "go_HasPrefix t q" for k t
    using that by (auto simp: go_HasPrefix_iff)
  show ?case
  proof (cases "go_HasPrefix (c # s) q")
    case True
    with pre have "go_HasPrefix (c # s') q" by simp
    with True show ?thesis
      using same_append [OF assms(3) same] put [OF True] put [of "c # s'"] by simp
  next
    case False
    with pre show ?thesis using char.IH by (simp add: same_markup.char)
  qed
next
  case (hole s s' x x')
  obtain u where u: "replace_first (CHR ''<'' # s) q ((CHR ''<'' # n) @ q) = CHR ''<'' # u"
    using replace_first_tag [of s q "n @ q"] by auto
  obtain u' where u': "replace_first (CHR ''<'' # s') q ((CHR ''<'' # n') @ q) = CHR ''<'' # u'"
    using replace_first_tag [of s' q "n' @ q"] by auto
  have pull: "replace_first (CHR ''>'' # y @ t) q k = CHR ''>'' # y @ replace_first t q k" if "no_angle y" for y t k
    using a_tag_start [OF assms(2), of "CHR ''>''"] replace_first_text [OF assms(2) that] by simp
  show ?case
    unfolding pull [OF hole.hyps(2)] pull [OF hole.hyps(3)] u u'
    by (rule same_markup.hole [OF hole.IH [unfolded u u'] hole.hyps(2,3)])
qed simp

lemma replace_all_same: "same_markup t t' \<Longrightarrow> same_markup (replace_all r t pr s) (replace_all r t' pr s)"
  by (induction r t pr s rule: replace_all.induct)
    (auto split: option.split intro: same_append same_markup.char)

section \<open>Escaping\<close>

lemma angle_codes: "code CHR ''<'' = 60" "code CHR ''>'' = 62"
  by (simp_all add: code_def)

lemma no_angle_code: "no_angle [c] \<longleftrightarrow> code c \<noteq> 60 \<and> code c \<noteq> 62"
  using angle_codes code_eq_iff [of c "CHR ''<''"] code_eq_iff [of c "CHR ''>''"] by auto

lemma byte_no_angle: "n < 256 \<Longrightarrow> no_angle (byte n # s) \<longleftrightarrow> n \<noteq> 60 \<and> n \<noteq> 62 \<and> no_angle s"
  using no_angle_code [of "byte n"] by (metis no_angle_simps(1) no_angle_simps(2) code_byte)

lemma no_angle_consts: "byte 92 \<noteq> CHR ''<''" "byte 92 \<noteq> CHR ''>''" "byte 34 \<noteq> CHR ''<''" "byte 34 \<noteq> CHR ''>''"
  using byte_no_angle [of 92 "[]"] byte_no_angle [of 34 "[]"] by simp_all

lemma EscapeString_no_angle: "no_angle (EscapeString s)"
  by (simp add: EscapeString_def no_angle_concat html_char_def)

lemma branding_rune_bytes:
  "decode_rune (c # u) = (r, w) \<Longrightarrow> (r < 128 \<and> w = 1 \<and> code c = r) \<or> (128 \<le> r \<and> list_all (\<lambda>x. 128 \<le> code x) (take w (c # u)))"
  by (cases u; cases "tl u"; cases "tl (tl u)") (auto simp: Let_def is_cont_def split: if_splits)

lemma rune_segs_bytes:
  "(r, bs) \<in> set (rune_segs s) \<Longrightarrow> (r < 128 \<and> bs = [byte r]) \<or> (128 \<le> r \<and> list_all (\<lambda>x. 128 \<le> code x) bs)"
proof (induction s rule: rune_segs.induct)
  case (2 c u)
  obtain r' w where d: "decode_rune (c # u) = (r', w)" by (cases "decode_rune (c # u)")
  then consider "(r, bs) = (r', take w (c # u))" | "(r, bs) \<in> set (rune_segs (drop (w - 1) u))"
    using 2(2) by (auto simp del: decode_rune.simps(2))
  then show ?case
  proof cases
    case 1
    with branding_rune_bytes [OF d] show ?thesis by (auto simp del: decode_rune.simps(2))
  next
    case two: 2
    from 2(1) [OF d [symmetric] refl two] show ?thesis .
  qed
qed simp

lemma high_no_angle: "list_all (\<lambda>x. 128 \<le> code x) bs \<Longrightarrow> no_angle bs"
proof (induction bs)
  case (Cons c bs)
  then show ?case using no_angle_code [of c] by auto
qed simp

lemma hex_digit_no_angle: "n < 16 \<Longrightarrow> no_angle [hex_digit n]"
  unfolding no_angle_code hex_digit_def by (cases "n < 10") auto

lemma json_rune_no_angle:
  assumes "seg \<in> set (rune_segs s)"
  shows "no_angle (json_rune seg)"
proof -
  obtain r bs where seg: "seg = (r, bs)" by (cases seg)
  from assms consider "r < 128" "bs = [byte r]" | "128 \<le> r" "no_angle bs"
    using rune_segs_bytes [of r bs s] high_no_angle [of bs] unfolding seg by blast
  then show ?thesis
  proof cases
    case 1
    have "r div 16 < 16" "r mod 16 < 16" using 1 by auto
    then have "no_angle [hex_digit (r div 16)]" "no_angle [hex_digit (r mod 16)]"
      by (simp_all only: hex_digit_no_angle)
    moreover have "no_angle [byte r] \<longleftrightarrow> r \<noteq> 60 \<and> r \<noteq> 62"
      using 1 byte_no_angle [of r "[]"] by simp
    ultimately show ?thesis using 1 by (auto simp: seg json_rune_def no_angle_consts)
  next
    case 2
    have "no_angle [hex_digit (r mod 16)]" by (rule hex_digit_no_angle) simp
    with 2 show ?thesis by (auto simp: seg json_rune_def no_angle_consts)
  qed
qed

lemma json_string_no_angle: "no_angle (json_string s)"
  unfolding json_string_def
  by (simp add: no_angle_concat json_rune_no_angle no_angle_consts)

lemma json_branding_no_angle: "no_angle (json_branding b)"
  by (simp add: json_branding_def json_string_no_angle)

section \<open>The page\<close>

lemma title_same: "same_markup (title_text b) (title_text b')"
  using same_text [of "EscapeString (br_HTMLTitle b)" "EscapeString (br_HTMLTitle b')" "''/title>''"]
  by (simp add: title_text_def EscapeString_no_angle same_markup.char)

lemma script_same: "same_markup (boot_script b) (boot_script b')"
  using same_text [of "''window.__KWRTNET_BRANDING__='' @ json_branding b @ '';''"
      "''window.__KWRTNET_BRANDING__='' @ json_branding b' @ '';''" "''/script>''"]
  by (simp add: boot_script_def json_branding_no_angle same_markup.char)

text \<open>C14: Branding adds no markup: for every page and every two brandings, hostile ones included, the two pages that are
  served have the same tags; a branding cannot close its element, open another one, or change an attribute.\<close>

theorem branding_adds_no_markup:
  "tags None (InjectBranding b index) = tags None (InjectBranding b' index)"
proof (rule tags_same)
  let ?s = "\<lambda>b. replace_all titleRe (title_text b) None index"
  have head: "a_tag ''</head>''"
    unfolding a_tag_def by (rule exI [of _ "''/head''"]) simp
  have s: "same_markup (?s b) (?s b')" by (rule replace_all_same [OF title_same])
  obtain n where n: "\<And>b. boot_script b = CHR ''<'' # n b"
    by (simp add: boot_script_def)
  have script: "same_markup (CHR ''<'' # n b) (CHR ''<'' # n b')" using script_same [of b b'] by (simp add: n)
  show "same_markup (InjectBranding b index) (InjectBranding b' index)"
    unfolding InjectBranding_def Let_def contains_same [OF s head] n
    using replace_first_same [OF s head script] same_append [OF script s] by simp
qed

end
