(* ===== verification/SelfUpdate.thy ===== *)
theory SelfUpdate
  imports Access UciRun
begin

text \<open>
  internal/selfupdate and internal/api/update.go: which release is the newest, whether it is newer than the running
  one, how the daemon is deployed, and the command that replaces it (Unix). The world \<open>'w\<close> answers requests and
  commands: \<open>um_get\<close> sends a request (an error, or the status with the decoded body), \<open>um_run\<close> runs a command to its end
  and \<open>um_start\<close> starts one and lets it go. The log of an update is \<open>up_log\<close>; what the started program appends to it
  is not followed. Messages for the user are glosses.
\<close>

section \<open>Data\<close>

record Release =
  re_Tag :: string
  re_Changelog :: string
  re_HTMLURL :: string
  re_PublishedAt :: string

record 'w machine =
  um_get :: "string \<Rightarrow> 'w \<Rightarrow> (err + nat \<times> Release option) \<times> 'w"
  um_run :: "string list \<Rightarrow> 'w \<Rightarrow> (string \<times> bool) \<times> 'w"
  um_start :: "string list \<Rightarrow> 'w \<Rightarrow> err option \<times> 'w"
  um_goos :: string
  um_file :: "string \<Rightarrow> bool"
  um_dir :: "string \<Rightarrow> bool"
  um_exec :: "string \<Rightarrow> bool"
  um_read :: "string \<Rightarrow> string option"
  um_writable :: bool
  um_tempdir :: string

record updater =
  up_Repo :: string
  up_InstallShURL :: string
  up_DataDir :: string
  up_cached :: "Release option"
  up_cachedAt :: int
  up_log :: "string option"

definition trimmedEnv :: "(string \<Rightarrow> string) \<Rightarrow> string \<Rightarrow> string \<Rightarrow> string" where
  "trimmedEnv env key d = (if go_TrimSpace (env key) \<noteq> [] then go_TrimSpace (env key) else d)"

definition newUpdater :: "(string \<Rightarrow> string) \<Rightarrow> string \<Rightarrow> string option \<Rightarrow> updater" where
  "newUpdater env dataDir log = \<lparr>up_Repo = ''nue-mic/kwrt-net-manager'',
     up_InstallShURL = trimmedEnv env ''KWRTNET_INSTALL_SH_URL''
       ''https://raw.githubusercontent.com/nue-mic/kwrt-net-manager/main/scripts/install.sh'',
     up_DataDir = dataDir, up_cached = None, up_cachedAt = 0, up_log = log\<rparr>"

section \<open>The newest release\<close>

definition cacheTTL :: int where
  "cacheTTL = 3600 * 1000000000"

definition apiMirrors :: "string list" where
  "apiMirrors = [''https://gh-proxy.com/'', ''https://ghfast.top/'']"

definition prefixMirrors :: "string \<Rightarrow> string list" where
  "prefixMirrors u = map (\<lambda>m. m @ u) apiMirrors"

definition fetchOne :: "'w machine \<Rightarrow> string \<Rightarrow> 'w \<Rightarrow> (err + Release) \<times> 'w" where
  "fetchOne M url w = (case um_get M url w of
     (Inl e, w') \<Rightarrow> (Inl e, w')
   | (Inr (status, body), w') \<Rightarrow>
       ((if status \<noteq> 200 then Inl (ErrFmt ''unexpected status'' [url])
         else case body of
             None \<Rightarrow> Inl (Err ''the body is not a release'')
           | Some rel \<Rightarrow> if go_TrimSpace (re_Tag rel) = [] then Inl (Err ''empty tag_name in release response'') else Inr rel), w'))"

fun fetch_first :: "'w machine \<Rightarrow> err \<Rightarrow> string list \<Rightarrow> 'w \<Rightarrow> (err + Release) \<times> 'w" where
  "fetch_first M prev [] w = (Inl prev, w)"
| "fetch_first M prev (u # us) w = (case fetchOne M u w of
     (Inr rel, w') \<Rightarrow> (Inr rel, w') | (Inl e, w') \<Rightarrow> fetch_first M e us w')"

definition fetchLatest :: "'w machine \<Rightarrow> updater \<Rightarrow> 'w \<Rightarrow> (err + Release) \<times> 'w" where
  "fetchLatest M u =
     (let base = ''https://api.github.com/repos/'' @ up_Repo u @ ''/releases/latest''
      in fetch_first M (Err ''no url'') (base # prefixMirrors base))"

text \<open>\<open>now\<close> is the time of the call and \<open>later\<close> that of the answer.\<close>

definition CheckLatest :: "'w machine \<Rightarrow> int \<Rightarrow> int \<Rightarrow> bool \<Rightarrow> updater \<times> 'w \<Rightarrow> (err + Release) \<times> updater \<times> 'w" where
  "CheckLatest M now later force x = (case x of (u, w) \<Rightarrow>
     (case up_cached u of
        Some r \<Rightarrow>
          if \<not> force \<and> now - up_cachedAt u < cacheTTL then (Inr r, u, w)
          else (case fetchLatest M u w of
              (Inl e, w') \<Rightarrow> (Inr r, u, w')
            | (Inr rel, w') \<Rightarrow> (Inr rel, u\<lparr>up_cached := Some rel, up_cachedAt := later\<rparr>, w'))
      | None \<Rightarrow> (case fetchLatest M u w of
            (Inl e, w') \<Rightarrow> (Inl e, u, w')
          | (Inr rel, w') \<Rightarrow> (Inr rel, u\<lparr>up_cached := Some rel, up_cachedAt := later\<rparr>, w'))))"

section \<open>Versions\<close>

text \<open>\<open>strings.SplitN\<close> with a one-byte separator, for a positive count.\<close>

fun go_SplitN :: "nat \<Rightarrow> string \<Rightarrow> char \<Rightarrow> string list" where
  "go_SplitN 0 s d = [s]"
| "go_SplitN (Suc 0) s d = [s]"
| "go_SplitN (Suc (Suc n)) s d = (case go_Cut s d of (a, b, found) \<Rightarrow> if found then a # go_SplitN (Suc n) b d else [s])"

text \<open>\<open>n, _ := strconv.Atoi(s)\<close> is \<open>parse_clamped s\<close>.\<close>

definition parseVer :: "string \<Rightarrow> int \<times> int \<times> int" where
  "parseVer v =
     (let s = go_TrimPrefix (go_TrimSpace v) ''v'';
          s = takeWhile (\<lambda>c. c \<notin> set ''-+ '') s;
          parts = map (\<lambda>p. parse_clamped (go_TrimSpace p)) (go_SplitN 3 s CHR ''.'');
          part = (\<lambda>i. if i < length parts then parts ! i else 0)
      in (part 0, part 1, part 2))"

definition CompareVersions :: "string \<Rightarrow> string \<Rightarrow> int" where
  "CompareVersions a b = (case (parseVer a, parseVer b) of ((a0, a1, a2), (b0, b1, b2)) \<Rightarrow>
     if a0 \<noteq> b0 then (if a0 < b0 then -1 else 1)
     else if a1 \<noteq> b1 then (if a1 < b1 then -1 else 1)
     else if a2 \<noteq> b2 then (if a2 < b2 then -1 else 1)
     else 0)"

definition HasUpdate :: "string \<Rightarrow> string \<Rightarrow> bool" where
  "HasUpdate current latest \<longleftrightarrow> CompareVersions current latest < 0"

section \<open>Deployment\<close>

datatype mode = ModeDocker | ModeSystemd | ModeOpenRC | ModeLaunchd | ModeWindowsService | ModeManual

definition isDocker :: "'w machine \<Rightarrow> bool" where
  "isDocker M \<longleftrightarrow> um_file M ''/.dockerenv'' \<or>
     (case um_read M ''/proc/1/cgroup'' of
        Some s \<Rightarrow> go_Contains s ''docker'' \<or> go_Contains s ''containerd'' | None \<Rightarrow> False)"

definition DetectDeployment :: "'w machine \<Rightarrow> mode" where
  "DetectDeployment M =
     (if isDocker M then ModeDocker
      else if um_goos M = ''windows'' then ModeWindowsService
      else if um_goos M = ''darwin'' then
        (if um_file M ''/Library/LaunchDaemons/com.miaclark.kwrtmgrd.plist'' then ModeLaunchd else ModeManual)
      else if um_dir M ''/run/systemd/system'' then ModeSystemd
      else if um_exec M ''rc-service'' \<or> um_exec M ''openrc'' then ModeOpenRC
      else ModeManual)"

definition CanSelfUpdate :: "mode \<Rightarrow> err option" where
  "CanSelfUpdate m = (case m of
     ModeDocker \<Rightarrow> Some (Err ''a container cannot update itself'')
   | ModeManual \<Rightarrow> Some (Err ''no service manager was detected'')
   | _ \<Rightarrow> None)"

section \<open>The command\<close>

text \<open>\<open>filepath.Join\<close> of a data directory that is clean already.\<close>

definition logPath :: "'w machine \<Rightarrow> updater \<Rightarrow> string" where
  "logPath M u = (if up_DataDir u = [] then um_tempdir M else up_DataDir u) @ ''/update.log''"

definition shellQuote :: "string \<Rightarrow> string" where
  "shellQuote s = [byte 39] @ go_ReplaceByte s (byte 39) [byte 39, byte 92, byte 39, byte 39] @ [byte 39]"

definition buildUnixUpdateCmd :: "'w machine \<Rightarrow> updater \<Rightarrow> string \<Rightarrow> string" where
  "buildUnixUpdateCmd M u target =
     (let v = go_TrimSpace target;
          args = ''--update --force'' @ (if v \<noteq> [] then '' -v '' @ shellQuote v else []);
          url = shellQuote (up_InstallShURL u);
          log = shellQuote (logPath M u)
      in ''sleep 2; { if command -v curl >/dev/null 2>&1; then curl -fsSL '' @ url @ ''; else wget -qO- '' @ url @
         ''; fi; } | sh -s -- '' @ args @ '' >> '' @ log @ '' 2>&1'')"

definition systemdRunSupportsCollect :: "'w machine \<Rightarrow> 'w \<Rightarrow> bool \<times> 'w" where
  "systemdRunSupportsCollect M w = (case um_run M [''systemd-run'', ''--help''] w of
     ((out, ok), w') \<Rightarrow> (ok \<and> go_Contains out ''--collect'', w'))"

text \<open>\<open>nano\<close> is the clock, which makes the name of the second unit.\<close>

definition spawnUpdater :: "'w machine \<Rightarrow> int \<Rightarrow> updater \<Rightarrow> mode \<Rightarrow> string \<Rightarrow> 'w \<Rightarrow> err option \<times> 'w" where
  "spawnUpdater M nano u m target w =
     (let cmd = buildUnixUpdateCmd M u target in
      if m = ModeSystemd \<and> um_exec M ''systemd-run'' then
        (case systemdRunSupportsCollect M w of (collect, w1) \<Rightarrow>
         (let run = (\<lambda>unit. um_run M ([''systemd-run''] @ (if collect then [''--collect''] else []) @
                [''--unit'', unit, ''/bin/sh'', ''-c'', cmd]));
              w2 = snd (um_run M [''systemctl'', ''stop'', ''kwrtmgrd-selfupdate.service''] w1);
              w3 = snd (um_run M [''systemctl'', ''reset-failed'', ''kwrtmgrd-selfupdate.service''] w2)
          in case run ''kwrtmgrd-selfupdate'' w3 of ((out, ok), w4) \<Rightarrow>
             (case (if \<not> ok \<and> go_Contains out ''already exists''
                then run (''kwrtmgrd-selfupdate-'' @ go_Itoa nano) w4 else ((out, ok), w4)) of
                ((out, ok), w5) \<Rightarrow> (if ok then None else Some (ErrFmt ''systemd-run failed'' [go_TrimSpace out]), w5))))
      else um_start M [''/bin/sh'', ''-c'', cmd] w)"

definition StartUpdate :: "'w machine \<Rightarrow> int \<Rightarrow> string \<Rightarrow> updater \<times> 'w \<Rightarrow> err option \<times> updater \<times> 'w" where
  "StartUpdate M nano target x = (case x of (u, w) \<Rightarrow>
     (let m = DetectDeployment M in case CanSelfUpdate m of
        Some e \<Rightarrow> (Some e, u, w)
      | None \<Rightarrow> (case spawnUpdater M nano u m target w of (r, w') \<Rightarrow> (r, u, w'))))"

definition ResetLog :: "'w machine \<Rightarrow> string \<Rightarrow> string \<Rightarrow> updater \<Rightarrow> updater" where
  "ResetLog M from_v to_v u =
     (if um_writable M then u\<lparr>up_log := Some (''[*] update: '' @ from_v @ '' -> '' @ to_v @ [byte 10])\<rparr> else u)"

definition ReadLog :: "updater \<Rightarrow> string" where
  "ReadLog u = (case up_log u of None \<Rightarrow> []
     | Some b \<Rightarrow> if length b > 65536 then drop (length b - 65536) b else b)"

section \<open>api/update.go\<close>

record CheckView =
  ck_latest :: "Release option"
  ck_has_update :: bool
  ck_self_update_enabled :: bool
  ck_can_self_update :: bool

definition api_Check :: "'w machine \<Rightarrow> int \<Rightarrow> int \<Rightarrow> string \<Rightarrow> bool \<Rightarrow> (string \<Rightarrow> string) \<Rightarrow> updater \<times> 'w \<Rightarrow> CheckView reply \<times> updater \<times> 'w" where
  "api_Check M now later current enabled q x =
     (let force = (q ''force'' = ''1'' \<or> q ''refresh'' = ''1''); can = (CanSelfUpdate (DetectDeployment M) = None) in
      case CheckLatest M now later force x of
        (Inl e, y) \<Rightarrow> (Reply 200 \<lparr>ck_latest = None, ck_has_update = False, ck_self_update_enabled = enabled,
            ck_can_self_update = False\<rparr>, y)
      | (Inr rel, y) \<Rightarrow> (Reply 200 \<lparr>ck_latest = Some rel, ck_has_update = HasUpdate current (re_Tag rel),
            ck_self_update_enabled = enabled, ck_can_self_update = can \<and> enabled\<rparr>, y))"

text \<open>The answer 202 carries the running and the target version.\<close>

definition api_Update :: "'w machine \<Rightarrow> int \<Rightarrow> int \<Rightarrow> int \<Rightarrow> string \<Rightarrow> bool \<Rightarrow> (string \<Rightarrow> string) \<Rightarrow> updater \<times> 'w \<Rightarrow>
    (string \<times> string) reply \<times> updater \<times> 'w" where
  "api_Update M now later nano current enabled q x =
     (if \<not> enabled then (Refusal 403 CodeForbidden (ErrorText (Err ''self-update is disabled'')), x)
      else (case CanSelfUpdate (DetectDeployment M) of
        Some reason \<Rightarrow> (Refusal 400 CodeInvalidState (ErrorText reason), x)
      | None \<Rightarrow> (case CheckLatest M now later False x of
          (Inl e, y) \<Rightarrow> (Refusal 502 CodeUpstreamFailure (Prefixed ''query latest release failed: '' e), y)
        | (Inr rel, (u, w)) \<Rightarrow>
            if \<not> HasUpdate current (re_Tag rel) \<and> q ''force'' \<noteq> ''1''
            then (Refusal 409 CodeConflict (ErrorText (ErrFmt ''this is the newest version'' [current])), (u, w))
            else (case StartUpdate M nano (re_Tag rel) (ResetLog M current (re_Tag rel) u, w) of
                (Some e, z) \<Rightarrow> (Refusal 500 CodeInternal (Prefixed ''the update could not be started'' e), z)
              | (None, z) \<Rightarrow> (Reply 202 (current, re_Tag rel), z)))))"

end
