(* ===== verification/SelfUpdateProps.thy ===== *)
theory SelfUpdateProps
  imports SelfUpdate "HOL-Library.Product_Lexorder"
begin

text \<open>
  Properties of the self-update: the order of versions, the cache of the newest release, when an update is started, and
  the words of its command.
\<close>

section \<open>The words of a shell command\<close>

text \<open>
  How a POSIX shell reads words: blanks and newlines end a word, single quotes keep every character, a backslash outside
  of them keeps the next one. A character is kept with whether it was quoted; an operator is an unquoted character. A
  command that ends within quotes has no words.
\<close>

type_synonym word_chars = "(bool \<times> char) list"

fun sh_words :: "bool \<Rightarrow> word_chars option \<Rightarrow> string \<Rightarrow> word_chars list" where
  "sh_words True cur [] = []"
| "sh_words True cur (c # s) =
     (if c = CHR 0x27 then sh_words False (Some (case cur of None \<Rightarrow> [] | Some w \<Rightarrow> w)) s
      else sh_words True (Some ((case cur of None \<Rightarrow> [] | Some w \<Rightarrow> w) @ [(True, c)])) s)"
| "sh_words False cur [] = (case cur of None \<Rightarrow> [] | Some w \<Rightarrow> [w])"
| "sh_words False cur [c] =
     (if c = CHR '' '' \<or> c = CHR 0x0A \<or> c = CHR 0x09 then (case cur of None \<Rightarrow> [] | Some w \<Rightarrow> [w])
      else if c = CHR 0x27 then []
      else [(case cur of None \<Rightarrow> [] | Some w \<Rightarrow> w) @ [(False, c)]])"
| "sh_words False cur (c # d # s) =
     (if c = CHR '' '' \<or> c = CHR 0x0A \<or> c = CHR 0x09 then
        (case cur of None \<Rightarrow> sh_words False None (d # s) | Some w \<Rightarrow> w # sh_words False None (d # s))
      else if c = CHR 0x27 then sh_words True (Some (case cur of None \<Rightarrow> [] | Some w \<Rightarrow> w)) (d # s)
      else if c = CHR 0x5C then sh_words False (Some ((case cur of None \<Rightarrow> [] | Some w \<Rightarrow> w) @ [(True, d)])) s
      else sh_words False (Some ((case cur of None \<Rightarrow> [] | Some w \<Rightarrow> w) @ [(False, c)])) (d # s))"

definition bare :: "string \<Rightarrow> word_chars" where
  "bare s = map (Pair False) s"

definition kept :: "string \<Rightarrow> word_chars" where
  "kept s = map (Pair True) s"

lemma shell_bytes: "byte 39 = CHR 0x27" "byte 92 = CHR 0x5C"
  by (simp_all add: eval_simps)

lemma quote_starts: "sh_words False cur (CHR 0x27 # s) = sh_words True (Some (case cur of None \<Rightarrow> [] | Some w \<Rightarrow> w)) s"
  by (cases s) simp_all

lemma bare_step: "c \<noteq> CHR 0x27 \<Longrightarrow> c \<noteq> CHR 0x5C \<Longrightarrow> sh_words False cur (c # s) =
    (if c = CHR '' '' \<or> c = CHR 0x0A \<or> c = CHR 0x09
     then (case cur of None \<Rightarrow> sh_words False None s | Some w \<Rightarrow> w # sh_words False None s)
     else sh_words False (Some ((case cur of None \<Rightarrow> [] | Some w \<Rightarrow> w) @ [(False, c)])) s)"
  by (cases s) (simp_all split: option.split)

lemma within_quotes:
  "sh_words True (Some w) (go_ReplaceByte s (byte 39) [byte 39, byte 92, byte 39, byte 39] @ CHR 0x27 # t) =
    sh_words False (Some (w @ kept s)) t"
proof (induction s arbitrary: w)
  case (Cons c s)
  then show ?case
    by (cases "c = CHR 0x27") (simp_all add: go_ReplaceByte_def kept_def shell_bytes quote_starts)
qed (simp add: go_ReplaceByte_def kept_def)

lemma shellQuote_word:
  "sh_words False cur (shellQuote s @ t) = sh_words False (Some ((case cur of None \<Rightarrow> [] | Some w \<Rightarrow> w) @ kept s)) t"
proof -
  have "shellQuote s @ t = CHR 0x27 # (go_ReplaceByte s (byte 39) [byte 39, byte 92, byte 39, byte 39] @ CHR 0x27 # t)"
    by (simp add: shellQuote_def shell_bytes(1))
  then show ?thesis by (simp only: quote_starts within_quotes)
qed

text \<open>C13: Whatever the tag of the release, the installer's address and the data directory are, the command of an update has
  the same words and operators: each of the three is one word, and every one of its characters is quoted.\<close>

theorem update_command_words:
  "sh_words False None (buildUnixUpdateCmd M u target) =
     map bare [''sleep'', ''2;'', ''{'', ''if'', ''command'', ''-v'', ''curl'', ''>/dev/null'', ''2>&1;'', ''then'', ''curl'', ''-fsSL''] @
     [kept (up_InstallShURL u) @ bare '';''] @ map bare [''else'', ''wget'', ''-qO-''] @
     [kept (up_InstallShURL u) @ bare '';''] @ map bare [''fi;'', ''}'', ''|'', ''sh'', ''-s'', ''--'', ''--update'', ''--force''] @
     (if go_TrimSpace target = [] then [] else [bare ''-v'', kept (go_TrimSpace target)]) @
     [bare ''>>'', kept (logPath M u), bare ''2>&1'']"
  by (simp add: buildUnixUpdateCmd_def Let_def shellQuote_word bare_step bare_def del: sh_words.simps(4,5))

section \<open>Versions\<close>

definition version_text :: "nat \<times> nat \<times> nat \<Rightarrow> string" where
  "version_text v = (case v of (a, b, c) \<Rightarrow> go_nat_str a @ ''.'' @ go_nat_str b @ ''.'' @ go_nat_str c)"

lemma parse_clamped_nat:
  assumes "n < 2 ^ 63"
  shows "parse_clamped (go_nat_str n) = int n"
proof -
  obtain c cs where c: "go_nat_str n = c # cs" using go_nat_str_not_Nil by (cases "go_nat_str n") auto
  then have "is_digit c" using go_nat_str_digits [of n] by simp
  then have "c \<noteq> CHR ''-''" "c \<noteq> CHR ''+''" by (auto simp: eval_simps)
  moreover have "digits_val 0 (c # cs) = Some n" using digits_val_nat_str [of n] c by simp
  ultimately show ?thesis using assms unfolding c by (simp add: parse_clamped_def go_ParseInt_def del: digits_val.simps)
qed

lemma no_digits: "\<not> is_digit CHR ''-''" "\<not> is_digit CHR ''+''" "\<not> is_digit CHR '' ''"
  by (simp_all add: eval_simps)

lemma dot_no_digit: "\<not> is_digit CHR ''.''"
  by (simp add: eval_simps)

lemma split_version: "go_SplitN 3 (version_text (a, b, c)) CHR ''.'' = [go_nat_str a, go_nat_str b, go_nat_str c]"
  using nat_str_no [OF dot_no_digit]
  by (simp add: version_text_def numeral_3_eq_3 go_Cut_def go_IndexByte_append)

lemma version_chars: "x \<in> set (version_text v) \<Longrightarrow> is_digit x \<or> x = CHR ''.''"
  using go_nat_str_digits by (cases v) (auto simp: version_text_def)

lemma plain_version: "plain (version_text v)"
  by (cases v) (simp add: version_text_def code_def)

lemma parseVer_text:
  assumes "pre \<in> {[], ''v''}" and "plain suf" and "suf = [] \<or> hd suf \<in> {CHR ''-'', CHR ''+''}"
    and "a < 2 ^ 63" and "b < 2 ^ 63" and "c < 2 ^ 63"
  shows "parseVer (pre @ version_text (a, b, c) @ suf) = (int a, int b, int c)"
proof -
  let ?v = "version_text (a, b, c)"
  have head: "go_TrimPrefix (pre @ ?v @ suf) ''v'' = ?v @ suf"
  proof (cases "pre = []")
    case True
    obtain d ds where d: "?v = d # ds" by (cases "go_nat_str a") (auto simp: version_text_def)
    then have "d \<noteq> CHR ''v''" using version_chars [of d "(a, b, c)"] by (auto simp: eval_simps)
    with True d show ?thesis by (simp add: go_TrimPrefix_def)
  next
    case False
    with assms(1) show ?thesis by (simp add: go_TrimPrefix_def)
  qed
  have "plain (pre @ ?v @ suf)" using assms(1,2) plain_version [of "(a, b, c)"] by (auto simp: code_def)
  then have trim: "go_TrimSpace (pre @ ?v @ suf) = pre @ ?v @ suf" by (rule go_TrimSpace_plain)
  have sep: "\<forall>x \<in> set ?v. x \<notin> set ''-+ ''"
    using version_chars [of _ "(a, b, c)"] no_digits by fastforce
  have cut: "takeWhile (\<lambda>x. x \<notin> set ''-+ '') (?v @ suf) = ?v"
    using sep assms(3) by (cases suf) (auto simp: takeWhile_append)
  show ?thesis
    using assms(4-6) unfolding parseVer_def Let_def trim head cut split_version
    by (simp add: parse_clamped_nat go_TrimSpace_plain)
qed

text \<open>C26: For versions of three numbers below 2^63, with or without a \<open>v\<close> before and a pre-release or build suffix after
  them, a release is an update exactly if its numbers are greater, compared in order.\<close>

theorem update_is_newer:
  assumes "{pre, pre'} \<subseteq> {[], ''v''}" and "\<forall>s \<in> {suf, suf'}. plain s \<and> (s = [] \<or> hd s \<in> {CHR ''-'', CHR ''+''})"
    and "\<forall>n \<in> {a, b, c, a', b', c'}. n < 2 ^ 63"
  shows "HasUpdate (pre @ version_text (a, b, c) @ suf) (pre' @ version_text (a', b', c') @ suf') \<longleftrightarrow> (a, b, c) < (a', b', c')"
proof -
  have "parseVer (pre @ version_text (a, b, c) @ suf) = (int a, int b, int c)"
    using assms by (intro parseVer_text) auto
  moreover have "parseVer (pre' @ version_text (a', b', c') @ suf') = (int a', int b', int c')"
    using assms by (intro parseVer_text) auto
  ultimately show ?thesis by (auto simp: HasUpdate_def CompareVersions_def less_prod_def)
qed

theorem update_is_newer_witness:
  "HasUpdate ''0.0.60'' ''v0.1.2-rc1''"
  using update_is_newer [of "[]" "''v''" "[]" "''-rc1''" 0 0 60 0 1 2] by (simp add: version_text_def eval_simps code_def)

section \<open>The newest release\<close>

lemma fetchOne_tag: "fetchOne M u w = (Inr rel, w') \<Longrightarrow> go_TrimSpace (re_Tag rel) \<noteq> []"
  by (auto simp: fetchOne_def split: prod.splits sum.splits if_splits option.splits)

lemma fetch_first_tag: "fetch_first M e us w = (Inr rel, w') \<Longrightarrow> go_TrimSpace (re_Tag rel) \<noteq> []"
  by (induction M e us w rule: fetch_first.induct) (auto split: prod.splits sum.splits dest: fetchOne_tag)

lemma CheckLatest_cases:
  assumes "CheckLatest M now later force (u, w) = (r, u', w')"
  obtains (fresh) rel where "up_cached u = Some rel" "\<not> force" "now - up_cachedAt u < cacheTTL" "r = Inr rel" "u' = u" "w' = w"
  | (stale) e where "fetchLatest M u w = (Inl e, w')" "r = (case up_cached u of Some rel \<Rightarrow> Inr rel | None \<Rightarrow> Inl e)" "u' = u"
  | (fetched) rel where "fetchLatest M u w = (Inr rel, w')" "r = Inr rel" "u' = u\<lparr>up_cached := Some rel, up_cachedAt := later\<rparr>"
proof (cases "\<not> force \<and> now - up_cachedAt u < cacheTTL \<and> up_cached u \<noteq> None")
  case True
  then obtain rel where "up_cached u = Some rel" by blast
  with True assms show ?thesis by (intro fresh) (auto simp: CheckLatest_def)
next
  case False
  then have ask: "CheckLatest M now later force (u, w) = (case fetchLatest M u w of
      (Inl e, x) \<Rightarrow> (case up_cached u of Some rel \<Rightarrow> Inr rel | None \<Rightarrow> Inl e, u, x)
    | (Inr rel, x) \<Rightarrow> (Inr rel, u\<lparr>up_cached := Some rel, up_cachedAt := later\<rparr>, x))"
    by (cases "up_cached u") (auto simp: CheckLatest_def split: prod.split sum.split)
  obtain f x where f: "fetchLatest M u w = (f, x)" by (cases "fetchLatest M u w")
  show ?thesis
  proof (cases f)
    case (Inl e)
    with assms ask f have "r = (case up_cached u of Some rel \<Rightarrow> Inr rel | None \<Rightarrow> Inl e)" "u' = u" "w' = x" by auto
    with f Inl show ?thesis by (intro stale) simp_all
  next
    case (Inr rel)
    with assms ask f have "r = Inr rel" "u' = u\<lparr>up_cached := Some rel, up_cachedAt := later\<rparr>" "w' = x" by auto
    with f Inr show ?thesis by (intro fetched [of rel]) simp_all
  qed
qed

text \<open>Asking for the newest release fails only while none has been seen yet. Its answer is a release with a tag: one
  that was just fetched, or the last one seen, and then that one is less than an hour old or GitHub could not be
  reached; what is remembered afterwards is the answer.\<close>

theorem newest_release:
  assumes "CheckLatest M now later force (u, w) = (r, u', w')"
    and "\<forall>rel. up_cached u = Some rel \<longrightarrow> go_TrimSpace (re_Tag rel) \<noteq> []"
  shows "case r of
      Inl e \<Rightarrow> up_cached u = None \<and> u' = u
    | Inr rel \<Rightarrow> up_cached u' = Some rel \<and> go_TrimSpace (re_Tag rel) \<noteq> [] \<and>
        (fst (fetchLatest M u w) = Inr rel \<and> up_cachedAt u' = later \<or>
         u' = u \<and> (now - up_cachedAt u < cacheTTL \<and> \<not> force \<or> (\<exists>e. fst (fetchLatest M u w) = Inl e)))"
  using assms(1)
proof (cases rule: CheckLatest_cases)
  case (fetched rel)
  from fetched(1) have "go_TrimSpace (re_Tag rel) \<noteq> []"
    unfolding fetchLatest_def Let_def by (rule fetch_first_tag)
  with fetched show ?thesis by simp
qed (use assms(2) in \<open>auto split: option.split\<close>)

definition offline :: "nat machine" where
  "offline = \<lparr>um_get = (\<lambda>url w. (Inl (Err ''offline''), Suc w)), um_run = (\<lambda>argv w. (([], True), w)),
     um_start = (\<lambda>argv w. (None, w)), um_goos = ''linux'', um_file = (\<lambda>_. False), um_dir = (\<lambda>_. False),
     um_exec = (\<lambda>_. False), um_read = (\<lambda>_. None), um_writable = True, um_tempdir = ''/tmp''\<rparr>"

definition seen :: updater where
  "seen = (newUpdater (\<lambda>_. []) ''/data'' None)\<lparr>up_cached := Some \<lparr>re_Tag = ''v1.0.0'', re_Changelog = [], re_HTMLURL = [],
     re_PublishedAt = []\<rparr>\<rparr>"

lemma seen_tag: "up_cached seen = Some \<lparr>re_Tag = ''v1.0.0'', re_Changelog = [], re_HTMLURL = [], re_PublishedAt = []\<rparr>"
  "go_TrimSpace ''v1.0.0'' \<noteq> []"
  by (simp_all add: seen_def eval_simps)

theorem newest_release_witness:
  "\<exists>rel w. CheckLatest offline 0 0 True (seen, 0) = (Inr rel, seen, w) \<and> go_TrimSpace (re_Tag rel) \<noteq> []"
proof -
  obtain r u' w' where check: "CheckLatest offline 0 0 True (seen, 0) = (r, u', w')" by (metis prod_cases3)
  have down: "\<exists>e w. fetchLatest offline u v = (Inl e, w)" for u v
    by (simp add: fetchLatest_def prefixMirrors_def apiMirrors_def fetchOne_def offline_def Let_def)
  then have "fst (fetchLatest offline seen 0) \<noteq> Inr rel" for rel by (metis fst_conv sum.distinct(1))
  with newest_release [OF check] seen_tag check show ?thesis by (auto split: sum.splits)
qed

section \<open>When an update is started\<close>

text \<open>C22: The page starts an update only if self-update is enabled, the deployment allows it, and the newest release is
  newer than the running one or the request forces it: in every other case it has only asked for the newest release,
  and the log of the last update is untouched. An answer 202 names that release.\<close>

theorem update_started_only_if:
  assumes "api_Update M now later nano current enabled q (u, w) = (out, u', w')"
  defines "allowed \<equiv> enabled \<and> CanSelfUpdate (DetectDeployment M) = None"
    and "latest \<equiv> CheckLatest M now later False (u, w)"
  shows "(case (allowed, fst latest) of
      (True, Inr rel) \<Rightarrow>
        if HasUpdate current (re_Tag rel) \<or> q ''force'' = ''1''
        then (out = Reply 202 (current, re_Tag rel) \<or> (\<exists>e. out = Refusal 500 CodeInternal e))
        else (\<exists>e. out = Refusal 409 CodeConflict e) \<and> (u', w') = snd latest
    | (True, Inl e) \<Rightarrow> (\<exists>e. out = Refusal 502 CodeUpstreamFailure e) \<and> (u', w') = snd latest
    | (False, _) \<Rightarrow> (\<exists>st c e. out = Refusal st c e \<and> st \<in> {400, 403}) \<and> (u', w') = (u, w)) \<and>
    (up_log u' = up_log u \<or> (\<exists>rel. allowed \<and> fst latest = Inr rel \<and> (HasUpdate current (re_Tag rel) \<or> q ''force'' = ''1'')))"
proof -
  obtain r v x where check: "CheckLatest M now later False (u, w) = (r, v, x)" by (metis prod_cases3)
  have keep: "up_log v = up_log u" using check by (rule CheckLatest_cases) simp_all
  show ?thesis
  proof (cases allowed)
    case False
    then show ?thesis
      using assms(1) by (auto simp: allowed_def api_Update_def split: option.splits if_splits)
  next
    case True
    then have go: "api_Update M now later nano current enabled q (u, w) =
        (case r of Inl e \<Rightarrow> (Refusal 502 CodeUpstreamFailure (Prefixed ''query latest release failed: '' e), v, x)
         | Inr rel \<Rightarrow>
            if \<not> HasUpdate current (re_Tag rel) \<and> q ''force'' \<noteq> ''1''
            then (Refusal 409 CodeConflict (ErrorText (ErrFmt ''this is the newest version'' [current])), (v, x))
            else (case StartUpdate M nano (re_Tag rel) (ResetLog M current (re_Tag rel) v, x) of
                (Some e, z) \<Rightarrow> (Refusal 500 CodeInternal (Prefixed ''the update could not be started'' e), z)
              | (None, z) \<Rightarrow> (Reply 202 (current, re_Tag rel), z)))"
      by (simp add: api_Update_def allowed_def check split: sum.split)
    show ?thesis
    proof (cases r)
      case (Inl e)
      with assms(1) go True keep show ?thesis by (auto simp: latest_def check)
    next
      case (Inr rel)
      obtain e z where st: "StartUpdate M nano (re_Tag rel) (ResetLog M current (re_Tag rel) v, x) = (e, z)"
        by (metis prod.exhaust)
      show ?thesis
      proof (cases "HasUpdate current (re_Tag rel) \<or> q ''force'' = ''1''")
        case newer: True
        with assms(1) go Inr True st show ?thesis by (cases e) (auto simp: latest_def check)
      next
        case False
        with assms(1) go Inr True keep show ?thesis by (auto simp: latest_def check)
      qed
    qed
  qed
qed

lemma same_version: "\<not> HasUpdate ''1.0.0'' ''v1.0.0''"
  by (simp add: HasUpdate_def CompareVersions_def parseVer_def parse_clamped_def numeral_3_eq_3 Let_def eval_simps)

theorem update_started_only_if_witness:
  "\<exists>e w. api_Update (offline\<lparr>um_exec := \<lambda>_. True\<rparr>) 0 0 0 ''1.0.0'' True (\<lambda>_. []) (seen, 0) = (Refusal 409 CodeConflict e, seen, w)"
proof -
  let ?M = "offline\<lparr>um_exec := \<lambda>_. True\<rparr>"
  obtain out u' w' where run: "api_Update ?M 0 0 0 ''1.0.0'' True (\<lambda>_. []) (seen, 0) = (out, u', w')" by (metis prod_cases3)
  have "CanSelfUpdate (DetectDeployment ?M) = None"
    by (simp add: CanSelfUpdate_def DetectDeployment_def isDocker_def offline_def)
  moreover have "CheckLatest ?M 0 0 False (seen, 0) = (Inr (the (up_cached seen)), seen, 0)"
    by (simp add: CheckLatest_def seen_tag(1)) (simp add: seen_def newUpdater_def cacheTTL_def)
  ultimately show ?thesis
    using update_started_only_if [OF run] run same_version by (auto simp: seen_tag(1))
qed

end
