(* ===== verification/Storage.thy ===== *)
theory Storage
  imports BackupSched
begin

text \<open>
  internal/backup/s3.go, webdav.go and uploader.go: the storage of a channel over the clients of minio-go and gowebdav.
  The clients are parameters: what they do to the storage are actions on it. A listing of S3 is a list whose elements
  are objects or an error; \<open>ErrNotFound\<close> of a WebDAV call is what \<open>IsErrNotFound\<close> recognises. The recursion over the
  directories of a WebDAV server is bounded by fuel, as the server decides how deep they are.
\<close>

section \<open>Clients\<close>

record S3Options =
  so_Endpoint :: string
  so_AccessKeyID :: string
  so_SecretAccessKey :: string
  so_Secure :: bool
  so_Region :: string
  so_PathStyle :: bool

record 'w s3client =
  mc_PutObject :: "string \<Rightarrow> string \<Rightarrow> string \<Rightarrow> ('w, unit) act"
  mc_GetObject :: "string \<Rightarrow> string \<Rightarrow> ('w, string) act"
  mc_ListObjects :: "string \<Rightarrow> string \<Rightarrow> ('w, (err + Object) list) act"
  mc_RemoveObject :: "string \<Rightarrow> string \<Rightarrow> ('w, unit) act"
  mc_BucketExists :: "string \<Rightarrow> ('w, bool) act"

record DirEntry =
  de_Name :: string
  de_IsDir :: bool
  de_Size :: int
  de_ModTime :: int

record 'w davclient =
  dc_MkdirAll :: "string \<Rightarrow> ('w, unit) act"
  dc_Write :: "string \<Rightarrow> string \<Rightarrow> ('w, unit) act"
  dc_Read :: "string \<Rightarrow> ('w, string) act"
  dc_ReadDir :: "string \<Rightarrow> ('w, DirEntry list) act"
  dc_Remove :: "string \<Rightarrow> ('w, unit) act"
  dc_Connect :: "('w, unit) act"
  dc_Stat :: "string \<Rightarrow> ('w, unit) act"

record 'w clients =
  cl_s3 :: "S3Options \<Rightarrow> err + 'w s3client"
  cl_dav :: "string \<Rightarrow> string \<Rightarrow> string \<Rightarrow> 'w davclient"
  cl_fuel :: nat

text \<open>The interface \<open>Uploader\<close>, with the two operations that a scheduled run does not use.\<close>

record 'w remote = "'w Uploader" +
  up_Get :: "string \<Rightarrow> ('w, string) act"
  up_Test :: "('w, unit) act"

section \<open>s3.go\<close>

definition stripPrefix :: "string \<Rightarrow> string \<Rightarrow> string" where
  "stripPrefix full base = (if base = [] then full else go_TrimPrefix (go_TrimPrefix full base) ''/'')"

definition go_TrimSuffix :: "string \<Rightarrow> string \<Rightarrow> string" where
  "go_TrimSuffix s p = (if go_HasSuffix s p then take (length s - length p) s else s)"

text \<open>The loop over the listing stops at the first error.\<close>

fun listed :: "string \<Rightarrow> (err + Object) list \<Rightarrow> err + Object list" where
  "listed base [] = Inr []"
| "listed base (Inl e # os) = Inl e"
| "listed base (Inr x # os) = bindR (listed base os) (\<lambda>ys. Inr (x\<lparr>ob_Key := stripPrefix (ob_Key x) base\<rparr> # ys))"

definition s3_remote :: "'w s3client \<Rightarrow> string \<Rightarrow> string \<Rightarrow> 'w remote" where
  "s3_remote cli bucket pre =
     \<lparr>up_Put = (\<lambda>key data. mc_PutObject cli bucket (joinKey pre key) data),
      up_List = (\<lambda>p. bindE (mc_ListObjects cli bucket (joinKey pre p)) (\<lambda>os. liftE (listed (joinKey pre []) os))),
      up_Delete = (\<lambda>key. mc_RemoveObject cli bucket (joinKey pre key)),
      up_Get = (\<lambda>key. mc_GetObject cli bucket (joinKey pre key)),
      up_Test = bindE (mc_BucketExists cli bucket) (\<lambda>ok.
        if ok then ret () else fail (ErrFmt ''the bucket does not exist or cannot be accessed'' [bucket]))\<rparr>"

definition newS3Uploader :: "'w clients \<Rightarrow> S3Config option \<Rightarrow> err + 'w remote" where
  "newS3Uploader cl c = (case c of
     None \<Rightarrow> Inl (Err ''s3 configuration is missing'')
   | Some c \<Rightarrow>
       (let ep = go_TrimSuffix (go_TrimPrefix (go_TrimPrefix (go_TrimSpace (s3_Endpoint c)) ''https://'') ''http://'') ''/'' in
        if ep = [] then Inl (Err ''s3 endpoint is required'')
        else if go_TrimSpace (s3_Bucket c) = [] then Inl (Err ''s3 bucket is required'')
        else bindR (cl_s3 cl \<lparr>so_Endpoint = ep, so_AccessKeyID = s3_AccessKeyID c,
                so_SecretAccessKey = s3_SecretAccessKey c, so_Secure = s3_UseSSL c, so_Region = go_TrimSpace (s3_Region c),
                so_PathStyle = s3_PathStyle c\<rparr>)
             (\<lambda>cli. Inr (s3_remote cli (go_TrimSpace (s3_Bucket c)) (s3_Prefix c)))))"

section \<open>webdav.go\<close>

fun pathDir :: "string \<Rightarrow> string" where
  "pathDir p = (case go_IndexByte (rev p) CHR ''/'' of None \<Rightarrow> [] | Some i \<Rightarrow> take (length p - Suc i) p)"

fun walk :: "nat \<Rightarrow> 'w davclient \<Rightarrow> string \<Rightarrow> ('w, Object list) act"
  and walk_entries :: "nat \<Rightarrow> 'w davclient \<Rightarrow> string \<Rightarrow> DirEntry list \<Rightarrow> ('w, Object list) act" where
  "walk 0 cli dir = fail ErrHang"
| "walk (Suc n) cli dir = bindE (tryE (dc_ReadDir cli dir)) (\<lambda>r. case r of
     Inl e \<Rightarrow> if e = ErrNotFound then ret [] else fail e
   | Inr es \<Rightarrow> walk_entries n cli dir es)"
| "walk_entries n cli dir [] = ret []"
| "walk_entries n cli dir (e # es) =
     (let child = go_TrimSuffix dir ''/'' @ ''/'' @ de_Name e in
      bindE (if de_IsDir e then walk n cli child
        else ret [\<lparr>ob_Key = child, ob_Size = de_Size e, ob_Modified = de_ModTime e\<rparr>]) (\<lambda>xs.
      bindE (walk_entries n cli dir es) (\<lambda>ys. ret (xs @ ys))))"

definition davPath :: "string \<Rightarrow> string \<Rightarrow> string" where
  "davPath pre rel = ''/'' @ joinKey pre rel"

definition dav_remote :: "nat \<Rightarrow> 'w davclient \<Rightarrow> string \<Rightarrow> 'w remote" where
  "dav_remote fuel cli pre =
     \<lparr>up_Put = (\<lambda>key data. (let p = davPath pre key; dir = pathDir p in
        bindE (if dir \<noteq> [] \<and> dir \<noteq> ''/'' then orZero () (dc_MkdirAll cli dir) else ret ()) (\<lambda>_. dc_Write cli p data))),
      up_List = (\<lambda>p. bindE (walk fuel cli (davPath pre p)) (\<lambda>os.
        ret (map (\<lambda>x. x\<lparr>ob_Key := go_TrimPrefix (go_TrimPrefix (ob_Key x) (davPath pre [])) ''/''\<rparr>) os))),
      up_Delete = (\<lambda>key. dc_Remove cli (davPath pre key)),
      up_Get = (\<lambda>key. dc_Read cli (davPath pre key)),
      up_Test = bindE (dc_Connect cli) (\<lambda>_.
        if go_TrimSpace pre \<noteq> [] then bindE (tryE (dc_Stat cli (davPath pre []))) (\<lambda>r. case r of
            Inl e \<Rightarrow> if e = ErrNotFound then ret () else fail e | Inr _ \<Rightarrow> ret ())
        else ret ())\<rparr>"

definition newWebDAVUploader :: "'w clients \<Rightarrow> WebDAVConfig option \<Rightarrow> err + 'w remote" where
  "newWebDAVUploader cl c = (case c of
     None \<Rightarrow> Inl (Err ''webdav configuration is missing'')
   | Some c \<Rightarrow>
       if go_TrimSpace (wd_BaseURL c) = [] then Inl (Err ''webdav base_url is required'')
       else Inr (dav_remote (cl_fuel cl) (cl_dav cl (go_TrimSpace (wd_BaseURL c)) (wd_Username c) (wd_Password c)) (wd_Prefix c)))"

definition NewUploader :: "'w clients \<Rightarrow> Channel \<Rightarrow> err + 'w remote" where
  "NewUploader cl ch =
     (if ch_Kind ch = KindS3 then newS3Uploader cl (ch_S3 ch)
      else if ch_Kind ch = KindWebDAV then newWebDAVUploader cl (ch_WebDAV ch)
      else Inl (ErrFmt ''unknown channel kind'' [ch_Kind ch]))"

definition TestChannel :: "'w clients \<Rightarrow> Channel \<Rightarrow> ('w, unit) act" where
  "TestChannel cl ch = bindE (liftE (NewUploader cl ch)) up_Test"

end
