(* ===== verification/BackupBrowse.thy ===== *)
theory BackupBrowse
  imports BackupAPI Storage NetcfgAPI
begin

text \<open>
  The rest of internal/api/backup.go and exportsource.go: what the pages show of channels, schedules and runs, the test of a
  channel, and what is read from its storage: browsing, download and restore. The storage is the world \<open>'w\<close>; \<open>unzip\<close> is what
  package archive/zip makes of the bytes, \<open>None\<close> for what is no archive. \<open>sort.Slice\<close> is taken to be stable: the order of
  objects of the same second is not specified by the library.
\<close>

section \<open>Views\<close>

record S3View =
  sv_endpoint :: string
  sv_region :: string
  sv_bucket :: string
  sv_access_key_id :: string
  sv_prefix :: string
  sv_use_ssl :: bool
  sv_path_style :: bool
  sv_secret_set :: bool

record DavView =
  dv_base_url :: string
  dv_username :: string
  dv_prefix :: string
  dv_password_set :: bool

record ChannelView =
  cw_id :: string
  cw_name :: string
  cw_kind :: string
  cw_created_at :: int
  cw_updated_at :: int
  cw_s3 :: "S3View option"
  cw_webdav :: "DavView option"

definition channelView :: "Channel \<Rightarrow> ChannelView" where
  "channelView c =
     \<lparr>cw_id = ch_ID c, cw_name = ch_Name c, cw_kind = ch_Kind c, cw_created_at = ch_CreatedAt c, cw_updated_at = ch_UpdatedAt c,
      cw_s3 = (if ch_Kind c = KindS3 then map_option (\<lambda>s. \<lparr>sv_endpoint = s3_Endpoint s, sv_region = s3_Region s,
          sv_bucket = s3_Bucket s, sv_access_key_id = s3_AccessKeyID s, sv_prefix = s3_Prefix s, sv_use_ssl = s3_UseSSL s,
          sv_path_style = s3_PathStyle s, sv_secret_set = (go_TrimSpace (s3_SecretAccessKey s) \<noteq> [])\<rparr>) (ch_S3 c) else None),
      cw_webdav = (if ch_Kind c = KindWebDAV then map_option (\<lambda>d. \<lparr>dv_base_url = wd_BaseURL d, dv_username = wd_Username d,
          dv_prefix = wd_Prefix d, dv_password_set = (go_TrimSpace (wd_Password d) \<noteq> [])\<rparr>) (ch_WebDAV c) else None)\<rparr>"

definition lastRuns :: "mstore \<Rightarrow> string \<Rightarrow> RunRecord option" where
  "lastRuns m i = find (\<lambda>r. rr_ScheduleID r = i) (ListBackupRuns 0 m)"

text \<open>A schedule, its effective template, whether it is running, and its last run.\<close>

definition scheduleView :: "bk \<Rightarrow> Schedule \<Rightarrow> Schedule \<times> string \<times> bool \<times> RunRecord option" where
  "scheduleView st s = (s, EffectiveTemplate s, sc_ID s \<in> RunningSchedules (bk_sched st), lastRuns (bk_store st) (sc_ID s))"

definition ListChannels :: "bk \<Rightarrow> ChannelView list" where
  "ListChannels st = map channelView (ListBackupChannels (bk_store st))"

definition ListSchedules :: "bk \<Rightarrow> (Schedule \<times> string \<times> bool \<times> RunRecord option) list" where
  "ListSchedules st = map (scheduleView st) (ListBackupSchedules (bk_store st))"

section \<open>Testing a channel\<close>

text \<open>A failed test is an answer 200 as well.\<close>

definition runTest :: "'w clients \<Rightarrow> Channel \<Rightarrow> 'w \<Rightarrow> (err option) reply \<times> 'w" where
  "runTest cl ch w = (case TestChannel cl ch w of
     (Inl e, w') \<Rightarrow> (Reply 200 (Some e), w') | (Inr _, w') \<Rightarrow> (Reply 200 None, w'))"

definition no_channel :: "'v reply" where
  "no_channel = Refusal 404 CodeNotFound (ErrorText (Err ''the channel does not exist''))"

definition api_TestChannel :: "'w clients \<Rightarrow> string \<Rightarrow> bk \<Rightarrow> 'w \<Rightarrow> (err option) reply \<times> 'w" where
  "api_TestChannel cl i st w = (case GetBackupChannel i (bk_store st) of
     None \<Rightarrow> (no_channel, w) | Some ch \<Rightarrow> runTest cl ch w)"

definition api_TestChannelConfig :: "'w clients \<Rightarrow> Channel option \<Rightarrow> 'w \<Rightarrow> (err option) reply \<times> 'w" where
  "api_TestChannelConfig cl body w = (case body of
     None \<Rightarrow> (Refusal 400 CodeBadRequest InvalidBody, w)
   | Some ch \<Rightarrow> (let c = NormalizeChannel ch in case ValidateChannel c of
         Inl e \<Rightarrow> (Refusal 400 CodeBadRequest (ErrorText e), w) | Inr _ \<Rightarrow> runTest cl c w))"

section \<open>What is on the storage\<close>

definition upstream_failure :: "string \<Rightarrow> err \<Rightarrow> 'v reply" where
  "upstream_failure what e = Refusal 502 CodeUpstreamFailure (Prefixed what e)"

text \<open>The storage of a channel, handed to the rest of a handler.\<close>

definition with_storage :: "'w clients \<Rightarrow> Channel option \<Rightarrow> ('w remote \<Rightarrow> 'w \<Rightarrow> 'v reply \<times> 'w) \<Rightarrow> 'w \<Rightarrow> 'v reply \<times> 'w" where
  "with_storage cl ch k w = (case ch of
     None \<Rightarrow> (no_channel, w)
   | Some c \<Rightarrow> (case NewUploader cl c of
       Inl e \<Rightarrow> (Refusal 400 CodeBadRequest (Prefixed ''the configuration of the channel is not valid: '' e), w)
     | Inr up \<Rightarrow> k up w))"

definition maxBrowseObjects :: nat where
  "maxBrowseObjects = 500"

definition browse :: "Object list \<Rightarrow> Object list \<times> bool" where
  "browse objs =
     (let zips = sort_key (\<lambda>x. - ob_Modified x) (filter (\<lambda>x. go_HasSuffix (ob_Key x) ''.zip'') objs)
      in (take maxBrowseObjects zips, length zips > maxBrowseObjects))"

definition ListObjects :: "'w clients \<Rightarrow> string \<Rightarrow> string \<Rightarrow> bk \<Rightarrow> 'w \<Rightarrow> (Object list \<times> bool) reply \<times> 'w" where
  "ListObjects cl i pre st = with_storage cl (GetBackupChannel i (bk_store st)) (\<lambda>up w. case up_List up pre w of
     (Inl e, w') \<Rightarrow> (upstream_failure ''listing the backups failed: '' e, w')
   | (Inr objs, w') \<Rightarrow> (Reply 200 (browse objs), w'))"

text \<open>The key is checked before the storage is asked; a missing channel is reported first.\<close>

definition key_missing :: "'v reply" where
  "key_missing = Refusal 400 CodeBadRequest (ErrorText (Err ''key is required''))"

definition Download :: "'w clients \<Rightarrow> string \<Rightarrow> string \<Rightarrow> bk \<Rightarrow> 'w \<Rightarrow> string reply \<times> 'w" where
  "Download cl i key st w =
     (if GetBackupChannel i (bk_store st) \<noteq> None \<and> go_TrimSpace key = [] then (key_missing, w)
      else with_storage cl (GetBackupChannel i (bk_store st)) (\<lambda>up w. case up_Get up key w of
          (Inl e, w') \<Rightarrow> (upstream_failure ''downloading the backup failed: '' e, w')
        | (Inr data, w') \<Rightarrow> (Reply 200 data, w')) w)"

type_synonym 'n archive = "MetaDoc option option \<times> 'n option"

definition RestoreFromZipBytes :: "(string \<Rightarrow> 'n archive option) \<Rightarrow> (string \<Rightarrow> string option) \<Rightarrow> ('n \<Rightarrow> ('v, unit) act) option \<Rightarrow>
    string \<Rightarrow> (bk \<times> 'v, bool \<times> bool \<times> bool \<times> bool) act" where
  "RestoreFromZipBytes unzip cron_err net data sv = (case unzip data of
     None \<Rightarrow> (Inl (Err ''not a valid zip''), sv)
   | Some (md, nd) \<Rightarrow> (case RestoreFromZip cron_err net md nd sv of (r, sv') \<Rightarrow> (Inr r, sv')))"

definition api_Restore :: "'w clients \<Rightarrow> (string \<Rightarrow> 'n archive option) \<Rightarrow> (string \<Rightarrow> string option) \<Rightarrow> ('n \<Rightarrow> ('v, unit) act) option \<Rightarrow>
    string \<Rightarrow> string option \<Rightarrow> bk \<times> 'v \<Rightarrow> 'w \<Rightarrow> (bool \<times> bool \<times> bool \<times> bool) reply \<times> (bk \<times> 'v) \<times> 'w" where
  "api_Restore cl unzip cron_err net i body sv w = (case GetBackupChannel i (bk_store (fst sv)) of
     None \<Rightarrow> (no_channel, sv, w)
   | Some ch \<Rightarrow> (case body of
       None \<Rightarrow> (Refusal 400 CodeBadRequest InvalidBody, sv, w)
     | Some key \<Rightarrow>
         if go_TrimSpace key = [] then (key_missing, sv, w)
         else (case NewUploader cl ch of
             Inl e \<Rightarrow> (Refusal 400 CodeBadRequest (Prefixed ''the configuration of the channel is not valid: '' e), sv, w)
           | Inr up \<Rightarrow> (case up_Get up key w of
               (Inl e, w') \<Rightarrow> (upstream_failure ''downloading the backup failed: '' e, sv, w')
             | (Inr data, w') \<Rightarrow> (case RestoreFromZipBytes unzip cron_err net data sv of
                 (Inl e, sv') \<Rightarrow> (Refusal 400 CodeBadRequest (ErrorText (Err ''the backup is not a valid archive'')), sv', w')
               | (Inr r, sv') \<Rightarrow> (Reply 200 r, sv', w'))))))"

text \<open>The upload of an archive; \<open>body\<close> is the form field, or the error of reading it.\<close>

definition api_ImportZIP :: "(string \<Rightarrow> 'n archive option) \<Rightarrow> (string \<Rightarrow> string option) \<Rightarrow> ('n \<Rightarrow> ('v, unit) act) option \<Rightarrow>
    err + string \<Rightarrow> bk \<times> 'v \<Rightarrow> (bool \<times> bool \<times> bool \<times> bool) reply \<times> (bk \<times> 'v)" where
  "api_ImportZIP unzip cron_err net body sv = (case body of
     Inl e \<Rightarrow> (Refusal 400 CodeBadRequest (ErrorText e), sv)
   | Inr data \<Rightarrow> (case RestoreFromZipBytes unzip cron_err net (take (32 * 1048576) data) sv of
       (Inl e, sv') \<Rightarrow> (Refusal 400 CodeBadRequest (Prefixed ''not a valid zip: '' e), sv')
     | (Inr r, sv') \<Rightarrow> (Reply 200 r, sv')))"

end
