(* ===== verification/BackupBrowseProps.thy ===== *)
theory BackupBrowseProps
  imports BackupBrowse BackupAPIProps BackupPathProps
begin

text \<open>
  Properties of the pages that show channels and read their storage: secrets in views and tests, the keys of listed
  objects, and restoring from a channel.
\<close>

section \<open>Secrets\<close>

lemma s3_but_secret: "(a :: S3Config)\<lparr>s3_SecretAccessKey := x\<rparr> = b\<lparr>s3_SecretAccessKey := x\<rparr> \<longleftrightarrow>
    s3_Endpoint a = s3_Endpoint b \<and> s3_Region a = s3_Region b \<and> s3_Bucket a = s3_Bucket b \<and> s3_AccessKeyID a = s3_AccessKeyID b \<and>
    s3_Prefix a = s3_Prefix b \<and> s3_UseSSL a = s3_UseSSL b \<and> s3_PathStyle a = s3_PathStyle b"
  by (cases a; cases b) auto

lemma dav_but_secret: "(a :: WebDAVConfig)\<lparr>wd_Password := x\<rparr> = b\<lparr>wd_Password := x\<rparr> \<longleftrightarrow>
    wd_BaseURL a = wd_BaseURL b \<and> wd_Username a = wd_Username b \<and> wd_Prefix a = wd_Prefix b"
  by (cases a; cases b) auto

lemma same_but_secrets:
  assumes "RedactSecrets c = RedactSecrets d"
  shows "map_option (\<lambda>s. s\<lparr>s3_SecretAccessKey := []\<rparr>) (ch_S3 c) = map_option (\<lambda>s. s\<lparr>s3_SecretAccessKey := []\<rparr>) (ch_S3 d)"
    and "map_option (\<lambda>w. w\<lparr>wd_Password := []\<rparr>) (ch_WebDAV c) = map_option (\<lambda>w. w\<lparr>wd_Password := []\<rparr>) (ch_WebDAV d)"
    and "ch_ID c = ch_ID d" and "ch_Name c = ch_Name d" and "ch_Kind c = ch_Kind d" and "ch_CreatedAt c = ch_CreatedAt d"
    and "ch_UpdatedAt c = ch_UpdatedAt d"
  using assms by (cases c; cases d; simp add: RedactSecrets_def)+

text \<open>C30: What the pages show of a channel depends on its secrets only by whether they are set: two channels that differ in
  nothing else look the same.\<close>

theorem channel_views_hide_secrets:
  assumes "RedactSecrets c = RedactSecrets d" and "HasSecret c = HasSecret d"
  shows "channelView c = channelView d"
proof -
  note same = same_but_secrets [OF assms(1)]
  have s3: "ch_Kind c = KindS3 \<Longrightarrow> cw_s3 (channelView c) = cw_s3 (channelView d)"
    using same(1,5) assms(2) by (cases "ch_S3 c"; cases "ch_S3 d") (auto simp: channelView_def HasSecret_def s3_but_secret)
  have dav: "ch_Kind c = KindWebDAV \<Longrightarrow> cw_webdav (channelView c) = cw_webdav (channelView d)"
    using same(2,5) assms(2)
    by (cases "ch_WebDAV c"; cases "ch_WebDAV d") (auto simp: channelView_def HasSecret_def dav_but_secret)
  show ?thesis
    using s3 dav same(3-7) by (auto simp: channelView_def)
qed

definition demo_channel :: "string \<Rightarrow> string \<Rightarrow> Channel" where
  "demo_channel ep sec = \<lparr>ch_ID = ''c1'', ch_Name = ''nas'', ch_Kind = KindS3, ch_S3 = Some \<lparr>s3_Endpoint = ep,
     s3_Region = [], s3_Bucket = ''b'', s3_AccessKeyID = ''key'', s3_SecretAccessKey = sec, s3_Prefix = [], s3_UseSSL = True,
     s3_PathStyle = False\<rparr>, ch_WebDAV = None, ch_CreatedAt = 0, ch_UpdatedAt = 0\<rparr>"

lemma trim_demo: "go_TrimSpace ''b'' = ''b''" "go_TrimSpace ''nas'' = ''nas''" "go_TrimSpace ''s3cret'' = ''s3cret''"
    "go_TrimSpace ''hunter2'' = ''hunter2''" "go_TrimSpace ''evil.example'' = ''evil.example''"
  by (simp_all add: eval_simps)

theorem channel_views_hide_secrets_witness:
  "channelView (demo_channel ''s3.example'' ''s3cret'') = channelView (demo_channel ''s3.example'' ''hunter2'')"
  by (rule channel_views_hide_secrets) (simp_all add: demo_channel_def RedactSecrets_def HasSecret_def trim_demo)


definition demo_bk :: bk where
  "demo_bk = \<lparr>bk_store = \<lparr>ms_path = ''m'', ms_data = defaultMeta\<lparr>mt_Backup := Some \<lparr>bd_Channels = [demo_channel ''s3.example'' ''s3cret''],
     bd_Schedules = [], bd_Runs = []\<rparr>\<rparr>, ms_disk = \<lparr>dk_files = Map.empty, dk_flush = (\<lambda>_. None), dk_read = (\<lambda>_. None)\<rparr>\<rparr>,
     bk_sched = NewScheduler\<rparr>"

lemma demo_get: "GetBackupChannel ''c1'' (bk_store demo_bk) = Some (demo_channel ''s3.example'' ''s3cret'')"
  by (simp add: GetBackupChannel_def ListBackupChannels_def backup_of_def orNil_def demo_bk_def demo_channel_def)

lemma demo_update: "\<exists>c st'. UpdateChannel 5 ''c1'' (demo_channel ''evil.example'' []) demo_bk = (Inr c, st')"
  by (simp add: UpdateChannel_def NormalizeChannel_def ValidateChannel_def demo_channel_def demo_bk_def trim_demo on_meta_def
    UpdateBackupChannel_def ListBackupChannels_def backup_of_def orNil_def store_channels_def bindE_def liftE_def ret_def
    meta_save_def meta_flush_def flush_disk_def Let_def)


section \<open>Keys\<close>

lemma contains_append: "go_Contains (a @ b) ''//'' \<longleftrightarrow> go_Contains a ''//'' \<or> go_Contains b ''//'' \<or>
    (a \<noteq> [] \<and> b \<noteq> [] \<and> last a = CHR ''/'' \<and> hd b = CHR ''/'')"
proof (induction a)
  case (Cons c a)
  then show ?case by (cases a; cases b) auto
qed auto

lemma collapse_no_double: "\<not> go_Contains (collapse s) ''//''"
proof (induction s rule: collapse.induct)
  case (1 c d cs)
  show ?case
  proof (cases "c = CHR ''/'' \<and> d = CHR ''/''")
    case True
    with 1 show ?thesis by simp
  next
    case False
    obtain u where "collapse (d # cs) = d # u" using collapse_hd [of "d # cs"] by (cases "collapse (d # cs)") auto
    with 1 False show ?thesis by auto
  qed
qed auto

lemma cleanKey_form: "\<not> go_Contains (cleanKey k) ''//'' \<and> (cleanKey k \<noteq> [] \<longrightarrow> hd (cleanKey k) \<noteq> CHR ''/'')"
proof -
  let ?c = "collapse k"
  have no: "\<not> go_Contains ?c ''//''" by (rule collapse_no_double)
  show ?thesis
  proof (cases "?c \<noteq> [] \<and> hd ?c = CHR ''/''")
    case True
    then obtain u where u: "?c = CHR ''/'' # u" by (cases ?c) auto
    with no have "\<not> go_Contains u ''//''" "u \<noteq> [] \<longrightarrow> hd u \<noteq> CHR ''/''" by (cases u; auto)+
    with u show ?thesis by (simp add: cleanKey_collapse go_TrimPrefix_def)
  next
    case False
    then have "cleanKey k = ?c" by (cases ?c) (auto simp: cleanKey_collapse go_TrimPrefix_def)
    with no False show ?thesis by auto
  qed
qed

lemma trim_ends_form:
  fixes P and s :: string
  defines "t \<equiv> trim_ends P s"
  shows "t \<noteq> [] \<Longrightarrow> \<not> P (hd t) \<and> \<not> P (last t)"
proof -
  assume ne: "t \<noteq> []"
  let ?d = "dropWhile P s"
  have t: "rev t = dropWhile P (rev ?d)" by (simp add: t_def trim_ends_def)
  have "\<not> P (hd (rev t))" using ne unfolding t by (intro hd_dropWhile) (simp add: t [symmetric])
  then have "\<not> P (last t)" using ne by (simp add: hd_rev)
  moreover obtain u where u: "?d = t @ u"
    using t by (metis rev_append rev_rev_ident takeWhile_dropWhile_id)
  moreover have "\<not> P (hd ?d)" using u ne by (intro hd_dropWhile) auto
  ultimately show ?thesis using ne by simp
qed



section \<open>Restoring\<close>

text \<open>Restoring a backup of a channel does to the state exactly what importing the same bytes as an upload does, and
  reports the same, up to the limit of 32 MiB of an upload; a restore that cannot get the bytes changes nothing and is
  answered 502.\<close>

theorem restore_is_import:
  assumes "GetBackupChannel i (bk_store (fst sv)) = Some ch" and "NewUploader cl ch = Inr up" and "go_TrimSpace key \<noteq> []"
  shows "let restore = api_Restore cl unzip cron_err net i (Some key) sv w in
    case up_Get up key w of
      (Inl e, w') \<Rightarrow> snd restore = (sv, w') \<and> (\<exists>m. fst restore = Refusal 502 CodeUpstreamFailure m)
    | (Inr data, w') \<Rightarrow> length data \<le> 32 * 1048576 \<longrightarrow>
        (let upload = api_ImportZIP unzip cron_err net (Inr data) sv in
         snd restore = (snd upload, w') \<and> (\<forall>r. fst restore = Reply 200 r \<longleftrightarrow> fst upload = Reply 200 r))"
  using assms unfolding Let_def
  by (auto simp: api_Restore_def api_ImportZIP_def upstream_failure_def Let_def split: prod.split sum.split)

definition one_file :: "nat clients" where
  "one_file = \<lparr>cl_s3 = (\<lambda>_. Inr \<lparr>mc_PutObject = (\<lambda>b k d. ret ()), mc_GetObject = (\<lambda>b k. ret ''PK''), mc_ListObjects = (\<lambda>b p. ret []),
     mc_RemoveObject = (\<lambda>b k. ret ()), mc_BucketExists = (\<lambda>b. ret True)\<rparr>), cl_dav = undefined, cl_fuel = 1\<rparr>"

lemma one_file_uploader: "NewUploader one_file (demo_channel ''s3.example'' ''s3cret'') =
    Inr (s3_remote (projr (cl_s3 one_file undefined)) ''b'' [])"
  by (simp add: NewUploader_def newS3Uploader_def demo_channel_def one_file_def trim_demo go_TrimSuffix_def eval_simps Let_def bindR_def)

theorem restore_is_import_witness:
  "snd (api_Restore one_file (\<lambda>_. Some (None, Some ())) (\<lambda>_. None) (Some (\<lambda>_. \<lambda>v. (Inr (), Suc v))) ''c1'' (Some ''a.zip'') (demo_bk, 0) 0) =
     (snd (api_ImportZIP (\<lambda>_. Some (None, Some ())) (\<lambda>_. None) (Some (\<lambda>_. \<lambda>v. (Inr (), Suc v))) (Inr ''PK'') (demo_bk, 0)), 0)"
proof -
  have key: "go_TrimSpace ''a.zip'' \<noteq> []" by (simp add: eval_simps)
  have "GetBackupChannel ''c1'' (bk_store (fst (demo_bk, 0 :: nat))) = Some (demo_channel ''s3.example'' ''s3cret'')"
    by (simp add: demo_get)
  from restore_is_import [OF this one_file_uploader key, where w = 0 and unzip = "\<lambda>_. Some (None, Some ())"
    and cron_err = "\<lambda>_. None" and net = "Some (\<lambda>_. \<lambda>v. (Inr (), Suc v))"]
  show ?thesis by (simp add: s3_remote_def one_file_def ret_def Let_def)
qed

end
