(* ===== verification/EventsAPI.thy ===== *)
theory EventsAPI
  imports EventBus GoStrings
begin

text \<open>
  internal/api/events.go: the stream of events over a WebSocket, on top of the bus. A connection subscribes, takes the
  recent events of the ring if the client asked for them, writes these, and then writes what arrives in its channel; a
  second goroutine changes the filter at the client's command. The WebSocket is left out: writing an event succeeds, or the
  connection ends. Pings are left out.
\<close>

section \<open>Requests\<close>

text \<open>The loop over the runes of a list: \<open>cur\<close> is the item so far.\<close>

fun csv_loop :: "string \<Rightarrow> (nat \<times> string) list \<Rightarrow> string list" where
  "csv_loop cur [] = (if cur \<noteq> [] then [cur] else [])"
| "csv_loop cur (rb # rbs) =
     (if fst rb = 44 then (if cur \<noteq> [] then cur # csv_loop [] rbs else csv_loop [] rbs)
      else csv_loop (cur @ write_rune rb) rbs)"

definition splitCSV :: "string \<Rightarrow> string list" where
  "splitCSV s = csv_loop [] (rune_segs s)"

text \<open>The number is kept at its width.\<close>

fun since_loop :: "64 word \<Rightarrow> string \<Rightarrow> 64 word" where
  "since_loop u [] = u"
| "since_loop u (c # cs) = (if \<not> is_digit c then 0 else since_loop (u * 10 + of_nat (digit_val c)) cs)"

definition parseSince :: "string \<Rightarrow> 64 word" where
  "parseSince v = since_loop 0 v"

definition parseFilter :: "(string \<Rightarrow> string) \<Rightarrow> Filter option" where
  "parseFilter q = (let types = splitCSV (q ''types''); cids = splitCSV (q ''config_ids'') in
     if types = [] \<and> cids = [] then None else Some \<lparr>f_Types = types, f_ConfigIDs = cids\<rparr>)"

record clientCmd =
  cc_Action :: string
  cc_Types :: "string list"
  cc_ConfigIDs :: "string list"

text \<open>One message of the client; \<open>None\<close> is what does not decode.\<close>

definition readControl :: "clientCmd option \<Rightarrow> 64 word \<Rightarrow> 'd Bus \<Rightarrow> 'd Bus" where
  "readControl msg i b = (case msg of
     None \<Rightarrow> b
   | Some c \<Rightarrow>
       if cc_Action c = ''subscribe'' \<or> cc_Action c = ''filter'' then
         SetFilter i (if cc_Types c = [] \<and> cc_ConfigIDs c = [] then None
           else Some \<lparr>f_Types = cc_Types c, f_ConfigIDs = cc_ConfigIDs c\<rparr>) b
       else if cc_Action c = ''unfilter'' then SetFilter i None b
       else b)"

section \<open>A connection\<close>

datatype 'd phase =
    Subscribed "64 word"
  | Replaying "'d Event list"
  | Live
  | Closed

record 'd stream =
  es_bus :: "'d Bus"
  es_id :: "64 word"
  es_phase :: "'d phase"
  es_sent :: "'d Event list"

text \<open>Subscribe with a buffer of 128.\<close>

definition connect :: "(string \<Rightarrow> string) \<Rightarrow> 'd Bus \<Rightarrow> 'd stream" where
  "connect q b = (case Subscribe (parseFilter q) 128 b of (sub, b') \<Rightarrow>
     \<lparr>es_bus = b', es_id = sub_id sub, es_phase = Subscribed (parseSince (q ''since'')), es_sent = []\<rparr>)"

definition channel :: "64 word \<Rightarrow> 'd Bus \<Rightarrow> 'd Event list" where
  "channel i b = (case find (\<lambda>s. sub_id s = i) (bus_subs b) of None \<Rightarrow> [] | Some s \<Rightarrow> sub_ch s)"

text \<open>
  The steps of the connection, of the publishers, and of the other subscribers. The guards keep the two 64-bit counters of
  the bus from wrapping around. Commands of the client are read once the replay is over. \<open>live\<close> takes the next event out of
  the channel and writes it.
\<close>

inductive stream_step :: "'d stream \<Rightarrow> 'd stream \<Rightarrow> bool" where
  publish: "bus_seq (es_bus s) \<noteq> - 1 \<Longrightarrow> stream_step s (s\<lparr>es_bus := Publish t c d now (es_bus s)\<rparr>)"
| joins: "bus_nextSubID (es_bus s) \<noteq> - 1 \<Longrightarrow> stream_step s (s\<lparr>es_bus := snd (Subscribe f n (es_bus s))\<rparr>)"
| reads: "i \<noteq> es_id s \<Longrightarrow> stream_step s (s\<lparr>es_bus := receive i (es_bus s)\<rparr>)"
| leaves: "i \<noteq> es_id s \<Longrightarrow> stream_step s (s\<lparr>es_bus := bus_remove i (es_bus s)\<rparr>)"
| control: "es_phase s = Live \<Longrightarrow> stream_step s (s\<lparr>es_bus := readControl msg (es_id s) (es_bus s)\<rparr>)"
| replay: "es_phase s = Subscribed since \<Longrightarrow>
    stream_step s (s\<lparr>es_phase := (if since > 0 then Replaying (Since since (es_bus s)) else Live)\<rparr>)"
| resend: "es_phase s = Replaying (e # es) \<Longrightarrow> stream_step s (s\<lparr>es_phase := Replaying es, es_sent := es_sent s @ [e]\<rparr>)"
| replayed: "es_phase s = Replaying [] \<Longrightarrow> stream_step s (s\<lparr>es_phase := Live\<rparr>)"
| live: "es_phase s = Live \<Longrightarrow> channel (es_id s) (es_bus s) = e # es \<Longrightarrow>
    stream_step s (s\<lparr>es_bus := receive (es_id s) (es_bus s), es_sent := es_sent s @ [e]\<rparr>)"
| closed: "stream_step s (s\<lparr>es_bus := bus_remove (es_id s) (es_bus s), es_phase := Closed\<rparr>)"

inductive stream_reach :: "'d stream \<Rightarrow> 'd stream \<Rightarrow> bool" for s0 where
  begins: "stream_reach s0 s0"
| goes_on: "stream_reach s0 s \<Longrightarrow> stream_step s s' \<Longrightarrow> stream_reach s0 s'"

end
