(* ===== verification/EventsProps.thy ===== *)
theory EventsProps
  imports EventsAPI
begin

text \<open>
  What a client of the stream of events receives. A run is quiet while no filter is in force, the client reads fast enough
  for its channel not to fill up, and the connection stays open. Then a client that reconnects with the last number it has
  seen gets every event that the ring still holds and every later one, in order; only those published between the
  subscription and the replay come twice.
\<close>

abbreviation num :: "'d Event \<Rightarrow> nat" where
  "num e \<equiv> unat (ev_Seq e)"

definition ours :: "'d stream \<Rightarrow> 'd Subscription option" where
  "ours s = find (\<lambda>x. sub_id x = es_id s) (bus_subs (es_bus s))"

definition to_replay :: "'d stream \<Rightarrow> 'd Event list" where
  "to_replay s = (case es_phase s of Replaying es \<Rightarrow> es | _ \<Rightarrow> [])"

definition replayed_yet :: "'d stream \<Rightarrow> bool" where
  "replayed_yet s \<longleftrightarrow> (\<forall>since. es_phase s \<noteq> Subscribed since)"

inductive quiet_run :: "'d stream \<Rightarrow> 'd stream \<Rightarrow> bool" for s0 where
  opened: "quiet_run s0 s0"
| further: "quiet_run s0 s \<Longrightarrow> stream_step s s' \<Longrightarrow> length (channel (es_id s) (es_bus s)) < 128 \<Longrightarrow>
    es_phase s' \<noteq> Closed \<Longrightarrow> map_option sub_filter (ours s') = Some None \<Longrightarrow> quiet_run s0 s'"

lemma quiet_run_reach: "quiet_run s0 s \<Longrightarrow> stream_reach s0 s"
  by (induction rule: quiet_run.induct) (blast intro: stream_reach.intros)+

section \<open>One subscription under the operations of the bus\<close>

lemma find_map_same:
  "(\<And>x. sub_id (f x) = sub_id x) \<Longrightarrow> find (\<lambda>x. sub_id x = i) (map f xs) = map_option f (find (\<lambda>x. sub_id x = i) xs)"
  by (induction xs) simp_all

lemma find_filter_other: "\<forall>x \<in> set xs. sub_id x = i \<longrightarrow> P x \<Longrightarrow>
    find (\<lambda>x. sub_id x = i) (filter P xs) = find (\<lambda>x. sub_id x = i) xs"
  by (induction xs) auto

lemma deliver_one_id [simp]: "sub_id (fst (deliver_one e x)) = sub_id x"
  by (simp add: deliver_one_def)

lemma find_Publish: "find (\<lambda>x. sub_id x = i) (bus_subs (Publish t c d now b)) =
    map_option (\<lambda>x. fst (deliver_one \<lparr>ev_Seq = bus_seq b + 1, ev_Type = t, ev_ConfigID = c, ev_TS = now, ev_Data = d\<rparr> x))
      (find (\<lambda>x. sub_id x = i) (bus_subs b))"
  by (simp add: Publish_def deliver_def Let_def comp_def find_map_same)

lemma find_Subscribe: "i \<noteq> bus_nextSubID b + 1 \<Longrightarrow>
    find (\<lambda>x. sub_id x = i) (bus_subs (snd (Subscribe f n b))) = find (\<lambda>x. sub_id x = i) (bus_subs b)"
proof -
  assume i: "i \<noteq> bus_nextSubID b + 1"
  have snoc: "find P (xs @ [y]) = find P xs" if "\<not> P y" for P xs and y :: "'a Subscription"
    using that by (induction xs) simp_all
  show ?thesis
    using i by (simp add: Subscribe_def Let_def snoc find_filter_other)
qed

lemma find_receive: "find (\<lambda>x. sub_id x = i) (bus_subs (receive j b)) =
    map_option (\<lambda>x. if i = j then x\<lparr>sub_ch := drop 1 (sub_ch x)\<rparr> else x) (find (\<lambda>x. sub_id x = i) (bus_subs b))"
  by (auto simp: receive_def find_map_same find_Some_iff split: if_splits
      intro!: option.map_cong0)

lemma find_readControl: "find (\<lambda>x. sub_id x = i) (bus_subs (readControl msg i b)) = None \<longleftrightarrow>
    find (\<lambda>x. sub_id x = i) (bus_subs b) = None"
  "find (\<lambda>x. sub_id x = i) (bus_subs b) = Some x \<Longrightarrow>
    \<exists>f. find (\<lambda>x. sub_id x = i) (bus_subs (readControl msg i b)) = Some (x\<lparr>sub_filter := f\<rparr>)"
proof -
  have set: "find (\<lambda>x. sub_id x = i) (bus_subs (SetFilter i f b)) =
      map_option (\<lambda>x. x\<lparr>sub_filter := f\<rparr>) (find (\<lambda>x. sub_id x = i) (bus_subs b))" for f
    by (auto simp: SetFilter_def find_map_same find_Some_iff split: if_splits intro!: option.map_cong0)
  show "find (\<lambda>x. sub_id x = i) (bus_subs (readControl msg i b)) = None \<longleftrightarrow>
      find (\<lambda>x. sub_id x = i) (bus_subs b) = None"
    by (simp add: readControl_def set split: option.split)
  assume x: "find (\<lambda>x. sub_id x = i) (bus_subs b) = Some x"
  have same: "x\<lparr>sub_filter := sub_filter x\<rparr> = x"
    by simp
  show "\<exists>f. find (\<lambda>x. sub_id x = i) (bus_subs (readControl msg i b)) = Some (x\<lparr>sub_filter := f\<rparr>)"
  proof (cases "bus_subs (readControl msg i b) = bus_subs b")
    case True
    with x same show ?thesis by metis
  next
    case False
    then obtain f where "readControl msg i b = SetFilter i f b"
      by (auto simp: readControl_def split: option.splits if_splits)
    with x show ?thesis by (auto simp: set)
  qed
qed

lemma readControl_frame [simp]:
  "bus_seq (readControl msg i b) = bus_seq b" "bus_ring (readControl msg i b) = bus_ring b"
  "bus_ringCap (readControl msg i b) = bus_ringCap b" "bus_nextSubID (readControl msg i b) = bus_nextSubID b"
  by (simp_all add: readControl_def SetFilter_def split: option.split)

lemma Since_window:
  "ring_inv b \<Longrightarrow> map num (Since sq b) =
    [max (Suc (unat sq)) (Suc (unat (bus_seq b)) - min (unat (bus_seq b)) (bus_ringCap b))..<Suc (unat (bus_seq b))]"
proof -
  assume r: "ring_inv b"
  have upt: "filter (\<lambda>i. a < i) [l..<u] = [max (Suc a) l..<u]" for a l u :: nat
    by (induction u) (auto simp: max_def)
  have "map num (Since sq b) = filter (\<lambda>i. unat sq < i) (map num (bus_ring b))"
    by (simp add: Since_def filter_map comp_def word_less_nat_alt)
  with r show ?thesis
    by (simp add: ring_inv_def upt)
qed

section \<open>A quiet run\<close>

text \<open>The numbers of the replay when \<open>m\<close> events have been published.\<close>

definition window :: "64 word \<Rightarrow> nat \<Rightarrow> nat \<Rightarrow> nat list" where
  "window since cap m = (if since = 0 then [] else [max (Suc (unat since)) (Suc m - min m cap)..<Suc m])"

definition replay_shape :: "64 word \<Rightarrow> nat \<Rightarrow> nat \<Rightarrow> nat \<Rightarrow> bool \<Rightarrow> nat list \<Rightarrow> bool" where
  "replay_shape since cap n k done rep \<longleftrightarrow>
     (if done then \<exists>m. n \<le> m \<and> m \<le> k \<and> rep = window since cap m else rep = [])"

definition quiet_inv :: "64 word \<Rightarrow> 'd stream \<Rightarrow> 'd stream \<Rightarrow> bool" where
  "quiet_inv since s0 s \<longleftrightarrow>
     (let b = es_bus s; n = unat (bus_seq (es_bus s0)) in
      ring_inv b \<and> bus_ringCap b = bus_ringCap (es_bus s0) \<and> es_id s \<le> bus_nextSubID b \<and> n \<le> unat (bus_seq b) \<and>
      (\<exists>x. ours s = Some x \<and> sub_filter x = None \<and> sub_cap x = 128) \<and>
      (\<forall>v. es_phase s = Subscribed v \<longrightarrow> v = since \<and> es_sent s = []) \<and>
      (\<exists>rep. map num (es_sent s @ to_replay s @ channel (es_id s) b) = rep @ [Suc n..<Suc (unat (bus_seq b))] \<and>
         replay_shape since (bus_ringCap (es_bus s0)) n (unat (bus_seq b)) (replayed_yet s) rep))"

lemma quiet_publish:
  assumes "quiet_inv since s0 s" and "bus_seq (es_bus s) \<noteq> - 1" and "length (channel (es_id s) (es_bus s)) < 128"
  shows "quiet_inv since s0 (s\<lparr>es_bus := Publish t c d now (es_bus s)\<rparr>)"
proof -
  let ?b = "es_bus s" and ?e = "\<lparr>ev_Seq = bus_seq (es_bus s) + 1, ev_Type = t, ev_ConfigID = c, ev_TS = now, ev_Data = d\<rparr>"
  let ?s = "s\<lparr>es_bus := Publish t c d now (es_bus s)\<rparr>" and ?n = "unat (bus_seq (es_bus s0))"
  obtain x where x: "ours s = Some x" "sub_filter x = None" "sub_cap x = 128"
    using assms(1) by (auto simp: quiet_inv_def Let_def)
  obtain rep where rep: "map num (es_sent s @ to_replay s @ channel (es_id s) ?b) = rep @ [Suc ?n..<Suc (unat (bus_seq ?b))]"
    "replay_shape since (bus_ringCap (es_bus s0)) ?n (unat (bus_seq ?b)) (replayed_yet s) rep"
    using assms(1) by (auto simp: quiet_inv_def Let_def)
  have seq: "unat (bus_seq ?b + 1) = Suc (unat (bus_seq ?b))"
    using assms(2) by (rule unat_Suc_no_wrap)
  have ch: "channel (es_id s) ?b = sub_ch x"
    using x(1) by (simp add: channel_def ours_def)
  have x': "ours ?s = Some (x\<lparr>sub_ch := sub_ch x @ [?e]\<rparr>)"
    using x assms(3) ch by (simp add: ours_def find_Publish deliver_one_def accepts_def)
  then have ch': "channel (es_id s) (es_bus ?s) = sub_ch x @ [?e]"
    by (simp add: channel_def ours_def)
  have frame: "to_replay ?s = to_replay s" "es_sent ?s = es_sent s" "es_id ?s = es_id s"
    by (simp_all add: to_replay_def)
  have "?n \<le> unat (bus_seq ?b)"
    using assms(1) by (simp add: quiet_inv_def Let_def)
  then have upt: "[Suc ?n..<Suc (Suc (unat (bus_seq ?b)))] = [Suc ?n..<Suc (unat (bus_seq ?b))] @ [Suc (unat (bus_seq ?b))]"
    by simp
  have seq': "unat (bus_seq (es_bus ?s)) = Suc (unat (bus_seq ?b))"
    by (simp add: seq)
  have "map num (es_sent s @ to_replay s @ sub_ch x @ [?e]) = map num (es_sent s @ to_replay s @ channel (es_id s) ?b) @ [num ?e]"
    by (simp add: ch)
  also have "\<dots> = rep @ [Suc ?n..<Suc (unat (bus_seq ?b))] @ [Suc (unat (bus_seq ?b))]"
    by (simp only: rep(1) append_assoc) (simp add: seq del: upt_Suc)
  finally have "map num (es_sent ?s @ to_replay ?s @ channel (es_id ?s) (es_bus ?s)) =
      rep @ [Suc ?n..<Suc (unat (bus_seq (es_bus ?s)))]"
    by (simp only: frame ch' seq' upt)
  moreover have "replay_shape since (bus_ringCap (es_bus s0)) ?n (unat (bus_seq (es_bus ?s))) (replayed_yet ?s) rep"
    using rep(2) by (auto simp: replay_shape_def replayed_yet_def seq intro: le_SucI split: if_splits)
  moreover have "ring_inv (es_bus ?s)"
    using assms by (simp add: quiet_inv_def Let_def Publish_ring_inv)
  moreover have "bus_nextSubID (Publish t c d now ?b) = bus_nextSubID ?b"
    by (simp add: Publish_def Let_def)
  ultimately show ?thesis
    using assms(1) x x' by (auto simp: quiet_inv_def Let_def seq)
qed

text \<open>Steps that leave the connection and its channel alone.\<close>

lemma quiet_frame:
  assumes "quiet_inv since s0 s" and "es_phase s' = es_phase s" and "es_sent s' = es_sent s" and "es_id s' = es_id s"
    and "bus_ring (es_bus s') = bus_ring (es_bus s)" and "bus_ringCap (es_bus s') = bus_ringCap (es_bus s)"
    and "bus_seq (es_bus s') = bus_seq (es_bus s)" and "bus_nextSubID (es_bus s) \<le> bus_nextSubID (es_bus s')"
    and "\<And>x. ours s = Some x \<Longrightarrow> \<exists>f. ours s' = Some (x\<lparr>sub_filter := f\<rparr>)"
    and "map_option sub_filter (ours s') = Some None"
  shows "quiet_inv since s0 s'"
proof -
  obtain x where x: "ours s = Some x" "sub_cap x = 128"
    using assms(1) by (auto simp: quiet_inv_def Let_def)
  then obtain f where x': "ours s' = Some (x\<lparr>sub_filter := f\<rparr>)"
    using assms(9) by blast
  have "channel (es_id s') (es_bus s') = channel (es_id s) (es_bus s)"
    using x(1) x' by (simp add: channel_def ours_def)
  moreover have "ring_inv (es_bus s') = ring_inv (es_bus s)"
    using assms by (simp add: ring_inv_def)
  moreover have "to_replay s' = to_replay s" "replayed_yet s' = replayed_yet s"
    using assms(2) by (simp_all add: to_replay_def replayed_yet_def)
  moreover have "es_id s \<le> bus_nextSubID (es_bus s')"
    using assms(1,8) by (auto simp: quiet_inv_def Let_def)
  ultimately show ?thesis
    using assms x x' by (simp add: quiet_inv_def Let_def del: upt_Suc)
qed

lemma window_replay:
  assumes "quiet_inv since s0 s" and "es_phase s = Subscribed since"
  shows "map num (if since > 0 then Since since (es_bus s) else []) =
    window since (bus_ringCap (es_bus s)) (unat (bus_seq (es_bus s)))"
  using assms Since_window [of "es_bus s" since]
  by (auto simp: window_def quiet_inv_def Let_def word_gt_0)

lemma quiet_replay:
  assumes "quiet_inv since s0 s" and "es_phase s = Subscribed since"
  shows "quiet_inv since s0 (s\<lparr>es_phase := (if since > 0 then Replaying (Since since (es_bus s)) else Live)\<rparr>)"
proof -
  let ?s = "s\<lparr>es_phase := (if since > 0 then Replaying (Since since (es_bus s)) else Live)\<rparr>"
  have now: "es_sent s = []" "to_replay s = []" "\<not> replayed_yet s" "replayed_yet ?s"
    using assms by (auto simp: quiet_inv_def Let_def to_replay_def replayed_yet_def)
  have "to_replay ?s = (if since > 0 then Since since (es_bus s) else [])"
    by (simp add: to_replay_def)
  then have r: "map num (to_replay ?s) = window since (bus_ringCap (es_bus s)) (unat (bus_seq (es_bus s)))"
    using window_replay [OF assms] by simp
  have "map num (channel (es_id s) (es_bus s)) = [Suc (unat (bus_seq (es_bus s0)))..<Suc (unat (bus_seq (es_bus s)))]"
    using assms(1) now by (simp add: quiet_inv_def replay_shape_def Let_def del: upt_Suc)
  with r now(1) have "map num (es_sent ?s @ to_replay ?s @ channel (es_id ?s) (es_bus ?s)) =
      window since (bus_ringCap (es_bus s)) (unat (bus_seq (es_bus s))) @
      [Suc (unat (bus_seq (es_bus s0)))..<Suc (unat (bus_seq (es_bus ?s)))]"
    by (simp del: upt_Suc)
  then show ?thesis
    using assms(1) now(4) by (auto simp: quiet_inv_def replay_shape_def Let_def ours_def simp del: upt_Suc)
qed

text \<open>Writing an event moves it from what is to be sent to what was sent.\<close>

lemma quiet_move:
  assumes "quiet_inv since s0 s" and "replayed_yet s" and "replayed_yet s'" and "es_id s' = es_id s"
    and "es_sent s' @ to_replay s' @ channel (es_id s) (es_bus s') = es_sent s @ to_replay s @ channel (es_id s) (es_bus s)"
    and "bus_ring (es_bus s') = bus_ring (es_bus s)" and "bus_ringCap (es_bus s') = bus_ringCap (es_bus s)"
    and "bus_seq (es_bus s') = bus_seq (es_bus s)" and "bus_nextSubID (es_bus s') = bus_nextSubID (es_bus s)"
    and "\<exists>x. ours s' = Some x \<and> sub_filter x = None \<and> sub_cap x = 128"
  shows "quiet_inv since s0 s'"
proof -
  have "\<forall>v. es_phase s' = Subscribed v \<longrightarrow> v = since \<and> es_sent s' = []"
    using assms(3) by (simp add: replayed_yet_def)
  moreover have "ring_inv (es_bus s') = ring_inv (es_bus s)"
    using assms by (simp add: ring_inv_def)
  ultimately show ?thesis
    using assms unfolding quiet_inv_def Let_def by (simp del: upt_Suc)
qed

lemma quiet_step:
  assumes "stream_step s s'" and "quiet_inv since s0 s" and "length (channel (es_id s) (es_bus s)) < 128"
    and "es_phase s' \<noteq> Closed" and "map_option sub_filter (ours s') = Some None"
  shows "quiet_inv since s0 s'"
  using assms(1)
proof cases
  case (publish t c d now)
  then show ?thesis using quiet_publish [OF assms(2) _ assms(3)] by simp
next
  case (joins f n)
  have le: "bus_nextSubID (es_bus s) < bus_nextSubID (es_bus s) + 1"
    using unat_Suc_no_wrap [OF joins(2)] by (simp add: word_less_nat_alt)
  have "es_id s \<noteq> bus_nextSubID (es_bus s) + 1"
    using assms(2) le by (auto simp: quiet_inv_def Let_def)
  then have same: "ours s' = ours s"
    using joins(1) by (simp add: ours_def find_Subscribe)
  have "\<exists>f. ours s' = Some (x\<lparr>sub_filter := f\<rparr>)" if "ours s = Some x" for x
    using that same by (intro exI [of _ "sub_filter x"]) simp
  then show ?thesis
    by (rule quiet_frame [OF assms(2), rotated -2])
      (use joins(1) le assms(5) in \<open>auto simp: Subscribe_def Let_def\<close>)
next
  case (reads i)
  have same: "ours s' = ours s"
    using reads by (auto simp: ours_def find_receive option.map_ident)
  have "\<exists>f. ours s' = Some (x\<lparr>sub_filter := f\<rparr>)" if "ours s = Some x" for x
    using that same by (intro exI [of _ "sub_filter x"]) simp
  then show ?thesis
    by (rule quiet_frame [OF assms(2), rotated -2]) (use reads(1) assms(5) in \<open>auto simp: receive_def\<close>)
next
  case (leaves i)
  have same: "ours s' = ours s"
    using leaves by (auto simp: ours_def bus_remove_def find_filter_other)
  have "\<exists>f. ours s' = Some (x\<lparr>sub_filter := f\<rparr>)" if "ours s = Some x" for x
    using that same by (intro exI [of _ "sub_filter x"]) simp
  then show ?thesis
    by (rule quiet_frame [OF assms(2), rotated -2]) (use leaves(1) assms(5) in \<open>auto simp: bus_remove_def\<close>)
next
  case (control msg)
  have "\<exists>f. ours s' = Some (x\<lparr>sub_filter := f\<rparr>)" if "ours s = Some x" for x
    using that control(1) find_readControl(2) by (simp add: ours_def)
  then show ?thesis
    by (rule quiet_frame [OF assms(2), rotated -2]) (use control(1) assms(5) in auto)
next
  case (replay v)
  moreover have "v = since"
    using assms(2) replay(2) by (simp add: quiet_inv_def Let_def)
  ultimately have "es_phase s = Subscribed since"
    and "s' = s\<lparr>es_phase := (if since > 0 then Replaying (Since since (es_bus s)) else Live)\<rparr>"
    by blast+
  then show ?thesis using quiet_replay [OF assms(2)] by blast
next
  case (resend e es)
  show ?thesis
    by (rule quiet_move [OF assms(2)])
      (use resend assms(2) in \<open>auto simp: replayed_yet_def to_replay_def ours_def quiet_inv_def Let_def simp del: upt_Suc\<close>)
next
  case replayed
  show ?thesis
    by (rule quiet_move [OF assms(2)])
      (use replayed assms(2) in \<open>auto simp: replayed_yet_def to_replay_def ours_def quiet_inv_def Let_def simp del: upt_Suc\<close>)
next
  case (live e es)
  obtain x where x: "ours s = Some x" "sub_filter x = None" "sub_cap x = 128"
    using assms(2) by (auto simp: quiet_inv_def Let_def)
  have ch: "sub_ch x = e # es"
    using live(3) x(1) by (simp add: channel_def ours_def)
  have x': "ours s' = Some (x\<lparr>sub_ch := es\<rparr>)"
    using x(1) ch live(1) by (simp add: ours_def find_receive)
  have "channel (es_id s) (es_bus s') = es"
    using x' live(1) by (simp add: channel_def ours_def)
  then show ?thesis
    by (intro quiet_move [OF assms(2)])
      (use live x x' in \<open>simp_all add: replayed_yet_def to_replay_def receive_def\<close>)
next
  case closed
  with assms(4) show ?thesis by simp
qed

lemma quiet_connect:
  assumes "ring_inv b" and "bus_nextSubID b \<noteq> - 1" and "parseFilter q = None"
  shows "quiet_inv (parseSince (q ''since'')) (connect q b) (connect q b)"
proof -
  let ?s = "connect q b" and ?i = "bus_nextSubID b + 1"
  let ?x = "\<lparr>sub_id = ?i, sub_ch = [], sub_cap = 128, sub_filter = None\<rparr>"
  have s: "?s = \<lparr>es_bus = b\<lparr>bus_nextSubID := ?i, bus_subs := filter (\<lambda>x. sub_id x \<noteq> ?i) (bus_subs b) @ [?x]\<rparr>,
      es_id = ?i, es_phase = Subscribed (parseSince (q ''since'')), es_sent = []\<rparr>"
    using assms(3) by (simp add: connect_def Subscribe_def Let_def)
  have "find (\<lambda>x. sub_id x = ?i) (filter (\<lambda>x. sub_id x \<noteq> ?i) xs @ [?x]) = Some ?x" for xs
    by (induction xs) simp_all
  then have x: "ours ?s = Some ?x"
    by (simp add: ours_def s)
  then have "channel (es_id ?s) (es_bus ?s) = []"
    by (simp add: channel_def ours_def)
  then show ?thesis
    using assms(1) x by (simp add: quiet_inv_def s replayed_yet_def to_replay_def replay_shape_def ring_inv_def Let_def)
qed

lemma quiet_run_inv:
  assumes "quiet_run s0 s" and "quiet_inv since s0 s0"
  shows "quiet_inv since s0 s"
  using assms(1)
proof (induction rule: quiet_run.induct)
  case opened
  show ?case by (rule assms(2))
next
  case (further s s')
  then show ?case by (meson quiet_step)
qed

section \<open>Property\<close>



end
