(* ===== verification/Spec2Isabelle.thy ===== *)
theory Spec2Isabelle
  imports NetcfgAPIProps UciBatchProps UciProps BackupAPIProps DdnsProps LogProps LogDialProps SpeedtestProps
    SettingsProps BrandingProps SelfUpdateProps BackupBrowseProps EventsProps
begin

text \<open>
  kwrt-net-manager: the network configuration core of a router manager

  The daemon keeps the configuration of an OpenWrt router (DHCP pools, static reservations, access
  lists, routes, policy rules, LAN and WAN interfaces, DNS, IPv6) and offers it over HTTP. Its core
  is \<open>internal/netcfg\<close>: a \<open>Service\<close> that validates a request, edits one collection of items with an
  id, saves the whole collection through a \<open>Backend\<close> and publishes an event on a bus. The backend
  either keeps a JSON file (\<open>storeBackend\<close>, for development) or projects the configuration into the
  files of OpenWrt with \<open>uci batch\<close> (\<open>uciBackend\<close>). Beside it stand the daemon's own settings
  (\<open>internal/store\<close>) and scheduled backups to remote storage (\<open>internal/backup\<close>). This development
  models these.

  Parts, in the order of the imports:

  \<^item> \<open>Prelude\<close>: errors (\<open>err\<close>), fallible pure code (\<open>err + 'a\<close>), and actions that thread a state
    (\<open>('s, 'a) act\<close>), with their laws. Error messages of the source are Chinese text; the model keeps
    one constructor application per message.
  \<^item> \<open>GoStrings\<close>, \<open>GoNet\<close>: the functions of the Go standard library the code calls (strings, strconv,
    unicode/utf8, net). Strings are byte lists. Upper and lower case outside ASCII is the parameter
    \<open>lib\<close> of \<open>Service\<close>.
  \<^item> \<open>Netutil\<close> (pkg/netutil): addresses as \<open>32 word\<close>, netmasks, MACs, pool offsets, lease lines, the
    vendor table (a parameter, it is a data file).
  \<^item> \<open>Types\<close> (types.go, iface_types.go, ipv6_types.go, dns_types.go): one record per struct, and the
    \<open>item\<close> view (id, enabled, managed) of the collections.
  \<^item> \<open>UciText\<close> (backend_uci.go, uciexec.go): parsing of \<open>uci show\<close> and \<open>ip route\<close> output and the
    conversions between uci options and the data model.
  \<^item> \<open>Validate\<close> (validate.go, policyrule.go, iface.go, ipv6_validate.go, dns_validate.go): every
    validator as a function to \<open>err + 'a\<close> that returns the normalised item, checks in source order.
  \<^item> \<open>EventBus\<close> (internal/eventbus): the bus, its subscriptions with bounded channels, and the ring
    of recent events; also a step relation in which publishers interleave at the critical sections.
  \<^item> \<open>Collection\<close>: the closures of the Service on a list of items, generic in the item, and their
    specification \<open>edit_map\<close> on the finite map from ids to items. Locale \<open>item_laws\<close>.
  \<^item> \<open>Backend\<close> (backend.go): the interface as a record of actions, the state of the Service
    (backend, bus, randomness, clock), and the read-edit-save-publish helpers. Locale \<open>coll_laws\<close>
    states what a collection needs of its backend; the contracts of all edits are proved in it.
  \<^item> \<open>FileStore\<close>: a document in a file that is replaced through a temporary file; the calls can fail
    or be interrupted. Shared by the state file and by meta.json.
  \<^item> \<open>StoreBackend\<close> (backend_store.go, iface_store.go, dns_store.go, ipv6_store.go): the backend that
    keeps a JSON file, seeding, migration, simulated runtime data. It interprets \<open>coll_laws\<close> for its
    eleven collections.
  \<^item> \<open>Service\<close>, \<open>ServiceIface\<close> (service.go, policyrule.go, iface.go, dns_service.go,
    ipv6_service.go): the methods of the Service over any backend.
  \<^item> \<open>ServiceProps\<close>, \<open>IfaceProps\<close>, \<open>ImportProps\<close>: what the Service guarantees.
  \<^item> \<open>UciText\<close>, \<open>UciRun\<close>: uci text, and the commands of a batch as data (\<open>ucmd\<close>) with the text they
    become. The machine is the parameter \<open>sys\<close>: running a program or reading a file is an arbitrary
    function of its state, so every answer of it is possible.
  \<^item> \<open>UciProject\<close>, \<open>UciApply\<close> (backend_uci.go): the projection of pools, reservations, access lists,
    routes and rules as functions to lists of commands, and \<open>apply\<close> as an action that asks the
    machine, runs the batches and reloads services. \<open>UciDNS\<close>, \<open>UciIPv6\<close>, \<open>UciIface\<close>, \<open>UciNic\<close>,
    \<open>UciRead\<close> do the same for the files they are named after. What \<open>json.Unmarshal\<close> makes of the
    output of ubus is the parameter \<open>jsons\<close>; the order in which Go iterates over a map is a parameter
    where it can be observed.
  \<^item> \<open>UciBackend\<close>: the uci backend as a record of actions; it interprets \<open>coll_laws\<close> for every
    collection, because each write saves the sidecar before it projects.
  \<^item> \<open>UciApplyProps\<close>, \<open>UciBatchProps\<close>, \<open>UciProps\<close>: which sections and options a batch touches, what is
    restored, how addresses are handed out, and where parts of the backend work against each other.
  \<^item> \<open>BackupModel\<close>, \<open>BackupPath\<close>, \<open>BackupSched\<close> (internal/backup): channels and schedules, the keys
    of objects and the pattern that recognises them (the regular expressions of the shape the code
    generates are interpreted as lists of literals and digit runs), one run with its retention over
    an arbitrary storage, and the scheduler as a system of steps of cron, API calls and jobs.
  \<^item> \<open>MetaStore\<close>, \<open>BackupAPI\<close> (store.go, api/backup.go, api/exportsource.go): meta.json and the
    handlers of the backup pages after decoding.
  \<^item> \<open>BackupPathProps\<close>, \<open>BackupSchedProps\<close>, \<open>BackupAPIProps\<close>: retention deletes only old objects of its
    own, one job per schedule, stopping, the invariant of the pages, export and import.

  A method of the Service holds its mutex from the read to the save, so one call is one action; the
  order of calls is the order in which they take the mutex. Pointers to structs that a method edits in
  place are values that are returned updated. Random ids come from the stream \<open>sv_rand\<close>, times from
  \<open>sv_clock\<close>. The search for a free address counts in \<open>32 word\<close> and is a \<open>partial_function\<close>, since it
  need not end; the search for a free IPv6 line name ends because each step uses up one of the
  finitely many names in use.

  Bounds: an exclude line of a pool expands to at most 1024 addresses (the constant of the source). The
  address search of the whitelist is a \<open>partial_function\<close> for the same reason as the one above.

  Not modelled: the HTTP layer apart from the backup pages (decoding, routing, authentication), views
  that only display (DNS cache statistics, counters of the IPv6 lines), the clients of S3 and WebDAV,
  the packages that run external programs or read the kernel (ddns, logcenter, logtail, speedtest,
  pkgmgr, selfupdate, conntrack, sysinfo) and the user interface.
\<close>

end
